(* ===== verification/Prelude.thy ===== *)
theory Prelude
  imports Main "HOL-Library.Multiset" "HOL-Library.List_Lexorder" "HOL-Library.Char_ord"
begin

text \<open>
  The vocabulary every component of the development shares: results of fallible code as a
  sum type with its bind and its monadic loops, the parts of JavaScript's standard library the
  sources lean on (safe integers, \<open>Array.prototype.sort\<close>, \<open>Set\<close> and \<open>Map\<close> built from a list) and
  the generic facts about them.  Strings are Isabelle's \<open>string\<close>, a list of 8-bit code units:
  the model covers JavaScript strings whose code units are below 256, and \<open><\<close> on them is the
  code-unit order of JavaScript's relational operators.
\<close>

section \<open>Collections of rules\<close>

named_theorems res_simps \<open>inversion of successful results\<close>
named_theorems tx_rules \<open>syntax-directed rules of the transaction logic\<close>
named_theorems keep_rules \<open>structural rules for what a transaction keeps\<close>
named_theorems query_defs \<open>definitions of the queries a proof may unfold\<close>

section \<open>Results\<close>

type_synonym instant = int
type_synonym minutes = int

abbreviation ok :: "'a \<Rightarrow> 'e + 'a" where "ok \<equiv> Inr"
abbreviation err :: "'e \<Rightarrow> 'e + 'a" where "err \<equiv> Inl"

definition bindR :: "'e + 'a \<Rightarrow> ('a \<Rightarrow> 'e + 'b) \<Rightarrow> 'e + 'b" where
  "bindR m f = (case m of Inl e \<Rightarrow> Inl e | Inr x \<Rightarrow> f x)"

text \<open>\<open>if (bad) throw e;\<close> is \<open>checkR (\<not> bad) e\<close>.\<close>

definition checkR :: "bool \<Rightarrow> 'e \<Rightarrow> 'e + unit" where
  "checkR b e = (if b then Inr () else Inl e)"

definition catchR :: "'e + 'a \<Rightarrow> 'f \<Rightarrow> 'f + 'a" where
  "catchR m f = (case m of Inl _ \<Rightarrow> Inl f | Inr x \<Rightarrow> Inr x)"

lemma bindR_simps [simp]:
  "bindR (Inl e) f = Inl e"
  "bindR (Inr x) f = f x"
  by (simp_all add: bindR_def)

lemma bindR_ok [res_simps]: "bindR m f = Inr y \<longleftrightarrow> (\<exists>x. m = Inr x \<and> f x = Inr y)"
  by (cases m) simp_all

lemma bindR_err: "bindR m f = Inl e \<longleftrightarrow> m = Inl e \<or> (\<exists>x. m = Inr x \<and> f x = Inl e)"
  by (cases m) simp_all

lemma bindR_cong [fundef_cong]:
  "m = m' \<Longrightarrow> (\<And>x. m' = Inr x \<Longrightarrow> f x = g x) \<Longrightarrow> bindR m f = bindR m' g"
  by (cases m') simp_all

lemma checkR_ok [res_simps]: "checkR b e = Inr u \<longleftrightarrow> b"
  by (simp add: checkR_def)

lemma checkR_err: "checkR b e = Inl e' \<longleftrightarrow> \<not> b \<and> e' = e"
  by (auto simp: checkR_def)

lemma checkR_simps [simp]: "checkR True e = Inr ()" "checkR False e = Inl e"
  by (simp_all add: checkR_def)

lemma catchR_ok [res_simps]: "catchR m f = Inr x \<longleftrightarrow> m = Inr x"
  by (cases m) (simp_all add: catchR_def)

lemma catchR_simps [simp]: "catchR (Inr x) f = Inr x" "catchR (Inl e) f = Inl f"
  by (simp_all add: catchR_def)

lemma catchR_err: "catchR m f = Inl g \<longleftrightarrow> (\<exists>e. m = Inl e) \<and> g = f"
  by (cases m) (auto simp: catchR_def)

text \<open>\<open>xs.map(f)\<close> where \<open>f\<close> may throw: left to right, stopping at the first exception.\<close>

fun mapR :: "('a \<Rightarrow> 'e + 'b) \<Rightarrow> 'a list \<Rightarrow> 'e + 'b list" where
  "mapR f [] = Inr []"
| "mapR f (x # xs) = bindR (f x) (\<lambda>y. bindR (mapR f xs) (\<lambda>ys. Inr (y # ys)))"

lemma mapR_ok [res_simps]: "mapR f xs = Inr ys \<longleftrightarrow> list_all2 (\<lambda>x y. f x = Inr y) xs ys"
proof (induction xs arbitrary: ys)
  case Nil
  show ?case by (cases ys) simp_all
next
  case (Cons x xs)
  show ?case by (cases ys) (auto simp: bindR_ok Cons.IH)
qed

lemma mapR_ok_length: "mapR f xs = Inr ys \<Longrightarrow> length ys = length xs"
  by (auto simp: mapR_ok dest: list_all2_lengthD)

lemma mapR_ok_nth: "mapR f xs = Inr ys \<Longrightarrow> i < length xs \<Longrightarrow> f (xs ! i) = Inr (ys ! i)"
  by (auto simp: mapR_ok dest: list_all2_nthD)

lemma mapR_ok_mem: "mapR f xs = Inr ys \<Longrightarrow> x \<in> set xs \<Longrightarrow> \<exists>y \<in> set ys. f x = Inr y"
  by (metis in_set_conv_nth mapR_ok_length mapR_ok_nth)

lemma mapR_ok_source: "mapR f xs = Inr ys \<Longrightarrow> y \<in> set ys \<Longrightarrow> \<exists>x \<in> set xs. f x = Inr y"
  by (metis in_set_conv_nth mapR_ok_length mapR_ok_nth)

lemma mapR_ok_ex: "(\<exists>ys. mapR f xs = Inr ys) \<longleftrightarrow> (\<forall>x \<in> set xs. \<exists>y. f x = Inr y)"
proof (induction xs)
  case (Cons x xs)
  then show ?case by (cases "f x"; cases "mapR f xs") simp_all
qed simp

lemma mapR_total: "(\<And>x. x \<in> set xs \<Longrightarrow> f x = Inr (g x)) \<Longrightarrow> mapR f xs = Inr (map g xs)"
  by (induction xs) auto

lemma mapR_total_iff: "mapR (\<lambda>x. Inr (g x)) xs = Inr (map g xs)"
  by (simp add: mapR_total)

lemma mapR_map_same:
  "mapR f xs = Inr ys \<Longrightarrow> (\<And>x y. x \<in> set xs \<Longrightarrow> f x = Inr y \<Longrightarrow> h y = k x) \<Longrightarrow> map h ys = map k xs"
  by (induction xs arbitrary: ys) (auto simp: bindR_ok)

lemma mapR_cong [fundef_cong]:
  "xs = ys \<Longrightarrow> (\<And>x. x \<in> set ys \<Longrightarrow> f x = g x) \<Longrightarrow> mapR f xs = mapR g ys"
  by (induction ys arbitrary: xs) auto

text \<open>\<open>for (const x of xs) if (bad x) throw e;\<close>\<close>

fun eachR :: "('a \<Rightarrow> 'e + unit) \<Rightarrow> 'a list \<Rightarrow> 'e + unit" where
  "eachR f [] = Inr ()"
| "eachR f (x # xs) = bindR (f x) (\<lambda>_. eachR f xs)"

lemma eachR_ok [res_simps]: "eachR f xs = Inr u \<longleftrightarrow> (\<forall>x \<in> set xs. f x = Inr ())"
  by (induction xs) (auto simp: bindR_ok)

lemma eachR_err: "eachR f xs = Inl e \<Longrightarrow> \<exists>x \<in> set xs. f x = Inl e"
  by (induction xs) (auto simp: bindR_err)

section \<open>Numbers\<close>

text \<open>
  \<open>Number.isSafeInteger\<close> on values that are whole numbers.  The numbers of the modelled code are
  counts, minutes and epoch milliseconds, all whole, so they are \<open>int\<close>.
\<close>

definition MAX_SAFE_INTEGER :: int where "MAX_SAFE_INTEGER = 9007199254740991"

definition isSafeInteger :: "int \<Rightarrow> bool" where
  "isSafeInteger n \<longleftrightarrow> - MAX_SAFE_INTEGER \<le> n \<and> n \<le> MAX_SAFE_INTEGER"

text \<open>\<open>Math.floor(ms / 60_000)\<close>.\<close>

definition floorMinutes :: "int \<Rightarrow> int" where
  "floorMinutes ms = ms div 60000"

lemma floorMinutes_bounds: "60000 * floorMinutes ms \<le> ms \<and> ms < 60000 * floorMinutes ms + 60000"
  unfolding floorMinutes_def by presburger

lemma floorMinutes_mono: "a \<le> b \<Longrightarrow> floorMinutes a \<le> floorMinutes b"
  unfolding floorMinutes_def by (rule zdiv_mono1) simp_all

section \<open>Sorting\<close>

text \<open>
  \<open>Array.prototype.sort\<close> is stable; for a comparator that is a total preorder its result is
  the only stable sorted permutation, which insertion from the right computes.  \<open>le a b\<close> stands
  for \<open>compare(a, b) <= 0\<close>.
\<close>

fun insortBy :: "('a \<Rightarrow> 'a \<Rightarrow> bool) \<Rightarrow> 'a \<Rightarrow> 'a list \<Rightarrow> 'a list" where
  "insortBy le x [] = [x]"
| "insortBy le x (y # ys) = (if le x y then x # y # ys else y # insortBy le x ys)"

definition sortBy :: "('a \<Rightarrow> 'a \<Rightarrow> bool) \<Rightarrow> 'a list \<Rightarrow> 'a list" where
  "sortBy le xs = foldr (insortBy le) xs []"

lemma sortBy_simps [simp]:
  "sortBy le [] = []"
  "sortBy le (x # xs) = insortBy le x (sortBy le xs)"
  by (simp_all add: sortBy_def)

lemma mset_insortBy: "mset (insortBy le x xs) = add_mset x (mset xs)"
  by (induction xs) auto

lemma mset_sortBy [simp]: "mset (sortBy le xs) = mset xs"
  by (induction xs) (simp_all add: mset_insortBy)

lemma set_sortBy [simp]: "set (sortBy le xs) = set xs"
  by (metis mset_sortBy set_mset_mset)

lemma length_sortBy [simp]: "length (sortBy le xs) = length xs"
  by (metis mset_sortBy size_mset)

lemma distinct_sortBy [simp]: "distinct (sortBy le xs) = distinct xs"
  by (metis mset_sortBy mset_eq_imp_distinct_iff)

lemma distinct_map_sortBy [simp]: "distinct (map f (sortBy le xs)) = distinct (map f xs)"
  by (metis mset_map mset_sortBy mset_eq_imp_distinct_iff)

lemma sum_list_map_mset:
  fixes g :: "'a \<Rightarrow> 'b::comm_monoid_add"
  shows "mset xs = mset ys \<Longrightarrow> sum_list (map g xs) = sum_list (map g ys)"
  by (metis mset_map sum_mset_sum_list)

lemma sum_list_sortBy [simp]:
  fixes g :: "'a \<Rightarrow> 'b::comm_monoid_add"
  shows "sum_list (map g (sortBy le xs)) = sum_list (map g xs)"
  by (rule sum_list_map_mset) simp

text \<open>The contract a comparator has to meet for sorting to be meaningful.\<close>

locale comparator =
  fixes le :: "'a \<Rightarrow> 'a \<Rightarrow> bool"
  assumes le_total: "le x y \<or> le y x"
    and le_trans: "le x y \<Longrightarrow> le y z \<Longrightarrow> le x z"
begin

lemma le_refl: "le x x"
  using le_total [of x x] by simp

lemma sorted_insortBy: "sorted_wrt le xs \<Longrightarrow> sorted_wrt le (insortBy le x xs)"
proof (induction xs)
  case Nil
  then show ?case by simp
next
  case (Cons y ys)
  have "set (insortBy le x ys) = insert x (set ys)"
    using mset_insortBy [of le x ys] by (metis set_mset_add_mset_insert set_mset_mset)
  moreover have "\<not> le x y \<Longrightarrow> le y x" using le_total by blast
  ultimately show ?case using Cons by (auto intro: le_trans)
qed

lemma sorted_sortBy: "sorted_wrt le (sortBy le xs)"
  by (induction xs) (simp_all add: sorted_insortBy)

lemma insortBy_first: "(\<forall>y \<in> set xs. le x y) \<Longrightarrow> insortBy le x xs = x # xs"
  by (cases xs) auto

lemma sortBy_of_sorted: "sorted_wrt le xs \<Longrightarrow> sortBy le xs = xs"
  by (induction xs) (simp_all add: insortBy_first)

lemma sortBy_idem: "sortBy le (sortBy le xs) = sortBy le xs"
  by (rule sortBy_of_sorted) (rule sorted_sortBy)

text \<open>When the comparator never ties on two different elements, the order of the input does not
  matter.\<close>

lemma sorted_unique:
  assumes "mset xs = mset ys" and "sorted_wrt le xs" and "sorted_wrt le ys"
    and "\<And>x y. x \<in> set xs \<Longrightarrow> y \<in> set xs \<Longrightarrow> le x y \<Longrightarrow> le y x \<Longrightarrow> x = y"
  shows "xs = ys"
  using assms
proof (induction xs arbitrary: ys)
  case Nil
  then show ?case by simp
next
  case (Cons x xs)
  then obtain y ys' where ys: "ys = y # ys'" by (cases ys) auto
  have mem: "set (x # xs) = set (y # ys')"
    using Cons.prems(1) ys by (metis set_mset_mset)
  then have "y \<in> set (x # xs)" and "x \<in> set (y # ys')" by auto
  then have "le x y" and "le y x"
    using Cons.prems(2,3) ys le_refl by auto
  then have "x = y" using Cons.prems(4) \<open>y \<in> set (x # xs)\<close> by auto
  moreover have "xs = ys'"
    using Cons ys \<open>x = y\<close> by auto
  ultimately show ?case using ys by simp
qed

lemma sortBy_perm:
  assumes "mset xs = mset ys"
    and "\<And>x y. x \<in> set xs \<Longrightarrow> y \<in> set xs \<Longrightarrow> le x y \<Longrightarrow> le y x \<Longrightarrow> x = y"
  shows "sortBy le xs = sortBy le ys"
  by (rule sorted_unique) (use assms sorted_sortBy in auto)

end

text \<open>The comparators of the sources: code-unit order, and lexicographic chains of comparators
  (\<open>a(l, r) || b(l, r)\<close>: the second decides where the first returns zero).\<close>

definition thenCompare :: "('a \<Rightarrow> 'a \<Rightarrow> bool) \<Rightarrow> ('a \<Rightarrow> 'a \<Rightarrow> bool) \<Rightarrow> 'a \<Rightarrow> 'a \<Rightarrow> bool" where
  "thenCompare a b x y \<longleftrightarrow> a x y \<and> (a y x \<longrightarrow> b x y)"

definition byKey :: "('a \<Rightarrow> 'k::linorder) \<Rightarrow> 'a \<Rightarrow> 'a \<Rightarrow> bool" where
  "byKey f x y \<longleftrightarrow> f x \<le> f y"

lemma comparator_byKey: "comparator (byKey f)"
  by unfold_locales (auto simp: byKey_def)

lemma comparator_thenCompare:
  assumes "comparator a" and "comparator b"
  shows "comparator (thenCompare a b)"
proof -
  note a = comparator.le_total [OF assms(1)] comparator.le_trans [OF assms(1)]
  note b = comparator.le_total [OF assms(2)] comparator.le_trans [OF assms(2)]
  show ?thesis
    by unfold_locales (unfold thenCompare_def, use a(1) b(1) in blast, use a(2) b(2) in blast)
qed

interpretation code_units: comparator "byKey (\<lambda>s :: string. s)"
  by (rule comparator_byKey)

section \<open>Sets and maps built from lists\<close>

text \<open>\<open>[...new Set(xs)]\<close> keeps the first occurrence of each element, in order.\<close>

definition jsSet :: "'a list \<Rightarrow> 'a list" where
  "jsSet xs = rev (remdups (rev xs))"

lemma set_jsSet [simp]: "set (jsSet xs) = set xs"
  by (simp add: jsSet_def)

lemma distinct_jsSet [simp]: "distinct (jsSet xs)"
  by (simp add: jsSet_def)

lemma length_jsSet: "length (jsSet xs) = card (set xs)"
  by (simp add: jsSet_def length_remdups_card_conv)

lemma jsSet_size_distinct: "length (jsSet xs) = length xs \<longleftrightarrow> distinct xs"
  by (metis card_distinct distinct_card length_jsSet)

text \<open>\<open>new Map(entries)\<close>: a later entry replaces an earlier one.\<close>

definition jsMap :: "('k \<times> 'v) list \<Rightarrow> 'k \<rightharpoonup> 'v" where
  "jsMap entries = map_of (rev entries)"

lemma jsMap_SomeD: "jsMap entries k = Some v \<Longrightarrow> (k, v) \<in> set entries"
  by (auto simp: jsMap_def dest: map_of_SomeD)

lemma jsMap_None: "jsMap entries k = None \<longleftrightarrow> k \<notin> fst ` set entries"
  by (simp add: jsMap_def map_of_eq_None_iff)

lemma jsMap_distinct:
  "distinct (map fst entries) \<Longrightarrow> (k, v) \<in> set entries \<Longrightarrow> jsMap entries k = Some v"
  by (simp add: jsMap_def rev_map [symmetric])

lemma find_SomeD: "find P xs = Some x \<Longrightarrow> x \<in> set xs \<and> P x"
  by (auto simp: find_Some_iff)

lemma find_NoneD: "find P xs = None \<Longrightarrow> x \<in> set xs \<Longrightarrow> \<not> P x"
  by (auto simp: find_None_iff)

lemma in_set_enumerate_nth: "(i, x) \<in> set (enumerate 0 xs) \<longleftrightarrow> i < length xs \<and> xs ! i = x"
  by (auto simp: in_set_enumerate_eq)

end
