(* ===== verification/JsText.thy ===== *)
theory JsText
  imports Prelude
begin

text \<open>
  JavaScript strings as the sources use them: \<open>trim\<close>, the character classes of their regular
  expressions, decimal text of numbers and its inverse \<open>Number(text)\<close>, fixed-width decimal
  fields, and the UUID and digest patterns.
\<close>

section \<open>Characters\<close>

definition codeUnit :: "char \<Rightarrow> nat" where
  "codeUnit c = of_char c"

text \<open>White space and line terminators below 256, as \<open>String.prototype.trim\<close> removes them.\<close>

definition isJsSpace :: "char \<Rightarrow> bool" where
  "isJsSpace c \<longleftrightarrow> codeUnit c \<in> {9, 10, 11, 12, 13, 32, 160}"

definition isDigit :: "char \<Rightarrow> bool" where
  "isDigit c \<longleftrightarrow> 48 \<le> codeUnit c \<and> codeUnit c \<le> 57"

definition isLowerHex :: "char \<Rightarrow> bool" where
  "isLowerHex c \<longleftrightarrow> isDigit c \<or> (97 \<le> codeUnit c \<and> codeUnit c \<le> 102)"

definition isHex :: "char \<Rightarrow> bool" where
  "isHex c \<longleftrightarrow> isLowerHex c \<or> (65 \<le> codeUnit c \<and> codeUnit c \<le> 70)"

definition isPrintable :: "char \<Rightarrow> bool" where
  "isPrintable c \<longleftrightarrow> 32 \<le> codeUnit c \<and> codeUnit c \<le> 126"

definition isControl :: "char \<Rightarrow> bool" where
  "isControl c \<longleftrightarrow> codeUnit c \<le> 31 \<or> codeUnit c = 127"

section \<open>Trimming\<close>

definition trim :: "string \<Rightarrow> string" where
  "trim s = rev (dropWhile isJsSpace (rev (dropWhile isJsSpace s)))"

lemma dropWhile_keep: "xs \<noteq> [] \<Longrightarrow> \<not> P (hd xs) \<Longrightarrow> dropWhile P xs = xs"
  by (cases xs) auto

lemma hd_dropWhile_suffix:
  "dropWhile P xs \<noteq> [] \<Longrightarrow> \<not> P (hd (dropWhile P xs))"
  by (induction xs) auto

lemma trim_eq_self:
  "s = [] \<or> (\<not> isJsSpace (hd s) \<and> \<not> isJsSpace (last s)) \<Longrightarrow> trim s = s"
proof (cases "s = []")
  case True
  then show ?thesis by (simp add: trim_def)
next
  case False
  assume "s = [] \<or> (\<not> isJsSpace (hd s) \<and> \<not> isJsSpace (last s))"
  with False have "dropWhile isJsSpace s = s" and "dropWhile isJsSpace (rev s) = rev s"
    by (simp_all add: dropWhile_keep hd_rev)
  then show ?thesis by (simp add: trim_def)
qed

lemma trim_ends:
  assumes "trim s \<noteq> []"
  shows "\<not> isJsSpace (hd (trim s))" and "\<not> isJsSpace (last (trim s))"
proof -
  let ?a = "dropWhile isJsSpace s"
  let ?b = "dropWhile isJsSpace (rev ?a)"
  have ne: "?b \<noteq> []" using assms by (simp add: trim_def)
  then have "\<not> isJsSpace (hd ?b)" by (rule hd_dropWhile_suffix)
  then show "\<not> isJsSpace (last (trim s))" using ne by (simp add: trim_def last_rev)
  have a: "?a \<noteq> []" using ne by (metis dropWhile.simps(1) rev.simps(1))
  obtain pre where "rev ?a = pre @ ?b" by (metis takeWhile_dropWhile_id)
  then have "?a = rev ?b @ rev pre" by (metis rev_append rev_rev_ident)
  then have "hd ?a = hd (rev ?b)" using ne by (metis hd_append2 rev_is_Nil_conv)
  then show "\<not> isJsSpace (hd (trim s))"
    using hd_dropWhile_suffix [OF a] by (simp add: trim_def)
qed

lemma trim_idem [simp]: "trim (trim s) = trim s"
  by (rule trim_eq_self) (use trim_ends in blast)

lemma set_trim: "set (trim s) \<subseteq> set s"
  by (auto simp: trim_def dest!: set_dropWhileD)

section \<open>Decimal text\<close>

definition digitValue :: "char \<Rightarrow> nat" where
  "digitValue c = codeUnit c - 48"

definition digitChar :: "nat \<Rightarrow> char" where
  "digitChar n = char_of (48 + n)"

lemma codeUnit_digitChar [simp]: "n < 10 \<Longrightarrow> codeUnit (digitChar n) = 48 + n"
  by (simp add: codeUnit_def digitChar_def)

lemma isDigit_digitChar [simp]: "n < 10 \<Longrightarrow> isDigit (digitChar n)"
  by (simp add: isDigit_def)

lemma digitValue_digitChar [simp]: "n < 10 \<Longrightarrow> digitValue (digitChar n) = n"
  by (simp add: digitValue_def)

lemma digitChar_digitValue [simp]: "isDigit c \<Longrightarrow> digitChar (digitValue c) = c"
  by (simp add: isDigit_def digitChar_def digitValue_def codeUnit_def)

lemma digitValue_less [simp]: "isDigit c \<Longrightarrow> digitValue c < 10"
  unfolding isDigit_def digitValue_def by linarith

text \<open>\<open>/^[0-9]+$/\<close> and \<open>Number(text)\<close> on such a text.\<close>

definition isDigits :: "string \<Rightarrow> bool" where
  "isDigits s \<longleftrightarrow> s \<noteq> [] \<and> list_all isDigit s"

definition digitsValue :: "string \<Rightarrow> nat" where
  "digitsValue s = foldl (\<lambda>n c. 10 * n + digitValue c) 0 s"

lemma digitsValue_Nil [simp]: "digitsValue [] = 0"
  by (simp add: digitsValue_def)

lemma digitsValue_snoc [simp]: "digitsValue (s @ [c]) = 10 * digitsValue s + digitValue c"
  by (simp add: digitsValue_def)

text \<open>A field of \<open>k\<close> decimal digits, as \<open>String(n).padStart(k, '0')\<close> prints \<open>n < 10 ^ k\<close>.\<close>

fun fixedDigits :: "nat \<Rightarrow> int \<Rightarrow> string" where
  "fixedDigits 0 n = []"
| "fixedDigits (Suc k) n = fixedDigits k (n div 10) @ [digitChar (nat (n mod 10))]"

lemma nat_mod_10 [simp]: "nat (n mod 10) < 10"
  by (simp add: nat_less_iff)

lemma length_fixedDigits [simp]: "length (fixedDigits k n) = k"
  by (induction k arbitrary: n) simp_all

lemma isDigit_fixedDigits: "list_all isDigit (fixedDigits k n)"
  by (induction k arbitrary: n) simp_all

lemma digitsValue_fixedDigits: "0 \<le> n \<Longrightarrow> n < 10 ^ k \<Longrightarrow> int (digitsValue (fixedDigits k n)) = n"
proof (induction k arbitrary: n)
  case 0
  then show ?case by simp
next
  case (Suc k)
  then have "0 \<le> n div 10" "n div 10 < 10 ^ k"
    by (simp_all add: pos_imp_zdiv_nonneg_iff div_less_iff_less_mult mult.commute)
  then have "int (digitsValue (fixedDigits k (n div 10))) = n div 10" by (rule Suc.IH)
  then show ?case by simp
qed

lemma fixedDigits_digitsValue:
  "list_all isDigit s \<Longrightarrow> length s = k \<Longrightarrow> fixedDigits k (int (digitsValue s)) = s"
proof (induction s arbitrary: k rule: rev_induct)
  case Nil
  then show ?case by simp
next
  case (snoc c s)
  then obtain j where k: "k = Suc j" "j = length s" by simp
  have c: "digitValue c < 10" "isDigit c" using snoc.prems by simp_all
  have "int (digitsValue (s @ [c])) div 10 = int (digitsValue s)" "int (digitsValue (s @ [c])) mod 10 = int (digitValue c)"
    using c(1) by simp_all
  then show ?case using snoc k c(2) by simp
qed

lemma digitsValue_less: "list_all isDigit s \<Longrightarrow> digitsValue s < 10 ^ length s"
proof (induction s rule: rev_induct)
  case Nil
  then show ?case by simp
next
  case (snoc c s)
  then have "digitsValue s + 1 \<le> 10 ^ length s" and "digitValue c < 10" by simp_all
  then have "10 * digitsValue s + digitValue c < 10 * 10 ^ length s" by linarith
  then show ?case by simp
qed

text \<open>\<open>String(n)\<close> for whole numbers.\<close>

function showNat :: "int \<Rightarrow> string" where
  "showNat n = (if n < 10 then [digitChar (nat n)] else showNat (n div 10) @ [digitChar (nat (n mod 10))])"
  by auto

termination showNat
  by (relation "measure nat") auto

declare showNat.simps [simp del]

definition showInt :: "int \<Rightarrow> string" where
  "showInt n = (if n < 0 then CHR ''-'' # showNat (- n) else showNat n)"

lemma showNat_digits: "0 \<le> n \<Longrightarrow> isDigits (showNat n) \<and> int (digitsValue (showNat n)) = n"
proof (induction n rule: showNat.induct)
  case (1 n)
  show ?case
  proof (cases "n < 10")
    case True
    then have "nat n < 10" using "1.prems" by simp
    then show ?thesis using True "1.prems" by (simp add: showNat.simps [of n] isDigits_def digitsValue_def)
  next
    case False
    with "1.IH" have "isDigits (showNat (n div 10))" and "int (digitsValue (showNat (n div 10))) = n div 10"
      by auto
    with False show ?thesis by (simp add: showNat.simps [of n] isDigits_def)
  qed
qed

lemma showNat_not_minus: "0 \<le> n \<Longrightarrow> CHR ''-'' \<notin> set (showNat n)"
proof
  assume "0 \<le> n" "CHR ''-'' \<in> set (showNat n)"
  then have "isDigit (CHR ''-'')"
    using showNat_digits [of n] by (auto simp: isDigits_def list_all_iff)
  then show False by (simp add: isDigit_def codeUnit_def)
qed

lemma showNat_inj: "0 \<le> m \<Longrightarrow> 0 \<le> n \<Longrightarrow> showNat m = showNat n \<Longrightarrow> m = n"
  by (metis showNat_digits)

lemma showInt_inj: "showInt m = showInt n \<Longrightarrow> m = n"
proof -
  assume eq: "showInt m = showInt n"
  have sign: "CHR ''-'' \<in> set (showInt k) \<longleftrightarrow> k < 0" for k
    using showNat_not_minus [of k] by (auto simp: showInt_def)
  then have "m < 0 \<longleftrightarrow> n < 0" using eq by metis
  then show ?thesis
    using eq showNat_inj [of m n] showNat_inj [of "- m" "- n"] by (auto simp: showInt_def split: if_splits)
qed

section \<open>Patterns\<close>

text \<open>\<open>/^[a-f0-9]{64}$/\<close>.\<close>

definition isDigest :: "string \<Rightarrow> bool" where
  "isDigest s \<longleftrightarrow> length s = 64 \<and> list_all isLowerHex s"

text \<open>
  \<open>/^[0-9a-f]{8}-[0-9a-f]{4}-[1-8][0-9a-f]{3}-[89ab][0-9a-f]{3}-[0-9a-f]{12}$/i\<close>.
\<close>

definition isUuid :: "string \<Rightarrow> bool" where
  "isUuid s \<longleftrightarrow> length s = 36
     \<and> list_all (\<lambda>i. s ! i = CHR ''-'') [8, 13, 18, 23]
     \<and> list_all (\<lambda>i. i \<in> {8, 13, 18, 23} \<or> isHex (s ! i)) [0..<36]
     \<and> 49 \<le> codeUnit (s ! 14) \<and> codeUnit (s ! 14) \<le> 56
     \<and> s ! 19 \<in> set ''89abAB''"

end
