(* ===== verification/JsDate.thy ===== *)
theory JsDate
  imports JsText
begin

text \<open>
  JavaScript dates: the calendar arithmetic of ECMAScript's \<open>Date\<close> (sec. 21.4.1) on epoch
  milliseconds, \<open>Date.UTC\<close>, \<open>getUTC*\<close>, \<open>toISOString\<close> and the parsing of ISO instants.  A valid
  \<open>Date\<close> is its epoch milliseconds, an \<open>int\<close>; \<open>jsdate\<close> adds the invalid date (\<open>NaN\<close>) as \<open>None\<close>.
  The lemmas show that the calendar functions are inverse to each other, which every statement
  about payroll dates rests on.
\<close>

type_synonym jsdate = "instant option"

section \<open>The proleptic Gregorian calendar\<close>

definition msPerDay :: int where "msPerDay = 86400000"

definition dayFromYear :: "int \<Rightarrow> int" where
  "dayFromYear y = 365 * (y - 1970) + (y - 1969) div 4 - (y - 1901) div 100 + (y - 1601) div 400"

definition leapYear :: "int \<Rightarrow> bool" where
  "leapYear y \<longleftrightarrow> y mod 4 = 0 \<and> (y mod 100 \<noteq> 0 \<or> y mod 400 = 0)"

text \<open>Days of the year before month \<open>m\<close>, counted from 0.\<close>

definition daysBeforeMonth :: "bool \<Rightarrow> int \<Rightarrow> int" where
  "daysBeforeMonth leap m =
     (if m \<le> 0 then 0 else if m = 1 then 31
      else (if leap then 1 else 0) +
        (if m = 2 then 59 else if m = 3 then 90 else if m = 4 then 120 else if m = 5 then 151
         else if m = 6 then 181 else if m = 7 then 212 else if m = 8 then 243 else if m = 9 then 273
         else if m = 10 then 304 else if m = 11 then 334 else 365))"

definition daysInMonth :: "int \<Rightarrow> int \<Rightarrow> int" where
  "daysInMonth y m = daysBeforeMonth (leapYear y) m - daysBeforeMonth (leapYear y) (m - 1)"

definition yearFromDay :: "int \<Rightarrow> int" where
  "yearFromDay d =
     (let y = 1970 + (400 * d) div 146097
      in if d < dayFromYear y then y - 1 else if dayFromYear (y + 1) \<le> d then y + 1 else y)"

definition monthFromDayOfYear :: "bool \<Rightarrow> int \<Rightarrow> int" where
  "monthFromDayOfYear leap n =
     (let l = (if leap then 1 else 0)
      in if n < 31 then 0 else if n < 59 + l then 1 else if n < 90 + l then 2
         else if n < 120 + l then 3 else if n < 151 + l then 4 else if n < 181 + l then 5
         else if n < 212 + l then 6 else if n < 243 + l then 7 else if n < 273 + l then 8
         else if n < 304 + l then 9 else if n < 334 + l then 10 else 11)"

text \<open>The calendar date of a day number, its month counted from 1, and the day number of a date.\<close>

definition dateOfDay :: "int \<Rightarrow> int \<times> int \<times> int" where
  "dateOfDay d =
     (let y = yearFromDay d; n = d - dayFromYear y; m = monthFromDayOfYear (leapYear y) n
      in (y, m + 1, n - daysBeforeMonth (leapYear y) m + 1))"

definition dayOfDate :: "int \<Rightarrow> int \<Rightarrow> int \<Rightarrow> int" where
  "dayOfDate y m d = dayFromYear y + daysBeforeMonth (leapYear y) (m - 1) + d - 1"

definition validDate :: "int \<Rightarrow> int \<Rightarrow> int \<Rightarrow> bool" where
  "validDate y m d \<longleftrightarrow> 1 \<le> m \<and> m \<le> 12 \<and> 1 \<le> d \<and> d \<le> daysInMonth y m"

lemma div_bounds:
  fixes x k :: int
  assumes "0 < k"
  shows "k * (x div k) \<le> x" and "x < k * (x div k) + k"
proof -
  have "x = k * (x div k) + x mod k" by simp
  moreover have "0 \<le> x mod k" "x mod k < k" using assms by simp_all
  ultimately show "k * (x div k) \<le> x" "x < k * (x div k) + k" by linarith+
qed

lemma div_succ:
  fixes x k :: int
  assumes "0 < k"
  shows "(x + 1) div k = x div k + (if (x + 1) mod k = 0 then 1 else 0)"
proof (cases "x mod k + 1 = k")
  case True
  have "k * (x div k) + x mod k = x" by simp
  then have "x + 1 = k * (x div k) + k" using True by linarith
  then have "x + 1 = k * (x div k + 1)" by (simp add: distrib_left)
  then show ?thesis using assms by simp
next
  case False
  have r: "0 \<le> x mod k + 1" "x mod k + 1 < k"
    using False assms pos_mod_bound [of k x] pos_mod_sign [of k x] by linarith+
  have x: "x + 1 = k * (x div k) + (x mod k + 1)" by simp
  have "(x + 1) div k = x div k" "(x + 1) mod k = x mod k + 1"
    using int_div_pos_eq [OF x r] int_mod_pos_eq [OF x r] .
  moreover have "x mod k + 1 \<noteq> 0" using pos_mod_sign [of k x] assms by linarith
  ultimately show ?thesis by simp
qed

lemma mod_shift:
  fixes y k :: int
  shows "(y - c * k) mod k = y mod k"
  by (metis diff_conv_add_uminus minus_mult_left mod_mult_self1)

lemma dayFromYear_step: "dayFromYear (y + 1) = dayFromYear y + (if leapYear y then 366 else 365)"
proof -
  have a: "(y + 1 - 1969) div 4 = (y - 1969) div 4 + (if y mod 4 = 0 then 1 else 0)"
    using div_succ [of 4 "y - 1969"] mod_shift [of y 492 4] by simp
  have b: "(y + 1 - 1901) div 100 = (y - 1901) div 100 + (if y mod 100 = 0 then 1 else 0)"
    using div_succ [of 100 "y - 1901"] mod_shift [of y 19 100] by simp
  have c: "(y + 1 - 1601) div 400 = (y - 1601) div 400 + (if y mod 400 = 0 then 1 else 0)"
    using div_succ [of 400 "y - 1601"] mod_shift [of y 4 400] by simp
  have d: "y mod 400 = 0 \<Longrightarrow> y mod 100 = 0" "y mod 100 = 0 \<Longrightarrow> y mod 4 = 0"
    using dvd_trans [of 100 400 y] dvd_trans [of 4 100 y] by (auto simp: dvd_eq_mod_eq_0)
  show ?thesis
    unfolding dayFromYear_def a b c leapYear_def
    by (cases "y mod 4 = 0"; cases "y mod 100 = 0"; cases "y mod 400 = 0") (use d in \<open>simp_all add: algebra_simps\<close>)
qed

lemma dayFromYear_step_bounds: "dayFromYear y + 365 \<le> dayFromYear (y + 1)"
  by (simp add: dayFromYear_step)

lemma dayFromYear_plus: "dayFromYear y + 365 * int n \<le> dayFromYear (y + int n)"
proof (induction n)
  case 0
  then show ?case by simp
next
  case (Suc n)
  then show ?case using dayFromYear_step_bounds [of "y + int n"] by (simp add: algebra_simps)
qed

lemma dayFromYear_mono: "y < z \<Longrightarrow> dayFromYear y < dayFromYear z"
proof -
  assume "y < z"
  then obtain n where "z = y + int n" and "0 < n" by (metis zless_iff_Suc_zadd zero_less_Suc)
  then show ?thesis using dayFromYear_plus [of y n] by simp
qed

lemma dayFromYear_le: "dayFromYear y \<le> dayFromYear z \<longleftrightarrow> y \<le> z"
  using dayFromYear_mono by (metis linorder_le_less_linear linorder_not_le order_le_less)

lemma year_estimate_lower:
  fixes a b c q d :: int
  assumes "4 * a \<le> q" "q + 68 < 100 * b + 100" "400 * c \<le> q + 368" "146097 * q \<le> 400 * d"
  shows "365 * (q - 1) + a - b + c \<le> d"
proof -
  have "400 * a \<le> 100 * q" "- 400 * b \<le> - 4 * q + 128" using assms by linarith+
  then have "146000 * q - 146000 + 400 * a - 400 * b + 400 * c \<le> 400 * d" using assms(3,4) by linarith
  then have "400 * (365 * (q - 1) + a - b + c) \<le> 400 * d" by (simp add: algebra_simps)
  then show ?thesis by (simp only: mult_le_cancel_left_pos zero_less_numeral)
qed

lemma year_estimate_upper:
  fixes a b c q d :: int
  assumes "q + 3 < 4 * a + 4" "100 * b \<le> q + 71" "q + 371 < 400 * c + 400" "400 * d < 146097 * q + 146097"
  shows "d < 365 * (q + 2) + a - b + c"
proof -
  have "100 * q - 100 < 400 * a" "- 4 * q - 284 \<le> - 400 * b" using assms by linarith+
  then have "400 * d < 146000 * q + 292000 + 400 * a - 400 * b + 400 * c" using assms(3,4) by linarith
  then have "400 * d < 400 * (365 * (q + 2) + a - b + c)" by (simp add: algebra_simps)
  then show ?thesis by (simp only: mult_less_cancel_left_pos zero_less_numeral)
qed

lemma yearFromDay_bounds: "dayFromYear (yearFromDay d) \<le> d \<and> d < dayFromYear (yearFromDay d + 1)"
proof -
  define q where "q = (400 * d) div 146097"
  have q: "146097 * q \<le> 400 * d" "400 * d < 146097 * q + 146097"
    unfolding q_def using div_bounds [of 146097 "400 * d"] by simp_all
  have "365 * (q - 1) + q div 4 - (q + 68) div 100 + (q + 368) div 400 \<le> d"
    by (rule year_estimate_lower) (use div_bounds(1) [of 4 q] div_bounds(2) [of 100 "q + 68"]
      div_bounds(1) [of 400 "q + 368"] q in auto)
  then have lower: "dayFromYear (1970 + q - 1) \<le> d" by (simp add: dayFromYear_def algebra_simps)
  have "d < 365 * (q + 2) + (q + 3) div 4 - (q + 71) div 100 + (q + 371) div 400"
    by (rule year_estimate_upper) (use div_bounds(2) [of 4 "q + 3"] div_bounds(1) [of 100 "q + 71"]
      div_bounds(2) [of 400 "q + 371"] q in auto)
  then have upper: "d < dayFromYear (1970 + q + 2)" by (simp add: dayFromYear_def algebra_simps)
  have eqs: "1970 + q - 1 + 1 = 1970 + q" "1970 + q + 1 + 1 = 1970 + q + 2" by simp_all
  show ?thesis
    unfolding yearFromDay_def Let_def q_def [symmetric] using lower upper by (auto simp: eqs)
qed

lemma yearFromDay_unique: "dayFromYear y \<le> d \<Longrightarrow> d < dayFromYear (y + 1) \<Longrightarrow> yearFromDay d = y"
proof -
  assume "dayFromYear y \<le> d" "d < dayFromYear (y + 1)"
  then have "dayFromYear y < dayFromYear (yearFromDay d + 1)" "dayFromYear (yearFromDay d) < dayFromYear (y + 1)"
    using yearFromDay_bounds [of d] by linarith+
  then have "y < yearFromDay d + 1" "yearFromDay d < y + 1"
    using dayFromYear_le by (metis linorder_not_le)+
  then show ?thesis by simp
qed

lemma month_range: "0 \<le> monthFromDayOfYear leap n" "monthFromDayOfYear leap n \<le> 11"
  by (simp_all add: monthFromDayOfYear_def Let_def)

lemma month_bounds:
  assumes "0 \<le> n" and "n < (if leap then 366 else 365)"
  shows "daysBeforeMonth leap (monthFromDayOfYear leap n) \<le> n \<and>
    n < daysBeforeMonth leap (monthFromDayOfYear leap n + 1)"
  using assms
  by (cases leap)
    (simp_all add: monthFromDayOfYear_def Let_def if_distrib [of "daysBeforeMonth _"] daysBeforeMonth_def)

lemma month_cases:
  fixes m :: int
  assumes "1 \<le> m" and "m \<le> 12"
  shows "m = 1 \<or> m = 2 \<or> m = 3 \<or> m = 4 \<or> m = 5 \<or> m = 6 \<or> m = 7 \<or> m = 8 \<or> m = 9 \<or> m = 10 \<or> m = 11 \<or> m = 12"
  using assms by presburger

lemma month_unique:
  assumes "1 \<le> m" and "m \<le> 12" and "daysBeforeMonth leap (m - 1) \<le> n" and "n < daysBeforeMonth leap m"
  shows "monthFromDayOfYear leap n = m - 1"
  using month_cases [OF assms(1,2)] assms(3,4)
  unfolding monthFromDayOfYear_def daysBeforeMonth_def Let_def
  by (elim disjE) (simp_all split: if_splits)

lemma daysBeforeMonth_range:
  assumes "1 \<le> m" and "m \<le> 12"
  shows "0 \<le> daysBeforeMonth leap (m - 1) \<and> daysBeforeMonth leap m \<le> (if leap then 366 else 365)"
  using month_cases [OF assms] unfolding daysBeforeMonth_def by (elim disjE) simp_all

lemma daysInMonth_bounds:
  assumes "1 \<le> m" and "m \<le> 12"
  shows "28 \<le> daysInMonth y m \<and> daysInMonth y m \<le> 31"
  using month_cases [OF assms] unfolding daysInMonth_def daysBeforeMonth_def by (elim disjE) simp_all

text \<open>Day numbers and calendar dates determine each other.\<close>

lemma dateOfDay_dayOfDate: "validDate y m d \<Longrightarrow> dateOfDay (dayOfDate y m d) = (y, m, d)"
proof -
  assume v: "validDate y m d"
  let ?l = "leapYear y" and ?n = "daysBeforeMonth (leapYear y) (m - 1) + d - 1"
  have m: "1 \<le> m" "m \<le> 12" and d: "daysBeforeMonth ?l (m - 1) \<le> ?n" "?n < daysBeforeMonth ?l m"
    using v by (auto simp: validDate_def daysInMonth_def)
  have range: "0 \<le> ?n" "?n < (if ?l then 366 else 365)"
    using daysBeforeMonth_range [OF m, of ?l] d by (auto split: if_splits)
  have y: "yearFromDay (dayOfDate y m d) = y"
    by (rule yearFromDay_unique) (use range in \<open>auto simp: dayOfDate_def dayFromYear_step split: if_splits\<close>)
  have n: "dayOfDate y m d - dayFromYear y = ?n" by (simp add: dayOfDate_def)
  have mon: "monthFromDayOfYear ?l ?n = m - 1" by (rule month_unique) (use m d in auto)
  show ?thesis unfolding dateOfDay_def Let_def y n mon by simp
qed

lemma dateOfDay_valid:
  assumes "dateOfDay n = (y, m, d)"
  shows "validDate y m d" and "dayOfDate y m d = n"
proof -
  let ?y = "yearFromDay n" and ?r = "n - dayFromYear (yearFromDay n)"
  have r: "0 \<le> ?r" "?r < (if leapYear ?y then 366 else 365)"
    using yearFromDay_bounds [of n] dayFromYear_step [of ?y] by (auto split: if_splits)
  note b = month_bounds [OF r] month_range [of "leapYear ?y" ?r]
  show "validDate y m d" "dayOfDate y m d = n"
    using assms b by (auto simp: dateOfDay_def Let_def validDate_def daysInMonth_def dayOfDate_def)
qed

lemma dayOfDate_inj:
  "validDate y m d \<Longrightarrow> validDate y' m' d' \<Longrightarrow> dayOfDate y m d = dayOfDate y' m' d' \<Longrightarrow>
     y = y' \<and> m = m' \<and> d = d'"
  by (metis dateOfDay_dayOfDate prod.inject)

section \<open>\<open>Date.UTC\<close> and the UTC getters\<close>

text \<open>
  \<open>MakeDay\<close>: the month (from 0) may run over into other years and the day of the month is added
  as it is.  \<open>Date.UTC\<close> reads the years 0 to 99 as 1900 to 1999.
\<close>

definition makeDay :: "int \<Rightarrow> int \<Rightarrow> int \<Rightarrow> int" where
  "makeDay y m dt = (let ym = y + m div 12
     in dayFromYear ym + daysBeforeMonth (leapYear ym) (m mod 12) + dt - 1)"

definition dateUTC :: "int \<Rightarrow> int \<Rightarrow> int \<Rightarrow> int \<Rightarrow> int \<Rightarrow> int \<Rightarrow> instant" where
  "dateUTC y m dt h mi s =
     makeDay (if 0 \<le> y \<and> y \<le> 99 then 1900 + y else y) m dt * msPerDay
       + h * 3600000 + mi * 60000 + s * 1000"

definition dayOf :: "instant \<Rightarrow> int" where "dayOf t = t div msPerDay"

definition timeInDay :: "instant \<Rightarrow> int" where "timeInDay t = t mod msPerDay"

definition getUTCFullYear :: "instant \<Rightarrow> int" where "getUTCFullYear t = fst (dateOfDay (dayOf t))"

definition getUTCMonth :: "instant \<Rightarrow> int" where "getUTCMonth t = fst (snd (dateOfDay (dayOf t))) - 1"

definition getUTCDate :: "instant \<Rightarrow> int" where "getUTCDate t = snd (snd (dateOfDay (dayOf t)))"

lemma makeDay_valid: "1 \<le> m \<Longrightarrow> m \<le> 12 \<Longrightarrow> makeDay y (m - 1) dt = dayOfDate y m dt"
  by (simp add: makeDay_def dayOfDate_def Let_def)

lemma dayOf_midnight [simp]: "dayOf (n * msPerDay) = n"
  by (simp add: dayOf_def msPerDay_def)

lemma dateUTC_midnight:
  "1 \<le> m \<Longrightarrow> m \<le> 12 \<Longrightarrow> \<not> (0 \<le> y \<and> y \<le> 99) \<Longrightarrow> dateUTC y (m - 1) dt 0 0 0 = dayOfDate y m dt * msPerDay"
  by (auto simp: dateUTC_def makeDay_valid)

section \<open>\<open>toISOString\<close>\<close>

definition isoYear :: "int \<Rightarrow> string" where
  "isoYear y = (if 0 \<le> y \<and> y \<le> 9999 then fixedDigits 4 y
     else (if y < 0 then CHR ''-'' else CHR ''+'') # fixedDigits 6 \<bar>y\<bar>)"

definition isoDate :: "int \<Rightarrow> int \<Rightarrow> int \<Rightarrow> string" where
  "isoDate y m d = isoYear y @ ''-'' @ fixedDigits 2 m @ ''-'' @ fixedDigits 2 d"

definition isoTime :: "int \<Rightarrow> string" where
  "isoTime r = fixedDigits 2 (r div 3600000) @ '':'' @ fixedDigits 2 (r div 60000 mod 60) @ '':''
     @ fixedDigits 2 (r div 1000 mod 60) @ ''.'' @ fixedDigits 3 (r mod 1000) @ ''Z''"

definition toISOString :: "instant \<Rightarrow> string" where
  "toISOString t = (case dateOfDay (dayOf t) of (y, m, d) \<Rightarrow> isoDate y m d @ ''T'' @ isoTime (timeInDay t))"

text \<open>\<open>date.toISOString().slice(0, 10)\<close>.\<close>

definition isoDay :: "instant \<Rightarrow> string" where
  "isoDay t = take 10 (toISOString t)"

lemma length_isoDate: "0 \<le> y \<Longrightarrow> y \<le> 9999 \<Longrightarrow> length (isoDate y m d) = 10"
  by (simp add: isoDate_def isoYear_def)

lemma isoDay_midnight:
  assumes "validDate y m d" and "0 \<le> y" and "y \<le> 9999"
  shows "isoDay (dayOfDate y m d * msPerDay) = isoDate y m d"
  using assms by (simp add: isoDay_def toISOString_def dateOfDay_dayOfDate length_isoDate)

section \<open>Parsing date-only texts\<close>

text \<open>\<open>/^(\d{4})-(\d{2})-(\d{2})$/\<close> with its three groups read as numbers.\<close>

definition matchDateOnly :: "string \<Rightarrow> (int \<times> int \<times> int) option" where
  "matchDateOnly s =
     (if length s = 10 \<and> s ! 4 = CHR ''-'' \<and> s ! 7 = CHR ''-''
         \<and> list_all isDigit (take 4 s) \<and> list_all isDigit (take 2 (drop 5 s)) \<and> list_all isDigit (drop 8 s)
      then Some (int (digitsValue (take 4 s)), int (digitsValue (take 2 (drop 5 s))), int (digitsValue (drop 8 s)))
      else None)"

lemma matchDateOnly_isoDate:
  assumes "0 \<le> y" "y \<le> 9999" "0 \<le> m" "m \<le> 99" "0 \<le> d" "d \<le> 99"
  shows "matchDateOnly (isoDate y m d) = Some (y, m, d)"
proof -
  have len: "length (fixedDigits 4 y) = 4" "length (fixedDigits 2 m) = 2"
    "length (fixedDigits 2 d) = 2" by simp_all
  have "isoDate y m d = fixedDigits 4 y @ CHR ''-'' # fixedDigits 2 m @ CHR ''-'' # fixedDigits 2 d"
    using assms by (simp add: isoDate_def isoYear_def)
  moreover have "int (digitsValue (fixedDigits 4 y)) = y" "int (digitsValue (fixedDigits 2 m)) = m"
    "int (digitsValue (fixedDigits 2 d)) = d"
    using assms by (auto intro!: digitsValue_fixedDigits)
  ultimately show ?thesis
    using len by (simp add: matchDateOnly_def nth_append isDigit_fixedDigits del: fixedDigits.simps)
qed

lemma matchDateOnly_SomeD:
  assumes "matchDateOnly s = Some (y, m, d)"
  shows "s = isoDate y m d" and "0 \<le> y" "y \<le> 9999" "0 \<le> m" "m \<le> 99" "0 \<le> d" "d \<le> 99"
proof -
  from assms have len: "length s = 10" and sep: "s ! 4 = CHR ''-''" "s ! 7 = CHR ''-''"
    and dig: "list_all isDigit (take 4 s)" "list_all isDigit (take 2 (drop 5 s))" "list_all isDigit (drop 8 s)"
    and vals: "y = int (digitsValue (take 4 s))" "m = int (digitsValue (take 2 (drop 5 s)))"
      "d = int (digitsValue (drop 8 s))"
    by (auto simp: matchDateOnly_def split: if_splits)
  have b: "digitsValue (take 4 s) < 10 ^ 4" "digitsValue (take 2 (drop 5 s)) < 10 ^ 2" "digitsValue (drop 8 s) < 10 ^ 2"
    using digitsValue_less [OF dig(1)] digitsValue_less [OF dig(2)] digitsValue_less [OF dig(3)] len by simp_all
  then show "0 \<le> y" "y \<le> 9999" "0 \<le> m" "m \<le> 99" "0 \<le> d" "d \<le> 99" using vals by simp_all
  have f: "fixedDigits 4 y = take 4 s" "fixedDigits 2 m = take 2 (drop 5 s)" "fixedDigits 2 d = drop 8 s"
    unfolding vals using dig len by (intro fixedDigits_digitsValue; simp)+
  have "s = take 4 s @ s ! 4 # drop 5 s" "drop 5 s = take 2 (drop 5 s) @ s ! 7 # drop 8 s"
    using id_take_nth_drop [of 4 s] id_take_nth_drop [of 2 "drop 5 s"] len by simp_all
  then have "s = take 4 s @ s ! 4 # take 2 (drop 5 s) @ s ! 7 # drop 8 s" by metis
  then show "s = isoDate y m d"
    using sep \<open>0 \<le> y\<close> \<open>y \<le> 9999\<close> by (simp add: isoDate_def isoYear_def f)
qed

section \<open>Parsing instants\<close>

text \<open>
  \<open>new Date(text)\<close> on the date-time format of ECMAScript with seconds and the zone \<open>Z\<close>: a year of
  four digits or a sign and six, and at most three digits of fraction.  Like the engine the
  services run on, it lets the day of the month run up to 31 in every month (it flows over into the
  next one) and accepts \<open>24:00:00\<close>.  Any other text is \<open>None\<close> here; the sources compare what they
  parsed with \<open>toISOString\<close> or with a pattern, so no other text passes them whatever the engine
  makes of it.
\<close>

definition isTimeValue :: "instant \<Rightarrow> bool" where
  "isTimeValue t \<longleftrightarrow> \<bar>t\<bar> \<le> 8640000000000000"

definition isoFraction :: "string \<Rightarrow> int option" where
  "isoFraction f =
     (case f of [] \<Rightarrow> Some 0
      | c # ds \<Rightarrow> if c = CHR ''.'' \<and> ds \<noteq> [] \<and> length ds \<le> 3 \<and> list_all isDigit ds
                 then Some (int (digitsValue ds) * 10 ^ (3 - length ds)) else None)"

definition isoClock :: "string \<Rightarrow> int option" where
  "isoClock s =
     (let h = int (digitsValue (take 2 s)); mi = int (digitsValue (take 2 (drop 3 s)));
          sec = int (digitsValue (take 2 (drop 6 s)))
      in if 9 \<le> length s \<and> s ! 2 = CHR '':'' \<and> s ! 5 = CHR '':'' \<and> last s = CHR ''Z''
            \<and> list_all isDigit (take 2 s) \<and> list_all isDigit (take 2 (drop 3 s)) \<and> list_all isDigit (take 2 (drop 6 s))
         then (case isoFraction (butlast (drop 8 s)) of
                 None \<Rightarrow> None
               | Some ms \<Rightarrow>
                   if (h < 24 \<or> h = 24 \<and> mi = 0 \<and> sec = 0 \<and> ms = 0) \<and> mi < 60 \<and> sec < 60
                   then Some (h * 3600000 + mi * 60000 + sec * 1000 + ms) else None)
         else None)"

definition isoYearValue :: "string \<Rightarrow> int option" where
  "isoYearValue s =
     (if length s = 4 \<and> list_all isDigit s then Some (int (digitsValue s))
      else if length s = 7 \<and> list_all isDigit (tl s) \<and> hd s = CHR ''+'' then Some (int (digitsValue (tl s)))
      else if length s = 7 \<and> list_all isDigit (tl s) \<and> hd s = CHR ''-'' \<and> digitsValue (tl s) \<noteq> 0
      then Some (- int (digitsValue (tl s))) else None)"

definition dateParse :: "string \<Rightarrow> jsdate" where
  "dateParse s =
     (let n = (if take 1 s = ''+'' \<or> take 1 s = ''-'' then 7 else 4); r = drop n s;
          m = int (digitsValue (take 2 (drop 1 r))); d = int (digitsValue (take 2 (drop 4 r)))
      in if 7 \<le> length r \<and> r ! 0 = CHR ''-'' \<and> r ! 3 = CHR ''-'' \<and> r ! 6 = CHR ''T''
            \<and> list_all isDigit (take 2 (drop 1 r)) \<and> list_all isDigit (take 2 (drop 4 r))
            \<and> 1 \<le> m \<and> m \<le> 12 \<and> 1 \<le> d \<and> d \<le> 31
         then (case (isoYearValue (take n s), isoClock (drop 7 r)) of
                 (Some y, Some c) \<Rightarrow>
                   (let t = dayOfDate y m d * msPerDay + c in if isTimeValue t then Some t else None)
               | _ \<Rightarrow> None)
         else None)"

lemma length_isoTime [simp]: "length (isoTime r) = 13"
  by (simp add: isoTime_def)

lemma isoClock_isoTime:
  assumes "0 \<le> r" and "r < msPerDay"
  shows "isoClock (isoTime r) = Some r"
proof -
  define h where "h = r div 3600000"
  define mi where "mi = r div 60000 mod 60"
  define sec where "sec = r div 1000 mod 60"
  define ms where "ms = r mod 1000"
  have "r div 1000 div 60 = r div 60000" "r div 60000 div 60 = r div 3600000"
    by (simp_all add: zdiv_zmult2_eq [symmetric])
  then have p: "r = 1000 * (r div 1000) + ms" "r div 1000 = 60 * (r div 60000) + sec" "r div 60000 = 60 * h + mi"
    using mult_div_mod_eq [of 60 "r div 1000"] mult_div_mod_eq [of 60 "r div 60000"]
    by (simp_all add: h_def mi_def sec_def ms_def)
  then have r: "h * 3600000 + mi * 60000 + sec * 1000 + ms = r" by linarith
  have b: "0 \<le> h" "h < 24" "0 \<le> mi" "mi < 60" "0 \<le> sec" "sec < 60" "0 \<le> ms" "ms < 1000"
    using assms by (simp_all add: h_def mi_def sec_def ms_def msPerDay_def pos_imp_zdiv_nonneg_iff)
  have v: "int (digitsValue (fixedDigits 2 h)) = h" "int (digitsValue (fixedDigits 2 mi)) = mi"
    "int (digitsValue (fixedDigits 2 sec)) = sec" "int (digitsValue (fixedDigits 3 ms)) = ms"
    using b by (auto intro!: digitsValue_fixedDigits)
  have s: "isoTime r = fixedDigits 2 h @ CHR '':'' # fixedDigits 2 mi @ CHR '':'' # fixedDigits 2 sec
      @ CHR ''.'' # fixedDigits 3 ms @ ''Z''"
    by (simp add: isoTime_def h_def mi_def sec_def ms_def del: fixedDigits.simps)
  have ne: "fixedDigits 3 ms \<noteq> []" by (metis length_0_conv length_fixedDigits zero_neq_numeral)
  have f: "isoFraction (CHR ''.'' # fixedDigits 3 ms) = Some ms"
    using ne v by (simp add: isoFraction_def isDigit_fixedDigits del: fixedDigits.simps)
  show ?thesis
    unfolding isoClock_def s using b v f r
    by (simp add: Let_def nth_append isDigit_fixedDigits butlast_append del: fixedDigits.simps)
qed

lemma yearFromDay_range:
  assumes "\<bar>d\<bar> \<le> 100000000"
  shows "\<bar>yearFromDay d\<bar> \<le> 999999"
proof -
  have "dayFromYear (- 999999) \<le> - 100000000" "100000000 < dayFromYear 1000000"
    by (simp_all add: dayFromYear_def)
  then have "dayFromYear (- 999999) < dayFromYear (yearFromDay d + 1)" "dayFromYear (yearFromDay d) < dayFromYear 1000000"
    using yearFromDay_bounds [of d] assms by linarith+
  then have "- 999999 < yearFromDay d + 1" "yearFromDay d < 1000000"
    using dayFromYear_le by (metis linorder_not_le)+
  then show ?thesis by simp
qed

lemma isoYearValue_isoYear:
  assumes "\<bar>y\<bar> \<le> 999999"
  shows "isoYearValue (isoYear y) = Some y"
proof (cases "0 \<le> y \<and> y \<le> 9999")
  case True
  then have "int (digitsValue (fixedDigits 4 y)) = y" by (auto intro!: digitsValue_fixedDigits)
  then show ?thesis using True by (simp add: isoYearValue_def isoYear_def isDigit_fixedDigits del: fixedDigits.simps)
next
  case False
  have v: "int (digitsValue (fixedDigits 6 \<bar>y\<bar>)) = \<bar>y\<bar>" using assms by (intro digitsValue_fixedDigits) auto
  then have "y < 0 \<Longrightarrow> digitsValue (fixedDigits 6 \<bar>y\<bar>) \<noteq> 0" by (metis abs_0_eq less_irrefl of_nat_0)
  then show ?thesis
    using False v by (auto simp: isoYearValue_def isoYear_def isDigit_fixedDigits simp del: fixedDigits.simps)
qed

lemma fixedDigits_hd: "0 < k \<Longrightarrow> isDigit (hd (fixedDigits k n))"
  using isDigit_fixedDigits [of k n] by (metis hd_in_set length_0_conv length_fixedDigits list.pred_set neq0_conv)

lemma isoYear_take:
  "take 1 (isoYear y @ s) = ''+'' \<or> take 1 (isoYear y @ s) = ''-'' \<longleftrightarrow> \<not> (0 \<le> y \<and> y \<le> 9999)"
proof (cases "0 \<le> y \<and> y \<le> 9999")
  case True
  obtain c cs where c: "fixedDigits 4 y = c # cs" by (metis length_0_conv length_fixedDigits list.exhaust zero_neq_numeral)
  then have "isDigit c" using fixedDigits_hd [of 4 y] by simp
  then have "c \<noteq> CHR ''+''" "c \<noteq> CHR ''-''" by (auto simp: isDigit_def codeUnit_def)
  then show ?thesis using True c by (simp add: isoYear_def)
qed (auto simp: isoYear_def)

lemma dateParse_toISOString:
  assumes "isTimeValue t"
  shows "dateParse (toISOString t) = Some t"
proof -
  obtain y m d where ymd: "dateOfDay (dayOf t) = (y, m, d)" by (cases "dateOfDay (dayOf t)") auto
  have day: "dayOfDate y m d = dayOf t" and v: "validDate y m d" using dateOfDay_valid [OF ymd] by auto
  have "\<bar>dayOf t\<bar> \<le> 100000000" using assms by (simp add: isTimeValue_def dayOf_def msPerDay_def)
  then have y: "\<bar>y\<bar> \<le> 999999" using yearFromDay_range [of "dayOf t"] ymd by (auto simp: dateOfDay_def Let_def)
  have m: "1 \<le> m" "m \<le> 12" "1 \<le> d" "d \<le> 31"
    using v daysInMonth_bounds [of m y] by (auto simp: validDate_def)
  have dv: "int (digitsValue (fixedDigits 2 m)) = m" "int (digitsValue (fixedDigits 2 d)) = d"
    using m by (auto intro!: digitsValue_fixedDigits)
  have clock: "isoClock (isoTime (timeInDay t)) = Some (timeInDay t)"
    by (rule isoClock_isoTime) (simp_all add: timeInDay_def msPerDay_def)
  have t: "dayOfDate y m d * msPerDay + timeInDay t = t"
    by (simp add: day dayOf_def timeInDay_def)
  define rest where "rest = CHR ''-'' # fixedDigits 2 m @ CHR ''-'' # fixedDigits 2 d @ CHR ''T'' # isoTime (timeInDay t)"
  have s: "toISOString t = isoYear y @ rest"
    by (simp add: toISOString_def ymd isoDate_def rest_def del: fixedDigits.simps)
  define n :: nat where "n = (if take 1 (toISOString t) = ''+'' \<or> take 1 (toISOString t) = ''-'' then 7 else 4)"
  have "n = (if 0 \<le> y \<and> y \<le> 9999 then 4 else 7)" unfolding n_def s isoYear_take by simp
  then have split: "take n (toISOString t) = isoYear y" "drop n (toISOString t) = rest"
    by (auto simp: s isoYear_def simp del: fixedDigits.simps)
  have r: "7 \<le> length rest" "rest ! 0 = CHR ''-''" "rest ! 3 = CHR ''-''" "rest ! 6 = CHR ''T''"
    "take 2 (drop 1 rest) = fixedDigits 2 m" "take 2 (drop 4 rest) = fixedDigits 2 d"
    "drop 7 rest = isoTime (timeInDay t)"
    by (simp_all add: rest_def nth_append del: fixedDigits.simps)
  show ?thesis
    unfolding dateParse_def Let_def n_def [symmetric] split r(5-7) dv
    using m r(1-4) clock isoYearValue_isoYear [OF y] t assms by (simp add: isDigit_fixedDigits)
qed

lemma dateParse_valid: "dateParse s = Some t \<Longrightarrow> isTimeValue t"
  by (auto simp: dateParse_def Let_def split: if_splits option.splits)

lemma toISOString_inj: "isTimeValue s \<Longrightarrow> isTimeValue t \<Longrightarrow> toISOString s = toISOString t \<Longrightarrow> s = t"
  by (metis dateParse_toISOString option.inject)

end
