(* ===== verification/Json.thy ===== *)
theory Json
  imports JsDate
begin

text \<open>
  JSON values as the payroll code builds, stores and hashes them: the canonical form
  (\<open>payroll/domain.ts\<close>, \<open>canonicalJsonValue\<close>), \<open>JSON.stringify\<close> and the SHA-256 identity of a
  value.  SHA-256 and the collation behind \<open>localeCompare\<close> are parameters.  Numbers are whole, as
  everywhere in this development.  Member names are never decimal integers in the modelled code, so
  the order of the members of an object is the order of insertion.
\<close>

datatype json =
    JUndefined
  | JNull
  | JBool bool
  | JNum int
  | JStr string
  | JDate instant
  | JArr "json list"
  | JObj "(string \<times> json) list"

type_synonym collation = "string \<Rightarrow> string \<Rightarrow> bool"
type_synonym digest = "string \<Rightarrow> string"

definition nullable :: "('a \<Rightarrow> json) \<Rightarrow> 'a option \<Rightarrow> json" where
  "nullable f x = (case x of None \<Rightarrow> JNull | Some a \<Rightarrow> f a)"

abbreviation jInstant :: "instant \<Rightarrow> json" where "jInstant t \<equiv> JStr (toISOString t)"

text \<open>\<open>value[name]\<close> of an object.\<close>

definition member :: "string \<Rightarrow> json \<Rightarrow> json" where
  "member k j = (case j of JObj kvs \<Rightarrow> (case map_of kvs k of None \<Rightarrow> JUndefined | Some v \<Rightarrow> v) | _ \<Rightarrow> JUndefined)"

definition isObject :: "json \<Rightarrow> bool" where
  "isObject j = (case j of JObj _ \<Rightarrow> True | _ \<Rightarrow> False)"

section \<open>Canonical form\<close>

text \<open>The entries of an object that are not \<open>undefined\<close>, ordered by \<open>localeCompare\<close> of their names.\<close>

definition sortEntries :: "collation \<Rightarrow> (string \<times> json) list \<Rightarrow> (string \<times> json) list" where
  "sortEntries collate kvs = sortBy (\<lambda>l r. collate (fst l) (fst r)) (filter (\<lambda>(k, v). v \<noteq> JUndefined) kvs)"

lemma set_sortEntries: "set (sortEntries collate kvs) \<subseteq> set kvs"
  by (auto simp: sortEntries_def)

function canonicalJsonValue :: "collation \<Rightarrow> json \<Rightarrow> json" where
  "canonicalJsonValue collate (JDate t) = JStr (toISOString t)"
| "canonicalJsonValue collate (JArr xs) = JArr (map (canonicalJsonValue collate) xs)"
| "canonicalJsonValue collate (JObj kvs) =
     JObj (map (\<lambda>(k, v). (k, canonicalJsonValue collate v)) (sortEntries collate kvs))"
| "canonicalJsonValue collate JUndefined = JUndefined"
| "canonicalJsonValue collate JNull = JNull"
| "canonicalJsonValue collate (JBool b) = JBool b"
| "canonicalJsonValue collate (JNum n) = JNum n"
| "canonicalJsonValue collate (JStr s) = JStr s"
  by pat_completeness auto

lemma size_json_member: "(k, v) \<in> set kvs \<Longrightarrow> size v < Suc (size_list (size_prod (\<lambda>_. 0) size) kvs)"
  by (induction kvs) auto

lemma size_json_element: "v \<in> set xs \<Longrightarrow> size v < Suc (size_list size xs)"
  by (induction xs) auto

termination canonicalJsonValue
proof (relation "measure (\<lambda>(_, j). size j)", goal_cases)
  case 1
  show ?case by simp
next
  case (2 collate xs x)
  then show ?case by (simp add: size_json_element)
next
  case (3 collate kvs x k v)
  then have "(k, v) \<in> set kvs" using set_sortEntries by blast
  then show ?case using size_json_member [of k v kvs] by simp
qed

section \<open>\<open>JSON.stringify\<close>\<close>

definition hexDigit :: "nat \<Rightarrow> char" where
  "hexDigit n = (if n < 10 then char_of (48 + n) else char_of (87 + n))"

definition escapeChar :: "char \<Rightarrow> string" where
  "escapeChar c =
     (let n = codeUnit c
      in if n = 34 then [char_of (92::nat), c]
         else if n = 92 then [c, c]
         else if n = 8 then [char_of (92::nat), CHR ''b'']
         else if n = 9 then [char_of (92::nat), CHR ''t'']
         else if n = 10 then [char_of (92::nat), CHR ''n'']
         else if n = 12 then [char_of (92::nat), CHR ''f'']
         else if n = 13 then [char_of (92::nat), CHR ''r'']
         else if n < 32 then char_of (92::nat) # ''u00'' @ [hexDigit (n div 16), hexDigit (n mod 16)]
         else [c])"

definition quote :: "string \<Rightarrow> string" where
  "quote s = CHR 0x22 # concat (map escapeChar s) @ [CHR 0x22]"

fun joinText :: "string \<Rightarrow> string list \<Rightarrow> string" where
  "joinText sep [] = []"
| "joinText sep [x] = x"
| "joinText sep (x # y # ys) = x @ sep @ joinText sep (y # ys)"

fun stringify :: "json \<Rightarrow> string" where
  "stringify JUndefined = ''null''"
| "stringify JNull = ''null''"
| "stringify (JBool b) = (if b then ''true'' else ''false'')"
| "stringify (JNum n) = showInt n"
| "stringify (JStr s) = quote s"
| "stringify (JDate t) = quote (toISOString t)"
| "stringify (JArr xs) = ''['' @ joinText '','' (map stringify xs) @ '']''"
| "stringify (JObj kvs) =
     ''{'' @ joinText '','' (map (\<lambda>(k, v). quote k @ '':'' @ stringify v) (filter (\<lambda>(k, v). v \<noteq> JUndefined) kvs)) @ ''}''"

text \<open>\<open>createHash('sha256').update(JSON.stringify(canonicalJsonValue(value))).digest('hex')\<close>.\<close>

definition canonicalSha256 :: "digest \<Rightarrow> collation \<Rightarrow> json \<Rightarrow> string" where
  "canonicalSha256 sha collate v = sha (stringify (canonicalJsonValue collate v))"

section \<open>The canonical form is canonical\<close>

text \<open>
  Two values that differ only in the order in which objects list their members, in members that are
  \<open>undefined\<close>, and in a date being a \<open>Date\<close> or its text.
\<close>

inductive sameJson :: "json \<Rightarrow> json \<Rightarrow> bool" where
  same_refl: "sameJson j j"
| same_date: "sameJson (JDate t) (JStr (toISOString t))"
| same_arr: "list_all2 sameJson xs ys \<Longrightarrow> sameJson (JArr xs) (JArr ys)"
| same_members: "list_all2 (\<lambda>a b. fst a = fst b \<and> sameJson (snd a) (snd b) \<and> (snd a = JUndefined \<longleftrightarrow> snd b = JUndefined)) kvs kvs'
    \<Longrightarrow> sameJson (JObj kvs) (JObj kvs')"
| same_order: "mset (filter (\<lambda>(k, v). v \<noteq> JUndefined) kvs) = mset (filter (\<lambda>(k, v). v \<noteq> JUndefined) kvs')
    \<Longrightarrow> distinct (map fst kvs) \<Longrightarrow> sameJson (JObj kvs) (JObj kvs')"
| same_trans: "sameJson a b \<Longrightarrow> sameJson b c \<Longrightarrow> sameJson a c"

text \<open>What is relied on of the collation: a total preorder that tells different names apart.\<close>

locale collator = comparator collate for collate :: "string \<Rightarrow> string \<Rightarrow> bool" +
  assumes separates: "collate k l \<Longrightarrow> collate l k \<Longrightarrow> k = l"
begin

lemma comparator_fst: "comparator (\<lambda>l r :: string \<times> 'b. collate (fst l) (fst r))"
  by unfold_locales (use le_total le_trans in blast)+

lemma distinct_names_unique:
  "distinct (map fst kvs) \<Longrightarrow> x \<in> set kvs \<Longrightarrow> y \<in> set kvs \<Longrightarrow> fst x = fst y \<Longrightarrow> x = y"
  by (metis eq_key_imp_eq_value prod.collapse)

lemma sortEntries_order:
  assumes "mset (filter (\<lambda>(k, v). v \<noteq> JUndefined) kvs) = mset (filter (\<lambda>(k, v). v \<noteq> JUndefined) kvs')"
    and "distinct (map fst kvs)"
  shows "sortEntries collate kvs = sortEntries collate kvs'"
  unfolding sortEntries_def
  by (rule comparator.sortBy_perm [OF comparator_fst assms(1)])
    (use distinct_names_unique [OF assms(2)] separates in auto)

lemma insortBy_related:
  assumes "list_all2 P xs ys" and "P x y" and "\<And>a b. P a b \<Longrightarrow> fst a = fst b"
  shows "list_all2 P (insortBy (\<lambda>l r. collate (fst l) (fst r)) x xs) (insortBy (\<lambda>l r. collate (fst l) (fst r)) y ys)"
  using assms(1) by (induction xs ys rule: list_all2_induct) (use assms(2,3) in auto)

lemma sortBy_related:
  assumes "list_all2 P xs ys" and "\<And>a b. P a b \<Longrightarrow> fst a = fst b"
  shows "list_all2 P (sortBy (\<lambda>l r. collate (fst l) (fst r)) xs) (sortBy (\<lambda>l r. collate (fst l) (fst r)) ys)"
  using assms(1) by (induction xs ys rule: list_all2_induct) (simp_all add: insortBy_related [OF _ _ assms(2)])

lemma sortEntries_related:
  assumes "list_all2 P kvs kvs'" and "\<And>a b. P a b \<Longrightarrow> fst a = fst b \<and> (snd a = JUndefined \<longleftrightarrow> snd b = JUndefined)"
  shows "list_all2 P (sortEntries collate kvs) (sortEntries collate kvs')"
proof -
  have "list_all2 P (filter (\<lambda>(k, v). v \<noteq> JUndefined) kvs) (filter (\<lambda>(k, v). v \<noteq> JUndefined) kvs')"
    using assms(1) by (induction kvs kvs' rule: list_all2_induct) (use assms(2) in fastforce)+
  then show ?thesis unfolding sortEntries_def using sortBy_related assms(2) by blast
qed

lemma map_eq_of_list_all2: "list_all2 (\<lambda>x y. f x = g y) xs ys \<Longrightarrow> map f xs = map g ys"
  by (induction xs ys rule: list_all2_induct) auto

lemma canonical_sameJson: "sameJson a b \<Longrightarrow> canonicalJsonValue collate a = canonicalJsonValue collate b"
proof (induction rule: sameJson.induct)
  case (same_arr xs ys)
  then have "list_all2 (\<lambda>x y. canonicalJsonValue collate x = canonicalJsonValue collate y) xs ys"
    by (auto elim: list_all2_mono)
  then show ?case by (simp add: map_eq_of_list_all2)
next
  case (same_members kvs kvs')
  then have "list_all2 (\<lambda>a b. (case a of (k, v) \<Rightarrow> (k, canonicalJsonValue collate v)) = (case b of (k, v) \<Rightarrow> (k, canonicalJsonValue collate v))
      \<and> fst a = fst b \<and> (snd a = JUndefined \<longleftrightarrow> snd b = JUndefined)) kvs kvs'"
    by (auto elim: list_all2_mono)
  then have "list_all2 (\<lambda>a b. (case a of (k, v) \<Rightarrow> (k, canonicalJsonValue collate v)) = (case b of (k, v) \<Rightarrow> (k, canonicalJsonValue collate v))
      \<and> fst a = fst b \<and> (snd a = JUndefined \<longleftrightarrow> snd b = JUndefined)) (sortEntries collate kvs) (sortEntries collate kvs')"
    by (rule sortEntries_related) auto
  then have "list_all2 (\<lambda>a b. (case a of (k, v) \<Rightarrow> (k, canonicalJsonValue collate v)) = (case b of (k, v) \<Rightarrow> (k, canonicalJsonValue collate v)))
      (sortEntries collate kvs) (sortEntries collate kvs')"
    by (rule list_all2_mono) simp
  then show ?case by (simp add: map_eq_of_list_all2)
next
  case (same_order kvs kvs')
  then show ?case by (simp add: sortEntries_order)
qed simp_all

lemma canonicalSha256_sameJson: "sameJson a b \<Longrightarrow> canonicalSha256 sha collate a = canonicalSha256 sha collate b"
  by (simp add: canonicalSha256_def canonical_sameJson)

end

interpretation code_unit_collation: collator "byKey (\<lambda>s :: string. s)"
  by unfold_locales (auto simp: byKey_def)

end
