(* ===== verification/Problem.thy ===== *)
theory Problem
  imports Json
begin

text \<open>
  How requests fail, and what the services are given from outside.  A \<open>ProblemError\<close>
  (\<open>platform/problem.ts\<close>) is its HTTP status and its code; its texts for people are left out.  A
  database failure is the error code Prisma or PostgreSQL reports, and any other exception is
  \<open>Thrown\<close>.  The record \<open>env\<close> collects the parameters of the model: SHA-256, the collation of
  \<open>localeCompare\<close>, the time zones of \<open>Intl.DateTimeFormat\<close>, the clocks, the generated UUIDs, the Redis
  reply behind the MFA observation, the schema check of \<open>matchesContract\<close> by the name of the schema, and the failures the database connection may show.
\<close>

section \<open>Failures\<close>

text \<open>The \<open>code\<close> property of a database error: Prisma's own codes, a bare SQLSTATE, and a raw query that
  failed with a SQLSTATE in \<open>meta.code\<close>.  \<open>P1017\<close> is a connection the server has closed, and
  \<open>Constraint\<close> an error whose message names the check or exclusion constraint that was violated.\<close>

datatype dbError = P2002 | P2025 | P2034 | SqlState string | P2010 string | P1017 | Constraint string

datatype failure = Problem int string | DbError dbError | Thrown

type_synonym 'a result = "failure + 'a"

text \<open>\<open>isUniqueConflict\<close>, \<open>isLockTimeout\<close> and \<open>isSerializationConflict\<close> of \<open>payroll/domain.ts\<close>.\<close>

definition isUniqueConflict :: "failure \<Rightarrow> bool" where
  "isUniqueConflict e \<longleftrightarrow> e = DbError P2002"

definition isLockTimeout :: "failure \<Rightarrow> bool" where
  "isLockTimeout e \<longleftrightarrow> e = DbError (SqlState ''55P03'') \<or> e = DbError (P2010 ''55P03'')"

definition isSerializationConflict :: "failure \<Rightarrow> bool" where
  "isSerializationConflict e \<longleftrightarrow>
     e = DbError P2034 \<or> e = DbError (SqlState ''40001'') \<or> e = DbError (P2010 ''40001'')"

section \<open>The environment\<close>

text \<open>The calendar fields \<open>Intl.DateTimeFormat(...).formatToParts\<close> shows for an instant in a zone.\<close>

record localParts =
  lp_year :: int
  lp_month :: int
  lp_day :: int
  lp_hour :: int
  lp_minute :: int
  lp_second :: int

type_synonym zones = "string \<Rightarrow> (instant \<Rightarrow> localParts) option"

text \<open>
  What may happen to a transaction from outside: the database gives it up before it commits
  (a serialization failure, a lock timeout, a lost connection), or it commits and the connection is
  lost before the acknowledgement arrives.
\<close>

datatype fault = RolledBack failure | AckLost

record env =
  e_sha :: digest
  e_collate :: collation
  e_zone :: zones
  e_clock :: "nat \<Rightarrow> instant"
  e_monotonic :: "nat \<Rightarrow> int"
  e_uuid :: "nat \<Rightarrow> string"
  e_fault :: "nat \<Rightarrow> fault option"
  e_observer :: bool
  e_redis :: "nat \<Rightarrow> string \<Rightarrow> int result"
  e_internalBeta :: bool
  e_contract :: "string \<Rightarrow> json \<Rightarrow> bool"

abbreviation sha256 :: "env \<Rightarrow> json \<Rightarrow> string" where
  "sha256 E \<equiv> canonicalSha256 (e_sha E) (e_collate E)"

end
