(* ===== verification/PayrollDomain.thy ===== *)
theory PayrollDomain
  imports Problem
begin

text \<open>
  The pure part of \<open>payroll/domain.ts\<close>: input validation, request identities, calendar boundaries of
  payroll periods, worked minutes, locked snapshots, the export file and reconciliation payloads.
  \<open>Date\<close> arguments are \<open>jsdate\<close>, so that \<open>requiredDate\<close> keeps its failing branch.
\<close>

section \<open>Data\<close>

datatype cadence = WEEKLY | BIWEEKLY

datatype sourceType = TIME_CARD | AMENDMENT

datatype lineStatus = LINE_PENDING | LINE_ACCEPTED | LINE_REJECTED

datatype operationName =
    POLICY_CREATE | PERIOD_CREATE | ADOPT | REVIEW_OP | APPROVAL | LOCK_OP | AMENDMENT_CREATE
  | AMENDMENT_DECISION | EXPORT_OP | RECONCILE

fun cadenceText :: "cadence \<Rightarrow> string" where
  "cadenceText WEEKLY = ''WEEKLY''"
| "cadenceText BIWEEKLY = ''BIWEEKLY''"

fun sourceTypeText :: "sourceType \<Rightarrow> string" where
  "sourceTypeText TIME_CARD = ''TIME_CARD''"
| "sourceTypeText AMENDMENT = ''AMENDMENT''"

fun lineStatusText :: "lineStatus \<Rightarrow> string" where
  "lineStatusText LINE_PENDING = ''PENDING''"
| "lineStatusText LINE_ACCEPTED = ''ACCEPTED''"
| "lineStatusText LINE_REJECTED = ''REJECTED''"

fun operationText :: "operationName \<Rightarrow> string" where
  "operationText POLICY_CREATE = ''POLICY_CREATE''"
| "operationText PERIOD_CREATE = ''PERIOD_CREATE''"
| "operationText ADOPT = ''ADOPT''"
| "operationText REVIEW_OP = ''REVIEW''"
| "operationText APPROVAL = ''APPROVAL''"
| "operationText LOCK_OP = ''LOCK''"
| "operationText AMENDMENT_CREATE = ''AMENDMENT_CREATE''"
| "operationText AMENDMENT_DECISION = ''AMENDMENT_DECISION''"
| "operationText EXPORT_OP = ''EXPORT''"
| "operationText RECONCILE = ''RECONCILE''"

record lockedEntrySource =
  ls_sourceType :: sourceType
  ls_sourceId :: string
  ls_sourceRevision :: int
  ls_employeeId :: string
  ls_locationId :: "string option"
  ls_workTimeZone :: string
  ls_clockInAt :: jsdate
  ls_clockOutAt :: jsdate
  ls_breakMinutes :: int
  ls_payableMinutes :: int
  ls_approvedAt :: jsdate
  ls_approvedByUserId :: string
  ls_breakIntervals :: "(jsdate \<times> jsdate) list"

record csvLine =
  cl_id :: string
  cl_lineNumber :: int
  cl_sourceType :: sourceType
  cl_sourceId :: string
  cl_employeeId :: string
  cl_locationId :: "string option"
  cl_workTimeZone :: string
  cl_clockInAt :: jsdate
  cl_clockOutAt :: jsdate
  cl_breakMinutes :: int
  cl_payableMinutes :: int

record outcome =
  oc_lineId :: string
  oc_status :: lineStatus
  oc_reason :: "string option"

record reconciliationPayload =
  rp_provider :: string
  rp_providerEventId :: string
  rp_providerTotalMinutes :: int
  rp_outcomes :: "outcome list"

definition MAX_PAYROLL_HISTORY_PAGE_SIZE :: int where "MAX_PAYROLL_HISTORY_PAGE_SIZE = 50"
definition MAX_PAYROLL_CARD_PAGE_SIZE :: int where "MAX_PAYROLL_CARD_PAGE_SIZE = 250"
definition MAX_PAYROLL_LOCK_ENTRIES :: nat where "MAX_PAYROLL_LOCK_ENTRIES = 5000"
definition MAX_RECONCILIATION_OUTCOMES :: nat where "MAX_RECONCILIATION_OUTCOMES = 500"

section \<open>Validation\<close>

definition problem422 :: "string \<Rightarrow> failure" where
  "problem422 field = Problem 422 (''invalid_payroll_'' @ field)"

definition requireId :: "string option \<Rightarrow> string \<Rightarrow> string result" where
  "requireId v field =
     (let normalized = (case v of None \<Rightarrow> [] | Some s \<Rightarrow> trim s)
      in if normalized = [] \<or> 512 < length normalized \<or> \<not> list_all isPrintable normalized
         then err (problem422 field) else ok normalized)"

definition parseBoundedLimit :: "string option \<Rightarrow> string \<Rightarrow> int \<Rightarrow> int \<Rightarrow> int result" where
  "parseBoundedLimit v field defaultValue maximum =
     (case v of
        None \<Rightarrow> ok defaultValue
      | Some s \<Rightarrow>
          if s = [] then ok defaultValue
          else if \<not> isDigits s then err (problem422 field)
          else let parsed = int (digitsValue s)
               in if \<not> isSafeInteger parsed \<or> parsed < 1 \<or> maximum < parsed then err (problem422 field)
                  else ok parsed)"

definition normalizeIdempotencyKey :: "string option \<Rightarrow> string result" where
  "normalizeIdempotencyKey v =
     (let key = (case v of None \<Rightarrow> [] | Some s \<Rightarrow> trim s)
      in if key = [] then err (Problem 428 ''idempotency_key_required'')
         else if 255 < length key \<or> \<not> list_all isPrintable key then err (Problem 422 ''invalid_idempotency_key'')
         else ok key)"

definition boundedText :: "string \<Rightarrow> string \<Rightarrow> nat \<Rightarrow> string result" where
  "boundedText v field maximum =
     (let normalized = trim v
      in if normalized = [] \<or> maximum < length normalized \<or> list_ex isControl normalized
         then err (problem422 field) else ok normalized)"

definition requiredDate :: "jsdate \<Rightarrow> instant result" where
  "requiredDate d = (case d of None \<Rightarrow> err Thrown | Some t \<Rightarrow> ok t)"

definition countValue :: "int \<Rightarrow> int result" where
  "countValue n = (if \<not> isSafeInteger n \<or> n < 0 then err Thrown else ok n)"

section \<open>Request identity\<close>

record requestIdentity =
  rq_operationId :: string
  rq_requestHash :: string

text \<open>\<open>args.operation.toLowerCase().replace(/_/g, '-')\<close>.\<close>

definition toLowerAscii :: "char \<Rightarrow> char" where
  "toLowerAscii c = (if 65 \<le> codeUnit c \<and> codeUnit c \<le> 90 then char_of (codeUnit c + 32) else c)"

definition operationSlug :: "operationName \<Rightarrow> string" where
  "operationSlug oper = map (\<lambda>c. if c = CHR ''_'' then CHR ''-'' else toLowerAscii c) (operationText oper)"

definition payrollRequestIdentity ::
    "env \<Rightarrow> string \<Rightarrow> string \<Rightarrow> operationName \<Rightarrow> string \<Rightarrow> json \<Rightarrow> requestIdentity" where
  "payrollRequestIdentity E tenantId actorUserId oper idempotencyKey body =
     \<lparr> rq_operationId = ''payroll-'' @ operationSlug oper @ ''-'' @ sha256 E (JObj
         [(''actorUserId'', JStr actorUserId), (''idempotencyKey'', JStr idempotencyKey),
          (''operation'', JStr (operationText oper)), (''tenantId'', JStr tenantId)]),
       rq_requestHash = sha256 E (JObj
         [(''actorUserId'', JStr actorUserId), (''body'', body),
          (''operation'', JStr (operationText oper)), (''tenantId'', JStr tenantId)]) \<rparr>"

definition childPayrollOperationId :: "env \<Rightarrow> string \<Rightarrow> string \<Rightarrow> string" where
  "childPayrollOperationId E parentOperationId discriminator = ''payroll-child-'' @ sha256 E (JObj
     [(''discriminator'', JStr discriminator), (''parentOperationId'', JStr parentOperationId)])"

definition deterministicPayrollId :: "env \<Rightarrow> string \<Rightarrow> json \<Rightarrow> string" where
  "deterministicPayrollId E pre v =
     ''payroll_'' @ pre @ ''_'' @ take 40 (sha256 E (JObj [(''prefix'', JStr pre), (''value'', v)]))"

section \<open>Calendar dates\<close>

definition normalizeDateOnly :: "string \<Rightarrow> string \<Rightarrow> string result" where
  "normalizeDateOnly v field =
     (let normalized = trim v
      in case matchDateOnly normalized of
           None \<Rightarrow> err (problem422 field)
         | Some (y, m, d) \<Rightarrow>
             (let date = dateUTC y (m - 1) d 0 0 0
              in if getUTCFullYear date \<noteq> y \<or> getUTCMonth date + 1 \<noteq> m \<or> getUTCDate date \<noteq> d
                 then err (problem422 field) else ok normalized))"

text \<open>
  \<open>value.split('-').map(Number)\<close>; every caller passes a text \<open>normalizeDateOnly\<close> returned, for which
  the three pieces are the groups of its pattern.
\<close>

definition splitDate :: "string \<Rightarrow> int \<times> int \<times> int" where
  "splitDate s = (case matchDateOnly s of Some ymd \<Rightarrow> ymd | None \<Rightarrow> (0, 0, 0))"

definition dateOnlyForPrisma :: "string \<Rightarrow> instant result" where
  "dateOnlyForPrisma v =
     bindR (normalizeDateOnly v ''date'') (\<lambda>s. requiredDate (dateParse (s @ ''T00:00:00.000Z'')))"

definition serializeDateOnly :: "jsdate \<Rightarrow> string result" where
  "serializeDateOnly v = bindR (requiredDate v) (\<lambda>t. ok (isoDay t))"

definition normalizeTimeZone :: "env \<Rightarrow> string \<Rightarrow> string result" where
  "normalizeTimeZone E v =
     (let timeZone = trim v
      in if timeZone = [] \<or> 100 < length timeZone then err (Problem 422 ''invalid_payroll_timezone'')
         else case e_zone E timeZone of
                None \<Rightarrow> err (Problem 422 ''invalid_payroll_timezone'')
              | Some _ \<Rightarrow> ok timeZone)"

record payrollPolicy =
  po_timeZone :: string
  po_cadence :: cadence
  po_anchorDate :: string
  po_effectiveFrom :: string

definition normalizePayrollPolicy :: "env \<Rightarrow> payrollPolicy \<Rightarrow> payrollPolicy result" where
  "normalizePayrollPolicy E v =
     bindR (normalizeTimeZone E (po_timeZone v)) (\<lambda>timeZone.
     bindR (normalizeDateOnly (po_anchorDate v) ''anchorDate'') (\<lambda>anchorDate.
     bindR (normalizeDateOnly (po_effectiveFrom v) ''effectiveFrom'') (\<lambda>effectiveFrom.
       ok \<lparr> po_timeZone = timeZone, po_cadence = po_cadence v, po_anchorDate = anchorDate,
            po_effectiveFrom = effectiveFrom \<rparr>)))"

definition dayNumber :: "string \<Rightarrow> int" where
  "dayNumber v = (case splitDate v of (y, m, d) \<Rightarrow> dateUTC y (m - 1) d 0 0 0 div 86400000)"

fun cadenceDays :: "cadence \<Rightarrow> int" where
  "cadenceDays WEEKLY = 7"
| "cadenceDays BIWEEKLY = 14"

text \<open>\<open>%\<close> of JavaScript takes the sign of the dividend.\<close>

definition jsRem :: "int \<Rightarrow> int \<Rightarrow> int" where
  "jsRem a b = (if 0 \<le> a then \<bar>a\<bar> mod \<bar>b\<bar> else - (\<bar>a\<bar> mod \<bar>b\<bar>))"

definition positiveModulo :: "int \<Rightarrow> int \<Rightarrow> int" where
  "positiveModulo v divisor = jsRem (jsRem v divisor + divisor) divisor"

definition assertPayrollAnchorAlignment :: "string \<Rightarrow> string \<Rightarrow> cadence \<Rightarrow> unit result" where
  "assertPayrollAnchorAlignment localStartDate anchorDate cad =
     bindR (normalizeDateOnly localStartDate ''localStartDate'') (\<lambda>start.
     bindR (normalizeDateOnly anchorDate ''anchorDate'') (\<lambda>anchor.
       checkR (positiveModulo (dayNumber start - dayNumber anchor) (cadenceDays cad) = 0)
         (Problem 422 ''payroll_anchor_misaligned'')))"

definition zonedParts :: "env \<Rightarrow> instant \<Rightarrow> string \<Rightarrow> localParts result" where
  "zonedParts E t timeZone = (case e_zone E timeZone of None \<Rightarrow> err Thrown | Some z \<Rightarrow> ok (z t))"

definition partsUtc :: "localParts \<Rightarrow> instant" where
  "partsUtc p = dateUTC (lp_year p) (lp_month p - 1) (lp_day p) (lp_hour p) (lp_minute p) (lp_second p)"

text \<open>The correction loop: at most \<open>attempts\<close> rounds, left early when a round changes nothing.\<close>

fun boundaryGuess :: "nat \<Rightarrow> env \<Rightarrow> string \<Rightarrow> instant \<Rightarrow> instant \<Rightarrow> instant result" where
  "boundaryGuess 0 E timeZone target guess = ok guess"
| "boundaryGuess (Suc attempts) E timeZone target guess =
     (case zonedParts E guess timeZone of
        Inl e \<Rightarrow> err e
      | Inr actual \<Rightarrow>
          (let delta = target - partsUtc actual
           in if delta = 0 then ok (guess + delta)
              else boundaryGuess attempts E timeZone target (guess + delta)))"

definition localDateBoundaryUtc :: "env \<Rightarrow> string \<Rightarrow> string \<Rightarrow> instant result" where
  "localDateBoundaryUtc E dateOnly timeZone =
     bindR (normalizeDateOnly dateOnly ''date'') (\<lambda>date.
     case splitDate date of (y, m, d) \<Rightarrow>
       let target = dateUTC y (m - 1) d 0 0 0
       in bindR (boundaryGuess 4 E timeZone target target) (\<lambda>guess.
          bindR (zonedParts E guess timeZone) (\<lambda>verified.
          if lp_year verified \<noteq> y \<or> lp_month verified \<noteq> m \<or> lp_day verified \<noteq> d
             \<or> lp_hour verified \<noteq> 0 \<or> lp_minute verified \<noteq> 0 \<or> lp_second verified \<noteq> 0
          then err (Problem 422 ''invalid_payroll_boundary'') else ok guess)))"

definition addDateDays :: "string \<Rightarrow> int \<Rightarrow> string" where
  "addDateDays v days =
     (let ymd = splitDate v
      in isoDay (dateUTC (fst ymd) (fst (snd ymd) - 1) (snd (snd ymd) + days) 0 0 0))"

record periodBoundaries =
  pb_localStartDate :: string
  pb_localEndDateExclusive :: string
  pb_startsAt :: instant
  pb_endsAt :: instant

definition payrollPeriodBoundaries ::
    "env \<Rightarrow> string \<Rightarrow> string \<Rightarrow> cadence \<Rightarrow> string \<Rightarrow> periodBoundaries result" where
  "payrollPeriodBoundaries E localStartDate policyZone cad anchorDate =
     bindR (normalizeDateOnly localStartDate ''localStartDate'') (\<lambda>start.
     bindR (assertPayrollAnchorAlignment start anchorDate cad) (\<lambda>_.
     let localEnd = addDateDays start (cadenceDays cad)
     in bindR (normalizeTimeZone E policyZone) (\<lambda>timeZone.
        bindR (localDateBoundaryUtc E start timeZone) (\<lambda>startsAt.
        bindR (localDateBoundaryUtc E localEnd timeZone) (\<lambda>endsAt.
          ok \<lparr> pb_localStartDate = start, pb_localEndDateExclusive = localEnd,
               pb_startsAt = startsAt, pb_endsAt = endsAt \<rparr>)))))"

text \<open>\<open>String(n).padStart(2, '0')\<close>.\<close>

definition pad2 :: "int \<Rightarrow> string" where
  "pad2 n = (let s = showInt n in replicate (2 - length s) (CHR ''0'') @ s)"

definition assertFutureEffectiveBoundary :: "env \<Rightarrow> payrollPolicy \<Rightarrow> instant \<Rightarrow> unit result" where
  "assertFutureEffectiveBoundary E policy now =
     bindR (normalizeTimeZone E (po_timeZone policy)) (\<lambda>timeZone.
     bindR (zonedParts E now timeZone) (\<lambda>parts.
     let currentDate = showInt (lp_year parts) @ ''-'' @ pad2 (lp_month parts) @ ''-'' @ pad2 (lp_day parts)
     in bindR (checkR (\<not> po_effectiveFrom policy \<le> currentDate) (Problem 422 ''payroll_policy_not_future'')) (\<lambda>_.
        assertPayrollAnchorAlignment (po_effectiveFrom policy) (po_anchorDate policy) (po_cadence policy))))"

definition parseInstant :: "string \<Rightarrow> string \<Rightarrow> instant result" where
  "parseInstant v field =
     (case dateParse v of
        None \<Rightarrow> err (problem422 field)
      | Some t \<Rightarrow> if toISOString t \<noteq> v then err (problem422 field) else ok t)"

section \<open>Worked minutes\<close>

definition payrollWorkedMinutes :: "jsdate \<Rightarrow> jsdate \<Rightarrow> int \<Rightarrow> minutes result" where
  "payrollWorkedMinutes clockIn clockOut breakMinutes =
     bindR (requiredDate clockIn) (\<lambda>clockInAt.
     bindR (requiredDate clockOut) (\<lambda>clockOutAt.
     if \<not> isSafeInteger breakMinutes \<or> breakMinutes < 0 then err Thrown
     else let elapsed = clockOutAt - clockInAt; gross = floorMinutes elapsed; worked = gross - breakMinutes
          in if elapsed \<le> 0 \<or> \<not> isSafeInteger gross \<or> worked < 0 then err Thrown else ok worked))"

section \<open>Calendar lemmas\<close>

text \<open>The dates the code accepts: the years 0 to 99 are out, because \<open>Date.UTC\<close> reads them as 1900 to
  1999 and the comparison with the text then fails.\<close>

definition acceptedDate :: "int \<Rightarrow> int \<Rightarrow> int \<Rightarrow> bool" where
  "acceptedDate y m d \<longleftrightarrow> validDate y m d \<and> 100 \<le> y \<and> y \<le> 9999"

lemma acceptedDate_range: "acceptedDate y m d \<Longrightarrow> 1 \<le> m \<and> m \<le> 12 \<and> 1 \<le> d \<and> d \<le> 31 \<and> 100 \<le> y \<and> y \<le> 9999"
  using daysInMonth_bounds [of m y] by (auto simp: acceptedDate_def validDate_def)

lemma matchDateOnly_accepted: "acceptedDate y m d \<Longrightarrow> matchDateOnly (isoDate y m d) = Some (y, m, d)"
  by (drule acceptedDate_range) (simp add: matchDateOnly_isoDate)

lemma splitDate_accepted: "acceptedDate y m d \<Longrightarrow> splitDate (isoDate y m d) = (y, m, d)"
  by (simp add: splitDate_def matchDateOnly_accepted)

lemma dateUTC_accepted: "acceptedDate y m d \<Longrightarrow> dateUTC y (m - 1) n 0 0 0 = dayOfDate y m n * msPerDay"
  by (drule acceptedDate_range) (simp add: dateUTC_midnight)

lemma getUTC_iff:
  "getUTCFullYear t = y \<and> getUTCMonth t + 1 = m \<and> getUTCDate t = d \<longleftrightarrow> dateOfDay (dayOf t) = (y, m, d)"
  by (cases "dateOfDay (dayOf t)") (auto simp: getUTCFullYear_def getUTCMonth_def getUTCDate_def)

lemma dayOf_dateUTC:
  "dayOf (dateUTC y m d 0 0 0) = makeDay (if 0 \<le> y \<and> y \<le> 99 then 1900 + y else y) m d"
  by (simp add: dateUTC_def)

lemma daysBeforeMonth_nonneg: "0 \<le> daysBeforeMonth leap m"
  by (simp add: daysBeforeMonth_def)

lemma early_years_rejected:
  assumes "0 \<le> y" "y \<le> 99" "0 \<le> m" "0 \<le> d"
  shows "dateOfDay (dayOf (dateUTC y (m - 1) d 0 0 0)) \<noteq> (y, m, d)"
proof
  let ?n = "makeDay (1900 + y) (m - 1) d"
  assume "dateOfDay (dayOf (dateUTC y (m - 1) d 0 0 0)) = (y, m, d)"
  then have year: "yearFromDay ?n = y"
    using assms by (simp add: dayOf_dateUTC dateOfDay_def Let_def)
  have "- 1 \<le> (m - 1) div 12" using assms by linarith
  then have "dayFromYear 1899 \<le> dayFromYear (1900 + y + (m - 1) div 12)"
    using assms by (simp add: dayFromYear_le)
  then have "dayFromYear 1899 - 1 \<le> ?n"
    using assms daysBeforeMonth_nonneg [of "leapYear (1900 + y + (m - 1) div 12)" "(m - 1) mod 12"]
    unfolding makeDay_def Let_def by linarith
  moreover have "?n < dayFromYear (y + 1)" using yearFromDay_bounds [of ?n] year by simp
  moreover have "dayFromYear (y + 1) \<le> dayFromYear 100" using assms by (simp add: dayFromYear_le)
  moreover have "dayFromYear 100 < dayFromYear 1899 - 1" by (simp add: dayFromYear_def)
  ultimately show False by linarith
qed

lemma date_check_iff:
  assumes "0 \<le> y" "y \<le> 9999" "0 \<le> m" "0 \<le> d"
  shows "dateOfDay (dayOf (dateUTC y (m - 1) d 0 0 0)) = (y, m, d) \<longleftrightarrow> acceptedDate y m d"
proof (cases "y \<le> 99")
  case True
  then show ?thesis using early_years_rejected assms by (auto simp: acceptedDate_def)
next
  case False
  show ?thesis
  proof
    assume "dateOfDay (dayOf (dateUTC y (m - 1) d 0 0 0)) = (y, m, d)"
    then show "acceptedDate y m d" using dateOfDay_valid(1) False assms by (auto simp: acceptedDate_def)
  next
    assume "acceptedDate y m d"
    then show "dateOfDay (dayOf (dateUTC y (m - 1) d 0 0 0)) = (y, m, d)"
      using dateOfDay_dayOfDate [of y m d] by (simp add: dateUTC_accepted) (simp add: acceptedDate_def)
  qed
qed

lemma isoDate_no_space: "acceptedDate y m d \<Longrightarrow> trim (isoDate y m d) = isoDate y m d"
proof -
  assume "acceptedDate y m d"
  then have yr: "0 \<le> y" "y \<le> 9999" by (auto simp: acceptedDate_def)
  have first: "isDigit (hd (isoDate y m d))"
    using yr fixedDigits_hd [of 4 y] by (simp add: isoDate_def isoYear_def hd_append del: fixedDigits.simps)
      (metis length_0_conv length_fixedDigits zero_neq_numeral)
  have "last (isoDate y m d) = last (fixedDigits 2 d)"
    by (simp add: isoDate_def del: fixedDigits.simps) (metis length_0_conv length_fixedDigits zero_neq_numeral)
  moreover have "isDigit (last (fixedDigits 2 d))"
    using isDigit_fixedDigits [of 2 d] by (metis last_in_set length_0_conv length_fixedDigits list.pred_set zero_neq_numeral)
  moreover have "\<And>c. isDigit c \<Longrightarrow> \<not> isJsSpace c" by (auto simp: isDigit_def isJsSpace_def)
  ultimately show ?thesis using first trim_eq_self by metis
qed

lemma normalizeDateOnly_ok:
  "normalizeDateOnly v field = ok s \<longleftrightarrow> s = trim v \<and> (\<exists>y m d. acceptedDate y m d \<and> s = isoDate y m d)"
proof
  assume "normalizeDateOnly v field = ok s"
  then obtain y m d where s: "s = trim v" and match: "matchDateOnly s = Some (y, m, d)"
    and chk: "dateOfDay (dayOf (dateUTC y (m - 1) d 0 0 0)) = (y, m, d)"
    unfolding normalizeDateOnly_def Let_def
    by (auto simp: getUTC_iff [symmetric] split: option.splits if_splits)
  have "acceptedDate y m d" using chk date_check_iff matchDateOnly_SomeD [OF match] by auto
  then show "s = trim v \<and> (\<exists>y m d. acceptedDate y m d \<and> s = isoDate y m d)"
    using s matchDateOnly_SomeD(1) [OF match] by blast
next
  assume "s = trim v \<and> (\<exists>y m d. acceptedDate y m d \<and> s = isoDate y m d)"
  then obtain y m d where a: "acceptedDate y m d" and s: "trim v = isoDate y m d" "s = isoDate y m d" by auto
  have "dateOfDay (dayOf (dateUTC y (m - 1) d 0 0 0)) = (y, m, d)"
    using a date_check_iff acceptedDate_range [OF a] by auto
  then show "normalizeDateOnly v field = ok s"
    using a s getUTC_iff [of "dateUTC y (m - 1) d 0 0 0" y m d]
    by (simp add: normalizeDateOnly_def Let_def matchDateOnly_accepted)
qed

lemma normalizeDateOnly_accepted [simp]:
  "acceptedDate y m d \<Longrightarrow> normalizeDateOnly (isoDate y m d) field = ok (isoDate y m d)"
  using normalizeDateOnly_ok isoDate_no_space by metis

lemma normalizeDateOnlyE:
  assumes "normalizeDateOnly v field = ok s"
  obtains y m d where "acceptedDate y m d" and "s = isoDate y m d"
  using assms normalizeDateOnly_ok by blast

lemma dayNumber_accepted: "acceptedDate y m d \<Longrightarrow> dayNumber (isoDate y m d) = dayOfDate y m d"
  by (simp add: dayNumber_def splitDate_accepted dateUTC_accepted msPerDay_def)

lemma dayOfDate_add: "dayOfDate y m (d + n) = dayOfDate y m d + n"
  by (simp add: dayOfDate_def)

lemma positiveModulo_mod: "0 < n \<Longrightarrow> positiveModulo v n = v mod n"
proof -
  assume n: "0 < n"
  have rem: "jsRem v n = v mod n \<or> jsRem v n = v mod n - n"
    using n by (auto simp: jsRem_def zmod_zminus1_eq_if)
  have b: "0 \<le> v mod n" "v mod n < n" using n by simp_all
  then have "0 \<le> jsRem v n + n" using rem by linarith
  then have "positiveModulo v n = (jsRem v n + n) mod n" using n by (simp add: positiveModulo_def jsRem_def)
  also have "\<dots> = jsRem v n mod n" by simp
  also have "\<dots> = v mod n" using rem b by auto
  finally show ?thesis .
qed

lemma cadenceDays_pos: "0 < cadenceDays c"
  by (cases c) simp_all

lemma assertPayrollAnchorAlignment_ok:
  "assertPayrollAnchorAlignment start anchor cad = ok u \<longleftrightarrow>
     (\<exists>s a. normalizeDateOnly start ''localStartDate'' = ok s \<and> normalizeDateOnly anchor ''anchorDate'' = ok a
        \<and> cadenceDays cad dvd dayNumber s - dayNumber a)"
  by (auto simp: assertPayrollAnchorAlignment_def res_simps positiveModulo_mod cadenceDays_pos dvd_eq_mod_eq_0)

lemma addDateDays_accepted:
  assumes "acceptedDate y m d" and "dateOfDay (dayOfDate y m d + n) = (y', m', d')" and "0 \<le> y'" and "y' \<le> 9999"
  shows "addDateDays (isoDate y m d) n = isoDate y' m' d'"
proof -
  have "dayOfDate y' m' d' = dayOfDate y m d + n" "validDate y' m' d'" using dateOfDay_valid [OF assms(2)] by auto
  then show ?thesis
    using assms isoDay_midnight [of y' m' d']
    by (simp add: addDateDays_def splitDate_accepted dateUTC_accepted dayOfDate_add)
qed

lemma toISOString_midnight: "toISOString (n * msPerDay) = isoDate (fst (dateOfDay n)) (fst (snd (dateOfDay n))) (snd (snd (dateOfDay n))) @ ''T00:00:00.000Z''"
proof -
  have "isoTime 0 = ''00:00:00.000Z''" by code_simp
  moreover have "timeInDay (n * msPerDay) = 0" by (simp add: timeInDay_def)
  ultimately show ?thesis by (simp add: toISOString_def split: prod.split)
qed

lemma accepted_timeValue:
  assumes "acceptedDate y m d"
  shows "isTimeValue (dayOfDate y m d * msPerDay)"
proof -
  have y: "yearFromDay (dayOfDate y m d) = y"
    using assms dateOfDay_dayOfDate [of y m d] by (auto simp: acceptedDate_def dateOfDay_def Let_def)
  have "dayFromYear 0 \<le> dayFromYear y" "dayFromYear (y + 1) \<le> dayFromYear 10000"
    using assms by (simp_all add: acceptedDate_def dayFromYear_le)
  moreover have "dayFromYear 0 = -719528" "dayFromYear 10000 = 2932897" by (simp_all add: dayFromYear_def)
  ultimately have "-719528 \<le> dayOfDate y m d" "dayOfDate y m d \<le> 2932897"
    using yearFromDay_bounds [of "dayOfDate y m d"] y by auto
  then show ?thesis by (simp add: isTimeValue_def msPerDay_def)
qed

lemma dateOnlyForPrisma_ok:
  "dateOnlyForPrisma v = ok t \<longleftrightarrow> (\<exists>y m d. acceptedDate y m d \<and> trim v = isoDate y m d \<and> t = dayOfDate y m d * msPerDay)"
proof -
  have "dateParse (isoDate y m d @ ''T00:00:00.000Z'') = Some (dayOfDate y m d * msPerDay)" if "acceptedDate y m d" for y m d
    using that dateParse_toISOString [OF accepted_timeValue [OF that]]
    by (simp add: toISOString_midnight dateOfDay_dayOfDate acceptedDate_def)
  then show ?thesis
    unfolding dateOnlyForPrisma_def bindR_ok normalizeDateOnly_ok requiredDate_def by fastforce
qed

lemma serializeDateOnly_midnight:
  "acceptedDate y m d \<Longrightarrow> serializeDateOnly (Some (dayOfDate y m d * msPerDay)) = ok (isoDate y m d)"
  by (simp add: serializeDateOnly_def requiredDate_def isoDay_midnight acceptedDate_def)

section \<open>Zones\<close>

text \<open>
  A zone whose clock is UTC shifted by an offset of whole seconds that may change over time, as the
  zones of the IANA database are: the parts shown at \<open>t\<close> are the UTC fields of \<open>t + off t\<close>.
\<close>

definition utcParts :: "instant \<Rightarrow> localParts" where
  "utcParts t = (case dateOfDay (dayOf t) of (y, m, d) \<Rightarrow>
     \<lparr> lp_year = y, lp_month = m, lp_day = d, lp_hour = timeInDay t div 3600000,
       lp_minute = timeInDay t div 60000 mod 60, lp_second = timeInDay t div 1000 mod 60 \<rparr>)"

definition shiftedZone :: "(instant \<Rightarrow> int) \<Rightarrow> instant \<Rightarrow> localParts" where
  "shiftedZone off t = utcParts (t + off t)"

lemma clock_fields: "r div 3600000 * 3600000 + r div 60000 mod 60 * 60000 + r div 1000 mod 60 * 1000 + r mod 1000 = (r :: int)"
proof -
  have "r div 1000 div 60 = r div 60000" "r div 60000 div 60 = r div 3600000"
    by (simp_all add: zdiv_zmult2_eq [symmetric])
  then have "r = 1000 * (r div 1000) + r mod 1000" "r div 1000 = 60 * (r div 60000) + r div 1000 mod 60"
    "r div 60000 = 60 * (r div 3600000) + r div 60000 mod 60"
    using mult_div_mod_eq [of 60 "r div 1000"] mult_div_mod_eq [of 60 "r div 60000"] by simp_all
  then show ?thesis by linarith
qed

lemma partsUtc_utcParts:
  assumes "1000 dvd t" and "100 \<le> fst (dateOfDay (dayOf t))"
  shows "partsUtc (utcParts t) = t"
proof -
  obtain y m d where ymd: "dateOfDay (dayOf t) = (y, m, d)" by (cases "dateOfDay (dayOf t)") auto
  have v: "validDate y m d" "dayOfDate y m d = dayOf t" using dateOfDay_valid [OF ymd] by auto
  have mk: "makeDay y (m - 1) d = dayOf t" using v by (simp add: makeDay_valid validDate_def)
  have "1000 dvd timeInDay t" using assms(1) by (simp add: timeInDay_def msPerDay_def dvd_mod)
  then have "timeInDay t mod 1000 = 0" by simp
  then have tid: "timeInDay t div 3600000 * 3600000 + timeInDay t div 60000 mod 60 * 60000 + timeInDay t div 1000 mod 60 * 1000 = timeInDay t"
    using clock_fields [of "timeInDay t"] by simp
  have "dayOf t * msPerDay + timeInDay t = t" by (simp add: dayOf_def timeInDay_def)
  then show ?thesis
    using assms(2) ymd mk tid by (simp add: partsUtc_def utcParts_def dateUTC_def algebra_simps)
qed

lemma utcParts_midnight:
  assumes "acceptedDate y m d"
  shows "utcParts (dayOfDate y m d * msPerDay) = \<lparr> lp_year = y, lp_month = m, lp_day = d, lp_hour = 0, lp_minute = 0, lp_second = 0 \<rparr>"
  using assms dateOfDay_dayOfDate [of y m d] by (simp add: utcParts_def timeInDay_def acceptedDate_def)

text \<open>One round of the loop moves the guess to the target minus the offset in force at the guess.\<close>

lemma boundaryGuess_step:
  assumes "e_zone E tz = Some (shiftedZone off)" and "1000 dvd g + off g" and "100 \<le> fst (dateOfDay (dayOf (g + off g)))"
  shows "boundaryGuess (Suc k) E tz T g = (if g + off g = T then ok g else boundaryGuess k E tz T (T - off g))"
proof -
  have p: "partsUtc (shiftedZone off g) = g + off g"
    using partsUtc_utcParts [OF assms(2,3)] by (simp add: shiftedZone_def)
  show ?thesis by (auto simp: zonedParts_def assms(1) p Let_def)
qed

lemma boundaryGuess_hit:
  assumes "e_zone E tz = Some (shiftedZone off)" and "1000 dvd T" and "100 \<le> fst (dateOfDay (dayOf T))" and "g + off g = T"
  shows "boundaryGuess k E tz T g = ok g"
proof (cases k)
  case (Suc n)
  have "1000 dvd g + off g" "100 \<le> fst (dateOfDay (dayOf (g + off g)))" using assms(2,3) by (simp_all add: assms(4))
  then show ?thesis using boundaryGuess_step [OF assms(1), of g n T] Suc assms(4) by simp
qed simp

lemma year_of_near_day:
  assumes "acceptedDate y m d" and "101 \<le> y" and "dayOfDate y m d - 2 \<le> n"
  shows "100 \<le> fst (dateOfDay n)"
proof -
  have y: "yearFromDay (dayOfDate y m d) = y"
    using assms dateOfDay_dayOfDate [of y m d] by (auto simp: acceptedDate_def dateOfDay_def Let_def)
  have "dayFromYear 101 \<le> dayFromYear y" using assms by (simp add: dayFromYear_le)
  then have "dayFromYear 101 \<le> n + 2" using yearFromDay_bounds [of "dayOfDate y m d"] y assms(3) by auto
  moreover have "dayFromYear 100 + 2 \<le> dayFromYear 101" by (simp add: dayFromYear_def)
  ultimately have "dayFromYear 100 < dayFromYear (yearFromDay n + 1)" using yearFromDay_bounds [of n] by linarith
  then have "100 < yearFromDay n + 1" using dayFromYear_le by (metis linorder_not_le)
  then show ?thesis by (simp add: dateOfDay_def Let_def)
qed

lemma localDateBoundary_ok:
  assumes "localDateBoundaryUtc E date tz = ok t"
  obtains y m d z where "acceptedDate y m d" "trim date = isoDate y m d" "e_zone E tz = Some z"
    "z t = \<lparr> lp_year = y, lp_month = m, lp_day = d, lp_hour = 0, lp_minute = 0, lp_second = 0 \<rparr>"
proof -
  obtain s where s: "normalizeDateOnly date ''date'' = ok s"
    and rest: "(case splitDate s of (y, m, d) \<Rightarrow>
       let target = dateUTC y (m - 1) d 0 0 0
       in bindR (boundaryGuess 4 E tz target target) (\<lambda>guess.
          bindR (zonedParts E guess tz) (\<lambda>verified.
          if lp_year verified \<noteq> y \<or> lp_month verified \<noteq> m \<or> lp_day verified \<noteq> d
             \<or> lp_hour verified \<noteq> 0 \<or> lp_minute verified \<noteq> 0 \<or> lp_second verified \<noteq> 0
          then err (Problem 422 ''invalid_payroll_boundary'') else ok guess))) = ok t"
    using assms by (auto simp: localDateBoundaryUtc_def bindR_ok)
  obtain y m d where a: "acceptedDate y m d" and iso: "trim date = isoDate y m d" "s = isoDate y m d"
    using s normalizeDateOnly_ok by auto
  obtain v where v: "zonedParts E t tz = ok v"
    and f: "lp_year v = y" "lp_month v = m" "lp_day v = d" "lp_hour v = 0" "lp_minute v = 0" "lp_second v = 0"
    using rest by (auto simp: iso splitDate_accepted [OF a] Let_def bindR_ok split: if_splits)
  obtain z where "e_zone E tz = Some z" "z t = v" using v by (auto simp: zonedParts_def split: option.splits)
  then show thesis using that [OF a iso(1)] f by simp
qed

section \<open>Properties\<close>

text \<open>
  Property C38.  \<open>normalizeDateOnly\<close> accepts exactly the texts that, apart from white space around them, are
  \<open>YYYY-MM-DD\<close> for a day that exists in the Gregorian calendar of the years 100 to 9999, and returns
  that text.
\<close>

theorem normalizeDateOnly_exact:
  "normalizeDateOnly v field = ok s \<longleftrightarrow>
     s = trim v \<and> (\<exists>y m d. s = isoDate y m d \<and> 100 \<le> y \<and> y \<le> 9999 \<and> validDate y m d)"
  unfolding normalizeDateOnly_ok acceptedDate_def by blast

text \<open>
  \<open>addDateDays\<close> is addition on day numbers: from a date the code accepts, as long as the result
  stays in the years 100 to 9999, it gives a date the code accepts whose day number is larger by
  exactly the number of days.
\<close>

lemma addDateDays_dayNumber:
  assumes "normalizeDateOnly v field = ok s"
    and "100 \<le> fst (dateOfDay (dayNumber s + n))" and "fst (dateOfDay (dayNumber s + n)) \<le> 9999"
  shows "normalizeDateOnly (addDateDays s n) field' = ok (addDateDays s n) \<and> dayNumber (addDateDays s n) = dayNumber s + n"
proof -
  obtain y m d where a: "acceptedDate y m d" and s: "s = isoDate y m d" using assms(1) by (rule normalizeDateOnlyE)
  obtain y' m' d' where dd: "dateOfDay (dayNumber s + n) = (y', m', d')" by (cases "dateOfDay (dayNumber s + n)") auto
  have a': "acceptedDate y' m' d'" using dateOfDay_valid(1) [OF dd] assms(2,3) dd by (auto simp: acceptedDate_def)
  have "addDateDays s n = isoDate y' m' d'"
    unfolding s by (rule addDateDays_accepted [OF a]) (use dd s assms dayNumber_accepted [OF a] in auto)
  then show ?thesis using a' dayNumber_accepted [OF a'] dateOfDay_valid(2) [OF dd] by simp
qed

text \<open>
  A date survives storage: the \<open>Date\<close> that \<open>dateOnlyForPrisma\<close> makes of a text is read back by
  \<open>serializeDateOnly\<close> as that text, and \<open>dateOnlyForPrisma\<close> succeeds on every date
  \<open>normalizeDateOnly\<close> accepts.
\<close>

lemma dateOnly_roundtrip:
  assumes "normalizeDateOnly v field = ok s"
  shows "\<exists>t. dateOnlyForPrisma v = ok t \<and> dateOnlyForPrisma s = ok t \<and> serializeDateOnly (Some t) = ok s"
  using assms serializeDateOnly_midnight isoDate_no_space
  unfolding normalizeDateOnly_ok dateOnlyForPrisma_ok by metis

text \<open>
  \<open>localDateBoundaryUtc\<close> is sound for every zone: the instant it returns is one at which the zone's
  clock shows midnight of the requested date, to the second.
\<close>

lemma localDateBoundaryUtc_sound:
  assumes "localDateBoundaryUtc E date tz = ok t"
  shows "\<exists>y m d z. trim date = isoDate y m d \<and> validDate y m d \<and> e_zone E tz = Some z
    \<and> z t = \<lparr> lp_year = y, lp_month = m, lp_day = d, lp_hour = 0, lp_minute = 0, lp_second = 0 \<rparr>"
  using assms by (rule localDateBoundary_ok) (auto simp: acceptedDate_def)

text \<open>An environment with three zones: UTC, and a zone at UTC-5 that is at UTC-4 from 2024-03-10T07:00Z
  to 2024-11-03T06:00Z.\<close>

definition easternOffset :: "instant \<Rightarrow> int" where
  "easternOffset t = (if 1710054000000 \<le> t \<and> t < 1730613600000 then - 14400000 else - 18000000)"

definition sampleZones :: zones where
  "sampleZones tz =
     (if tz = ''UTC'' then Some (shiftedZone (\<lambda>_. 0))
      else if tz = ''America/New_York'' then Some (shiftedZone easternOffset) else None)"

definition sampleSha :: "string \<Rightarrow> string" where
  "sampleSha s = fixedDigits 64 (foldl (\<lambda>n c. (31 * n + of_char c) mod 1000003) 7 s)"

definition sampleUuid :: "nat \<Rightarrow> string" where
  "sampleUuid n = ''00000000-0000-4000-8000-'' @ fixedDigits 12 (int n)"

definition sampleClock :: "nat \<Rightarrow> int" where
  "sampleClock n = 1767225600000 + int n"

definition sampleCollate :: collation where
  "sampleCollate k l \<longleftrightarrow> k \<le> l"

definition sampleEnv :: env where
  "sampleEnv = \<lparr> e_sha = sampleSha, e_collate = sampleCollate, e_zone = sampleZones, e_clock = sampleClock,
     e_monotonic = int, e_uuid = sampleUuid, e_fault = (\<lambda>_. None), e_observer = True,
     e_redis = (\<lambda>_ _. ok 600000), e_internalBeta = False, e_contract = (\<lambda>_ _. True) \<rparr>"

lemma sample_boundary_run:
  "normalizeDateOnly ''2024-03-11'' ''date'' = ok ''2024-03-11''"
  "splitDate ''2024-03-11'' = (2024, 3, 11)"
  "dateUTC 2024 2 11 0 0 0 = 1710115200000"
  "boundaryGuess 4 sampleEnv ''America/New_York'' 1710115200000 1710115200000 = ok 1710129600000"
  "zonedParts sampleEnv 1710129600000 ''America/New_York'' =
     ok \<lparr> lp_year = 2024, lp_month = 3, lp_day = 11, lp_hour = 0, lp_minute = 0, lp_second = 0 \<rparr>"
  by code_simp+

text \<open>
  Property C37.  \<open>localDateBoundaryUtc\<close> finds local midnight in every zone whose offset has settled after one
  correction: with offsets of whole seconds below a day, if the offset \<open>p\<close> in force at the instant the first
  correction reaches is also in force at midnight minus \<open>p\<close>, the result is midnight minus \<open>p\<close>.  Days on
  which the offset changes are included; only a midnight the clock skips, or one that
  the corrections keep stepping over, is refused.
\<close>

theorem localDateBoundaryUtc_complete:
  fixes off :: "instant \<Rightarrow> int" and p :: int
  defines "T \<equiv> \<lambda>y m d. dayOfDate y m d * msPerDay"
  assumes "acceptedDate y m d" and "101 \<le> y" and "e_zone E tz = Some (shiftedZone off)"
    and "\<And>t. 1000 dvd off t \<and> \<bar>off t\<bar> < msPerDay"
    and "off (T y m d - off (T y m d)) = p" and "off (T y m d - p) = p"
  shows "localDateBoundaryUtc E (isoDate y m d) tz = ok (T y m d - p)"
proof -
  define M where "M = T y m d"
  have M: "M = dayOfDate y m d * msPerDay" by (simp add: M_def T_def)
  note zone = assms(4) and a = assms(2)
  have dM: "1000 dvd M" unfolding M msPerDay_def by (rule dvd_mult) simp
  have near: "100 \<le> fst (dateOfDay (dayOf (M + e)))" if "\<bar>e\<bar> < 2 * msPerDay" for e
  proof (rule year_of_near_day [OF a assms(3)])
    show "dayOfDate y m d - 2 \<le> dayOf (M + e)" using that unfolding M dayOf_def msPerDay_def by linarith
  qed
  have b: "1000 dvd off t" "\<bar>off t\<bar> < msPerDay" for t using assms(5) [of t] by auto
  have hit: "boundaryGuess k E tz M (M - p) = ok (M - p)" for k
    by (rule boundaryGuess_hit [OF zone dM]) (use near [of 0] assms(7) in \<open>simp_all add: M_def msPerDay_def\<close>)
  have "boundaryGuess 4 E tz M M = ok (M - p)"
  proof -
    have s1: "boundaryGuess (Suc 3) E tz M M = (if M + off M = M then ok M else boundaryGuess 3 E tz M (M - off M))"
      by (rule boundaryGuess_step [OF zone]) (use dM b [of M] near [of "off M"] in \<open>auto simp: msPerDay_def\<close>)
    let ?g = "M - off M"
    have g: "?g + off ?g = M + (p - off M)" using assms(6) by (simp add: M_def)
    have "\<bar>p - off M\<bar> < 2 * msPerDay" "1000 dvd p - off M" using b [of M] b [of ?g] assms(6) by (auto simp: M_def)
    then have s2: "boundaryGuess (Suc 2) E tz M ?g = (if ?g + off ?g = M then ok ?g else boundaryGuess 2 E tz M (M - off ?g))"
      by (intro boundaryGuess_step [OF zone]) (use dM near in \<open>auto simp: g\<close>)
    have p: "off ?g = p" using assms(6) by (simp add: M_def)
    show ?thesis
    proof (cases "off M = 0")
      case True
      then have "p = 0" using p by simp
      then show ?thesis using s1 True by (simp add: numeral_eq_Suc)
    next
      case False
      then have "boundaryGuess 4 E tz M M = boundaryGuess (Suc 2) E tz M ?g" using s1 by (simp add: numeral_eq_Suc)
      then show ?thesis using s2 p hit g by auto
    qed
  qed
  moreover have "zonedParts E (M - p) tz = ok (utcParts M)"
    using zone assms(7) by (simp add: zonedParts_def shiftedZone_def M_def)
  ultimately show ?thesis
    using a utcParts_midnight [OF a] unfolding M_def [symmetric]
    by (simp add: localDateBoundaryUtc_def splitDate_accepted dateUTC_accepted Let_def M)
qed

theorem localDateBoundaryUtc_complete_witness:
  "localDateBoundaryUtc sampleEnv (isoDate 2024 3 11) ''America/New_York'' = ok (dayOfDate 2024 3 11 * msPerDay - (- 14400000))"
  by (rule localDateBoundaryUtc_complete [where off = easternOffset])
    (code_simp, simp, simp add: sampleEnv_def sampleZones_def, simp add: easternOffset_def msPerDay_def, code_simp+)

lemma payrollPeriodBoundaries_ok:
  assumes "payrollPeriodBoundaries E v policyZone cad anchor = ok b"
  obtains s tz where "normalizeDateOnly v ''localStartDate'' = ok s" "normalizeTimeZone E policyZone = ok tz"
    "assertPayrollAnchorAlignment s anchor cad = ok ()"
    "pb_localStartDate b = s" "pb_localEndDateExclusive b = addDateDays s (cadenceDays cad)"
    "localDateBoundaryUtc E s tz = ok (pb_startsAt b)"
    "localDateBoundaryUtc E (addDateDays s (cadenceDays cad)) tz = ok (pb_endsAt b)"
  using assms by (auto simp: payrollPeriodBoundaries_def Let_def bindR_ok)

lemma normalizeDateOnly_idem: "normalizeDateOnly v field = ok s \<Longrightarrow> normalizeDateOnly s field' = ok s"
  by (erule normalizeDateOnlyE) simp

lemma normalizeTimeZone_idem: "normalizeTimeZone E v = ok tz \<Longrightarrow> normalizeTimeZone E tz = ok tz"
  by (auto simp: normalizeTimeZone_def Let_def split: if_splits option.splits)

lemma fst_dateOfDay: "fst (dateOfDay n) = yearFromDay n"
  by (simp add: dateOfDay_def Let_def)

lemma yearFromDay_mono:
  assumes "m \<le> n"
  shows "yearFromDay m \<le> yearFromDay n"
proof -
  have "dayFromYear (yearFromDay m) < dayFromYear (yearFromDay n + 1)"
    using yearFromDay_bounds [of m] yearFromDay_bounds [of n] assms by linarith
  then have "yearFromDay m < yearFromDay n + 1" using dayFromYear_le by (metis linorder_not_le)
  then show ?thesis by simp
qed

lemma yearFromDay_accepted: "acceptedDate y m d \<Longrightarrow> yearFromDay (dayOfDate y m d) = y"
  using dateOfDay_dayOfDate [of y m d] fst_dateOfDay [of "dayOfDate y m d"] by (simp add: acceptedDate_def)

lemma trim_hd: "\<not> isJsSpace c \<Longrightarrow> \<exists>u. trim (c # t) = c # u"
proof -
  assume c: "\<not> isJsSpace c"
  have "trim (c # t) = rev (dropWhile isJsSpace (rev t @ [c]))" using c by (simp add: trim_def)
  moreover have "\<exists>v. dropWhile isJsSpace (rev t @ [c]) = v @ [c]"
    using c by (induction "rev t" arbitrary: t) (auto simp: dropWhile_append)
  ultimately obtain v where "trim (c # t) = c # rev v" by auto
  then show ?thesis by blast
qed

text \<open>A date past the year 9999 prints with a sign, and no date that does is accepted.\<close>

lemma late_date_rejected:
  assumes "acceptedDate y m d" and "yearFromDay (dayOfDate y m d + n) = 10000"
  shows "normalizeDateOnly (addDateDays (isoDate y m d) n) field \<noteq> ok e"
proof
  assume "normalizeDateOnly (addDateDays (isoDate y m d) n) field = ok e"
  then obtain y2 m2 d2 where a2: "acceptedDate y2 m2 d2" and t: "trim (addDateDays (isoDate y m d) n) = isoDate y2 m2 d2"
    using normalizeDateOnly_ok by auto
  obtain y' m' d' where dd: "dateOfDay (dayOfDate y m d + n) = (y', m', d')" by (cases "dateOfDay (dayOfDate y m d + n)") auto
  then have "y' = 10000" using assms(2) fst_dateOfDay [of "dayOfDate y m d + n"] by simp
  moreover have "addDateDays (isoDate y m d) n = isoDay ((dayOfDate y m d + n) * msPerDay)"
    by (simp add: addDateDays_def splitDate_accepted [OF assms(1)] dateUTC_accepted [OF assms(1)] dayOfDate_add)
  ultimately have "\<exists>r. addDateDays (isoDate y m d) n = CHR ''+'' # r"
    using dd by (simp add: isoDay_def toISOString_def isoDate_def isoYear_def)
  then obtain r where "addDateDays (isoDate y m d) n = CHR ''+'' # r" ..
  moreover have "\<not> isJsSpace (CHR ''+'')" by code_simp
  ultimately have "\<exists>u. isoDate y2 m2 d2 = CHR ''+'' # u" using trim_hd t by metis
  then have "hd (isoDate y2 m2 d2) = CHR ''+''" by auto
  moreover have "isDigit (hd (isoDate y2 m2 d2))"
    using a2 fixedDigits_hd [of 4 y2] by (simp add: isoDate_def isoYear_def acceptedDate_def hd_append del: fixedDigits.simps)
      (metis length_0_conv length_fixedDigits zero_neq_numeral)
  ultimately show False by (simp add: isDigit_def codeUnit_def)
qed

lemma boundary_end_accepted:
  assumes "normalizeDateOnly v field = ok s" and "normalizeDateOnly (addDateDays s n) field' = ok e" and "0 \<le> n" and "n \<le> 14"
  shows "e = addDateDays s n \<and> dayNumber e = dayNumber s + n"
proof -
  obtain y m d where a: "acceptedDate y m d" and s: "s = isoDate y m d" using assms(1) by (rule normalizeDateOnlyE)
  let ?n = "dayOfDate y m d + n"
  obtain y' m' d' where dd: "dateOfDay ?n = (y', m', d')" by (cases "dateOfDay ?n") auto
  have y': "yearFromDay ?n = y'" using fst_dateOfDay [of ?n] dd by simp
  have lower: "100 \<le> y'" using yearFromDay_mono [of "dayOfDate y m d" ?n] yearFromDay_accepted [OF a] y' a assms(3)
    by (auto simp: acceptedDate_def)
  have "y' < 10001"
  proof -
    have "dayOfDate y m d < dayFromYear (y + 1)" using yearFromDay_bounds [of "dayOfDate y m d"] yearFromDay_accepted [OF a] by simp
    moreover have "dayFromYear (y + 1) \<le> dayFromYear 10000" using a by (simp add: acceptedDate_def dayFromYear_le)
    moreover have "dayFromYear 10001 = dayFromYear 10000 + 366" by (simp add: dayFromYear_def)
    moreover have "dayFromYear y' \<le> ?n" using yearFromDay_bounds [of ?n] y' by simp
    ultimately have "dayFromYear y' < dayFromYear 10001" using assms(4) by linarith
    then show ?thesis using dayFromYear_le by (metis linorder_not_le)
  qed
  moreover have "y' \<noteq> 10000" using late_date_rejected [OF a] assms(2) s y' by metis
  ultimately have upper: "y' \<le> 9999" by linarith
  have a': "acceptedDate y' m' d'" using dateOfDay_valid(1) [OF dd] lower upper by (simp add: acceptedDate_def)
  have "addDateDays s n = isoDate y' m' d'" using addDateDays_accepted [OF a dd] lower upper s by simp
  then show ?thesis
    using assms(2) a' s dateOfDay_valid(2) [OF dd] dayNumber_accepted [OF a] dayNumber_accepted [OF a'] by auto
qed

text \<open>
  Property C25.  The boundaries of a payroll period: its local dates are accepted dates that are exactly one cadence
  apart and both aligned with the anchor, and its two instants show local midnight of these dates in
  the policy's zone.
\<close>

theorem payrollPeriodBoundaries_correct:
  assumes "payrollPeriodBoundaries E v policyZone cad anchor = ok b"
  shows "pb_localStartDate b = trim v
    \<and> normalizeDateOnly (pb_localEndDateExclusive b) ''date'' = ok (pb_localEndDateExclusive b)
    \<and> dayNumber (pb_localEndDateExclusive b) = dayNumber (pb_localStartDate b) + cadenceDays cad
    \<and> (\<exists>a. normalizeDateOnly anchor ''anchorDate'' = ok a
         \<and> cadenceDays cad dvd dayNumber (pb_localStartDate b) - dayNumber a
         \<and> cadenceDays cad dvd dayNumber (pb_localEndDateExclusive b) - dayNumber a)
    \<and> (\<exists>z. e_zone E (trim policyZone) = Some z
         \<and> partsUtc (z (pb_startsAt b)) = dayNumber (pb_localStartDate b) * msPerDay
         \<and> partsUtc (z (pb_endsAt b)) = dayNumber (pb_localEndDateExclusive b) * msPerDay)"
proof -
  obtain s tz where s: "normalizeDateOnly v ''localStartDate'' = ok s" and tz: "normalizeTimeZone E policyZone = ok tz"
    and al: "assertPayrollAnchorAlignment s anchor cad = ok ()"
    and loc: "pb_localStartDate b = s" "pb_localEndDateExclusive b = addDateDays s (cadenceDays cad)"
    and st: "localDateBoundaryUtc E s tz = ok (pb_startsAt b)"
    and en: "localDateBoundaryUtc E (addDateDays s (cadenceDays cad)) tz = ok (pb_endsAt b)"
    using assms by (rule payrollPeriodBoundaries_ok)
  have tz': "tz = trim policyZone" using tz by (auto simp: normalizeTimeZone_def Let_def split: if_splits option.splits)
  obtain e where e: "normalizeDateOnly (addDateDays s (cadenceDays cad)) ''date'' = ok e"
    using en by (auto simp: localDateBoundaryUtc_def bindR_ok)
  have ee: "e = addDateDays s (cadenceDays cad)" "dayNumber e = dayNumber s + cadenceDays cad"
    using boundary_end_accepted [OF s e] by (cases cad; simp)+
  obtain a where a: "normalizeDateOnly anchor ''anchorDate'' = ok a" "cadenceDays cad dvd dayNumber s - dayNumber a"
    using al normalizeDateOnly_idem [OF s] by (auto simp: assertPayrollAnchorAlignment_ok)
  have al2: "cadenceDays cad dvd dayNumber e - dayNumber a"
    using a(2) ee(2) by (metis add_diff_eq diff_add_eq dvd_add dvd_refl)
  have mid: "partsUtc \<lparr> lp_year = y, lp_month = m, lp_day = d, lp_hour = 0, lp_minute = 0, lp_second = 0 \<rparr> = dayNumber (isoDate y m d) * msPerDay"
    if "acceptedDate y m d" for y m d
    using that by (simp add: partsUtc_def dateUTC_accepted dayNumber_accepted)
  have tr: "trim s = s" "trim e = e" using s e normalizeDateOnly_ok trim_idem by metis+
  obtain z where z: "e_zone E tz = Some z" and p1: "partsUtc (z (pb_startsAt b)) = dayNumber s * msPerDay"
    using st by (rule localDateBoundary_ok) (use mid tr in auto)
  moreover have "partsUtc (z (pb_endsAt b)) = dayNumber e * msPerDay"
    using en by (rule localDateBoundary_ok) (use mid tr z ee in auto)
  moreover have "s = trim v" using s by (simp add: normalizeDateOnly_ok)
  ultimately show ?thesis using loc ee e a al2 tz' by auto
qed

lemma sample_boundary_starts:
  "normalizeDateOnly ''2024-03-04'' ''date'' = ok ''2024-03-04''"
  "splitDate ''2024-03-04'' = (2024, 3, 4)"
  "dateUTC 2024 2 4 0 0 0 = 1709510400000"
  "boundaryGuess 4 sampleEnv ''America/New_York'' 1709510400000 1709510400000 = ok 1709528400000"
  "zonedParts sampleEnv 1709528400000 ''America/New_York'' =
     ok \<lparr> lp_year = 2024, lp_month = 3, lp_day = 4, lp_hour = 0, lp_minute = 0, lp_second = 0 \<rparr>"
  by code_simp+

lemma sample_boundary_ends:
  "normalizeDateOnly ''2024-03-18'' ''date'' = ok ''2024-03-18''"
  "splitDate ''2024-03-18'' = (2024, 3, 18)"
  "dateUTC 2024 2 18 0 0 0 = 1710720000000"
  "boundaryGuess 4 sampleEnv ''America/New_York'' 1710720000000 1710720000000 = ok 1710734400000"
  "zonedParts sampleEnv 1710734400000 ''America/New_York'' =
     ok \<lparr> lp_year = 2024, lp_month = 3, lp_day = 18, lp_hour = 0, lp_minute = 0, lp_second = 0 \<rparr>"
  by code_simp+

lemma sample_dates:
  "normalizeDateOnly ''2024-03-04'' ''localStartDate'' = ok ''2024-03-04''"
  "normalizeDateOnly ''2024-03-11'' ''localStartDate'' = ok ''2024-03-11''"
  "addDateDays ''2024-03-04'' 7 = ''2024-03-11''"
  "addDateDays ''2024-03-11'' 7 = ''2024-03-18''"
  "normalizeTimeZone sampleEnv ''America/New_York'' = ok ''America/New_York''"
  "normalizeDateOnly ''2024-01-01'' ''anchorDate'' = ok ''2024-01-01''"
  "dayNumber ''2024-01-01'' = 19723"
  "dayNumber ''2024-03-04'' = 19786"
  "dayNumber ''2024-03-11'' = 19793"
  by code_simp+

lemma sample_alignments:
  "assertPayrollAnchorAlignment ''2024-03-04'' ''2024-01-01'' WEEKLY = ok ()"
  "assertPayrollAnchorAlignment ''2024-03-11'' ''2024-01-01'' WEEKLY = ok ()"
  by (simp_all add: assertPayrollAnchorAlignment_def sample_dates positiveModulo_mod)

lemma sample_period_one:
  "payrollPeriodBoundaries sampleEnv ''2024-03-04'' ''America/New_York'' WEEKLY ''2024-01-01'' =
     ok \<lparr> pb_localStartDate = ''2024-03-04'', pb_localEndDateExclusive = ''2024-03-11'',
          pb_startsAt = 1709528400000, pb_endsAt = 1710129600000 \<rparr>"
  by (simp add: payrollPeriodBoundaries_def localDateBoundaryUtc_def sample_dates sample_alignments sample_boundary_run sample_boundary_starts)

lemma sample_period_two:
  "payrollPeriodBoundaries sampleEnv ''2024-03-11'' ''America/New_York'' WEEKLY ''2024-01-01'' =
     ok \<lparr> pb_localStartDate = ''2024-03-11'', pb_localEndDateExclusive = ''2024-03-18'',
          pb_startsAt = 1710129600000, pb_endsAt = 1710734400000 \<rparr>"
  by (simp add: payrollPeriodBoundaries_def localDateBoundaryUtc_def sample_dates sample_alignments sample_boundary_run sample_boundary_ends)

theorem payrollPeriodBoundaries_correct_witness:
  "payrollPeriodBoundaries sampleEnv ''2024-03-04'' ''America/New_York'' WEEKLY ''2024-01-01'' =
     ok \<lparr> pb_localStartDate = ''2024-03-04'', pb_localEndDateExclusive = ''2024-03-11'',
          pb_startsAt = 1709528400000, pb_endsAt = 1710129600000 \<rparr>
   \<and> dayNumber ''2024-03-11'' = dayNumber ''2024-03-04'' + cadenceDays WEEKLY"
  using payrollPeriodBoundaries_correct [OF sample_period_one] sample_period_one by simp

text \<open>
  Property C26.  Consecutive periods abut: when one period ends on the local date on which the next begins, under the
  same zone, cadence and anchor, the end instant of the first is the start instant of the second,
  so no instant is paid twice or lost between them.
\<close>

theorem consecutive_periods_abut:
  assumes "payrollPeriodBoundaries E v policyZone cad anchor = ok b"
    and "payrollPeriodBoundaries E (pb_localEndDateExclusive b) policyZone cad anchor = ok b'"
  shows "pb_startsAt b' = pb_endsAt b \<and> pb_localStartDate b' = pb_localEndDateExclusive b"
proof -
  obtain s tz where 1: "normalizeTimeZone E policyZone = ok tz" "pb_localEndDateExclusive b = addDateDays s (cadenceDays cad)"
    "localDateBoundaryUtc E (addDateDays s (cadenceDays cad)) tz = ok (pb_endsAt b)"
    using assms(1) by (rule payrollPeriodBoundaries_ok)
  obtain s' tz' where 2: "normalizeDateOnly (pb_localEndDateExclusive b) ''localStartDate'' = ok s'"
    "normalizeTimeZone E policyZone = ok tz'" "pb_localStartDate b' = s'" "localDateBoundaryUtc E s' tz' = ok (pb_startsAt b')"
    using assms(2) by (rule payrollPeriodBoundaries_ok)
  have "s' = pb_localEndDateExclusive b"
    using payrollPeriodBoundaries_correct [OF assms(1)] 2(1) normalizeDateOnly_ok by (metis Inr_inject)
  then show ?thesis using 1 2 by simp
qed

theorem consecutive_periods_abut_witness:
  "\<exists>b b'. payrollPeriodBoundaries sampleEnv ''2024-03-04'' ''America/New_York'' WEEKLY ''2024-01-01'' = ok b
     \<and> payrollPeriodBoundaries sampleEnv (pb_localEndDateExclusive b) ''America/New_York'' WEEKLY ''2024-01-01'' = ok b'
     \<and> pb_startsAt b' = pb_endsAt b"
  using consecutive_periods_abut [OF sample_period_one] sample_period_one sample_period_two by simp

text \<open>
  \<open>parseInstant\<close> accepts exactly the texts \<open>toISOString\<close> prints, and returns the instant printed.
\<close>

lemma parseInstant_exact: "parseInstant v field = ok t \<longleftrightarrow> v = toISOString t \<and> isTimeValue t"
  using dateParse_toISOString dateParse_valid
  by (auto simp: parseInstant_def split: option.splits if_splits)

text \<open>
  Property C39.  \<open>payrollWorkedMinutes\<close> returns exactly the whole minutes between clock-in and clock-out less the break,
  never negative, and fails exactly when the shift is empty, a value is out of range, or the
  break exceeds the shift.
\<close>

theorem payrollWorkedMinutes_exact:
  "payrollWorkedMinutes (Some clockIn) (Some clockOut) brk = ok n \<longleftrightarrow>
     clockIn < clockOut \<and> 0 \<le> brk \<and> isSafeInteger brk \<and> isSafeInteger (n + brk) \<and> 0 \<le> n
     \<and> 60000 * (n + brk) \<le> clockOut - clockIn \<and> clockOut - clockIn < 60000 * (n + brk + 1)"
proof -
  have "floorMinutes (clockOut - clockIn) = n + brk \<longleftrightarrow>
      60000 * (n + brk) \<le> clockOut - clockIn \<and> clockOut - clockIn < 60000 * (n + brk + 1)"
    using floorMinutes_bounds [of "clockOut - clockIn"] by auto
  then show ?thesis
    by (auto simp: payrollWorkedMinutes_def requiredDate_def Let_def)
qed

end
