(* ===== verification/PayrollEvidence.thy ===== *)
theory PayrollEvidence
  imports PayrollDomain
begin

text \<open>
  The evidence functions of \<open>payroll/domain.ts\<close>: the snapshot a lock freezes and its digests, the
  lines and the CSV file of an export, and the payloads of reconciliation.
\<close>

section \<open>Locked snapshots\<close>

definition payrollLockAggregateSha256 :: "env \<Rightarrow> string \<Rightarrow> string \<Rightarrow> string list \<Rightarrow> int \<Rightarrow> string result" where
  "payrollLockAggregateSha256 E tenantId periodId entryHashes totalPayableMinutes =
     (if \<not> isSafeInteger totalPayableMinutes \<or> list_ex (\<lambda>h. \<not> isDigest h) entryHashes then err Thrown
      else ok (sha256 E (JObj
        [(''body'', JObj [(''count'', JNum (int (length entryHashes))),
                         (''entryHashes'', JArr (map JStr entryHashes)),
                         (''totalPayableMinutes'', JNum totalPayableMinutes)]),
         (''operation'', JStr ''LOCK_AGGREGATE''), (''periodId'', JStr periodId), (''tenantId'', JStr tenantId)])))"

text \<open>
  The order of a snapshot: employee, clock-in, kind of source, source.  Where a clock-in is not a
  date the comparison of the source throws; here the ordering goes on with 0 and the exception
  is raised by the normalization that follows, so the whole function throws in the same cases.
\<close>

definition clockKey :: "jsdate \<Rightarrow> int" where
  "clockKey d = (case d of None \<Rightarrow> 0 | Some t \<Rightarrow> t)"

definition snapshotOrder :: "lockedEntrySource \<Rightarrow> lockedEntrySource \<Rightarrow> bool" where
  "snapshotOrder =
     thenCompare (byKey ls_employeeId)
       (thenCompare (byKey (\<lambda>s. clockKey (ls_clockInAt s)))
         (thenCompare (byKey (\<lambda>s. sourceTypeText (ls_sourceType s))) (byKey ls_sourceId)))"

definition intervalText :: "jsdate \<times> jsdate \<Rightarrow> (string \<times> string) result" where
  "intervalText i =
     bindR (requiredDate (fst i)) (\<lambda>s. bindR (requiredDate (snd i)) (\<lambda>e. ok (toISOString s, toISOString e)))"

definition normalizedSource :: "lockedEntrySource \<Rightarrow> json result" where
  "normalizedSource s =
     bindR (requiredDate (ls_clockInAt s)) (\<lambda>clockIn.
     bindR (requiredDate (ls_clockOutAt s)) (\<lambda>clockOut.
     bindR (requiredDate (ls_approvedAt s)) (\<lambda>approved.
     bindR (mapR intervalText (ls_breakIntervals s)) (\<lambda>intervals.
       ok (JObj
         [(''sourceType'', JStr (sourceTypeText (ls_sourceType s))),
          (''sourceId'', JStr (ls_sourceId s)),
          (''sourceRevision'', JNum (ls_sourceRevision s)),
          (''employeeId'', JStr (ls_employeeId s)),
          (''locationId'', nullable JStr (ls_locationId s)),
          (''workTimeZone'', JStr (ls_workTimeZone s)),
          (''clockInAt'', jInstant clockIn),
          (''clockOutAt'', jInstant clockOut),
          (''breakMinutes'', JNum (ls_breakMinutes s)),
          (''payableMinutes'', JNum (ls_payableMinutes s)),
          (''approvedAt'', jInstant approved),
          (''approvedByUserId'', JStr (ls_approvedByUserId s)),
          (''breakIntervals'', JArr (map (\<lambda>(a, b). JObj [(''startAt'', JStr a), (''endAt'', JStr b)])
             (sortBy (thenCompare (byKey fst) (byKey snd)) intervals)))])))))"

record lockedEntry =
  le_source :: lockedEntrySource
  le_sequence :: nat
  le_canonicalSha256 :: string

record snapshot =
  sn_entries :: "lockedEntry list"
  sn_aggregateSha256 :: string
  sn_totalPayableMinutes :: int

definition snapshotEntry :: "env \<Rightarrow> string \<Rightarrow> string \<Rightarrow> nat \<times> lockedEntrySource \<Rightarrow> lockedEntry result" where
  "snapshotEntry E tenantId periodId e =
     bindR (normalizedSource (snd e)) (\<lambda>body.
       ok \<lparr> le_source = snd e, le_sequence = fst e,
            le_canonicalSha256 = sha256 E (JObj
              [(''body'', body), (''operation'', JStr ''LOCK_ENTRY''),
               (''periodId'', JStr periodId), (''tenantId'', JStr tenantId)]) \<rparr>)"

fun payableTotal :: "int \<Rightarrow> int list \<Rightarrow> int result" where
  "payableTotal acc [] = ok acc"
| "payableTotal acc (n # ns) =
     (if \<not> isSafeInteger (acc + n) then err Thrown else payableTotal (acc + n) ns)"

definition materializeLockedSnapshots :: "env \<Rightarrow> string \<Rightarrow> string \<Rightarrow> lockedEntrySource list \<Rightarrow> snapshot result" where
  "materializeLockedSnapshots E tenantId periodId sources =
     bindR (mapR (snapshotEntry E tenantId periodId) (enumerate 0 (sortBy snapshotOrder sources))) (\<lambda>entries.
     bindR (payableTotal 0 (map (\<lambda>e. ls_payableMinutes (le_source e)) entries)) (\<lambda>total.
     bindR (payrollLockAggregateSha256 E tenantId periodId (map le_canonicalSha256 entries) total) (\<lambda>aggregate.
       ok \<lparr> sn_entries = entries, sn_aggregateSha256 = aggregate, sn_totalPayableMinutes = total \<rparr>)))"

section \<open>Export lines and the CSV file\<close>

definition payrollExportLineSha256 :: "env \<Rightarrow> string \<Rightarrow> string \<Rightarrow> string \<Rightarrow> csvLine \<Rightarrow> string result" where
  "payrollExportLineSha256 E tenantId batchId lockedEntryId line =
     bindR (requiredDate (cl_clockInAt line)) (\<lambda>clockIn.
     bindR (requiredDate (cl_clockOutAt line)) (\<lambda>clockOut.
       ok (sha256 E (JObj
         [(''body'', JObj
            [(''batchId'', JStr batchId),
             (''lockedEntryId'', JStr lockedEntryId),
             (''id'', JStr (cl_id line)),
             (''lineNumber'', JNum (cl_lineNumber line)),
             (''sourceType'', JStr (sourceTypeText (cl_sourceType line))),
             (''sourceId'', JStr (cl_sourceId line)),
             (''employeeId'', JStr (cl_employeeId line)),
             (''locationId'', nullable JStr (cl_locationId line)),
             (''workTimeZone'', JStr (cl_workTimeZone line)),
             (''clockInAt'', jInstant clockIn),
             (''clockOutAt'', jInstant clockOut),
             (''breakMinutes'', JNum (cl_breakMinutes line)),
             (''payableMinutes'', JNum (cl_payableMinutes line))]),
          (''operation'', JStr ''EXPORT_LINE''), (''tenantId'', JStr tenantId)]))))"

definition unsignedIntegerCell :: "int \<Rightarrow> string result" where
  "unsignedIntegerCell n = (if \<not> isSafeInteger n \<or> n < 0 then err Thrown else ok (showInt n))"

definition signedIntegerCell :: "int \<Rightarrow> string result" where
  "signedIntegerCell n = (if \<not> isSafeInteger n then err Thrown else ok (showInt n))"

text \<open>\<open>`"${cell.replace(/"/g, '""')}"`\<close>.\<close>

definition csvCell :: "string \<Rightarrow> string" where
  "csvCell s = CHR 0x22 # concat (map (\<lambda>c. if c = CHR 0x22 then [c, c] else [c]) s) @ [CHR 0x22]"

definition csvHeader :: string where
  "csvHeader = ''payroll_line_id,source_type,source_id,employee_id,location_id,work_time_zone,clock_in_utc,clock_out_utc,break_minutes,payable_minutes''"

definition csvCells :: "csvLine \<Rightarrow> string list result" where
  "csvCells line =
     bindR (requiredDate (cl_clockInAt line)) (\<lambda>clockIn.
     bindR (requiredDate (cl_clockOutAt line)) (\<lambda>clockOut.
     bindR (unsignedIntegerCell (cl_breakMinutes line)) (\<lambda>breakCell.
     bindR (signedIntegerCell (cl_payableMinutes line)) (\<lambda>payableCell.
       ok [cl_id line, sourceTypeText (cl_sourceType line), cl_sourceId line, cl_employeeId line,
           (case cl_locationId line of None \<Rightarrow> [] | Some l \<Rightarrow> l), cl_workTimeZone line,
           toISOString clockIn, toISOString clockOut, breakCell, payableCell]))))"

definition csvRow :: "csvLine \<Rightarrow> string result" where
  "csvRow line = bindR (csvCells line) (\<lambda>cells. ok (joinText '','' (map csvCell cells)))"

definition lineOrder :: "csvLine \<Rightarrow> csvLine \<Rightarrow> bool" where
  "lineOrder = thenCompare (byKey cl_lineNumber) (byKey cl_id)"

definition newline :: string where "newline = [CHR 0x0A]"

definition buildPayrollCsv :: "csvLine list \<Rightarrow> string result" where
  "buildPayrollCsv lines =
     (let ordered = sortBy lineOrder lines
      in bindR (eachR (\<lambda>(i, line). checkR (cl_lineNumber line = int i + 1) Thrown) (enumerate 0 ordered)) (\<lambda>_.
         bindR (mapR csvRow ordered) (\<lambda>rows.
           ok (csvHeader @ newline @ (if rows \<noteq> [] then joinText newline rows @ newline else [])))))"

definition payrollContentSha256 :: "env \<Rightarrow> string \<Rightarrow> string" where
  "payrollContentSha256 E v = e_sha E v"

section \<open>Reconciliation payloads\<close>

record reconciliationRequest =
  rr_provider :: string
  rr_providerEventId :: string
  rr_providerTotalMinutes :: int
  rr_outcomes :: "outcome list"

definition normalizeOutcome :: "outcome \<Rightarrow> outcome result" where
  "normalizeOutcome oc =
     bindR (requireId (Some (oc_lineId oc)) ''lineId'') (\<lambda>lineId.
     bindR (case oc_reason oc of
              None \<Rightarrow> ok None
            | Some r \<Rightarrow> bindR (boundedText r ''reason'' 500) (\<lambda>t. ok (Some t))) (\<lambda>reason.
       ok \<lparr> oc_lineId = lineId, oc_status = oc_status oc, oc_reason = reason \<rparr>))"

definition normalizeReconciliation :: "reconciliationRequest \<Rightarrow> reconciliationPayload result" where
  "normalizeReconciliation v =
     bindR (boundedText (rr_provider v) ''provider'' 100) (\<lambda>provider.
     bindR (boundedText (rr_providerEventId v) ''providerEventId'' 200) (\<lambda>providerEventId.
     bindR (checkR (isSafeInteger (rr_providerTotalMinutes v)) (Problem 422 ''invalid_payroll_provider_total'')) (\<lambda>_.
     bindR (checkR (\<not> (length (rr_outcomes v) < 1 \<or> MAX_RECONCILIATION_OUTCOMES < length (rr_outcomes v)))
       (Problem 422 ''invalid_payroll_outcomes'')) (\<lambda>_.
     bindR (mapR normalizeOutcome (rr_outcomes v)) (\<lambda>normalized.
     let outcomes = sortBy (byKey oc_lineId) normalized
     in bindR (checkR (length (jsSet (map oc_lineId outcomes)) = length outcomes)
          (Problem 422 ''duplicate_payroll_outcomes'')) (\<lambda>_.
        ok \<lparr> rp_provider = provider, rp_providerEventId = providerEventId,
             rp_providerTotalMinutes = rr_providerTotalMinutes v, rp_outcomes = outcomes \<rparr>))))))"

definition payloadJson :: "reconciliationPayload \<Rightarrow> json" where
  "payloadJson p = JObj
     [(''provider'', JStr (rp_provider p)), (''providerEventId'', JStr (rp_providerEventId p)),
      (''providerTotalMinutes'', JNum (rp_providerTotalMinutes p)),
      (''outcomes'', JArr (map (\<lambda>oc. JObj
         [(''lineId'', JStr (oc_lineId oc)), (''status'', JStr (lineStatusText (oc_status oc))),
          (''reason'', nullable JStr (oc_reason oc))]) (rp_outcomes p)))]"

definition reconciliationPayloadSha256 :: "env \<Rightarrow> string \<Rightarrow> string \<Rightarrow> string \<Rightarrow> reconciliationPayload \<Rightarrow> string" where
  "reconciliationPayloadSha256 E tenantId actorUserId batchId payload = sha256 E (JObj
     [(''actorUserId'', JStr actorUserId), (''body'', payloadJson payload), (''operation'', JStr ''RECONCILE''),
      (''batchId'', JStr batchId), (''tenantId'', JStr tenantId)])"

record reconciliationCounts =
  rc_acceptedCount :: nat
  rc_rejectedCount :: nat
  rc_pendingCount :: nat

definition reconciliationCountsOf :: "reconciliationPayload \<Rightarrow> reconciliationCounts" where
  "reconciliationCountsOf p =
     \<lparr> rc_acceptedCount = length (filter (\<lambda>oc. oc_status oc = LINE_ACCEPTED) (rp_outcomes p)),
       rc_rejectedCount = length (filter (\<lambda>oc. oc_status oc = LINE_REJECTED) (rp_outcomes p)),
       rc_pendingCount = length (filter (\<lambda>oc. oc_status oc = LINE_PENDING) (rp_outcomes p)) \<rparr>"

section \<open>Lemmas on snapshots\<close>

interpretation snapshot_order: comparator snapshotOrder
  unfolding snapshotOrder_def by (intro comparator_thenCompare comparator_byKey)

interpretation line_order: comparator lineOrder
  unfolding lineOrder_def by (intro comparator_thenCompare comparator_byKey)

interpretation outcome_order: comparator "byKey oc_lineId"
  by (rule comparator_byKey)

lemma sourceTypeText_inj: "sourceTypeText a = sourceTypeText b \<Longrightarrow> a = b"
  by (cases a; cases b) simp_all

lemma snapshotOrder_ties:
  "snapshotOrder x y \<Longrightarrow> snapshotOrder y x \<Longrightarrow> ls_sourceType x = ls_sourceType y \<and> ls_sourceId x = ls_sourceId y"
  by (auto simp: snapshotOrder_def thenCompare_def byKey_def intro!: sourceTypeText_inj)

lemma payableTotal_ok: "payableTotal acc ns = ok n \<Longrightarrow> n = acc + sum_list ns \<and> (ns \<noteq> [] \<longrightarrow> isSafeInteger n)"
proof (induction ns arbitrary: acc)
  case (Cons k ks)
  then have "payableTotal (acc + k) ks = ok n" "isSafeInteger (acc + k)" by (auto split: if_splits)
  then show ?case using Cons.IH [of "acc + k"] by (cases ks) auto
qed simp

lemma snapshotEntry_ok:
  "snapshotEntry E tenantId periodId e = ok x \<Longrightarrow> le_source x = snd e \<and> le_sequence x = fst e"
  by (auto simp: snapshotEntry_def bindR_ok)

lemma materializeE:
  assumes "materializeLockedSnapshots E tenantId periodId sources = ok sn"
  obtains "mapR (snapshotEntry E tenantId periodId) (enumerate 0 (sortBy snapshotOrder sources)) = ok (sn_entries sn)"
    "payableTotal 0 (map (\<lambda>e. ls_payableMinutes (le_source e)) (sn_entries sn)) = ok (sn_totalPayableMinutes sn)"
    "payrollLockAggregateSha256 E tenantId periodId (map le_canonicalSha256 (sn_entries sn)) (sn_totalPayableMinutes sn)
       = ok (sn_aggregateSha256 sn)"
  using assms by (auto simp: materializeLockedSnapshots_def bindR_ok)

lemma materialize_sources:
  assumes "materializeLockedSnapshots E tenantId periodId sources = ok sn"
  shows "map le_source (sn_entries sn) = sortBy snapshotOrder sources"
    and "map le_sequence (sn_entries sn) = [0..<length sources]"
proof -
  from assms have m: "mapR (snapshotEntry E tenantId periodId) (enumerate 0 (sortBy snapshotOrder sources)) = ok (sn_entries sn)"
    by (rule materializeE)
  have "map le_source (sn_entries sn) = map snd (enumerate 0 (sortBy snapshotOrder sources))"
    using m by (rule mapR_map_same) (auto dest: snapshotEntry_ok)
  then show "map le_source (sn_entries sn) = sortBy snapshotOrder sources" by simp
  have "map le_sequence (sn_entries sn) = map fst (enumerate 0 (sortBy snapshotOrder sources))"
    using m by (rule mapR_map_same) (auto dest: snapshotEntry_ok)
  then show "map le_sequence (sn_entries sn) = [0..<length sources]" by simp
qed

lemma materialize_length: "materializeLockedSnapshots E tenantId periodId sources = ok sn \<Longrightarrow> length (sn_entries sn) = length sources"
  using materialize_sources(1) by (metis length_map length_sortBy)

lemma materialize_total:
  assumes "materializeLockedSnapshots E tenantId periodId sources = ok sn"
  shows "sn_totalPayableMinutes sn = sum_list (map ls_payableMinutes sources)"
proof -
  have "payableTotal 0 (map (\<lambda>e. ls_payableMinutes (le_source e)) (sn_entries sn)) = ok (sn_totalPayableMinutes sn)"
    using assms by (rule materializeE)
  then have "sn_totalPayableMinutes sn = sum_list (map ls_payableMinutes (map le_source (sn_entries sn)))"
    by (auto simp: comp_def dest: payableTotal_ok)
  then show ?thesis by (simp add: materialize_sources(1) [OF assms])
qed

lemma materialize_safe: "materializeLockedSnapshots E tenantId periodId sources = ok sn \<Longrightarrow> isSafeInteger (sn_totalPayableMinutes sn)"
  by (erule materializeE) (auto simp: payrollLockAggregateSha256_def split: if_splits)

section \<open>Reading the CSV file back\<close>

text \<open>
  A reader of comma-separated files in the sense of RFC 4180, for files whose cells are all quoted, as
  the abstract specification of the file \<open>buildPayrollCsv\<close> writes.  \<open>readQuoted\<close> reads the rest of a cell
  whose opening quote has been read.
\<close>

fun readQuoted :: "string \<Rightarrow> (string \<times> string) option" where
  "readQuoted [] = None"
| "readQuoted (c # s) =
     (if c = CHR 0x22 then
        (case s of
           [] \<Rightarrow> Some ([], [])
         | d # t \<Rightarrow> if d = CHR 0x22 then (case readQuoted t of None \<Rightarrow> None | Some (cell, rest) \<Rightarrow> Some (c # cell, rest))
                   else Some ([], s))
      else (case readQuoted s of None \<Rightarrow> None | Some (cell, rest) \<Rightarrow> Some (c # cell, rest)))"

lemma readQuoted_cons:
  "readQuoted (c # s) = Some (cell, rest) \<Longrightarrow>
     (rest = s) \<or> (\<exists>cell' t. readQuoted t = Some (cell', rest) \<and> length t < length (c # s) \<and> (t = s \<or> t = tl s))"
  by (auto split: if_splits list.splits option.splits prod.splits) force

lemma readQuoted_shorter: "readQuoted s = Some (cell, rest) \<Longrightarrow> length rest < length s"
proof (induction "length s" arbitrary: s cell rest rule: less_induct)
  case less
  show ?case
  proof (cases s)
    case Nil
    then show ?thesis using less.prems by simp
  next
    case (Cons c t)
    then show ?thesis using readQuoted_cons [of c t cell rest] less.prems less.hyps by fastforce
  qed
qed

text \<open>The cells of a row up to the line feed that ends it, and the rows of a file.\<close>

function readRow :: "string \<Rightarrow> (string list \<times> string) option" where
  "readRow s =
     (case s of
        [] \<Rightarrow> None
      | c # t \<Rightarrow>
          if c \<noteq> CHR 0x22 then None
          else (case readQuoted t of
                  None \<Rightarrow> None
                | Some (cell, rest) \<Rightarrow>
                    (case rest of
                       [] \<Rightarrow> None
                     | d # r \<Rightarrow>
                         if d = CHR 0x0A then Some ([cell], r)
                         else if d = CHR '','' then (case readRow r of None \<Rightarrow> None | Some (cells, u) \<Rightarrow> Some (cell # cells, u))
                         else None)))"
  by auto

termination readRow
  by (relation "measure length") (auto dest!: readQuoted_shorter)

declare readRow.simps [simp del]

lemma readRow_shorter: "readRow s = Some (cells, rest) \<Longrightarrow> length rest < length s"
proof (induction s arbitrary: cells rest rule: readRow.induct)
  case (1 s)
  then show ?case
    by (subst (asm) (2) readRow.simps)
      (auto split: list.splits if_splits option.splits prod.splits dest!: readQuoted_shorter, fastforce)
qed

function readRows :: "string \<Rightarrow> string list list option" where
  "readRows s =
     (if s = [] then Some []
      else (case readRow s of
              None \<Rightarrow> None
            | Some (cells, rest) \<Rightarrow> (case readRows rest of None \<Rightarrow> None | Some rows \<Rightarrow> Some (cells # rows))))"
  by auto

termination readRows
  by (relation "measure length") (auto dest!: readRow_shorter)

declare readRows.simps [simp del]

definition readPayrollCsv :: "string \<Rightarrow> string list list option" where
  "readPayrollCsv s =
     (if take (length csvHeader + 1) s = csvHeader @ newline then readRows (drop (length csvHeader + 1) s) else None)"

lemma readQuoted_cell:
  "rest \<noteq> [] \<Longrightarrow> hd rest \<noteq> CHR 0x22 \<Longrightarrow>
     readQuoted (concat (map (\<lambda>c. if c = CHR 0x22 then [c, c] else [c]) s) @ CHR 0x22 # rest) = Some (s, rest)"
  by (induction s) (auto split: list.splits)

lemma readRow_cells:
  "cells \<noteq> [] \<Longrightarrow> readRow (joinText '','' (map csvCell cells) @ CHR 0x0A # rest) = Some (cells, rest)"
proof (induction cells)
  case Nil
  then show ?case by simp
next
  case (Cons c cs)
  show ?case
  proof (cases cs)
    case Nil
    then show ?thesis by (subst readRow.simps) (simp add: csvCell_def readQuoted_cell)
  next
    case (Cons d ds)
    then have "readRow (joinText '','' (map csvCell cs) @ CHR 0x0A # rest) = Some (cs, rest)" using Cons.IH by simp
    then show ?thesis using Cons by (subst readRow.simps) (simp add: csvCell_def readQuoted_cell)
  qed
qed

lemma readRows_rows:
  assumes "\<And>cells. cells \<in> set rows \<Longrightarrow> cells \<noteq> []"
  shows "readRows (concat (map (\<lambda>cells. joinText '','' (map csvCell cells) @ newline) rows)) = Some rows"
  using assms
proof (induction rows)
  case Nil
  then show ?case by (subst readRows.simps) simp
next
  case (Cons cells rows)
  then have "readRows (concat (map (\<lambda>cells. joinText '','' (map csvCell cells) @ newline) rows)) = Some rows" by simp
  moreover have "readRow (joinText '','' (map csvCell cells) @ CHR 0x0A # rest) = Some (cells, rest)" for rest
    using Cons.prems by (intro readRow_cells) simp
  ultimately show ?case by (subst readRows.simps) (simp add: newline_def)
qed

lemma joinText_newline: "rows \<noteq> [] \<Longrightarrow> joinText sep rows @ sep = concat (map (\<lambda>r. r @ sep) rows)"
  by (induction sep rows rule: joinText.induct) auto

lemma csvCells_length: "csvCells line = ok cells \<Longrightarrow> length cells = 10"
  by (auto simp: csvCells_def bindR_ok)

lemma buildPayrollCsvE:
  assumes "buildPayrollCsv lines = ok csv"
  obtains cells where "mapR csvCells (sortBy lineOrder lines) = ok cells"
    "csv = csvHeader @ newline @ concat (map (\<lambda>cs. joinText '','' (map csvCell cs) @ newline) cells)"
    "map cl_lineNumber (sortBy lineOrder lines) = map (\<lambda>i. int i + 1) [0..<length lines]"
proof -
  let ?o = "sortBy lineOrder lines"
  obtain rows where each: "\<forall>(i, l) \<in> set (enumerate 0 ?o). cl_lineNumber l = int i + 1"
    and rows: "mapR csvRow ?o = ok rows"
    and csv: "csv = csvHeader @ newline @ (if rows \<noteq> [] then joinText newline rows @ newline else [])"
    using assms unfolding buildPayrollCsv_def Let_def bindR_ok eachR_ok
    by (auto simp: checkR_ok split: prod.splits)
  have "\<exists>cells. mapR csvCells ls = ok cells \<and> rows' = map (\<lambda>cs. joinText '','' (map csvCell cs)) cells"
    if "mapR csvRow ls = ok rows'" for ls rows'
    using that by (induction ls arbitrary: rows') (auto simp: bindR_ok csvRow_def)
  then obtain cells where c: "mapR csvCells ?o = ok cells" "rows = map (\<lambda>cs. joinText '','' (map csvCell cs)) cells"
    using rows by blast
  have t: "csv = csvHeader @ newline @ concat (map (\<lambda>cs. joinText '','' (map csvCell cs) @ newline) cells)"
    using csv c(2) joinText_newline [of rows newline] by (auto simp: comp_def)
  have "map cl_lineNumber ?o = map (\<lambda>i. int i + 1) [0..<length lines]"
    using each by (intro nth_equalityI) (auto simp: in_set_enumerate_eq)
  then show thesis using that c(1) t by blast
qed

lemma set_enumerate_image: "set (enumerate 0 xs) = (\<lambda>i. (i, xs ! i)) ` {0..<length xs}"
  by (auto simp: in_set_enumerate_eq)

lemma requireId_ok: "requireId (Some v) field = ok s \<longleftrightarrow> s = trim v \<and> s \<noteq> [] \<and> length s \<le> 512 \<and> list_all isPrintable s"
  by (auto simp: requireId_def Let_def)

lemma boundedText_ok: "boundedText v field n = ok s \<longleftrightarrow> s = trim v \<and> s \<noteq> [] \<and> length s \<le> n \<and> \<not> list_ex isControl s"
  by (auto simp: boundedText_def Let_def)

lemma normalizeOutcome_idem: "normalizeOutcome oc = ok x \<Longrightarrow> normalizeOutcome x = ok x"
  by (auto simp: normalizeOutcome_def bindR_ok requireId_ok boundedText_ok split: option.splits)

lemma normalizeReconciliationE:
  assumes "normalizeReconciliation v = ok p"
  obtains xs where "mapR normalizeOutcome (rr_outcomes v) = ok xs" "rp_outcomes p = sortBy (byKey oc_lineId) xs"
    "distinct (map oc_lineId xs)" "1 \<le> length xs" "length xs \<le> MAX_RECONCILIATION_OUTCOMES"
    "boundedText (rr_provider v) ''provider'' 100 = ok (rp_provider p)"
    "boundedText (rr_providerEventId v) ''providerEventId'' 200 = ok (rp_providerEventId p)"
    "isSafeInteger (rr_providerTotalMinutes v)" "rp_providerTotalMinutes p = rr_providerTotalMinutes v"
proof -
  obtain xs where xs: "mapR normalizeOutcome (rr_outcomes v) = ok xs"
    and p: "p = \<lparr> rp_provider = rp_provider p, rp_providerEventId = rp_providerEventId p,
             rp_providerTotalMinutes = rr_providerTotalMinutes v, rp_outcomes = sortBy (byKey oc_lineId) xs \<rparr>"
    and d: "length (jsSet (map oc_lineId (sortBy (byKey oc_lineId) xs))) = length (sortBy (byKey oc_lineId) xs)"
    and n: "\<not> (length (rr_outcomes v) < 1 \<or> MAX_RECONCILIATION_OUTCOMES < length (rr_outcomes v))"
    and t: "boundedText (rr_provider v) ''provider'' 100 = ok (rp_provider p)"
      "boundedText (rr_providerEventId v) ''providerEventId'' 200 = ok (rp_providerEventId p)"
      "isSafeInteger (rr_providerTotalMinutes v)"
    using assms unfolding normalizeReconciliation_def Let_def bindR_ok checkR_ok by auto
  have "distinct (map oc_lineId xs)"
    using d jsSet_size_distinct [of "map oc_lineId (sortBy (byKey oc_lineId) xs)"] by simp
  then show thesis
    using that xs p n t mapR_ok_length [OF xs] by (metis linorder_not_le reconciliationPayload.select_convs(3,4))
qed

section \<open>Properties\<close>


text \<open>
  Property C24.  The snapshot does not depend on the order in which the sources are read from the database: two lists
  of sources with the same elements, none of which repeats a source, give the same entries, digests and
  total, or fail alike.
\<close>

theorem materialize_order_independent:
  assumes "mset xs = mset ys" and "distinct (map (\<lambda>s. (ls_sourceType s, ls_sourceId s)) xs)"
  shows "materializeLockedSnapshots E tenantId periodId xs = materializeLockedSnapshots E tenantId periodId ys"
proof -
  have "sortBy snapshotOrder xs = sortBy snapshotOrder ys"
  proof (rule snapshot_order.sortBy_perm [OF assms(1)])
    fix x y
    assume xy: "x \<in> set xs" "y \<in> set xs" "snapshotOrder x y" "snapshotOrder y x"
    have key: "(ls_sourceType x, ls_sourceId x) = (ls_sourceType y, ls_sourceId y)"
      using snapshotOrder_ties [OF xy(3,4)] by simp
    have "inj_on (\<lambda>s. (ls_sourceType s, ls_sourceId s)) (set xs)" using assms(2) by (simp add: distinct_map)
    from inj_onD [OF this key xy(1,2)] show "x = y" .
  qed
  then show ?thesis by (simp add: materializeLockedSnapshots_def)
qed

text \<open>
  Property C27.  The export file says what the lines say: when \<open>buildPayrollCsv\<close> succeeds, reading the file as CSV gives
  back, row by row in line order, exactly the cells of the lines, and the lines are numbered 1, 2, 3, and so
  on.  Quotes, commas and line feeds inside cells are covered.
\<close>

theorem buildPayrollCsv_roundtrip:
  assumes "buildPayrollCsv lines = ok csv"
  shows "\<exists>cells. mapR csvCells (sortBy lineOrder lines) = ok cells \<and> readPayrollCsv csv = Some cells
    \<and> map cl_lineNumber (sortBy lineOrder lines) = map (\<lambda>i. int i + 1) [0..<length lines]"
  using assms
proof (rule buildPayrollCsvE)
  fix cells
  assume c: "mapR csvCells (sortBy lineOrder lines) = ok cells"
    and csv: "csv = csvHeader @ newline @ concat (map (\<lambda>cs. joinText '','' (map csvCell cs) @ newline) cells)"
    and n: "map cl_lineNumber (sortBy lineOrder lines) = map (\<lambda>i. int i + 1) [0..<length lines]"
  have "cs \<noteq> []" if "cs \<in> set cells" for cs
    using mapR_ok_source [OF c that] csvCells_length by fastforce
  then have "readPayrollCsv csv = Some cells"
    unfolding readPayrollCsv_def csv using readRows_rows by (simp add: newline_def)
  then show ?thesis using c n by blast
qed

text \<open>
  \<open>buildPayrollCsv\<close> succeeds exactly on lines numbered 1 to n without gaps whose dates exist and whose numbers
  are safe integers, the breaks not negative.
\<close>

lemma buildPayrollCsv_total:
  "(\<exists>csv. buildPayrollCsv lines = ok csv) \<longleftrightarrow>
     map cl_lineNumber (sortBy lineOrder lines) = map (\<lambda>i. int i + 1) [0..<length lines]
     \<and> list_all (\<lambda>l. cl_clockInAt l \<noteq> None \<and> cl_clockOutAt l \<noteq> None
          \<and> isSafeInteger (cl_breakMinutes l) \<and> 0 \<le> cl_breakMinutes l \<and> isSafeInteger (cl_payableMinutes l)) lines"
proof -
  have row: "(\<exists>r. csvRow l = ok r) \<longleftrightarrow> cl_clockInAt l \<noteq> None \<and> cl_clockOutAt l \<noteq> None
      \<and> isSafeInteger (cl_breakMinutes l) \<and> 0 \<le> cl_breakMinutes l \<and> isSafeInteger (cl_payableMinutes l)" for l
    by (cases "cl_clockInAt l"; cases "cl_clockOutAt l")
      (auto simp: csvRow_def csvCells_def requiredDate_def unsignedIntegerCell_def signedIntegerCell_def)
  let ?o = "sortBy lineOrder lines"
  let ?each = "eachR (\<lambda>(i, line). checkR (cl_lineNumber line = int i + 1) Thrown) (enumerate 0 ?o)"
  have "?each = ok () \<longleftrightarrow> (\<forall>i \<in> {0..<length ?o}. cl_lineNumber (?o ! i) = int i + 1)"
    by (simp add: eachR_ok set_enumerate_image checkR_ok)
  also have "\<dots> \<longleftrightarrow> (\<forall>i < length ?o. cl_lineNumber (?o ! i) = int i + 1)" by (simp add: Ball_def)
  also have "\<dots> \<longleftrightarrow> map cl_lineNumber ?o = map (\<lambda>i. int i + 1) [0..<length lines]"
    by (subst list_eq_iff_nth_eq) simp
  finally have each: "?each = ok () \<longleftrightarrow> map cl_lineNumber ?o = map (\<lambda>i. int i + 1) [0..<length lines]" .
  have "(\<exists>csv. buildPayrollCsv lines = ok csv) \<longleftrightarrow> ?each = ok () \<and> (\<exists>rs. mapR csvRow ?o = ok rs)"
    unfolding buildPayrollCsv_def Let_def by (cases ?each; cases "mapR csvRow ?o") simp_all
  then show ?thesis unfolding each mapR_ok_ex row by (simp add: list_all_iff)
qed

text \<open>
  Property C28.  A normalized reconciliation payload names between 1 and 500 different lines in strictly ascending order,
  one for each outcome of the request, and its three counts add up to their number; normalizing
  it again changes nothing.
\<close>

theorem normalizeReconciliation_correct:
  assumes "normalizeReconciliation v = ok p"
  shows "sorted_wrt (<) (map oc_lineId (rp_outcomes p))
    \<and> set (map oc_lineId (rp_outcomes p)) = set (map (\<lambda>oc. trim (oc_lineId oc)) (rr_outcomes v))
    \<and> length (rp_outcomes p) = length (rr_outcomes v) \<and> 1 \<le> length (rp_outcomes p) \<and> length (rp_outcomes p) \<le> 500
    \<and> rc_acceptedCount (reconciliationCountsOf p) + rc_rejectedCount (reconciliationCountsOf p)
        + rc_pendingCount (reconciliationCountsOf p) = length (rp_outcomes p)
    \<and> normalizeReconciliation \<lparr> rr_provider = rp_provider p, rr_providerEventId = rp_providerEventId p,
        rr_providerTotalMinutes = rp_providerTotalMinutes p, rr_outcomes = rp_outcomes p \<rparr> = ok p"
  using assms
proof (rule normalizeReconciliationE)
  fix xs
  assume xs: "mapR normalizeOutcome (rr_outcomes v) = ok xs" and rp: "rp_outcomes p = sortBy (byKey oc_lineId) xs"
    and d: "distinct (map oc_lineId xs)" and n: "1 \<le> length xs" "length xs \<le> MAX_RECONCILIATION_OUTCOMES"
    and t: "boundedText (rr_provider v) ''provider'' 100 = ok (rp_provider p)"
      "boundedText (rr_providerEventId v) ''providerEventId'' 200 = ok (rp_providerEventId p)"
      "isSafeInteger (rr_providerTotalMinutes v)" "rp_providerTotalMinutes p = rr_providerTotalMinutes v"
  let ?o = "rp_outcomes p"
  have "sorted (map oc_lineId ?o)"
    using outcome_order.sorted_sortBy [of xs] unfolding rp sorted_wrt_map byKey_def by (simp add: byKey_def [abs_def])
  then have 1: "sorted_wrt (<) (map oc_lineId ?o)" using d by (simp add: rp strict_sorted_iff)
  have "map oc_lineId xs = map (\<lambda>oc. trim (oc_lineId oc)) (rr_outcomes v)"
    using xs by (rule mapR_map_same) (auto simp: normalizeOutcome_def bindR_ok requireId_ok)
  then have 2: "set (map oc_lineId ?o) = set (map (\<lambda>oc. trim (oc_lineId oc)) (rr_outcomes v))"
    by (metis rp set_map set_sortBy)
  have 3: "length ?o = length (rr_outcomes v)" using mapR_ok_length [OF xs] rp by simp
  have 4: "rc_acceptedCount (reconciliationCountsOf p) + rc_rejectedCount (reconciliationCountsOf p)
      + rc_pendingCount (reconciliationCountsOf p) = length ?o"
  proof -
    have "length (filter (\<lambda>oc. oc_status oc = LINE_ACCEPTED) os) + length (filter (\<lambda>oc. oc_status oc = LINE_REJECTED) os)
        + length (filter (\<lambda>oc. oc_status oc = LINE_PENDING) os) = length os" for os :: "outcome list"
    proof (induction os)
      case (Cons oc os)
      then show ?case by (cases "oc_status oc") auto
    qed simp
    then show ?thesis by (simp add: reconciliationCountsOf_def)
  qed
  have "normalizeOutcome x = ok x" if "x \<in> set ?o" for x
    using that rp mapR_ok_source [OF xs] normalizeOutcome_idem by fastforce
  then have 5: "mapR normalizeOutcome ?o = ok (map (\<lambda>x. x) ?o)" by (rule mapR_total)
  have 6: "sortBy (byKey oc_lineId) ?o = ?o" by (simp add: rp outcome_order.sortBy_idem)
  have 7: "length (jsSet (map oc_lineId ?o)) = length ?o" using d rp jsSet_size_distinct [of "map oc_lineId ?o"] by simp
  have 8: "boundedText (rp_provider p) ''provider'' 100 = ok (rp_provider p)"
    "boundedText (rp_providerEventId p) ''providerEventId'' 200 = ok (rp_providerEventId p)"
    using t(1,2) by (auto simp: boundedText_ok)
  have "\<not> (length ?o < 1 \<or> MAX_RECONCILIATION_OUTCOMES < length ?o)" using n by (auto simp: rp)
  then have "normalizeReconciliation \<lparr> rr_provider = rp_provider p, rr_providerEventId = rp_providerEventId p,
      rr_providerTotalMinutes = rp_providerTotalMinutes p, rr_outcomes = ?o \<rparr> = ok p"
    using 5 6 7 8 t(3,4) by (simp add: normalizeReconciliation_def Let_def)
  then show ?thesis using 1 2 3 4 n rp by (simp add: MAX_RECONCILIATION_OUTCOMES_def)
qed

section \<open>Witnesses\<close>

definition sampleSource :: "string \<Rightarrow> string \<Rightarrow> instant \<Rightarrow> int \<Rightarrow> lockedEntrySource" where
  "sampleSource cardId employee start mins =
     \<lparr> ls_sourceType = TIME_CARD, ls_sourceId = cardId, ls_sourceRevision = 2, ls_employeeId = employee, ls_locationId = None,
       ls_workTimeZone = ''UTC'', ls_clockInAt = Some start, ls_clockOutAt = Some (start + 60000 * mins),
       ls_breakMinutes = 0, ls_payableMinutes = mins, ls_approvedAt = Some 1710720000000,
       ls_approvedByUserId = ''manager'', ls_breakIntervals = [] \<rparr>"

definition sampleLine :: "int \<Rightarrow> string \<Rightarrow> csvLine" where
  "sampleLine n employee =
     \<lparr> cl_id = ''line'', cl_lineNumber = n, cl_sourceType = TIME_CARD, cl_sourceId = ''card'', cl_employeeId = employee,
       cl_locationId = None, cl_workTimeZone = ''UTC'', cl_clockInAt = Some 1709528400000, cl_clockOutAt = Some 1709557200000,
       cl_breakMinutes = 30, cl_payableMinutes = 450 \<rparr>"

theorem materialize_order_independent_witness:
  "materializeLockedSnapshots sampleEnv ''t'' ''p'' [sampleSource ''a'' ''eve'' 0 60, sampleSource ''b'' ''ann'' 0 90]
     = materializeLockedSnapshots sampleEnv ''t'' ''p'' [sampleSource ''b'' ''ann'' 0 90, sampleSource ''a'' ''eve'' 0 60]"
  by (rule materialize_order_independent) (simp_all add: sampleSource_def)

lemma sample_snapshot:
  "\<exists>sn. materializeLockedSnapshots sampleEnv ''t'' ''p'' [sampleSource ''a'' ''eve'' 0 60] = ok sn"
proof -
  obtain x where x: "snapshotEntry sampleEnv ''t'' ''p'' (0, sampleSource ''a'' ''eve'' 0 60) = ok x"
    by (simp add: snapshotEntry_def normalizedSource_def sampleSource_def requiredDate_def)
  have "isDigest (sampleSha v)" for v
    using isDigit_fixedDigits [of 64 "foldl (\<lambda>n c. (31 * n + of_char c) mod 1000003) 7 v"]
    by (simp add: sampleSha_def isDigest_def isLowerHex_def list_all_iff)
  then have "isDigest (le_canonicalSha256 x)" using x by (auto simp: snapshotEntry_def bindR_ok canonicalSha256_def sampleEnv_def)
  moreover have "ls_payableMinutes (le_source x) = 60" using snapshotEntry_ok [OF x] by (simp add: sampleSource_def)
  ultimately show ?thesis
    using x by (simp add: materializeLockedSnapshots_def payrollLockAggregateSha256_def isSafeInteger_def MAX_SAFE_INTEGER_def)
qed


theorem buildPayrollCsv_roundtrip_witness:
  "\<exists>csv cells. buildPayrollCsv [sampleLine 1 [CHR ''a'', CHR 0x22, CHR 0x2C]] = ok csv \<and> readPayrollCsv csv = Some cells
     \<and> map (\<lambda>c. c ! 3) cells = [[CHR ''a'', CHR 0x22, CHR 0x2C]]"
proof -
  obtain csv where csv: "buildPayrollCsv [sampleLine 1 [CHR ''a'', CHR 0x22, CHR 0x2C]] = ok csv"
    by (simp add: buildPayrollCsv_def csvRow_def csvCells_def sampleLine_def requiredDate_def unsignedIntegerCell_def
        signedIntegerCell_def isSafeInteger_def MAX_SAFE_INTEGER_def)
  then show ?thesis
    using buildPayrollCsv_roundtrip [OF csv]
    by (auto simp: csvCells_def sampleLine_def bindR_ok)
qed

theorem normalizeReconciliation_correct_witness:
  "\<exists>p. normalizeReconciliation \<lparr> rr_provider = ''acme'', rr_providerEventId = ''e1'', rr_providerTotalMinutes = 450,
       rr_outcomes = [\<lparr> oc_lineId = ''l2'', oc_status = LINE_ACCEPTED, oc_reason = None \<rparr>,
                      \<lparr> oc_lineId = '' l1'', oc_status = LINE_REJECTED, oc_reason = Some ''late'' \<rparr>] \<rparr> = ok p
     \<and> map oc_lineId (rp_outcomes p) = [''l1'', ''l2''] \<and> sorted_wrt (<) (map oc_lineId (rp_outcomes p))"
proof -
  have run: "normalizeReconciliation \<lparr> rr_provider = ''acme'', rr_providerEventId = ''e1'', rr_providerTotalMinutes = 450,
       rr_outcomes = [\<lparr> oc_lineId = ''l2'', oc_status = LINE_ACCEPTED, oc_reason = None \<rparr>,
                      \<lparr> oc_lineId = '' l1'', oc_status = LINE_REJECTED, oc_reason = Some ''late'' \<rparr>] \<rparr>
    = ok \<lparr> rp_provider = ''acme'', rp_providerEventId = ''e1'', rp_providerTotalMinutes = 450,
       rp_outcomes = [\<lparr> oc_lineId = ''l1'', oc_status = LINE_REJECTED, oc_reason = Some ''late'' \<rparr>,
                      \<lparr> oc_lineId = ''l2'', oc_status = LINE_ACCEPTED, oc_reason = None \<rparr>] \<rparr>"
    by code_simp
  then show ?thesis using normalizeReconciliation_correct [OF run] by simp
qed

end
