(* ===== verification/Schema.thy ===== *)
theory Schema
  imports PayrollEvidence
begin

text \<open>
  The tables the modelled services read and write (\<open>packages/db/prisma/schema.prisma\<close>), a record per row
  with the columns the services use, and the database as the lists of rows in insertion order.
  Stored instants are valid, so they are \<open>instant\<close>.  Columns the services never touch are left out.
\<close>

datatype tenantStatus = TENANT_TRIAL | TENANT_ACTIVE | TENANT_PAST_DUE | TENANT_SUSPENDED | TENANT_CANCELLED | TENANT_PURGED

datatype userRole = SUPER_ADMIN | ADMIN | MANAGER | STAFF

datatype periodStatus = PERIOD_OPEN | PERIOD_REVIEW | PERIOD_LOCKED

datatype cardStatus = CARD_OPEN | CARD_CLOSED | CARD_VOID

datatype decision = APPROVED | REJECTED

datatype exportStatus = GENERATED | DOWNLOADED | RECONCILING | RECONCILED

datatype scheduleStatus = SCHEDULE_DRAFT | SCHEDULE_PUBLISHED | SCHEDULE_ARCHIVED

datatype breakType = BREAK1 | LUNCH | BREAK2

datatype generationStatus = GENERATION_PENDING | GENERATION_SUCCEEDED | GENERATION_FAILED

fun userRoleText :: "userRole \<Rightarrow> string" where
  "userRoleText SUPER_ADMIN = ''SUPER_ADMIN''"
| "userRoleText ADMIN = ''ADMIN''"
| "userRoleText MANAGER = ''MANAGER''"
| "userRoleText STAFF = ''STAFF''"

fun periodStatusText :: "periodStatus \<Rightarrow> string" where
  "periodStatusText PERIOD_OPEN = ''OPEN''"
| "periodStatusText PERIOD_REVIEW = ''REVIEW''"
| "periodStatusText PERIOD_LOCKED = ''LOCKED''"

fun cardStatusText :: "cardStatus \<Rightarrow> string" where
  "cardStatusText CARD_OPEN = ''OPEN''"
| "cardStatusText CARD_CLOSED = ''CLOSED''"
| "cardStatusText CARD_VOID = ''VOID''"

fun decisionText :: "decision \<Rightarrow> string" where
  "decisionText APPROVED = ''APPROVED''"
| "decisionText REJECTED = ''REJECTED''"

fun exportStatusText :: "exportStatus \<Rightarrow> string" where
  "exportStatusText GENERATED = ''GENERATED''"
| "exportStatusText DOWNLOADED = ''DOWNLOADED''"
| "exportStatusText RECONCILING = ''RECONCILING''"
| "exportStatusText RECONCILED = ''RECONCILED''"

fun scheduleStatusText :: "scheduleStatus \<Rightarrow> string" where
  "scheduleStatusText SCHEDULE_DRAFT = ''DRAFT''"
| "scheduleStatusText SCHEDULE_PUBLISHED = ''PUBLISHED''"
| "scheduleStatusText SCHEDULE_ARCHIVED = ''ARCHIVED''"

section \<open>Identity and access\<close>

record tenant =
  tn_id :: string
  tn_planTier :: string
  tn_status :: tenantStatus
  tn_stripeSubscriptionId :: "string option"
  tn_stripeSubscriptionCurrentPeriodEnd :: "instant option"
  tn_trialEndsAt :: "instant option"
  tn_usageCredits :: int
  tn_creditDebt :: int
  tn_deletedAt :: "instant option"

record tenantSetting =
  ts_tenantId :: string
  ts_key :: string
  ts_value :: json

record planDefinition =
  pd_code :: string
  pd_metadata :: "json option"

record user =
  us_id :: string
  us_publicId :: string
  us_tenantId :: string
  us_name :: string
  us_username :: "string option"
  us_role :: userRole
  us_mfaEnabled :: bool
  us_pinResetRequired :: bool
  us_pinLockedUntil :: "instant option"
  us_lockedUntil :: "instant option"
  us_suspendedAt :: "instant option"
  us_deletedAt :: "instant option"

record session =
  se_id :: string
  se_userId :: string
  se_createdAt :: instant
  se_expiresAt :: instant
  se_revokedAt :: "instant option"

record role =
  ro_id :: string
  ro_tenantId :: string
  ro_isSystem :: bool
  ro_legacyRole :: "userRole option"
  ro_permissions :: "string list"
  ro_deletedAt :: "instant option"

record roleAssignment =
  ra_tenantId :: string
  ra_userId :: string
  ra_roleId :: string

record location =
  lo_id :: string
  lo_publicId :: string
  lo_tenantId :: string
  lo_name :: string
  lo_timezone :: string
  lo_deletedAt :: "instant option"

section \<open>Schedules\<close>

record schedule =
  sd_id :: string
  sd_publicId :: string
  sd_tenantId :: string
  sd_locationId :: string
  sd_startDate :: instant
  sd_endDate :: instant
  sd_status :: scheduleStatus
  sd_publishedAt :: "instant option"
  sd_revision :: int
  sd_deletedAt :: "instant option"

record shift =
  sh_id :: string
  sh_publicId :: string
  sh_tenantId :: string
  sh_locationId :: string
  sh_scheduleId :: "string option"
  sh_userId :: "string option"
  sh_startTime :: instant
  sh_endTime :: instant
  sh_role :: "string option"
  sh_updatedAt :: instant
  sh_deletedAt :: "instant option"

record shiftBreak =
  br_id :: string
  br_shiftId :: string
  br_type :: "breakType option"
  br_startTime :: instant
  br_endTime :: instant
  br_paid :: bool

record demandWindow =
  dw_id :: string
  dw_publicId :: string
  dw_tenantId :: string
  dw_scheduleId :: string
  dw_locationId :: string
  dw_startTime :: instant
  dw_endTime :: instant
  dw_requiredStaff :: int
  dw_skill :: "string option"

record scheduleChangeSet =
  cs_id :: string
  cs_tenantId :: string
  cs_scheduleId :: string
  cs_actorUserId :: string
  cs_idempotencyKeyHash :: string
  cs_requestHash :: string
  cs_baseRevision :: int
  cs_resultRevision :: int
  cs_request :: json
  cs_response :: json

record generationRequest =
  gr_id :: string
  gr_tenantId :: string
  gr_requestKeyHash :: string
  gr_requestHash :: string
  gr_status :: generationStatus
  gr_creditConsumption :: "json option"
  gr_response :: "json option"
  gr_failureStatus :: "int option"
  gr_claimToken :: "string option"
  gr_claimExpiresAt :: "instant option"
  gr_attempts :: int
  gr_creditTransactionId :: "string option"
  gr_calculationSnapshot :: "json option"
  gr_completedAt :: "instant option"

section \<open>Ledger and audit\<close>

record creditTransaction =
  ct_id :: string
  ct_tenantId :: string
  ct_amount :: int
  ct_debtAmount :: int
  ct_reason :: string
  ct_balanceAfter :: "int option"
  ct_debtAfter :: "int option"

record auditLog =
  al_id :: string
  al_tenantId :: string
  al_actorUserId :: string
  al_action :: string
  al_resource :: string
  al_resourceId :: string
  al_oldValue :: "json option"
  al_newValue :: "json option"

section \<open>Time cards and payroll\<close>

record timeCard =
  tc_id :: string
  tc_publicId :: string
  tc_tenantId :: string
  tc_userId :: string
  tc_locationId :: "string option"
  tc_shiftId :: "string option"
  tc_clockInOperationId :: "string option"
  tc_clockInRequestHash :: "string option"
  tc_clockInAt :: instant
  tc_clockOutAt :: "instant option"
  tc_payrollPeriodId :: "string option"
  tc_workTimeZone :: string
  tc_revision :: int
  tc_breakMinutes :: int
  tc_notes :: "string option"
  tc_status :: cardStatus
  tc_createdAt :: instant
  tc_updatedAt :: instant
  tc_deletedAt :: "instant option"

record timeCardBreak =
  tb_id :: string
  tb_publicId :: string
  tb_tenantId :: string
  tb_timeCardId :: string
  tb_startAt :: instant
  tb_endAt :: instant

record policyVersion =
  pv_id :: string
  pv_publicId :: string
  pv_tenantId :: string
  pv_version :: int
  pv_timeZone :: string
  pv_cadence :: cadence
  pv_anchorDate :: instant
  pv_effectiveFrom :: instant
  pv_operationId :: string
  pv_requestHash :: string
  pv_createdByUserId :: string
  pv_createdAt :: instant

record payrollPeriod =
  pp_id :: string
  pp_publicId :: string
  pp_tenantId :: string
  pp_policyVersionId :: string
  pp_localStartDate :: instant
  pp_localEndDateExclusive :: instant
  pp_startsAt :: instant
  pp_endsAt :: instant
  pp_timeZone :: string
  pp_cadence :: cadence
  pp_status :: periodStatus
  pp_revision :: int
  pp_reviewStartedAt :: "instant option"
  pp_reviewStartedByUserId :: "string option"
  pp_lockedAt :: "instant option"
  pp_lockedByUserId :: "string option"
  pp_lockOperationId :: "string option"
  pp_lockRequestHash :: "string option"
  pp_lockedEntrySha256 :: "string option"
  pp_lockedEntryCount :: "int option"
  pp_totalPayableMinutes :: "int option"
  pp_createdAt :: instant
  pp_updatedAt :: instant

record cardApproval =
  ap_id :: string
  ap_tenantId :: string
  ap_periodId :: string
  ap_timeCardId :: string
  ap_timeCardRevision :: int
  ap_decision :: decision
  ap_reason :: "string option"
  ap_operationId :: string
  ap_requestHash :: string
  ap_decidedAt :: instant
  ap_decidedByUserId :: string

record lockedEntryRow =
  en_id :: string
  en_publicId :: string
  en_tenantId :: string
  en_periodId :: string
  en_sequence :: int
  en_sourceType :: sourceType
  en_sourceId :: string
  en_sourceRevision :: int
  en_employeeId :: string
  en_locationId :: "string option"
  en_workTimeZone :: string
  en_clockInAt :: instant
  en_clockOutAt :: instant
  en_breakMinutes :: int
  en_payableMinutes :: int
  en_approvedAt :: instant
  en_approvedByUserId :: string
  en_canonicalSha256 :: string

record amendment =
  am_id :: string
  am_publicId :: string
  am_tenantId :: string
  am_lockedEntryId :: string
  am_adjustmentPeriodId :: string
  am_operationId :: string
  am_requestHash :: string
  am_requestedByUserId :: string
  am_reason :: string
  am_replacementClockInAt :: instant
  am_replacementClockOutAt :: instant
  am_replacementBreakMinutes :: int
  am_replacementPayableMinutes :: int
  am_minuteDelta :: int
  am_createdAt :: instant

record amendmentDecision =
  ad_id :: string
  ad_tenantId :: string
  ad_amendmentId :: string
  ad_decision :: decision
  ad_reason :: "string option"
  ad_operationId :: string
  ad_requestHash :: string
  ad_decidedByUserId :: string
  ad_decidedAt :: instant

record exportBatch =
  eb_id :: string
  eb_publicId :: string
  eb_tenantId :: string
  eb_periodId :: string
  eb_operationId :: string
  eb_requestHash :: string
  eb_creditTransactionId :: string
  eb_formatVersion :: int
  eb_status :: exportStatus
  eb_contentSha256 :: string
  eb_rowCount :: int
  eb_totalPayableMinutes :: int
  eb_consumedCredits :: int
  eb_newBalance :: int
  eb_createdAt :: instant
  eb_downloadedAt :: "instant option"
  eb_reconciledAt :: "instant option"
  eb_updatedAt :: instant

record exportLine =
  el_id :: string
  el_publicId :: string
  el_tenantId :: string
  el_batchId :: string
  el_lineNumber :: int
  el_lockedEntryId :: string
  el_sourceType :: sourceType
  el_sourceId :: string
  el_employeeId :: string
  el_locationId :: "string option"
  el_workTimeZone :: string
  el_clockInAt :: instant
  el_clockOutAt :: instant
  el_breakMinutes :: int
  el_payableMinutes :: int
  el_canonicalSha256 :: string

record receipt =
  re_id :: string
  re_publicId :: string
  re_tenantId :: string
  re_batchId :: string
  re_provider :: string
  re_providerEventId :: string
  re_payloadSha256 :: string
  re_providerTotalMinutes :: int
  re_acceptedCount :: int
  re_rejectedCount :: int
  re_pendingCount :: int
  re_receivedByUserId :: string
  re_receivedAt :: instant

record lineEvent =
  ev_tenantId :: string
  ev_receiptId :: string
  ev_batchId :: string
  ev_lineId :: string
  ev_status :: lineStatus
  ev_reason :: "string option"

record lineState =
  st_tenantId :: string
  st_batchId :: string
  st_lineId :: string
  st_status :: lineStatus
  st_latestReceiptId :: string
  st_reason :: "string option"

record payrollOperation =
  op_operationId :: string
  op_tenantId :: string
  op_periodId :: "string option"
  op_kind :: operationName
  op_requestHash :: string
  op_response :: json

section \<open>The database\<close>

record database =
  tenants :: "tenant list"
  tenantSettings :: "tenantSetting list"
  planDefinitions :: "planDefinition list"
  users :: "user list"
  sessions :: "session list"
  roles :: "role list"
  roleAssignments :: "roleAssignment list"
  locations :: "location list"
  schedules :: "schedule list"
  shifts :: "shift list"
  shiftBreaks :: "shiftBreak list"
  demandWindows :: "demandWindow list"
  scheduleChangeSets :: "scheduleChangeSet list"
  generationRequests :: "generationRequest list"
  creditTransactions :: "creditTransaction list"
  auditLogs :: "auditLog list"
  timeCards :: "timeCard list"
  timeCardBreaks :: "timeCardBreak list"
  policyVersions :: "policyVersion list"
  payrollPeriods :: "payrollPeriod list"
  cardApprovals :: "cardApproval list"
  lockedEntries :: "lockedEntryRow list"
  amendments :: "amendment list"
  amendmentDecisions :: "amendmentDecision list"
  exportBatches :: "exportBatch list"
  exportLines :: "exportLine list"
  receipts :: "receipt list"
  lineEvents :: "lineEvent list"
  lineStates :: "lineState list"
  payrollOperations :: "payrollOperation list"

end
