(* ===== verification/Transaction.thy ===== *)
theory Transaction
  imports Schema
begin

text \<open>
  Transactions: code that reads and changes the database, reads clocks, draws UUIDs and may throw.
  The state is a \<open>world\<close>: the database and how often each source of the environment has been read.
  \<open>withTenant\<close> (\<open>platform/database.ts\<close>) runs its body as one serializable transaction: an exception
  restores the database, and the environment may abort it or drop its acknowledgement.  Row level
  security, advisory locks and \<open>FOR UPDATE\<close> have no counterpart: a transaction is one step of the model,
  which is what serializable isolation promises.  \<open>w_local\<close> is the one variable of a running request that outlives
  a failed transaction (\<open>expectedRequestHash\<close> of \<open>clockIn\<close>).
\<close>

record world =
  w_db :: database
  w_ticks :: nat
  w_fresh :: nat
  w_txs :: nat
  w_local :: "string option"

type_synonym 'a tx = "world \<Rightarrow> 'a result \<times> world"

section \<open>The operations\<close>

definition returnT :: "'a \<Rightarrow> 'a tx" where "returnT x w = (ok x, w)"

definition throwT :: "failure \<Rightarrow> 'a tx" where "throwT e w = (err e, w)"

definition bindT :: "'a tx \<Rightarrow> ('a \<Rightarrow> 'b tx) \<Rightarrow> 'b tx" where
  "bindT m f w = (case m w of (r, w') \<Rightarrow> (case r of Inl e \<Rightarrow> (err e, w') | Inr x \<Rightarrow> f x w'))"

definition thenT :: "'a tx \<Rightarrow> 'b tx \<Rightarrow> 'b tx" where "thenT m k = bindT m (\<lambda>_. k)"

definition checkT :: "bool \<Rightarrow> failure \<Rightarrow> unit tx" where
  "checkT b e = (if b then returnT () else throwT e)"

definition liftT :: "'a result \<Rightarrow> 'a tx" where "liftT r w = (r, w)"

definition getT :: "(database \<Rightarrow> 'a) \<Rightarrow> 'a tx" where "getT f w = (ok (f (w_db w)), w)"

definition modifyT :: "(database \<Rightarrow> database) \<Rightarrow> unit tx" where
  "modifyT f w = (ok (), w \<lparr> w_db := f (w_db w) \<rparr>)"

definition requireT :: "'a option \<Rightarrow> failure \<Rightarrow> 'a tx" where
  "requireT x e = (case x of None \<Rightarrow> throwT e | Some a \<Rightarrow> returnT a)"

text \<open>\<open>Date.now()\<close>, \<open>performance.now()\<close> and a generated UUID.\<close>

definition nowT :: "env \<Rightarrow> instant tx" where
  "nowT E w = (ok (e_clock E (w_ticks w)), w \<lparr> w_ticks := Suc (w_ticks w) \<rparr>)"

definition monotonicT :: "env \<Rightarrow> int tx" where
  "monotonicT E w = (ok (e_monotonic E (w_ticks w)), w \<lparr> w_ticks := Suc (w_ticks w) \<rparr>)"

definition uuidT :: "env \<Rightarrow> string tx" where
  "uuidT E w = (ok (e_uuid E (w_fresh w)), w \<lparr> w_fresh := Suc (w_fresh w) \<rparr>)"

definition redisT :: "env \<Rightarrow> string \<Rightarrow> int tx" where
  "redisT E key w = (e_redis E (w_ticks w) key, w \<lparr> w_ticks := Suc (w_ticks w) \<rparr>)"

definition setLocalT :: "string option \<Rightarrow> unit tx" where
  "setLocalT v w = (ok (), w \<lparr> w_local := v \<rparr>)"

definition localT :: "string option tx" where
  "localT w = (ok (w_local w), w)"

definition catchT :: "'a tx \<Rightarrow> (failure \<Rightarrow> 'a tx) \<Rightarrow> 'a tx" where
  "catchT m h w = (case m w of (r, w') \<Rightarrow> (case r of Inl e \<Rightarrow> h e w' | Inr x \<Rightarrow> (ok x, w')))"

fun mapT :: "('a \<Rightarrow> 'b tx) \<Rightarrow> 'a list \<Rightarrow> 'b list tx" where
  "mapT f [] = returnT []"
| "mapT f (x # xs) = bindT (f x) (\<lambda>y. bindT (mapT f xs) (\<lambda>ys. returnT (y # ys)))"

fun eachT :: "('a \<Rightarrow> unit tx) \<Rightarrow> 'a list \<Rightarrow> unit tx" where
  "eachT f [] = returnT ()"
| "eachT f (x # xs) = thenT (f x) (eachT f xs)"

section \<open>Queries and changes of a table\<close>

definition updateWhere :: "('r \<Rightarrow> bool) \<Rightarrow> ('r \<Rightarrow> 'r) \<Rightarrow> 'r list \<Rightarrow> 'r list" where
  "updateWhere P f rows = map (\<lambda>r. if P r then f r else r) rows"

definition findMany :: "('r \<Rightarrow> bool) \<Rightarrow> ('r \<Rightarrow> 'r \<Rightarrow> bool) \<Rightarrow> 'r list \<Rightarrow> 'r list" where
  "findMany P le rows = sortBy le (filter P rows)"

type_synonym 'r table = "(database \<Rightarrow> 'r list) \<times> (('r list \<Rightarrow> 'r list) \<Rightarrow> database \<Rightarrow> database)"

text \<open>\<open>create\<close>: fails with a unique conflict when a stored row clashes with the new one.\<close>

definition createT :: "'r table \<Rightarrow> ('r \<Rightarrow> 'r \<Rightarrow> bool) \<Rightarrow> 'r \<Rightarrow> unit tx" where
  "createT table clash row =
     bindT (getT (fst table)) (\<lambda>rows.
       if list_ex (clash row) rows then throwT (DbError P2002)
       else modifyT (snd table (\<lambda>rs. rs @ [row])))"

text \<open>\<open>createMany\<close>: all rows or none; a clash among the new rows counts too.\<close>

definition createManyT :: "'r table \<Rightarrow> ('r \<Rightarrow> 'r \<Rightarrow> bool) \<Rightarrow> 'r list \<Rightarrow> unit tx" where
  "createManyT table clash rows = eachT (createT table clash) rows"

text \<open>\<open>updateMany\<close> with its \<open>count\<close>.\<close>

definition updateManyT :: "'r table \<Rightarrow> ('r \<Rightarrow> bool) \<Rightarrow> ('r \<Rightarrow> 'r) \<Rightarrow> nat tx" where
  "updateManyT table P f =
     bindT (getT (fst table)) (\<lambda>rows.
     thenT (modifyT (snd table (updateWhere P f))) (returnT (length (filter P rows))))"

definition deleteManyT :: "'r table \<Rightarrow> ('r \<Rightarrow> bool) \<Rightarrow> unit tx" where
  "deleteManyT table P = modifyT (snd table (filter (\<lambda>r. \<not> P r)))"

section \<open>Transactions\<close>

definition withTenant :: "env \<Rightarrow> string \<Rightarrow> 'a tx \<Rightarrow> 'a tx" where
  "withTenant E tenantId body w =
     (if trim tenantId = [] then (err Thrown, w)
      else let w1 = w \<lparr> w_txs := Suc (w_txs w) \<rparr>
           in case e_fault E (w_txs w) of
                Some (RolledBack e) \<Rightarrow> (err e, w1)
              | fault \<Rightarrow>
                  (case body w1 of
                     (Inl e, w2) \<Rightarrow> (err e, w2 \<lparr> w_db := w_db w \<rparr>)
                   | (Inr x, w2) \<Rightarrow> (if fault = Some AckLost then err (DbError P1017) else ok x, w2)))"

text \<open>
  \<open>retryPayrollSerializableMutation\<close> (\<open>payroll/domain.ts\<close>): a second attempt after a serialization conflict,
  and only after one.
\<close>

definition retryPayrollSerializableMutation :: "'a tx \<Rightarrow> 'a tx" where
  "retryPayrollSerializableMutation m =
     catchT m (\<lambda>e. if isSerializationConflict e then m else throwT e)"

section \<open>Reasoning\<close>

text \<open>
  \<open>post d m Q F\<close>: run on database \<open>d\<close>, if \<open>m\<close> returns \<open>x\<close> then \<open>Q x d'\<close> and if it throws \<open>e\<close> then
  \<open>F e d'\<close>, for the database \<open>d'\<close> it leaves.  \<open>sat\<close> is the part about returning.
\<close>

definition post :: "database \<Rightarrow> 'a tx \<Rightarrow> ('a \<Rightarrow> database \<Rightarrow> bool) \<Rightarrow> (failure \<Rightarrow> database \<Rightarrow> bool) \<Rightarrow> bool" where
  "post d m Q F \<longleftrightarrow> (\<forall>w. w_db w = d \<longrightarrow>
     (case m w of (Inl e, w') \<Rightarrow> F e (w_db w') | (Inr x, w') \<Rightarrow> Q x (w_db w')))"

abbreviation sat :: "database \<Rightarrow> 'a tx \<Rightarrow> ('a \<Rightarrow> database \<Rightarrow> bool) \<Rightarrow> bool" where
  "sat d m Q \<equiv> post d m Q (\<lambda>_ _. True)"

definition readsOnly :: "'a tx \<Rightarrow> bool" where
  "readsOnly m \<longleftrightarrow> (\<forall>w. w_db (snd (m w)) = w_db w)"

lemma postI: "(\<And>w. w_db w = d \<Longrightarrow> case m w of (Inl e, w') \<Rightarrow> F e (w_db w') | (Inr x, w') \<Rightarrow> Q x (w_db w')) \<Longrightarrow> post d m Q F"
  by (simp add: post_def)

lemma postD_ok: "post d m Q F \<Longrightarrow> m w = (ok x, w') \<Longrightarrow> w_db w = d \<Longrightarrow> Q x (w_db w')"
  by (force simp: post_def)

lemma postD_err: "post d m Q F \<Longrightarrow> m w = (err e, w') \<Longrightarrow> w_db w = d \<Longrightarrow> F e (w_db w')"
  by (force simp: post_def)

lemma satD: "sat (w_db w) m Q \<Longrightarrow> m w = (ok x, w') \<Longrightarrow> Q x (w_db w')"
  by (rule postD_ok [OF _ _ refl])

lemma post_weaken:
  assumes "post d m Q F" and "\<And>x d'. Q x d' \<Longrightarrow> Q' x d'" and "\<And>e d'. F e d' \<Longrightarrow> F' e d'"
  shows "post d m Q' F'"
  using assms by (auto simp: post_def split: prod.splits sum.splits)

lemma post_conj: "post d m Q F \<Longrightarrow> post d m Q' F' \<Longrightarrow> post d m (\<lambda>x d'. Q x d' \<and> Q' x d') (\<lambda>e d'. F e d' \<and> F' e d')"
  by (auto simp: post_def split: prod.splits sum.splits)

lemma post_return [tx_rules]: "Q x d \<Longrightarrow> post d (returnT x) Q F"
  by (simp add: post_def returnT_def)

lemma post_throw [tx_rules]: "F e d \<Longrightarrow> post d (throwT e) Q F"
  by (simp add: post_def throwT_def)

lemma post_bind [tx_rules]: "post d m (\<lambda>x d'. post d' (f x) Q F) F \<Longrightarrow> post d (bindT m f) Q F"
  by (auto simp: post_def bindT_def split: prod.splits sum.splits)

lemma post_then [tx_rules]: "post d m (\<lambda>_ d'. post d' k Q F) F \<Longrightarrow> post d (thenT m k) Q F"
  unfolding thenT_def by (rule post_bind)

lemma post_check [tx_rules]: "(b \<Longrightarrow> Q () d) \<Longrightarrow> (\<not> b \<Longrightarrow> F e d) \<Longrightarrow> post d (checkT b e) Q F"
  by (auto simp: checkT_def intro: tx_rules)

lemma post_lift [tx_rules]: "(\<And>x. r = ok x \<Longrightarrow> Q x d) \<Longrightarrow> (\<And>e. r = err e \<Longrightarrow> F e d) \<Longrightarrow> post d (liftT r) Q F"
  by (cases r) (auto simp: post_def liftT_def)

lemma post_get [tx_rules]: "Q (f d) d \<Longrightarrow> post d (getT f) Q F"
  by (simp add: post_def getT_def)

lemma post_modify [tx_rules]: "Q () (f d) \<Longrightarrow> post d (modifyT f) Q F"
  by (simp add: post_def modifyT_def)

lemma post_require [tx_rules]:
  "(\<And>a. x = Some a \<Longrightarrow> Q a d) \<Longrightarrow> (x = None \<Longrightarrow> F e d) \<Longrightarrow> post d (requireT x e) Q F"
  by (cases x) (auto simp: requireT_def intro: tx_rules)

lemma post_now [tx_rules]: "(\<And>t. Q t d) \<Longrightarrow> post d (nowT E) Q F"
  by (simp add: post_def nowT_def)

lemma post_monotonic [tx_rules]: "(\<And>t. Q t d) \<Longrightarrow> post d (monotonicT E) Q F"
  by (simp add: post_def monotonicT_def)

lemma post_uuid [tx_rules]: "(\<And>u. Q u d) \<Longrightarrow> post d (uuidT E) Q F"
  by (simp add: post_def uuidT_def)

lemma post_redis [tx_rules]: "(\<And>n. Q n d) \<Longrightarrow> (\<And>e. F e d) \<Longrightarrow> post d (redisT E key) Q F"
  by (auto simp: post_def redisT_def split: sum.splits)

lemma post_setLocal [tx_rules]: "Q () d \<Longrightarrow> post d (setLocalT v) Q F"
  by (simp add: post_def setLocalT_def)

lemma post_local [tx_rules]: "(\<And>v. Q v d) \<Longrightarrow> post d localT Q F"
  by (simp add: post_def localT_def)

lemma post_if [tx_rules]: "(b \<Longrightarrow> post d m Q F) \<Longrightarrow> (\<not> b \<Longrightarrow> post d k Q F) \<Longrightarrow> post d (if b then m else k) Q F"
  by simp

lemma post_option [tx_rules]:
  "(x = None \<Longrightarrow> post d m Q F) \<Longrightarrow> (\<And>a. x = Some a \<Longrightarrow> post d (k a) Q F) \<Longrightarrow> post d (case x of None \<Rightarrow> m | Some a \<Rightarrow> k a) Q F"
  by (cases x) simp_all

lemma post_let [tx_rules]: "(\<And>y. y = x \<Longrightarrow> post d (k y) Q F) \<Longrightarrow> post d (let y = x in k y) Q F"
  by simp

lemma post_prod [tx_rules]: "(\<And>a b. p = (a, b) \<Longrightarrow> post d (k a b) Q F) \<Longrightarrow> post d (case p of (a, b) \<Rightarrow> k a b) Q F"
  by (cases p) simp

lemma post_catch: "post d m Q (\<lambda>e d'. post d' (h e) Q F) \<Longrightarrow> post d (catchT m h) Q F"
  by (auto simp: post_def catchT_def split: prod.splits sum.splits)

lemma post_readsOnly: "readsOnly m \<Longrightarrow> (\<And>x. Q x d) \<Longrightarrow> (\<And>e. F e d) \<Longrightarrow> post d m Q F"
  unfolding post_def readsOnly_def by (auto split: prod.splits sum.splits) (metis snd_conv)+

lemma readsOnlyI: "(\<And>d. post d m (\<lambda>_ d'. d' = d) (\<lambda>_ d'. d' = d)) \<Longrightarrow> readsOnly m"
  unfolding post_def readsOnly_def by (metis (mono_tags, lifting) case_prod_conv old.sum.exhaust old.sum.simps(5,6) prod.collapse)

lemma readsOnly_bind: "readsOnly m \<Longrightarrow> (\<And>x. readsOnly (f x)) \<Longrightarrow> readsOnly (bindT m f)"
  by (rule readsOnlyI, rule post_bind, erule post_readsOnly) (auto intro: post_readsOnly)

lemma post_create [tx_rules]:
  "(\<not> list_ex (clash row) (fst table d) \<Longrightarrow> Q () (snd table (\<lambda>rs. rs @ [row]) d)) \<Longrightarrow>
     (list_ex (clash row) (fst table d) \<Longrightarrow> F (DbError P2002) d) \<Longrightarrow> post d (createT table clash row) Q F"
  unfolding createT_def by (intro tx_rules)

lemma post_updateMany [tx_rules]:
  "Q (length (filter P (fst table d))) (snd table (updateWhere P f) d) \<Longrightarrow> post d (updateManyT table P f) Q F"
  unfolding updateManyT_def by (intro tx_rules)

lemma post_deleteMany [tx_rules]:
  "Q () (snd table (filter (\<lambda>r. \<not> P r)) d) \<Longrightarrow> post d (deleteManyT table P) Q F"
  unfolding deleteManyT_def by (intro tx_rules)

lemma post_withTenant:
  assumes "sat d body Q" and "\<And>e. F e d" and "\<And>x d'. Q x d' \<Longrightarrow> F (DbError P1017) d'"
  shows "post d (withTenant E tenantId body) Q F"
proof (rule postI)
  fix w :: world
  assume d: "w_db w = d"
  obtain r w2 where r: "body (w \<lparr> w_txs := Suc (w_txs w) \<rparr>) = (r, w2)" by fastforce
  have Q: "Q x (w_db w2)" if "r = ok x" for x
    using postD_ok [OF assms(1), of "w \<lparr> w_txs := Suc (w_txs w) \<rparr>"] r that d by simp
  show "case withTenant E tenantId body w of (Inl e, w') \<Rightarrow> F e (w_db w') | (Inr x, w') \<Rightarrow> Q x (w_db w')"
    using r d Q assms(2,3)
    by (cases r; auto simp: withTenant_def Let_def split: option.splits fault.splits)
qed

lemma post_retry:
  assumes "post d m Q F" and "\<And>e d'. F e d' \<Longrightarrow> isSerializationConflict e \<Longrightarrow> post d' m Q F"
  shows "post d (retryPayrollSerializableMutation m) Q F"
  unfolding retryPayrollSerializableMutation_def
  by (rule post_catch, rule post_weaken [OF assms(1)]) (auto intro: tx_rules assms(2))

text \<open>A retried transaction: its failures leave the database alone, but for a commit whose
  acknowledgement was lost, which is not retried.\<close>

lemma post_retry_withTenant:
  assumes "sat d body Q" and "\<And>e. F e d" and "\<And>x d'. Q x d' \<Longrightarrow> F (DbError P1017) d'"
  shows "post d (retryPayrollSerializableMutation (withTenant E tenantId body)) Q F"
proof -
  have 1: "post d (withTenant E tenantId body) Q (\<lambda>e d'. F e d' \<and> (isSerializationConflict e \<longrightarrow> d' = d))"
    by (rule post_withTenant [OF assms(1)]) (use assms(2,3) in \<open>auto simp: isSerializationConflict_def\<close>)
  have 2: "post d (withTenant E tenantId body) Q F"
    by (rule post_withTenant [OF assms(1)]) (use assms(2,3) in auto)
  show ?thesis
    unfolding retryPayrollSerializableMutation_def
    by (rule post_catch, rule post_weaken [OF 1]) (auto intro: tx_rules 2)
qed

text \<open>A loop whose steps only read.\<close>

lemma sat_mapT:
  assumes "\<And>x. sat d (f x) (\<lambda>y d'. d' = d \<and> P x y)"
  shows "sat d (mapT f xs) (\<lambda>ys d'. d' = d \<and> list_all2 P xs ys)"
proof (induction xs)
  case Nil
  show ?case by (auto intro: post_return)
next
  case (Cons x xs)
  show ?case
    unfolding mapT.simps
    apply (rule post_bind, rule post_weaken [OF assms])
     apply (clarify, rule post_bind, rule post_weaken [OF Cons.IH])
      apply (auto intro: post_return)
    done
qed

text \<open>\<open>createMany\<close> on any table whose setter composes.\<close>

lemma sat_createMany:
  assumes "\<And>f g d. snd table f (snd table g d) = snd table (f \<circ> g) d" and "\<And>d. snd table (\<lambda>rs. rs) d = d"
  shows "sat d (createManyT table clash rows) (\<lambda>_ d'. d' = snd table (\<lambda>rs. rs @ rows) d)"
  unfolding createManyT_def
proof (induction rows arbitrary: d)
  case Nil
  show ?case using assms(2) by (auto intro: post_return)
next
  case (Cons r rows)
  show ?case
    unfolding eachT.simps
    apply (intro post_then post_create TrueI)
    apply (rule post_weaken [OF Cons.IH])
     apply (auto simp: assms(1) comp_def)
    done
qed

section \<open>What transactions keep\<close>

text \<open>
  A relation between the databases before and after that is reflexive and transitive: no operation of
  a transaction can break it unless a single change does.  \<open>keeps\<close> is about returning, \<open>always\<close> about
  every outcome.
\<close>

definition keeps :: "(database \<Rightarrow> database \<Rightarrow> bool) \<Rightarrow> 'a tx \<Rightarrow> bool" where
  "keeps R m \<longleftrightarrow> (\<forall>w x w'. m w = (ok x, w') \<longrightarrow> R (w_db w) (w_db w'))"

definition always :: "(database \<Rightarrow> database \<Rightarrow> bool) \<Rightarrow> 'a tx \<Rightarrow> bool" where
  "always R m \<longleftrightarrow> (\<forall>w. R (w_db w) (w_db (snd (m w))))"

locale preserved =
  fixes R :: "database \<Rightarrow> database \<Rightarrow> bool"
  assumes R_refl: "R d d"
    and R_trans: "R d d' \<Longrightarrow> R d' d'' \<Longrightarrow> R d d''"
begin

lemma keeps_readsOnly: "readsOnly m \<Longrightarrow> keeps R m"
  unfolding readsOnly_def keeps_def by (metis R_refl snd_conv)

lemma keeps_bind: "keeps R m \<Longrightarrow> (\<And>x. keeps R (f x)) \<Longrightarrow> keeps R (bindT m f)"
  unfolding keeps_def bindT_def by (auto split: prod.splits sum.splits) (metis R_trans)

lemma keeps_then: "keeps R m \<Longrightarrow> keeps R k \<Longrightarrow> keeps R (thenT m k)"
  unfolding thenT_def by (rule keeps_bind)

lemma keeps_sat: "(\<And>d. sat d m (\<lambda>_ d'. R d d')) \<Longrightarrow> keeps R m"
  unfolding keeps_def by (metis satD)

lemma keeps_pure:
  "keeps R (returnT x)" "keeps R (throwT e)" "keeps R (checkT b e)" "keeps R (liftT r)" "keeps R (getT f)"
  "keeps R (requireT v e)" "keeps R (nowT E)" "keeps R (monotonicT E)" "keeps R (uuidT E)" "keeps R (redisT E key)"
  by (auto intro!: keeps_sat tx_rules R_refl)

lemma keeps_if: "(b \<Longrightarrow> keeps R m) \<Longrightarrow> (\<not> b \<Longrightarrow> keeps R k) \<Longrightarrow> keeps R (if b then m else k)"
  by simp

lemma keeps_option:
  "(v = None \<Longrightarrow> keeps R m) \<Longrightarrow> (\<And>a. v = Some a \<Longrightarrow> keeps R (k a)) \<Longrightarrow> keeps R (case v of None \<Rightarrow> m | Some a \<Rightarrow> k a)"
  by (cases v) simp_all

lemma keeps_let: "(\<And>y. keeps R (k y)) \<Longrightarrow> keeps R (let y = v in k y)"
  by simp

lemma keeps_prod: "(\<And>a b. keeps R (k a b)) \<Longrightarrow> keeps R (case p of (a, b) \<Rightarrow> k a b)"
  by (cases p) simp

lemma keeps_each: "(\<And>x. keeps R (f x)) \<Longrightarrow> keeps R (eachT f xs)"
  by (induction xs) (simp_all add: keeps_pure keeps_then)

lemma keeps_map: "(\<And>x. keeps R (f x)) \<Longrightarrow> keeps R (mapT f xs)"
  by (induction xs) (simp_all add: keeps_pure keeps_bind)

lemma keeps_create: "(\<And>d. R d (snd table (\<lambda>rs. rs @ [row]) d)) \<Longrightarrow> keeps R (createT table clash row)"
  by (auto intro!: keeps_sat tx_rules)

lemma keeps_update: "(\<And>d. R d (snd table (updateWhere P f) d)) \<Longrightarrow> keeps R (updateManyT table P f)"
  by (auto intro!: keeps_sat tx_rules)

lemma keeps_delete: "(\<And>d. R d (snd table (filter (\<lambda>r. \<not> P r)) d)) \<Longrightarrow> keeps R (deleteManyT table P)"
  by (auto intro!: keeps_sat tx_rules)

lemmas keeps_intros = keeps_bind keeps_then keeps_pure keeps_if keeps_option keeps_let keeps_prod keeps_each keeps_map

text \<open>A transaction that keeps the relation when it returns keeps it whatever happens to it.\<close>

lemma always_withTenant:
  assumes "keeps R body"
  shows "always R (withTenant E tenantId body)"
  unfolding always_def
proof
  fix w :: world
  obtain r w2 where r: "body (w \<lparr> w_txs := Suc (w_txs w) \<rparr>) = (r, w2)" by fastforce
  have "R (w_db w) (w_db w2)" if "r = ok x" for x
    using assms r that unfolding keeps_def by (metis select_convs(1) surjective update_convs(4))
  then show "R (w_db w) (w_db (snd (withTenant E tenantId body w)))"
    using r R_refl by (cases r) (auto simp: withTenant_def Let_def split: option.splits fault.splits)
qed

lemma always_bind: "always R m \<Longrightarrow> (\<And>x. always R (f x)) \<Longrightarrow> always R (bindT m f)"
  unfolding always_def bindT_def by (auto split: prod.splits sum.splits) (metis R_trans snd_conv)+

lemma always_catch: "always R m \<Longrightarrow> (\<And>e. always R (h e)) \<Longrightarrow> always R (catchT m h)"
  unfolding always_def catchT_def by (auto split: prod.splits sum.splits) (metis R_trans snd_conv)+

lemma always_readsOnly: "readsOnly m \<Longrightarrow> always R m"
  by (simp add: always_def readsOnly_def R_refl)

lemma always_retry: "always R m \<Longrightarrow> always R (retryPayrollSerializableMutation m)"
  unfolding retryPayrollSerializableMutation_def
  by (rule always_catch) (auto intro: always_readsOnly simp: readsOnly_def throwT_def)

end

end
