(* ===== verification/Authority.thy ===== *)
theory Authority
  imports Transaction
begin

text \<open>
  Who may do what: roles and permissions (\<open>people/access.ts\<close>), the authority of a request that is checked
  again inside every transaction (\<open>people/mutation-authority.ts\<close>), the observation of the MFA marker
  (\<open>packages/rbac/mfa-session.ts\<close>), and the scope in which a payroll command runs
  (\<open>PayrollService.prepareCurrentMutation\<close>).
\<close>

section \<open>Identities\<close>

record sessionIdentity =
  id_sub :: string
  id_tenantId :: string
  id_sessionId :: string
  id_publicUserId :: string
  id_permissions :: "string list"
  id_legacyRole :: string
  id_roles :: "(bool \<times> string) list"

definition mutationIdentity :: "sessionIdentity \<Rightarrow> sessionIdentity" where
  "mutationIdentity i = i \<lparr> id_sub := trim (id_sub i), id_tenantId := trim (id_tenantId i),
     id_sessionId := trim (id_sessionId i) \<rparr>"

definition forbidden :: failure where "forbidden = Problem 403 ''permission_denied''"

section \<open>Roles and permissions\<close>

text \<open>\<open>toLowerCase\<close> on code units below 256.\<close>

definition toLowerUnit :: "char \<Rightarrow> char" where
  "toLowerUnit c = (let n = codeUnit c
     in if 65 \<le> n \<and> n \<le> 90 \<or> 192 \<le> n \<and> n \<le> 222 \<and> n \<noteq> 215 then char_of (n + 32) else c)"

definition canonicalPermission :: "string \<Rightarrow> string" where
  "canonicalPermission v = map toLowerUnit (trim v)"

definition PROTECTED_PERMISSION_KEYS :: "string list" where
  "PROTECTED_PERMISSION_KEYS = [''admin_portal:access'', ''tenant_account:lifecycle'', ''account:data_export'']"

definition PRIVILEGED_MFA_PERMISSION_KEYS :: "string list" where
  "PRIVILEGED_MFA_PERMISSION_KEYS =
     [''admin_portal:access'', ''tenant_account:lifecycle'', ''account:data_export'', ''users:write'', ''users:admin'',
      ''roles:write'', ''roles:assign'', ''time_cards:approve'', ''payroll:read'', ''payroll:policy_write'',
      ''payroll:lock'', ''payroll:export'', ''payroll:reconcile'', ''billing:write'', ''settings:write'']"

fun roleRank :: "userRole \<Rightarrow> nat" where
  "roleRank STAFF = 1"
| "roleRank MANAGER = 2"
| "roleRank ADMIN = 3"
| "roleRank SUPER_ADMIN = 4"

record accessSnapshot =
  as_roles :: "role list"
  as_permissions :: "string list"
  as_legacyRole :: userRole
  as_rank :: nat
  as_isSystemAdmin :: bool

definition raiseLegacyRole :: "userRole \<Rightarrow> role \<Rightarrow> userRole" where
  "raiseLegacyRole current r =
     (case ro_legacyRole r of
        Some l \<Rightarrow> if ro_isSystem r \<and> roleRank current < roleRank l then l else current
      | None \<Rightarrow> current)"

definition accessFor :: "userRole \<Rightarrow> role list \<Rightarrow> accessSnapshot" where
  "accessFor userRole rs =
     (let legacyRole = foldl raiseLegacyRole STAFF rs
      in \<lparr> as_roles = rs,
           as_permissions = jsSet (map canonicalPermission (concat (map ro_permissions rs))),
           as_legacyRole = legacyRole, as_rank = roleRank legacyRole,
           as_isSystemAdmin = (userRole = SUPER_ADMIN
             \<and> list_ex (\<lambda>r. ro_isSystem r \<and> ro_legacyRole r = Some SUPER_ADMIN) rs) \<rparr>)"

definition legacyRoleOf :: "string \<Rightarrow> userRole" where
  "legacyRoleOf v =
     (if v = ''SUPER_ADMIN'' then SUPER_ADMIN else if v = ''ADMIN'' then ADMIN
      else if v = ''MANAGER'' then MANAGER else STAFF)"

definition accessFromIdentity :: "sessionIdentity \<Rightarrow> accessSnapshot" where
  "accessFromIdentity i =
     (let legacyRole = legacyRoleOf (id_legacyRole i)
      in \<lparr> as_roles = [], as_permissions = jsSet (map canonicalPermission (id_permissions i)),
           as_legacyRole = legacyRole, as_rank = roleRank legacyRole,
           as_isSystemAdmin = (legacyRole = SUPER_ADMIN
             \<and> list_ex (\<lambda>(isSystem, l). isSystem \<and> l = ''SUPER_ADMIN'') (id_roles i)) \<rparr>)"

definition canDelegateRole :: "accessSnapshot \<Rightarrow> role \<Rightarrow> bool" where
  "canDelegateRole access r =
     (let permissions = map canonicalPermission (ro_permissions r)
      in (as_isSystemAdmin access
          \<or> (ro_legacyRole r \<noteq> Some SUPER_ADMIN \<and> \<not> list_ex (\<lambda>p. p \<in> set PROTECTED_PERMISSION_KEYS) permissions))
         \<and> list_all (\<lambda>p. p \<in> set (as_permissions access)) permissions)"

definition assertCanGrantPermissions :: "accessSnapshot \<Rightarrow> string list \<Rightarrow> unit result" where
  "assertCanGrantPermissions access keys =
     (if as_isSystemAdmin access then ok ()
      else bindR (checkR (\<not> list_ex (\<lambda>k. k \<in> set PROTECTED_PERMISSION_KEYS) keys) forbidden) (\<lambda>_.
           checkR (\<not> list_ex (\<lambda>k. k \<notin> set (as_permissions access)) keys) forbidden))"

definition assertCanAdministerTarget :: "user \<Rightarrow> accessSnapshot \<Rightarrow> user \<Rightarrow> accessSnapshot \<Rightarrow> unit result" where
  "assertCanAdministerTarget actor actorAccess target targetAccess =
     bindR (checkR (us_id actor \<noteq> us_id target) forbidden) (\<lambda>_.
     bindR (checkR (\<not> (as_isSystemAdmin targetAccess \<and> \<not> as_isSystemAdmin actorAccess)) forbidden) (\<lambda>_.
     if as_isSystemAdmin actorAccess then ok ()
     else let actorRank = max (if us_role actor = SUPER_ADMIN then 0 else roleRank (us_role actor)) (as_rank actorAccess);
              targetRank = max (roleRank (us_role target)) (as_rank targetAccess);
              unheld = list_ex (\<lambda>p. p \<notin> set (as_permissions actorAccess)) (as_permissions targetAccess);
              same = (length (as_permissions actorAccess) = length (as_permissions targetAccess) \<and> \<not> unheld)
          in checkR (\<not> (actorRank \<le> targetRank \<or> unheld \<or> same)) forbidden))"

section \<open>Live authority\<close>

definition userRows :: "string \<Rightarrow> string list \<Rightarrow> database \<Rightarrow> user list" where
  "userRows tenantId userIds d =
     (let ids = jsSet (filter (\<lambda>i. i \<noteq> []) (map trim userIds))
      in findMany (\<lambda>u. us_tenantId u = tenantId \<and> us_id u \<in> set ids) (byKey us_id) (users d))"

text \<open>\<open>rolesForUsers(...).get(userId) ?? []\<close>: the roles assigned to a user that are not deleted.\<close>

definition rolesOf :: "string \<Rightarrow> string \<Rightarrow> database \<Rightarrow> role list" where
  "rolesOf tenantId userId d =
     concat (map (\<lambda>a. case find (\<lambda>r. ro_id r = ra_roleId a \<and> ro_tenantId r = tenantId \<and> ro_deletedAt r = None) (roles d) of
                        None \<Rightarrow> [] | Some r \<Rightarrow> [r])
       (findMany (\<lambda>a. ra_tenantId a = tenantId \<and> ra_userId a = userId) (byKey ra_roleId) (roleAssignments d)))"

record authOptions =
  ao_targetUserId :: "string option"
  ao_allowDeletedTarget :: bool
  ao_allowPinRecovery :: bool

definition noOptions :: authOptions where
  "noOptions = \<lparr> ao_targetUserId = None, ao_allowDeletedTarget = False, ao_allowPinRecovery = False \<rparr>"

record mutationAuthority =
  ma_actor :: user
  ma_actorAccess :: accessSnapshot
  ma_target :: "user option"
  ma_targetAccess :: "accessSnapshot option"

definition isAfter :: "env \<Rightarrow> instant option \<Rightarrow> bool tx" where
  "isAfter E t = bindT (nowT E) (\<lambda>now. returnT (now < (case t of None \<Rightarrow> 0 | Some x \<Rightarrow> x)))"

definition lockActorSession :: "env \<Rightarrow> string \<Rightarrow> string \<Rightarrow> unit tx" where
  "lockActorSession E actorUserId sessionId =
     (bindT (getT (\<lambda>d. find (\<lambda>s. se_id s = sessionId \<and> se_userId s = actorUserId) (sessions d))) (\<lambda>found.
       bindT (requireT found forbidden) (\<lambda>s.
       thenT (checkT (se_revokedAt s = None) forbidden) (
       bindT (nowT E) (\<lambda>now.
       checkT (now < se_expiresAt s) forbidden)))))"

definition authorizeMutation :: "env \<Rightarrow> sessionIdentity \<Rightarrow> string \<Rightarrow> authOptions \<Rightarrow> mutationAuthority tx" where
  "authorizeMutation E identity requiredPermission options =
     (let actorUserId = trim (id_sub identity) in
       let sessionId = trim (id_sessionId identity) in
       let tenantId = id_tenantId identity in
       let wanted = (case ao_targetUserId options of None \<Rightarrow> [] | Some t \<Rightarrow> t) in
       thenT (checkT (actorUserId \<noteq> [] \<and> sessionId \<noteq> []) forbidden) (
       bindT (getT (userRows tenantId [actorUserId, wanted])) (\<lambda>rows.
       let target = (if wanted = [] then None else find (\<lambda>u. us_id u = wanted) rows) in
       bindT (requireT (find (\<lambda>u. us_id u = actorUserId) rows) forbidden) (\<lambda>actor.
       thenT (checkT (us_deletedAt actor = None \<and> us_suspendedAt actor = None) forbidden) (
       bindT (isAfter E (us_lockedUntil actor)) (\<lambda>locked.
       thenT (checkT (\<not> locked) forbidden) (
       bindT (isAfter E (us_pinLockedUntil actor)) (\<lambda>pinLocked.
       thenT (checkT (\<not> pinLocked) forbidden) (
       thenT (checkT (\<not> (wanted \<noteq> [] \<and> (case target of None \<Rightarrow> True
             | Some t \<Rightarrow> \<not> ao_allowDeletedTarget options \<and> us_deletedAt t \<noteq> None))) (Problem 404 ''staff_not_found'')) (
       thenT (lockActorSession E (us_id actor) sessionId) (
       bindT (getT (rolesOf tenantId (us_id actor))) (\<lambda>actorRoles.
       let actorAccess = accessFor (us_role actor) actorRoles in
       thenT (checkT (as_roles actorAccess \<noteq> [] \<and> requiredPermission \<in> set (as_permissions actorAccess)) forbidden) (
       bindT (getT (\<lambda>d. case target of None \<Rightarrow> [] | Some t \<Rightarrow> rolesOf tenantId (us_id t) d)) (\<lambda>targetRoles.
       returnT \<lparr> ma_actor = actor, ma_actorAccess = actorAccess, ma_target = target,
           ma_targetAccess = (case target of None \<Rightarrow> None | Some t \<Rightarrow> Some (accessFor (us_role t) targetRoles)) \<rparr>))))))))))))))"

record mfaIdentity =
  mi_sub :: string
  mi_tenantId :: string
  mi_sessionId :: string

record mfaObservation =
  mo_sub :: string
  mo_tenantId :: string
  mo_sessionId :: string
  mo_expiresAtEpochMs :: int
  mo_expiresAtMonotonicMs :: int

record currentAuthority =
  ca_authority :: mutationAuthority
  ca_identity :: mfaIdentity
  ca_expiresAtEpochMs :: instant
  ca_requiresMfa :: bool

text \<open>The workspace's security settings: \<open>security\<close> of the setting \<open>workspace_settings\<close>.\<close>

definition securityOf :: "string \<Rightarrow> database \<Rightarrow> json" where
  "securityOf tenantId d =
     (case find (\<lambda>s. ts_tenantId s = tenantId \<and> ts_key s = ''workspace_settings'') (tenantSettings d) of
        None \<Rightarrow> JObj []
      | Some s \<Rightarrow> (let security = member ''security'' (ts_value s) in if isObject security then security else JObj []))"

definition sessionMinutes :: "json \<Rightarrow> int" where
  "sessionMinutes security =
     (case member ''sessionTimeoutMinutes'' security of
        JNum n \<Rightarrow> if 5 \<le> n \<and> n \<le> 1440 then n else 480
      | _ \<Rightarrow> 480)"

definition authorizeCurrentMutation :: "env \<Rightarrow> sessionIdentity \<Rightarrow> string \<Rightarrow> authOptions \<Rightarrow> currentAuthority tx" where
  "authorizeCurrentMutation E identity permission options =
     (bindT (authorizeMutation E identity permission options) (\<lambda>authority.
       let tenantId = id_tenantId identity in
       let actorId = us_id (ma_actor authority) in
       bindT (getT (\<lambda>d. find (\<lambda>t. tn_id t = tenantId) (tenants d))) (\<lambda>foundTenant.
       bindT (requireT foundTenant forbidden) (\<lambda>tenant.
       thenT (checkT (tn_deletedAt tenant = None \<and> tn_status tenant \<noteq> TENANT_SUSPENDED \<and> tn_status tenant \<noteq> TENANT_PURGED) forbidden) (
       bindT (getT (\<lambda>d. find (\<lambda>u. us_id u = actorId \<and> us_tenantId u = tenantId
             \<and> us_deletedAt u = None \<and> us_suspendedAt u = None) (users d))) (\<lambda>foundUser.
       bindT (requireT foundUser forbidden) (\<lambda>user.
       thenT (checkT (us_id user = id_sub identity \<and> us_tenantId user = tenantId) forbidden) (
       let pinRecovery = (ao_allowPinRecovery options \<and> permission = ''auth:login_pin'' \<and> us_pinResetRequired user) in
       thenT (checkT (\<not> (us_pinResetRequired user \<and> \<not> pinRecovery)) (Problem 403 ''pin_rotation_required'')) (
       bindT (getT (\<lambda>d. find (\<lambda>s. se_id s = id_sessionId identity \<and> se_userId s = actorId) (sessions d))) (\<lambda>foundSession.
       bindT (getT (securityOf tenantId)) (\<lambda>security.
       bindT (requireT foundSession forbidden) (\<lambda>session.
       let expiresAt = min (se_expiresAt session) (se_createdAt session + sessionMinutes security * 60000) in
       thenT (checkT (se_revokedAt session = None) forbidden) (
       bindT (nowT E) (\<lambda>now.
       thenT (checkT (now < expiresAt) forbidden) (
       returnT \<lparr> ca_authority = authority,
           ca_identity = \<lparr> mi_sub = actorId, mi_tenantId = tenantId, mi_sessionId = se_id session \<rparr>,
           ca_expiresAtEpochMs = expiresAt,
           ca_requiresMfa = (\<not> pinRecovery \<and> (us_mfaEnabled user \<or> member ''requireMfaForAll'' security = JBool True
             \<or> list_ex (\<lambda>k. k \<in> set PRIVILEGED_MFA_PERMISSION_KEYS) (as_permissions (ma_actorAccess authority)))) \<rparr>)))))))))))))))"

section \<open>The MFA observation\<close>

definition MAX_MFA_MARKER_TTL_MS :: int where "MAX_MFA_MARKER_TTL_MS = 86401000"

definition isCurrentMfaObservation :: "env \<Rightarrow> mfaObservation option \<Rightarrow> mfaIdentity \<Rightarrow> bool tx" where
  "isCurrentMfaObservation E observation identity =
     (case observation of
        None \<Rightarrow> returnT False
      | Some ob \<Rightarrow>
          if mo_sub ob = mi_sub identity \<and> mo_tenantId ob = mi_tenantId identity \<and> mo_sessionId ob = mi_sessionId identity
             \<and> isSafeInteger (mo_expiresAtEpochMs ob)
          then (bindT (nowT E) (\<lambda>now.
            if now < mo_expiresAtEpochMs ob
                   then bindT (monotonicT E) (\<lambda>monotonic. returnT (monotonic < mo_expiresAtMonotonicMs ob))
                   else returnT False))
          else returnT False)"

definition observeMfaVerification :: "env \<Rightarrow> mfaIdentity \<Rightarrow> mfaObservation option tx" where
  "observeMfaVerification E identity =
     (bindT (nowT E) (\<lambda>startedEpochMs.
       bindT (monotonicT E) (\<lambda>startedMonotonicMs.
       bindT (redisT E (''session_mfa:'' @ mi_sessionId identity)) (\<lambda>ttl.
       if \<not> isSafeInteger ttl \<or> ttl \<le> 0 \<or> MAX_MFA_MARKER_TTL_MS < ttl then returnT None
         else (let observation = \<lparr> mo_sub = mi_sub identity, mo_tenantId = mi_tenantId identity, mo_sessionId = mi_sessionId identity,
                    mo_expiresAtEpochMs = startedEpochMs + ttl, mo_expiresAtMonotonicMs = startedMonotonicMs + ttl \<rparr> in
           bindT (isCurrentMfaObservation E (Some observation) identity) (\<lambda>current.
           returnT (if current then Some observation else None)))))))"

definition assertCurrentMutation :: "env \<Rightarrow> currentAuthority \<Rightarrow> mfaObservation option \<Rightarrow> unit tx" where
  "assertCurrentMutation E authority observation =
     (bindT (nowT E) (\<lambda>now.
       thenT (checkT (now < ca_expiresAtEpochMs authority) forbidden) (
       if ca_requiresMfa authority
         then (bindT (isCurrentMfaObservation E observation (ca_identity authority)) (\<lambda>current.
           checkT current (Problem 403 ''mfa_verification_required'')))
         else returnT ())))"

section \<open>The scope of a payroll command\<close>

record mutationScope =
  sc_requestExpiresAt :: instant
  sc_observation :: "mfaObservation option"

definition prepareCurrentMutation :: "env \<Rightarrow> sessionIdentity \<Rightarrow> string \<Rightarrow> mutationScope tx" where
  "prepareCurrentMutation E identity permission =
     (bindT (retryPayrollSerializableMutation (withTenant E (id_tenantId identity)
           (authorizeCurrentMutation E identity permission noOptions))) (\<lambda>preflight.
       bindT ((if ca_requiresMfa preflight
           then if \<not> e_observer E then throwT (Problem 503 ''identity_service_unavailable'')
                else catchT (observeMfaVerification E (ca_identity preflight))
                       (\<lambda>_. throwT (Problem 503 ''identity_service_unavailable''))
           else returnT None)) (\<lambda>observation.
       thenT (assertCurrentMutation E preflight observation) (
       returnT \<lparr> sc_requestExpiresAt = ca_expiresAtEpochMs preflight, sc_observation = observation \<rparr>))))"

definition assertCurrent :: "env \<Rightarrow> mutationScope \<Rightarrow> currentAuthority \<Rightarrow> unit tx" where
  "assertCurrent E scope authority =
     (bindT (nowT E) (\<lambda>now.
       thenT (checkT (now < sc_requestExpiresAt scope) forbidden) (
       assertCurrentMutation E authority (sc_observation scope))))"

text \<open>The body of a transaction of the scope, and the scope's \<open>run\<close>.\<close>

definition scopeBody :: "env \<Rightarrow> sessionIdentity \<Rightarrow> string \<Rightarrow> mutationScope \<Rightarrow> (unit tx \<Rightarrow> 'a tx) \<Rightarrow> 'a tx" where
  "scopeBody E identity permission scope operation =
     (bindT (authorizeCurrentMutation E identity permission noOptions) (\<lambda>authority.
       thenT (assertCurrent E scope authority) (
       bindT (operation (assertCurrent E scope authority)) (\<lambda>response.
       thenT (assertCurrent E scope authority) (
       returnT response)))))"

definition runScope :: "env \<Rightarrow> sessionIdentity \<Rightarrow> string \<Rightarrow> mutationScope \<Rightarrow> (unit tx \<Rightarrow> 'a tx) \<Rightarrow> 'a tx" where
  "runScope E identity permission scope operation =
     retryPayrollSerializableMutation (withTenant E (id_tenantId identity)
       (scopeBody E identity permission scope operation))"

section \<open>Lemmas\<close>

lemma readsOnly_post: "readsOnly m \<Longrightarrow> post d m (\<lambda>_ d'. d' = d) (\<lambda>_ d'. d' = d)"
  by (rule post_readsOnly) simp_all

lemma readsOnly_authorizeMutation: "readsOnly (authorizeMutation E identity permission options)"
  unfolding authorizeMutation_def isAfter_def lockActorSession_def by (rule readsOnlyI) (intro tx_rules; simp)

lemma readsOnly_authorizeCurrentMutation: "readsOnly (authorizeCurrentMutation E identity permission options)"
  unfolding authorizeCurrentMutation_def
  by (rule readsOnly_bind [OF readsOnly_authorizeMutation], rule readsOnlyI) (intro tx_rules; simp)

lemma readsOnly_isCurrentMfaObservation: "readsOnly (isCurrentMfaObservation E observation identity)"
  unfolding isCurrentMfaObservation_def by (rule readsOnlyI) (intro tx_rules; simp)

lemma readsOnly_assertCurrentMutation: "readsOnly (assertCurrentMutation E authority observation)"
  unfolding assertCurrentMutation_def isCurrentMfaObservation_def by (rule readsOnlyI) (intro tx_rules; simp)

lemma readsOnly_assertCurrent [simp]: "readsOnly (assertCurrent E scope authority)"
  unfolding assertCurrent_def assertCurrentMutation_def isCurrentMfaObservation_def
  by (rule readsOnlyI) (intro tx_rules; simp)

lemma readsOnly_observeMfaVerification: "readsOnly (observeMfaVerification E identity)"
  unfolding observeMfaVerification_def isCurrentMfaObservation_def by (rule readsOnlyI) (intro tx_rules; simp)

lemma readsOnly_catch: "readsOnly m \<Longrightarrow> (\<And>e. readsOnly (h e)) \<Longrightarrow> readsOnly (catchT m h)"
  by (rule readsOnlyI, rule post_catch, erule post_readsOnly) (auto intro: post_readsOnly)

lemma readsOnly_throw: "readsOnly (throwT e)"
  by (simp add: readsOnly_def throwT_def)

lemma readsOnly_return: "readsOnly (returnT x)"
  by (simp add: readsOnly_def returnT_def)

lemma readsOnly_withTenant: "readsOnly body \<Longrightarrow> readsOnly (withTenant E tenantId body)"
  by (rule readsOnlyI, rule post_withTenant, rule post_readsOnly) simp_all

lemma readsOnly_retry: "readsOnly m \<Longrightarrow> readsOnly (retryPayrollSerializableMutation m)"
  unfolding retryPayrollSerializableMutation_def by (rule readsOnly_catch) (auto intro: readsOnly_throw)

lemma readsOnly_then: "readsOnly m \<Longrightarrow> readsOnly k \<Longrightarrow> readsOnly (thenT m k)"
  unfolding thenT_def by (rule readsOnly_bind)

lemma readsOnly_prepare [simp]: "readsOnly (prepareCurrentMutation E identity permission)"
  unfolding prepareCurrentMutation_def
  by (intro readsOnly_bind readsOnly_then readsOnly_retry readsOnly_withTenant readsOnly_authorizeCurrentMutation
      readsOnly_assertCurrentMutation readsOnly_return)
    (auto intro: readsOnly_throw readsOnly_return readsOnly_catch readsOnly_observeMfaVerification)

lemma post_prepare: "(\<And>scope. Q scope d) \<Longrightarrow> (\<And>e. F e d) \<Longrightarrow> post d (prepareCurrentMutation E identity permission) Q F"
  by (rule post_readsOnly [OF readsOnly_prepare])

text \<open>What the database has to say for a request to be authorized: a user of the tenant who is neither
  deleted nor suspended nor due to change the PIN, a session of that user that is not revoked, a
  tenant that is open, and a role that grants the permission.\<close>

definition holdsPermission :: "database \<Rightarrow> string \<Rightarrow> string \<Rightarrow> string \<Rightarrow> bool" where
  "holdsPermission d tenantId userId permission \<longleftrightarrow>
     (\<exists>a \<in> set (roleAssignments d). ra_tenantId a = tenantId \<and> ra_userId a = userId
       \<and> (\<exists>r \<in> set (roles d). ro_id r = ra_roleId a \<and> ro_tenantId r = tenantId \<and> ro_deletedAt r = None
            \<and> permission \<in> canonicalPermission ` set (ro_permissions r)))"

definition liveAuthority :: "database \<Rightarrow> sessionIdentity \<Rightarrow> string \<Rightarrow> bool" where
  "liveAuthority d identity permission \<longleftrightarrow>
     (\<exists>t \<in> set (tenants d). tn_id t = id_tenantId identity \<and> tn_deletedAt t = None
        \<and> tn_status t \<noteq> TENANT_SUSPENDED \<and> tn_status t \<noteq> TENANT_PURGED)
     \<and> (\<exists>u \<in> set (users d). us_id u = id_sub identity \<and> us_tenantId u = id_tenantId identity
        \<and> us_deletedAt u = None \<and> us_suspendedAt u = None \<and> \<not> us_pinResetRequired u)
     \<and> (\<exists>s \<in> set (sessions d). se_id s = id_sessionId identity \<and> se_userId s = id_sub identity \<and> se_revokedAt s = None)
     \<and> holdsPermission d (id_tenantId identity) (id_sub identity) permission"

lemma rolesOf_holds:
  assumes "permission \<in> set (as_permissions (accessFor role (rolesOf tenantId userId d)))"
  shows "holdsPermission d tenantId userId permission"
proof -
  obtain r p where r: "r \<in> set (rolesOf tenantId userId d)" and p: "p \<in> set (ro_permissions r)" "canonicalPermission p = permission"
    using assms by (auto simp: accessFor_def Let_def)
  obtain a where a: "a \<in> set (roleAssignments d)" "ra_tenantId a = tenantId" "ra_userId a = userId"
    and f: "find (\<lambda>r. ro_id r = ra_roleId a \<and> ro_tenantId r = tenantId \<and> ro_deletedAt r = None) (roles d) = Some r"
    using r by (auto simp: rolesOf_def findMany_def split: option.splits)
  show ?thesis using a p find_SomeD [OF f] by (auto simp: holdsPermission_def intro!: bexI [of _ a] bexI [of _ r])
qed

lemma sat_authorizeMutation:
  "sat d (authorizeMutation E identity permission options) (\<lambda>ma d'. d' = d
     \<and> us_id (ma_actor ma) = trim (id_sub identity)
     \<and> permission \<in> set (as_permissions (ma_actorAccess ma))
     \<and> holdsPermission d (id_tenantId identity) (trim (id_sub identity)) permission)"
  unfolding authorizeMutation_def isAfter_def lockActorSession_def
  by (intro tx_rules) (auto dest!: find_SomeD dest: rolesOf_holds)

lemma sat_authorizeCurrentMutation:
  "sat d (authorizeCurrentMutation E identity permission noOptions) (\<lambda>ca d'. d' = d \<and> liveAuthority d identity permission
     \<and> mi_sub (ca_identity ca) = id_sub identity \<and> mi_tenantId (ca_identity ca) = id_tenantId identity
     \<and> mi_sessionId (ca_identity ca) = id_sessionId identity
     \<and> (permission \<in> set PRIVILEGED_MFA_PERMISSION_KEYS \<longrightarrow> ca_requiresMfa ca))"
  unfolding authorizeCurrentMutation_def
  apply (rule post_bind, rule post_weaken [OF sat_authorizeMutation])
   apply (intro tx_rules)
                  apply (auto simp: noOptions_def liveAuthority_def list_ex_iff dest!: find_SomeD)
  done

text \<open>What a successful \<open>assertCurrent\<close> says of the MFA observation.\<close>

definition observedFor :: "mfaObservation option \<Rightarrow> mfaIdentity \<Rightarrow> bool" where
  "observedFor observation identity \<longleftrightarrow>
     (\<exists>ob. observation = Some ob \<and> mo_sub ob = mi_sub identity \<and> mo_tenantId ob = mi_tenantId identity
        \<and> mo_sessionId ob = mi_sessionId identity)"

lemma sat_assertCurrent:
  "sat d (assertCurrent E scope authority) (\<lambda>_ d'. d' = d
     \<and> (ca_requiresMfa authority \<longrightarrow> observedFor (sc_observation scope) (ca_identity authority)))"
  unfolding assertCurrent_def assertCurrentMutation_def isCurrentMfaObservation_def observedFor_def
  by (intro tx_rules) auto

lemma sat_scopeBody:
  assumes "\<And>cur. readsOnly cur \<Longrightarrow> liveAuthority d identity permission \<Longrightarrow> sat d (operation cur) Q"
  shows "sat d (scopeBody E identity permission scope operation) (\<lambda>x d'. Q x d' \<and> liveAuthority d identity permission
    \<and> (permission \<in> set PRIVILEGED_MFA_PERMISSION_KEYS \<longrightarrow>
         observedFor (sc_observation scope) \<lparr> mi_sub = id_sub identity, mi_tenantId = id_tenantId identity, mi_sessionId = id_sessionId identity \<rparr>))"
proof -
  let ?mfa = "\<lambda>identity'. observedFor (sc_observation scope) identity'"
  have step: "sat d (thenT (assertCurrent E scope ca) (bindT (operation (assertCurrent E scope ca))
      (\<lambda>response. thenT (assertCurrent E scope ca) (returnT response))))
      (\<lambda>x d'. Q x d' \<and> (ca_requiresMfa ca \<longrightarrow> ?mfa (ca_identity ca)))"
    if live: "liveAuthority d identity permission" for ca
    apply (rule post_then, rule post_weaken [OF sat_assertCurrent])
     apply (clarify, rule post_bind, rule post_weaken [OF assms [OF readsOnly_assertCurrent live]])
      apply (rule post_then, rule post_readsOnly [OF readsOnly_assertCurrent])
       apply (auto intro: post_return)
    done
  show ?thesis
    unfolding scopeBody_def
    apply (rule post_bind, rule post_weaken [OF sat_authorizeCurrentMutation])
     apply (clarify, rule post_weaken [OF step])
       apply (auto simp: observedFor_def)
    done
qed

lemma post_runScope:
  assumes "\<And>cur. readsOnly cur \<Longrightarrow> liveAuthority d identity permission \<Longrightarrow> sat d (operation cur) Q"
    and "\<And>e. F e d" and "\<And>x d'. Q x d' \<Longrightarrow> F (DbError P1017) d'"
  shows "post d (runScope E identity permission scope operation) Q F"
  unfolding runScope_def
  by (rule post_retry_withTenant, rule post_weaken [OF sat_scopeBody [OF assms(1)]]) (use assms(2,3) in auto)

context preserved
begin

lemma keeps_scopeBody: "(\<And>cur. readsOnly cur \<Longrightarrow> keeps R (operation cur)) \<Longrightarrow> keeps R (scopeBody E identity permission scope operation)"
  unfolding scopeBody_def
  by (intro keeps_bind keeps_then keeps_pure) (auto intro: keeps_readsOnly readsOnly_authorizeCurrentMutation)

lemma always_runScope: "(\<And>cur. readsOnly cur \<Longrightarrow> keeps R (operation cur)) \<Longrightarrow> always R (runScope E identity permission scope operation)"
  unfolding runScope_def by (intro always_retry always_withTenant keeps_scopeBody)

lemma always_prepare: "always R (prepareCurrentMutation E identity permission)"
  by (rule always_readsOnly) simp

end

section \<open>Properties\<close>


text \<open>
  Administering another account never reaches up: when \<open>assertCanAdministerTarget\<close> passes, the target is someone
  else, and an actor who is no system administrator outranks the target, who is none either, and holds
  every permission of the target and at least one more.
\<close>

lemma administer_never_escalates:
  assumes "assertCanAdministerTarget actor (accessFor ra rs) target (accessFor rt ts) = ok ()"
  shows "us_id actor \<noteq> us_id target
    \<and> (as_isSystemAdmin (accessFor ra rs)
       \<or> \<not> as_isSystemAdmin (accessFor rt ts)
         \<and> roleRank (us_role target) < max (roleRank (us_role actor)) (as_rank (accessFor ra rs))
         \<and> set (as_permissions (accessFor rt ts)) \<subset> set (as_permissions (accessFor ra rs)))"
proof -
  let ?a = "accessFor ra rs" and ?t = "accessFor rt ts"
  have d: "distinct (as_permissions ?a)" "distinct (as_permissions ?t)" by (simp_all add: accessFor_def Let_def)
  have sub: "set (as_permissions ?t) \<subset> set (as_permissions ?a)"
    if "set (as_permissions ?t) \<subseteq> set (as_permissions ?a)" "length (as_permissions ?a) \<noteq> length (as_permissions ?t)"
    using that d by (metis distinct_card psubsetI)
  show ?thesis
    using assms sub
    by (auto simp: assertCanAdministerTarget_def Let_def bindR_ok checkR_ok list_ex_iff split: if_splits)
qed

text \<open>
  Delegation never adds permissions: a role that \<open>canDelegateRole\<close> lets an actor hand out, and keys that
  \<open>assertCanGrantPermissions\<close> lets it grant, hold only permissions the actor has, unless a system
  administrator grants keys; and no one else hands out the protected ones.
\<close>

lemma delegation_within_access:
  assumes "canDelegateRole access r" and "assertCanGrantPermissions access keys = ok ()"
  shows "canonicalPermission ` set (ro_permissions r) \<subseteq> set (as_permissions access)
    \<and> (as_isSystemAdmin access \<or> set keys \<subseteq> set (as_permissions access)
         \<and> set keys \<inter> set PROTECTED_PERMISSION_KEYS = {}
         \<and> canonicalPermission ` set (ro_permissions r) \<inter> set PROTECTED_PERMISSION_KEYS = {})"
  using assms
  by (auto simp: canDelegateRole_def assertCanGrantPermissions_def Let_def bindR_ok checkR_ok list_ex_iff list_all_iff split: if_splits)

end
