(* ===== verification/Entitlement.thy ===== *)
theory Entitlement
  imports Authority
begin

text \<open>
  Feature access and credit settlement (\<open>platform/feature-entitlement.ts\<close>).  Whether the internal beta is
  enabled (\<open>internalBetaRuntimeEnabled\<close>, environment variables and a URL) is the field \<open>e_internalBeta\<close> of
  the environment.  The wallet of a tenant is its \<open>usageCredits\<close>; every debit leaves one row in the
  credit ledger.
\<close>

datatype feature = Lunch_breaks | Scheduling | Time_cards

fun featureText :: "feature \<Rightarrow> string" where
  "featureText Lunch_breaks = ''lunch_breaks''"
| "featureText Scheduling = ''scheduling''"
| "featureText Time_cards = ''time_cards''"

record featureEntitlement =
  fe_feature :: feature
  fe_creditCost :: int

definition notEntitled :: "feature \<Rightarrow> failure" where
  "notEntitled f = Problem 403 (featureText f @ ''_not_entitled'')"

section \<open>Plans and overrides\<close>

definition DEFAULT_FEATURES :: "(string \<times> feature list) list" where
  "DEFAULT_FEATURES =
     [(''FREE'', []), (''STARTER'', [Scheduling]), (''GROWTH'', [Scheduling, Lunch_breaks, Time_cards]),
      (''ENTERPRISE'', [Scheduling, Lunch_breaks, Time_cards])]"

definition defaultFeatures :: "string \<Rightarrow> feature list" where
  "defaultFeatures code = (case map_of DEFAULT_FEATURES code of None \<Rightarrow> [] | Some fs \<Rightarrow> fs)"

text \<open>\<open>toUpperCase\<close> on code units below 256 that stay below 256; the plan codes are ASCII.\<close>

definition toUpperUnit :: "char \<Rightarrow> char" where
  "toUpperUnit c = (let n = codeUnit c
     in if 97 \<le> n \<and> n \<le> 122 \<or> 224 \<le> n \<and> n \<le> 254 \<and> n \<noteq> 247 then char_of (n - 32) else c)"

definition planCode :: "string \<Rightarrow> string" where
  "planCode v = (let normalized = map toUpperUnit (trim v)
     in if map_of DEFAULT_FEATURES normalized \<noteq> None then normalized else ''FREE'')"

definition featureOf :: "json \<Rightarrow> feature list" where
  "featureOf j =
     (if j = JStr ''scheduling'' then [Scheduling] else if j = JStr ''lunch_breaks'' then [Lunch_breaks]
      else if j = JStr ''time_cards'' then [Time_cards] else [])"

definition planFeatures :: "json option \<Rightarrow> string \<Rightarrow> feature list" where
  "planFeatures metadata fallback =
     (case metadata of
        Some (JObj kvs) \<Rightarrow>
          (case member ''features'' (JObj kvs) of JArr vs \<Rightarrow> jsSet (concat (map featureOf vs)) | _ \<Rightarrow> [])
      | _ \<Rightarrow> defaultFeatures fallback)"

definition overrideFor :: "json option \<Rightarrow> feature \<Rightarrow> json option" where
  "overrideFor v f =
     (case v of
        None \<Rightarrow> None
      | Some j \<Rightarrow> (let override = member (featureText f) (member ''features'' j)
                  in if isObject override then Some override else None))"

section \<open>The internal beta\<close>

definition boundedPrintable :: "json \<Rightarrow> nat \<Rightarrow> bool" where
  "boundedPrintable j maximum =
     (case j of JStr s \<Rightarrow> trim s \<noteq> [] \<and> length s \<le> maximum \<and> \<not> list_ex isControl s | _ \<Rightarrow> False)"

definition dateMember :: "string \<Rightarrow> json \<Rightarrow> jsdate" where
  "dateMember k j = (case member k j of JStr s \<Rightarrow> dateParse s | _ \<Rightarrow> None)"

definition textOf :: "json \<Rightarrow> string" where
  "textOf j = (case j of JStr s \<Rightarrow> s | _ \<Rightarrow> [])"

definition activeInternalBetaGrant :: "json option \<Rightarrow> instant \<Rightarrow> json option" where
  "activeInternalBetaGrant v now =
     (case v of
        Some (JObj kvs) \<Rightarrow>
          (let grant = JObj kvs
           in case (dateMember ''approvedAt'' grant, dateMember ''expiresAt'' grant, member ''creditsGranted'' grant) of
                (Some approvedAt, Some expiresAt, JNum credits) \<Rightarrow>
                  if member ''version'' grant = JNum 1 \<and> member ''source'' grant = JStr ''internal_beta''
                     \<and> member ''status'' grant = JStr ''ACTIVE'' \<and> member ''features'' grant = JArr [JStr ''scheduling'']
                     \<and> boundedPrintable (member ''grantId'' grant) 255
                     \<and> member ''auditId'' grant = JStr (textOf (member ''grantId'' grant) @ ''-internal-beta-audit'')
                     \<and> member ''creditTransactionId'' grant = member ''grantId'' grant
                     \<and> isSafeInteger credits \<and> 1 \<le> credits \<and> credits \<le> 1000
                     \<and> boundedPrintable (member ''ledgerReason'' grant) 500
                     \<and> boundedPrintable (member ''reason'' grant) 240
                     \<and> boundedPrintable (member ''approvedByUserId'' grant) 255
                     \<and> approvedAt \<le> now \<and> now < expiresAt \<and> approvedAt < expiresAt
                  then Some grant else None
              | _ \<Rightarrow> None)
      | _ \<Rightarrow> None)"

definition GRANT_EVIDENCE :: "string list" where
  "GRANT_EVIDENCE = [''grantId'', ''auditId'', ''creditTransactionId'', ''creditsGranted'', ''ledgerReason'', ''reason'',
     ''approvedAt'', ''approvedByUserId'', ''expiresAt'']"

definition hasActiveInternalBetaSchedulingEntitlement :: "env \<Rightarrow> tenant \<Rightarrow> json option \<Rightarrow> instant \<Rightarrow> database \<Rightarrow> bool" where
  "hasActiveInternalBetaSchedulingEntitlement E tenant setting now d =
     (e_internalBeta E \<and>
      (case (activeInternalBetaGrant setting now, tn_trialEndsAt tenant) of
         (Some grant, Some trialEndsAt) \<Rightarrow>
           planCode (tn_planTier tenant) \<noteq> ''FREE'' \<and> tn_status tenant = TENANT_TRIAL \<and> now < trialEndsAt
           \<and> (case dateMember ''expiresAt'' grant of None \<Rightarrow> False | Some expiresAt \<Rightarrow> expiresAt \<le> trialEndsAt)
           \<and> (case (find (\<lambda>c. ct_id c = textOf (member ''creditTransactionId'' grant)) (creditTransactions d),
                    find (\<lambda>a. al_id a = textOf (member ''auditId'' grant)) (auditLogs d)) of
                (Some credit, Some audit) \<Rightarrow>
                  ct_tenantId credit = tn_id tenant \<and> JNum (ct_amount credit) = member ''creditsGranted'' grant
                  \<and> ct_debtAmount credit = 0 \<and> JStr (ct_reason credit) = member ''ledgerReason'' grant
                  \<and> (case ct_balanceAfter credit of None \<Rightarrow> False | Some b \<Rightarrow> isSafeInteger b \<and> 0 \<le> b)
                  \<and> ct_debtAfter credit = Some 0
                  \<and> al_tenantId audit = tn_id tenant \<and> al_action audit = ''INTERNAL_BETA_ENTITLEMENT_GRANTED''
                  \<and> al_resource audit = ''TenantSetting'' \<and> JStr (al_resourceId audit) = member ''grantId'' grant
                  \<and> (case al_newValue audit of
                       None \<Rightarrow> False
                     | Some v \<Rightarrow> isObject (member ''entitlement'' v)
                         \<and> list_all (\<lambda>k. member k (member ''entitlement'' v) = member k grant) GRANT_EVIDENCE)
              | _ \<Rightarrow> False)
       | _ \<Rightarrow> False))"

section \<open>Entitlement\<close>

definition settingOf :: "string \<Rightarrow> string \<Rightarrow> database \<Rightarrow> json option" where
  "settingOf tenantId key d =
     map_option ts_value (find (\<lambda>s. ts_tenantId s = tenantId \<and> ts_key s = key) (tenantSettings d))"

definition assertFeatureEntitled :: "env \<Rightarrow> string \<Rightarrow> feature \<Rightarrow> bool \<Rightarrow> featureEntitlement option tx" where
  "assertFeatureEntitled E tenantId feature billable =
     (bindT (getT (\<lambda>d. find (\<lambda>t. tn_id t = tenantId \<and> tn_deletedAt t = None) (tenants d))) (\<lambda>found.
       bindT (getT (settingOf tenantId ''feature_access'')) (\<lambda>setting.
       bindT (getT (\<lambda>d. if e_internalBeta E then settingOf tenantId ''internal_beta_entitlement'' d else None)) (\<lambda>internalBetaSetting.
       bindT (requireT found (notEntitled feature)) (\<lambda>tenant.
       let override = overrideFor setting feature in
       thenT (checkT (\<not> (case override of None \<Rightarrow> False
             | Some ov \<Rightarrow> member ''source'' ov = JStr ''disabled'' \<or> member ''enabled'' ov = JBool False)) (notEntitled feature)) (
       bindT (nowT E) (\<lambda>now.
       let activeSubscription = (tn_status tenant = TENANT_ACTIVE
             \<and> (case tn_stripeSubscriptionId tenant of None \<Rightarrow> False | Some s \<Rightarrow> trim s \<noteq> [])
             \<and> (case tn_stripeSubscriptionCurrentPeriodEnd tenant of None \<Rightarrow> False | Some t \<Rightarrow> now < t)) in
       bindT (getT (\<lambda>d. feature = Scheduling
             \<and> hasActiveInternalBetaSchedulingEntitlement E tenant internalBetaSetting now d)) (\<lambda>internalBetaActive.
       thenT (checkT (activeSubscription \<or> internalBetaActive) (notEntitled feature)) (
       let code = planCode (tn_planTier tenant) in
       bindT (getT (\<lambda>d. find (\<lambda>p. pd_code p = code) (planDefinitions d))) (\<lambda>plan.
       let overrideEnabled = (case override of None \<Rightarrow> False
             | Some ov \<Rightarrow> member ''enabled'' ov = JBool True
                 \<and> member ''source'' ov \<in> {JStr ''manual'', JStr ''stripe'', JStr ''credits''}) in
       thenT (checkT (overrideEnabled \<or> feature \<in> set (planFeatures (case plan of None \<Rightarrow> None | Some p \<Rightarrow> pd_metadata p) code))
           (notEntitled feature)) (
       if \<not> billable then returnT None
         else (thenT (checkT (isSafeInteger (tn_creditDebt tenant) \<and> tn_creditDebt tenant = 0) (notEntitled feature)) (
           thenT (checkT (isSafeInteger (tn_usageCredits tenant) \<and> 1 \<le> tn_usageCredits tenant) (notEntitled feature)) (
           returnT (Some \<lparr> fe_feature = feature, fe_creditCost = 1 \<rparr>)))))))))))))))"

section \<open>Settlement\<close>

record settlement =
  sm_consumedCredits :: int
  sm_newBalance :: int

definition tenantTable :: "tenant table" where "tenantTable = (tenants, tenants_update)"

definition creditTable :: "creditTransaction table" where "creditTable = (creditTransactions, creditTransactions_update)"

definition creditClash :: "creditTransaction \<Rightarrow> creditTransaction \<Rightarrow> bool" where
  "creditClash a b \<longleftrightarrow> ct_id a = ct_id b"

definition debitFeatureCredit ::
    "unit tx \<Rightarrow> string \<Rightarrow> featureEntitlement \<Rightarrow> string \<Rightarrow> string \<Rightarrow> string option \<Rightarrow> settlement tx" where
  "debitFeatureCredit cur tenantId entitlement operationId reason transactionIdArg =
     (thenT cur (
       let transactionId = (case transactionIdArg of None \<Rightarrow> ''feature-usage-'' @ operationId | Some t \<Rightarrow> t) in
       let cost = fe_creditCost entitlement in
       bindT (getT (\<lambda>d. find (\<lambda>c. ct_id c = transactionId) (creditTransactions d))) (\<lambda>existing.
       case existing of
           Some c \<Rightarrow>
             (thenT (checkT (ct_tenantId c = tenantId \<and> ct_amount c = - cost \<and> ct_debtAmount c = 0 \<and> ct_reason c = reason
                   \<and> (case ct_balanceAfter c of None \<Rightarrow> False | Some b \<Rightarrow> isSafeInteger b \<and> 0 \<le> b) \<and> ct_debtAfter c = Some 0)
                   (Problem 409 ''credit_settlement_conflict'')) (
               thenT cur (
               returnT \<lparr> sm_consumedCredits = cost, sm_newBalance = the (ct_balanceAfter c) \<rparr>)))
         | None \<Rightarrow>
             (thenT cur (
               bindT (updateManyT tenantTable
                   (\<lambda>t. tn_id t = tenantId \<and> tn_creditDebt t = 0 \<and> cost \<le> tn_usageCredits t)
                   (\<lambda>t. t \<lparr> tn_usageCredits := tn_usageCredits t - cost \<rparr>)) (\<lambda>count.
               thenT cur (
               thenT (checkT (count = 1) (notEntitled (fe_feature entitlement))) (
               bindT (getT (\<lambda>d. find (\<lambda>t. tn_id t = tenantId) (tenants d))) (\<lambda>found.
               bindT (requireT found (DbError P2025)) (\<lambda>tenant.
               thenT (checkT (isSafeInteger (tn_usageCredits tenant) \<and> 0 \<le> tn_usageCredits tenant \<and> tn_creditDebt tenant = 0)
                   (Problem 409 ''credit_settlement_conflict'')) (
               thenT cur (
               thenT (createT creditTable creditClash \<lparr> ct_id = transactionId, ct_tenantId = tenantId, ct_amount = - cost,
                   ct_debtAmount = 0, ct_reason = reason, ct_balanceAfter = Some (tn_usageCredits tenant),
                   ct_debtAfter = Some (tn_creditDebt tenant) \<rparr>) (
               thenT cur (
               returnT \<lparr> sm_consumedCredits = cost, sm_newBalance = tn_usageCredits tenant \<rparr>))))))))))))))"

section \<open>Lemmas\<close>

lemma readsOnly_assertFeatureEntitled [simp]: "readsOnly (assertFeatureEntitled E tenantId feature billable)"
  unfolding assertFeatureEntitled_def by (rule readsOnlyI) (intro tx_rules; simp)

text \<open>The wallet of a tenant and the sum of its ledger.\<close>

definition wallet :: "database \<Rightarrow> string \<Rightarrow> int" where
  "wallet d tenantId = sum_list (map tn_usageCredits (filter (\<lambda>t. tn_id t = tenantId) (tenants d)))"

definition ledgerSum :: "database \<Rightarrow> string \<Rightarrow> int" where
  "ledgerSum d tenantId = sum_list (map ct_amount (filter (\<lambda>c. ct_tenantId c = tenantId) (creditTransactions d)))"

text \<open>The two ways a settlement succeeds: a ledger row of this transaction is there and matches, or the
  wallet pays and the row is written.\<close>

definition settled :: "database \<Rightarrow> string \<Rightarrow> int \<Rightarrow> string \<Rightarrow> string \<Rightarrow> int \<Rightarrow> bool" where
  "settled d tenantId cost transactionId reason balance \<longleftrightarrow>
     (\<exists>c. find (\<lambda>c. ct_id c = transactionId) (creditTransactions d) = Some c \<and> ct_tenantId c = tenantId \<and> ct_amount c = - cost
        \<and> ct_debtAmount c = 0 \<and> ct_reason c = reason \<and> ct_balanceAfter c = Some balance \<and> ct_debtAfter c = Some 0)"

definition payer :: "string \<Rightarrow> int \<Rightarrow> tenant \<Rightarrow> bool" where
  "payer tenantId cost t \<longleftrightarrow> tn_id t = tenantId \<and> tn_creditDebt t = 0 \<and> cost \<le> tn_usageCredits t"

definition pay :: "int \<Rightarrow> tenant \<Rightarrow> tenant" where
  "pay cost t = t \<lparr> tn_usageCredits := tn_usageCredits t - cost \<rparr>"

definition debited :: "database \<Rightarrow> string \<Rightarrow> int \<Rightarrow> string \<Rightarrow> string \<Rightarrow> int \<Rightarrow> database \<Rightarrow> bool" where
  "debited d tenantId cost transactionId reason balance d' \<longleftrightarrow>
     transactionId \<notin> ct_id ` set (creditTransactions d)
     \<and> length (filter (payer tenantId cost) (tenants d)) = 1
     \<and> d' = d \<lparr> tenants := updateWhere (payer tenantId cost) (pay cost) (tenants d),
               creditTransactions := creditTransactions d @ [\<lparr> ct_id = transactionId, ct_tenantId = tenantId,
                 ct_amount = - cost, ct_debtAmount = 0, ct_reason = reason, ct_balanceAfter = Some balance, ct_debtAfter = Some 0 \<rparr>] \<rparr>"

lemma sum_updateWhere:
  fixes g :: "'a \<Rightarrow> int"
  assumes "\<And>x. P x \<Longrightarrow> Q x \<and> Q (f x)" and "\<And>x. P x \<Longrightarrow> g (f x) = g x + k"
  shows "sum_list (map g (filter Q (updateWhere P f xs))) = sum_list (map g (filter Q xs)) + k * int (length (filter P xs))"
  using assms by (induction xs) (auto simp: updateWhere_def algebra_simps)

lemma debited_wallet:
  assumes "debited d tenantId cost transactionId reason balance d'"
  shows "wallet d' tenantId = wallet d tenantId - cost" "ledgerSum d' tenantId = ledgerSum d tenantId - cost"
    and "other \<noteq> tenantId \<Longrightarrow> wallet d' other = wallet d other" "other \<noteq> tenantId \<Longrightarrow> ledgerSum d' other = ledgerSum d other"
proof -
  have n: "length (filter (payer tenantId cost) (tenants d)) = 1" and d': "tenants d' = updateWhere (payer tenantId cost) (pay cost) (tenants d)"
    "creditTransactions d' = creditTransactions d @ [\<lparr> ct_id = transactionId, ct_tenantId = tenantId,
       ct_amount = - cost, ct_debtAmount = 0, ct_reason = reason, ct_balanceAfter = Some balance, ct_debtAfter = Some 0 \<rparr>]"
    using assms by (auto simp: debited_def)
  show "wallet d' tenantId = wallet d tenantId - cost"
    unfolding wallet_def d'
    by (subst sum_updateWhere [where k = "- cost"]) (use n in \<open>auto simp: payer_def pay_def\<close>)
  show "ledgerSum d' tenantId = ledgerSum d tenantId - cost" by (simp add: ledgerSum_def d')
  show "ledgerSum d' other = ledgerSum d other" if "other \<noteq> tenantId" using that by (simp add: ledgerSum_def d')
  show "wallet d' other = wallet d other" if "other \<noteq> tenantId"
  proof -
    have "filter (\<lambda>t. tn_id t = other) (updateWhere (payer tenantId cost) (pay cost) ts) = filter (\<lambda>t. tn_id t = other) ts" for ts
      using that by (induction ts) (auto simp: updateWhere_def payer_def pay_def)
    then show ?thesis by (simp add: wallet_def d')
  qed
qed

lemma debited_nonneg:
  assumes "debited d tenantId cost transactionId reason balance d'" and "\<forall>t \<in> set (tenants d). 0 \<le> tn_usageCredits t"
  shows "\<forall>t \<in> set (tenants d'). 0 \<le> tn_usageCredits t"
  using assms by (auto simp: debited_def updateWhere_def payer_def pay_def)

lemma find_append_unique: "(\<forall>x \<in> set xs. \<not> P x) \<Longrightarrow> find P (xs @ ys) = find P ys"
  by (induction xs) auto

lemma debited_settled:
  assumes "debited d tenantId cost transactionId reason balance d'"
  shows "settled d' tenantId cost transactionId reason balance"
proof -
  have "\<forall>c \<in> set (creditTransactions d). \<not> ct_id c = transactionId" using assms by (auto simp: debited_def)
  then have "find (\<lambda>c. ct_id c = transactionId) (creditTransactions d @ rows) = find (\<lambda>c. ct_id c = transactionId) rows" for rows
    by (rule find_append_unique)
  then show ?thesis using assms by (auto simp: settled_def debited_def)
qed

lemma debited_gap:
  assumes "debited d tenantId cost transactionId reason balance d'"
  shows "wallet d' t - ledgerSum d' t = wallet d t - ledgerSum d t"
  using debited_wallet [OF assms] by (cases "t = tenantId") simp_all

lemma post_cur: "readsOnly cur \<Longrightarrow> Q () d \<Longrightarrow> (\<And>e. F e d) \<Longrightarrow> post d cur Q F"
  by (rule post_readsOnly) simp_all

section \<open>The wallet as an interface\<close>

text \<open>
  What the features that cost credits rely on: charging a transaction succeeds only as \<open>settled\<close> or
  \<open>debited\<close> say, and reports the cost.
\<close>

locale credit_wallet =
  fixes charge :: "unit tx \<Rightarrow> string \<Rightarrow> int \<Rightarrow> string \<Rightarrow> string \<Rightarrow> settlement tx"
  assumes charge_spec: "readsOnly cur \<Longrightarrow> sat d (charge cur tenantId cost transactionId reason) (\<lambda>s d'.
      sm_consumedCredits s = cost \<and> isSafeInteger (sm_newBalance s) \<and> 0 \<le> sm_newBalance s
      \<and> (settled d tenantId cost transactionId reason (sm_newBalance s) \<and> d' = d
         \<or> debited d tenantId cost transactionId reason (sm_newBalance s) d'))"
begin

lemma charge_conserves:
  assumes "readsOnly cur"
  shows "sat d (charge cur tenantId cost transactionId reason) (\<lambda>_ d'. \<forall>t. wallet d' t - ledgerSum d' t = wallet d t - ledgerSum d t)"
  by (rule post_weaken [OF charge_spec [OF assms]])
    (auto dest: debited_gap)

lemma charge_twice:
  assumes "readsOnly cur"
  shows "sat d (bindT (charge cur tenantId cost transactionId reason) (\<lambda>a.
      bindT (charge cur tenantId cost transactionId reason) (\<lambda>b. returnT (a, b)))) (\<lambda>(a, b) d'. a = b
        \<and> (settled d tenantId cost transactionId reason (sm_newBalance a) \<and> d' = d
           \<or> debited d tenantId cost transactionId reason (sm_newBalance a) d'))"
proof (rule post_bind, rule post_weaken [OF charge_spec [OF assms]])
  fix a :: settlement and d1
  assume 1: "sm_consumedCredits a = cost \<and> isSafeInteger (sm_newBalance a) \<and> 0 \<le> sm_newBalance a
      \<and> (settled d tenantId cost transactionId reason (sm_newBalance a) \<and> d1 = d
         \<or> debited d tenantId cost transactionId reason (sm_newBalance a) d1)"
  then have s1: "settled d1 tenantId cost transactionId reason (sm_newBalance a)" using debited_settled by blast
  show "sat d1 (bindT (charge cur tenantId cost transactionId reason) (\<lambda>b. returnT (a, b))) (\<lambda>(a, b) d'. a = b
        \<and> (settled d tenantId cost transactionId reason (sm_newBalance a) \<and> d' = d
           \<or> debited d tenantId cost transactionId reason (sm_newBalance a) d'))"
  proof (rule post_bind, rule post_weaken [OF charge_spec [OF assms]])
    fix b :: settlement and d2
    assume 2: "sm_consumedCredits b = cost \<and> isSafeInteger (sm_newBalance b) \<and> 0 \<le> sm_newBalance b
      \<and> (settled d1 tenantId cost transactionId reason (sm_newBalance b) \<and> d2 = d1
         \<or> debited d1 tenantId cost transactionId reason (sm_newBalance b) d2)"
    have "\<not> debited d1 tenantId cost transactionId reason (sm_newBalance b) d2"
      using s1 by (auto simp: settled_def debited_def dest!: find_SomeD)
    then have "d2 = d1" "sm_newBalance b = sm_newBalance a" using 2 s1 by (auto simp: settled_def)
    moreover have "a = b" using 1 2 calculation by (cases a; cases b) simp
    ultimately show "sat d2 (returnT (a, b)) (\<lambda>(a, b) d'. a = b
        \<and> (settled d tenantId cost transactionId reason (sm_newBalance a) \<and> d' = d
           \<or> debited d tenantId cost transactionId reason (sm_newBalance a) d'))"
      using 1 by (auto intro: post_return)
  qed simp
qed simp

end

lemma sat_debitFeatureCredit:
  assumes "readsOnly cur"
  shows "sat d (debitFeatureCredit cur tenantId entitlement operationId reason (Some transactionId)) (\<lambda>s d'.
      sm_consumedCredits s = fe_creditCost entitlement \<and> isSafeInteger (sm_newBalance s) \<and> 0 \<le> sm_newBalance s
      \<and> (settled d tenantId (fe_creditCost entitlement) transactionId reason (sm_newBalance s) \<and> d' = d
         \<or> debited d tenantId (fe_creditCost entitlement) transactionId reason (sm_newBalance s) d'))"
  unfolding debitFeatureCredit_def
  apply (intro tx_rules post_cur [OF assms])
  apply (auto simp: settled_def debited_def tenantTable_def creditTable_def creditClash_def payer_def [abs_def] pay_def [abs_def]
      find_None_iff list_ex_iff split: option.splits)
  done

interpretation feature_wallet: credit_wallet
  "\<lambda>cur tenantId cost transactionId reason.
     debitFeatureCredit cur tenantId \<lparr> fe_feature = Time_cards, fe_creditCost = cost \<rparr> [] reason (Some transactionId)"
proof
  fix cur d tenantId cost transactionId reason
  assume "readsOnly (cur :: unit tx)"
  from sat_debitFeatureCredit [OF this, of d tenantId "\<lparr> fe_feature = Time_cards, fe_creditCost = cost \<rparr>" "[]" reason transactionId]
  show "sat d (debitFeatureCredit cur tenantId \<lparr> fe_feature = Time_cards, fe_creditCost = cost \<rparr> [] reason (Some transactionId)) (\<lambda>s d'.
      sm_consumedCredits s = cost \<and> isSafeInteger (sm_newBalance s) \<and> 0 \<le> sm_newBalance s
      \<and> (settled d tenantId cost transactionId reason (sm_newBalance s) \<and> d' = d
         \<or> debited d tenantId cost transactionId reason (sm_newBalance s) d'))" by simp
qed

lemmas tx_run = bindT_def thenT_def getT_def requireT_def checkT_def nowT_def returnT_def throwT_def liftT_def

section \<open>Properties\<close>

text \<open>
  Property C34.  A settlement either finds its own ledger row, in which case nothing changes, or takes exactly the cost from a
  wallet that covers it, free of debt, and writes exactly one ledger row for that amount; the
  balance it reports is never negative, and no other table changes.
\<close>

theorem debit_exact:
  assumes "debitFeatureCredit (assertCurrent E scope authority) tenantId entitlement operationId reason (Some transactionId) w = (ok s, w')"
  shows "sm_consumedCredits s = fe_creditCost entitlement \<and> 0 \<le> sm_newBalance s
    \<and> (w_db w' = w_db w \<and> settled (w_db w) tenantId (fe_creditCost entitlement) transactionId reason (sm_newBalance s)
       \<or> debited (w_db w) tenantId (fe_creditCost entitlement) transactionId reason (sm_newBalance s) (w_db w')
         \<and> wallet (w_db w') tenantId = wallet (w_db w) tenantId - fe_creditCost entitlement)"
  using satD [OF sat_debitFeatureCredit [OF readsOnly_assertCurrent] assms] debited_wallet(1) by blast

text \<open>
  Property C35.  Settling the same transaction twice charges once: the second settlement reports what the first did and
  leaves the wallet and the ledger as the first left them.
\<close>

theorem debit_idempotent:
  assumes "bindT (debitFeatureCredit cur tenantId \<lparr> fe_feature = Time_cards, fe_creditCost = cost \<rparr> [] reason (Some transactionId)) (\<lambda>a.
      bindT (debitFeatureCredit cur tenantId \<lparr> fe_feature = Time_cards, fe_creditCost = cost \<rparr> [] reason (Some transactionId)) (\<lambda>b.
        returnT (a, b))) w = (ok (a, b), w')"
    and "readsOnly cur"
  shows "a = b \<and> length (creditTransactions (w_db w')) \<le> Suc (length (creditTransactions (w_db w)))
    \<and> wallet (w_db w') tenantId \<in> {wallet (w_db w) tenantId, wallet (w_db w) tenantId - cost}"
  using satD [OF feature_wallet.charge_twice [OF assms(2)] assms(1)] debited_wallet(1)
  by (auto simp: debited_def)


end
