(* ===== verification/PayrollQueries.thy ===== *)
theory PayrollQueries
  imports Entitlement
begin

text \<open>
  The reads and the small writes the payroll commands share: references from storage identifiers to public
  ones, rows of periods, summaries, candidate cards, serialization, replay of a stored operation and the audit
  log (\<open>payroll/payroll.service.ts\<close> from \<open>requirePeriod\<close> on, and the queries of
  \<open>payroll/domain.ts\<close>).  The argument \<open>cur\<close> is the callback \<open>assertCurrent\<close>; where the source
  leaves it out, it is \<open>noCheck\<close>.
\<close>

definition noCheck :: "unit tx" where "noCheck = returnT ()"

lemma readsOnly_noCheck [simp]: "readsOnly noCheck"
  by (simp add: noCheck_def readsOnly_return)

definition integrityFailed :: failure where "integrityFailed = Problem 503 ''payroll_reference_integrity_failed''"

section \<open>Identifiers\<close>

definition requiredPublicId :: "string \<Rightarrow> string \<Rightarrow> string result" where
  "requiredPublicId v resource =
     (let i = trim v in if isUuid i then ok i else err (Problem 404 (resource @ ''_not_found'')))"

text \<open>Public identifiers are \<open>uuid\<close> columns: the database compares them by value, hexadecimal digits in either case,
  and returns them in lower case.\<close>

definition sameUuid :: "string \<Rightarrow> string \<Rightarrow> bool" where
  "sameUuid stored given \<longleftrightarrow> map toLowerAscii stored = map toLowerAscii given"

lemma sameUuid_refl [simp]: "sameUuid u u"
  by (simp add: sameUuid_def)

definition requireMapped :: "(string \<rightharpoonup> string) \<Rightarrow> string \<Rightarrow> string result" where
  "requireMapped m k = (case m k of None \<Rightarrow> err integrityFailed | Some v \<Rightarrow> if v = [] then err integrityFailed else ok v)"

text \<open>\<open>[...new Set(ids.filter(Boolean))]\<close>, the rows of the tenant with one of these identifiers, and the map from
  identifier to public identifier.\<close>

definition publicRefs :: "(database \<Rightarrow> 'r list) \<Rightarrow> ('r \<Rightarrow> string) \<Rightarrow> ('r \<Rightarrow> string) \<Rightarrow> ('r \<Rightarrow> string) \<Rightarrow>
    unit tx \<Rightarrow> string \<Rightarrow> string option list \<Rightarrow> (string \<rightharpoonup> string) tx" where
  "publicRefs rowsOf tenantOf idOf publicOf cur tenantId ids =
     (let uniqueIds = jsSet (concat (map (\<lambda>i. case i of None \<Rightarrow> [] | Some s \<Rightarrow> if s = [] then [] else [s]) ids))
      in if uniqueIds = [] then returnT Map.empty
         else (bindT (getT (\<lambda>d. filter (\<lambda>r. tenantOf r = tenantId \<and> idOf r \<in> set uniqueIds) (rowsOf d))) (\<lambda>found.
           thenT cur (
           returnT (jsMap (map (\<lambda>r. (idOf r, publicOf r)) found))))))"

definition publicUsers :: "unit tx \<Rightarrow> string \<Rightarrow> string option list \<Rightarrow> (string \<rightharpoonup> string) tx" where
  "publicUsers = publicRefs users us_tenantId us_id us_publicId"

definition publicPolicies :: "unit tx \<Rightarrow> string \<Rightarrow> string option list \<Rightarrow> (string \<rightharpoonup> string) tx" where
  "publicPolicies = publicRefs policyVersions pv_tenantId pv_id pv_publicId"

definition publicPeriods :: "unit tx \<Rightarrow> string \<Rightarrow> string option list \<Rightarrow> (string \<rightharpoonup> string) tx" where
  "publicPeriods = publicRefs payrollPeriods pp_tenantId pp_id pp_publicId"

definition publicLocations :: "unit tx \<Rightarrow> string \<Rightarrow> string option list \<Rightarrow> (string \<rightharpoonup> string) tx" where
  "publicLocations = publicRefs locations lo_tenantId lo_id lo_publicId"

definition publicTimeCards :: "unit tx \<Rightarrow> string \<Rightarrow> string option list \<Rightarrow> (string \<rightharpoonup> string) tx" where
  "publicTimeCards = publicRefs timeCards tc_tenantId tc_id tc_publicId"

definition publicAmendments :: "unit tx \<Rightarrow> string \<Rightarrow> string option list \<Rightarrow> (string \<rightharpoonup> string) tx" where
  "publicAmendments = publicRefs amendments am_tenantId am_id am_publicId"

definition publicLockedEntries :: "string \<Rightarrow> string option list \<Rightarrow> (string \<rightharpoonup> string) tx" where
  "publicLockedEntries = publicRefs lockedEntries en_tenantId en_id en_publicId noCheck"

definition periodNotFound :: failure where "periodNotFound = Problem 404 ''payroll_period_not_found''"

definition requirePeriod :: "unit tx \<Rightarrow> string \<Rightarrow> string \<Rightarrow> payrollPeriod tx" where
  "requirePeriod cur tenantId publicId =
     (bindT (getT (\<lambda>d. find (\<lambda>p. pp_tenantId p = tenantId \<and> sameUuid (pp_publicId p) publicId) (payrollPeriods d))) (\<lambda>row.
       thenT cur (
       requireT row periodNotFound)))"

definition requirePeriodById :: "string \<Rightarrow> string \<Rightarrow> payrollPeriod tx" where
  "requirePeriodById tenantId periodId =
     (bindT (getT (\<lambda>d. find (\<lambda>p. pp_tenantId p = tenantId \<and> pp_id p = periodId) (payrollPeriods d))) (\<lambda>row.
       requireT row periodNotFound))"

text \<open>\<open>resolvePeriodId\<close> and its siblings: the storage identifier behind a public one, in a transaction of its own.\<close>

definition resolveId :: "env \<Rightarrow> (database \<Rightarrow> 'r list) \<Rightarrow> ('r \<Rightarrow> string) \<Rightarrow> ('r \<Rightarrow> string) \<Rightarrow> ('r \<Rightarrow> string) \<Rightarrow> string \<Rightarrow>
    sessionIdentity \<Rightarrow> string \<Rightarrow> string tx" where
  "resolveId E rowsOf tenantOf idOf publicOf resource identity v =
     (bindT (liftT (requiredPublicId v resource)) (\<lambda>publicId.
       withTenant E (id_tenantId identity)
           (bindT (getT (\<lambda>d. find (\<lambda>r. tenantOf r = id_tenantId identity \<and> sameUuid (publicOf r) publicId) (rowsOf d))) (\<lambda>row.
             bindT (requireT row (Problem 404 (resource @ ''_not_found''))) (\<lambda>r.
             returnT (idOf r))))))"

definition resolvePeriodId :: "env \<Rightarrow> sessionIdentity \<Rightarrow> string \<Rightarrow> string tx" where
  "resolvePeriodId E = resolveId E payrollPeriods pp_tenantId pp_id pp_publicId ''payroll_period''"

definition resolveExportId :: "env \<Rightarrow> sessionIdentity \<Rightarrow> string \<Rightarrow> string tx" where
  "resolveExportId E = resolveId E exportBatches eb_tenantId eb_id eb_publicId ''payroll_export''"

definition resolveLockedEntryId :: "env \<Rightarrow> sessionIdentity \<Rightarrow> string \<Rightarrow> string tx" where
  "resolveLockedEntryId E = resolveId E lockedEntries en_tenantId en_id en_publicId ''payroll_locked_entry''"

definition resolveAmendmentId :: "env \<Rightarrow> sessionIdentity \<Rightarrow> string \<Rightarrow> string tx" where
  "resolveAmendmentId E = resolveId E amendments am_tenantId am_id am_publicId ''payroll_amendment''"

definition resolveTimeCards :: "env \<Rightarrow> sessionIdentity \<Rightarrow> string list \<Rightarrow> (string \<rightharpoonup> string) tx" where
  "resolveTimeCards E identity publicIds =
     (bindT (liftT (mapR (\<lambda>p. requiredPublicId p ''time_card'') publicIds)) (\<lambda>normalized.
       let uniqueIds = jsSet normalized in
       withTenant E (id_tenantId identity)
           (bindT (getT (\<lambda>d. filter (\<lambda>c. tc_tenantId c = id_tenantId identity \<and> list_ex (sameUuid (tc_publicId c)) uniqueIds) (timeCards d))) (\<lambda>found.
             let refs = jsMap (map (\<lambda>c. (tc_publicId c, tc_id c)) found) in
             thenT (checkT (list_all (\<lambda>p. refs p \<noteq> None) uniqueIds) (Problem 404 ''time_card_not_found'')) (
             returnT refs)))))"

section \<open>Summaries\<close>

record periodSummary =
  sy_cardCount :: int
  sy_closedCardCount :: int
  sy_approvedCardCount :: int
  sy_rejectedCardCount :: int
  sy_pendingCardCount :: int
  sy_amendmentCount :: int
  sy_pendingAmendmentCount :: int
  sy_approvedAmendmentCount :: int
  sy_lockedEntryCount :: int

definition emptySummary :: periodSummary where
  "emptySummary = \<lparr> sy_cardCount = 0, sy_closedCardCount = 0, sy_approvedCardCount = 0, sy_rejectedCardCount = 0,
     sy_pendingCardCount = 0, sy_amendmentCount = 0, sy_pendingAmendmentCount = 0, sy_approvedAmendmentCount = 0,
     sy_lockedEntryCount = 0 \<rparr>"

text \<open>The joined rows behind a summary: every card of the period with each approval of its current revision.\<close>

definition summaryRows :: "string \<Rightarrow> string \<Rightarrow> database \<Rightarrow> (timeCard \<times> cardApproval option) list" where
  "summaryRows tenantId periodId d =
     concat (map (\<lambda>c.
         let approvals = filter (\<lambda>a. ap_tenantId a = tc_tenantId c \<and> ap_periodId a = periodId
               \<and> ap_timeCardId a = tc_id c \<and> ap_timeCardRevision a = tc_revision c) (cardApprovals d)
         in if approvals = [] then [(c, None)] else map (\<lambda>a. (c, Some a)) approvals)
       (filter (\<lambda>c. tc_tenantId c = tenantId \<and> tc_payrollPeriodId c = Some periodId \<and> tc_deletedAt c = None) (timeCards d)))"

definition decisionsOf :: "string \<Rightarrow> amendment \<Rightarrow> database \<Rightarrow> amendmentDecision list" where
  "decisionsOf tenantId am d = filter (\<lambda>x. ad_tenantId x = tenantId \<and> ad_amendmentId x = am_id am) (amendmentDecisions d)"

definition countRows :: "'a list \<Rightarrow> int result" where
  "countRows xs = countValue (int (length xs))"

definition summaryOf :: "string \<Rightarrow> string \<Rightarrow> database \<Rightarrow> periodSummary result" where
  "summaryOf tenantId periodId d =
     (let rows = summaryRows tenantId periodId d;
          decided = (\<lambda>x. filter (\<lambda>(c, a). case a of None \<Rightarrow> False | Some ap \<Rightarrow> ap_decision ap = x) rows);
          ams = filter (\<lambda>a. am_tenantId a = tenantId \<and> am_adjustmentPeriodId a = periodId) (amendments d)
      in bindR (countRows (filter (\<lambda>(c, a). tc_status c = CARD_CLOSED) rows)) (\<lambda>closed.
         bindR (countRows (decided APPROVED)) (\<lambda>approved.
         bindR (countRows (decided REJECTED)) (\<lambda>rejected.
         bindR (countRows rows) (\<lambda>cards.
         bindR (countRows ams) (\<lambda>amendmentCount.
         bindR (countRows (filter (\<lambda>a. decisionsOf tenantId a d = []) ams)) (\<lambda>pendingAmendments.
         bindR (countRows (concat (map (\<lambda>a. filter (\<lambda>x. ad_decision x = APPROVED) (decisionsOf tenantId a d)) ams))) (\<lambda>approvedAmendments.
         bindR (countRows (filter (\<lambda>e. en_tenantId e = tenantId \<and> en_periodId e = periodId) (lockedEntries d))) (\<lambda>locked.
           ok \<lparr> sy_cardCount = cards, sy_closedCardCount = closed, sy_approvedCardCount = approved, sy_rejectedCardCount = rejected,
                sy_pendingCardCount = max 0 (closed - approved - rejected), sy_amendmentCount = amendmentCount,
                sy_pendingAmendmentCount = pendingAmendments, sy_approvedAmendmentCount = approvedAmendments,
                sy_lockedEntryCount = locked \<rparr>)))))))))"

text \<open>\<open>loadPayrollPeriodSummary\<close>: the zeros stand for a period the query does not return.\<close>

definition loadPayrollPeriodSummary :: "unit tx \<Rightarrow> string \<Rightarrow> string \<Rightarrow> periodSummary tx" where
  "loadPayrollPeriodSummary cur tenantId periodId =
     (bindT (getT (\<lambda>d. list_ex (\<lambda>p. pp_tenantId p = tenantId \<and> pp_id p = periodId) (payrollPeriods d))) (\<lambda>known.
       bindT (getT (summaryOf tenantId periodId)) (\<lambda>summary.
       thenT cur (
       if known then liftT summary else returnT emptySummary))))"

definition summaryJson :: "periodSummary \<Rightarrow> json" where
  "summaryJson s = JObj
     [(''cardCount'', JNum (sy_cardCount s)), (''closedCardCount'', JNum (sy_closedCardCount s)),
      (''approvedCardCount'', JNum (sy_approvedCardCount s)), (''rejectedCardCount'', JNum (sy_rejectedCardCount s)),
      (''pendingCardCount'', JNum (sy_pendingCardCount s)), (''amendmentCount'', JNum (sy_amendmentCount s)),
      (''pendingAmendmentCount'', JNum (sy_pendingAmendmentCount s)),
      (''approvedAmendmentCount'', JNum (sy_approvedAmendmentCount s)), (''lockedEntryCount'', JNum (sy_lockedEntryCount s))]"

section \<open>Serialization\<close>

definition serializePolicy :: "policyVersion \<Rightarrow> (string \<rightharpoonup> string) \<Rightarrow> json result" where
  "serializePolicy row refs =
     bindR (serializeDateOnly (Some (pv_anchorDate row))) (\<lambda>anchorDate.
     bindR (serializeDateOnly (Some (pv_effectiveFrom row))) (\<lambda>effectiveFrom.
     bindR (requireMapped refs (pv_createdByUserId row)) (\<lambda>createdBy.
       ok (JObj [(''id'', JStr (pv_publicId row)), (''version'', JNum (pv_version row)), (''timeZone'', JStr (pv_timeZone row)),
         (''cadence'', JStr (cadenceText (pv_cadence row))), (''anchorDate'', JStr anchorDate),
         (''effectiveFrom'', JStr effectiveFrom), (''createdByUserId'', JStr createdBy),
         (''createdAt'', jInstant (pv_createdAt row))]))))"

definition serializePeriod :: "payrollPeriod \<Rightarrow> periodSummary \<Rightarrow> (string \<rightharpoonup> string) \<Rightarrow> json \<Rightarrow> json result" where
  "serializePeriod row summary refs batch =
     bindR (requireMapped refs (pp_policyVersionId row)) (\<lambda>policy.
     bindR (serializeDateOnly (Some (pp_localStartDate row))) (\<lambda>startDate.
     bindR (serializeDateOnly (Some (pp_localEndDateExclusive row))) (\<lambda>endDate.
       ok (JObj [(''id'', JStr (pp_publicId row)), (''policyVersionId'', JStr policy),
         (''localStartDate'', JStr startDate), (''localEndDateExclusive'', JStr endDate),
         (''startsAt'', jInstant (pp_startsAt row)), (''endsAt'', jInstant (pp_endsAt row)),
         (''timeZone'', JStr (pp_timeZone row)), (''cadence'', JStr (cadenceText (pp_cadence row))),
         (''status'', JStr (periodStatusText (pp_status row))), (''revision'', JNum (pp_revision row)),
         (''reviewStartedAt'', nullable jInstant (pp_reviewStartedAt row)), (''lockedAt'', nullable jInstant (pp_lockedAt row)),
         (''lockedEntrySha256'', nullable JStr (pp_lockedEntrySha256 row)),
         (''lockedEntryCount'', nullable JNum (pp_lockedEntryCount row)),
         (''totalPayableMinutes'', nullable JNum (pp_totalPayableMinutes row)),
         (''createdAt'', jInstant (pp_createdAt row)), (''updatedAt'', jInstant (pp_updatedAt row)),
         (''summary'', summaryJson summary), (''exportBatch'', batch)]))))"

section \<open>Stored operations and the audit log\<close>

definition idempotencyConflict :: failure where "idempotencyConflict = Problem 409 ''idempotency_conflict''"

definition concurrentChange :: failure where "concurrentChange = Problem 409 ''payroll_concurrent_change''"

definition replayOperation :: "payrollOperation \<Rightarrow> string \<Rightarrow> json result" where
  "replayOperation row requestHash =
     (if op_requestHash row \<noteq> requestHash then err idempotencyConflict
      else if \<not> isObject (op_response row) then err (Problem 503 ''payroll_replay_unavailable'')
      else ok (op_response row))"

definition operationTable :: "payrollOperation table" where "operationTable = (payrollOperations, payrollOperations_update)"

definition operationClash :: "payrollOperation \<Rightarrow> payrollOperation \<Rightarrow> bool" where
  "operationClash a b \<longleftrightarrow> op_operationId a = op_operationId b"

definition findOperation :: "string \<Rightarrow> payrollOperation option tx" where
  "findOperation operationId = getT (\<lambda>d. find (\<lambda>x. op_operationId x = operationId) (payrollOperations d))"

definition recordOperation :: "sessionIdentity \<Rightarrow> requestIdentity \<Rightarrow> string \<Rightarrow> operationName \<Rightarrow> json \<Rightarrow> unit tx" where
  "recordOperation identity request periodId kind response =
     createT operationTable operationClash
       \<lparr> op_operationId = rq_operationId request, op_tenantId = id_tenantId identity, op_periodId = Some periodId,
         op_kind = kind, op_requestHash = rq_requestHash request, op_response = response \<rparr>"

definition auditTable :: "auditLog table" where "auditTable = (auditLogs, auditLogs_update)"

definition auditClash :: "auditLog \<Rightarrow> auditLog \<Rightarrow> bool" where "auditClash a b \<longleftrightarrow> al_id a = al_id b"

definition writePayrollAudit :: "env \<Rightarrow> sessionIdentity \<Rightarrow> string \<Rightarrow> string \<Rightarrow> string \<Rightarrow> json option \<Rightarrow> json option \<Rightarrow> unit tx" where
  "writePayrollAudit E identity action resource resourceId oldValue newValue =
     (bindT (uuidT E) (\<lambda>auditId.
       createT auditTable auditClash
           \<lparr> al_id = auditId, al_tenantId = id_tenantId identity, al_actorUserId = id_sub identity, al_action = action,
             al_resource = resource, al_resourceId = resourceId, al_oldValue = oldValue, al_newValue = newValue \<rparr>))"

section \<open>Candidate cards\<close>

definition lockPayrollCandidateCards :: "string \<Rightarrow> payrollPeriod \<Rightarrow> timeCard list tx" where
  "lockPayrollCandidateCards tenantId period =
     (bindT (getT (\<lambda>d. take (MAX_PAYROLL_LOCK_ENTRIES + 1) (findMany (\<lambda>c. tc_tenantId c = tenantId
             \<and> (tc_payrollPeriodId c = Some (pp_id period)
                \<or> tc_deletedAt c = None \<and> tc_clockInAt c < pp_endsAt period
                  \<and> (case tc_clockOutAt c of None \<Rightarrow> True | Some t \<Rightarrow> pp_startsAt period < t))) (byKey tc_id) (timeCards d)))) (\<lambda>found.
       thenT (checkT (length found \<le> MAX_PAYROLL_LOCK_ENTRIES) (Problem 422 ''payroll_period_card_limit'')) (
       returnT found)))"

definition validatePayrollCandidateCards :: "env \<Rightarrow> timeCard list \<Rightarrow> payrollPeriod \<Rightarrow> timeCard list result" where
  "validatePayrollCandidateCards E cards period =
     (let assigned = filter (\<lambda>c. tc_payrollPeriodId c = Some (pp_id period)) cards
      in bindR (checkR (\<not> list_ex (\<lambda>c. tc_status c = CARD_OPEN) cards) (Problem 409 ''payroll_open_card_overlap'')) (\<lambda>_.
         bindR (checkR (\<not> list_ex (\<lambda>c. tc_status c = CARD_VOID \<or> tc_deletedAt c \<noteq> None) cards)
           (Problem 409 ''payroll_invalid_card_state'')) (\<lambda>_.
         bindR (checkR (\<not> list_ex (\<lambda>c. tc_payrollPeriodId c \<noteq> Some (pp_id period)) cards)
           (Problem 409 ''payroll_unassigned_card_overlap'')) (\<lambda>_.
         bindR (checkR (\<not> list_ex (\<lambda>c. tc_status c \<noteq> CARD_CLOSED
             \<or> (case tc_clockOutAt c of None \<Rightarrow> True | Some t \<Rightarrow> pp_endsAt period < t)
             \<or> tc_clockInAt c < pp_startsAt period) assigned) (Problem 409 ''payroll_card_window_invalid'')) (\<lambda>_.
         bindR (eachR (\<lambda>c. bindR (checkR (trim (tc_userId c) \<noteq> [] \<and> trim (tc_workTimeZone c) \<noteq> [])
             (Problem 409 ''payroll_card_context_invalid'')) (\<lambda>_.
           bindR (normalizeTimeZone E (tc_workTimeZone c)) (\<lambda>_. ok ()))) assigned) (\<lambda>_.
         ok assigned))))))"

section \<open>Lemmas\<close>

lemmas readsOnly_pures = readsOnly_bind readsOnly_then readsOnly_return readsOnly_throw readsOnly_withTenant

lemma readsOnly_basic [simp]:
  "readsOnly (returnT x)" "readsOnly (throwT e)" "readsOnly (checkT b e)" "readsOnly (liftT r)" "readsOnly (getT f)"
  "readsOnly (requireT v e)" "readsOnly (nowT E)" "readsOnly (uuidT E)"
  by (auto simp: readsOnly_def returnT_def throwT_def checkT_def liftT_def getT_def requireT_def nowT_def uuidT_def
      split: option.splits)

lemma readsOnly_publicRefs [simp]:
  "readsOnly cur \<Longrightarrow> readsOnly (publicRefs rowsOf tenantOf idOf publicOf cur tenantId ids)"
  unfolding publicRefs_def by (auto simp: Let_def intro!: readsOnly_bind readsOnly_then)

lemma readsOnly_publics [simp]:
  assumes "readsOnly cur"
  shows "readsOnly (publicUsers cur tenantId ids)" "readsOnly (publicPolicies cur tenantId ids)"
    "readsOnly (publicPeriods cur tenantId ids)" "readsOnly (publicLocations cur tenantId ids)"
    "readsOnly (publicTimeCards cur tenantId ids)" "readsOnly (publicAmendments cur tenantId ids)"
    "readsOnly (publicLockedEntries tenantId ids)"
  using assms unfolding publicUsers_def publicPolicies_def publicPeriods_def publicLocations_def publicTimeCards_def
    publicAmendments_def publicLockedEntries_def by simp_all

lemma readsOnly_requirePeriod [simp]: "readsOnly cur \<Longrightarrow> readsOnly (requirePeriod cur tenantId publicId)"
  unfolding requirePeriod_def by (auto intro!: readsOnly_bind readsOnly_then)

lemma readsOnly_requirePeriodById [simp]: "readsOnly (requirePeriodById tenantId periodId)"
  unfolding requirePeriodById_def by (auto intro!: readsOnly_bind)

lemma readsOnly_resolveId: "readsOnly (resolveId E rowsOf tenantOf idOf publicOf resource identity v)"
  unfolding resolveId_def by (auto intro!: readsOnly_bind readsOnly_withTenant)

lemma readsOnly_resolves [simp]:
  "readsOnly (resolvePeriodId E identity v)" "readsOnly (resolveExportId E identity v)"
  "readsOnly (resolveLockedEntryId E identity v)" "readsOnly (resolveAmendmentId E identity v)"
  unfolding resolvePeriodId_def resolveExportId_def resolveLockedEntryId_def resolveAmendmentId_def
  by (rule readsOnly_resolveId)+

lemma readsOnly_resolveTimeCards [simp]: "readsOnly (resolveTimeCards E identity publicIds)"
  unfolding resolveTimeCards_def by (auto simp: Let_def intro!: readsOnly_bind readsOnly_then readsOnly_withTenant)

lemma readsOnly_loadPayrollPeriodSummary [simp]: "readsOnly cur \<Longrightarrow> readsOnly (loadPayrollPeriodSummary cur tenantId periodId)"
  unfolding loadPayrollPeriodSummary_def by (auto intro!: readsOnly_bind readsOnly_then)

lemma readsOnly_findOperation [simp]: "readsOnly (findOperation operationId)"
  by (simp add: findOperation_def)

lemma readsOnly_lockPayrollCandidateCards [simp]: "readsOnly (lockPayrollCandidateCards tenantId period)"
  unfolding lockPayrollCandidateCards_def by (auto intro!: readsOnly_bind readsOnly_then)

lemma post_requirePeriodById [tx_rules]:
  "(\<And>p. p \<in> set (payrollPeriods d) \<Longrightarrow> pp_tenantId p = tenantId \<Longrightarrow> pp_id p = periodId \<Longrightarrow> Q p d) \<Longrightarrow> (\<And>e. F e d) \<Longrightarrow>
     post d (requirePeriodById tenantId periodId) Q F"
  unfolding requirePeriodById_def by (intro tx_rules) (auto dest: find_SomeD)

lemma post_findOperation [tx_rules]:
  "Q (find (\<lambda>x. op_operationId x = operationId) (payrollOperations d)) d \<Longrightarrow> post d (findOperation operationId) Q F"
  unfolding findOperation_def by (intro tx_rules)

text \<open>A read whose answer the proof does not look at.\<close>

lemma post_any: "readsOnly m \<Longrightarrow> (\<And>x. Q x d) \<Longrightarrow> (\<And>e. F e d) \<Longrightarrow> post d m Q F"
  by (rule post_readsOnly)

section \<open>Outcomes of a command\<close>

text \<open>
  A command returns with \<open>Q\<close>; when it throws, the database is what it was, but for a commit that was
  not acknowledged, which \<open>Q\<close> describes too.
\<close>

definition outcome :: "database \<Rightarrow> 'a tx \<Rightarrow> ('a \<Rightarrow> database \<Rightarrow> bool) \<Rightarrow> bool" where
  "outcome d m Q \<longleftrightarrow> post d m Q (\<lambda>_ d'. d' = d \<or> (\<exists>x. Q x d'))"

lemma outcome_mono: "outcome d m Q \<Longrightarrow> (\<And>x d'. Q x d' \<Longrightarrow> Q' x d') \<Longrightarrow> outcome d m Q'"
  unfolding outcome_def by (erule post_weaken) blast+

lemma outcome_bind: "readsOnly m \<Longrightarrow> (\<And>x. outcome d (f x) Q) \<Longrightarrow> outcome d (bindT m f) Q"
  unfolding outcome_def by (rule post_bind, erule post_readsOnly) auto

lemma outcome_then: "readsOnly m \<Longrightarrow> outcome d k Q \<Longrightarrow> outcome d (thenT m k) Q"
  unfolding thenT_def by (rule outcome_bind)

lemma outcome_let: "(\<And>y. y = x \<Longrightarrow> outcome d (k y) Q) \<Longrightarrow> outcome d (let y = x in k y) Q"
  by simp

lemma outcome_catch: "outcome d m Q \<Longrightarrow> (\<And>e d'. post d' (h e) (\<lambda>x d''. d'' = d' \<and> Q x d'') (\<lambda>_ d''. d'' = d')) \<Longrightarrow> outcome d (catchT m h) Q"
  unfolding outcome_def
  apply (rule post_catch, erule post_weaken)
   apply assumption
  apply (rule post_weaken, assumption)
   apply auto
  done

lemma outcome_runScope:
  assumes "\<And>cur. readsOnly cur \<Longrightarrow> sat d (operation cur) Q"
  shows "outcome d (runScope E identity permission scope operation) Q"
  unfolding outcome_def by (rule post_runScope) (use assms in auto)

text \<open>A relation that what a command did establishes, and that holds of doing nothing, holds of every run.\<close>

lemma outcome_always:
  assumes "outcome (w_db w) m Q" and "R (w_db w) (w_db w)" and "\<And>x d'. Q x d' \<Longrightarrow> R (w_db w) d'"
  shows "R (w_db w) (w_db (snd (m w)))"
proof (cases "fst (m w)")
  case (Inl e)
  then have "m w = (err e, snd (m w))" by (simp add: prod_eq_iff)
  from postD_err [OF assms(1) [unfolded outcome_def] this refl] show ?thesis using assms(2,3) by metis
next
  case (Inr x)
  then have "m w = (ok x, snd (m w))" by (simp add: prod_eq_iff)
  from postD_ok [OF assms(1) [unfolded outcome_def] this refl] show ?thesis by (rule assms(3))
qed

lemma outcome_ok: "outcome (w_db w) m Q \<Longrightarrow> m w = (ok x, w') \<Longrightarrow> Q x (w_db w')"
  unfolding outcome_def by (erule postD_ok) simp_all

lemmas outcome_rules = outcome_bind outcome_then outcome_let

end
