(* ===== verification/TimeCardRules.thy ===== *)
theory TimeCardRules
  imports PayrollQueries
begin

text \<open>
  The rules of time cards (\<open>time/validation.ts\<close>, \<open>time/pagination.ts\<close>, \<open>time/serialization.ts\<close>): instants, notes,
  breaks, corrections, and the record a card is answered with.  Request bodies have the types of their
  contract, so the checks of \<open>typeof\<close> have no counterpart.
\<close>

definition invalidTimeCardInput :: failure where "invalidTimeCardInput = Problem 422 ''invalid_time_card_input''"

definition invalidCursorOrLimit :: failure where "invalidCursorOrLimit = Problem 422 ''invalid_time_card_pagination''"

definition cardNotFound :: failure where "cardNotFound = Problem 404 ''time_card_not_found''"

section \<open>Limits and instants\<close>

definition parseTimeCardLimit :: "string option \<Rightarrow> int result" where
  "parseTimeCardLimit v =
     (case v of
        None \<Rightarrow> ok 100
      | Some s \<Rightarrow>
          if s = [] then ok 100
          else bindR (checkR (isDigits s) invalidCursorOrLimit) (\<lambda>_.
            let parsed = int (digitsValue s)
            in bindR (checkR (isSafeInteger parsed \<and> 1 \<le> parsed \<and> parsed \<le> 200) invalidCursorOrLimit) (\<lambda>_. ok parsed)))"

text \<open>The pattern of a UTC instant: a date and a time to the second, up to three digits of fraction, \<open>Z\<close>.\<close>

definition isInstantText :: "string \<Rightarrow> bool" where
  "isInstantText s \<longleftrightarrow> 20 \<le> length s \<and> last s = CHR ''Z'' \<and> s ! 4 = CHR ''-'' \<and> s ! 7 = CHR ''-'' \<and> s ! 10 = CHR ''T''
     \<and> s ! 13 = CHR '':'' \<and> s ! 16 = CHR '':''
     \<and> list_all (\<lambda>i. i \<in> {4, 7, 10, 13, 16} \<or> isDigit (s ! i)) [0..<19] \<and> isoFraction (butlast (drop 19 s)) \<noteq> None"

definition parseTimeCardInstant :: "string \<Rightarrow> instant result" where
  "parseTimeCardInstant v =
     (let normalized = trim v
      in bindR (checkR (normalized \<noteq> []) invalidTimeCardInput) (\<lambda>_.
         bindR (checkR (isInstantText normalized) invalidTimeCardInput) (\<lambda>_.
         case dateParse normalized of
           None \<Rightarrow> err invalidTimeCardInput
         | Some t \<Rightarrow> bindR (checkR (take 19 (toISOString t) = take 19 normalized) invalidTimeCardInput) (\<lambda>_. ok t))))"

section \<open>Notes and breaks\<close>

text \<open>\<open>undefined\<close> leaves the notes alone, empty notes become \<open>null\<close>.\<close>

definition normalizeTimeCardNotes :: "string option \<Rightarrow> string option option result" where
  "normalizeTimeCardNotes v =
     (case v of
        None \<Rightarrow> ok None
      | Some s \<Rightarrow>
          let normalized = trim s
          in bindR (checkR (length normalized \<le> 1000) invalidTimeCardInput) (\<lambda>_.
             ok (Some (if normalized = [] then None else Some normalized))))"

definition normalizeClockOutBreakMinutes :: "int option \<Rightarrow> int \<Rightarrow> int result" where
  "normalizeClockOutBreakMinutes v totalMinutes =
     (case v of
        None \<Rightarrow> ok 0
      | Some n \<Rightarrow>
          bindR (checkR (\<not> n < 0) invalidTimeCardInput) (\<lambda>_.
          bindR (checkR (\<not> (0 < n \<and> totalMinutes \<le> n)) invalidTimeCardInput) (\<lambda>_. ok n)))"

definition MAX_CORRECTION_WINDOW_MS :: int where "MAX_CORRECTION_WINDOW_MS = 31 * 24 * 60 * 60 * 1000"

definition MAX_FUTURE_SKEW_MS :: int where "MAX_FUTURE_SKEW_MS = 5 * 60 * 1000"

definition MAX_BREAK_INTERVALS :: nat where "MAX_BREAK_INTERVALS = 24"

type_synonym interval = "instant \<times> instant"

text \<open>The intervals of a request are texts, those of a stored card are dates.\<close>

datatype intervalInput = GivenIntervals "(string \<times> string) list" | StoredIntervals "interval list"

fun intervalCount :: "intervalInput \<Rightarrow> nat" where
  "intervalCount (GivenIntervals xs) = length xs"
| "intervalCount (StoredIntervals xs) = length xs"

fun intervalDates :: "intervalInput \<Rightarrow> interval list result" where
  "intervalDates (GivenIntervals xs) = mapR (\<lambda>(s, e). bindR (parseTimeCardInstant s) (\<lambda>startAt.
     bindR (parseTimeCardInstant e) (\<lambda>endAt. ok (startAt, endAt)))) xs"
| "intervalDates (StoredIntervals xs) = ok xs"

fun checkIntervals :: "instant \<Rightarrow> instant \<Rightarrow> instant option \<Rightarrow> interval list \<Rightarrow> unit result" where
  "checkIntervals clockInAt cardEnd previousEnd [] = ok ()"
| "checkIntervals clockInAt cardEnd previousEnd ((startAt, endAt) # rest) =
     bindR (checkR (\<not> endAt \<le> startAt) invalidTimeCardInput) (\<lambda>_.
     bindR (checkR ((endAt - startAt) mod 60000 = 0) invalidTimeCardInput) (\<lambda>_.
     bindR (checkR (\<not> (startAt < clockInAt \<or> cardEnd < endAt)) invalidTimeCardInput) (\<lambda>_.
     bindR (checkR (\<not> (case previousEnd of None \<Rightarrow> False | Some p \<Rightarrow> startAt < p)) invalidTimeCardInput) (\<lambda>_.
     checkIntervals clockInAt cardEnd (Some endAt) rest))))"

definition validateBreakIntervals :: "intervalInput \<Rightarrow> instant \<Rightarrow> instant option \<Rightarrow> instant \<Rightarrow> interval list result" where
  "validateBreakIntervals v clockInAt clockOutAt now =
     bindR (checkR (intervalCount v \<le> MAX_BREAK_INTERVALS) invalidTimeCardInput) (\<lambda>_.
     bindR (intervalDates v) (\<lambda>intervals.
     bindR (checkIntervals clockInAt (case clockOutAt of None \<Rightarrow> now | Some t \<Rightarrow> t) None intervals) (\<lambda>_.
       ok intervals)))"

definition durationMinutes :: "interval \<Rightarrow> int" where
  "durationMinutes = (\<lambda>(startAt, endAt). (endAt - startAt) div 60000)"

section \<open>Corrections\<close>

definition assertCorrectionWindow :: "instant \<Rightarrow> instant option \<Rightarrow> instant \<Rightarrow> unit result" where
  "assertCorrectionWindow clockInAt clockOutAt now =
     (let latestAllowed = now + MAX_FUTURE_SKEW_MS; effectiveEnd = (case clockOutAt of None \<Rightarrow> now | Some t \<Rightarrow> t)
      in bindR (checkR (\<not> (latestAllowed < clockInAt \<or> (case clockOutAt of None \<Rightarrow> False | Some t \<Rightarrow> latestAllowed < t))) invalidTimeCardInput) (\<lambda>_.
         bindR (checkR (\<not> effectiveEnd \<le> clockInAt) invalidTimeCardInput) (\<lambda>_.
         checkR (\<not> MAX_CORRECTION_WINDOW_MS < effectiveEnd - clockInAt) invalidTimeCardInput)))"

definition requiredReason :: "string \<Rightarrow> string result" where
  "requiredReason v = (let reason = trim v in bindR (checkR (\<not> (length reason < 5 \<or> 500 < length reason)) invalidTimeCardInput) (\<lambda>_. ok reason))"

text \<open>A field that is absent is \<open>None\<close>; \<open>clockOutAt\<close> may also be given as \<open>null\<close>.\<close>

record correctionRequest =
  cr_reason :: string
  cr_expectedUpdatedAt :: string
  cr_clockInAt :: "string option"
  cr_clockOutAt :: "string option option"
  cr_breakIntervals :: "(string \<times> string) list option"

record correction =
  cn_clockInAt :: instant
  cn_clockOutAt :: "instant option"
  cn_breakIntervals :: "interval list option"
  cn_breakMinutes :: int
  cn_expectedUpdatedAt :: instant
  cn_reason :: string
  cn_status :: cardStatus

definition correctedClockOut :: "string option option \<Rightarrow> instant option \<Rightarrow> instant option result" where
  "correctedClockOut v current =
     (case v of
        None \<Rightarrow> ok current
      | Some None \<Rightarrow> ok None
      | Some (Some s) \<Rightarrow> bindR (parseTimeCardInstant s) (\<lambda>t. ok (Some t)))"

definition validateTimeCardCorrection :: "correctionRequest \<Rightarrow> timeCard \<Rightarrow> interval list \<Rightarrow> instant \<Rightarrow> correction result" where
  "validateTimeCardCorrection body current breaks now =
     bindR (requiredReason (cr_reason body)) (\<lambda>reason.
     bindR (parseTimeCardInstant (cr_expectedUpdatedAt body)) (\<lambda>expectedUpdatedAt.
     bindR (checkR (\<not> (cr_clockInAt body = None \<and> cr_clockOutAt body = None \<and> cr_breakIntervals body = None)) invalidTimeCardInput) (\<lambda>_.
     bindR (case cr_clockInAt body of None \<Rightarrow> ok (tc_clockInAt current) | Some s \<Rightarrow> parseTimeCardInstant s) (\<lambda>clockInAt.
     bindR (correctedClockOut (cr_clockOutAt body) (tc_clockOutAt current)) (\<lambda>clockOutAt.
     bindR (assertCorrectionWindow clockInAt clockOutAt now) (\<lambda>_.
     bindR (validateBreakIntervals (case cr_breakIntervals body of None \<Rightarrow> StoredIntervals breaks | Some xs \<Rightarrow> GivenIntervals xs)
       clockInAt clockOutAt now) (\<lambda>intervals.
     let breakMinutes = sum_list (map durationMinutes intervals);
         effectiveEnd = (case clockOutAt of None \<Rightarrow> now | Some t \<Rightarrow> t);
         grossMinutes = floorMinutes (effectiveEnd - clockInAt);
         nextBreakMinutes = (if cr_breakIntervals body \<noteq> None then breakMinutes else tc_breakMinutes current)
     in bindR (checkR (\<not> (cr_breakIntervals body = None \<and> intervals \<noteq> [] \<and> breakMinutes \<noteq> tc_breakMinutes current)) invalidTimeCardInput) (\<lambda>_.
        bindR (checkR (\<not> (0 < nextBreakMinutes \<and> grossMinutes \<le> nextBreakMinutes)) invalidTimeCardInput) (\<lambda>_.
        ok \<lparr> cn_clockInAt = clockInAt, cn_clockOutAt = clockOutAt,
             cn_breakIntervals = (if cr_breakIntervals body \<noteq> None then Some intervals else None), cn_breakMinutes = nextBreakMinutes,
             cn_expectedUpdatedAt = expectedUpdatedAt, cn_reason = reason,
             cn_status = (if clockOutAt \<noteq> None then CARD_CLOSED else CARD_OPEN) \<rparr>)))))))))"

section \<open>Cards with their relations\<close>

record cardView =
  cv_card :: timeCard
  cv_user :: user
  cv_location :: "location option"
  cv_shift :: "shift option"
  cv_breaks :: "timeCardBreak list"

definition viewBreakOrder :: "timeCardBreak \<Rightarrow> timeCardBreak \<Rightarrow> bool" where
  "viewBreakOrder = thenCompare (byKey tb_startAt) (byKey tb_publicId)"

text \<open>\<open>TIME_CARD_SELECT\<close>: the foreign keys say that the user exists.\<close>

definition viewOf :: "database \<Rightarrow> timeCard \<Rightarrow> cardView result" where
  "viewOf d c =
     (case find (\<lambda>u. us_id u = tc_userId c \<and> us_tenantId u = tc_tenantId c) (users d) of
        None \<Rightarrow> err Thrown
      | Some u \<Rightarrow> ok \<lparr> cv_card = c, cv_user = u,
          cv_location = (case tc_locationId c of None \<Rightarrow> None
            | Some i \<Rightarrow> find (\<lambda>l. lo_id l = i \<and> lo_tenantId l = tc_tenantId c) (locations d)),
          cv_shift = (case tc_shiftId c of None \<Rightarrow> None
            | Some i \<Rightarrow> find (\<lambda>s. sh_id s = i \<and> sh_tenantId s = tc_tenantId c) (shifts d)),
          cv_breaks = findMany (\<lambda>b. tb_timeCardId b = tc_id c \<and> tb_tenantId b = tc_tenantId c) viewBreakOrder (timeCardBreaks d) \<rparr>)"

definition intervalsOf :: "cardView \<Rightarrow> interval list" where
  "intervalsOf v = map (\<lambda>b. (tb_startAt b, tb_endAt b)) (cv_breaks v)"

definition timeCardAuditValue :: "cardView \<Rightarrow> (string \<times> json) list" where
  "timeCardAuditValue v = (let c = cv_card v in
     [(''targetUserId'', JStr (tc_userId c)), (''locationId'', nullable JStr (tc_locationId c)), (''shiftId'', nullable JStr (tc_shiftId c)),
      (''clockInAt'', jInstant (tc_clockInAt c)), (''clockOutAt'', nullable jInstant (tc_clockOutAt c)),
      (''breakMinutes'', JNum (tc_breakMinutes c)),
      (''breakIntervals'', JArr (map (\<lambda>(s, e). JObj [(''startAt'', jInstant s), (''endAt'', jInstant e)]) (intervalsOf v))),
      (''status'', JStr (cardStatusText (tc_status c)))])"

text \<open>\<open>serializeTimeCard\<close>.\<close>

definition breakJson :: "timeCardBreak \<Rightarrow> json result" where
  "breakJson b = bindR (checkR (\<not> tb_endAt b \<le> tb_startAt b) (Problem 500 ''invalid_time_card_break'')) (\<lambda>_.
     ok (JObj [(''id'', JStr (tb_publicId b)), (''startAt'', jInstant (tb_startAt b)), (''endAt'', jInstant (tb_endAt b))]))"

definition grossMinutesOf :: "timeCard \<Rightarrow> instant \<Rightarrow> int" where
  "grossMinutesOf c now = max 0 (floorMinutes ((case tc_clockOutAt c of None \<Rightarrow> now | Some t \<Rightarrow> t) - tc_clockInAt c))"

definition workedMinutesOf :: "timeCard \<Rightarrow> instant \<Rightarrow> int" where
  "workedMinutesOf c now = max 0 (grossMinutesOf c now - tc_breakMinutes c)"

definition serializeTimeCard :: "cardView \<Rightarrow> instant \<Rightarrow> json result" where
  "serializeTimeCard v now = (let c = cv_card v; u = cv_user v in
     bindR (checkR (\<not> (tc_breakMinutes c < 0 \<or> tc_revision c < 1)) (Problem 500 ''invalid_time_card_record'')) (\<lambda>_.
     bindR (mapR breakJson (cv_breaks v)) (\<lambda>breakValues.
       ok (JObj [(''id'', JStr (tc_publicId c)), (''userId'', JStr (us_publicId u)),
         (''locationId'', nullable (\<lambda>l. JStr (lo_publicId l)) (cv_location v)), (''shiftId'', nullable (\<lambda>s. JStr (sh_publicId s)) (cv_shift v)),
         (''clockInAt'', jInstant (tc_clockInAt c)), (''clockOutAt'', nullable jInstant (tc_clockOutAt c)),
         (''breakMinutes'', JNum (tc_breakMinutes c)), (''status'', JStr (cardStatusText (tc_status c))), (''revision'', JNum (tc_revision c)),
         (''grossMinutes'', JNum (grossMinutesOf c now)), (''workedMinutes'', JNum (workedMinutesOf c now)),
         (''notes'', nullable JStr (tc_notes c)), (''createdAt'', jInstant (tc_createdAt c)), (''updatedAt'', jInstant (tc_updatedAt c)),
         (''displayTimeZone'', JStr (if tc_workTimeZone c = [] then ''UTC'' else tc_workTimeZone c)), (''breaks'', JArr breakValues),
         (''user'', JObj [(''id'', JStr (us_publicId u)), (''name'', JStr (if us_name u = [] then ''Unnamed'' else us_name u)),
           (''username'', (case us_username u of None \<Rightarrow> JNull | Some n \<Rightarrow> if trim n = [] then JNull else JStr (trim n))),
           (''role'', JStr (userRoleText (us_role u)))]),
         (''location'', nullable (\<lambda>l. JObj [(''id'', JStr (lo_publicId l)), (''name'', JStr (lo_name l)), (''timezone'', JStr (lo_timezone l))])
           (cv_location v))]))))"

end
