(* ===== verification/PayrollPeriods.thy ===== *)
theory PayrollPeriods
  imports PayrollQueries
begin

text \<open>
  Policies and periods (\<open>payroll/payroll.service.ts\<close>): the commands \<open>createPolicy\<close>, \<open>createPeriod\<close>,
  \<open>startReview\<close>, \<open>adoptCards\<close>, \<open>decideCards\<close> and \<open>lockPeriod\<close>, and the reads of policies and periods.
  For each command, \<open>\<dots>Body\<close> is the callback it hands to the scope's \<open>run\<close>, and the definition
  with the command's own name is the whole method.  Columns the database fills in (\<open>uuid()\<close>,
  \<open>gen_random_uuid()\<close>, \<open>now()\<close>, \<open>@updatedAt\<close>) are drawn from the environment.
\<close>

section \<open>Tables and their unique constraints\<close>

definition policyTable :: "policyVersion table" where "policyTable = (policyVersions, policyVersions_update)"

definition policyClash :: "policyVersion \<Rightarrow> policyVersion \<Rightarrow> bool" where
  "policyClash a b \<longleftrightarrow> pv_id a = pv_id b \<or> pv_publicId a = pv_publicId b \<or> pv_operationId a = pv_operationId b
     \<or> pv_tenantId a = pv_tenantId b \<and> (pv_version a = pv_version b \<or> pv_effectiveFrom a = pv_effectiveFrom b)"

definition periodTable :: "payrollPeriod table" where "periodTable = (payrollPeriods, payrollPeriods_update)"

definition periodClash :: "payrollPeriod \<Rightarrow> payrollPeriod \<Rightarrow> bool" where
  "periodClash a b \<longleftrightarrow> pp_id a = pp_id b \<or> pp_publicId a = pp_publicId b
     \<or> pp_tenantId a = pp_tenantId b \<and> pp_localStartDate a = pp_localStartDate b"

definition cardTable :: "timeCard table" where "cardTable = (timeCards, timeCards_update)"

definition approvalTable :: "cardApproval table" where "approvalTable = (cardApprovals, cardApprovals_update)"

definition approvalClash :: "cardApproval \<Rightarrow> cardApproval \<Rightarrow> bool" where
  "approvalClash a b \<longleftrightarrow> ap_id a = ap_id b \<or> ap_operationId a = ap_operationId b
     \<or> ap_tenantId a = ap_tenantId b \<and> ap_timeCardId a = ap_timeCardId b \<and> ap_timeCardRevision a = ap_timeCardRevision b"

definition entryTable :: "lockedEntryRow table" where "entryTable = (lockedEntries, lockedEntries_update)"

definition entryClash :: "lockedEntryRow \<Rightarrow> lockedEntryRow \<Rightarrow> bool" where
  "entryClash a b \<longleftrightarrow> en_id a = en_id b \<or> en_publicId a = en_publicId b
     \<or> en_periodId a = en_periodId b \<and> (en_sequence a = en_sequence b
        \<or> en_sourceType a = en_sourceType b \<and> en_sourceId a = en_sourceId b)"

text \<open>\<open>orderBy: desc\<close>, \<open>findFirst\<close>, and \<open>catch (error) { if (isUniqueConflict(error)) throw ...; throw error; }\<close>.\<close>

definition descending :: "('r \<Rightarrow> 'r \<Rightarrow> bool) \<Rightarrow> 'r \<Rightarrow> 'r \<Rightarrow> bool" where
  "descending le x y = le y x"

definition findFirst :: "('r \<Rightarrow> bool) \<Rightarrow> ('r \<Rightarrow> 'r \<Rightarrow> bool) \<Rightarrow> 'r list \<Rightarrow> 'r option" where
  "findFirst P le rows = (case findMany P le rows of [] \<Rightarrow> None | r # _ \<Rightarrow> Some r)"

definition mapConflict :: "string \<Rightarrow> 'a tx \<Rightarrow> 'a tx" where
  "mapConflict code m = catchT m (\<lambda>e. if isUniqueConflict e then throwT (Problem 409 code) else throwT e)"

section \<open>Policies\<close>

definition versionOrder :: "policyVersion \<Rightarrow> policyVersion \<Rightarrow> bool" where
  "versionOrder = thenCompare (descending (byKey pv_version)) (descending (byKey pv_publicId))"

definition latestPolicyRow :: "string \<Rightarrow> database \<Rightarrow> policyVersion option" where
  "latestPolicyRow tenantId d = findFirst (\<lambda>p. pv_tenantId p = tenantId) versionOrder (policyVersions d)"

definition policyJson :: "payrollPolicy \<Rightarrow> json" where
  "policyJson p = JObj [(''timeZone'', JStr (po_timeZone p)), (''cadence'', JStr (cadenceText (po_cadence p))),
     (''anchorDate'', JStr (po_anchorDate p)), (''effectiveFrom'', JStr (po_effectiveFrom p))]"

text \<open>What a new version must respect of the latest one.\<close>

definition checkPolicyBoundary :: "env \<Rightarrow> payrollPolicy \<Rightarrow> policyVersion option \<Rightarrow> unit tx" where
  "checkPolicyBoundary E policy latest =
     (case latest of
        None \<Rightarrow> returnT ()
      | Some l \<Rightarrow> (bindT (liftT (serializeDateOnly (Some (pv_effectiveFrom l)))) (\<lambda>boundary.
        thenT (checkT (\<not> po_effectiveFrom policy \<le> boundary) (Problem 409 ''payroll_policy_boundary_conflict'')) (
        bindT (nowT E) (\<lambda>now.
        thenT (liftT (assertFutureEffectiveBoundary E policy now)) (
        thenT (checkT (pv_timeZone l = po_timeZone policy) (Problem 422 ''payroll_policy_timezone_immutable'')) (
        bindT (liftT (serializeDateOnly (Some (pv_anchorDate l)))) (\<lambda>anchor.
        liftT (assertPayrollAnchorAlignment (po_effectiveFrom policy) anchor (pv_cadence l))))))))))"

definition createPolicyBody :: "env \<Rightarrow> sessionIdentity \<Rightarrow> payrollPolicy \<Rightarrow> requestIdentity \<Rightarrow> unit tx \<Rightarrow> json tx" where
  "createPolicyBody E identity policy request cur =
     (let tenantId = id_tenantId identity in
       bindT (getT (\<lambda>d. find (\<lambda>p. pv_operationId p = rq_operationId request) (policyVersions d))) (\<lambda>replay.
       case replay of
         Some row \<Rightarrow> (thenT (checkT (pv_tenantId row = tenantId \<and> pv_requestHash row = rq_requestHash request) idempotencyConflict) (
           bindT (publicUsers noCheck tenantId [Some (pv_createdByUserId row)]) (\<lambda>refs.
           liftT (serializePolicy row refs))))
       | None \<Rightarrow> (bindT (getT (latestPolicyRow tenantId)) (\<lambda>latest.
         thenT (checkPolicyBoundary E policy latest) (
         thenT cur (
         bindT (liftT (dateOnlyForPrisma (po_anchorDate policy))) (\<lambda>anchor.
         bindT (liftT (dateOnlyForPrisma (po_effectiveFrom policy))) (\<lambda>effective.
         bindT (uuidT E) (\<lambda>newId.
         bindT (uuidT E) (\<lambda>publicId.
         bindT (nowT E) (\<lambda>now.
         let created = \<lparr> pv_id = newId, pv_publicId = publicId, pv_tenantId = tenantId,
             pv_version = (case latest of None \<Rightarrow> 0 | Some l \<Rightarrow> pv_version l) + 1, pv_timeZone = po_timeZone policy,
             pv_cadence = po_cadence policy, pv_anchorDate = anchor, pv_effectiveFrom = effective,
             pv_operationId = rq_operationId request, pv_requestHash = rq_requestHash request,
             pv_createdByUserId = id_sub identity, pv_createdAt = now \<rparr> in
         thenT (createT policyTable policyClash created) (
         thenT cur (
         bindT (publicUsers noCheck tenantId [Some (id_sub identity)]) (\<lambda>refs.
         bindT (liftT (serializePolicy created refs)) (\<lambda>response.
         thenT cur (
         thenT (writePayrollAudit E identity ''PAYROLL_POLICY_VERSION_CREATED'' ''PayrollPolicyVersion'' newId None (Some response)) (
         thenT cur (
         returnT response))))))))))))))))))"

definition createPolicy :: "env \<Rightarrow> sessionIdentity \<Rightarrow> payrollPolicy \<Rightarrow> string option \<Rightarrow> json tx" where
  "createPolicy E requester body key =
     (let identity = mutationIdentity requester in
       bindT (prepareCurrentMutation E identity ''payroll:policy_write'') (\<lambda>scope.
       bindT (liftT (normalizePayrollPolicy E body)) (\<lambda>policy.
       thenT (liftT (assertPayrollAnchorAlignment (po_effectiveFrom policy) (po_anchorDate policy) (po_cadence policy))) (
       bindT (liftT (normalizeIdempotencyKey key)) (\<lambda>idempotencyKey.
       let request = payrollRequestIdentity E (id_tenantId identity) (id_sub identity) POLICY_CREATE idempotencyKey (policyJson policy) in
       mapConflict ''payroll_policy_boundary_conflict''
         (runScope E identity ''payroll:policy_write'' scope (createPolicyBody E identity policy request)))))))"

section \<open>Periods\<close>

definition policyOrder :: "policyVersion \<Rightarrow> policyVersion \<Rightarrow> bool" where
  "policyOrder = thenCompare (descending (byKey pv_effectiveFrom)) (descending (byKey pv_version))"

definition overlaps :: "string \<Rightarrow> instant \<Rightarrow> instant \<Rightarrow> payrollPeriod \<Rightarrow> bool" where
  "overlaps tenantId startsAt endsAt p \<longleftrightarrow> pp_tenantId p = tenantId \<and> pp_startsAt p < endsAt \<and> startsAt < pp_endsAt p"

definition createPeriodBody :: "env \<Rightarrow> sessionIdentity \<Rightarrow> string \<Rightarrow> requestIdentity \<Rightarrow> unit tx \<Rightarrow> json tx" where
  "createPeriodBody E identity localStartDate request cur =
     (let tenantId = id_tenantId identity in
       bindT (findOperation (rq_operationId request)) (\<lambda>replay.
       case replay of
         Some row \<Rightarrow> liftT (replayOperation row (rq_requestHash request))
       | None \<Rightarrow> (bindT (liftT (dateOnlyForPrisma localStartDate)) (\<lambda>startDate.
         bindT (getT (\<lambda>d. findFirst (\<lambda>p. pv_tenantId p = tenantId \<and> pv_effectiveFrom p \<le> startDate) policyOrder (policyVersions d))) (\<lambda>found.
         bindT (requireT found (Problem 422 ''payroll_policy_missing'')) (\<lambda>policy.
         bindT (liftT (serializeDateOnly (Some (pv_anchorDate policy)))) (\<lambda>anchor.
         bindT (liftT (payrollPeriodBoundaries E localStartDate (pv_timeZone policy) (pv_cadence policy) anchor)) (\<lambda>boundaries.
         bindT (getT (\<lambda>d. list_ex (overlaps tenantId (pb_startsAt boundaries) (pb_endsAt boundaries)) (payrollPeriods d))) (\<lambda>overlap.
         thenT (checkT (\<not> overlap) (Problem 409 ''payroll_period_overlap'')) (
         thenT cur (
         bindT (liftT (dateOnlyForPrisma (pb_localStartDate boundaries))) (\<lambda>storedStart.
         bindT (liftT (dateOnlyForPrisma (pb_localEndDateExclusive boundaries))) (\<lambda>storedEnd.
         bindT (uuidT E) (\<lambda>newId.
         bindT (uuidT E) (\<lambda>publicId.
         bindT (nowT E) (\<lambda>now.
         let created = \<lparr> pp_id = newId, pp_publicId = publicId, pp_tenantId = tenantId, pp_policyVersionId = pv_id policy,
             pp_localStartDate = storedStart, pp_localEndDateExclusive = storedEnd,
             pp_startsAt = pb_startsAt boundaries, pp_endsAt = pb_endsAt boundaries, pp_timeZone = pv_timeZone policy,
             pp_cadence = pv_cadence policy, pp_status = PERIOD_OPEN, pp_revision = 0, pp_reviewStartedAt = None,
             pp_reviewStartedByUserId = None, pp_lockedAt = None, pp_lockedByUserId = None, pp_lockOperationId = None,
             pp_lockRequestHash = None, pp_lockedEntrySha256 = None, pp_lockedEntryCount = None,
             pp_totalPayableMinutes = None, pp_createdAt = now, pp_updatedAt = now \<rparr> in
         thenT (createT periodTable periodClash created) (
         thenT cur (
         bindT (liftT (serializePeriod created emptySummary [pv_id policy \<mapsto> pv_publicId policy] JNull)) (\<lambda>response.
         thenT cur (
         thenT (recordOperation identity request newId PERIOD_CREATE response) (
         thenT cur (
         thenT (writePayrollAudit E identity ''PAYROLL_PERIOD_CREATED'' ''PayrollPeriod'' newId None (Some response)) (
         thenT cur (
         returnT response))))))))))))))))))))))))"

definition createPeriod :: "env \<Rightarrow> sessionIdentity \<Rightarrow> string \<Rightarrow> string option \<Rightarrow> json tx" where
  "createPeriod E requester localStartDate key =
     (let identity = mutationIdentity requester in
       bindT (prepareCurrentMutation E identity ''payroll:policy_write'') (\<lambda>scope.
       bindT (liftT (normalizeIdempotencyKey key)) (\<lambda>idempotencyKey.
       let request = payrollRequestIdentity E (id_tenantId identity) (id_sub identity) PERIOD_CREATE idempotencyKey
         (JObj [(''localStartDate'', JStr localStartDate)]) in
       mapConflict ''payroll_period_conflict''
         (runScope E identity ''payroll:policy_write'' scope (createPeriodBody E identity localStartDate request)))))"

section \<open>Review\<close>

definition revisionJson :: "string \<Rightarrow> int \<Rightarrow> json" where
  "revisionJson periodId expectedRevision = JObj [(''periodId'', JStr periodId), (''expectedRevision'', JNum expectedRevision)]"

definition reviewTarget :: "string \<Rightarrow> string \<Rightarrow> int \<Rightarrow> payrollPeriod \<Rightarrow> bool" where
  "reviewTarget tenantId periodId expectedRevision p \<longleftrightarrow>
     pp_id p = periodId \<and> pp_tenantId p = tenantId \<and> pp_status p = PERIOD_OPEN \<and> pp_revision p = expectedRevision"

definition reviewRow :: "string \<Rightarrow> instant \<Rightarrow> instant \<Rightarrow> payrollPeriod \<Rightarrow> payrollPeriod" where
  "reviewRow actorId startedAt updatedAt p = p \<lparr> pp_status := PERIOD_REVIEW, pp_revision := pp_revision p + 1,
     pp_reviewStartedAt := Some startedAt, pp_reviewStartedByUserId := Some actorId, pp_updatedAt := updatedAt \<rparr>"

definition startReviewBody :: "env \<Rightarrow> sessionIdentity \<Rightarrow> string \<Rightarrow> int \<Rightarrow> requestIdentity \<Rightarrow> unit tx \<Rightarrow> json tx" where
  "startReviewBody E identity periodId expectedRevision request cur =
     (let tenantId = id_tenantId identity in
       bindT (findOperation (rq_operationId request)) (\<lambda>replay.
       case replay of
         Some row \<Rightarrow> liftT (replayOperation row (rq_requestHash request))
       | None \<Rightarrow> (bindT (requirePeriodById tenantId periodId) (\<lambda>period.
         thenT (checkT (pp_status period = PERIOD_OPEN) (Problem 409 ''payroll_review_state_invalid'')) (
         thenT (checkT (pp_revision period = expectedRevision) concurrentChange) (
         bindT (nowT E) (\<lambda>now.
         thenT (checkT (\<not> now < pp_endsAt period) (Problem 422 ''payroll_period_not_ended'')) (
         bindT (lockPayrollCandidateCards tenantId period) (\<lambda>candidates.
         thenT (liftT (validatePayrollCandidateCards E candidates period)) (
         thenT cur (
         bindT (nowT E) (\<lambda>startedAt.
         bindT (nowT E) (\<lambda>updatedAt.
         bindT (updateManyT periodTable (reviewTarget tenantId (pp_id period) expectedRevision)
             (reviewRow (id_sub identity) startedAt updatedAt)) (\<lambda>changed.
         thenT cur (
         thenT (checkT (changed = 1) concurrentChange) (
         bindT (requirePeriodById tenantId (pp_id period)) (\<lambda>updated.
         bindT (loadPayrollPeriodSummary noCheck tenantId (pp_id updated)) (\<lambda>summary.
         bindT (publicPolicies noCheck tenantId [Some (pp_policyVersionId updated)]) (\<lambda>policies.
         bindT (liftT (serializePeriod updated summary policies JNull)) (\<lambda>response.
         thenT cur (
         thenT (recordOperation identity request (pp_id updated) REVIEW_OP response) (
         thenT cur (
         bindT (liftT (serializePeriod period emptySummary policies JNull)) (\<lambda>oldValue.
         thenT (writePayrollAudit E identity ''PAYROLL_PERIOD_REVIEW_STARTED'' ''PayrollPeriod'' (pp_id updated) (Some oldValue) (Some response)) (
         thenT cur (
         returnT response))))))))))))))))))))))))))"

definition startReview :: "env \<Rightarrow> sessionIdentity \<Rightarrow> string \<Rightarrow> int \<Rightarrow> string option \<Rightarrow> json tx" where
  "startReview E requester publicPeriodId expectedRevision key =
     (let identity = mutationIdentity requester in
       bindT (prepareCurrentMutation E identity ''payroll:lock'') (\<lambda>scope.
       bindT (resolvePeriodId E identity publicPeriodId) (\<lambda>periodId.
       bindT (liftT (normalizeIdempotencyKey key)) (\<lambda>idempotencyKey.
       let request = payrollRequestIdentity E (id_tenantId identity) (id_sub identity) REVIEW_OP idempotencyKey
         (revisionJson periodId expectedRevision) in
       runScope E identity ''payroll:lock'' scope (startReviewBody E identity periodId expectedRevision request)))))"

section \<open>Adoption\<close>

record adoptedCard =
  cd_id :: string
  cd_publicId :: string
  cd_expectedRevision :: int

definition adoptable :: "(string \<rightharpoonup> int) \<Rightarrow> payrollPeriod \<Rightarrow> timeCard \<Rightarrow> unit result" where
  "adoptable expectedById period c =
     (case tc_clockOutAt c of
        None \<Rightarrow> err concurrentChange
      | Some clockOutAt \<Rightarrow>
          bindR (checkR (expectedById (tc_id c) = Some (tc_revision c) \<and> tc_status c = CARD_CLOSED \<and> tc_deletedAt c = None
            \<and> (tc_payrollPeriodId c = None \<or> tc_payrollPeriodId c = Some [])) concurrentChange) (\<lambda>_.
          checkR (\<not> (tc_clockInAt c < pp_startsAt period \<or> pp_endsAt period < clockOutAt \<or> trim (tc_workTimeZone c) = []))
            (Problem 422 ''payroll_card_not_adoptable'')))"

definition adoptTarget :: "string \<Rightarrow> timeCard \<Rightarrow> int option \<Rightarrow> timeCard \<Rightarrow> bool" where
  "adoptTarget tenantId c expected r \<longleftrightarrow> tc_id r = tc_id c \<and> tc_tenantId r = tenantId \<and> Some (tc_revision r) = expected
     \<and> tc_payrollPeriodId r = None \<and> tc_status r = CARD_CLOSED \<and> tc_deletedAt r = None"

definition adoptRow :: "string \<Rightarrow> instant \<Rightarrow> timeCard \<Rightarrow> timeCard" where
  "adoptRow periodId updatedAt r = r \<lparr> tc_payrollPeriodId := Some periodId, tc_revision := tc_revision r + 1, tc_updatedAt := updatedAt \<rparr>"

definition adoptCard :: "env \<Rightarrow> string \<Rightarrow> (string \<rightharpoonup> int) \<Rightarrow> payrollPeriod \<Rightarrow> unit tx \<Rightarrow> timeCard \<Rightarrow> unit tx" where
  "adoptCard E tenantId expectedById period cur c =
     (thenT cur (
       bindT (nowT E) (\<lambda>updatedAt.
       bindT (updateManyT cardTable (adoptTarget tenantId c (expectedById (tc_id c))) (adoptRow (pp_id period) updatedAt)) (\<lambda>changed.
       thenT cur (
       checkT (changed = 1) concurrentChange)))))"

definition adoptCardsBody :: "env \<Rightarrow> sessionIdentity \<Rightarrow> string \<Rightarrow> adoptedCard list \<Rightarrow> requestIdentity \<Rightarrow> unit tx \<Rightarrow> json tx" where
  "adoptCardsBody E identity periodId cards request cur =
     (let tenantId = id_tenantId identity in
       bindT (findOperation (rq_operationId request)) (\<lambda>replay.
       case replay of
         Some row \<Rightarrow> liftT (replayOperation row (rq_requestHash request))
       | None \<Rightarrow> (bindT (requirePeriodById tenantId periodId) (\<lambda>period.
         thenT (checkT (pp_status period = PERIOD_OPEN) (Problem 409 ''payroll_adoption_state_invalid'')) (
         bindT (getT (\<lambda>d. findMany (\<lambda>c. tc_tenantId c = tenantId \<and> tc_id c \<in> cd_id ` set cards) (byKey tc_id) (timeCards d))) (\<lambda>found.
         thenT (checkT (length found = length cards) (Problem 404 ''time_card_not_found'')) (
         let expectedById = jsMap (map (\<lambda>c. (cd_id c, cd_expectedRevision c)) cards) in
         thenT (liftT (eachR (adoptable expectedById period) found)) (
         thenT (eachT (adoptCard E tenantId expectedById period cur) found) (
         let publicByInternalId = jsMap (map (\<lambda>c. (cd_id c, cd_publicId c)) cards) in
         bindT (liftT (mapR (\<lambda>c. bindR (requireMapped publicByInternalId (tc_id c)) (\<lambda>p.
             ok (JObj [(''id'', JStr p), (''revision'', JNum (tc_revision c + 1))]))) found)) (\<lambda>adopted.
         let response = JObj [(''periodId'', JStr (pp_publicId period)), (''cards'', JArr adopted)] in
         thenT cur (
         thenT (recordOperation identity request (pp_id period) ADOPT response) (
         thenT cur (
         thenT (writePayrollAudit E identity ''PAYROLL_TIME_CARDS_ADOPTED'' ''PayrollPeriod'' (pp_id period) None (Some response)) (
         thenT cur (
         returnT response)))))))))))))))"

definition adoptCards :: "env \<Rightarrow> sessionIdentity \<Rightarrow> string \<Rightarrow> (string \<times> int) list \<Rightarrow> string option \<Rightarrow> json tx" where
  "adoptCards E requester publicPeriodId body key =
     (let identity = mutationIdentity requester in
       bindT (prepareCurrentMutation E identity ''payroll:policy_write'') (\<lambda>scope.
       bindT (resolvePeriodId E identity publicPeriodId) (\<lambda>periodId.
       bindT (resolveTimeCards E identity (map fst body)) (\<lambda>cardsByPublicId.
       thenT (checkT (length (jsSet (map fst body)) = length body) (Problem 422 ''duplicate_payroll_cards'')) (
       bindT (liftT (mapR (\<lambda>(p, expectedRevision). bindR (requireMapped cardsByPublicId p) (\<lambda>i.
         ok \<lparr> cd_id = i, cd_publicId = p, cd_expectedRevision = expectedRevision \<rparr>)) body)) (\<lambda>mapped.
       let cards = sortBy (\<lambda>l r. e_collate E (cd_id l) (cd_id r)) mapped in
       bindT (liftT (normalizeIdempotencyKey key)) (\<lambda>idempotencyKey.
       let request = payrollRequestIdentity E (id_tenantId identity) (id_sub identity) ADOPT idempotencyKey
         (JObj [(''periodId'', JStr periodId), (''cards'', JArr (map (\<lambda>c. JObj
           [(''id'', JStr (cd_id c)), (''expectedRevision'', JNum (cd_expectedRevision c))]) cards))]) in
       mapConflict ''payroll_adoption_conflict''
         (runScope E identity ''payroll:policy_write'' scope (adoptCardsBody E identity periodId cards request)))))))))"

section \<open>Decisions\<close>

record cardDecision =
  cx_timeCardId :: string
  cx_publicTimeCardId :: string
  cx_expectedRevision :: int
  cx_decision :: decision
  cx_reason :: "string option"

record decisionRequest =
  dr_timeCardId :: string
  dr_expectedRevision :: int
  dr_decision :: decision
  dr_reason :: "string option"

text \<open>\<open>reason?.trim() || null\<close> and \<open>`${timeCardId}:${revision}`\<close>.\<close>

definition optionalText :: "string option \<Rightarrow> string option" where
  "optionalText v = (case v of None \<Rightarrow> None | Some s \<Rightarrow> if trim s = [] then None else Some (trim s))"

definition cardRevisionKey :: "string \<Rightarrow> int \<Rightarrow> string" where
  "cardRevisionKey timeCardId revision = timeCardId @ '':'' @ showInt revision"

definition decidable :: "(string \<rightharpoonup> cardDecision) \<Rightarrow> string \<Rightarrow> timeCard \<Rightarrow> unit result" where
  "decidable decisionById actorId c =
     (case decisionById (tc_id c) of
        None \<Rightarrow> err concurrentChange
      | Some x \<Rightarrow>
          bindR (checkR (tc_status c = CARD_CLOSED \<and> tc_deletedAt c = None \<and> tc_revision c = cx_expectedRevision x) concurrentChange) (\<lambda>_.
          checkR (tc_userId c \<noteq> actorId) (Problem 409 ''payroll_self_approval_denied'')))"

definition recordDecision :: "env \<Rightarrow> sessionIdentity \<Rightarrow> string \<Rightarrow> requestIdentity \<Rightarrow> unit tx \<Rightarrow> cardDecision \<Rightarrow> cardApproval tx" where
  "recordDecision E identity periodId request cur x =
     (let child = payrollRequestIdentity E (id_tenantId identity) (id_sub identity) APPROVAL
           (childPayrollOperationId E (rq_operationId request) (cardRevisionKey (cx_timeCardId x) (cx_expectedRevision x)))
           (JObj [(''timeCardId'', JStr (cx_timeCardId x)), (''publicTimeCardId'', JStr (cx_publicTimeCardId x)),
             (''expectedRevision'', JNum (cx_expectedRevision x)), (''decision'', JStr (decisionText (cx_decision x))),
             (''reason'', nullable JStr (cx_reason x))]) in
       thenT cur (
       bindT (uuidT E) (\<lambda>newId.
       bindT (nowT E) (\<lambda>decidedAt.
       let created = \<lparr> ap_id = newId, ap_tenantId = id_tenantId identity, ap_periodId = periodId, ap_timeCardId = cx_timeCardId x,
         ap_timeCardRevision = cx_expectedRevision x, ap_decision = cx_decision x, ap_reason = cx_reason x,
         ap_operationId = rq_operationId child, ap_requestHash = rq_requestHash child, ap_decidedAt = decidedAt,
         ap_decidedByUserId = id_sub identity \<rparr> in
       thenT (createT approvalTable approvalClash created) (
       thenT cur (
       returnT created))))))"

definition decisionJson :: "string \<Rightarrow> (string \<rightharpoonup> string) \<Rightarrow> cardApproval \<Rightarrow> json result" where
  "decisionJson publicUserId publicByInternalId a =
     bindR (requireMapped publicByInternalId (ap_timeCardId a)) (\<lambda>p.
       ok (JObj [(''timeCardId'', JStr p), (''timeCardRevision'', JNum (ap_timeCardRevision a)),
         (''decision'', JStr (decisionText (ap_decision a))), (''reason'', nullable JStr (ap_reason a)),
         (''decidedAt'', jInstant (ap_decidedAt a)), (''decidedByUserId'', JStr publicUserId)]))"

definition decideCardsBody :: "env \<Rightarrow> sessionIdentity \<Rightarrow> string \<Rightarrow> cardDecision list \<Rightarrow> requestIdentity \<Rightarrow> unit tx \<Rightarrow> json tx" where
  "decideCardsBody E identity periodId decisions request cur =
     (let tenantId = id_tenantId identity in
       bindT (findOperation (rq_operationId request)) (\<lambda>replay.
       case replay of
         Some row \<Rightarrow> liftT (replayOperation row (rq_requestHash request))
       | None \<Rightarrow> (bindT (requirePeriodById tenantId periodId) (\<lambda>period.
         thenT (checkT (pp_status period = PERIOD_REVIEW) (Problem 409 ''payroll_decision_state_invalid'')) (
         bindT (getT (\<lambda>d. findMany (\<lambda>c. tc_tenantId c = tenantId \<and> tc_payrollPeriodId c = Some (pp_id period)
             \<and> tc_id c \<in> cx_timeCardId ` set decisions) (byKey tc_id) (timeCards d))) (\<lambda>found.
         thenT (checkT (length found = length decisions) (Problem 404 ''time_card_not_found'')) (
         let decisionById = jsMap (map (\<lambda>x. (cx_timeCardId x, x)) decisions) in
         thenT (liftT (eachR (decidable decisionById (id_sub identity)) found)) (
         bindT (getT (\<lambda>d. list_ex (\<lambda>a. ap_tenantId a = tenantId \<and> list_ex (\<lambda>x. ap_timeCardId a = cx_timeCardId x
             \<and> ap_timeCardRevision a = cx_expectedRevision x) decisions) (cardApprovals d))) (\<lambda>existing.
         thenT (checkT (\<not> existing) (Problem 409 ''payroll_decision_exists'')) (
         bindT (mapT (recordDecision E identity (pp_id period) request cur) decisions) (\<lambda>created.
         let publicByInternalId = jsMap (map (\<lambda>x. (cx_timeCardId x, cx_publicTimeCardId x)) decisions) in
         bindT (liftT (mapR (decisionJson (id_publicUserId identity) publicByInternalId) created)) (\<lambda>decided.
         let response = JObj [(''periodId'', JStr (pp_publicId period)), (''decisions'', JArr decided)] in
         thenT cur (
         thenT (recordOperation identity request (pp_id period) APPROVAL response) (
         thenT cur (
         thenT (writePayrollAudit E identity ''PAYROLL_TIME_CARD_DECISIONS_RECORDED'' ''PayrollPeriod'' (pp_id period) None (Some response)) (
         thenT cur (
         returnT response)))))))))))))))))"

definition decideCards :: "env \<Rightarrow> sessionIdentity \<Rightarrow> string \<Rightarrow> decisionRequest list \<Rightarrow> string option \<Rightarrow> json tx" where
  "decideCards E requester publicPeriodId body key =
     (let identity = mutationIdentity requester in
       bindT (prepareCurrentMutation E identity ''time_cards:approve'') (\<lambda>scope.
       bindT (resolvePeriodId E identity publicPeriodId) (\<lambda>periodId.
       bindT (resolveTimeCards E identity (map dr_timeCardId body)) (\<lambda>cardsByPublicId.
       bindT (liftT (mapR (\<lambda>x. bindR (requireMapped cardsByPublicId (dr_timeCardId x)) (\<lambda>i.
         ok \<lparr> cx_timeCardId = i, cx_publicTimeCardId = dr_timeCardId x, cx_expectedRevision = dr_expectedRevision x,
              cx_decision = dr_decision x, cx_reason = optionalText (dr_reason x) \<rparr>)) body)) (\<lambda>mapped.
       let decisions = sortBy (\<lambda>l r. e_collate E (cx_timeCardId l) (cx_timeCardId r)) mapped in
       thenT (checkT (length (jsSet (map (\<lambda>x. cardRevisionKey (cx_timeCardId x) (cx_expectedRevision x)) decisions)) = length decisions)
         (Problem 422 ''duplicate_payroll_decisions'')) (
       bindT (liftT (normalizeIdempotencyKey key)) (\<lambda>idempotencyKey.
       let request = payrollRequestIdentity E (id_tenantId identity) (id_sub identity) APPROVAL idempotencyKey
         (JObj [(''periodId'', JStr periodId), (''decisions'', JArr (map (\<lambda>x. JObj
           [(''timeCardId'', JStr (cx_timeCardId x)), (''expectedRevision'', JNum (cx_expectedRevision x)),
            (''decision'', JStr (decisionText (cx_decision x))), (''reason'', nullable JStr (cx_reason x))]) decisions))]) in
       mapConflict ''payroll_decision_conflict''
         (runScope E identity ''time_cards:approve'' scope (decideCardsBody E identity periodId decisions request)))))))))"

section \<open>The lock\<close>

fun breaksTotal :: "timeCard \<Rightarrow> instant \<Rightarrow> int \<Rightarrow> timeCardBreak list \<Rightarrow> int result" where
  "breaksTotal c previousEnd acc [] = ok acc"
| "breaksTotal c previousEnd acc (b # bs) =
     (if tb_startAt b < tc_clockInAt c
         \<or> (case tc_clockOutAt c of None \<Rightarrow> True | Some clockOutAt \<Rightarrow> clockOutAt < tb_endAt b)
         \<or> tb_endAt b \<le> tb_startAt b \<or> tb_startAt b < previousEnd
      then err (Problem 422 ''payroll_break_evidence_invalid'')
      else breaksTotal c (tb_endAt b) (acc + floorMinutes (tb_endAt b - tb_startAt b)) bs)"

definition checkCardBreaks :: "timeCard \<Rightarrow> timeCardBreak list \<Rightarrow> unit result" where
  "checkCardBreaks c intervals =
     bindR (breaksTotal c (tc_clockInAt c) 0 intervals) (\<lambda>acc.
       checkR (\<not> (intervals \<noteq> [] \<and> acc \<noteq> tc_breakMinutes c)) (Problem 422 ''payroll_break_minutes_mismatch''))"

definition breakOrder :: "timeCardBreak \<Rightarrow> timeCardBreak \<Rightarrow> bool" where
  "breakOrder = thenCompare (byKey tb_timeCardId) (thenCompare (byKey tb_startAt) (byKey tb_id))"

text \<open>The map from card to break intervals; a card's intervals are those of its rows, in order.\<close>

definition lockAndValidateBreaks :: "string \<Rightarrow> timeCard list \<Rightarrow> (string \<Rightarrow> timeCardBreak list) tx" where
  "lockAndValidateBreaks tenantId cards =
     (bindT (getT (\<lambda>d. findMany (\<lambda>b. tb_tenantId b = tenantId \<and> tb_timeCardId b \<in> tc_id ` set cards) breakOrder (timeCardBreaks d))) (\<lambda>breaks.
       let cardById = jsMap (map (\<lambda>c. (tc_id c, c)) cards) in
       let byCard = (\<lambda>cardId. filter (\<lambda>b. tb_timeCardId b = cardId) breaks) in
       thenT (liftT (eachR (\<lambda>cardId. case cardById cardId of
           None \<Rightarrow> err integrityFailed
         | Some c \<Rightarrow> checkCardBreaks c (byCard cardId)) (jsSet (map tc_id cards)))) (
       returnT byCard)))"

definition approvedCardSource :: "(string \<rightharpoonup> cardApproval) \<Rightarrow> (string \<Rightarrow> timeCardBreak list) \<Rightarrow> timeCard \<Rightarrow> lockedEntrySource result" where
  "approvedCardSource exact breaksByCard c =
     (case exact (cardRevisionKey (tc_id c) (tc_revision c)) of
        None \<Rightarrow> err (Problem 422 ''payroll_approval_missing'')
      | Some approval \<Rightarrow>
          bindR (checkR (ap_decision approval = APPROVED \<and> tc_clockOutAt c \<noteq> None) (Problem 422 ''payroll_approval_missing'')) (\<lambda>_.
          bindR (catchR (payrollWorkedMinutes (Some (tc_clockInAt c)) (tc_clockOutAt c) (tc_breakMinutes c))
            (Problem 422 ''payroll_card_duration_invalid'')) (\<lambda>payableMinutes.
          ok \<lparr> ls_sourceType = TIME_CARD, ls_sourceId = tc_id c, ls_sourceRevision = tc_revision c, ls_employeeId = tc_userId c,
               ls_locationId = tc_locationId c, ls_workTimeZone = tc_workTimeZone c, ls_clockInAt = Some (tc_clockInAt c),
               ls_clockOutAt = tc_clockOutAt c, ls_breakMinutes = tc_breakMinutes c, ls_payableMinutes = payableMinutes,
               ls_approvedAt = Some (ap_decidedAt approval), ls_approvedByUserId = ap_decidedByUserId approval,
               ls_breakIntervals = map (\<lambda>b. (Some (tb_startAt b), Some (tb_endAt b))) (breaksByCard (tc_id c)) \<rparr>)))"

definition approvedCardSources :: "string \<Rightarrow> string \<Rightarrow> timeCard list \<Rightarrow> (string \<Rightarrow> timeCardBreak list) \<Rightarrow> lockedEntrySource list tx" where
  "approvedCardSources tenantId periodId cards breaksByCard =
     (if cards = [] then returnT []
      else (bindT (getT (\<lambda>d. take (length cards) (findMany (\<lambda>a. ap_tenantId a = tenantId \<and> ap_periodId a = periodId
          \<and> list_ex (\<lambda>c. ap_timeCardId a = tc_id c \<and> ap_timeCardRevision a = tc_revision c) cards) (byKey ap_timeCardId) (cardApprovals d)))) (\<lambda>approvals.
        let exact = jsMap (map (\<lambda>a. (cardRevisionKey (ap_timeCardId a) (ap_timeCardRevision a), a)) approvals) in
        liftT (mapR (approvedCardSource exact breaksByCard) cards))))"

definition amendmentOrder :: "amendment \<Rightarrow> amendment \<Rightarrow> bool" where
  "amendmentOrder = thenCompare (byKey am_createdAt) (byKey am_id)"

definition amendmentSource :: "(string \<rightharpoonup> lockedEntryRow) \<Rightarrow> (string \<rightharpoonup> amendmentDecision) \<Rightarrow> amendment \<Rightarrow> lockedEntrySource result" where
  "amendmentSource originalById decisionByAmendment a =
     (case (originalById (am_lockedEntryId a), decisionByAmendment (am_id a)) of
        (Some original, Some x) \<Rightarrow>
          ok \<lparr> ls_sourceType = AMENDMENT, ls_sourceId = am_id a, ls_sourceRevision = 1, ls_employeeId = en_employeeId original,
               ls_locationId = en_locationId original, ls_workTimeZone = en_workTimeZone original,
               ls_clockInAt = Some (am_replacementClockInAt a), ls_clockOutAt = Some (am_replacementClockOutAt a),
               ls_breakMinutes = am_replacementBreakMinutes a, ls_payableMinutes = am_minuteDelta a,
               ls_approvedAt = Some (ad_decidedAt x), ls_approvedByUserId = ad_decidedByUserId x, ls_breakIntervals = [] \<rparr>
      | _ \<Rightarrow> err integrityFailed)"

definition approvedAmendmentSources :: "string \<Rightarrow> string \<Rightarrow> lockedEntrySource list tx" where
  "approvedAmendmentSources tenantId adjustmentPeriodId =
     (bindT (getT (\<lambda>d. take (MAX_PAYROLL_LOCK_ENTRIES + 1)
           (findMany (\<lambda>a. am_tenantId a = tenantId \<and> am_adjustmentPeriodId a = adjustmentPeriodId) amendmentOrder (amendments d)))) (\<lambda>found.
       thenT (checkT (length found \<le> MAX_PAYROLL_LOCK_ENTRIES) (Problem 422 ''payroll_amendment_limit_invalid'')) (
       if found = [] then returnT []
       else (bindT (getT (\<lambda>d. take (length found) (findMany (\<lambda>x. ad_tenantId x = tenantId \<and> ad_amendmentId x \<in> am_id ` set found)
           (byKey ad_amendmentId) (amendmentDecisions d)))) (\<lambda>decisions.
         let decisionByAmendment = jsMap (map (\<lambda>x. (ad_amendmentId x, x)) decisions) in
         thenT (checkT (\<not> list_ex (\<lambda>a. decisionByAmendment (am_id a) = None) found) (Problem 422 ''payroll_amendment_pending'')) (
         let approved = filter (\<lambda>a. case decisionByAmendment (am_id a) of None \<Rightarrow> False | Some x \<Rightarrow> ad_decision x = APPROVED) found in
         if approved = [] then returnT []
         else (bindT (getT (\<lambda>d. take (length approved) (findMany (\<lambda>e. en_tenantId e = tenantId \<and> en_id e \<in> am_lockedEntryId ` set approved)
             (byKey en_id) (lockedEntries d)))) (\<lambda>originals.
           let originalById = jsMap (map (\<lambda>e. (en_id e, e)) originals) in
           liftT (mapR (amendmentSource originalById decisionByAmendment) approved)))))))))"

text \<open>The row of a locked entry, as \<open>createMany\<close> stores it.\<close>

definition lockedEntryOf :: "env \<Rightarrow> string \<Rightarrow> string \<Rightarrow> lockedEntry \<Rightarrow> lockedEntryRow tx" where
  "lockedEntryOf E tenantId periodId entry =
     (let s = le_source entry in
       bindT (liftT (requiredDate (ls_clockInAt s))) (\<lambda>clockInAt.
       bindT (liftT (requiredDate (ls_clockOutAt s))) (\<lambda>clockOutAt.
       bindT (liftT (requiredDate (ls_approvedAt s))) (\<lambda>approvedAt.
       bindT (uuidT E) (\<lambda>newId.
       bindT (uuidT E) (\<lambda>publicId.
       returnT \<lparr> en_id = newId, en_publicId = publicId, en_tenantId = tenantId, en_periodId = periodId,
         en_sequence = int (le_sequence entry), en_sourceType = ls_sourceType s, en_sourceId = ls_sourceId s,
         en_sourceRevision = ls_sourceRevision s, en_employeeId = ls_employeeId s, en_locationId = ls_locationId s,
         en_workTimeZone = ls_workTimeZone s, en_clockInAt = clockInAt, en_clockOutAt = clockOutAt,
         en_breakMinutes = ls_breakMinutes s, en_payableMinutes = ls_payableMinutes s, en_approvedAt = approvedAt,
         en_approvedByUserId = ls_approvedByUserId s, en_canonicalSha256 = le_canonicalSha256 entry \<rparr>))))))"

text \<open>Everything the lock reads and validates before it writes.\<close>

definition lockSnapshot :: "env \<Rightarrow> string \<Rightarrow> payrollPeriod \<Rightarrow> snapshot tx" where
  "lockSnapshot E tenantId period =
     (bindT (lockPayrollCandidateCards tenantId period) (\<lambda>candidates.
       bindT (liftT (validatePayrollCandidateCards E candidates period)) (\<lambda>cards.
       bindT (lockAndValidateBreaks tenantId cards) (\<lambda>breaksByCard.
       bindT (approvedCardSources tenantId (pp_id period) cards breaksByCard) (\<lambda>cardSources.
       bindT (approvedAmendmentSources tenantId (pp_id period)) (\<lambda>amendmentSources.
       thenT (checkT (length cardSources + length amendmentSources \<le> MAX_PAYROLL_LOCK_ENTRIES) (Problem 422 ''payroll_lock_entry_limit'')) (
       liftT (catchR (materializeLockedSnapshots E tenantId (pp_id period) (cardSources @ amendmentSources))
         (Problem 422 ''payroll_source_invalid'')))))))))"

text \<open>The update of the period; \<open>lockOperationId\<close> is unique, so an operation that already locked another
  period is refused by the database.\<close>

definition lockRow :: "sessionIdentity \<Rightarrow> requestIdentity \<Rightarrow> snapshot \<Rightarrow> instant \<Rightarrow> instant \<Rightarrow> payrollPeriod \<Rightarrow> payrollPeriod" where
  "lockRow identity request snap lockedAt updatedAt p = p
     \<lparr> pp_status := PERIOD_LOCKED, pp_revision := pp_revision p + 1, pp_lockedAt := Some lockedAt,
       pp_lockedByUserId := Some (id_sub identity), pp_lockOperationId := Some (rq_operationId request),
       pp_lockRequestHash := Some (rq_requestHash request), pp_lockedEntrySha256 := Some (sn_aggregateSha256 snap),
       pp_lockedEntryCount := Some (int (length (sn_entries snap))), pp_totalPayableMinutes := Some (sn_totalPayableMinutes snap),
       pp_updatedAt := updatedAt \<rparr>"

definition lockTarget :: "string \<Rightarrow> string \<Rightarrow> int \<Rightarrow> payrollPeriod \<Rightarrow> bool" where
  "lockTarget tenantId periodId expectedRevision p \<longleftrightarrow>
     pp_id p = periodId \<and> pp_tenantId p = tenantId \<and> pp_status p = PERIOD_REVIEW \<and> pp_revision p = expectedRevision"

definition lockPeriodRow :: "env \<Rightarrow> sessionIdentity \<Rightarrow> payrollPeriod \<Rightarrow> int \<Rightarrow> requestIdentity \<Rightarrow> snapshot \<Rightarrow> nat tx" where
  "lockPeriodRow E identity period expectedRevision request snap =
     (let P = lockTarget (id_tenantId identity) (pp_id period) expectedRevision in
       bindT (nowT E) (\<lambda>lockedAt.
       bindT (nowT E) (\<lambda>updatedAt.
       bindT (getT (\<lambda>d. list_ex P (payrollPeriods d)
         \<and> list_ex (\<lambda>p. \<not> P p \<and> pp_lockOperationId p = Some (rq_operationId request)) (payrollPeriods d))) (\<lambda>taken.
       thenT (checkT (\<not> taken) (DbError P2002)) (
       updateManyT periodTable P (lockRow identity request snap lockedAt updatedAt))))))"

definition storeEntries :: "env \<Rightarrow> string \<Rightarrow> string \<Rightarrow> snapshot \<Rightarrow> unit tx \<Rightarrow> unit tx" where
  "storeEntries E tenantId periodId snap cur =
     (if sn_entries snap \<noteq> [] then (thenT cur (
       bindT (mapT (lockedEntryOf E tenantId periodId) (sn_entries snap)) (\<lambda>rows.
       thenT (createManyT entryTable entryClash rows) (
       cur))))
      else returnT ())"

definition lockPeriodBody :: "env \<Rightarrow> sessionIdentity \<Rightarrow> string \<Rightarrow> int \<Rightarrow> requestIdentity \<Rightarrow> unit tx \<Rightarrow> json tx" where
  "lockPeriodBody E identity periodId expectedRevision request cur =
     (let tenantId = id_tenantId identity in
       bindT (requirePeriodById tenantId periodId) (\<lambda>period.
       if pp_status period = PERIOD_LOCKED
       then if pp_lockOperationId period = Some (rq_operationId request) \<and> pp_lockRequestHash period = Some (rq_requestHash request)
            then (bindT (loadPayrollPeriodSummary noCheck tenantId (pp_id period)) (\<lambda>summary.
              bindT (publicPolicies noCheck tenantId [Some (pp_policyVersionId period)]) (\<lambda>policies.
              liftT (serializePeriod period summary policies JNull))))
            else throwT idempotencyConflict
       else (thenT (checkT (pp_status period = PERIOD_REVIEW) (Problem 409 ''payroll_lock_state_invalid'')) (
         thenT (checkT (pp_revision period = expectedRevision) concurrentChange) (
         bindT (nowT E) (\<lambda>now.
         thenT (checkT (\<not> now < pp_endsAt period) (Problem 422 ''payroll_period_not_ended'')) (
         bindT (lockSnapshot E tenantId period) (\<lambda>snap.
         thenT (storeEntries E tenantId (pp_id period) snap cur) (
         thenT cur (
         bindT (lockPeriodRow E identity period expectedRevision request snap) (\<lambda>changed.
         thenT cur (
         thenT (checkT (changed = 1) concurrentChange) (
         bindT (requirePeriodById tenantId (pp_id period)) (\<lambda>updated.
         bindT (loadPayrollPeriodSummary noCheck tenantId (pp_id updated)) (\<lambda>summary.
         bindT (publicPolicies noCheck tenantId [Some (pp_policyVersionId updated)]) (\<lambda>policies.
         bindT (liftT (serializePeriod updated summary policies JNull)) (\<lambda>response.
         thenT cur (
         bindT (liftT (serializePeriod period emptySummary policies JNull)) (\<lambda>oldValue.
         thenT (writePayrollAudit E identity ''PAYROLL_PERIOD_LOCKED'' ''PayrollPeriod'' (pp_id period) (Some oldValue) (Some response)) (
         thenT cur (
         returnT response)))))))))))))))))))))"

definition lockPeriod :: "env \<Rightarrow> sessionIdentity \<Rightarrow> string \<Rightarrow> int \<Rightarrow> string option \<Rightarrow> json tx" where
  "lockPeriod E requester publicPeriodId expectedRevision key =
     (let identity = mutationIdentity requester in
       bindT (prepareCurrentMutation E identity ''payroll:lock'') (\<lambda>scope.
       bindT (resolvePeriodId E identity publicPeriodId) (\<lambda>periodId.
       bindT (liftT (normalizeIdempotencyKey key)) (\<lambda>idempotencyKey.
       let request = payrollRequestIdentity E (id_tenantId identity) (id_sub identity) LOCK_OP idempotencyKey
         (revisionJson periodId expectedRevision) in
       runScope E identity ''payroll:lock'' scope (lockPeriodBody E identity periodId expectedRevision request)))))"

end
