(* ===== verification/TimeCards.thy ===== *)
theory TimeCards
  imports TimeCardRules PayrollPeriods
begin

text \<open>
  The time-card service (\<open>time/time-cards.service.ts\<close>) and its payroll assignment (\<open>time/payroll.ts\<close>):
  clocking in and out, corrections, and the reads of one card.
\<close>

section \<open>Payroll assignment\<close>

definition POLICY_ASSIGNMENT_PAGE_SIZE :: nat where "POLICY_ASSIGNMENT_PAGE_SIZE = 100"

definition dateValueInTimeZone :: "env \<Rightarrow> instant \<Rightarrow> string \<Rightarrow> string result" where
  "dateValueInTimeZone E t timeZone =
     bindR (catchR (zonedParts E t timeZone) (Problem 500 ''invalid_time_card_timezone'')) (\<lambda>parts.
       ok (showInt (lp_year parts) @ ''-'' @ pad2 (lp_month parts) @ ''-'' @ pad2 (lp_day parts)))"

text \<open>\<open>find\<close> with a test that may throw.\<close>

fun findR :: "('a \<Rightarrow> bool result) \<Rightarrow> 'a list \<Rightarrow> 'a option result" where
  "findR P [] = ok None"
| "findR P (x # xs) = bindR (P x) (\<lambda>b. if b then ok (Some x) else findR P xs)"

definition policyInForce :: "env \<Rightarrow> instant \<Rightarrow> policyVersion \<Rightarrow> bool result" where
  "policyInForce E clockInAt p = bindR (dateValueInTimeZone E clockInAt (pv_timeZone p)) (\<lambda>date. ok (isoDay (pv_effectiveFrom p) \<le> date))"

definition orderedPolicies :: "string \<Rightarrow> database \<Rightarrow> policyVersion list" where
  "orderedPolicies tenantId d = findMany (\<lambda>p. pv_tenantId p = tenantId) policyOrder (policyVersions d)"

text \<open>A page of the ordered versions: from the start, or after the row a cursor names.\<close>

definition policyPage :: "string option \<Rightarrow> policyVersion list \<Rightarrow> policyVersion list" where
  "policyPage cursorId rows = take POLICY_ASSIGNMENT_PAGE_SIZE
     (case cursorId of None \<Rightarrow> rows | Some i \<Rightarrow> tl (dropWhile (\<lambda>p. pv_id p \<noteq> i) rows))"

text \<open>The loop over the pages.  Each round reads at least one row more, so one round per stored version is enough.\<close>

fun policySearch :: "nat \<Rightarrow> env \<Rightarrow> string \<Rightarrow> instant \<Rightarrow> unit tx \<Rightarrow> string option \<Rightarrow> policyVersion option tx" where
  "policySearch 0 E tenantId clockInAt cur cursorId = returnT None"
| "policySearch (Suc rounds) E tenantId clockInAt cur cursorId =
     (thenT cur (
       bindT (getT (\<lambda>d. policyPage cursorId (orderedPolicies tenantId d))) (\<lambda>policies.
       thenT cur (
       bindT (liftT (findR (policyInForce E clockInAt) policies)) (\<lambda>policy.
       if policy \<noteq> None \<or> length policies < POLICY_ASSIGNMENT_PAGE_SIZE then returnT policy
       else if pv_id (last policies) = [] then returnT None
       else policySearch rounds E tenantId clockInAt cur (Some (pv_id (last policies))))))))"

record payrollAssignment =
  pa_payrollPeriodId :: "string option"
  pa_workTimeZone :: string

record cardPlace =
  pl_id :: string
  pl_timezone :: string

definition assignable :: "string \<Rightarrow> string \<Rightarrow> instant \<Rightarrow> payrollPeriod \<Rightarrow> bool" where
  "assignable tenantId policyVersionId clockInAt p \<longleftrightarrow> pp_tenantId p = tenantId \<and> pp_policyVersionId p = policyVersionId
     \<and> pp_status p = PERIOD_OPEN \<and> pp_startsAt p \<le> clockInAt \<and> clockInAt < pp_endsAt p"

definition resolveTimeCardPayrollAssignment :: "env \<Rightarrow> string \<Rightarrow> instant \<Rightarrow> cardPlace option \<Rightarrow> unit tx \<Rightarrow> payrollAssignment tx" where
  "resolveTimeCardPayrollAssignment E tenantId clockInAt place cur =
     (thenT cur (
       bindT (getT (\<lambda>d. Suc (length (policyVersions d)))) (\<lambda>rounds.
       bindT (policySearch rounds E tenantId clockInAt cur None) (\<lambda>policy.
       case policy of
         None \<Rightarrow> returnT \<lparr> pa_payrollPeriodId = None, pa_workTimeZone = (case place of None \<Rightarrow> ''UTC'' | Some l \<Rightarrow> pl_timezone l) \<rparr>
       | Some version \<Rightarrow> (bindT (requireT place (Problem 422 ''time_card_location_required'')) (\<lambda>location.
         bindT (getT (\<lambda>d. find (assignable tenantId (pv_id version) clockInAt) (payrollPeriods d))) (\<lambda>found.
         thenT cur (
         bindT (requireT found (Problem 409 ''no_open_payroll_period'')) (\<lambda>period.
         thenT cur (
         thenT cur (
         bindT (getT (\<lambda>d. filter (\<lambda>p. pp_id p = pp_id period \<and> assignable tenantId (pv_id version) clockInAt p) (payrollPeriods d))) (\<lambda>current.
         thenT cur (
         thenT (checkT (length current = 1) (Problem 409 ''payroll_period_changed'')) (
         returnT \<lparr> pa_payrollPeriodId = Some (pp_id period), pa_workTimeZone = pl_timezone location \<rparr>))))))))))))))"

definition lockPeriodOfCard :: "string \<Rightarrow> unit tx \<Rightarrow> string \<Rightarrow> payrollPeriod tx" where
  "lockPeriodOfCard tenantId cur periodId =
     (thenT cur (
       thenT cur (
       bindT (getT (\<lambda>d. filter (\<lambda>p. pp_id p = periodId \<and> pp_tenantId p = tenantId) (payrollPeriods d))) (\<lambda>periods.
       thenT cur (
       thenT (checkT (length periods = 1) (Problem 409 ''payroll_period_changed'')) (
       thenT (checkT (pp_status (hd periods) \<noteq> PERIOD_LOCKED) (Problem 409 ''payroll_period_locked'')) (
       returnT (hd periods))))))))"

definition lockTimeCardPayrollContext :: "string \<Rightarrow> string option list \<Rightarrow> unit tx \<Rightarrow> payrollPeriod list tx" where
  "lockTimeCardPayrollContext tenantId periodIds cur =
     (thenT cur (
       thenT cur (
       thenT cur (
       let orderedPeriodIds = sortBy (byKey (\<lambda>i. i)) (jsSet (concat (map (\<lambda>i. case i of None \<Rightarrow> [] | Some s \<Rightarrow> if s = [] then [] else [s]) periodIds))) in
       bindT (mapT (lockPeriodOfCard tenantId cur) orderedPeriodIds) (\<lambda>locked.
       thenT cur (
       thenT cur (
       returnT locked)))))))"

definition assertClockOutWithinPayrollPeriod :: "string option \<Rightarrow> instant \<Rightarrow> payrollPeriod list \<Rightarrow> unit result" where
  "assertClockOutWithinPayrollPeriod payrollPeriodId clockOutAt periods =
     (case payrollPeriodId of
        None \<Rightarrow> ok ()
      | Some i \<Rightarrow>
          if i = [] then ok ()
          else (case find (\<lambda>p. pp_id p = i) periods of
                  None \<Rightarrow> err (Problem 409 ''payroll_period_changed'')
                | Some p \<Rightarrow> checkR (\<not> pp_endsAt p < clockOutAt) (Problem 409 ''payroll_period_cutoff'')))"

section \<open>The scope of a time-card request\<close>

definition timeScopeBody :: "env \<Rightarrow> sessionIdentity \<Rightarrow> string \<Rightarrow> mutationScope \<Rightarrow> string option tx \<Rightarrow>
    (sessionIdentity \<Rightarrow> unit tx \<Rightarrow> string option \<Rightarrow> 'a tx) \<Rightarrow> 'a tx" where
  "timeScopeBody E identity permission scope locateTarget operation =
     (bindT locateTarget (\<lambda>targetUserId.
       let options = (case targetUserId of None \<Rightarrow> noOptions
         | Some t \<Rightarrow> if t = [] then noOptions else noOptions \<lparr> ao_targetUserId := Some t, ao_allowDeletedTarget := True \<rparr>) in
       bindT (authorizeCurrentMutation E identity permission options) (\<lambda>authority.
       let actor = ma_actor (ca_authority authority) in
       let current = identity \<lparr> id_sub := us_id actor, id_publicUserId := us_publicId actor,
         id_permissions := as_permissions (ma_actorAccess (ca_authority authority)) \<rparr> in
       let cur = assertCurrent E scope authority in
       thenT cur (
       bindT (operation current cur targetUserId) (\<lambda>response.
       thenT cur (
       returnT response))))))"

definition runTimeScope :: "env \<Rightarrow> sessionIdentity \<Rightarrow> string \<Rightarrow> mutationScope \<Rightarrow> string option tx \<Rightarrow>
    (sessionIdentity \<Rightarrow> unit tx \<Rightarrow> string option \<Rightarrow> 'a tx) \<Rightarrow> 'a tx" where
  "runTimeScope E identity permission scope locateTarget operation =
     retryPayrollSerializableMutation (withTenant E (id_tenantId identity)
       (timeScopeBody E identity permission scope locateTarget operation))"

definition TEAM_TIME_CARD_PERMISSIONS :: "string list" where "TEAM_TIME_CARD_PERMISSIONS = [''users:read'', ''shifts:read'']"

definition canViewTeam :: "sessionIdentity \<Rightarrow> bool" where
  "canViewTeam identity \<longleftrightarrow> list_all (\<lambda>p. p \<in> set (id_permissions identity)) TEAM_TIME_CARD_PERMISSIONS"

definition writableTargetPublicId :: "sessionIdentity \<Rightarrow> string option \<Rightarrow> string result" where
  "writableTargetPublicId identity requested =
     (let publicId = (case requested of None \<Rightarrow> id_publicUserId identity | Some p \<Rightarrow> p)
      in bindR (checkR (canViewTeam identity \<or> publicId = id_publicUserId identity) (Problem 403 ''time_card_scope_denied'')) (\<lambda>_. ok publicId))"

section \<open>Resolving references\<close>

definition resolveClockInTargetForReplay :: "string \<Rightarrow> string \<Rightarrow> user tx" where
  "resolveClockInTargetForReplay tenantId publicId =
     (bindT (getT (\<lambda>d. find (\<lambda>u. us_tenantId u = tenantId \<and> sameUuid (us_publicId u) publicId) (users d))) (\<lambda>found.
       requireT found invalidTimeCardInput))"

definition readActiveClockInTarget :: "string \<Rightarrow> string \<Rightarrow> user tx" where
  "readActiveClockInTarget tenantId publicId =
     (bindT (getT (\<lambda>d. find (\<lambda>u. us_tenantId u = tenantId \<and> sameUuid (us_publicId u) publicId
           \<and> us_role u \<in> {MANAGER, STAFF} \<and> us_deletedAt u = None \<and> us_suspendedAt u = None) (users d))) (\<lambda>found.
       requireT found invalidTimeCardInput))"

definition resolveLocationForReplay :: "string \<Rightarrow> string \<Rightarrow> location tx" where
  "resolveLocationForReplay tenantId publicId =
     (bindT (getT (\<lambda>d. find (\<lambda>l. lo_tenantId l = tenantId \<and> sameUuid (lo_publicId l) publicId) (locations d))) (\<lambda>found.
       requireT found invalidTimeCardInput))"

definition resolveShiftForReplay :: "string \<Rightarrow> string \<Rightarrow> shift tx" where
  "resolveShiftForReplay tenantId publicId =
     (bindT (getT (\<lambda>d. find (\<lambda>s. sh_tenantId s = tenantId \<and> sameUuid (sh_publicId s) publicId) (shifts d))) (\<lambda>found.
       requireT found invalidTimeCardInput))"

definition resolveLocation :: "string \<Rightarrow> string \<Rightarrow> location tx" where
  "resolveLocation tenantId publicId =
     (bindT (getT (\<lambda>d. find (\<lambda>l. lo_tenantId l = tenantId \<and> sameUuid (lo_publicId l) publicId \<and> lo_deletedAt l = None) (locations d))) (\<lambda>found.
       requireT found invalidTimeCardInput))"

definition resolveLocationByInternalId :: "string \<Rightarrow> string \<Rightarrow> location tx" where
  "resolveLocationByInternalId tenantId locationId =
     (bindT (getT (\<lambda>d. find (\<lambda>l. lo_id l = locationId \<and> lo_tenantId l = tenantId \<and> lo_deletedAt l = None) (locations d))) (\<lambda>found.
       requireT found invalidTimeCardInput))"

definition resolveShift :: "string \<Rightarrow> string \<Rightarrow> string \<Rightarrow> shift tx" where
  "resolveShift tenantId publicId targetUserId =
     (bindT (getT (\<lambda>d. find (\<lambda>s. sh_tenantId s = tenantId \<and> sameUuid (sh_publicId s) publicId \<and> sh_deletedAt s = None) (shifts d))) (\<lambda>found.
       bindT (requireT found invalidTimeCardInput) (\<lambda>shift.
       thenT (checkT (\<not> (case sh_userId shift of None \<Rightarrow> False | Some u \<Rightarrow> u \<noteq> [] \<and> u \<noteq> targetUserId)) invalidTimeCardInput) (
       returnT shift))))"

text \<open>An optional reference: \<open>body.x ? await resolve(body.x) : null\<close>.\<close>

definition resolveOptional :: "(string \<Rightarrow> 'a tx) \<Rightarrow> string option \<Rightarrow> 'a option tx" where
  "resolveOptional resolve v =
     (case v of None \<Rightarrow> returnT None | Some s \<Rightarrow> if s = [] then returnT None else bindT (resolve s) (\<lambda>x. returnT (Some x)))"

definition loadView :: "timeCard \<Rightarrow> cardView tx" where
  "loadView c = bindT (getT (\<lambda>d. viewOf d c)) liftT"

definition findClockInReplay :: "string \<Rightarrow> string \<Rightarrow> string \<Rightarrow> cardView option tx" where
  "findClockInReplay tenantId operation requestHash =
     (bindT (getT (\<lambda>d. find (\<lambda>c. tc_clockInOperationId c = Some operation) (timeCards d))) (\<lambda>found.
       case found of
         None \<Rightarrow> returnT None
       | Some c \<Rightarrow>
           if tc_tenantId c \<noteq> tenantId then returnT None
           else (thenT (checkT (tc_clockInRequestHash c = Some requestHash) idempotencyConflict) (
             bindT (loadView c) (\<lambda>view.
             returnT (Some view))))))"

definition findScopedTimeCard :: "sessionIdentity \<Rightarrow> string \<Rightarrow> bool \<Rightarrow> cardView tx" where
  "findScopedTimeCard identity publicId includeClosed =
     (bindT (getT (\<lambda>d. find (\<lambda>c. tc_tenantId c = id_tenantId identity \<and> sameUuid (tc_publicId c) publicId \<and> tc_deletedAt c = None
           \<and> (includeClosed \<or> tc_status c \<noteq> CARD_VOID) \<and> (canViewTeam identity \<or> tc_userId c = id_sub identity)) (timeCards d))) (\<lambda>found.
       bindT (requireT found cardNotFound) (\<lambda>c.
       loadView c)))"

text \<open>\<open>new Date('9999-12-31T23:59:59.999Z')\<close>.\<close>

definition endOfTime :: instant where "endOfTime = 253402300799999"

definition cardOverlaps :: "string \<Rightarrow> string \<Rightarrow> string \<Rightarrow> instant \<Rightarrow> instant option \<Rightarrow> timeCard \<Rightarrow> bool" where
  "cardOverlaps tenantId userId timeCardId clockInAt clockOutAt c \<longleftrightarrow> tc_tenantId c = tenantId \<and> tc_userId c = userId \<and> tc_id c \<noteq> timeCardId
     \<and> tc_deletedAt c = None \<and> tc_status c \<noteq> CARD_VOID \<and> tc_clockInAt c < (case clockOutAt of None \<Rightarrow> endOfTime | Some t \<Rightarrow> t)
     \<and> (case tc_clockOutAt c of None \<Rightarrow> True | Some t \<Rightarrow> clockInAt < t)"

definition assertNoOverlap :: "string \<Rightarrow> string \<Rightarrow> string \<Rightarrow> instant \<Rightarrow> instant option \<Rightarrow> unit tx" where
  "assertNoOverlap tenantId userId timeCardId clockInAt clockOutAt =
     (bindT (getT (\<lambda>d. list_ex (cardOverlaps tenantId userId timeCardId clockInAt clockOutAt) (timeCards d))) (\<lambda>overlap.
       checkT (\<not> overlap) (Problem 409 ''time_card_overlap'')))"

text \<open>The keys of the table: identifiers, the operation of the clock-in, and one open card per employee.\<close>

definition openFor :: "string \<Rightarrow> string \<Rightarrow> timeCard \<Rightarrow> bool" where
  "openFor tenantId userId c \<longleftrightarrow> tc_tenantId c = tenantId \<and> tc_userId c = userId \<and> tc_status c = CARD_OPEN \<and> tc_deletedAt c = None"

definition cardClash :: "timeCard \<Rightarrow> timeCard \<Rightarrow> bool" where
  "cardClash a b \<longleftrightarrow> tc_id a = tc_id b \<or> tc_publicId a = tc_publicId b
     \<or> tc_clockInOperationId a \<noteq> None \<and> tc_clockInOperationId a = tc_clockInOperationId b
     \<or> openFor (tc_tenantId a) (tc_userId a) a \<and> openFor (tc_tenantId a) (tc_userId a) b"

definition breakTable :: "timeCardBreak table" where "breakTable = (timeCardBreaks, timeCardBreaks_update)"

definition breakClash :: "timeCardBreak \<Rightarrow> timeCardBreak \<Rightarrow> bool" where
  "breakClash a b \<longleftrightarrow> tb_id a = tb_id b \<or> tb_publicId a = tb_publicId b"

text \<open>\<open>transaction.auditLog.create\<close> of the time-card commands.\<close>

definition writeCardAudit :: "env \<Rightarrow> sessionIdentity \<Rightarrow> string \<Rightarrow> string \<Rightarrow> json option \<Rightarrow> json option \<Rightarrow> unit tx" where
  "writeCardAudit E identity action resourceId oldValue newValue = writePayrollAudit E identity action ''TimeCard'' resourceId oldValue newValue"


section \<open>Reads\<close>

definition cardJson :: "env \<Rightarrow> cardView \<Rightarrow> json tx" where
  "cardJson E v = bindT (nowT E) (\<lambda>now. liftT (serializeTimeCard v now))"

definition newestFirst :: "timeCard \<Rightarrow> timeCard \<Rightarrow> bool" where
  "newestFirst a b \<longleftrightarrow> tc_clockInAt b < tc_clockInAt a \<or> tc_clockInAt a = tc_clockInAt b \<and> tc_publicId b \<le> tc_publicId a"

definition activeCards :: "string \<Rightarrow> string \<Rightarrow> database \<Rightarrow> timeCard list" where
  "activeCards tenantId publicUserId d = findMany (\<lambda>c. tc_tenantId c = tenantId \<and> tc_deletedAt c = None \<and> tc_status c = CARD_OPEN
     \<and> list_ex (\<lambda>u. us_id u = tc_userId c \<and> us_tenantId u = tenantId \<and> sameUuid (us_publicId u) publicUserId) (users d)) newestFirst (timeCards d)"

definition active :: "env \<Rightarrow> sessionIdentity \<Rightarrow> string option \<Rightarrow> json tx" where
  "active E requester queryUserId =
     (let identity = mutationIdentity requester in
       bindT (prepareCurrentMutation E identity ''time_cards:read'') (\<lambda>scope.
       runTimeScope E identity ''time_cards:read'' scope (returnT None) (\<lambda>identity cur _.
         (thenT (checkT (\<not> (\<not> canViewTeam identity \<and> (case queryUserId of None \<Rightarrow> False | Some u \<Rightarrow> u \<noteq> [] \<and> u \<noteq> id_publicUserId identity)))
               (Problem 403 ''time_card_scope_denied'')) (
           bindT (getT (activeCards (id_tenantId identity) (case queryUserId of None \<Rightarrow> id_publicUserId identity | Some u \<Rightarrow> u))) (\<lambda>rows.
           bindT ((case rows of [] \<Rightarrow> returnT None | c # _ \<Rightarrow> bindT (loadView c) (\<lambda>v. returnT (Some v)))) (\<lambda>row.
           thenT cur (
           bindT ((case row of None \<Rightarrow> returnT JNull | Some v \<Rightarrow> cardJson E v)) (\<lambda>data.
           returnT (JObj [(''data'', data)]))))))))))"

definition getTimeCard :: "env \<Rightarrow> sessionIdentity \<Rightarrow> string \<Rightarrow> json tx" where
  "getTimeCard E requester timeCardPublicId =
     (let identity = mutationIdentity requester in
       bindT (prepareCurrentMutation E identity ''time_cards:read'') (\<lambda>scope.
       runTimeScope E identity ''time_cards:read'' scope (returnT None) (\<lambda>identity cur _.
         (bindT (assertFeatureEntitled E (id_tenantId identity) Time_cards False) (\<lambda>_.
           thenT cur (
           bindT (findScopedTimeCard identity timeCardPublicId True) (\<lambda>view.
           thenT cur (
           cardJson E view))))))))"

text \<open>\<open>list\<close>, from the decoded cursor on: the filters, the keyset condition and one row more than the limit.\<close>

record listQuery =
  lq_userId :: "string option"
  lq_locationId :: "string option"
  lq_startDate :: "instant option"
  lq_endDate :: "instant option"
  lq_limit :: nat

definition listed :: "string \<Rightarrow> string option \<Rightarrow> listQuery \<Rightarrow> database \<Rightarrow> timeCard \<Rightarrow> bool" where
  "listed tenantId publicUserId q d c \<longleftrightarrow> tc_tenantId c = tenantId \<and> tc_deletedAt c = None
     \<and> (case publicUserId of None \<Rightarrow> True | Some u \<Rightarrow> u = []
          \<or> list_ex (\<lambda>r. us_id r = tc_userId c \<and> us_tenantId r = tenantId \<and> sameUuid (us_publicId r) u) (users d))
     \<and> (case lq_locationId q of None \<Rightarrow> True | Some l \<Rightarrow> l = []
          \<or> list_ex (\<lambda>r. Some (lo_id r) = tc_locationId c \<and> lo_tenantId r = tenantId \<and> sameUuid (lo_publicId r) l \<and> lo_deletedAt r = None) (locations d))
     \<and> (case lq_startDate q of None \<Rightarrow> True | Some t \<Rightarrow> t \<le> tc_clockInAt c) \<and> (case lq_endDate q of None \<Rightarrow> True | Some t \<Rightarrow> tc_clockInAt c < t)"

definition afterCursor :: "(instant \<times> string) option \<Rightarrow> timeCard \<Rightarrow> bool" where
  "afterCursor cursor c = (case cursor of None \<Rightarrow> True
     | Some (clockInAt, publicId) \<Rightarrow> tc_clockInAt c < clockInAt \<or> tc_clockInAt c = clockInAt \<and> tc_publicId c < publicId)"

definition listRows :: "string \<Rightarrow> string option \<Rightarrow> listQuery \<Rightarrow> (instant \<times> string) option \<Rightarrow> database \<Rightarrow> timeCard list" where
  "listRows tenantId publicUserId q cursor d = take (lq_limit q + 1)
     (findMany (\<lambda>c. listed tenantId publicUserId q d c \<and> afterCursor cursor c) newestFirst (timeCards d))"

definition cursorOf :: "timeCard \<Rightarrow> instant \<times> string" where "cursorOf c = (tc_clockInAt c, tc_publicId c)"

text \<open>A page and the cursor of the next one.\<close>

definition listPage :: "string \<Rightarrow> string option \<Rightarrow> listQuery \<Rightarrow> (instant \<times> string) option \<Rightarrow> database \<Rightarrow> timeCard list \<times> (instant \<times> string) option" where
  "listPage tenantId publicUserId q cursor d =
     (let rows = listRows tenantId publicUserId q cursor d; page = take (lq_limit q) rows; hasMore = lq_limit q < length rows
      in (page, if hasMore \<and> page \<noteq> [] then Some (cursorOf (last page)) else None))"

definition listUser :: "sessionIdentity \<Rightarrow> listQuery \<Rightarrow> string option" where
  "listUser identity q = (case lq_userId q of Some u \<Rightarrow> Some u | None \<Rightarrow> if canViewTeam identity then None else Some (id_publicUserId identity))"

definition listBody :: "env \<Rightarrow> listQuery \<Rightarrow> (instant \<times> string) option \<Rightarrow> sessionIdentity \<Rightarrow> unit tx \<Rightarrow> (json list \<times> (instant \<times> string) option) tx" where
  "listBody E q cursor identity cur =
     (bindT (assertFeatureEntitled E (id_tenantId identity) Time_cards False) (\<lambda>_.
       thenT cur (
       thenT (checkT (\<not> (\<not> canViewTeam identity \<and> (case lq_userId q of None \<Rightarrow> False | Some u \<Rightarrow> u \<noteq> [] \<and> u \<noteq> id_publicUserId identity)))
         (Problem 403 ''time_card_scope_denied'')) (
       bindT (getT (listPage (id_tenantId identity) (listUser identity q) q cursor)) (\<lambda>found.
       bindT (mapT loadView (fst found)) (\<lambda>views.
       thenT cur (
       bindT (mapT (cardJson E) views) (\<lambda>data.
       returnT (data, snd found)))))))))"

section \<open>Clocking in\<close>

record clockInRequest =
  ci_userId :: "string option"
  ci_locationId :: "string option"
  ci_shiftId :: "string option"
  ci_clockInAt :: "string option"
  ci_notes :: "string option"

definition operationId :: "env \<Rightarrow> string \<Rightarrow> string \<Rightarrow> string" where
  "operationId E tenantId idempotencyKey = e_sha E (tenantId @ '':'' @ idempotencyKey)"

definition clockInRequestHash :: "env \<Rightarrow> string \<Rightarrow> string \<Rightarrow> string option \<Rightarrow> string option \<Rightarrow> instant option \<Rightarrow> string option \<Rightarrow> string" where
  "clockInRequestHash E actorUserId targetUserId locationId shiftId clockInAt notes = e_sha E (stringify (JObj
     [(''actorUserId'', JStr actorUserId), (''targetUserId'', JStr targetUserId), (''locationId'', nullable JStr locationId),
      (''shiftId'', nullable JStr shiftId), (''clockInAt'', nullable jInstant clockInAt), (''notes'', nullable JStr notes)]))"

definition normalizeClockInIdempotencyKey :: "string option \<Rightarrow> string result" where
  "normalizeClockInIdempotencyKey v =
     (let key = (case v of None \<Rightarrow> [] | Some s \<Rightarrow> trim s)
      in bindR (checkR (key \<noteq> []) (Problem 428 ''idempotency_key_required'')) (\<lambda>_.
         bindR (checkR (\<not> (255 < length key \<or> list_ex isControl key)) (Problem 422 ''invalid_idempotency_key'')) (\<lambda>_. ok key)))"

definition assertRequestScope :: "sessionIdentity \<Rightarrow> clockInRequest \<Rightarrow> unit result" where
  "assertRequestScope current body =
     bindR (writableTargetPublicId current (ci_userId body)) (\<lambda>_.
       checkR (\<not> (\<not> canViewTeam current \<and> ci_clockInAt body \<noteq> None)) (Problem 403 ''manual_clock_time_denied''))"

definition locateTarget :: "sessionIdentity \<Rightarrow> clockInRequest \<Rightarrow> string option tx" where
  "locateTarget identity body =
     (case ci_userId body of
        None \<Rightarrow> returnT (Some (id_sub identity))
      | Some u \<Rightarrow>
          if u = [] then returnT (Some (id_sub identity))
          else getT (\<lambda>d. map_option us_id (find (\<lambda>r. us_tenantId r = id_tenantId identity \<and> sameUuid (us_publicId r) u) (users d))))"

definition chosenLocation :: "string \<Rightarrow> clockInRequest \<Rightarrow> shift option \<Rightarrow> location option tx" where
  "chosenLocation tenantId body sh =
     (if ci_locationId body \<noteq> None \<and> ci_locationId body \<noteq> Some [] then resolveOptional (resolveLocation tenantId) (ci_locationId body)
      else (case sh of None \<Rightarrow> returnT None
        | Some s \<Rightarrow> bindT (resolveLocationByInternalId tenantId (sh_locationId s)) (\<lambda>l. returnT (Some l))))"

definition clockedInCard :: "string \<Rightarrow> string \<Rightarrow> string \<Rightarrow> string \<Rightarrow> location option \<Rightarrow> shift option \<Rightarrow> string \<Rightarrow> string \<Rightarrow> instant \<Rightarrow>
    payrollAssignment \<Rightarrow> string option \<Rightarrow> instant \<Rightarrow> instant \<Rightarrow> timeCard" where
  "clockedInCard newId publicId tenantId userId place sh operation requestHash clockInAt payroll notes createdAt updatedAt =
     \<lparr> tc_id = newId, tc_publicId = publicId, tc_tenantId = tenantId, tc_userId = userId, tc_locationId = map_option lo_id place,
       tc_shiftId = map_option sh_id sh, tc_clockInOperationId = Some operation, tc_clockInRequestHash = Some requestHash,
       tc_clockInAt = clockInAt, tc_clockOutAt = None, tc_payrollPeriodId = pa_payrollPeriodId payroll,
       tc_workTimeZone = pa_workTimeZone payroll, tc_revision = 1, tc_breakMinutes = 0, tc_notes = notes, tc_status = CARD_OPEN,
       tc_createdAt = createdAt, tc_updatedAt = updatedAt, tc_deletedAt = None \<rparr>"

definition clockInJson :: "json \<Rightarrow> bool \<Rightarrow> json" where
  "clockInJson data reused = JObj [(''data'', data), (''reused'', JBool reused)]"

text \<open>The new card, from the active target on.\<close>

definition clockInCreate :: "env \<Rightarrow> sessionIdentity \<Rightarrow> clockInRequest \<Rightarrow> string \<Rightarrow> string \<Rightarrow> string \<Rightarrow> instant option \<Rightarrow> string option \<Rightarrow> unit tx \<Rightarrow> json tx" where
  "clockInCreate E identity body targetPublicId operation requestHash requestedClockInAt notes cur =
     (let tenantId = id_tenantId identity in
       bindT (readActiveClockInTarget tenantId targetPublicId) (\<lambda>target.
       thenT cur (
       bindT (resolveOptional (\<lambda>s. resolveShift tenantId s (us_id target)) (ci_shiftId body)) (\<lambda>sh.
       thenT cur (
       bindT (chosenLocation tenantId body sh) (\<lambda>place.
       thenT cur (
       thenT (checkT (case (sh, place) of (Some s, Some l) \<Rightarrow> lo_id l = sh_locationId s | _ \<Rightarrow> True) invalidTimeCardInput) (
       bindT (assertFeatureEntitled E tenantId Time_cards True) (\<lambda>allowed.
       thenT cur (
       bindT (requireT allowed (Problem 403 ''time_cards_not_entitled'')) (\<lambda>entitlement.
       bindT (getT (\<lambda>d. find (openFor tenantId (us_id target)) (timeCards d))) (\<lambda>openCard.
       thenT cur (
       thenT (checkT (openCard = None) invalidTimeCardInput) (
       bindT ((case requestedClockInAt of Some t \<Rightarrow> returnT t | None \<Rightarrow> nowT E)) (\<lambda>clockInAt.
       bindT (resolveTimeCardPayrollAssignment E tenantId clockInAt
         (map_option (\<lambda>l. \<lparr> pl_id = lo_id l, pl_timezone = lo_timezone l \<rparr>) place) cur) (\<lambda>payroll.
       thenT cur (
       bindT (uuidT E) (\<lambda>newId.
       bindT (uuidT E) (\<lambda>publicId.
       bindT (nowT E) (\<lambda>createdAt.
       bindT (nowT E) (\<lambda>updatedAt.
       let created = clockedInCard newId publicId tenantId (us_id target) place sh operation requestHash clockInAt payroll notes createdAt updatedAt in
       thenT (createT cardTable cardClash created) (
       bindT (loadView created) (\<lambda>view.
       thenT cur (
       bindT (debitFeatureCredit cur tenantId entitlement operation (''Time card clock-in ('' @ newId @ '')'') None) (\<lambda>_.
       thenT cur (
       thenT (writeCardAudit E identity ''TIME_CARD_CLOCKED_IN'' newId None (Some (JObj (timeCardAuditValue view)))) (
       thenT cur (
       bindT (cardJson E view) (\<lambda>data.
       returnT (clockInJson data False))))))))))))))))))))))))))))))"

definition clockInBody :: "env \<Rightarrow> clockInRequest \<Rightarrow> string \<Rightarrow> instant option \<Rightarrow> string option \<Rightarrow> sessionIdentity \<Rightarrow> unit tx \<Rightarrow> string option \<Rightarrow> json tx" where
  "clockInBody E body operation requestedClockInAt notes identity cur targetUserId =
     (let tenantId = id_tenantId identity in
       thenT (liftT (assertRequestScope identity body)) (
       bindT (liftT (writableTargetPublicId identity (ci_userId body))) (\<lambda>targetPublicId.
       bindT (resolveClockInTargetForReplay tenantId targetPublicId) (\<lambda>requestedTarget.
       thenT cur (
       thenT (checkT (Some (us_id requestedTarget) = targetUserId) (Problem 409 ''time_card_target_changed'')) (
       bindT (resolveOptional (resolveLocationForReplay tenantId) (ci_locationId body)) (\<lambda>requestedLocation.
       thenT cur (
       bindT (resolveOptional (resolveShiftForReplay tenantId) (ci_shiftId body)) (\<lambda>requestedShift.
       thenT cur (
       let requestHash = clockInRequestHash E (id_sub identity) (us_id requestedTarget) (map_option lo_id requestedLocation)
         (map_option sh_id requestedShift) requestedClockInAt notes in
       thenT (setLocalT (Some requestHash)) (
       bindT (findClockInReplay tenantId operation requestHash) (\<lambda>replay.
       thenT cur (
       case replay of
         Some view \<Rightarrow> (bindT (cardJson E view) (\<lambda>data.
           returnT (clockInJson data True)))
       | None \<Rightarrow> clockInCreate E identity body targetPublicId operation requestHash requestedClockInAt notes cur)))))))))))))"

definition FINAL_CLOCK_IN_CODES :: "string list" where
  "FINAL_CLOCK_IN_CODES = [''permission_denied'', ''pin_rotation_required'', ''mfa_verification_required'',
     ''time_card_scope_denied'', ''manual_clock_time_denied'']"

fun finalClockInError :: "failure \<Rightarrow> bool" where
  "finalClockInError (Problem s code) = (code \<in> set FINAL_CLOCK_IN_CODES)"
| "finalClockInError _ = False"

definition recoverClockIn :: "env \<Rightarrow> clockInRequest \<Rightarrow> string \<Rightarrow> sessionIdentity \<Rightarrow> unit tx \<Rightarrow> json option tx" where
  "recoverClockIn E body operation current cur =
     (thenT (liftT (assertRequestScope current body)) (
       bindT (getT (\<lambda>d. find (\<lambda>c. tc_clockInOperationId c = Some operation) (timeCards d))) (\<lambda>row.
       thenT cur (
       bindT localT (\<lambda>expected.
       case row of
         None \<Rightarrow> returnT None
       | Some c \<Rightarrow>
           if tc_tenantId c \<noteq> id_tenantId current \<or> expected = None \<or> expected = Some [] then returnT None
           else (thenT (checkT (tc_clockInRequestHash c = expected) idempotencyConflict) (
             bindT (loadView c) (\<lambda>view.
             bindT (cardJson E view) (\<lambda>data.
             returnT (Some (clockInJson data True)))))))))))"

definition clockIn :: "env \<Rightarrow> sessionIdentity \<Rightarrow> clockInRequest \<Rightarrow> string option \<Rightarrow> json tx" where
  "clockIn E requester body idempotencyKeyValue =
     (let identity = mutationIdentity requester in
       bindT (liftT (normalizeClockInIdempotencyKey idempotencyKeyValue)) (\<lambda>idempotencyKey.
       let operation = operationId E (id_tenantId identity) idempotencyKey in
       bindT (liftT (case ci_clockInAt body of None \<Rightarrow> ok None | Some s \<Rightarrow> bindR (parseTimeCardInstant s) (\<lambda>t. ok (Some t)))) (\<lambda>requestedClockInAt.
       bindT (liftT (normalizeTimeCardNotes (ci_notes body))) (\<lambda>givenNotes.
       let notes = (case givenNotes of None \<Rightarrow> None | Some n \<Rightarrow> n) in
       thenT (setLocalT None) (
       bindT (prepareCurrentMutation E identity ''time_cards:write'') (\<lambda>scope.
       catchT (runTimeScope E identity ''time_cards:write'' scope (locateTarget identity body)
           (clockInBody E body operation requestedClockInAt notes)) (\<lambda>e.
         if finalClockInError e then throwT e
         else (bindT (runTimeScope E identity ''time_cards:write'' scope (locateTarget identity body)
             (\<lambda>current cur _. recoverClockIn E body operation current cur)) (\<lambda>recovery.
           case recovery of
             Some response \<Rightarrow> returnT response
           | None \<Rightarrow> if isUniqueConflict e then throwT invalidTimeCardInput else throwT e)))))))))"

section \<open>Clocking out\<close>

record clockOutRequest =
  co_clockOutAt :: "string option"
  co_breakMinutes :: "int option"
  co_notes :: "string option"

definition clockOutTarget :: "timeCard \<Rightarrow> string \<Rightarrow> timeCard \<Rightarrow> bool" where
  "clockOutTarget seen tenantId c \<longleftrightarrow> tc_id c = tc_id seen \<and> tc_tenantId c = tenantId \<and> tc_deletedAt c = None
     \<and> tc_status c = CARD_OPEN \<and> tc_clockOutAt c = None \<and> tc_revision c = tc_revision seen"

definition clockedOut :: "instant \<Rightarrow> int \<Rightarrow> string option option \<Rightarrow> instant \<Rightarrow> timeCard \<Rightarrow> timeCard" where
  "clockedOut clockOutAt breakMinutes notes updatedAt c = c \<lparr> tc_clockOutAt := Some clockOutAt, tc_breakMinutes := breakMinutes,
     tc_notes := (case notes of None \<Rightarrow> tc_notes c | Some n \<Rightarrow> n), tc_status := CARD_CLOSED, tc_revision := tc_revision c + 1,
     tc_updatedAt := updatedAt \<rparr>"

definition concurrentCardChange :: failure where "concurrentCardChange = Problem 409 ''concurrent_time_card_change''"

definition clockOutBody :: "env \<Rightarrow> string \<Rightarrow> clockOutRequest \<Rightarrow> instant option \<Rightarrow> string option option \<Rightarrow> sessionIdentity \<Rightarrow> unit tx \<Rightarrow> json tx" where
  "clockOutBody E timeCardPublicId body requestedClockOutAt notes identity cur =
     (let tenantId = id_tenantId identity in
       thenT (checkT (\<not> (\<not> canViewTeam identity \<and> co_clockOutAt body \<noteq> None)) (Problem 403 ''manual_clock_time_denied'')) (
       bindT (findScopedTimeCard identity timeCardPublicId False) (\<lambda>initial.
       thenT cur (
       bindT (lockTimeCardPayrollContext tenantId [tc_payrollPeriodId (cv_card initial)] cur) (\<lambda>periods.
       bindT (findScopedTimeCard identity timeCardPublicId False) (\<lambda>view.
       let c = cv_card view in
       thenT cur (
       thenT (checkT (tc_status c = CARD_OPEN) invalidTimeCardInput) (
       bindT ((case requestedClockOutAt of Some t \<Rightarrow> returnT t | None \<Rightarrow> nowT E)) (\<lambda>clockOutAt.
       thenT (checkT (\<not> clockOutAt \<le> tc_clockInAt c) invalidTimeCardInput) (
       thenT (liftT (assertClockOutWithinPayrollPeriod (tc_payrollPeriodId c) clockOutAt periods)) (
       let totalMinutes = floorMinutes (clockOutAt - tc_clockInAt c) in
       bindT (liftT (normalizeClockOutBreakMinutes (co_breakMinutes body) totalMinutes)) (\<lambda>breakMinutes.
       thenT cur (
       bindT (nowT E) (\<lambda>updatedAt.
       bindT (updateManyT cardTable (clockOutTarget c tenantId) (clockedOut clockOutAt breakMinutes notes updatedAt)) (\<lambda>updated.
       thenT cur (
       thenT (checkT (updated = 1) concurrentCardChange) (
       bindT (findScopedTimeCard identity timeCardPublicId True) (\<lambda>after.
       thenT cur (
       thenT (writeCardAudit E identity ''TIME_CARD_CLOCKED_OUT'' (tc_id (cv_card after)) (Some (JObj (timeCardAuditValue view)))
         (Some (JObj (timeCardAuditValue after)))) (
       thenT cur (
       cardJson E after)))))))))))))))))))))"

definition clockOut :: "env \<Rightarrow> sessionIdentity \<Rightarrow> string \<Rightarrow> clockOutRequest \<Rightarrow> json tx" where
  "clockOut E requester timeCardPublicId body =
     (let identity = mutationIdentity requester in
       bindT (prepareCurrentMutation E identity ''time_cards:write'') (\<lambda>scope.
       bindT (liftT (case co_clockOutAt body of None \<Rightarrow> ok None | Some s \<Rightarrow> bindR (parseTimeCardInstant s) (\<lambda>t. ok (Some t)))) (\<lambda>requestedClockOutAt.
       bindT (liftT (normalizeTimeCardNotes (co_notes body))) (\<lambda>notes.
       runTimeScope E identity ''time_cards:write'' scope (returnT None) (\<lambda>current cur _.
         clockOutBody E timeCardPublicId body requestedClockOutAt notes current cur)))))"

section \<open>Corrections\<close>

definition correctTarget :: "timeCard \<Rightarrow> string \<Rightarrow> instant \<Rightarrow> timeCard \<Rightarrow> bool" where
  "correctTarget seen tenantId expectedUpdatedAt c \<longleftrightarrow> tc_id c = tc_id seen \<and> tc_tenantId c = tenantId \<and> tc_deletedAt c = None
     \<and> tc_updatedAt c = expectedUpdatedAt \<and> tc_revision c = tc_revision seen"

definition corrected :: "correction \<Rightarrow> payrollAssignment \<Rightarrow> instant \<Rightarrow> timeCard \<Rightarrow> timeCard" where
  "corrected cn assignment updatedAt c = c \<lparr> tc_clockInAt := cn_clockInAt cn, tc_clockOutAt := cn_clockOutAt cn,
     tc_breakMinutes := cn_breakMinutes cn, tc_status := cn_status cn, tc_payrollPeriodId := pa_payrollPeriodId assignment,
     tc_workTimeZone := pa_workTimeZone assignment, tc_revision := tc_revision c + 1, tc_updatedAt := updatedAt \<rparr>"

definition breakRow :: "env \<Rightarrow> string \<Rightarrow> string \<Rightarrow> interval \<Rightarrow> timeCardBreak tx" where
  "breakRow E tenantId cardId iv =
     (bindT (uuidT E) (\<lambda>newId.
       bindT (uuidT E) (\<lambda>publicId.
       returnT \<lparr> tb_id = newId, tb_publicId = publicId, tb_tenantId = tenantId, tb_timeCardId = cardId, tb_startAt = fst iv, tb_endAt = snd iv \<rparr>)))"

definition replaceBreaks :: "env \<Rightarrow> string \<Rightarrow> string \<Rightarrow> interval list option \<Rightarrow> unit tx \<Rightarrow> unit tx" where
  "replaceBreaks E tenantId cardId breakIntervals cur =
     (case breakIntervals of
        None \<Rightarrow> returnT ()
      | Some intervals \<Rightarrow> (thenT cur (
        thenT (deleteManyT breakTable (\<lambda>b. tb_tenantId b = tenantId \<and> tb_timeCardId b = cardId)) (
        thenT cur (
        if intervals = [] then returnT ()
          else (thenT cur (
            bindT (mapT (breakRow E tenantId cardId) intervals) (\<lambda>rows.
            thenT (createManyT breakTable breakClash rows) (
            cur)))))))))"

text \<open>An update that reopens the card of an employee who has another open one violates the index of open cards.\<close>

definition correctBody :: "env \<Rightarrow> string \<Rightarrow> correctionRequest \<Rightarrow> sessionIdentity \<Rightarrow> unit tx \<Rightarrow> json tx" where
  "correctBody E timeCardPublicId body identity cur =
     (let tenantId = id_tenantId identity in
       thenT (checkT (canViewTeam identity) (Problem 403 ''time_card_correction_denied'')) (
       bindT (assertFeatureEntitled E tenantId Time_cards False) (\<lambda>_.
       thenT cur (
       bindT (findScopedTimeCard identity timeCardPublicId True) (\<lambda>initial.
       thenT cur (
       thenT (checkT (tc_status (cv_card initial) \<noteq> CARD_VOID) invalidTimeCardInput) (
       bindT (nowT E) (\<lambda>now.
       bindT (liftT (validateTimeCardCorrection body (cv_card initial) (intervalsOf initial) now)) (\<lambda>cn.
       let place = (case (cv_location initial, tc_locationId (cv_card initial)) of
           (Some l, Some i) \<Rightarrow> if i = [] then None else Some \<lparr> pl_id = i, pl_timezone = tc_workTimeZone (cv_card initial) \<rparr> | _ \<Rightarrow> None) in
       bindT (resolveTimeCardPayrollAssignment E tenantId (cn_clockInAt cn) place cur) (\<lambda>assignment.
       bindT (lockTimeCardPayrollContext tenantId [tc_payrollPeriodId (cv_card initial), pa_payrollPeriodId assignment] cur) (\<lambda>periods.
       bindT (findScopedTimeCard identity timeCardPublicId True) (\<lambda>view.
       let c = cv_card view in
       thenT cur (
       thenT (checkT (tc_status c \<noteq> CARD_VOID) invalidTimeCardInput) (
       thenT (assertNoOverlap tenantId (tc_userId c) (tc_id c) (cn_clockInAt cn) (cn_clockOutAt cn)) (
       thenT cur (
       bindT (nowT E) (\<lambda>updatedAt.
       bindT (updateManyT cardTable (correctTarget c tenantId (cn_expectedUpdatedAt cn)) (corrected cn assignment updatedAt)) (\<lambda>updated.
       bindT (getT (\<lambda>d. cn_status cn = CARD_OPEN \<and> list_ex (\<lambda>other. tc_id other \<noteq> tc_id c \<and> openFor (tc_tenantId c) (tc_userId c) other) (timeCards d))) (\<lambda>secondOpen.
       thenT (checkT (updated = 0 \<or> \<not> secondOpen) (DbError P2002)) (
       thenT cur (
       thenT (checkT (updated = 1) concurrentCardChange) (
       thenT (replaceBreaks E tenantId (tc_id c) (cn_breakIntervals cn) cur) (
       bindT (findScopedTimeCard identity timeCardPublicId True) (\<lambda>after.
       thenT cur (
       thenT (liftT (case (tc_payrollPeriodId (cv_card after), tc_clockOutAt (cv_card after)) of
         (Some i, Some t) \<Rightarrow> assertClockOutWithinPayrollPeriod (Some i) t periods | _ \<Rightarrow> ok ())) (
       thenT cur (
       thenT (writeCardAudit E identity ''TIME_CARD_CORRECTED'' (tc_id (cv_card after)) (Some (JObj (timeCardAuditValue view)))
         (Some (JObj (timeCardAuditValue after @ [(''correctionReason'', JStr (cn_reason cn))])))) (
       thenT cur (
       cardJson E after)))))))))))))))))))))))))))))"

definition isTimeCardOverlap :: "failure \<Rightarrow> bool" where
  "isTimeCardOverlap e = (case e of Problem s code \<Rightarrow> code = ''time_card_overlap'' | DbError (Constraint n) \<Rightarrow> n = ''TimeCard_employee_no_overlap'' | _ \<Rightarrow> False)"

definition correct :: "env \<Rightarrow> sessionIdentity \<Rightarrow> string \<Rightarrow> correctionRequest \<Rightarrow> json tx" where
  "correct E requester timeCardPublicId body =
     (let identity = mutationIdentity requester in
       bindT (prepareCurrentMutation E identity ''time_cards:write'') (\<lambda>scope.
       catchT (runTimeScope E identity ''time_cards:write'' scope (returnT None) (\<lambda>current cur _.
           correctBody E timeCardPublicId body current cur)) (\<lambda>e.
         if isTimeCardOverlap e then throwT (Problem 409 ''time_card_overlap'') else throwT e)))"
end
