(* ===== verification/PayrollAmendments.thy ===== *)
theory PayrollAmendments
  imports PayrollPeriods
begin

text \<open>
  Amendments of locked entries (\<open>payroll/payroll.service.ts\<close>): \<open>createAmendment\<close>, \<open>decideAmendment\<close> and the
  serialized forms of locked entries and amendments.
\<close>

definition amendmentTable :: "amendment table" where "amendmentTable = (amendments, amendments_update)"

definition amendmentClash :: "amendment \<Rightarrow> amendment \<Rightarrow> bool" where
  "amendmentClash a b \<longleftrightarrow> am_id a = am_id b \<or> am_publicId a = am_publicId b \<or> am_operationId a = am_operationId b"

definition amendmentDecisionTable :: "amendmentDecision table" where
  "amendmentDecisionTable = (amendmentDecisions, amendmentDecisions_update)"

definition amendmentDecisionClash :: "amendmentDecision \<Rightarrow> amendmentDecision \<Rightarrow> bool" where
  "amendmentDecisionClash a b \<longleftrightarrow> ad_id a = ad_id b \<or> ad_amendmentId a = ad_amendmentId b \<or> ad_operationId a = ad_operationId b"

section \<open>Serialized evidence\<close>

definition entryListOrder :: "lockedEntryRow \<Rightarrow> lockedEntryRow \<Rightarrow> bool" where
  "entryListOrder = thenCompare (byKey en_sequence) (byKey en_publicId)"

text \<open>\<open>row.locationId ? this.requireMapped(...) : null\<close>.\<close>

definition mappedOrNull :: "(string \<rightharpoonup> string) \<Rightarrow> string option \<Rightarrow> string option result" where
  "mappedOrNull refs v = (case v of None \<Rightarrow> ok None | Some s \<Rightarrow> if s = [] then ok None else bindR (requireMapped refs s) (\<lambda>x. ok (Some x)))"

definition sourcesOf :: "sourceType \<Rightarrow> ('r \<Rightarrow> sourceType) \<Rightarrow> ('r \<Rightarrow> string) \<Rightarrow> 'r list \<Rightarrow> string option list" where
  "sourcesOf t typeOf sourceOf rows = map (\<lambda>r. Some (sourceOf r)) (filter (\<lambda>r. typeOf r = t) rows)"

definition mappedSource :: "(string \<rightharpoonup> string) \<Rightarrow> (string \<rightharpoonup> string) \<Rightarrow> sourceType \<Rightarrow> string \<Rightarrow> string result" where
  "mappedSource timeCardRefs amendmentRefs t sourceId =
     (if t = TIME_CARD then requireMapped timeCardRefs sourceId else requireMapped amendmentRefs sourceId)"

definition lockedEntryJson :: "(string \<rightharpoonup> string) \<Rightarrow> (string \<rightharpoonup> string) \<Rightarrow> (string \<rightharpoonup> string) \<Rightarrow> (string \<rightharpoonup> string) \<Rightarrow>
    (string \<rightharpoonup> string) \<Rightarrow> lockedEntryRow \<Rightarrow> json result" where
  "lockedEntryJson userRefs locationRefs timeCardRefs amendmentRefs employeeNames row =
     bindR (mappedSource timeCardRefs amendmentRefs (en_sourceType row) (en_sourceId row)) (\<lambda>sourceId.
     bindR (requireMapped userRefs (en_employeeId row)) (\<lambda>employeeId.
     bindR (mappedOrNull locationRefs (en_locationId row)) (\<lambda>locationId.
     bindR (requireMapped userRefs (en_approvedByUserId row)) (\<lambda>approvedBy.
       ok (JObj [(''id'', JStr (en_publicId row)), (''sequence'', JNum (en_sequence row)),
         (''sourceType'', JStr (sourceTypeText (en_sourceType row))), (''sourceId'', JStr sourceId),
         (''sourceRevision'', JNum (en_sourceRevision row)), (''employeeId'', JStr employeeId),
         (''employeeName'', nullable JStr (employeeNames (en_employeeId row))), (''locationId'', nullable JStr locationId),
         (''workTimeZone'', JStr (en_workTimeZone row)), (''clockInAt'', jInstant (en_clockInAt row)),
         (''clockOutAt'', jInstant (en_clockOutAt row)), (''breakMinutes'', JNum (en_breakMinutes row)),
         (''payableMinutes'', JNum (en_payableMinutes row)), (''approvedAt'', jInstant (en_approvedAt row)),
         (''approvedByUserId'', JStr approvedBy), (''canonicalSha256'', JStr (en_canonicalSha256 row))])))))"

definition serializedLockedEntries :: "unit tx \<Rightarrow> string \<Rightarrow> string \<Rightarrow> json list tx" where
  "serializedLockedEntries cur tenantId periodId =
     (bindT (getT (\<lambda>d. take 5001 (findMany (\<lambda>e. en_tenantId e = tenantId \<and> en_periodId e = periodId) entryListOrder (lockedEntries d)))) (\<lambda>found.
       thenT cur (
       thenT (checkT (length found \<le> 5000) (Problem 503 ''payroll_entry_limit_invalid'')) (
       bindT (publicUsers cur tenantId (concat (map (\<lambda>e. [Some (en_employeeId e), Some (en_approvedByUserId e)]) found))) (\<lambda>userRefs.
       bindT (publicLocations cur tenantId (map en_locationId found)) (\<lambda>locationRefs.
       bindT (publicTimeCards cur tenantId (sourcesOf TIME_CARD en_sourceType en_sourceId found)) (\<lambda>timeCardRefs.
       bindT (publicAmendments cur tenantId (sourcesOf AMENDMENT en_sourceType en_sourceId found)) (\<lambda>amendmentRefs.
       thenT cur (
       bindT (getT (\<lambda>d. filter (\<lambda>u. us_tenantId u = tenantId \<and> us_id u \<in> en_employeeId ` set found) (users d))) (\<lambda>employees.
       thenT cur (
       let employeeNames = jsMap (map (\<lambda>u. (us_id u, us_name u)) employees) in
       liftT (mapR (lockedEntryJson userRefs locationRefs timeCardRefs amendmentRefs employeeNames) found))))))))))))"

definition amendmentListOrder :: "amendment \<Rightarrow> amendment \<Rightarrow> bool" where
  "amendmentListOrder = thenCompare (byKey am_createdAt) (byKey am_publicId)"

definition amendmentJson :: "(string \<rightharpoonup> lockedEntryRow) \<Rightarrow> (string \<rightharpoonup> amendmentDecision) \<Rightarrow> (string \<rightharpoonup> string) \<Rightarrow> (string \<rightharpoonup> string) \<Rightarrow>
    amendment \<Rightarrow> json result" where
  "amendmentJson sourceById decisionByAmendment periodRefs userRefs row =
     (case sourceById (am_lockedEntryId row) of
        None \<Rightarrow> err integrityFailed
      | Some source \<Rightarrow>
          bindR (requireMapped userRefs (en_employeeId source)) (\<lambda>employeeId.
          bindR (requireMapped periodRefs (am_adjustmentPeriodId row)) (\<lambda>adjustmentPeriodId.
          bindR (requireMapped userRefs (am_requestedByUserId row)) (\<lambda>requestedBy.
          bindR (case decisionByAmendment (am_id row) of
              None \<Rightarrow> ok JNull
            | Some x \<Rightarrow> bindR (requireMapped userRefs (ad_decidedByUserId x)) (\<lambda>decidedBy.
                ok (JObj [(''decision'', JStr (decisionText (ad_decision x))), (''reason'', nullable JStr (ad_reason x)),
                  (''decidedByUserId'', JStr decidedBy), (''decidedAt'', jInstant (ad_decidedAt x))]))) (\<lambda>decisionValue.
            ok (JObj [(''id'', JStr (am_publicId row)), (''lockedEntryId'', JStr (en_publicId source)),
              (''sourceEmployeeId'', JStr employeeId), (''adjustmentPeriodId'', JStr adjustmentPeriodId),
              (''requestedByUserId'', JStr requestedBy), (''reason'', JStr (am_reason row)),
              (''replacementClockInAt'', jInstant (am_replacementClockInAt row)),
              (''replacementClockOutAt'', jInstant (am_replacementClockOutAt row)),
              (''replacementBreakMinutes'', JNum (am_replacementBreakMinutes row)),
              (''replacementPayableMinutes'', JNum (am_replacementPayableMinutes row)),
              (''minuteDelta'', JNum (am_minuteDelta row)), (''createdAt'', jInstant (am_createdAt row)),
              (''decision'', decisionValue)]))))))"

definition serializedAmendments :: "unit tx \<Rightarrow> string \<Rightarrow> string \<Rightarrow> periodStatus \<Rightarrow> json list tx" where
  "serializedAmendments cur tenantId periodId status =
     (bindT (getT (\<lambda>d. if status = PERIOD_LOCKED
           then map en_id (take 5001 (filter (\<lambda>e. en_tenantId e = tenantId \<and> en_periodId e = periodId) (lockedEntries d))) else [])) (\<lambda>lockedEntryIds.
       thenT cur (
       bindT (getT (\<lambda>d. take 5001 (findMany (\<lambda>a. am_tenantId a = tenantId \<and> (am_adjustmentPeriodId a = periodId
         \<or> status = PERIOD_LOCKED \<and> am_lockedEntryId a \<in> set lockedEntryIds)) amendmentListOrder (amendments d)))) (\<lambda>found.
       thenT cur (
       thenT (checkT (length found \<le> 5000) (Problem 503 ''payroll_amendment_limit_invalid'')) (
       bindT (getT (\<lambda>d. filter (\<lambda>x. ad_tenantId x = tenantId \<and> ad_amendmentId x \<in> am_id ` set found) (amendmentDecisions d))) (\<lambda>decisions.
       thenT cur (
       bindT (getT (\<lambda>d. filter (\<lambda>e. en_tenantId e = tenantId \<and> en_id e \<in> am_lockedEntryId ` set found) (lockedEntries d))) (\<lambda>sources.
       thenT cur (
       bindT (publicPeriods cur tenantId (map (\<lambda>a. Some (am_adjustmentPeriodId a)) found)) (\<lambda>periodRefs.
       bindT (publicUsers cur tenantId (map (\<lambda>a. Some (am_requestedByUserId a)) found
         @ map (\<lambda>x. Some (ad_decidedByUserId x)) decisions @ map (\<lambda>e. Some (en_employeeId e)) sources)) (\<lambda>userRefs.
       thenT cur (
       let sourceById = jsMap (map (\<lambda>e. (en_id e, e)) sources) in
       let decisionByAmendment = jsMap (map (\<lambda>x. (ad_amendmentId x, x)) decisions) in
       liftT (mapR (amendmentJson sourceById decisionByAmendment periodRefs userRefs) found))))))))))))))"

definition serializeAmendment :: "string \<Rightarrow> amendment \<Rightarrow> json tx" where
  "serializeAmendment tenantId row =
     (bindT (requirePeriodById tenantId (am_adjustmentPeriodId row)) (\<lambda>adjustmentPeriod.
       bindT (serializedAmendments noCheck tenantId (pp_id adjustmentPeriod) (pp_status adjustmentPeriod)) (\<lambda>serialized.
       requireT (find (\<lambda>j. member ''id'' j = JStr (am_publicId row)) serialized) integrityFailed)))"

section \<open>Requesting an amendment\<close>

record amendmentRequest =
  ar_adjustmentPeriodId :: string
  ar_reason :: string
  ar_replacementClockInAt :: string
  ar_replacementClockOutAt :: string
  ar_replacementBreakMinutes :: int

record replacement =
  rm_clockInAt :: instant
  rm_clockOutAt :: instant
  rm_breakMinutes :: int
  rm_payableMinutes :: int

definition createAmendmentBody :: "env \<Rightarrow> sessionIdentity \<Rightarrow> string \<Rightarrow> string \<Rightarrow> string \<Rightarrow> replacement \<Rightarrow> requestIdentity \<Rightarrow> unit tx \<Rightarrow> json tx" where
  "createAmendmentBody E identity entryId adjustmentPeriodId reason new request cur =
     (let tenantId = id_tenantId identity in
       bindT (getT (\<lambda>d. find (\<lambda>a. am_operationId a = rq_operationId request) (amendments d))) (\<lambda>replay.
       case replay of
         Some row \<Rightarrow> (thenT (checkT (am_tenantId row = tenantId \<and> am_requestHash row = rq_requestHash request) idempotencyConflict) (
           serializeAmendment tenantId row))
       | None \<Rightarrow> (bindT (getT (\<lambda>d. find (\<lambda>e. en_id e = entryId \<and> en_tenantId e = tenantId) (lockedEntries d))) (\<lambda>found.
         bindT (requirePeriodById tenantId adjustmentPeriodId) (\<lambda>adjustmentPeriod.
         bindT (requireT found (Problem 404 ''payroll_locked_entry_not_found'')) (\<lambda>entry.
         thenT (checkT (en_sourceType entry = TIME_CARD) (Problem 422 ''payroll_amendment_source_invalid'')) (
         thenT (checkT (en_employeeId entry \<noteq> id_sub identity) (Problem 409 ''payroll_self_amendment_denied'')) (
         thenT (checkT (pp_status adjustmentPeriod = PERIOD_OPEN) (Problem 409 ''payroll_adjustment_period_invalid'')) (
         bindT (requirePeriodById tenantId (en_periodId entry)) (\<lambda>sourcePeriod.
         thenT (checkT (\<not> pp_startsAt adjustmentPeriod < pp_endsAt sourcePeriod) (Problem 409 ''payroll_adjustment_period_order_invalid'')) (
         let minuteDelta = rm_payableMinutes new - en_payableMinutes entry in
         thenT (checkT (isSafeInteger minuteDelta) (Problem 422 ''payroll_amendment_delta_invalid'')) (
         thenT cur (
         bindT (uuidT E) (\<lambda>newId.
         bindT (uuidT E) (\<lambda>publicId.
         bindT (nowT E) (\<lambda>createdAt.
         let created = \<lparr> am_id = newId, am_publicId = publicId, am_tenantId = tenantId, am_lockedEntryId = en_id entry,
             am_adjustmentPeriodId = pp_id adjustmentPeriod, am_operationId = rq_operationId request,
             am_requestHash = rq_requestHash request, am_requestedByUserId = id_sub identity, am_reason = reason,
             am_replacementClockInAt = rm_clockInAt new, am_replacementClockOutAt = rm_clockOutAt new,
             am_replacementBreakMinutes = rm_breakMinutes new, am_replacementPayableMinutes = rm_payableMinutes new,
             am_minuteDelta = minuteDelta, am_createdAt = createdAt \<rparr> in
         thenT (createT amendmentTable amendmentClash created) (
         thenT cur (
         bindT (serializeAmendment tenantId created) (\<lambda>response.
         thenT cur (
         thenT (writePayrollAudit E identity ''PAYROLL_AMENDMENT_REQUESTED'' ''PayrollAmendment'' newId None (Some response)) (
         thenT cur (
         returnT response))))))))))))))))))))))"

definition createAmendment :: "env \<Rightarrow> sessionIdentity \<Rightarrow> string \<Rightarrow> amendmentRequest \<Rightarrow> string option \<Rightarrow> json tx" where
  "createAmendment E requester publicEntryId body key =
     (let identity = mutationIdentity requester in
       bindT (prepareCurrentMutation E identity ''payroll:reconcile'') (\<lambda>scope.
       bindT (resolveLockedEntryId E identity publicEntryId) (\<lambda>entryId.
       bindT (resolvePeriodId E identity (ar_adjustmentPeriodId body)) (\<lambda>adjustmentPeriodId.
       bindT (liftT (parseInstant (ar_replacementClockInAt body) ''replacement_clock_in'')) (\<lambda>clockInAt.
       bindT (liftT (parseInstant (ar_replacementClockOutAt body) ''replacement_clock_out'')) (\<lambda>clockOutAt.
       bindT (liftT (catchR (payrollWorkedMinutes (Some clockInAt) (Some clockOutAt) (ar_replacementBreakMinutes body))
         (Problem 422 ''invalid_payroll_amendment_time''))) (\<lambda>payableMinutes.
       bindT (liftT (normalizeIdempotencyKey key)) (\<lambda>idempotencyKey.
       let reason = trim (ar_reason body) in
       let request = payrollRequestIdentity E (id_tenantId identity) (id_sub identity) AMENDMENT_CREATE idempotencyKey
         (JObj [(''entryId'', JStr entryId), (''adjustmentPeriodId'', JStr adjustmentPeriodId), (''reason'', JStr reason),
           (''replacementClockInAt'', jInstant clockInAt), (''replacementClockOutAt'', jInstant clockOutAt),
           (''replacementBreakMinutes'', JNum (ar_replacementBreakMinutes body))]) in
       mapConflict ''payroll_amendment_conflict''
         (runScope E identity ''payroll:reconcile'' scope (createAmendmentBody E identity entryId adjustmentPeriodId reason
           \<lparr> rm_clockInAt = clockInAt, rm_clockOutAt = clockOutAt, rm_breakMinutes = ar_replacementBreakMinutes body,
              rm_payableMinutes = payableMinutes \<rparr> request))))))))))"

section \<open>Deciding an amendment\<close>

definition amendmentDecisionJson :: "amendment \<Rightarrow> amendmentDecision \<Rightarrow> string \<Rightarrow> json" where
  "amendmentDecisionJson a x publicUserId = JObj
     [(''amendmentId'', JStr (am_publicId a)), (''decision'', JStr (decisionText (ad_decision x))), (''reason'', nullable JStr (ad_reason x)),
      (''decidedByUserId'', JStr publicUserId), (''decidedAt'', jInstant (ad_decidedAt x))]"

definition decideAmendmentBody :: "env \<Rightarrow> sessionIdentity \<Rightarrow> string \<Rightarrow> decision \<Rightarrow> string option \<Rightarrow> requestIdentity \<Rightarrow> unit tx \<Rightarrow> json tx" where
  "decideAmendmentBody E identity amendmentId verdict reason request cur =
     (let tenantId = id_tenantId identity in
       bindT (getT (\<lambda>d. find (\<lambda>x. ad_operationId x = rq_operationId request) (amendmentDecisions d))) (\<lambda>replay.
       case replay of
         Some x \<Rightarrow> (thenT (checkT (ad_tenantId x = tenantId \<and> ad_requestHash x = rq_requestHash request) idempotencyConflict) (
           bindT (getT (\<lambda>d. find (\<lambda>a. am_id a = ad_amendmentId x \<and> am_tenantId a = tenantId) (amendments d))) (\<lambda>found.
           bindT (requireT found integrityFailed) (\<lambda>a.
           returnT (amendmentDecisionJson a x (id_publicUserId identity))))))
       | None \<Rightarrow> (bindT (getT (\<lambda>d. find (\<lambda>a. am_id a = amendmentId \<and> am_tenantId a = tenantId) (amendments d))) (\<lambda>found.
         bindT (requireT found (Problem 404 ''payroll_amendment_not_found'')) (\<lambda>a.
         bindT (requirePeriodById tenantId (am_adjustmentPeriodId a)) (\<lambda>adjustmentPeriod.
         bindT (getT (\<lambda>d. find (\<lambda>e. en_id e = am_lockedEntryId a \<and> en_tenantId e = tenantId) (lockedEntries d))) (\<lambda>sourceRow.
         bindT (requireT sourceRow integrityFailed) (\<lambda>source.
         thenT (checkT (pp_status adjustmentPeriod = PERIOD_REVIEW) (Problem 409 ''payroll_amendment_decision_state_invalid'')) (
         thenT (checkT (\<not> (am_requestedByUserId a = id_sub identity \<or> en_employeeId source = id_sub identity))
             (Problem 409 ''payroll_self_amendment_decision_denied'')) (
         bindT (getT (\<lambda>d. find (\<lambda>x. ad_amendmentId x = am_id a) (amendmentDecisions d))) (\<lambda>existing.
         thenT (checkT (existing = None) (Problem 409 ''payroll_amendment_decision_exists'')) (
         thenT cur (
         bindT (uuidT E) (\<lambda>newId.
         bindT (nowT E) (\<lambda>decidedAt.
         let created = \<lparr> ad_id = newId, ad_tenantId = tenantId, ad_amendmentId = am_id a, ad_decision = verdict, ad_reason = reason,
             ad_operationId = rq_operationId request, ad_requestHash = rq_requestHash request, ad_decidedByUserId = id_sub identity,
             ad_decidedAt = decidedAt \<rparr> in
         thenT (createT amendmentDecisionTable amendmentDecisionClash created) (
         thenT cur (
         let response = amendmentDecisionJson a created (id_publicUserId identity) in
         thenT cur (
         thenT (writePayrollAudit E identity ''PAYROLL_AMENDMENT_DECIDED'' ''PayrollAmendment'' (am_id a) None (Some response)) (
         thenT cur (
         returnT response))))))))))))))))))))"

definition decideAmendment :: "env \<Rightarrow> sessionIdentity \<Rightarrow> string \<Rightarrow> decision \<Rightarrow> string option \<Rightarrow> string option \<Rightarrow> json tx" where
  "decideAmendment E requester publicAmendmentId verdict rawReason key =
     (let identity = mutationIdentity requester in
       bindT (prepareCurrentMutation E identity ''time_cards:approve'') (\<lambda>scope.
       bindT (resolveAmendmentId E identity publicAmendmentId) (\<lambda>amendmentId.
       bindT (liftT (normalizeIdempotencyKey key)) (\<lambda>idempotencyKey.
       let reason = optionalText rawReason in
       let request = payrollRequestIdentity E (id_tenantId identity) (id_sub identity) AMENDMENT_DECISION idempotencyKey
         (JObj [(''amendmentId'', JStr amendmentId), (''decision'', JStr (decisionText verdict)), (''reason'', nullable JStr reason)]) in
       mapConflict ''payroll_amendment_decision_conflict''
         (runScope E identity ''time_cards:approve'' scope (decideAmendmentBody E identity amendmentId verdict reason request))))))"

end
