(* ===== verification/PayrollExports.thy ===== *)
theory PayrollExports
  imports PayrollAmendments
begin

text \<open>
  Exports of locked periods and their reconciliation (\<open>payroll/payroll.service.ts\<close>): \<open>createExport\<close>,
  \<open>downloadExport\<close>, \<open>reconcileExport\<close>, \<open>exportEntitlement\<close>, the verification of stored evidence and the replays.
  A file is the string of its characters.
\<close>

definition exportIntegrityFailed :: failure where "exportIntegrityFailed = Problem 503 ''payroll_export_integrity_failed''"

definition exportNotFound :: failure where "exportNotFound = Problem 404 ''payroll_export_not_found''"

section \<open>Tables\<close>

definition batchTable :: "exportBatch table" where "batchTable = (exportBatches, exportBatches_update)"

definition batchClash :: "exportBatch \<Rightarrow> exportBatch \<Rightarrow> bool" where
  "batchClash a b \<longleftrightarrow> eb_id a = eb_id b \<or> eb_publicId a = eb_publicId b \<or> eb_periodId a = eb_periodId b
     \<or> eb_operationId a = eb_operationId b \<or> eb_creditTransactionId a = eb_creditTransactionId b"

definition lineTable :: "exportLine table" where "lineTable = (exportLines, exportLines_update)"

definition lineClash :: "exportLine \<Rightarrow> exportLine \<Rightarrow> bool" where
  "lineClash a b \<longleftrightarrow> el_id a = el_id b \<or> el_publicId a = el_publicId b
     \<or> el_batchId a = el_batchId b \<and> (el_lineNumber a = el_lineNumber b \<or> el_lockedEntryId a = el_lockedEntryId b)"

definition receiptTable :: "receipt table" where "receiptTable = (receipts, receipts_update)"

definition receiptClash :: "receipt \<Rightarrow> receipt \<Rightarrow> bool" where
  "receiptClash a b \<longleftrightarrow> re_id a = re_id b \<or> re_publicId a = re_publicId b
     \<or> re_tenantId a = re_tenantId b \<and> re_provider a = re_provider b \<and> re_providerEventId a = re_providerEventId b"

definition lineEventTable :: "lineEvent table" where "lineEventTable = (lineEvents, lineEvents_update)"

definition lineEventClash :: "lineEvent \<Rightarrow> lineEvent \<Rightarrow> bool" where
  "lineEventClash a b \<longleftrightarrow> ev_receiptId a = ev_receiptId b \<and> ev_lineId a = ev_lineId b"

definition lineStateTable :: "lineState table" where "lineStateTable = (lineStates, lineStates_update)"

definition lineStateClash :: "lineState \<Rightarrow> lineState \<Rightarrow> bool" where
  "lineStateClash a b \<longleftrightarrow> st_batchId a = st_batchId b \<and> st_lineId a = st_lineId b"

section \<open>Evidence of a stored export\<close>

text \<open>\<open>`feature-usage-payroll-export:${operationId}`\<close> and \<open>`Payroll export (${periodId})`\<close>.\<close>

definition exportCreditId :: "string \<Rightarrow> string" where
  "exportCreditId operationId = ''feature-usage-payroll-export:'' @ operationId"

definition exportReason :: "string \<Rightarrow> string" where
  "exportReason periodId = ''Payroll export ('' @ periodId @ '')''"

definition creditProven :: "exportBatch \<Rightarrow> creditTransaction option \<Rightarrow> bool" where
  "creditProven batch ledger \<longleftrightarrow> eb_creditTransactionId batch = exportCreditId (eb_operationId batch)
     \<and> (case ledger of
          None \<Rightarrow> False
        | Some c \<Rightarrow> ct_id c = exportCreditId (eb_operationId batch) \<and> ct_tenantId c = eb_tenantId batch
            \<and> ct_amount c = - eb_consumedCredits batch \<and> ct_debtAmount c = 0 \<and> ct_reason c = exportReason (eb_periodId batch)
            \<and> ct_balanceAfter c = Some (eb_newBalance batch) \<and> ct_debtAfter c = Some 0)"

definition verifyExportCreditProvenance :: "exportBatch \<Rightarrow> unit tx \<Rightarrow> unit tx" where
  "verifyExportCreditProvenance batch cur =
     (bindT (getT (\<lambda>d. find (\<lambda>c. ct_id c = eb_creditTransactionId batch) (creditTransactions d))) (\<lambda>ledger.
       thenT cur (
       checkT (creditProven batch ledger) exportIntegrityFailed)))"

datatype encoding = LegacyEncoding | PublicEncoding

definition legacyLine :: "exportLine \<Rightarrow> csvLine" where
  "legacyLine row = \<lparr> cl_id = el_id row, cl_lineNumber = el_lineNumber row, cl_sourceType = el_sourceType row, cl_sourceId = el_sourceId row,
     cl_employeeId = el_employeeId row, cl_locationId = el_locationId row, cl_workTimeZone = el_workTimeZone row,
     cl_clockInAt = Some (el_clockInAt row), cl_clockOutAt = Some (el_clockOutAt row), cl_breakMinutes = el_breakMinutes row,
     cl_payableMinutes = el_payableMinutes row \<rparr>"

record lineRefs =
  lr_users :: "string \<rightharpoonup> string"
  lr_locations :: "string \<rightharpoonup> string"
  lr_timeCards :: "string \<rightharpoonup> string"
  lr_amendments :: "string \<rightharpoonup> string"

definition publicLine :: "lineRefs \<Rightarrow> exportLine \<Rightarrow> csvLine result" where
  "publicLine refs row =
     bindR (mappedSource (lr_timeCards refs) (lr_amendments refs) (el_sourceType row) (el_sourceId row)) (\<lambda>sourceId.
     bindR (requireMapped (lr_users refs) (el_employeeId row)) (\<lambda>employeeId.
     bindR (mappedOrNull (lr_locations refs) (el_locationId row)) (\<lambda>locationId.
       ok (legacyLine row \<lparr> cl_id := el_publicId row, cl_sourceId := sourceId, cl_employeeId := employeeId, cl_locationId := locationId \<rparr>))))"

definition rowEncoding :: "env \<Rightarrow> string \<Rightarrow> string \<Rightarrow> exportLine \<Rightarrow> csvLine \<Rightarrow> encoding option result" where
  "rowEncoding E tenantId batchId row public =
     bindR (payrollExportLineSha256 E tenantId batchId (el_lockedEntryId row) public) (\<lambda>publicHash.
     bindR (payrollExportLineSha256 E tenantId batchId (el_lockedEntryId row) (legacyLine row)) (\<lambda>legacyHash.
       ok (if el_canonicalSha256 row = publicHash then Some PublicEncoding
           else if el_canonicalSha256 row = legacyHash then Some LegacyEncoding else None)))"

text \<open>The loop over the rows: the encoding seen so far, the running total and the public lines.\<close>

fun verifyLines :: "env \<Rightarrow> string \<Rightarrow> string \<Rightarrow> lineRefs \<Rightarrow> encoding option \<Rightarrow> int \<Rightarrow> exportLine list \<Rightarrow> (encoding option \<times> int \<times> csvLine list) result" where
  "verifyLines E tenantId batchId refs enc acc [] = ok (enc, acc, [])"
| "verifyLines E tenantId batchId refs enc acc (row # rows) =
     bindR (publicLine refs row) (\<lambda>public.
     bindR (rowEncoding E tenantId batchId row public) (\<lambda>found.
     bindR (checkR (found \<noteq> None \<and> (enc = None \<or> enc = found)) exportIntegrityFailed) (\<lambda>_.
     bindR (verifyLines E tenantId batchId refs found (acc + el_payableMinutes row) rows) (\<lambda>(enc', acc', publics).
       ok (enc', acc', public # publics)))))"

definition loadLineRefs :: "string \<Rightarrow> exportLine list \<Rightarrow> lineRefs tx" where
  "loadLineRefs tenantId rows =
     (bindT (publicUsers noCheck tenantId (map (\<lambda>r. Some (el_employeeId r)) rows)) (\<lambda>userRefs.
       bindT (publicLocations noCheck tenantId (map el_locationId rows)) (\<lambda>locationRefs.
       bindT (publicTimeCards noCheck tenantId (sourcesOf TIME_CARD el_sourceType el_sourceId rows)) (\<lambda>timeCardRefs.
       bindT (publicAmendments noCheck tenantId (sourcesOf AMENDMENT el_sourceType el_sourceId rows)) (\<lambda>amendmentRefs.
       returnT \<lparr> lr_users = userRefs, lr_locations = locationRefs, lr_timeCards = timeCardRefs, lr_amendments = amendmentRefs \<rparr>)))))"

definition storedLineOrder :: "exportLine \<Rightarrow> exportLine \<Rightarrow> bool" where
  "storedLineOrder = thenCompare (byKey el_lineNumber) (byKey el_id)"

definition loadAndVerifyExportLines :: "env \<Rightarrow> string \<Rightarrow> exportBatch \<Rightarrow> unit tx \<Rightarrow> (string \<times> string) tx" where
  "loadAndVerifyExportLines E tenantId batch cur =
     (thenT (checkT (\<not> (eb_rowCount batch < 1 \<or> int MAX_PAYROLL_LOCK_ENTRIES < eb_rowCount batch)) exportIntegrityFailed) (
       bindT (getT (\<lambda>d. take (MAX_PAYROLL_LOCK_ENTRIES + 1)
         (findMany (\<lambda>r. el_tenantId r = tenantId \<and> el_batchId r = eb_id batch) storedLineOrder (exportLines d)))) (\<lambda>rows.
       thenT cur (
       thenT (checkT (int (length rows) = eb_rowCount batch \<and> length rows \<le> MAX_PAYROLL_LOCK_ENTRIES) exportIntegrityFailed) (
       bindT (loadLineRefs tenantId rows) (\<lambda>refs.
       thenT cur (
       bindT (liftT (verifyLines E tenantId (eb_id batch) refs None 0 rows)) (\<lambda>verified.
       let enc = fst verified in
       let totalMinutes = fst (snd verified) in
       thenT (checkT (isSafeInteger totalMinutes \<and> totalMinutes = eb_totalPayableMinutes batch) exportIntegrityFailed) (
       bindT (liftT (catchR (buildPayrollCsv (snd (snd verified))) exportIntegrityFailed)) (\<lambda>publicContent.
       bindT (liftT (catchR (buildPayrollCsv (map legacyLine rows)) exportIntegrityFailed)) (\<lambda>legacyContent.
       let publicContentSha256 = payrollContentSha256 E publicContent in
       thenT (checkT (enc = Some PublicEncoding \<and> eb_contentSha256 batch = publicContentSha256
         \<or> enc = Some LegacyEncoding \<and> eb_contentSha256 batch = payrollContentSha256 E legacyContent) exportIntegrityFailed) (
       returnT (publicContent, publicContentSha256)))))))))))))"

section \<open>Serialized exports\<close>

text \<open>\<open>Buffer.from(text, 'utf8').toString('base64url')\<close>: bytes of a text whose code units are below 256, and their
  digits in base 64 without padding.\<close>

definition utf8Units :: "string \<Rightarrow> nat list" where
  "utf8Units s = concat (map (\<lambda>c. if codeUnit c < 128 then [codeUnit c] else [192 + codeUnit c div 64, 128 + codeUnit c mod 64]) s)"

definition base64urlChar :: "nat \<Rightarrow> char" where
  "base64urlChar n = ''ABCDEFGHIJKLMNOPQRSTUVWXYZabcdefghijklmnopqrstuvwxyz0123456789-_'' ! n"

fun base64url :: "nat list \<Rightarrow> string" where
  "base64url [] = []"
| "base64url [a] = map base64urlChar [a div 4, a mod 4 * 16]"
| "base64url [a, b] = map base64urlChar [a div 4, a mod 4 * 16 + b div 16, b mod 16 * 4]"
| "base64url (a # b # c # rest) =
     map base64urlChar [a div 4, a mod 4 * 16 + b div 16, b mod 16 * 4 + c div 64, c mod 64] @ base64url rest"

definition encodeCursor :: "json \<Rightarrow> string" where
  "encodeCursor v = base64url (utf8Units (stringify v))"

definition publicLineOrder :: "exportLine \<Rightarrow> exportLine \<Rightarrow> bool" where
  "publicLineOrder = thenCompare (byKey el_lineNumber) (byKey el_publicId)"

definition receiptOrder :: "receipt \<Rightarrow> receipt \<Rightarrow> bool" where
  "receiptOrder = thenCompare (descending (byKey re_receivedAt)) (descending (byKey re_publicId))"

definition exportLineJson :: "(string \<rightharpoonup> lineState) \<Rightarrow> (string \<rightharpoonup> string) \<Rightarrow> (string \<rightharpoonup> string) \<Rightarrow> exportLine \<Rightarrow> json result" where
  "exportLineJson stateByLineId entryRefs userRefs line =
     bindR (requireMapped entryRefs (el_lockedEntryId line)) (\<lambda>entryId.
     bindR (requireMapped userRefs (el_employeeId line)) (\<lambda>employeeId.
       ok (JObj [(''id'', JStr (el_publicId line)), (''lineNumber'', JNum (el_lineNumber line)), (''lockedEntryId'', JStr entryId),
         (''employeeId'', JStr employeeId), (''payableMinutes'', JNum (el_payableMinutes line)),
         (''canonicalSha256'', JStr (el_canonicalSha256 line)),
         (''reconciliationStatus'', JStr (case stateByLineId (el_id line) of None \<Rightarrow> ''PENDING'' | Some st \<Rightarrow> lineStatusText (st_status st))),
         (''reconciliationReason'', nullable JStr (case stateByLineId (el_id line) of None \<Rightarrow> None | Some st \<Rightarrow> st_reason st))])))"

definition exportJson :: "exportBatch \<Rightarrow> string \<Rightarrow> string \<Rightarrow> json list \<Rightarrow> json \<Rightarrow> int \<Rightarrow> int \<Rightarrow> int \<Rightarrow> receipt option \<Rightarrow> json" where
  "exportJson batch periodId contentSha256 lineValues nextLineCursor accepted rejected pending latest = JObj
     [(''id'', JStr (eb_publicId batch)), (''periodId'', JStr periodId), (''formatVersion'', JNum (eb_formatVersion batch)),
      (''status'', JStr (exportStatusText (eb_status batch))), (''contentSha256'', JStr contentSha256),
      (''rowCount'', JNum (eb_rowCount batch)), (''totalPayableMinutes'', JNum (eb_totalPayableMinutes batch)),
      (''settlement'', JObj [(''consumedCredits'', JNum (eb_consumedCredits batch)), (''newBalance'', JNum (eb_newBalance batch))]),
      (''createdAt'', jInstant (eb_createdAt batch)), (''downloadedAt'', nullable jInstant (eb_downloadedAt batch)),
      (''reconciledAt'', nullable jInstant (eb_reconciledAt batch)), (''updatedAt'', jInstant (eb_updatedAt batch)),
      (''lines'', JArr lineValues), (''nextLineCursor'', nextLineCursor),
      (''reconciliation'', JObj [(''acceptedCount'', JNum accepted), (''rejectedCount'', JNum rejected), (''pendingCount'', JNum pending),
        (''providerTotalMinutes'', nullable (\<lambda>r. JNum (re_providerTotalMinutes r)) latest),
        (''latestProvider'', nullable (\<lambda>r. JStr (re_provider r)) latest),
        (''latestProviderEventId'', nullable (\<lambda>r. JStr (re_providerEventId r)) latest),
        (''latestPayloadSha256'', nullable (\<lambda>r. JStr (re_payloadSha256 r)) latest)])]"

definition countStates :: "string \<Rightarrow> string \<Rightarrow> lineStatus \<Rightarrow> database \<Rightarrow> int" where
  "countStates tenantId batchId status d =
     int (length (filter (\<lambda>st. st_tenantId st = tenantId \<and> st_batchId st = batchId \<and> st_status st = status) (lineStates d)))"

definition serializeExport :: "env \<Rightarrow> string \<Rightarrow> exportBatch \<Rightarrow> nat \<Rightarrow> string option \<Rightarrow> unit tx \<Rightarrow> json tx" where
  "serializeExport E tenantId batch lineLimit lineCursor cur =
     (let cursorId = (case lineCursor of None \<Rightarrow> None | Some c \<Rightarrow> if c = [] then None else Some c) in
       bindT (getT (\<lambda>d. case cursorId of None \<Rightarrow> None
         | Some c \<Rightarrow> find (\<lambda>r. el_tenantId r = tenantId \<and> el_batchId r = eb_id batch \<and> sameUuid (el_publicId r) c) (exportLines d))) (\<lambda>cursor.
       thenT cur (
       thenT (checkT (\<not> (cursorId \<noteq> None \<and> cursor = None)) (Problem 422 ''invalid_payroll_line_cursor'')) (
       bindT (getT (\<lambda>d. take (lineLimit + 1) (findMany (\<lambda>r. el_tenantId r = tenantId \<and> el_batchId r = eb_id batch
         \<and> (case cursor of None \<Rightarrow> True | Some c \<Rightarrow> el_lineNumber c < el_lineNumber r)) publicLineOrder (exportLines d)))) (\<lambda>rows.
       thenT cur (
       let page = take lineLimit rows in
       bindT (getT (\<lambda>d. filter (\<lambda>st. st_tenantId st = tenantId \<and> st_batchId st = eb_id batch \<and> st_lineId st \<in> el_id ` set page) (lineStates d))) (\<lambda>states.
       bindT (publicLockedEntries tenantId (map (\<lambda>r. Some (el_lockedEntryId r)) page)) (\<lambda>entryRefs.
       bindT (publicUsers noCheck tenantId (map (\<lambda>r. Some (el_employeeId r)) page)) (\<lambda>userRefs.
       bindT (publicPeriods noCheck tenantId [Some (eb_periodId batch)]) (\<lambda>periodRefs.
       thenT cur (
       let stateByLineId = jsMap (map (\<lambda>st. (st_lineId st, st)) states) in
       bindT (getT (countStates tenantId (eb_id batch) LINE_ACCEPTED)) (\<lambda>accepted.
       bindT (getT (countStates tenantId (eb_id batch) LINE_REJECTED)) (\<lambda>rejected.
       thenT cur (
       let pending = eb_rowCount batch - accepted - rejected in
       thenT (checkT (\<not> pending < 0) (Problem 503 ''payroll_reconciliation_integrity_failed'')) (
       bindT (getT (\<lambda>d. findFirst (\<lambda>r. re_tenantId r = tenantId \<and> re_batchId r = eb_id batch) receiptOrder (receipts d))) (\<lambda>latest.
       thenT cur (
       bindT (loadAndVerifyExportLines E tenantId batch cur) (\<lambda>evidence.
       thenT cur (
       bindT (liftT (requireMapped periodRefs (eb_periodId batch))) (\<lambda>periodId.
       bindT (liftT (mapR (exportLineJson stateByLineId entryRefs userRefs) page)) (\<lambda>lineValues.
       let nextLineCursor = (if lineLimit < length rows \<and> page \<noteq> []
         then JStr (encodeCursor (JObj [(''publicId'', JStr (el_publicId (last page)))])) else JNull) in
       returnT (exportJson batch periodId (snd evidence) lineValues nextLineCursor accepted rejected pending latest))))))))))))))))))))))"

section \<open>Creating an export\<close>

definition entryExportOrder :: "lockedEntryRow \<Rightarrow> lockedEntryRow \<Rightarrow> bool" where
  "entryExportOrder = thenCompare (byKey en_sequence) (byKey en_id)"

record draftLine =
  dl_id :: string
  dl_publicId :: string
  dl_entry :: lockedEntryRow
  dl_line :: csvLine
  dl_canonicalSha256 :: string

text \<open>One line of the export: a fresh public identifier, the entry under public identifiers, and its digest.\<close>

definition draftLineOf :: "env \<Rightarrow> string \<Rightarrow> string \<Rightarrow> lineRefs \<Rightarrow> nat \<times> lockedEntryRow \<Rightarrow> draftLine tx" where
  "draftLineOf E tenantId batchId refs = (\<lambda>(index, entry).
     (bindT (uuidT E) (\<lambda>publicLineId.
       bindT (liftT (mappedSource (lr_timeCards refs) (lr_amendments refs) (en_sourceType entry) (en_sourceId entry))) (\<lambda>sourceId.
       bindT (liftT (requireMapped (lr_users refs) (en_employeeId entry))) (\<lambda>employeeId.
       bindT (liftT (mappedOrNull (lr_locations refs) (en_locationId entry))) (\<lambda>locationId.
       let line = \<lparr> cl_id = publicLineId, cl_lineNumber = int index + 1, cl_sourceType = en_sourceType entry, cl_sourceId = sourceId,
         cl_employeeId = employeeId, cl_locationId = locationId, cl_workTimeZone = en_workTimeZone entry,
         cl_clockInAt = Some (en_clockInAt entry), cl_clockOutAt = Some (en_clockOutAt entry), cl_breakMinutes = en_breakMinutes entry,
         cl_payableMinutes = en_payableMinutes entry \<rparr> in
       bindT (liftT (payrollExportLineSha256 E tenantId batchId (en_id entry) line)) (\<lambda>digest.
       returnT \<lparr> dl_id = deterministicPayrollId E ''line'' (JObj [(''batchId'', JStr batchId), (''lineNumber'', JNum (cl_lineNumber line)),
           (''lockedEntryId'', JStr (en_id entry))]), dl_publicId = publicLineId, dl_entry = entry, dl_line = line,
         dl_canonicalSha256 = digest \<rparr>)))))))"

definition exportLineRow :: "string \<Rightarrow> string \<Rightarrow> draftLine \<Rightarrow> exportLine" where
  "exportLineRow tenantId batchId l = (let entry = dl_entry l in
     \<lparr> el_id = dl_id l, el_publicId = dl_publicId l, el_tenantId = tenantId, el_batchId = batchId,
       el_lineNumber = cl_lineNumber (dl_line l), el_lockedEntryId = en_id entry, el_sourceType = en_sourceType entry,
       el_sourceId = en_sourceId entry, el_employeeId = en_employeeId entry, el_locationId = en_locationId entry,
       el_workTimeZone = en_workTimeZone entry, el_clockInAt = en_clockInAt entry, el_clockOutAt = en_clockOutAt entry,
       el_breakMinutes = en_breakMinutes entry, el_payableMinutes = en_payableMinutes entry,
       el_canonicalSha256 = dl_canonicalSha256 l \<rparr>)"

text \<open>The checks on the locked entries before anything is charged.\<close>

definition checkLockedEvidence :: "env \<Rightarrow> string \<Rightarrow> payrollPeriod \<Rightarrow> lockedEntryRow list \<Rightarrow> int result" where
  "checkLockedEvidence E tenantId period entries =
     bindR (checkR (\<not> (entries = [] \<or> MAX_PAYROLL_LOCK_ENTRIES < length entries
        \<or> Some (int (length entries)) \<noteq> pp_lockedEntryCount period)) (Problem 409 ''payroll_export_entry_count_invalid'')) (\<lambda>_.
     let totalPayableMinutes = sum_list (map en_payableMinutes entries) in
     bindR (checkR (isSafeInteger totalPayableMinutes \<and> Some totalPayableMinutes = pp_totalPayableMinutes period)
       (Problem 409 ''payroll_export_totals_invalid'')) (\<lambda>_.
     bindR (catchR (payrollLockAggregateSha256 E tenantId (pp_id period) (map en_canonicalSha256 entries) totalPayableMinutes)
       (Problem 409 ''payroll_export_integrity_invalid'')) (\<lambda>aggregateSha256.
     bindR (checkR (Some aggregateSha256 = pp_lockedEntrySha256 period) (Problem 409 ''payroll_export_integrity_mismatch'')) (\<lambda>_.
       ok totalPayableMinutes))))"

definition exportBatchRow :: "string \<Rightarrow> string \<Rightarrow> string \<Rightarrow> string \<Rightarrow> requestIdentity \<Rightarrow> string \<Rightarrow> string \<Rightarrow> nat \<Rightarrow> int \<Rightarrow> settlement \<Rightarrow> instant \<Rightarrow> exportBatch" where
  "exportBatchRow batchId publicId tenantId periodId request creditTransactionId contentSha256 rowCount totalMinutes settlement now =
     \<lparr> eb_id = batchId, eb_publicId = publicId, eb_tenantId = tenantId, eb_periodId = periodId,
       eb_operationId = rq_operationId request, eb_requestHash = rq_requestHash request, eb_creditTransactionId = creditTransactionId,
       eb_formatVersion = 1, eb_status = GENERATED, eb_contentSha256 = contentSha256, eb_rowCount = int rowCount,
       eb_totalPayableMinutes = totalMinutes, eb_consumedCredits = sm_consumedCredits settlement, eb_newBalance = sm_newBalance settlement,
       eb_createdAt = now, eb_downloadedAt = None, eb_reconciledAt = None, eb_updatedAt = now \<rparr>"

definition replayExport :: "env \<Rightarrow> string \<Rightarrow> string \<Rightarrow> requestIdentity \<Rightarrow> exportBatch \<Rightarrow> json tx" where
  "replayExport E tenantId periodId request batch =
     (thenT (checkT (eb_tenantId batch = tenantId \<and> eb_periodId batch = periodId \<and> eb_requestHash batch = rq_requestHash request) idempotencyConflict) (
       thenT (verifyExportCreditProvenance batch noCheck) (
       serializeExport E tenantId batch 500 None noCheck)))"

definition createExportBody :: "env \<Rightarrow> sessionIdentity \<Rightarrow> string \<Rightarrow> int \<Rightarrow> requestIdentity \<Rightarrow> unit tx \<Rightarrow> json tx" where
  "createExportBody E identity periodId expectedCreditCost request cur =
     (let tenantId = id_tenantId identity in
       bindT (getT (\<lambda>d. find (\<lambda>b. eb_operationId b = rq_operationId request) (exportBatches d))) (\<lambda>replay.
       case replay of
         Some batch \<Rightarrow> replayExport E tenantId periodId request batch
       | None \<Rightarrow> (bindT (requirePeriodById tenantId periodId) (\<lambda>period.
         thenT (checkT (pp_status period = PERIOD_LOCKED) (Problem 409 ''payroll_export_state_invalid'')) (
         bindT (getT (\<lambda>d. list_ex (\<lambda>b. eb_tenantId b = tenantId \<and> eb_periodId b = pp_id period) (exportBatches d))) (\<lambda>existing.
         thenT (checkT (\<not> existing) (Problem 409 ''payroll_export_exists'')) (
         bindT (assertFeatureEntitled E tenantId Time_cards True) (\<lambda>granted.
         bindT (requireT granted (Problem 403 ''time_cards_not_entitled'')) (\<lambda>entitlement.
         thenT (checkT (fe_creditCost entitlement = expectedCreditCost) (Problem 409 ''payroll_credit_cost_changed'')) (
         bindT (getT (\<lambda>d. take (MAX_PAYROLL_LOCK_ENTRIES + 1)
             (findMany (\<lambda>e. en_tenantId e = tenantId \<and> en_periodId e = pp_id period) entryExportOrder (lockedEntries d)))) (\<lambda>entries.
         bindT (liftT (checkLockedEvidence E tenantId period entries)) (\<lambda>totalPayableMinutes.
         bindT (publicUsers noCheck tenantId (map (\<lambda>e. Some (en_employeeId e)) entries)) (\<lambda>userRefs.
         bindT (publicLocations noCheck tenantId (map en_locationId entries)) (\<lambda>locationRefs.
         bindT (publicTimeCards noCheck tenantId (sourcesOf TIME_CARD en_sourceType en_sourceId entries)) (\<lambda>timeCardRefs.
         bindT (publicAmendments noCheck tenantId (sourcesOf AMENDMENT en_sourceType en_sourceId entries)) (\<lambda>amendmentRefs.
         let refs = \<lparr> lr_users = userRefs, lr_locations = locationRefs, lr_timeCards = timeCardRefs, lr_amendments = amendmentRefs \<rparr> in
         let batchId = deterministicPayrollId E ''batch'' (JStr (rq_operationId request)) in
         bindT (uuidT E) (\<lambda>batchPublicId.
         bindT (mapT (draftLineOf E tenantId batchId refs) (enumerate 0 entries)) (\<lambda>drafts.
         bindT (liftT (catchR (buildPayrollCsv (map dl_line drafts)) exportIntegrityFailed)) (\<lambda>csv.
         let creditTransactionId = exportCreditId (rq_operationId request) in
         thenT cur (
         bindT (debitFeatureCredit cur tenantId entitlement (''payroll-export:'' @ rq_operationId request)
             (exportReason (pp_id period)) (Some creditTransactionId)) (\<lambda>settlement.
         thenT cur (
         thenT (checkT (\<not> (sm_consumedCredits settlement \<noteq> fe_creditCost entitlement \<or> \<not> isSafeInteger (sm_newBalance settlement)
             \<or> sm_newBalance settlement < 0)) (Problem 503 ''payroll_export_settlement_invalid'')) (
         thenT cur (
         bindT (nowT E) (\<lambda>now.
         let batch = exportBatchRow batchId batchPublicId tenantId (pp_id period) request creditTransactionId
             (payrollContentSha256 E csv) (length drafts) totalPayableMinutes settlement now in
         thenT (createT batchTable batchClash batch) (
         thenT cur (
         thenT (createManyT lineTable lineClash (map (exportLineRow tenantId (eb_id batch)) drafts)) (
         thenT cur (
         bindT (serializeExport E tenantId batch 500 None noCheck) (\<lambda>response.
         thenT cur (
         thenT (writePayrollAudit E identity ''PAYROLL_EXPORT_GENERATED'' ''PayrollExportBatch'' (eb_id batch) None (Some response)) (
         thenT cur (
         returnT response)))))))))))))))))))))))))))))))))"

definition findExportReplay :: "env \<Rightarrow> sessionIdentity \<Rightarrow> string \<Rightarrow> requestIdentity \<Rightarrow> mutationScope \<Rightarrow> json option tx" where
  "findExportReplay E identity periodId request scope =
     runScope E identity ''payroll:export'' scope (\<lambda>_.
       (bindT (getT (\<lambda>d. find (\<lambda>b. eb_operationId b = rq_operationId request) (exportBatches d))) (\<lambda>found.
         case found of
           None \<Rightarrow> returnT None
         | Some batch \<Rightarrow> (bindT (replayExport E (id_tenantId identity) periodId request batch) (\<lambda>response.
           returnT (Some response))))))"

text \<open>\<open>if (replay) return replay; throw ...\<close>.\<close>

definition replayOr :: "json option tx \<Rightarrow> failure \<Rightarrow> json tx" where
  "replayOr m e = bindT m (\<lambda>replay. requireT replay e)"

definition createExport :: "env \<Rightarrow> sessionIdentity \<Rightarrow> string \<Rightarrow> int \<Rightarrow> string option \<Rightarrow> json tx" where
  "createExport E requester publicPeriodId expectedCreditCost key =
     (let identity = mutationIdentity requester in
       bindT (prepareCurrentMutation E identity ''payroll:export'') (\<lambda>scope.
       bindT (resolvePeriodId E identity publicPeriodId) (\<lambda>periodId.
       bindT (liftT (normalizeIdempotencyKey key)) (\<lambda>idempotencyKey.
       let request = payrollRequestIdentity E (id_tenantId identity) (id_sub identity) EXPORT_OP idempotencyKey
         (JObj [(''periodId'', JStr periodId), (''expectedCreditCost'', JNum expectedCreditCost)]) in
       catchT (runScope E identity ''payroll:export'' scope (createExportBody E identity periodId expectedCreditCost request)) (\<lambda>e.
         if isUniqueConflict e
         then replayOr (findExportReplay E identity periodId request scope) (Problem 409 ''payroll_export_conflict'')
         else if isLockTimeout e
         then replayOr (findExportReplay E identity periodId request scope) (Problem 503 ''payroll_concurrent_change'')
         else throwT e)))))"

section \<open>Entitlement and download\<close>

datatype exportOffer = Eligible int | NotEligible "failure option"

text \<open>\<open>exportEntitlement\<close>: a 403 of the entitlement check becomes an answer, everything else stays an error.\<close>

definition exportEntitlement :: "env \<Rightarrow> sessionIdentity \<Rightarrow> exportOffer tx" where
  "exportEntitlement E requester =
     (let identity = mutationIdentity requester in
       bindT (prepareCurrentMutation E identity ''payroll:export'') (\<lambda>scope.
       runScope E identity ''payroll:export'' scope (\<lambda>cur.
         (bindT (catchT
               (bindT (assertFeatureEntitled E (id_tenantId identity) Time_cards True) (\<lambda>granted.
                 returnT (case granted of None \<Rightarrow> NotEligible None | Some entitlement \<Rightarrow> Eligible (fe_creditCost entitlement))))
               (\<lambda>e. case e of Problem status code \<Rightarrow> if status = 403 then returnT (NotEligible (Some e)) else throwT e | _ \<Rightarrow> throwT e)) (\<lambda>response.
           thenT cur (
           returnT response))))))"

definition downloadTarget :: "string \<Rightarrow> string \<Rightarrow> exportStatus \<Rightarrow> exportBatch \<Rightarrow> bool" where
  "downloadTarget tenantId batchId status b \<longleftrightarrow> eb_id b = batchId \<and> eb_tenantId b = tenantId \<and> eb_status b = status"

definition downloadedRow :: "instant \<Rightarrow> instant \<Rightarrow> exportBatch \<Rightarrow> exportBatch" where
  "downloadedRow downloadedAt updatedAt b = b \<lparr> eb_status := DOWNLOADED, eb_downloadedAt := Some downloadedAt, eb_updatedAt := updatedAt \<rparr>"

definition markDownloaded :: "env \<Rightarrow> sessionIdentity \<Rightarrow> exportBatch \<Rightarrow> unit tx \<Rightarrow> unit tx" where
  "markDownloaded E identity batch cur =
     (bindT (nowT E) (\<lambda>downloadedAt.
       thenT cur (
       bindT (nowT E) (\<lambda>updatedAt.
       bindT (updateManyT batchTable (downloadTarget (id_tenantId identity) (eb_id batch) GENERATED) (downloadedRow downloadedAt updatedAt)) (\<lambda>changed.
       thenT cur (
       thenT (checkT (changed = 1) (Problem 409 ''payroll_download_state_changed'')) (
       thenT cur (
       thenT (writePayrollAudit E identity ''PAYROLL_EXPORT_DOWNLOADED'' ''PayrollExportBatch'' (eb_id batch) None
         (Some (JObj [(''downloadedAt'', jInstant downloadedAt)]))) (
       cur)))))))))"

definition downloadExportBody :: "env \<Rightarrow> sessionIdentity \<Rightarrow> string \<Rightarrow> unit tx \<Rightarrow> (string \<times> string) tx" where
  "downloadExportBody E identity publicId cur =
     (let tenantId = id_tenantId identity in
       bindT (getT (\<lambda>d. filter (\<lambda>b. eb_tenantId b = tenantId \<and> sameUuid (eb_publicId b) publicId) (exportBatches d))) (\<lambda>rows.
       thenT (checkT (length rows = 1) exportNotFound) (
       bindT (getT (\<lambda>d. find (\<lambda>b. eb_id b = eb_id (hd rows) \<and> eb_tenantId b = tenantId) (exportBatches d))) (\<lambda>found.
       bindT (requireT found integrityFailed) (\<lambda>batch.
       thenT (verifyExportCreditProvenance batch noCheck) (
       bindT (getT (\<lambda>d. find (\<lambda>p. pp_id p = eb_periodId batch \<and> pp_tenantId p = tenantId) (payrollPeriods d))) (\<lambda>periodRow.
       bindT (requireT periodRow integrityFailed) (\<lambda>period.
       bindT (loadAndVerifyExportLines E tenantId batch noCheck) (\<lambda>content.
       thenT (if eb_status batch = GENERATED then markDownloaded E identity batch cur else returnT ()) (
       bindT (liftT (serializeDateOnly (Some (pp_localStartDate period)))) (\<lambda>startDate.
       returnT (''payroll-'' @ startDate @ ''-'' @ eb_publicId batch @ ''.csv'', fst content))))))))))))"

definition downloadExport :: "env \<Rightarrow> sessionIdentity \<Rightarrow> string \<Rightarrow> (string \<times> string) tx" where
  "downloadExport E requester publicExportId =
     (let identity = mutationIdentity requester in
       bindT (prepareCurrentMutation E identity ''payroll:export'') (\<lambda>scope.
       bindT (liftT (requiredPublicId publicExportId ''payroll_export'')) (\<lambda>publicId.
       runScope E identity ''payroll:export'' scope (downloadExportBody E identity publicId))))"

section \<open>Reconciliation\<close>

definition internalReconciliationPayload :: "env \<Rightarrow> string \<Rightarrow> string \<Rightarrow> reconciliationPayload \<Rightarrow> reconciliationPayload tx" where
  "internalReconciliationPayload E tenantId batchId payload =
     (bindT (liftT (mapR (\<lambda>oc. requiredPublicId (oc_lineId oc) ''payroll_export_line'') (rp_outcomes payload))) (\<lambda>publicLineIds.
       bindT (getT (\<lambda>d. take (length publicLineIds) (filter (\<lambda>r. el_tenantId r = tenantId \<and> el_batchId r = batchId
         \<and> list_ex (sameUuid (el_publicId r)) publicLineIds) (exportLines d)))) (\<lambda>found.
       thenT (checkT (length found = length publicLineIds) (Problem 409 ''payroll_reconciliation_line_invalid'')) (
       let lineByPublicId = jsMap (map (\<lambda>r. (el_publicId r, el_id r)) found) in
       bindT (liftT (mapR (\<lambda>oc. bindR (requireMapped lineByPublicId (oc_lineId oc)) (\<lambda>lineId. ok (oc \<lparr> oc_lineId := lineId \<rparr>))) (rp_outcomes payload))) (\<lambda>translated.
       returnT (payload \<lparr> rp_outcomes := sortBy (\<lambda>l r. e_collate E (oc_lineId l) (oc_lineId r)) translated \<rparr>))))))"

definition receiptJson :: "receipt \<Rightarrow> string \<Rightarrow> string \<Rightarrow> json" where
  "receiptJson r batchPublicId receivedBy = JObj
     [(''id'', JStr (re_publicId r)), (''batchId'', JStr batchPublicId), (''provider'', JStr (re_provider r)),
      (''providerEventId'', JStr (re_providerEventId r)), (''payloadSha256'', JStr (re_payloadSha256 r)),
      (''providerTotalMinutes'', JNum (re_providerTotalMinutes r)), (''acceptedCount'', JNum (re_acceptedCount r)),
      (''rejectedCount'', JNum (re_rejectedCount r)), (''pendingCount'', JNum (re_pendingCount r)),
      (''receivedByUserId'', JStr receivedBy), (''receivedAt'', jInstant (re_receivedAt r))]"

definition serializeReceipt :: "string \<Rightarrow> receipt \<Rightarrow> json tx" where
  "serializeReceipt tenantId r =
     (bindT (getT (\<lambda>d. find (\<lambda>b. eb_tenantId b = tenantId \<and> eb_id b = re_batchId r) (exportBatches d))) (\<lambda>found.
       bindT (publicUsers noCheck tenantId [Some (re_receivedByUserId r)]) (\<lambda>userRefs.
       bindT (requireT found integrityFailed) (\<lambda>batch.
       bindT (liftT (requireMapped userRefs (re_receivedByUserId r))) (\<lambda>receivedBy.
       returnT (receiptJson r (eb_publicId batch) receivedBy))))))"

definition findReceipt :: "string \<Rightarrow> string \<Rightarrow> string \<Rightarrow> database \<Rightarrow> receipt option" where
  "findReceipt tenantId provider providerEventId d =
     find (\<lambda>r. re_tenantId r = tenantId \<and> re_provider r = provider \<and> re_providerEventId r = providerEventId) (receipts d)"

definition lineEventRow :: "string \<Rightarrow> string \<Rightarrow> string \<Rightarrow> outcome \<Rightarrow> lineEvent" where
  "lineEventRow tenantId receiptId batchId oc = \<lparr> ev_tenantId = tenantId, ev_receiptId = receiptId, ev_batchId = batchId,
     ev_lineId = oc_lineId oc, ev_status = oc_status oc, ev_reason = oc_reason oc \<rparr>"

definition lineStateRow :: "string \<Rightarrow> string \<Rightarrow> string \<Rightarrow> outcome \<Rightarrow> lineState" where
  "lineStateRow tenantId receiptId batchId oc = \<lparr> st_tenantId = tenantId, st_batchId = batchId, st_lineId = oc_lineId oc,
     st_status = oc_status oc, st_latestReceiptId = receiptId, st_reason = oc_reason oc \<rparr>"

text \<open>\<open>upsert\<close> on the key \<open>batchId_lineId\<close>.\<close>

definition upsertLineState :: "string \<Rightarrow> string \<Rightarrow> string \<Rightarrow> unit tx \<Rightarrow> outcome \<Rightarrow> unit tx" where
  "upsertLineState tenantId receiptId batchId cur oc =
     (let row = lineStateRow tenantId receiptId batchId oc in
       thenT cur (
       bindT (getT (\<lambda>d. list_ex (lineStateClash row) (lineStates d))) (\<lambda>known.
       thenT (if known
       then thenT (updateManyT lineStateTable (lineStateClash row)
           (\<lambda>st. st \<lparr> st_status := oc_status oc, st_latestReceiptId := receiptId, st_reason := oc_reason oc \<rparr>)) (returnT ())
       else createT lineStateTable lineStateClash row) (
       cur))))"

definition receiptOf :: "string \<Rightarrow> string \<Rightarrow> string \<Rightarrow> string \<Rightarrow> reconciliationPayload \<Rightarrow> string \<Rightarrow> reconciliationCounts \<Rightarrow> string \<Rightarrow> instant \<Rightarrow> receipt" where
  "receiptOf newId publicId tenantId batchId payload payloadSha256 counts actorId receivedAt =
     \<lparr> re_id = newId, re_publicId = publicId, re_tenantId = tenantId, re_batchId = batchId, re_provider = rp_provider payload,
       re_providerEventId = rp_providerEventId payload, re_payloadSha256 = payloadSha256,
       re_providerTotalMinutes = rp_providerTotalMinutes payload, re_acceptedCount = int (rc_acceptedCount counts),
       re_rejectedCount = int (rc_rejectedCount counts), re_pendingCount = int (rc_pendingCount counts),
       re_receivedByUserId = actorId, re_receivedAt = receivedAt \<rparr>"

definition reconciliationStateChanged :: failure where
  "reconciliationStateChanged = Problem 409 ''payroll_reconciliation_state_changed''"

text \<open>A guarded step of the batch's status.\<close>

definition moveBatch :: "env \<Rightarrow> string \<Rightarrow> string \<Rightarrow> exportStatus \<Rightarrow> (instant \<Rightarrow> instant \<Rightarrow> exportBatch \<Rightarrow> exportBatch) \<Rightarrow> unit tx \<Rightarrow> unit tx" where
  "moveBatch E tenantId batchId status change cur =
     (thenT cur (
       bindT (nowT E) (\<lambda>stampedAt.
       bindT (nowT E) (\<lambda>updatedAt.
       bindT (updateManyT batchTable (downloadTarget tenantId batchId status) (change stampedAt updatedAt)) (\<lambda>changed.
       thenT cur (
       checkT (changed = 1) reconciliationStateChanged))))))"

definition reconcilingRow :: "instant \<Rightarrow> instant \<Rightarrow> exportBatch \<Rightarrow> exportBatch" where
  "reconcilingRow stampedAt updatedAt b = b \<lparr> eb_status := RECONCILING, eb_updatedAt := updatedAt \<rparr>"

definition reconciledRow :: "instant \<Rightarrow> instant \<Rightarrow> exportBatch \<Rightarrow> exportBatch" where
  "reconciledRow stampedAt updatedAt b = b \<lparr> eb_status := RECONCILED, eb_reconciledAt := Some stampedAt, eb_updatedAt := updatedAt \<rparr>"

definition reconcileExportBody :: "env \<Rightarrow> sessionIdentity \<Rightarrow> string \<Rightarrow> reconciliationPayload \<Rightarrow> reconciliationPayload \<Rightarrow> string \<Rightarrow> unit tx \<Rightarrow> json tx" where
  "reconcileExportBody E identity exportId publicPayload payload payloadSha256 cur =
     (let tenantId = id_tenantId identity in
       bindT (getT (\<lambda>d. filter (\<lambda>b. eb_tenantId b = tenantId \<and> eb_id b = exportId) (exportBatches d))) (\<lambda>rows.
       thenT (checkT (length rows = 1) exportNotFound) (
       bindT (getT (\<lambda>d. find (\<lambda>b. eb_id b = exportId \<and> eb_tenantId b = tenantId) (exportBatches d))) (\<lambda>found.
       bindT (requireT found integrityFailed) (\<lambda>batch.
       bindT (getT (findReceipt tenantId (rp_provider payload) (rp_providerEventId payload))) (\<lambda>replay.
       case replay of
         Some r \<Rightarrow> (thenT (checkT (re_batchId r = eb_id batch \<and> re_payloadSha256 r = payloadSha256) idempotencyConflict) (
           serializeReceipt tenantId r))
       | None \<Rightarrow> (thenT (checkT (eb_status batch \<noteq> GENERATED) (Problem 409 ''payroll_reconciliation_before_download'')) (
         thenT (checkT (eb_status batch \<noteq> RECONCILED) (Problem 409 ''payroll_reconciliation_terminal'')) (
         bindT (internalReconciliationPayload E tenantId (eb_id batch) publicPayload) (\<lambda>canonicalPayload.
         thenT (checkT (reconciliationPayloadSha256 E tenantId (id_sub identity) (eb_id batch) canonicalPayload = payloadSha256) reconciliationStateChanged) (
         let outcomes = rp_outcomes canonicalPayload in
         thenT cur (
         bindT (uuidT E) (\<lambda>newId.
         bindT (uuidT E) (\<lambda>publicId.
         bindT (nowT E) (\<lambda>receivedAt.
         let created = receiptOf newId publicId tenantId (eb_id batch) payload payloadSha256 (reconciliationCountsOf canonicalPayload)
             (id_sub identity) receivedAt in
         thenT (createT receiptTable receiptClash created) (
         thenT cur (
         thenT (createManyT lineEventTable lineEventClash (map (lineEventRow tenantId newId (eb_id batch)) outcomes)) (
         thenT cur (
         thenT (eachT (upsertLineState tenantId newId (eb_id batch) cur) outcomes) (
         thenT (if eb_status batch = DOWNLOADED then moveBatch E tenantId (eb_id batch) DOWNLOADED reconcilingRow cur else returnT ()) (
         bindT (getT (countStates tenantId (eb_id batch) LINE_ACCEPTED)) (\<lambda>accepted.
         thenT (if accepted = eb_rowCount batch \<and> rp_providerTotalMinutes payload = eb_totalPayableMinutes batch
             then moveBatch E tenantId (eb_id batch) RECONCILING reconciledRow cur else returnT ()) (
         bindT (serializeReceipt tenantId created) (\<lambda>response.
         thenT cur (
         thenT (writePayrollAudit E identity ''PAYROLL_RECONCILIATION_RECEIVED'' ''PayrollReconciliationReceipt'' newId None (Some response)) (
         thenT cur (
         returnT response)))))))))))))))))))))))))))"

definition findReceiptReplay :: "env \<Rightarrow> sessionIdentity \<Rightarrow> string \<Rightarrow> string \<Rightarrow> string \<Rightarrow> string \<Rightarrow> mutationScope \<Rightarrow> json option tx" where
  "findReceiptReplay E identity batchId provider providerEventId payloadSha256 scope =
     runScope E identity ''payroll:reconcile'' scope (\<lambda>_.
       (bindT (getT (findReceipt (id_tenantId identity) provider providerEventId)) (\<lambda>found.
         case found of
           None \<Rightarrow> returnT None
         | Some r \<Rightarrow> (thenT (checkT (re_batchId r = batchId \<and> re_payloadSha256 r = payloadSha256) idempotencyConflict) (
           bindT (serializeReceipt (id_tenantId identity) r) (\<lambda>response.
           returnT (Some response)))))))"

definition reconcileExport :: "env \<Rightarrow> sessionIdentity \<Rightarrow> string \<Rightarrow> reconciliationRequest \<Rightarrow> json tx" where
  "reconcileExport E requester publicExportId body =
     (let identity = mutationIdentity requester in
       bindT (prepareCurrentMutation E identity ''payroll:reconcile'') (\<lambda>scope.
       bindT (resolveExportId E identity publicExportId) (\<lambda>exportId.
       bindT (liftT (normalizeReconciliation body)) (\<lambda>publicPayload.
       bindT (withTenant E (id_tenantId identity) (internalReconciliationPayload E (id_tenantId identity) exportId publicPayload)) (\<lambda>payload.
       let payloadSha256 = reconciliationPayloadSha256 E (id_tenantId identity) (id_sub identity) exportId payload in
       catchT (runScope E identity ''payroll:reconcile'' scope (reconcileExportBody E identity exportId publicPayload payload payloadSha256)) (\<lambda>e.
         if isUniqueConflict e
         then replayOr (findReceiptReplay E identity exportId (rp_provider payload) (rp_providerEventId payload) payloadSha256 scope) idempotencyConflict
         else throwT e))))))"

end
