(* ===== verification/PayrollLifecycle.thy ===== *)
theory PayrollLifecycle
  imports PayrollPeriods
begin

text \<open>
  What the commands on policies and periods do to the database, one lemma per transaction, and the properties
  that follow: periods never overlap, a period only moves from open over review to locked, nobody
  decides the own card, a lock freezes exactly the approved evidence, and a repeated command is answered
  from its record.
\<close>

section \<open>Rules\<close>

text \<open>Reads whose answers no proof looks at, and the rows the small writes append.\<close>

lemmas post_reads = post_any [OF readsOnly_publics(1) [OF readsOnly_noCheck]] post_any [OF readsOnly_publics(2) [OF readsOnly_noCheck]]
  post_any [OF readsOnly_loadPayrollPeriodSummary [OF readsOnly_noCheck]]

lemma post_audit [tx_rules]:
  "(\<And>log. Q () (auditLogs_update (\<lambda>rows. rows @ [log]) d)) \<Longrightarrow> (\<And>e. F e d) \<Longrightarrow>
     post d (writePayrollAudit E identity action resource resourceId oldValue newValue) Q F"
  unfolding writePayrollAudit_def auditTable_def by (intro tx_rules) (simp_all add: auditTable_def)

definition operationRow :: "sessionIdentity \<Rightarrow> requestIdentity \<Rightarrow> string \<Rightarrow> operationName \<Rightarrow> json \<Rightarrow> payrollOperation" where
  "operationRow identity request periodId kind response =
     \<lparr> op_operationId = rq_operationId request, op_tenantId = id_tenantId identity, op_periodId = Some periodId,
       op_kind = kind, op_requestHash = rq_requestHash request, op_response = response \<rparr>"

lemma post_record [tx_rules]:
  "(find (\<lambda>x. op_operationId x = rq_operationId request) (payrollOperations d) = None \<Longrightarrow>
      Q () (payrollOperations_update (\<lambda>rows. rows @ [operationRow identity request periodId kind response]) d)) \<Longrightarrow>
    (\<And>e. F e d) \<Longrightarrow> post d (recordOperation identity request periodId kind response) Q F"
  unfolding recordOperation_def
  by (intro tx_rules) (auto simp: operationTable_def operationClash_def operationRow_def find_None_iff list_ex_iff eq_commute [of "rq_operationId request"])

text \<open>How a command ends that keeps its response in the operation table: it replays a stored response, or it
  changes the database by \<open>change\<close> and then appends the operation and an audit row.\<close>

definition recordedOutcome :: "sessionIdentity \<Rightarrow> requestIdentity \<Rightarrow> operationName \<Rightarrow> (database \<Rightarrow> string \<Rightarrow> database \<Rightarrow> bool) \<Rightarrow>
    database \<Rightarrow> json \<Rightarrow> database \<Rightarrow> bool" where
  "recordedOutcome identity request kind change d r d' \<longleftrightarrow>
     (\<exists>row. find (\<lambda>x. op_operationId x = rq_operationId request) (payrollOperations d) = Some row
        \<and> replayOperation row (rq_requestHash request) = ok r \<and> d' = d)
     \<or> (\<exists>periodId log mid. find (\<lambda>x. op_operationId x = rq_operationId request) (payrollOperations mid) = None \<and> isObject r
        \<and> change d periodId mid
        \<and> d' = auditLogs_update (\<lambda>rows. rows @ [log]) (payrollOperations_update (\<lambda>rows. rows @ [operationRow identity request periodId kind r]) mid))"

lemma recordedOutcome_replay:
  "find (\<lambda>x. op_operationId x = rq_operationId request) (payrollOperations d) = Some row \<Longrightarrow>
     replayOperation row (rq_requestHash request) = ok r \<Longrightarrow> recordedOutcome identity request kind change d r d"
  by (simp add: recordedOutcome_def)

lemma recordedOutcome_change:
  "find (\<lambda>x. op_operationId x = rq_operationId request) (payrollOperations mid) = None \<Longrightarrow> isObject r \<Longrightarrow> change d periodId mid \<Longrightarrow>
     recordedOutcome identity request kind change d r
       (auditLogs_update (\<lambda>rows. rows @ [log]) (payrollOperations_update (\<lambda>rows. rows @ [operationRow identity request periodId kind r]) mid))"
  unfolding recordedOutcome_def by blast

lemma serializePeriod_object: "serializePeriod row summary refs batch = ok r \<Longrightarrow> isObject r"
  by (auto simp: serializePeriod_def bindR_ok isObject_def)

text \<open>The change \<open>createPeriod\<close> makes.\<close>

definition periodAdded :: "string \<Rightarrow> database \<Rightarrow> string \<Rightarrow> database \<Rightarrow> bool" where
  "periodAdded tenantId d periodId d' \<longleftrightarrow>
     (\<exists>p. pp_id p = periodId \<and> pp_tenantId p = tenantId \<and> pp_status p = PERIOD_OPEN \<and> pp_revision p = 0
       \<and> \<not> list_ex (overlaps tenantId (pp_startsAt p) (pp_endsAt p)) (payrollPeriods d)
       \<and> \<not> list_ex (periodClash p) (payrollPeriods d)
       \<and> d' = payrollPeriods_update (\<lambda>rows. rows @ [p]) d)"

lemma periodAddedI:
  "pp_id p = periodId \<Longrightarrow> pp_tenantId p = tenantId \<Longrightarrow> pp_status p = PERIOD_OPEN \<Longrightarrow> pp_revision p = 0 \<Longrightarrow>
    \<not> list_ex (overlaps tenantId (pp_startsAt p) (pp_endsAt p)) (payrollPeriods d) \<Longrightarrow> \<not> list_ex (periodClash p) (payrollPeriods d) \<Longrightarrow>
    periodAdded tenantId d periodId (payrollPeriods_update (\<lambda>rows. rows @ [p]) d)"
  by (auto simp: periodAdded_def)

lemma sat_createPeriodBody:
  assumes "readsOnly cur"
  shows "sat d (createPeriodBody E identity localStartDate request cur)
    (recordedOutcome identity request PERIOD_CREATE (periodAdded (id_tenantId identity)) d)"
  unfolding createPeriodBody_def periodTable_def
  apply (intro tx_rules TrueI post_cur [OF assms])
   apply (unfold fst_conv snd_conv)
   apply (rule recordedOutcome_change; (rule periodAddedI)?; simp add: serializePeriod_object)
  apply (rule recordedOutcome_replay; simp)
  done
section \<open>Review\<close>

definition reviewStarted :: "string \<Rightarrow> int \<Rightarrow> database \<Rightarrow> string \<Rightarrow> database \<Rightarrow> bool" where
  "reviewStarted tenantId expectedRevision d periodId d' \<longleftrightarrow>
     (\<exists>actorId startedAt updatedAt. length (filter (reviewTarget tenantId periodId expectedRevision) (payrollPeriods d)) = 1
       \<and> d' = payrollPeriods_update (updateWhere (reviewTarget tenantId periodId expectedRevision) (reviewRow actorId startedAt updatedAt)) d)"

lemma reviewStartedI:
  "length (filter (reviewTarget tenantId periodId expectedRevision) (payrollPeriods d)) = 1 \<Longrightarrow>
     reviewStarted tenantId expectedRevision d periodId
       (payrollPeriods_update (updateWhere (reviewTarget tenantId periodId expectedRevision) (reviewRow actorId startedAt updatedAt)) d)"
  by (auto simp: reviewStarted_def)

lemma sat_startReviewBody:
  assumes "readsOnly cur"
  shows "sat d (startReviewBody E identity periodId expectedRevision request cur)
    (recordedOutcome identity request REVIEW_OP (reviewStarted (id_tenantId identity) expectedRevision) d)"
  unfolding startReviewBody_def periodTable_def
  apply (intro tx_rules TrueI post_cur [OF assms] post_reads post_any [OF readsOnly_lockPayrollCandidateCards])
   apply (unfold fst_conv snd_conv)
   apply (rule recordedOutcome_change; (simp add: serializePeriod_object)?)
   apply (rule reviewStartedI, simp)
  apply (rule recordedOutcome_replay; simp)
  done

section \<open>Adoption\<close>

text \<open>The rows the loop has reached are adopted, the others are as they were.\<close>

definition adoptedRow :: "string \<Rightarrow> string \<Rightarrow> string set \<Rightarrow> timeCard \<Rightarrow> timeCard \<Rightarrow> bool" where
  "adoptedRow tenantId periodId ids r r' \<longleftrightarrow>
     (if tc_id r \<in> ids
      then tc_tenantId r = tenantId \<and> tc_payrollPeriodId r = None \<and> tc_status r = CARD_CLOSED \<and> tc_deletedAt r = None
        \<and> (\<exists>t. r' = adoptRow periodId t r)
      else r' = r)"

lemma adoptedRow_id: "adoptedRow tenantId periodId ids r r' \<Longrightarrow> tc_id r' = tc_id r"
  by (auto simp: adoptedRow_def adoptRow_def split: if_splits)

lemma list_all2_updateWhere: "list_all2 (\<lambda>r r'. r' = (if P r then f r else r)) rows (updateWhere P f rows)"
  by (simp add: updateWhere_def list.rel_map list_all2_refl)

lemma distinct_filter_one:
  assumes "distinct (map f rows)" and "length (filter P rows) = 1" and "\<And>r. P r \<Longrightarrow> f r = k" and "r \<in> set rows" and "f r = k"
  shows "P r"
proof -
  obtain s where s: "filter P rows = [s]" using assms(2) by (cases "filter P rows") auto
  then have "s \<in> set (filter P rows)" by simp
  then have "s \<in> set rows" "P s" by simp_all
  then have "f s = f r" using assms(3,5) by simp
  then show ?thesis using assms(1,4) \<open>s \<in> set rows\<close> \<open>P s\<close> by (auto simp: distinct_map dest: inj_onD)
qed

lemma timeCards_const: "timeCards_update f d = timeCards_update (\<lambda>_. f (timeCards d)) d"
  by (cases d) simp

lemma sat_adoptCard:
  assumes "readsOnly cur" and "distinct (map tc_id (timeCards d))"
  shows "sat d (adoptCard E tenantId expectedById period cur c) (\<lambda>_ d'. \<exists>rows. d' = timeCards_update (\<lambda>_. rows) d
    \<and> list_all2 (adoptedRow tenantId (pp_id period) {tc_id c}) (timeCards d) rows)"
  unfolding adoptCard_def cardTable_def
  apply (intro tx_rules TrueI post_cur [OF assms(1)])
  apply (unfold fst_conv snd_conv)
  subgoal premises prems for t
  proof -
    let ?P = "adoptTarget tenantId c (expectedById (tc_id c))"
    have "?P r" if "r \<in> set (timeCards d)" "tc_id r = tc_id c" for r
      by (rule distinct_filter_one [OF assms(2) prems _ that]) (simp add: adoptTarget_def)
    then have "list_all2 (adoptedRow tenantId (pp_id period) {tc_id c}) (timeCards d) (updateWhere ?P (adoptRow (pp_id period) t) (timeCards d))"
      unfolding updateWhere_def list.rel_map by (intro list.rel_refl_strong) (auto simp: adoptedRow_def adoptTarget_def)
    then show ?thesis by (intro exI conjI) (rule timeCards_const)
  qed
  done

lemma adoptedRow_compose:
  assumes "adoptedRow tenantId periodId A r s" and "adoptedRow tenantId periodId B s t" and "A \<inter> B = {}"
  shows "adoptedRow tenantId periodId (A \<union> B) r t"
proof (cases "tc_id r \<in> A")
  case True
  then have "tc_id r \<notin> B" using assms(3) by auto
  then show ?thesis using assms True adoptedRow_id [OF assms(1)] by (auto simp: adoptedRow_def)
next
  case False
  then show ?thesis using assms by (auto simp: adoptedRow_def)
qed

lemma adoptedRows_ids: "list_all2 (adoptedRow tenantId periodId ids) xs ys \<Longrightarrow> map tc_id ys = map tc_id xs"
  by (induction rule: list_all2_induct) (auto dest: adoptedRow_id)

lemma sat_adoptLoop:
  assumes "readsOnly cur" and "distinct (map tc_id (timeCards d))" and "distinct (map tc_id cs)"
  shows "sat d (eachT (adoptCard E tenantId expectedById period cur) cs) (\<lambda>_ d'. \<exists>rows. d' = timeCards_update (\<lambda>_. rows) d
    \<and> list_all2 (adoptedRow tenantId (pp_id period) (tc_id ` set cs)) (timeCards d) rows)"
  using assms(2,3)
proof (induction cs arbitrary: d)
  case Nil
  have "timeCards_update (\<lambda>_. timeCards d) d = d" by simp
  moreover have "list_all2 (adoptedRow tenantId (pp_id period) {}) (timeCards d) (timeCards d)"
    by (rule list.rel_refl_strong) (simp add: adoptedRow_def)
  ultimately show ?case by (auto intro!: post_return exI [of _ "timeCards d"])
next
  case (Cons c cs)
  show ?case
    unfolding eachT.simps
  proof (rule post_then, rule post_weaken [OF sat_adoptCard [OF assms(1) Cons.prems(1)]])
    fix d1
    assume "\<exists>rows. d1 = timeCards_update (\<lambda>_. rows) d \<and> list_all2 (adoptedRow tenantId (pp_id period) {tc_id c}) (timeCards d) rows"
    then obtain rows where d1: "d1 = timeCards_update (\<lambda>_. rows) d"
      and 1: "list_all2 (adoptedRow tenantId (pp_id period) {tc_id c}) (timeCards d) rows" by blast
    have "distinct (map tc_id (timeCards d1))" using d1 adoptedRows_ids [OF 1] Cons.prems(1) by simp
    then show "sat d1 (eachT (adoptCard E tenantId expectedById period cur) cs) (\<lambda>_ d'. \<exists>rows. d' = timeCards_update (\<lambda>_. rows) d
        \<and> list_all2 (adoptedRow tenantId (pp_id period) (tc_id ` set (c # cs))) (timeCards d) rows)"
    proof (rule post_weaken [OF Cons.IH])
      fix d2
      assume "\<exists>rows. d2 = timeCards_update (\<lambda>_. rows) d1 \<and> list_all2 (adoptedRow tenantId (pp_id period) (tc_id ` set cs)) (timeCards d1) rows"
      then obtain rows' where d2: "d2 = timeCards_update (\<lambda>_. rows') d"
        and 2: "list_all2 (adoptedRow tenantId (pp_id period) (tc_id ` set cs)) rows rows'" using d1 by auto
      have "list_all2 (adoptedRow tenantId (pp_id period) ({tc_id c} \<union> tc_id ` set cs)) (timeCards d) rows'"
        by (rule list_all2_trans [OF _ 1 2]) (rule adoptedRow_compose, use Cons.prems(2) in auto)
      then show "\<exists>rows. d2 = timeCards_update (\<lambda>_. rows) d
          \<and> list_all2 (adoptedRow tenantId (pp_id period) (tc_id ` set (c # cs))) (timeCards d) rows"
        using d2 by (intro exI conjI) simp_all
    qed (use Cons.prems(2) in simp_all)
  qed simp
qed

definition insidePeriod :: "payrollPeriod \<Rightarrow> timeCard \<Rightarrow> bool" where
  "insidePeriod p c \<longleftrightarrow> pp_startsAt p \<le> tc_clockInAt c \<and> (\<exists>t. tc_clockOutAt c = Some t \<and> t \<le> pp_endsAt p)"

definition cardsAdopted :: "string \<Rightarrow> database \<Rightarrow> string \<Rightarrow> database \<Rightarrow> bool" where
  "cardsAdopted tenantId d periodId d' \<longleftrightarrow>
     (\<exists>p rows ids. p \<in> set (payrollPeriods d) \<and> pp_id p = periodId \<and> pp_tenantId p = tenantId \<and> pp_status p = PERIOD_OPEN
       \<and> (\<forall>c \<in> set (timeCards d). tc_id c \<in> ids \<longrightarrow> insidePeriod p c)
       \<and> list_all2 (adoptedRow tenantId periodId ids) (timeCards d) rows \<and> d' = timeCards_update (\<lambda>_. rows) d)"

lemma adoptable_inside: "adoptable expectedById p c = ok () \<Longrightarrow> insidePeriod p c"
  by (auto simp: adoptable_def insidePeriod_def bindR_ok checkR_ok split: option.splits)

lemma distinct_found: "distinct (map f rows) \<Longrightarrow> distinct (map f (findMany P le rows))"
  by (simp add: findMany_def distinct_map_filter)

lemma found_unique:
  assumes "distinct (map f rows)" and "c \<in> set rows" and "f c \<in> f ` set (findMany P le rows)"
  shows "c \<in> set (findMany P le rows)"
  using assms by (auto simp: findMany_def distinct_map dest: inj_onD)

lemma cardsAdoptedI:
  assumes "p \<in> set (payrollPeriods d)" "pp_tenantId p = tenantId" "pp_id p = periodId" "pp_status p = PERIOD_OPEN"
    and "distinct (map tc_id (timeCards d))"
    and "eachR (adoptable expectedById p) (findMany P le (timeCards d)) = ok x"
    and "list_all2 (adoptedRow tenantId periodId (tc_id ` set (findMany P le (timeCards d)))) (timeCards d) rows"
  shows "cardsAdopted tenantId d periodId (timeCards_update (\<lambda>_. rows) d)"
proof -
  have "insidePeriod p c" if "c \<in> set (timeCards d)" "tc_id c \<in> tc_id ` set (findMany P le (timeCards d))" for c
    using assms(6) found_unique [OF assms(5) that] by (auto simp: eachR_ok intro: adoptable_inside)
  then show ?thesis using assms unfolding cardsAdopted_def by blast
qed

lemma sat_adoptCardsBody:
  assumes "readsOnly cur" and "distinct (map tc_id (timeCards d))"
  shows "sat d (adoptCardsBody E identity periodId cards request cur)
    (recordedOutcome identity request ADOPT (cardsAdopted (id_tenantId identity)) d)"
  unfolding adoptCardsBody_def
  apply (intro tx_rules TrueI post_cur [OF assms(1)] post_weaken [OF sat_adoptLoop [OF assms distinct_found [OF assms(2)]]])
   apply (elim exE conjE)
   apply (rule recordedOutcome_change; (simp add: isObject_def)?)
   apply (rule cardsAdoptedI [OF _ _ _ _ assms(2)]; assumption)
  apply (rule recordedOutcome_replay; simp)
  done

section \<open>Decisions\<close>

definition decisionRow :: "sessionIdentity \<Rightarrow> string \<Rightarrow> cardDecision \<Rightarrow> cardApproval \<Rightarrow> bool" where
  "decisionRow identity periodId x a \<longleftrightarrow> ap_tenantId a = id_tenantId identity \<and> ap_periodId a = periodId
     \<and> ap_timeCardId a = cx_timeCardId x \<and> ap_timeCardRevision a = cx_expectedRevision x \<and> ap_decision a = cx_decision x
     \<and> ap_decidedByUserId a = id_sub identity"

lemma sat_recordDecision:
  assumes "readsOnly cur"
  shows "sat d (recordDecision E identity periodId request cur x) (\<lambda>a d'.
    d' = cardApprovals_update (\<lambda>rows. rows @ [a]) d \<and> decisionRow identity periodId x a)"
  unfolding recordDecision_def approvalTable_def
  apply (intro tx_rules TrueI post_cur [OF assms])
  apply (unfold fst_conv snd_conv)
  apply (intro conjI refl)
  apply (simp add: decisionRow_def)
  done

lemma sat_recordDecisions:
  assumes "readsOnly cur"
  shows "sat d (mapT (recordDecision E identity periodId request cur) xs) (\<lambda>new d'.
    d' = cardApprovals_update (\<lambda>rows. rows @ new) d \<and> list_all2 (decisionRow identity periodId) xs new)"
proof (induction xs arbitrary: d)
  case Nil
  show ?case by (auto intro!: post_return)
next
  case (Cons x xs)
  show ?case
    unfolding mapT.simps
    apply (rule post_bind, rule post_weaken [OF sat_recordDecision [OF assms]])
     apply (rule post_bind, rule post_weaken [OF Cons.IH])
      apply (rule post_return)
      apply (auto simp: comp_def)
    done
qed

definition decidedBy :: "sessionIdentity \<Rightarrow> database \<Rightarrow> string \<Rightarrow> cardApproval \<Rightarrow> bool" where
  "decidedBy identity d periodId a \<longleftrightarrow> ap_tenantId a = id_tenantId identity \<and> ap_periodId a = periodId
     \<and> ap_decidedByUserId a = id_sub identity
     \<and> (\<exists>c \<in> set (timeCards d). tc_id c = ap_timeCardId a \<and> tc_revision c = ap_timeCardRevision a
          \<and> tc_tenantId c = id_tenantId identity \<and> tc_payrollPeriodId c = Some periodId
          \<and> tc_status c = CARD_CLOSED \<and> tc_deletedAt c = None \<and> tc_userId c \<noteq> id_sub identity)
     \<and> \<not> (\<exists>b \<in> set (cardApprovals d). ap_tenantId b = ap_tenantId a \<and> ap_timeCardId b = ap_timeCardId a
          \<and> ap_timeCardRevision b = ap_timeCardRevision a)"

definition cardsDecided :: "sessionIdentity \<Rightarrow> database \<Rightarrow> string \<Rightarrow> database \<Rightarrow> bool" where
  "cardsDecided identity d periodId d' \<longleftrightarrow>
     (\<exists>p new. p \<in> set (payrollPeriods d) \<and> pp_id p = periodId \<and> pp_tenantId p = id_tenantId identity \<and> pp_status p = PERIOD_REVIEW
       \<and> list_all (decidedBy identity d periodId) new \<and> d' = cardApprovals_update (\<lambda>rows. rows @ new) d)"

text \<open>As many cards as decisions, with different identifiers, all of them asked for: then every decision has
  its card, and no card has two.\<close>

lemma decisions_covered:
  assumes "distinct (map f found)" and "f ` set found \<subseteq> set keys" and "length found = length keys"
  shows "distinct keys \<and> f ` set found = set keys"
proof -
  have c: "card (f ` set found) = length found" by (metis assms(1) distinct_card length_map list.set_map)
  moreover have "card (set keys) \<le> length keys" by (rule card_length)
  moreover have "card (f ` set found) \<le> card (set keys)" by (rule card_mono) (use assms(2) in auto)
  ultimately have k: "card (set keys) = length keys" using assms(3) by simp
  moreover have "f ` set found = set keys" by (rule card_subset_eq) (use assms(2,3) c k in auto)
  ultimately show ?thesis by (simp add: card_distinct)
qed

lemma list_all2_source: "list_all2 P xs ys \<Longrightarrow> y \<in> set ys \<Longrightarrow> \<exists>x \<in> set xs. P x y"
  by (induction rule: list_all2_induct) auto

lemma decided_card:
  assumes "distinct (map tc_id (timeCards d))"
    and found: "found = findMany (\<lambda>c. tc_tenantId c = id_tenantId identity \<and> tc_payrollPeriodId c = Some periodId
           \<and> tc_id c \<in> cx_timeCardId ` set decisions) le (timeCards d)"
    and "length found = length decisions"
    and "eachR (decidable (jsMap (map (\<lambda>x. (cx_timeCardId x, x)) decisions)) (id_sub identity)) found = ok u"
    and none: "\<not> list_ex (\<lambda>a. ap_tenantId a = id_tenantId identity \<and> list_ex (\<lambda>x. ap_timeCardId a = cx_timeCardId x
             \<and> ap_timeCardRevision a = cx_expectedRevision x) decisions) (cardApprovals d)"
    and x: "x \<in> set decisions" and a: "decisionRow identity periodId x a"
  shows "decidedBy identity d periodId a"
proof -
  have "distinct (map tc_id found)" using assms(1) by (simp add: found distinct_found)
  moreover have "tc_id ` set found \<subseteq> set (map cx_timeCardId decisions)" by (auto simp: found findMany_def)
  ultimately have dist: "distinct (map cx_timeCardId decisions)" and all: "tc_id ` set found = set (map cx_timeCardId decisions)"
    using decisions_covered [of tc_id found "map cx_timeCardId decisions"] assms(3) by auto
  then obtain c where c: "c \<in> set found" "tc_id c = cx_timeCardId x" using x by force
  have "jsMap (map (\<lambda>x. (cx_timeCardId x, x)) decisions) (tc_id c) = Some x"
    by (rule jsMap_distinct) (use dist x c in \<open>auto simp: comp_def\<close>)
  then have "tc_status c = CARD_CLOSED \<and> tc_deletedAt c = None \<and> tc_revision c = cx_expectedRevision x \<and> tc_userId c \<noteq> id_sub identity"
    using assms(4) c by (auto simp: eachR_ok decidable_def bindR_ok checkR_ok)
  moreover have "c \<in> set (timeCards d) \<and> tc_tenantId c = id_tenantId identity \<and> tc_payrollPeriodId c = Some periodId"
    using c by (auto simp: found findMany_def)
  ultimately show ?thesis using c a x none by (auto simp: decidedBy_def decisionRow_def list_ex_iff)
qed

lemma cardsDecidedI:
  assumes "p \<in> set (payrollPeriods d)" "pp_tenantId p = id_tenantId identity" "pp_id p = periodId" "pp_status p = PERIOD_REVIEW"
    and "distinct (map tc_id (timeCards d))"
    and "found = findMany (\<lambda>c. tc_tenantId c = id_tenantId identity \<and> tc_payrollPeriodId c = Some periodId
           \<and> tc_id c \<in> cx_timeCardId ` set decisions) le (timeCards d)"
    and "length found = length decisions"
    and "eachR (decidable (jsMap (map (\<lambda>x. (cx_timeCardId x, x)) decisions)) (id_sub identity)) found = ok u"
    and "\<not> list_ex (\<lambda>a. ap_tenantId a = id_tenantId identity \<and> list_ex (\<lambda>x. ap_timeCardId a = cx_timeCardId x
             \<and> ap_timeCardRevision a = cx_expectedRevision x) decisions) (cardApprovals d)"
    and "list_all2 (decisionRow identity periodId) decisions new"
  shows "cardsDecided identity d periodId (cardApprovals_update (\<lambda>rows. rows @ new) d)"
proof -
  have "decidedBy identity d periodId a" if a: "a \<in> set new" for a
  proof -
    obtain x where "x \<in> set decisions" "decisionRow identity periodId x a"
      using list_all2_source [OF assms(10) a] by blast
    then show ?thesis by (rule decided_card [OF assms(5-9)])
  qed
  then have "list_all (decidedBy identity d periodId) new" by (simp add: list_all_iff)
  then show ?thesis unfolding cardsDecided_def
    by (intro exI [of _ p] exI [of _ new] conjI assms(1-4) refl)
qed

lemma sat_decideCardsBody:
  assumes "readsOnly cur" and "distinct (map tc_id (timeCards d))"
  shows "sat d (decideCardsBody E identity periodId decisions request cur)
    (recordedOutcome identity request APPROVAL (cardsDecided identity) d)"
  unfolding decideCardsBody_def
  apply (intro tx_rules TrueI post_cur [OF assms(1)] post_weaken [OF sat_recordDecisions [OF assms(1)]])
   apply (elim exE conjE)
   apply (rule recordedOutcome_change; (simp add: isObject_def)?)
   apply (rule cardsDecidedI [OF _ _ _ _ assms(2) refl]; assumption)
  apply (rule recordedOutcome_replay; simp)
  done

section \<open>The lock\<close>

lemma showInt_no_colon: "CHR '':'' \<notin> set (showInt n)"
proof
  assume "CHR '':'' \<in> set (showInt n)"
  then have "CHR '':'' \<in> set (showNat (if n < 0 then - n else n))" by (auto simp: showInt_def split: if_splits)
  then have "isDigit (CHR '':'')" using showNat_digits [of "if n < 0 then - n else n"] by (auto simp: isDigits_def list_all_iff)
  then show False by (simp add: isDigit_def codeUnit_def)
qed

lemma cardRevisionKey_inj: "cardRevisionKey i m = cardRevisionKey j n \<Longrightarrow> i = j \<and> m = n"
proof -
  have split: "takeWhile (\<lambda>c. c \<noteq> CHR '':'') (rev (cardRevisionKey i m)) = rev (showInt m)" for i m
    using showInt_no_colon [of m] by (auto simp: cardRevisionKey_def takeWhile_append)
  assume eq: "cardRevisionKey i m = cardRevisionKey j n"
  then have "rev (showInt m) = rev (showInt n)" using split [of i m] split [of j n] by simp
  then have "m = n" using showInt_inj by simp
  then show ?thesis using eq by (simp add: cardRevisionKey_def)
qed

text \<open>A set of candidate cards a period may be reviewed or locked with.\<close>

lemma validate_ok:
  assumes "validatePayrollCandidateCards E cards period = ok assigned"
  shows "assigned = cards"
    and "c \<in> set cards \<Longrightarrow> tc_status c = CARD_CLOSED \<and> tc_deletedAt c = None \<and> tc_payrollPeriodId c = Some (pp_id period)
      \<and> insidePeriod period c \<and> trim (tc_userId c) \<noteq> [] \<and> (\<exists>tz. normalizeTimeZone E (tc_workTimeZone c) = ok tz)"
proof -
  have all: "assigned = filter (\<lambda>c. tc_payrollPeriodId c = Some (pp_id period)) cards" "\<forall>c \<in> set cards. tc_payrollPeriodId c = Some (pp_id period)"
    using assms by (auto simp: validatePayrollCandidateCards_def Let_def bindR_ok checkR_ok list_ex_iff)
  then show "assigned = cards" by simp
  assume "c \<in> set cards"
  then show "tc_status c = CARD_CLOSED \<and> tc_deletedAt c = None \<and> tc_payrollPeriodId c = Some (pp_id period)
      \<and> insidePeriod period c \<and> trim (tc_userId c) \<noteq> [] \<and> (\<exists>tz. normalizeTimeZone E (tc_workTimeZone c) = ok tz)"
    using assms all
    by (force simp: validatePayrollCandidateCards_def Let_def bindR_ok checkR_ok list_ex_iff eachR_ok insidePeriod_def split: option.splits)
qed

text \<open>What makes a source payable: a closed card of the period inside its window whose current revision is
  approved, with its worked minutes, or an approved amendment that adjusts the period, with its delta.\<close>

definition approvedCard :: "string \<Rightarrow> payrollPeriod \<Rightarrow> database \<Rightarrow> timeCard \<Rightarrow> lockedEntrySource \<Rightarrow> bool" where
  "approvedCard tenantId p d c s \<longleftrightarrow> c \<in> set (timeCards d) \<and> tc_tenantId c = tenantId \<and> tc_payrollPeriodId c = Some (pp_id p)
     \<and> tc_status c = CARD_CLOSED \<and> tc_deletedAt c = None \<and> insidePeriod p c
     \<and> ls_sourceType s = TIME_CARD \<and> ls_sourceId s = tc_id c \<and> ls_sourceRevision s = tc_revision c \<and> ls_employeeId s = tc_userId c
     \<and> payrollWorkedMinutes (Some (tc_clockInAt c)) (tc_clockOutAt c) (tc_breakMinutes c) = ok (ls_payableMinutes s)
     \<and> (\<exists>a \<in> set (cardApprovals d). ap_tenantId a = tenantId \<and> ap_periodId a = pp_id p \<and> ap_timeCardId a = tc_id c
          \<and> ap_timeCardRevision a = tc_revision c \<and> ap_decision a = APPROVED \<and> ls_approvedByUserId s = ap_decidedByUserId a)"

definition approvedAmendment :: "string \<Rightarrow> payrollPeriod \<Rightarrow> database \<Rightarrow> amendment \<Rightarrow> lockedEntrySource \<Rightarrow> bool" where
  "approvedAmendment tenantId p d a s \<longleftrightarrow> a \<in> set (amendments d) \<and> am_tenantId a = tenantId \<and> am_adjustmentPeriodId a = pp_id p
     \<and> ls_sourceType s = AMENDMENT \<and> ls_sourceId s = am_id a \<and> ls_payableMinutes s = am_minuteDelta a
     \<and> (\<exists>x \<in> set (amendmentDecisions d). ad_tenantId x = tenantId \<and> ad_amendmentId x = am_id a \<and> ad_decision x = APPROVED
          \<and> ls_approvedByUserId s = ad_decidedByUserId x)"

lemma sat_lockPayrollCandidateCards:
  "sat d (lockPayrollCandidateCards tenantId period) (\<lambda>cards d'. d' = d
     \<and> set cards \<subseteq> {c \<in> set (timeCards d). tc_tenantId c = tenantId}
     \<and> {c \<in> set (timeCards d). tc_tenantId c = tenantId \<and> tc_payrollPeriodId c = Some (pp_id period)} \<subseteq> set cards)"
proof -
  have whole: "take (n + 1) xs = xs" if "length (take (n + 1) xs) \<le> n" for n and xs :: "'x list" using that by simp
  show ?thesis
    unfolding lockPayrollCandidateCards_def
    apply (intro tx_rules TrueI)
    apply (drule whole)
    apply (simp only: findMany_def)
    apply auto
    done
qed

lemma sat_approvedCardSources:
  assumes "\<And>c. c \<in> set cards \<Longrightarrow> c \<in> set (timeCards d) \<and> tc_tenantId c = tenantId \<and> tc_payrollPeriodId c = Some (pp_id p)
      \<and> tc_status c = CARD_CLOSED \<and> tc_deletedAt c = None \<and> insidePeriod p c"
  shows "sat d (approvedCardSources tenantId (pp_id p) cards breaksByCard) (\<lambda>sources d'. d' = d
    \<and> list_all2 (approvedCard tenantId p d) cards sources)"
proof -
  have "approvedCard tenantId p d c s"
    if c: "c \<in> set cards" and s: "approvedCardSource (jsMap (map (\<lambda>a. (cardRevisionKey (ap_timeCardId a) (ap_timeCardRevision a), a)) approvals)) breaksByCard c = ok s"
      and app: "set approvals \<subseteq> {a \<in> set (cardApprovals d). ap_tenantId a = tenantId \<and> ap_periodId a = pp_id p}" for c s approvals
  proof -
    obtain a where a: "jsMap (map (\<lambda>a. (cardRevisionKey (ap_timeCardId a) (ap_timeCardRevision a), a)) approvals)
        (cardRevisionKey (tc_id c) (tc_revision c)) = Some a" "ap_decision a = APPROVED"
      and rest: "payrollWorkedMinutes (Some (tc_clockInAt c)) (tc_clockOutAt c) (tc_breakMinutes c) = ok (ls_payableMinutes s)"
        "ls_sourceType s = TIME_CARD" "ls_sourceId s = tc_id c" "ls_sourceRevision s = tc_revision c" "ls_employeeId s = tc_userId c"
        "ls_approvedByUserId s = ap_decidedByUserId a"
      using s by (auto simp: approvedCardSource_def bindR_ok checkR_ok catchR_ok split: option.splits)
    from jsMap_SomeD [OF a(1)] have "a \<in> set approvals" "cardRevisionKey (ap_timeCardId a) (ap_timeCardRevision a) = cardRevisionKey (tc_id c) (tc_revision c)"
      by auto
    with cardRevisionKey_inj app have "a \<in> set (cardApprovals d) \<and> ap_tenantId a = tenantId \<and> ap_periodId a = pp_id p
        \<and> ap_timeCardId a = tc_id c \<and> ap_timeCardRevision a = tc_revision c" by blast
    then show ?thesis using assms [OF c] a rest by (auto simp: approvedCard_def)
  qed
  note source = this
  have all: "list_all2 (approvedCard tenantId p d) cards sources"
    if "mapR (approvedCardSource (jsMap (map (\<lambda>a. (cardRevisionKey (ap_timeCardId a) (ap_timeCardRevision a), a)) approvals)) breaksByCard) cards = ok sources"
      and "set approvals \<subseteq> {a \<in> set (cardApprovals d). ap_tenantId a = tenantId \<and> ap_periodId a = pp_id p}" for approvals sources
    by (rule list.rel_mono_strong [OF that(1) [unfolded mapR_ok]]) (rule source [OF _ _ that(2)])
  show ?thesis
    unfolding approvedCardSources_def
    apply (intro tx_rules TrueI conjI refl)
     apply simp
    apply (rule all)
     apply simp
    apply (auto simp: findMany_def dest: in_set_takeD)
    done
qed

lemma amendmentSource_ok:
  assumes "amendmentSource originalById decisionByAmendment a = ok s"
  obtains x where "decisionByAmendment (am_id a) = Some x" "ls_sourceType s = AMENDMENT" "ls_sourceId s = am_id a"
    "ls_payableMinutes s = am_minuteDelta a" "ls_approvedByUserId s = ad_decidedByUserId x"
  using assms by (auto simp: amendmentSource_def split: option.splits prod.splits)

lemma take_findMany: "set (take n (findMany P le rows)) \<subseteq> {r \<in> set rows. P r}"
  by (auto simp: findMany_def dest: in_set_takeD)

lemma sat_approvedAmendmentSources:
  "sat d (approvedAmendmentSources tenantId (pp_id p)) (\<lambda>sources d'. d' = d
     \<and> (\<exists>approved. list_all2 (approvedAmendment tenantId p d) approved sources))"
proof -
  have all: "\<exists>approved. list_all2 (approvedAmendment tenantId p d) approved sources"
    if "mapR (amendmentSource originalById decisionByAmendment) (filter (\<lambda>a. case decisionByAmendment (am_id a) of None \<Rightarrow> False | Some x \<Rightarrow> ad_decision x = APPROVED) found) = ok sources"
      and "decisionByAmendment = jsMap (map (\<lambda>x. (ad_amendmentId x, x)) decisions)"
      and "set decisions \<subseteq> {x \<in> set (amendmentDecisions d). ad_tenantId x = tenantId \<and> ad_amendmentId x \<in> am_id ` set found}"
      and "set found \<subseteq> {a \<in> set (amendments d). am_tenantId a = tenantId \<and> am_adjustmentPeriodId a = pp_id p}"
    for originalById decisionByAmendment found sources decisions
  proof (rule exI, rule list.rel_mono_strong [OF that(1) [unfolded mapR_ok]])
    fix a s
    assume a: "a \<in> set (filter (\<lambda>a. case decisionByAmendment (am_id a) of None \<Rightarrow> False | Some x \<Rightarrow> ad_decision x = APPROVED) found)"
      and "s \<in> set sources" and s: "amendmentSource originalById decisionByAmendment a = ok s"
    from s obtain x where x: "decisionByAmendment (am_id a) = Some x" "ls_sourceType s = AMENDMENT" "ls_sourceId s = am_id a"
      "ls_payableMinutes s = am_minuteDelta a" "ls_approvedByUserId s = ad_decidedByUserId x" by (rule amendmentSource_ok)
    have "(am_id a, x) \<in> set (map (\<lambda>x. (ad_amendmentId x, x)) decisions)" using x(1) that(2) by (auto dest: jsMap_SomeD)
    then show "approvedAmendment tenantId p d a s"
      using a x that(3,4) by (auto simp: approvedAmendment_def intro!: bexI [of _ x])
  qed
  show ?thesis
    unfolding approvedAmendmentSources_def
    apply (intro tx_rules TrueI conjI refl)
      apply (intro exI [of _ "[]"], simp)
     apply (intro exI [of _ "[]"], simp)
    apply (hypsubst, rule all, assumption, rule refl, rule take_findMany, rule take_findMany)
    done
qed

text \<open>The evidence behind a snapshot: each card assigned to the period gives one payable source, each source
  is payable, and the snapshot is what these sources materialize to.\<close>

definition evidence :: "env \<Rightarrow> string \<Rightarrow> payrollPeriod \<Rightarrow> database \<Rightarrow> snapshot \<Rightarrow> bool" where
  "evidence E tenantId p d snap \<longleftrightarrow>
     (\<exists>cards cardSources ams amendmentSources.
        set cards = {c \<in> set (timeCards d). tc_tenantId c = tenantId \<and> tc_payrollPeriodId c = Some (pp_id p)}
        \<and> list_all2 (approvedCard tenantId p d) cards cardSources \<and> list_all2 (approvedAmendment tenantId p d) ams amendmentSources
        \<and> materializeLockedSnapshots E tenantId (pp_id p) (cardSources @ amendmentSources) = ok snap)"

lemma sat_lockAndValidateBreaks: "sat d (lockAndValidateBreaks tenantId cards) (\<lambda>_ d'. d' = d)"
  unfolding lockAndValidateBreaks_def by (intro tx_rules TrueI refl)

lemma validated_cards:
  assumes "validatePayrollCandidateCards E candidates p = ok cards"
    and "set candidates \<subseteq> {c \<in> set (timeCards d). tc_tenantId c = tenantId}"
    and "{c \<in> set (timeCards d). tc_tenantId c = tenantId \<and> tc_payrollPeriodId c = Some (pp_id p)} \<subseteq> set candidates"
  shows "set cards = {c \<in> set (timeCards d). tc_tenantId c = tenantId \<and> tc_payrollPeriodId c = Some (pp_id p)}"
    and "c \<in> set cards \<Longrightarrow> c \<in> set (timeCards d) \<and> tc_tenantId c = tenantId \<and> tc_payrollPeriodId c = Some (pp_id p)
      \<and> tc_status c = CARD_CLOSED \<and> tc_deletedAt c = None \<and> insidePeriod p c"
  using validate_ok [OF assms(1)] assms(2,3) by auto

lemma sat_lockSnapshot: "sat d (lockSnapshot E tenantId p) (\<lambda>snap d'. d' = d \<and> evidence E tenantId p d snap)"
  unfolding lockSnapshot_def
  apply (rule post_bind, rule post_weaken [OF sat_lockPayrollCandidateCards])
   apply (elim conjE, hypsubst, rule post_bind, rule post_lift)
    apply (rule post_bind, rule post_weaken [OF sat_lockAndValidateBreaks])
     apply (hypsubst, rule post_bind, rule post_weaken [OF sat_approvedCardSources], erule (3) validated_cards(2))
      apply (elim conjE, hypsubst, rule post_bind, rule post_weaken [OF sat_approvedAmendmentSources])
       apply (elim conjE exE, hypsubst, intro tx_rules TrueI conjI refl)
       apply (unfold evidence_def catchR_ok)
       apply (intro exI conjI, erule (2) validated_cards(1), assumption, assumption, assumption)
      apply (rule TrueI)+
  done

text \<open>The rows of a snapshot.\<close>

definition entryOf :: "string \<Rightarrow> string \<Rightarrow> lockedEntry \<Rightarrow> lockedEntryRow \<Rightarrow> bool" where
  "entryOf tenantId periodId e r \<longleftrightarrow> en_tenantId r = tenantId \<and> en_periodId r = periodId \<and> en_sequence r = int (le_sequence e)
     \<and> en_sourceType r = ls_sourceType (le_source e) \<and> en_sourceId r = ls_sourceId (le_source e)
     \<and> en_sourceRevision r = ls_sourceRevision (le_source e) \<and> en_employeeId r = ls_employeeId (le_source e)
     \<and> en_payableMinutes r = ls_payableMinutes (le_source e) \<and> en_approvedByUserId r = ls_approvedByUserId (le_source e)
     \<and> en_canonicalSha256 r = le_canonicalSha256 e"

lemma sat_lockedEntryOf: "sat d (lockedEntryOf E tenantId periodId e) (\<lambda>r d'. d' = d \<and> entryOf tenantId periodId e r)"
  unfolding lockedEntryOf_def by (intro tx_rules TrueI) (simp add: entryOf_def)

lemma sat_createEntries:
  "sat d (createManyT entryTable entryClash rows) (\<lambda>_ d'. d' = lockedEntries_update (\<lambda>es. es @ rows) d)"
  using sat_createMany [of entryTable d entryClash rows] by (simp add: entryTable_def comp_def)

lemma sat_storeEntries:
  assumes "readsOnly cur"
  shows "sat d (storeEntries E tenantId periodId snap cur)
    (\<lambda>_ d'. \<exists>rows. list_all2 (entryOf tenantId periodId) (sn_entries snap) rows \<and> d' = lockedEntries_update (\<lambda>es. es @ rows) d)"
  unfolding storeEntries_def
  apply (intro post_if post_then post_bind post_return post_cur [OF assms] post_weaken [OF sat_mapT [OF sat_lockedEntryOf]]
      post_weaken [OF sat_createEntries] TrueI)
   apply auto
  done

lemma sat_lockPeriodRow:
  "sat d (lockPeriodRow E identity p expectedRevision request snap) (\<lambda>n d'.
     n = length (filter (lockTarget (id_tenantId identity) (pp_id p) expectedRevision) (payrollPeriods d))
     \<and> (\<exists>t u. d' = payrollPeriods_update (updateWhere (lockTarget (id_tenantId identity) (pp_id p) expectedRevision) (lockRow identity request snap t u)) d))"
  unfolding lockPeriodRow_def periodTable_def
  apply (intro tx_rules TrueI)
  apply (unfold fst_conv snd_conv)
  apply (hypsubst, intro conjI exI, rule refl, rule refl)
  done

definition periodLocked :: "env \<Rightarrow> sessionIdentity \<Rightarrow> requestIdentity \<Rightarrow> int \<Rightarrow> string \<Rightarrow> database \<Rightarrow> database \<Rightarrow> bool" where
  "periodLocked E identity request expectedRevision periodId d d' \<longleftrightarrow>
     (\<exists>p snap rows t u log. p \<in> set (payrollPeriods d) \<and> lockTarget (id_tenantId identity) periodId expectedRevision p
       \<and> length (filter (lockTarget (id_tenantId identity) periodId expectedRevision) (payrollPeriods d)) = 1
       \<and> evidence E (id_tenantId identity) p d snap \<and> list_all2 (entryOf (id_tenantId identity) periodId) (sn_entries snap) rows
       \<and> d' = auditLogs_update (\<lambda>ls. ls @ [log]) (payrollPeriods_update (updateWhere (lockTarget (id_tenantId identity) periodId expectedRevision)
            (lockRow identity request snap t u)) (lockedEntries_update (\<lambda>es. es @ rows) d)))"

lemma periodLockedI:
  assumes "p \<in> set (payrollPeriods d)" "pp_tenantId p = id_tenantId identity" "pp_id p = periodId" "pp_status p = PERIOD_REVIEW"
    "pp_revision p = expectedRevision" "evidence E (id_tenantId identity) p d snap"
    "list_all2 (entryOf (id_tenantId identity) periodId) (sn_entries snap) rows"
    "length (filter (lockTarget (id_tenantId identity) periodId expectedRevision) (payrollPeriods (lockedEntries_update (\<lambda>es. es @ rows) d))) = 1"
  shows "periodLocked E identity request expectedRevision periodId d (auditLogs_update (\<lambda>ls. ls @ [log])
      (payrollPeriods_update (updateWhere (lockTarget (id_tenantId identity) periodId expectedRevision) (lockRow identity request snap t u))
        (lockedEntries_update (\<lambda>es. es @ rows) d)))"
  unfolding periodLocked_def
  by (intro exI [of _ p] exI [of _ snap] exI [of _ rows] exI [of _ t] exI [of _ u] exI [of _ log] conjI assms refl)
    (use assms in \<open>simp_all add: lockTarget_def\<close>)

definition lockOutcome :: "env \<Rightarrow> sessionIdentity \<Rightarrow> requestIdentity \<Rightarrow> int \<Rightarrow> string \<Rightarrow> database \<Rightarrow> database \<Rightarrow> bool" where
  "lockOutcome E identity request expectedRevision periodId d d' \<longleftrightarrow>
     periodLocked E identity request expectedRevision periodId d d'
     \<or> d' = d \<and> (\<exists>p \<in> set (payrollPeriods d). pp_tenantId p = id_tenantId identity \<and> pp_id p = periodId \<and> pp_status p = PERIOD_LOCKED
         \<and> pp_lockOperationId p = Some (rq_operationId request) \<and> pp_lockRequestHash p = Some (rq_requestHash request))"

lemma sat_lockPeriodBody:
  assumes "readsOnly cur"
  shows "sat d (lockPeriodBody E identity periodId expectedRevision request cur) (\<lambda>_. lockOutcome E identity request expectedRevision periodId d)"
  unfolding lockPeriodBody_def
  apply (intro post_bind post_then post_let post_if post_requirePeriodById post_check post_now post_throw post_lift TrueI post_reads
      post_weaken [OF sat_lockSnapshot])
   apply (unfold lockOutcome_def)
   apply (rule disjI2, intro conjI bexI refl, simp_all only:)
  apply (elim conjE, hypsubst)
  apply (rule post_weaken [OF sat_storeEntries [OF assms]])
   apply (elim exE conjE, hypsubst)
   apply (intro post_bind post_then post_cur [OF assms] post_weaken [OF sat_lockPeriodRow] TrueI)
   apply (elim exE conjE, hypsubst)
   apply (intro tx_rules post_cur [OF assms] post_reads TrueI)
   apply (rule disjI1, rule periodLockedI; (assumption | simp only:)?)
  apply (rule TrueI)
  done

section \<open>Policies\<close>

definition policyAdded :: "string \<Rightarrow> database \<Rightarrow> policyVersion \<Rightarrow> bool" where
  "policyAdded tenantId d row \<longleftrightarrow> pv_tenantId row = tenantId
     \<and> pv_version row = (case latestPolicyRow tenantId d of None \<Rightarrow> 0 | Some l \<Rightarrow> pv_version l) + 1
     \<and> (case latestPolicyRow tenantId d of None \<Rightarrow> True | Some l \<Rightarrow> pv_timeZone row = pv_timeZone l)
     \<and> \<not> list_ex (policyClash row) (policyVersions d)"

definition policyOutcome :: "string \<Rightarrow> requestIdentity \<Rightarrow> database \<Rightarrow> database \<Rightarrow> bool" where
  "policyOutcome tenantId request d d' \<longleftrightarrow>
     d' = d \<and> (\<exists>row \<in> set (policyVersions d). pv_operationId row = rq_operationId request)
     \<or> (\<exists>row log. policyAdded tenantId d row \<and> d' = auditLogs_update (\<lambda>ls. ls @ [log]) (policyVersions_update (\<lambda>rows. rows @ [row]) d))"

lemma policyOutcome_added:
  "policyAdded tenantId d row \<Longrightarrow>
     policyOutcome tenantId request d (auditLogs_update (\<lambda>ls. ls @ [log]) (policyVersions_update (\<lambda>rows. rows @ [row]) d))"
  unfolding policyOutcome_def by (intro disjI2 exI conjI) (assumption | rule refl)+

lemma post_checkPolicyBoundary:
  assumes "\<And>l. latest = Some l \<Longrightarrow> pv_timeZone l = po_timeZone policy \<Longrightarrow> Q () d" and "latest = None \<Longrightarrow> Q () d"
  shows "sat d (checkPolicyBoundary E policy latest) Q"
  unfolding checkPolicyBoundary_def
  by (cases latest) (use assms in \<open>auto intro!: tx_rules\<close>)

lemma sat_createPolicyBody:
  assumes "readsOnly cur"
  shows "sat d (createPolicyBody E identity policy request cur) (\<lambda>_. policyOutcome (id_tenantId identity) request d)"
  unfolding createPolicyBody_def policyTable_def
  apply (intro tx_rules TrueI post_cur [OF assms] post_reads post_checkPolicyBoundary)
    apply (unfold fst_conv snd_conv)
    apply (rule policyOutcome_added, simp add: policyAdded_def)
   apply (rule policyOutcome_added, simp add: policyAdded_def)
  apply (auto simp: policyOutcome_def dest: find_SomeD)
  done

section \<open>The commands\<close>

text \<open>Each command ends as its transaction does, for some request identity and some resolved period.\<close>

lemma outcome_mapConflict: "outcome d m Q \<Longrightarrow> outcome d (mapConflict code m) Q"
  unfolding mapConflict_def by (erule outcome_catch) (auto intro!: tx_rules)

lemma outcome_createPolicy:
  "outcome d (createPolicy E who body key) (\<lambda>_ d'. \<exists>request. policyOutcome (id_tenantId (mutationIdentity who)) request d d')"
  unfolding createPolicy_def
  by (intro outcome_rules outcome_mapConflict outcome_runScope post_weaken [OF sat_createPolicyBody]) auto

lemma outcome_createPeriod:
  "outcome d (createPeriod E who localStartDate key) (\<lambda>r d'. \<exists>request.
     recordedOutcome (mutationIdentity who) request PERIOD_CREATE (periodAdded (id_tenantId (mutationIdentity who))) d r d')"
  unfolding createPeriod_def
  by (intro outcome_rules outcome_mapConflict outcome_runScope post_weaken [OF sat_createPeriodBody]) auto

lemma outcome_startReview:
  "outcome d (startReview E who publicId revision key) (\<lambda>r d'. \<exists>request.
     recordedOutcome (mutationIdentity who) request REVIEW_OP (reviewStarted (id_tenantId (mutationIdentity who)) revision) d r d')"
  unfolding startReview_def
  by (intro outcome_rules outcome_runScope post_weaken [OF sat_startReviewBody]) auto

lemma outcome_adoptCards:
  assumes "distinct (map tc_id (timeCards d))"
  shows "outcome d (adoptCards E who publicId body key) (\<lambda>r d'. \<exists>request.
     recordedOutcome (mutationIdentity who) request ADOPT (cardsAdopted (id_tenantId (mutationIdentity who))) d r d')"
  unfolding adoptCards_def
  by (intro outcome_rules outcome_mapConflict outcome_runScope post_weaken [OF sat_adoptCardsBody]) (auto simp: assms)

lemma outcome_decideCards:
  assumes "distinct (map tc_id (timeCards d))"
  shows "outcome d (decideCards E who publicId body key) (\<lambda>r d'. \<exists>request.
     recordedOutcome (mutationIdentity who) request APPROVAL (cardsDecided (mutationIdentity who)) d r d')"
  unfolding decideCards_def
  by (intro outcome_rules outcome_mapConflict outcome_runScope post_weaken [OF sat_decideCardsBody]) (auto simp: assms)

lemma outcome_lockPeriod:
  "outcome d (lockPeriod E who publicId revision key) (\<lambda>_ d'. \<exists>request periodId.
     lockOutcome E (mutationIdentity who) request revision periodId d d')"
  unfolding lockPeriod_def
  by (intro outcome_rules outcome_runScope post_weaken [OF sat_lockPeriodBody]) auto
end
