(* ===== verification/PayrollInvariants.thy ===== *)
theory PayrollInvariants
  imports PayrollLifecycle "HOL-Library.Sublist"
begin

text \<open>
  The invariant of the payroll tables and the relation between their states before and after a command:
  identifiers are keys, periods of a tenant do not overlap, a period has locked entries exactly when it
  is locked and then its count, total and digest are theirs; periods only advance from open over review
  to locked.
\<close>

section \<open>The invariant\<close>

definition periodsDisjoint :: "payrollPeriod list \<Rightarrow> bool" where
  "periodsDisjoint ps \<longleftrightarrow> sorted_wrt (\<lambda>p q. pp_tenantId p = pp_tenantId q \<longrightarrow> pp_endsAt p \<le> pp_startsAt q \<or> pp_endsAt q \<le> pp_startsAt p) ps"

definition entriesOf :: "database \<Rightarrow> string \<Rightarrow> lockedEntryRow list" where
  "entriesOf d periodId = filter (\<lambda>e. en_periodId e = periodId) (lockedEntries d)"

text \<open>The frozen totals of a period are those of its entries.\<close>

definition totalsMatch :: "env \<Rightarrow> payrollPeriod \<Rightarrow> lockedEntryRow list \<Rightarrow> bool" where
  "totalsMatch E p es \<longleftrightarrow> pp_lockedEntryCount p = Some (int (length es))
     \<and> (\<exists>n h. pp_totalPayableMinutes p = Some n \<and> n = sum_list (map en_payableMinutes es) \<and> pp_lockedEntrySha256 p = Some h
          \<and> payrollLockAggregateSha256 E (pp_tenantId p) (pp_id p) (map en_canonicalSha256 es) n = ok h)"

definition sealed :: "env \<Rightarrow> payrollPeriod \<Rightarrow> lockedEntryRow list \<Rightarrow> bool" where
  "sealed E p es \<longleftrightarrow> (if pp_status p = PERIOD_LOCKED then totalsMatch E p es else es = [])"

definition payrollInv :: "env \<Rightarrow> database \<Rightarrow> bool" where
  "payrollInv E d \<longleftrightarrow> distinct (map pp_id (payrollPeriods d)) \<and> distinct (map tc_id (timeCards d))
     \<and> periodsDisjoint (payrollPeriods d)
     \<and> list_all (\<lambda>e. en_periodId e \<in> pp_id ` set (payrollPeriods d)) (lockedEntries d)
     \<and> list_all (\<lambda>p. sealed E p (entriesOf d (pp_id p))) (payrollPeriods d)"

text \<open>The other tables do not matter.\<close>

lemma payrollInv_cong:
  "payrollPeriods d' = payrollPeriods d \<Longrightarrow> map tc_id (timeCards d') = map tc_id (timeCards d) \<Longrightarrow> lockedEntries d' = lockedEntries d \<Longrightarrow>
     payrollInv E d' = payrollInv E d"
  by (simp add: payrollInv_def entriesOf_def)

lemma periodAdded_inv:
  assumes "periodAdded tenantId d periodId d'" and "payrollInv E d"
  shows "payrollInv E d'"
proof -
  obtain p where p: "pp_tenantId p = tenantId" "pp_status p = PERIOD_OPEN"
      "\<not> list_ex (overlaps tenantId (pp_startsAt p) (pp_endsAt p)) (payrollPeriods d)" "\<not> list_ex (periodClash p) (payrollPeriods d)"
    and d': "d' = payrollPeriods_update (\<lambda>rows. rows @ [p]) d"
    using assms(1) by (auto simp: periodAdded_def)
  have fresh: "pp_id p \<notin> pp_id ` set (payrollPeriods d)" using p(4) by (auto simp: list_ex_iff periodClash_def)
  have "en_periodId e \<noteq> pp_id p" if "e \<in> set (lockedEntries d)" for e
    using assms(2) that fresh unfolding payrollInv_def list_all_iff by metis
  then have "entriesOf d (pp_id p) = []" by (simp add: entriesOf_def filter_empty_conv)
  then show ?thesis
    using assms(2) p(1-3) fresh unfolding d'
    by (auto simp: payrollInv_def entriesOf_def sealed_def list_all_iff list_ex_iff overlaps_def periodsDisjoint_def sorted_wrt_append)
qed

text \<open>Updating periods without touching keys and bounds.\<close>

lemma periodsDisjoint_updateWhere:
  assumes "\<And>p. pp_tenantId (f p) = pp_tenantId p \<and> pp_startsAt (f p) = pp_startsAt p \<and> pp_endsAt (f p) = pp_endsAt p"
  shows "periodsDisjoint (updateWhere P f ps) = periodsDisjoint ps"
proof -
  have "pp_tenantId (if P p then f p else p) = pp_tenantId p" "pp_startsAt (if P p then f p else p) = pp_startsAt p"
    "pp_endsAt (if P p then f p else p) = pp_endsAt p" for p using assms by auto
  then show ?thesis unfolding periodsDisjoint_def updateWhere_def sorted_wrt_map by simp
qed

lemma map_updateWhere_same: "(\<And>r. g (f r) = g r) \<Longrightarrow> map g (updateWhere P f rows) = map g rows"
  by (induction rows) (auto simp: updateWhere_def)

lemma reviewStarted_inv:
  assumes "reviewStarted tenantId revision d periodId d'" and "payrollInv E d"
  shows "payrollInv E d'"
proof -
  obtain a s u where d': "d' = payrollPeriods_update (updateWhere (reviewTarget tenantId periodId revision) (reviewRow a s u)) d"
    using assms(1) by (auto simp: reviewStarted_def)
  let ?ps = "updateWhere (reviewTarget tenantId periodId revision) (reviewRow a s u) (payrollPeriods d)"
  have ids: "map pp_id ?ps = map pp_id (payrollPeriods d)" by (rule map_updateWhere_same) (simp add: reviewRow_def)
  then have idset: "pp_id ` set ?ps = pp_id ` set (payrollPeriods d)" by (metis list.set_map)
  have "sealed E q (entriesOf d (pp_id q))" if "q \<in> set ?ps" for q
    using that assms(2) by (auto simp: updateWhere_def payrollInv_def list_all_iff sealed_def reviewRow_def reviewTarget_def split: if_splits)
  then show ?thesis
    using assms(2) ids idset periodsDisjoint_updateWhere [of "reviewRow a s u"] unfolding d'
    by (simp add: payrollInv_def entriesOf_def list_all_iff reviewRow_def)
qed

lemma cardsAdopted_inv: "cardsAdopted tenantId d periodId d' \<Longrightarrow> payrollInv E d \<Longrightarrow> payrollInv E d'"
  unfolding cardsAdopted_def by (elim exE conjE, hypsubst, subst payrollInv_cong [of _ d]) (simp_all add: adoptedRows_ids)

lemma cardsDecided_inv: "cardsDecided identity d periodId d' \<Longrightarrow> payrollInv E d \<Longrightarrow> payrollInv E d'"
  unfolding cardsDecided_def by (elim exE conjE, hypsubst, subst payrollInv_cong [of _ d]) simp_all

lemma policyOutcome_inv: "policyOutcome tenantId request d d' \<Longrightarrow> payrollInv E d \<Longrightarrow> payrollInv E d'"
  unfolding policyOutcome_def by (elim disjE exE conjE, simp, hypsubst, subst payrollInv_cong [of _ d]) simp_all

text \<open>The rows of a snapshot carry its count, total and digest.\<close>

lemma snapshot_rows:
  assumes "evidence E tenantId p d snap" and "list_all2 (entryOf tenantId (pp_id p)) (sn_entries snap) rows"
  shows "map en_canonicalSha256 rows = map le_canonicalSha256 (sn_entries snap)" "length rows = length (sn_entries snap)"
    "sum_list (map en_payableMinutes rows) = sn_totalPayableMinutes snap" "list_all (\<lambda>e. en_periodId e = pp_id p) rows"
    "payrollLockAggregateSha256 E tenantId (pp_id p) (map le_canonicalSha256 (sn_entries snap)) (sn_totalPayableMinutes snap) = ok (sn_aggregateSha256 snap)"
proof -
  obtain sources where m: "materializeLockedSnapshots E tenantId (pp_id p) sources = ok snap" using assms(1) by (auto simp: evidence_def)
  show "map en_canonicalSha256 rows = map le_canonicalSha256 (sn_entries snap)"
    using assms(2) by (induction rule: list_all2_induct) (auto simp: entryOf_def)
  show "length rows = length (sn_entries snap)" using assms(2) by (simp add: list_all2_lengthD)
  have "map en_payableMinutes rows = map ls_payableMinutes (map le_source (sn_entries snap))"
    using assms(2) by (induction rule: list_all2_induct) (auto simp: entryOf_def)
  then show "sum_list (map en_payableMinutes rows) = sn_totalPayableMinutes snap"
    by (simp add: materialize_sources(1) [OF m] materialize_total [OF m])
  show "list_all (\<lambda>e. en_periodId e = pp_id p) rows"
    using assms(2) by (induction rule: list_all2_induct) (auto simp: entryOf_def)
  show "payrollLockAggregateSha256 E tenantId (pp_id p) (map le_canonicalSha256 (sn_entries snap)) (sn_totalPayableMinutes snap) = ok (sn_aggregateSha256 snap)"
    using m by (rule materializeE)
qed

lemma lockRow_sealed:
  assumes "evidence E (pp_tenantId p) p d snap" and "list_all2 (entryOf (pp_tenantId p) (pp_id p)) (sn_entries snap) rows"
  shows "sealed E (lockRow identity request snap t u p) rows"
  using snapshot_rows [OF assms] by (simp add: sealed_def totalsMatch_def lockRow_def)

lemma periodLocked_inv:
  assumes "periodLocked E identity request revision periodId d d'" and "payrollInv E d"
  shows "payrollInv E d'"
proof -
  let ?T = "lockTarget (id_tenantId identity) periodId revision"
  obtain p snap rows t u log where p: "p \<in> set (payrollPeriods d)" "?T p"
    and ev: "evidence E (id_tenantId identity) p d snap" and rows: "list_all2 (entryOf (id_tenantId identity) periodId) (sn_entries snap) rows"
    and d': "d' = auditLogs_update (\<lambda>ls. ls @ [log]) (payrollPeriods_update (updateWhere ?T (lockRow identity request snap t u))
      (lockedEntries_update (\<lambda>es. es @ rows) d))"
    using assms(1) unfolding periodLocked_def by blast
  let ?ps = "updateWhere ?T (lockRow identity request snap t u) (payrollPeriods d)"
  have pid: "pp_id p = periodId" "pp_tenantId p = id_tenantId identity" "pp_status p = PERIOD_REVIEW" using p(2) by (simp_all add: lockTarget_def)
  have ids: "map pp_id ?ps = map pp_id (payrollPeriods d)" by (rule map_updateWhere_same) (simp add: lockRow_def)
  then have idset: "pp_id ` set ?ps = pp_id ` set (payrollPeriods d)" by (metis list.set_map)
  have only: "filter (\<lambda>e. en_periodId e = k) rows = (if k = periodId then rows else [])" for k
    using snapshot_rows(4) [of E "id_tenantId identity" p d snap rows] ev rows pid by (auto simp: list_all_iff filter_empty_conv filter_id_conv)
  have before: "entriesOf d periodId = []" using assms(2) p pid by (auto simp: payrollInv_def list_all_iff sealed_def)
  have sealed: "sealed E q (entriesOf d' (pp_id q))" if q: "q \<in> set ?ps" for q
  proof -
    obtain r where r: "r \<in> set (payrollPeriods d)" "q = (if ?T r then lockRow identity request snap t u r else r)"
      using q by (auto simp: updateWhere_def)
    have entries: "entriesOf d' (pp_id q) = entriesOf d (pp_id r) @ (if pp_id r = periodId then rows else [])"
      using r(2) only by (simp add: entriesOf_def d' lockRow_def)
    show ?thesis
    proof (cases "pp_id r = periodId")
      case True
      then have "r = p" using assms(2) r(1) p(1) pid(1) by (auto simp: payrollInv_def distinct_map dest: inj_onD)
      then show ?thesis using entries r(2) p(2) before pid lockRow_sealed [of E p d snap rows] ev rows by (auto simp: True)
    next
      case False
      then show ?thesis using entries r assms(2) by (auto simp: lockTarget_def payrollInv_def list_all_iff)
    qed
  qed
  have refs: "en_periodId e \<in> pp_id ` set (payrollPeriods d)" if "e \<in> set (lockedEntries d @ rows)" for e
    using that assms(2) p(1) pid(1) snapshot_rows(4) [of E "id_tenantId identity" p d snap rows] ev rows
    by (auto simp: payrollInv_def list_all_iff)
  show ?thesis
    using assms(2) sealed refs ids idset periodsDisjoint_updateWhere [of "lockRow identity request snap t u"]
    unfolding payrollInv_def by (simp add: d' list_all_iff lockRow_def)
qed

lemma recorded_inv:
  assumes "recordedOutcome identity request kind change d r d'" and "payrollInv E d"
    and "\<And>periodId mid. change d periodId mid \<Longrightarrow> payrollInv E mid"
  shows "payrollInv E d'"
  using assms(1) unfolding recordedOutcome_def
proof (elim disjE exE conjE)
  fix periodId log mid
  assume c: "change d periodId mid"
    and d': "d' = auditLogs_update (\<lambda>rows. rows @ [log]) (payrollOperations_update (\<lambda>rows. rows @ [operationRow identity request periodId kind r]) mid)"
  show ?thesis by (subst payrollInv_cong [of _ mid]) (simp_all add: d' assms(3) [OF c])
qed (use assms(2) in simp)

lemma lockOutcome_inv: "lockOutcome E identity request revision periodId d d' \<Longrightarrow> payrollInv E d \<Longrightarrow> payrollInv E d'"
  unfolding lockOutcome_def using periodLocked_inv by blast

section \<open>How the tables advance\<close>

fun statusRank :: "periodStatus \<Rightarrow> nat" where
  "statusRank PERIOD_OPEN = 0"
| "statusRank PERIOD_REVIEW = 1"
| "statusRank PERIOD_LOCKED = 2"

text \<open>A period keeps its identity and its bounds; it changes only by moving forward, with a new revision.\<close>

definition periodStep :: "payrollPeriod \<Rightarrow> payrollPeriod \<Rightarrow> bool" where
  "periodStep p q \<longleftrightarrow> pp_id q = pp_id p \<and> pp_publicId q = pp_publicId p \<and> pp_tenantId q = pp_tenantId p
     \<and> pp_policyVersionId q = pp_policyVersionId p \<and> pp_startsAt q = pp_startsAt p \<and> pp_endsAt q = pp_endsAt p
     \<and> (q = p \<or> statusRank (pp_status p) < statusRank (pp_status q) \<and> pp_revision p < pp_revision q)"

definition frozen :: "database \<Rightarrow> timeCard \<Rightarrow> bool" where
  "frozen d c \<longleftrightarrow> (\<exists>p \<in> set (payrollPeriods d). pp_status p = PERIOD_LOCKED \<and> pp_id p \<noteq> [] \<and> tc_payrollPeriodId c = Some (pp_id p))"

definition cardStep :: "database \<Rightarrow> timeCard \<Rightarrow> timeCard \<Rightarrow> bool" where
  "cardStep d c c' \<longleftrightarrow> tc_id c' = tc_id c \<and> (c' = c \<or> \<not> frozen d c)"

text \<open>Rows are only appended, and the rows that were there change only as the relation allows.\<close>

definition growsBy :: "('r \<Rightarrow> 'r \<Rightarrow> bool) \<Rightarrow> 'r list \<Rightarrow> 'r list \<Rightarrow> bool" where
  "growsBy R rows rows' \<longleftrightarrow> (\<exists>old new. rows' = old @ new \<and> list_all2 R rows old)"

definition evidenceKept :: "database \<Rightarrow> database \<Rightarrow> bool" where
  "evidenceKept d d' \<longleftrightarrow> prefix (policyVersions d) (policyVersions d') \<and> prefix (cardApprovals d) (cardApprovals d')
     \<and> prefix (lockedEntries d) (lockedEntries d') \<and> prefix (amendments d) (amendments d')
     \<and> prefix (amendmentDecisions d) (amendmentDecisions d') \<and> prefix (exportLines d) (exportLines d')
     \<and> prefix (receipts d) (receipts d') \<and> prefix (lineEvents d) (lineEvents d')
     \<and> prefix (payrollOperations d) (payrollOperations d') \<and> prefix (auditLogs d) (auditLogs d')
     \<and> prefix (creditTransactions d) (creditTransactions d')"

definition advance :: "database \<Rightarrow> database \<Rightarrow> bool" where
  "advance d d' \<longleftrightarrow> growsBy periodStep (payrollPeriods d) (payrollPeriods d') \<and> growsBy (cardStep d) (timeCards d) (timeCards d')
     \<and> (\<forall>c \<in> set (timeCards d). frozen d c \<longrightarrow>
          filter (\<lambda>b. tb_timeCardId b = tc_id c) (timeCardBreaks d') = filter (\<lambda>b. tb_timeCardId b = tc_id c) (timeCardBreaks d))
     \<and> evidenceKept d d'"

lemma growsBy_refl: "(\<And>r. R r r) \<Longrightarrow> growsBy R rows rows"
  unfolding growsBy_def by (intro exI [of _ rows] exI [of _ "[]"]) (simp add: list_all2_refl)

lemma growsBy_append: "(\<And>r. R r r) \<Longrightarrow> growsBy R rows (rows @ new)"
  unfolding growsBy_def by (intro exI [of _ rows] exI [of _ new]) (simp add: list_all2_refl)

lemma growsBy_all2: "list_all2 R rows rows' \<Longrightarrow> growsBy R rows rows'"
  unfolding growsBy_def by (intro exI [of _ rows'] exI [of _ "[]"]) simp

lemma growsBy_trans:
  assumes "growsBy R a b" and "growsBy S b c" and "\<And>x y z. x \<in> set a \<Longrightarrow> R x y \<Longrightarrow> S y z \<Longrightarrow> T x z"
  shows "growsBy T a c"
proof -
  obtain b1 b2 where b: "b = b1 @ b2" and ab: "list_all2 R a b1" using assms(1) by (auto simp: growsBy_def)
  obtain c1 c2 where c: "c = c1 @ c2" and bc: "list_all2 S (b1 @ b2) c1" using assms(2) b by (auto simp: growsBy_def)
  obtain c11 c12 where c1: "c1 = c11 @ c12" and b1: "list_all2 S b1 c11" using bc by (auto simp: list_all2_append1)
  have "list_all2 T a c11"
    using ab b1 assms(3) unfolding list_all2_conv_all_nth by (metis nth_mem)
  then show ?thesis using c c1 by (auto simp: growsBy_def)
qed

lemma list_all2_target: "list_all2 R xs ys \<Longrightarrow> x \<in> set xs \<Longrightarrow> \<exists>y \<in> set ys. R x y"
  by (induction rule: list_all2_induct) auto

lemma growsBy_mem: "growsBy R rows rows' \<Longrightarrow> r \<in> set rows \<Longrightarrow> \<exists>r' \<in> set rows'. R r r'"
  unfolding growsBy_def by (metis Un_iff list_all2_target set_append)

lemma periodStep_refl: "periodStep p p"
  by (simp add: periodStep_def)

lemma periodStep_trans: "periodStep p q \<Longrightarrow> periodStep q r \<Longrightarrow> periodStep p r"
  by (auto simp: periodStep_def)

lemma periodStep_locked: "periodStep p q \<Longrightarrow> pp_status p = PERIOD_LOCKED \<Longrightarrow> q = p"
  by (cases "pp_status q") (auto simp: periodStep_def)

lemma frozen_stays: "advance d d' \<Longrightarrow> frozen d c \<Longrightarrow> frozen d' c"
  unfolding advance_def frozen_def by (metis growsBy_mem periodStep_locked)

interpretation payroll_tables: preserved advance
proof
  fix d d' d'' :: database
  show "advance d d" by (simp add: advance_def evidenceKept_def growsBy_refl periodStep_refl cardStep_def)
  assume 1: "advance d d'" and 2: "advance d' d''"
  have "growsBy periodStep (payrollPeriods d) (payrollPeriods d'')"
    by (rule growsBy_trans [where R = periodStep and S = periodStep])
      (use 1 2 in \<open>auto simp: advance_def intro: periodStep_trans\<close>)
  moreover have "growsBy (cardStep d) (timeCards d) (timeCards d'')"
    by (rule growsBy_trans [where R = "cardStep d" and S = "cardStep d'"])
      (use 1 2 frozen_stays [OF 1] in \<open>auto simp: advance_def cardStep_def\<close>)
  moreover have "filter (\<lambda>b. tb_timeCardId b = tc_id c) (timeCardBreaks d'') = filter (\<lambda>b. tb_timeCardId b = tc_id c) (timeCardBreaks d)"
    if c: "c \<in> set (timeCards d)" "frozen d c" for c
  proof -
    obtain c' where "c' \<in> set (timeCards d')" "cardStep d c c'"
      using growsBy_mem [of "cardStep d" "timeCards d" "timeCards d'", OF _ c(1)] 1 by (auto simp: advance_def)
    then have "c \<in> set (timeCards d')" using c(2) by (auto simp: cardStep_def)
    then show ?thesis using 1 2 c frozen_stays [OF 1 c(2)] by (simp add: advance_def)
  qed
  moreover have "evidenceKept d d''"
    using 1 2 unfolding advance_def evidenceKept_def by (meson prefix_order.trans)
  ultimately show "advance d d''" by (simp add: advance_def)
qed

text \<open>A change that leaves cards alone, or periods alone, advances the rest.\<close>

lemma advanceI:
  "growsBy periodStep (payrollPeriods d) (payrollPeriods d') \<Longrightarrow> growsBy (cardStep d) (timeCards d) (timeCards d') \<Longrightarrow>
     timeCardBreaks d' = timeCardBreaks d \<Longrightarrow> evidenceKept d d' \<Longrightarrow> advance d d'"
  by (simp add: advance_def)

lemma cardStep_same: "growsBy (cardStep d) cs cs"
  by (rule growsBy_refl) (simp add: cardStep_def)

lemma periodStep_same: "growsBy periodStep ps ps"
  by (rule growsBy_refl) (rule periodStep_refl)

lemma growsBy_updateWhere: "(\<And>r. P r \<Longrightarrow> R r (f r)) \<Longrightarrow> (\<And>r. R r r) \<Longrightarrow> growsBy R rows (updateWhere P f rows)"
  by (rule growsBy_all2) (auto simp: updateWhere_def list.rel_map intro!: list.rel_refl_strong)

lemma periodAdded_advance: "periodAdded tenantId d periodId d' \<Longrightarrow> advance d d'"
  by (auto simp: periodAdded_def evidenceKept_def periodStep_refl cardStep_same intro!: advanceI growsBy_append)

lemma reviewStarted_advance: "reviewStarted tenantId revision d periodId d' \<Longrightarrow> advance d d'"
  by (auto simp: reviewStarted_def evidenceKept_def periodStep_def reviewTarget_def reviewRow_def cardStep_same
      intro!: advanceI growsBy_updateWhere)

lemma adoptedRow_step:
  "adoptedRow tenantId periodId ids c c' \<Longrightarrow> cardStep d c c'"
  by (auto simp: adoptedRow_def cardStep_def adoptRow_def frozen_def split: if_splits)

lemma cardsAdopted_advance: "cardsAdopted tenantId d periodId d' \<Longrightarrow> advance d d'"
  unfolding cardsAdopted_def
  by (elim exE conjE, rule advanceI)
    (auto simp: evidenceKept_def periodStep_same intro!: growsBy_all2 elim: list_all2_mono intro: adoptedRow_step)

lemma cardsDecided_advance: "cardsDecided identity d periodId d' \<Longrightarrow> advance d d'"
  unfolding cardsDecided_def by (elim exE conjE) (simp add: advanceI evidenceKept_def periodStep_same cardStep_same)

lemma policyOutcome_advance: "policyOutcome tenantId request d d' \<Longrightarrow> advance d d'"
  unfolding policyOutcome_def
  by (elim disjE exE conjE) (simp_all add: payroll_tables.R_refl advanceI evidenceKept_def periodStep_same cardStep_same)

lemma lockOutcome_advance: "lockOutcome E identity request revision periodId d d' \<Longrightarrow> advance d d'"
  unfolding lockOutcome_def periodLocked_def
  by (elim disjE exE conjE)
    (auto simp: payroll_tables.R_refl evidenceKept_def periodStep_def lockTarget_def lockRow_def cardStep_same
      intro!: advanceI growsBy_updateWhere)

lemma recorded_advance:
  assumes "recordedOutcome identity request kind change d r d'" and "\<And>periodId mid. change d periodId mid \<Longrightarrow> advance d mid"
  shows "advance d d'"
  using assms(1) unfolding recordedOutcome_def
proof (elim disjE exE conjE)
  fix periodId log mid
  assume c: "change d periodId mid"
    and d': "d' = auditLogs_update (\<lambda>rows. rows @ [log]) (payrollOperations_update (\<lambda>rows. rows @ [operationRow identity request periodId kind r]) mid)"
  have "advance mid d'" by (simp add: d' advanceI evidenceKept_def periodStep_same cardStep_same)
  then show ?thesis using assms(2) [OF c] payroll_tables.R_trans by blast
qed (use payroll_tables.R_refl in simp)

end
