(* ===== verification/AmendmentLifecycle.thy ===== *)
theory AmendmentLifecycle
  imports PayrollAmendments PayrollInvariants
begin

text \<open>
  What requesting and deciding an amendment do to the database.  An amendment corrects a locked entry of another
  employee into a later open period and carries the difference of payable minutes; it is decided
  once, in review, by somebody who neither requested it nor is paid by it.
\<close>

section \<open>Reads\<close>

lemma readsOnly_serializedAmendments [simp]: "readsOnly cur \<Longrightarrow> readsOnly (serializedAmendments cur tenantId periodId status)"
  unfolding serializedAmendments_def Let_def by (intro readsOnly_bind readsOnly_then) simp_all

lemma readsOnly_serializeAmendment [simp]: "readsOnly (serializeAmendment tenantId row)"
  unfolding serializeAmendment_def by (intro readsOnly_bind) simp_all

lemma readsOnly_serializedLockedEntries [simp]: "readsOnly cur \<Longrightarrow> readsOnly (serializedLockedEntries cur tenantId periodId)"
  unfolding serializedLockedEntries_def Let_def by (intro readsOnly_bind readsOnly_then) simp_all

section \<open>Requests\<close>

definition amendmentAdded :: "string \<Rightarrow> string \<Rightarrow> database \<Rightarrow> amendment \<Rightarrow> bool" where
  "amendmentAdded tenantId actorId d row \<longleftrightarrow> am_tenantId row = tenantId \<and> am_requestedByUserId row = actorId
     \<and> (\<exists>e p q. e \<in> set (lockedEntries d) \<and> en_id e = am_lockedEntryId row \<and> en_tenantId e = tenantId \<and> en_sourceType e = TIME_CARD
          \<and> en_employeeId e \<noteq> actorId \<and> p \<in> set (payrollPeriods d) \<and> pp_id p = am_adjustmentPeriodId row \<and> pp_tenantId p = tenantId
          \<and> pp_status p = PERIOD_OPEN \<and> q \<in> set (payrollPeriods d) \<and> pp_id q = en_periodId e \<and> pp_endsAt q \<le> pp_startsAt p
          \<and> am_minuteDelta row = am_replacementPayableMinutes row - en_payableMinutes e)"

definition amendmentOutcome :: "sessionIdentity \<Rightarrow> database \<Rightarrow> database \<Rightarrow> bool" where
  "amendmentOutcome identity d d' \<longleftrightarrow> d' = d
     \<or> (\<exists>row log. amendmentAdded (id_tenantId identity) (id_sub identity) d row \<and> \<not> list_ex (amendmentClash row) (amendments d)
          \<and> d' = auditLogs_update (\<lambda>ls. ls @ [log]) (amendments_update (\<lambda>rows. rows @ [row]) d))"

lemma amendmentOutcomeI:
  "amendmentAdded (id_tenantId identity) (id_sub identity) d row \<Longrightarrow> \<not> list_ex (amendmentClash row) (amendments d) \<Longrightarrow>
     amendmentOutcome identity d (auditLogs_update (\<lambda>ls. ls @ [log]) (amendments_update (\<lambda>rows. rows @ [row]) d))"
  unfolding amendmentOutcome_def by (intro disjI2 exI conjI) (assumption | rule refl)+

lemma amendmentAddedI:
  assumes "find (\<lambda>e. en_id e = entryId \<and> en_tenantId e = tenantId) (lockedEntries d) = Some e" "en_sourceType e = TIME_CARD"
    "en_employeeId e \<noteq> actorId" "p \<in> set (payrollPeriods d)" "pp_tenantId p = tenantId" "pp_status p = PERIOD_OPEN"
    "q \<in> set (payrollPeriods d)" "pp_id q = en_periodId e" "\<not> pp_startsAt p < pp_endsAt q"
    "am_tenantId row = tenantId" "am_requestedByUserId row = actorId" "am_lockedEntryId row = en_id e" "am_adjustmentPeriodId row = pp_id p"
    "am_minuteDelta row = am_replacementPayableMinutes row - en_payableMinutes e"
  shows "amendmentAdded tenantId actorId d row"
  unfolding amendmentAdded_def using assms find_SomeD [OF assms(1)]
  by (intro conjI exI [of _ e] exI [of _ p] exI [of _ q]) simp_all

lemma sat_createAmendmentBody:
  assumes "readsOnly cur"
  shows "sat d (createAmendmentBody E identity entryId adjustmentPeriodId reason new request cur) (\<lambda>_. amendmentOutcome identity d)"
  unfolding createAmendmentBody_def amendmentTable_def
  apply (intro tx_rules TrueI post_cur [OF assms] post_any [OF readsOnly_serializeAmendment])
   apply (unfold fst_conv snd_conv)
   apply (hypsubst, rule amendmentOutcomeI)
    apply (rule amendmentAddedI, assumption, assumption, assumption, assumption, assumption, assumption, assumption, assumption, assumption)
        apply (simp_all add: amendmentOutcome_def)
  done

section \<open>Decisions\<close>

definition amendmentDecided :: "string \<Rightarrow> string \<Rightarrow> database \<Rightarrow> amendmentDecision \<Rightarrow> bool" where
  "amendmentDecided tenantId actorId d x \<longleftrightarrow> ad_tenantId x = tenantId \<and> ad_decidedByUserId x = actorId
     \<and> ad_amendmentId x \<notin> ad_amendmentId ` set (amendmentDecisions d)
     \<and> (\<exists>a e p. a \<in> set (amendments d) \<and> am_id a = ad_amendmentId x \<and> am_tenantId a = tenantId \<and> am_requestedByUserId a \<noteq> actorId
          \<and> e \<in> set (lockedEntries d) \<and> en_id e = am_lockedEntryId a \<and> en_employeeId e \<noteq> actorId
          \<and> p \<in> set (payrollPeriods d) \<and> pp_id p = am_adjustmentPeriodId a \<and> pp_status p = PERIOD_REVIEW)"

definition decisionOutcome :: "sessionIdentity \<Rightarrow> database \<Rightarrow> database \<Rightarrow> bool" where
  "decisionOutcome identity d d' \<longleftrightarrow> d' = d
     \<or> (\<exists>x log. amendmentDecided (id_tenantId identity) (id_sub identity) d x
          \<and> d' = auditLogs_update (\<lambda>ls. ls @ [log]) (amendmentDecisions_update (\<lambda>rows. rows @ [x]) d))"

lemma decisionOutcomeI:
  "amendmentDecided (id_tenantId identity) (id_sub identity) d x \<Longrightarrow>
     decisionOutcome identity d (auditLogs_update (\<lambda>ls. ls @ [log]) (amendmentDecisions_update (\<lambda>rows. rows @ [x]) d))"
  unfolding decisionOutcome_def by (intro disjI2 exI conjI) (assumption | rule refl)+

lemma amendmentDecidedI:
  assumes "find (\<lambda>a. am_id a = amendmentId \<and> am_tenantId a = tenantId) (amendments d) = Some a"
    "p \<in> set (payrollPeriods d)" "pp_id p = am_adjustmentPeriodId a"
    "find (\<lambda>e. en_id e = am_lockedEntryId a \<and> en_tenantId e = tenantId) (lockedEntries d) = Some e" "pp_status p = PERIOD_REVIEW"
    "\<not> (am_requestedByUserId a = actorId \<or> en_employeeId e = actorId)"
    "find (\<lambda>x. ad_amendmentId x = am_id a) (amendmentDecisions d) = None"
    "ad_tenantId x = tenantId" "ad_decidedByUserId x = actorId" "ad_amendmentId x = am_id a"
  shows "amendmentDecided tenantId actorId d x"
  unfolding amendmentDecided_def using assms find_SomeD [OF assms(1)] find_SomeD [OF assms(4)]
  by (intro conjI exI [of _ e] exI [of _ p] exI [of _ a]) (auto simp: find_None_iff)

lemma sat_decideAmendmentBody:
  assumes "readsOnly cur"
  shows "sat d (decideAmendmentBody E identity amendmentId verdict reason request cur) (\<lambda>_. decisionOutcome identity d)"
  unfolding decideAmendmentBody_def amendmentDecisionTable_def
  apply (intro tx_rules TrueI post_cur [OF assms])
   apply (unfold fst_conv snd_conv)
   apply (hypsubst, rule decisionOutcomeI)
   apply (rule amendmentDecidedI, assumption, assumption, assumption, assumption, assumption, assumption, assumption)
     apply (simp_all add: decisionOutcome_def)
  done

section \<open>The commands\<close>

lemma outcome_createAmendment:
  "outcome d (createAmendment E who publicId body key) (\<lambda>_. amendmentOutcome (mutationIdentity who) d)"
  unfolding createAmendment_def
  by (intro outcome_rules outcome_mapConflict outcome_runScope) (simp_all add: sat_createAmendmentBody)

lemma outcome_decideAmendment:
  "outcome d (decideAmendment E who publicId verdict reason key) (\<lambda>_. decisionOutcome (mutationIdentity who) d)"
  unfolding decideAmendment_def
  by (intro outcome_rules outcome_mapConflict outcome_runScope) (simp_all add: sat_decideAmendmentBody)

lemma amendmentOutcome_inv: "amendmentOutcome identity d d' \<Longrightarrow> payrollInv E d \<Longrightarrow> payrollInv E d'"
  unfolding amendmentOutcome_def by (elim disjE exE conjE, simp, hypsubst, subst payrollInv_cong [of _ d]) simp_all

lemma decisionOutcome_inv: "decisionOutcome identity d d' \<Longrightarrow> payrollInv E d \<Longrightarrow> payrollInv E d'"
  unfolding decisionOutcome_def by (elim disjE exE conjE, simp, hypsubst, subst payrollInv_cong [of _ d]) simp_all

lemma amendmentOutcome_advance: "amendmentOutcome identity d d' \<Longrightarrow> advance d d'"
  unfolding amendmentOutcome_def
  by (elim disjE exE conjE) (simp_all add: payroll_tables.R_refl advanceI evidenceKept_def periodStep_same cardStep_same)

lemma decisionOutcome_advance: "decisionOutcome identity d d' \<Longrightarrow> advance d d'"
  unfolding decisionOutcome_def
  by (elim disjE exE conjE) (simp_all add: payroll_tables.R_refl advanceI evidenceKept_def periodStep_same cardStep_same)

end
