(* ===== verification/ExportLifecycle.thy ===== *)
theory ExportLifecycle
  imports PayrollExports AmendmentLifecycle
begin

text \<open>
  What exports and reconciliations do to the database: an export is created once per locked period, is paid for
  by exactly one ledger row, and its lines are the locked entries; its status only moves from generated over
  downloaded and reconciling to reconciled, and it is reconciled only when every line is accepted.
\<close>

section \<open>Reads\<close>

lemma readsOnly_if [simp]: "readsOnly m \<Longrightarrow> readsOnly k \<Longrightarrow> readsOnly (if b then m else k)"
  by simp

lemma readsOnly_option: "readsOnly m \<Longrightarrow> (\<And>a. readsOnly (k a)) \<Longrightarrow> readsOnly (case v of None \<Rightarrow> m | Some a \<Rightarrow> k a)"
  by (cases v) simp_all

lemma readsOnly_verifyProvenance [simp]: "readsOnly cur \<Longrightarrow> readsOnly (verifyExportCreditProvenance batch cur)"
  unfolding verifyExportCreditProvenance_def by (intro readsOnly_bind readsOnly_then) simp_all

lemma readsOnly_loadLineRefs [simp]: "readsOnly (loadLineRefs tenantId rows)"
  unfolding loadLineRefs_def by (intro readsOnly_bind) simp_all

lemma readsOnly_loadLines [simp]: "readsOnly cur \<Longrightarrow> readsOnly (loadAndVerifyExportLines E tenantId batch cur)"
  unfolding loadAndVerifyExportLines_def Let_def by (intro readsOnly_bind readsOnly_then) simp_all

lemma readsOnly_serializeExport [simp]: "readsOnly cur \<Longrightarrow> readsOnly (serializeExport E tenantId batch lineLimit lineCursor cur)"
  unfolding serializeExport_def Let_def by (intro readsOnly_bind readsOnly_then) simp_all

lemma readsOnly_replayExport [simp]: "readsOnly (replayExport E tenantId periodId request batch)"
  unfolding replayExport_def by (intro readsOnly_then) simp_all

lemma readsOnly_internalPayload [simp]: "readsOnly (internalReconciliationPayload E tenantId batchId payload)"
  unfolding internalReconciliationPayload_def Let_def by (intro readsOnly_bind readsOnly_then) simp_all

lemma readsOnly_serializeReceipt [simp]: "readsOnly (serializeReceipt tenantId r)"
  unfolding serializeReceipt_def by (intro readsOnly_bind) simp_all

lemma readsOnly_runScope:
  assumes "\<And>cur. readsOnly cur \<Longrightarrow> readsOnly (operation cur)"
  shows "readsOnly (runScope E identity permission scope operation)"
  by (rule readsOnlyI, rule post_runScope) (auto intro: post_readsOnly assms)

lemma readsOnly_findExportReplay [simp]: "readsOnly (findExportReplay E identity periodId request scope)"
  unfolding findExportReplay_def by (intro readsOnly_runScope readsOnly_bind readsOnly_option) simp_all

lemma readsOnly_findReceiptReplay [simp]: "readsOnly (findReceiptReplay E identity batchId provider providerEventId payloadSha256 scope)"
  unfolding findReceiptReplay_def by (intro readsOnly_runScope readsOnly_bind readsOnly_then readsOnly_option) simp_all

lemma readsOnly_draftLineOf: "readsOnly (draftLineOf E tenantId batchId refs ix)"
  unfolding draftLineOf_def Let_def by (cases ix) (auto intro!: readsOnly_bind)

section \<open>A command that answers a conflict from its record\<close>

lemma outcome_catchScope:
  assumes "\<And>cur. readsOnly cur \<Longrightarrow> sat d (operation cur) Q"
    and "\<And>e. e \<noteq> DbError P1017 \<Longrightarrow> post d (h e) Q (\<lambda>_ d'. d' = d)"
    and "h (DbError P1017) = throwT (DbError P1017)"
  shows "outcome d (catchT (runScope E identity permission scope operation) h) Q"
proof -
  have run: "post d (runScope E identity permission scope operation) Q (\<lambda>e d'. d' = d \<or> e = DbError P1017 \<and> (\<exists>x. Q x d'))"
    by (rule post_runScope) (use assms(1) in auto)
  show ?thesis
    unfolding outcome_def
  proof (rule post_catch, rule post_weaken [OF run])
    fix e d'
    assume "d' = d \<or> e = DbError P1017 \<and> (\<exists>x. Q x d')"
    then show "post d' (h e) Q (\<lambda>_ d'. d' = d \<or> (\<exists>x. Q x d'))"
    proof (cases "e = DbError P1017")
      case True
      then show ?thesis using assms(3) \<open>d' = d \<or> e = DbError P1017 \<and> (\<exists>x. Q x d')\<close> by (auto intro: post_throw)
    next
      case False
      then show ?thesis using \<open>d' = d \<or> e = DbError P1017 \<and> (\<exists>x. Q x d')\<close> by (auto intro: post_weaken [OF assms(2)])
    qed
  qed simp
qed

lemma post_replayOr:
  "readsOnly m \<Longrightarrow> (\<And>x. Q x d) \<Longrightarrow> post d (replayOr m e) Q (\<lambda>_ d'. d' = d)"
  unfolding replayOr_def by (intro post_bind post_any post_require) simp_all

section \<open>Creating an export\<close>

text \<open>A draft line is its entry with its place in the file.\<close>

definition draftOf :: "env \<Rightarrow> string \<Rightarrow> string \<Rightarrow> nat \<times> lockedEntryRow \<Rightarrow> draftLine \<Rightarrow> bool" where
  "draftOf E tenantId batchId = (\<lambda>(i, e) l. dl_entry l = e \<and> cl_lineNumber (dl_line l) = int i + 1
     \<and> cl_payableMinutes (dl_line l) = en_payableMinutes e \<and> cl_breakMinutes (dl_line l) = en_breakMinutes e
     \<and> cl_clockInAt (dl_line l) = Some (en_clockInAt e) \<and> cl_clockOutAt (dl_line l) = Some (en_clockOutAt e)
     \<and> payrollExportLineSha256 E tenantId batchId (en_id e) (dl_line l) = ok (dl_canonicalSha256 l))"

lemma sat_draftLineOf: "sat d (draftLineOf E tenantId batchId refs ix) (\<lambda>l d'. d' = d \<and> draftOf E tenantId batchId ix l)"
  unfolding draftLineOf_def by (cases ix) (auto intro!: tx_rules simp: draftOf_def)

lemma drafts_entries: "list_all2 (draftOf E tenantId batchId) (enumerate n entries) drafts \<Longrightarrow> map dl_entry drafts = entries"
  by (induction entries arbitrary: n drafts) (auto simp: draftOf_def list_all2_Cons1)

definition charged :: "database \<Rightarrow> string \<Rightarrow> int \<Rightarrow> string \<Rightarrow> string \<Rightarrow> int \<Rightarrow> database \<Rightarrow> bool" where
  "charged d tenantId cost transactionId reason balance d' \<longleftrightarrow>
     settled d tenantId cost transactionId reason balance \<and> d' = d \<or> debited d tenantId cost transactionId reason balance d'"

definition exportCreated :: "env \<Rightarrow> string \<Rightarrow> requestIdentity \<Rightarrow> int \<Rightarrow> string \<Rightarrow> database \<Rightarrow> database \<Rightarrow> bool" where
  "exportCreated E tenantId request cost periodId d d' \<longleftrightarrow>
     (\<exists>p entries drafts b d1 log. p \<in> set (payrollPeriods d) \<and> pp_id p = periodId \<and> pp_tenantId p = tenantId \<and> pp_status p = PERIOD_LOCKED
       \<and> set entries \<subseteq> {e \<in> set (lockedEntries d). en_tenantId e = tenantId \<and> en_periodId e = periodId}
       \<and> checkLockedEvidence E tenantId p entries = ok (eb_totalPayableMinutes b)
       \<and> list_all2 (draftOf E tenantId (eb_id b)) (enumerate 0 entries) drafts
       \<and> charged d tenantId cost (exportCreditId (rq_operationId request)) (exportReason periodId) (eb_newBalance b) d1
       \<and> eb_tenantId b = tenantId \<and> eb_periodId b = periodId \<and> eb_status b = GENERATED \<and> eb_rowCount b = int (length drafts)
       \<and> eb_operationId b = rq_operationId request \<and> eb_creditTransactionId b = exportCreditId (rq_operationId request)
       \<and> eb_consumedCredits b = cost
       \<and> (\<exists>csv. buildPayrollCsv (map dl_line drafts) = ok csv \<and> eb_contentSha256 b = payrollContentSha256 E csv)
       \<and> \<not> list_ex (batchClash b) (exportBatches d1)
       \<and> d' = auditLogs_update (\<lambda>ls. ls @ [log]) (exportLines_update (\<lambda>ls. ls @ map (exportLineRow tenantId (eb_id b)) drafts)
            (exportBatches_update (\<lambda>bs. bs @ [b]) d1)))"

lemma sat_createLines:
  "sat d (createManyT lineTable lineClash rows) (\<lambda>_ d'. d' = exportLines_update (\<lambda>ls. ls @ rows) d)"
  using sat_createMany [of lineTable d lineClash rows] by (simp add: lineTable_def comp_def)

lemma sat_debit:
  assumes "readsOnly cur"
  shows "sat d (debitFeatureCredit cur tenantId entitlement operationId reason (Some transactionId)) (\<lambda>s d'.
      sm_consumedCredits s = fe_creditCost entitlement \<and> charged d tenantId (fe_creditCost entitlement) transactionId reason (sm_newBalance s) d')"
  by (rule post_weaken [OF sat_debitFeatureCredit [OF assms]]) (auto simp: charged_def)

definition exportOutcome :: "env \<Rightarrow> string \<Rightarrow> requestIdentity \<Rightarrow> int \<Rightarrow> string \<Rightarrow> database \<Rightarrow> database \<Rightarrow> bool" where
  "exportOutcome E tenantId request cost periodId d d' \<longleftrightarrow> d' = d \<or> exportCreated E tenantId request cost periodId d d'"

lemma exportCreatedI:
  assumes "p \<in> set (payrollPeriods d)" "pp_tenantId p = tenantId" "pp_id p = periodId" "pp_status p = PERIOD_LOCKED"
    and "checkLockedEvidence E tenantId p (take n (findMany (\<lambda>e. en_tenantId e = tenantId \<and> en_periodId e = pp_id p) le (lockedEntries d))) = ok minutesSum"
    and "list_all2 (draftOf E tenantId batchId) (enumerate 0 (take n (findMany (\<lambda>e. en_tenantId e = tenantId \<and> en_periodId e = pp_id p) le (lockedEntries d)))) drafts"
    and "buildPayrollCsv (map dl_line drafts) = ok csv"
    and "sm_consumedCredits s = cost"
    and "charged d tenantId cost (exportCreditId (rq_operationId request)) (exportReason (pp_id p)) (sm_newBalance s) d1"
    and "b = exportBatchRow batchId publicId tenantId (pp_id p) request (exportCreditId (rq_operationId request))
             (payrollContentSha256 E csv) (length drafts) minutesSum s now"
    and "\<not> list_ex (batchClash b) (exportBatches d1)"
  shows "exportCreated E tenantId request cost periodId d (auditLogs_update (\<lambda>ls. ls @ [log])
      (exportLines_update (\<lambda>ls. ls @ map (exportLineRow tenantId (eb_id b)) drafts) (exportBatches_update (\<lambda>bs. bs @ [b]) d1)))"
proof -
  let ?es = "take n (findMany (\<lambda>e. en_tenantId e = tenantId \<and> en_periodId e = pp_id p) le (lockedEntries d))"
  have "set ?es \<subseteq> {e \<in> set (lockedEntries d). en_tenantId e = tenantId \<and> en_periodId e = periodId}"
    using assms(3) by (auto simp: findMany_def dest: in_set_takeD)
  moreover have "eb_totalPayableMinutes b = minutesSum" "eb_id b = batchId" "eb_newBalance b = sm_newBalance s" "eb_tenantId b = tenantId"
    "eb_periodId b = periodId" "eb_status b = GENERATED" "eb_rowCount b = int (length drafts)" "eb_operationId b = rq_operationId request"
    "eb_creditTransactionId b = exportCreditId (rq_operationId request)" "eb_consumedCredits b = cost"
    "eb_contentSha256 b = payrollContentSha256 E csv"
    using assms(3,8,10) by (simp_all add: exportBatchRow_def)
  ultimately show ?thesis
    unfolding exportCreated_def
    by (intro exI [of _ p] exI [of _ ?es] exI [of _ drafts] exI [of _ b] exI [of _ d1] exI [of _ log] conjI)
      (use assms in \<open>simp_all\<close>)
qed

lemma sat_createExportBody:
  assumes "readsOnly cur"
  shows "sat d (createExportBody E identity periodId cost request cur) (\<lambda>_. exportOutcome E (id_tenantId identity) request cost periodId d)"
  unfolding createExportBody_def batchTable_def
  apply (intro post_bind post_then post_let post_option post_get post_requirePeriodById post_check post_require post_lift post_uuid TrueI
      post_any [OF readsOnly_replayExport] post_any [OF readsOnly_assertFeatureEntitled] post_any [OF readsOnly_publics(1) [OF readsOnly_noCheck]]
      post_any [OF readsOnly_publics(3) [OF readsOnly_noCheck]] post_any [OF readsOnly_publics(4) [OF readsOnly_noCheck]]
      post_any [OF readsOnly_publics(5) [OF readsOnly_noCheck]] post_any [OF readsOnly_publics(6) [OF readsOnly_noCheck]]
      post_weaken [OF sat_mapT [OF sat_draftLineOf]] post_cur [OF assms])
   apply (elim conjE, hypsubst)
   apply (intro post_bind post_then post_lift TrueI post_let post_cur [OF assms] post_weaken [OF sat_debit [OF assms]])
   apply (elim conjE)
   apply (intro post_bind post_then post_let post_check post_now post_create TrueI post_cur [OF assms] post_weaken [OF sat_createLines]
       post_any [OF readsOnly_serializeExport [OF readsOnly_noCheck]] post_audit post_return)
   apply (unfold fst_conv snd_conv exportOutcome_def)
   apply (rule disjI2, hypsubst, rule exportCreatedI; (assumption | rule refl | simp only: catchR_ok)?)
  apply (rule disjI1, rule refl)
  done

section \<open>Download\<close>

fun exportRank :: "exportStatus \<Rightarrow> nat" where
  "exportRank GENERATED = 0"
| "exportRank DOWNLOADED = 1"
| "exportRank RECONCILING = 2"
| "exportRank RECONCILED = 3"

text \<open>An export keeps everything but its status and its dates, and the status only moves forward.\<close>

definition batchIdentity :: "exportBatch \<Rightarrow> exportBatch" where
  "batchIdentity b = b \<lparr> eb_status := GENERATED, eb_downloadedAt := None, eb_reconciledAt := None, eb_updatedAt := 0 \<rparr>"

definition batchStep :: "exportBatch \<Rightarrow> exportBatch \<Rightarrow> bool" where
  "batchStep b c \<longleftrightarrow> batchIdentity c = batchIdentity b \<and> (c = b \<or> exportRank (eb_status b) < exportRank (eb_status c))"

lemma batchIdentity_fields:
  assumes "batchIdentity c = batchIdentity b"
  shows "eb_id c = eb_id b" "eb_publicId c = eb_publicId b" "eb_tenantId c = eb_tenantId b" "eb_periodId c = eb_periodId b"
    "eb_operationId c = eb_operationId b" "eb_creditTransactionId c = eb_creditTransactionId b" "eb_contentSha256 c = eb_contentSha256 b"
    "eb_rowCount c = eb_rowCount b" "eb_totalPayableMinutes c = eb_totalPayableMinutes b" "eb_consumedCredits c = eb_consumedCredits b"
    "eb_newBalance c = eb_newBalance b"
  using assms by (cases b; cases c; simp add: batchIdentity_def)+

lemma batchStep_refl: "batchStep b b"
  by (simp add: batchStep_def)

lemma batchStep_trans: "batchStep a b \<Longrightarrow> batchStep b c \<Longrightarrow> batchStep a c"
  by (auto simp: batchStep_def)

definition downloadOutcome :: "string \<Rightarrow> database \<Rightarrow> database \<Rightarrow> bool" where
  "downloadOutcome tenantId d d' \<longleftrightarrow> d' = d
     \<or> (\<exists>batchId t u log. d' = auditLogs_update (\<lambda>ls. ls @ [log])
          (exportBatches_update (updateWhere (downloadTarget tenantId batchId GENERATED) (downloadedRow t u)) d))"

lemma downloadOutcomeI:
  "downloadOutcome tenantId d (auditLogs_update (\<lambda>ls. ls @ [log])
     (exportBatches_update (updateWhere (downloadTarget tenantId batchId GENERATED) (downloadedRow t u)) d))"
  unfolding downloadOutcome_def by (intro disjI2 exI) (rule refl)

lemma sat_markDownloaded:
  assumes "readsOnly cur"
  shows "sat d (markDownloaded E identity batch cur) (\<lambda>_. downloadOutcome (id_tenantId identity) d)"
  unfolding markDownloaded_def batchTable_def
  by (intro tx_rules TrueI post_cur [OF assms]) (unfold fst_conv snd_conv, rule downloadOutcomeI)

lemma sat_downloadExportBody:
  assumes "readsOnly cur"
  shows "sat d (downloadExportBody E identity publicId cur) (\<lambda>_. downloadOutcome (id_tenantId identity) d)"
  unfolding downloadExportBody_def
  apply (intro post_bind post_then post_let post_get post_check post_require TrueI post_if post_return
      post_any [OF readsOnly_verifyProvenance [OF readsOnly_noCheck]] post_any [OF readsOnly_loadLines [OF readsOnly_noCheck]])
   apply (hypsubst, rule post_weaken [OF sat_markDownloaded [OF assms]])
    apply (intro post_bind post_lift post_return TrueI, assumption, rule TrueI)
  apply (intro post_bind post_lift post_return TrueI)
  apply (simp add: downloadOutcome_def)
  done

section \<open>Reconciliation\<close>

definition statesKept :: "string \<Rightarrow> database \<Rightarrow> database \<Rightarrow> bool" where
  "statesKept batchId d d' \<longleftrightarrow> (\<exists>rows. d' = lineStates_update (\<lambda>_. rows) d
     \<and> filter (\<lambda>st. st_batchId st \<noteq> batchId) rows = filter (\<lambda>st. st_batchId st \<noteq> batchId) (lineStates d))"

lemma statesKept_refl: "statesKept batchId d d"
  unfolding statesKept_def by (rule exI [of _ "lineStates d"]) simp

lemma statesKept_trans: "statesKept batchId d d1 \<Longrightarrow> statesKept batchId d1 d2 \<Longrightarrow> statesKept batchId d d2"
  unfolding statesKept_def by (elim exE conjE, hypsubst, rule_tac x = rowsa in exI, simp)

lemma sat_upsertLineState:
  assumes "readsOnly cur"
  shows "sat d (upsertLineState tenantId receiptId batchId cur oc) (\<lambda>_. statesKept batchId d)"
proof -
  have const: "lineStates_update f d = lineStates_update (\<lambda>_. f (lineStates d)) d" for f by (cases d) simp
  have upd: "filter (\<lambda>st. st_batchId st \<noteq> batchId) (updateWhere (lineStateClash (lineStateRow tenantId receiptId batchId oc))
      (\<lambda>st. st \<lparr> st_status := s, st_latestReceiptId := i, st_reason := r \<rparr>) sts) = filter (\<lambda>st. st_batchId st \<noteq> batchId) sts" for s i r sts
    by (induction sts) (auto simp: updateWhere_def lineStateClash_def lineStateRow_def)
  show ?thesis
    unfolding upsertLineState_def lineStateTable_def
    apply (intro tx_rules TrueI post_cur [OF assms])
     apply (unfold fst_conv snd_conv)
     apply (unfold statesKept_def)
     apply (intro exI conjI, rule const, hypsubst, rule upd)
    apply (intro exI conjI, rule const)
    apply (simp add: lineStateRow_def)
    done
qed

lemma sat_upserts:
  assumes "readsOnly cur"
  shows "sat d (eachT (upsertLineState tenantId receiptId batchId cur) ocs) (\<lambda>_. statesKept batchId d)"
proof (induction ocs arbitrary: d)
  case Nil
  show ?case by (auto intro: post_return statesKept_refl)
next
  case (Cons oc ocs)
  show ?case
    unfolding eachT.simps
    by (rule post_then, rule post_weaken [OF sat_upsertLineState [OF assms]], rule post_weaken [OF Cons.IH])
      (auto intro: statesKept_trans)
qed

lemma sat_moveBatch:
  assumes "readsOnly cur"
  shows "sat d (moveBatch E tenantId batchId status change cur)
    (\<lambda>_ d'. \<exists>s u. d' = exportBatches_update (updateWhere (downloadTarget tenantId batchId status) (change s u)) d)"
  unfolding moveBatch_def batchTable_def
  by (intro tx_rules TrueI post_cur [OF assms]) (unfold fst_conv snd_conv, intro exI, rule refl)


definition moveStep :: "string \<Rightarrow> string \<Rightarrow> bool \<Rightarrow> exportBatch \<Rightarrow> exportBatch \<Rightarrow> bool" where
  "moveStep tenantId batchId complete b c \<longleftrightarrow> batchStep b c \<and> (c = b \<or> eb_id b = batchId \<and> eb_tenantId b = tenantId)
     \<and> (eb_status c = RECONCILED \<longrightarrow> c = b \<or> complete)"

definition batchesMoved :: "string \<Rightarrow> string \<Rightarrow> bool \<Rightarrow> database \<Rightarrow> database \<Rightarrow> bool" where
  "batchesMoved tenantId batchId complete d d' \<longleftrightarrow>
     (\<exists>bs. d' = exportBatches_update (\<lambda>_. bs) d \<and> list_all2 (moveStep tenantId batchId complete) (exportBatches d) bs)"

lemma moveStep_refl: "moveStep tenantId batchId complete b b"
  by (simp add: moveStep_def batchStep_refl)

lemma moveStep_trans:
  assumes "moveStep tenantId batchId complete a b" and "moveStep tenantId batchId complete b c"
  shows "moveStep tenantId batchId complete a c"
  using assms batchStep_trans [of a b c] batchIdentity_fields(1,3) [of b a] unfolding moveStep_def batchStep_def by metis

lemma batchesMoved_refl: "batchesMoved tenantId batchId complete d d"
  unfolding batchesMoved_def by (rule exI [of _ "exportBatches d"]) (simp add: list_all2_refl moveStep_refl)

lemma batchesMoved_trans:
  assumes "batchesMoved tenantId batchId complete d d1" and "batchesMoved tenantId batchId complete d1 d2"
  shows "batchesMoved tenantId batchId complete d d2"
proof -
  obtain bs where d1: "d1 = exportBatches_update (\<lambda>_. bs) d" and 1: "list_all2 (moveStep tenantId batchId complete) (exportBatches d) bs"
    using assms(1) by (auto simp: batchesMoved_def)
  obtain cs where d2: "d2 = exportBatches_update (\<lambda>_. cs) d1" and 2: "list_all2 (moveStep tenantId batchId complete) bs cs"
    using assms(2) d1 by (auto simp: batchesMoved_def)
  show ?thesis
    unfolding batchesMoved_def
    by (rule exI [of _ cs]) (use d1 d2 list_all2_trans [OF moveStep_trans 1 2] in simp)
qed

lemma batchesMoved_states: "batchesMoved tenantId batchId complete d d' \<Longrightarrow> lineStates d' = lineStates d"
  by (auto simp: batchesMoved_def)

lemma batchesMoved_counted:
  assumes "batchesMoved tenantId batchId (countStates t i s d1 = n \<and> rest) d1 d2"
    and "batchesMoved tenantId batchId (countStates t i s d2 = n \<and> rest) d2 d3"
  shows "batchesMoved tenantId batchId (countStates t i s d1 = n \<and> rest) d1 d3"
proof -
  have "countStates t i s d2 = countStates t i s d1" using batchesMoved_states [OF assms(1)] by (simp add: countStates_def)
  then show ?thesis using assms(2) by (intro batchesMoved_trans [OF assms(1)]) simp
qed

lemma batchesMoved_updateWhere:
  assumes "\<And>b. downloadTarget tenantId batchId status b \<Longrightarrow> moveStep tenantId batchId complete b (f b)"
  shows "batchesMoved tenantId batchId complete d (exportBatches_update (updateWhere (downloadTarget tenantId batchId status) f) d)"
proof -
  have "list_all2 (moveStep tenantId batchId complete) (exportBatches d) (updateWhere (downloadTarget tenantId batchId status) f (exportBatches d))"
    unfolding updateWhere_def list.rel_map by (intro list.rel_refl_strong) (simp add: assms moveStep_refl)
  moreover have "exportBatches_update g d = exportBatches_update (\<lambda>_. g (exportBatches d)) d" for g by (cases d) simp
  ultimately show ?thesis unfolding batchesMoved_def by blast
qed

lemma sat_reconciling:
  assumes "readsOnly cur"
  shows "sat d (if s = DOWNLOADED then moveBatch E tenantId batchId DOWNLOADED reconcilingRow cur else returnT ())
    (\<lambda>_. batchesMoved tenantId batchId complete d)"
  apply (intro post_if post_return batchesMoved_refl post_weaken [OF sat_moveBatch [OF assms]] TrueI)
  apply (elim exE, hypsubst, rule batchesMoved_updateWhere)
  apply (simp add: moveStep_def batchStep_def batchIdentity_def reconcilingRow_def downloadTarget_def)
  done

lemma sat_completing:
  assumes "readsOnly cur"
  shows "sat d (if complete then moveBatch E tenantId batchId RECONCILING reconciledRow cur else returnT ())
    (\<lambda>_. batchesMoved tenantId batchId complete d)"
  apply (intro post_if post_return batchesMoved_refl post_weaken [OF sat_moveBatch [OF assms]] TrueI)
  apply (elim exE, hypsubst, rule batchesMoved_updateWhere)
  apply (simp add: moveStep_def batchStep_def batchIdentity_def reconciledRow_def downloadTarget_def)
  done

definition receiptStored :: "string \<Rightarrow> database \<Rightarrow> database \<Rightarrow> bool" where
  "receiptStored tenantId d d' \<longleftrightarrow>
     (\<exists>b r evs d1 d2 log. b \<in> set (exportBatches d) \<and> eb_tenantId b = tenantId \<and> eb_status b \<in> {DOWNLOADED, RECONCILING}
       \<and> re_batchId r = eb_id b \<and> re_tenantId r = tenantId
       \<and> statesKept (eb_id b) (lineEvents_update (\<lambda>rows. rows @ evs) (receipts_update (\<lambda>rows. rows @ [r]) d)) d1
       \<and> batchesMoved tenantId (eb_id b) (countStates tenantId (eb_id b) LINE_ACCEPTED d1 = eb_rowCount b
            \<and> re_providerTotalMinutes r = eb_totalPayableMinutes b) d1 d2
       \<and> d' = auditLogs_update (\<lambda>ls. ls @ [log]) d2)"

definition receiptOutcome :: "string \<Rightarrow> database \<Rightarrow> database \<Rightarrow> bool" where
  "receiptOutcome tenantId d d' \<longleftrightarrow> d' = d \<or> receiptStored tenantId d d'"

lemma receiptStoredI:
  assumes "find (\<lambda>b. eb_id b = exportId \<and> eb_tenantId b = tenantId) (exportBatches d) = Some b"
    "eb_status b \<noteq> GENERATED" "eb_status b \<noteq> RECONCILED" "r = receiptOf newId publicId tenantId (eb_id b) payload h counts actorId t"
    "statesKept (eb_id b) (lineEvents_update (\<lambda>rows. rows @ evs) (receipts_update (\<lambda>rows. rows @ [r]) d)) d1"
    "batchesMoved tenantId (eb_id b) (countStates tenantId (eb_id b) LINE_ACCEPTED d1 = eb_rowCount b
        \<and> rp_providerTotalMinutes payload = eb_totalPayableMinutes b) d1 d2"
  shows "receiptOutcome tenantId d (auditLogs_update (\<lambda>ls. ls @ [log]) d2)"
proof -
  have "eb_status b \<in> {DOWNLOADED, RECONCILING}" using assms(2,3) by (cases "eb_status b") simp_all
  then show ?thesis
    unfolding receiptOutcome_def receiptStored_def using find_SomeD [OF assms(1)] assms(4-6)
    by (rule_tac disjI2, intro exI [of _ b] exI [of _ r] exI [of _ evs] exI [of _ d1] exI [of _ d2] exI [of _ log] conjI)
      (simp_all add: receiptOf_def)
qed

lemma sat_createEvents:
  "sat d (createManyT lineEventTable lineEventClash rows) (\<lambda>_ d'. d' = lineEvents_update (\<lambda>es. es @ rows) d)"
  using sat_createMany [of lineEventTable d lineEventClash rows] by (simp add: lineEventTable_def comp_def)

lemma sat_reconcileExportBody:
  assumes "readsOnly cur"
  shows "sat d (reconcileExportBody E identity exportId publicPayload payload payloadSha256 cur) (\<lambda>_. receiptOutcome (id_tenantId identity) d)"
  unfolding reconcileExportBody_def receiptTable_def
  apply (intro post_bind post_then post_let post_get post_check post_require post_option post_uuid post_now post_create TrueI
      post_any [OF readsOnly_serializeReceipt] post_any [OF readsOnly_internalPayload] post_cur [OF assms] post_weaken [OF sat_createEvents])
   apply (unfold fst_conv snd_conv)
   apply (hypsubst, intro post_then post_cur [OF assms] TrueI post_weaken [OF sat_upserts [OF assms]] post_weaken [OF sat_reconciling [OF assms]])
   apply (intro post_bind post_then post_get post_weaken [OF sat_completing [OF assms]] post_any [OF readsOnly_serializeReceipt]
      post_cur [OF assms] post_audit post_return TrueI)
   apply (rule receiptStoredI, assumption, assumption, assumption, rule refl, assumption)
   apply (erule (1) batchesMoved_counted)
  apply (simp add: receiptOutcome_def)
  done

section \<open>The commands\<close>

lemma outcome_createExport:
  "outcome d (createExport E who publicId cost key) (\<lambda>_ d'. \<exists>request periodId. exportOutcome E (id_tenantId (mutationIdentity who)) request cost periodId d d')"
  unfolding createExport_def
  apply (intro outcome_rules outcome_catchScope; (simp add: isUniqueConflict_def isLockTimeout_def; fail)?)
   apply (rule post_weaken [OF sat_createExportBody], simp, blast, simp)
  apply (intro post_if post_replayOr post_throw readsOnly_findExportReplay)
    apply (auto simp: exportOutcome_def)
  done

lemma outcome_downloadExport:
  "outcome d (downloadExport E who publicId) (\<lambda>_. downloadOutcome (id_tenantId (mutationIdentity who)) d)"
  unfolding downloadExport_def
  by (intro outcome_rules outcome_runScope) (simp_all add: sat_downloadExportBody)

lemma outcome_reconcileExport:
  "outcome d (reconcileExport E who publicId body) (\<lambda>_. receiptOutcome (id_tenantId (mutationIdentity who)) d)"
  unfolding reconcileExport_def
  apply (intro outcome_rules outcome_catchScope; (simp add: isUniqueConflict_def readsOnly_withTenant; fail)?)
   apply (simp add: sat_reconcileExportBody)
  apply (intro post_if post_replayOr post_throw readsOnly_findReceiptReplay)
    apply (auto simp: receiptOutcome_def)
  done

lemma readsOnly_exportEntitlement: "readsOnly (exportEntitlement E who)"
  unfolding exportEntitlement_def Let_def
  by (intro readsOnly_bind readsOnly_then readsOnly_runScope readsOnly_catch) (auto split: failure.splits)

end
