(* ===== verification/ExportInvariants.thy ===== *)
theory ExportInvariants
  imports ExportLifecycle
begin

text \<open>
  The invariant of the export tables: one export per period, of a locked period, whose lines are locked entries
  of that period and add up to the locked total, paid for by the ledger row it names; reconciled only
  when every line has been accepted and the provider reported the locked total.
\<close>

section \<open>The invariant\<close>

definition linesOf :: "database \<Rightarrow> string \<Rightarrow> exportLine list" where
  "linesOf d batchId = filter (\<lambda>l. el_batchId l = batchId) (exportLines d)"

definition fromEntry :: "database \<Rightarrow> exportBatch \<Rightarrow> exportLine \<Rightarrow> bool" where
  "fromEntry d b l \<longleftrightarrow> list_ex (\<lambda>e. en_id e = el_lockedEntryId l \<and> en_periodId e = eb_periodId b \<and> en_payableMinutes e = el_payableMinutes l)
     (lockedEntries d)"

definition ofLockedPeriod :: "database \<Rightarrow> exportBatch \<Rightarrow> bool" where
  "ofLockedPeriod d b \<longleftrightarrow> list_ex (\<lambda>p. pp_id p = eb_periodId b \<and> pp_tenantId p = eb_tenantId b \<and> pp_status p = PERIOD_LOCKED
     \<and> pp_totalPayableMinutes p = Some (eb_totalPayableMinutes b) \<and> pp_lockedEntryCount p = Some (eb_rowCount b)) (payrollPeriods d)"

definition reconciliationDone :: "database \<Rightarrow> exportBatch \<Rightarrow> bool" where
  "reconciliationDone d b \<longleftrightarrow> countStates (eb_tenantId b) (eb_id b) LINE_ACCEPTED d = eb_rowCount b
     \<and> list_ex (\<lambda>r. re_batchId r = eb_id b \<and> re_providerTotalMinutes r = eb_totalPayableMinutes b) (receipts d)"

definition exportSound :: "database \<Rightarrow> exportBatch \<Rightarrow> bool" where
  "exportSound d b \<longleftrightarrow> int (length (linesOf d (eb_id b))) = eb_rowCount b
     \<and> sum_list (map el_payableMinutes (linesOf d (eb_id b))) = eb_totalPayableMinutes b
     \<and> list_all (fromEntry d b) (linesOf d (eb_id b)) \<and> ofLockedPeriod d b
     \<and> creditProven b (find (\<lambda>c. ct_id c = eb_creditTransactionId b) (creditTransactions d))
     \<and> (eb_status b = RECONCILED \<longrightarrow> reconciliationDone d b)"

definition exportInv :: "database \<Rightarrow> bool" where
  "exportInv d \<longleftrightarrow> distinct (map eb_id (exportBatches d)) \<and> distinct (map eb_periodId (exportBatches d))
     \<and> list_all (\<lambda>l. el_batchId l \<in> eb_id ` set (exportBatches d)) (exportLines d)
     \<and> list_all (exportSound d) (exportBatches d)"

section \<open>What other commands leave alone\<close>

lemma find_append: "find P xs = Some x \<Longrightarrow> find P (xs @ ys) = Some x"
  by (induction xs) (auto split: if_splits)

lemma find_prefix: "find P xs = Some x \<Longrightarrow> prefix xs ys \<Longrightarrow> find P ys = Some x"
  by (auto simp: prefix_def find_append)

lemma list_ex_prefix: "list_ex P xs \<Longrightarrow> prefix xs ys \<Longrightarrow> list_ex P ys"
  by (auto simp: prefix_def)

lemma creditProven_some: "creditProven b v \<Longrightarrow> \<exists>c. v = Some c"
  by (auto simp: creditProven_def split: option.splits)

lemma creditProven_prefix:
  assumes "creditProven b (find P xs)" and "prefix xs ys"
  shows "creditProven b (find P ys)"
proof -
  obtain c where c: "find P xs = Some c" using creditProven_some [OF assms(1)] by blast
  show ?thesis using assms(1) unfolding find_prefix [OF c assms(2)] c .
qed

lemma ofLockedPeriod_advance: "ofLockedPeriod d b \<Longrightarrow> advance d d' \<Longrightarrow> ofLockedPeriod d' b"
  unfolding ofLockedPeriod_def list_ex_iff advance_def by (metis growsBy_mem periodStep_locked)

definition exportsUntouched :: "database \<Rightarrow> database \<Rightarrow> bool" where
  "exportsUntouched d d' \<longleftrightarrow> exportBatches d' = exportBatches d \<and> exportLines d' = exportLines d \<and> lineStates d' = lineStates d"

lemma exportSound_frame:
  assumes "exportSound d b" and "advance d d'" and "linesOf d' (eb_id b) = linesOf d (eb_id b)"
    and "eb_status b = RECONCILED \<Longrightarrow> countStates (eb_tenantId b) (eb_id b) LINE_ACCEPTED d' = countStates (eb_tenantId b) (eb_id b) LINE_ACCEPTED d"
  shows "exportSound d' b"
proof -
  have kept: "prefix (lockedEntries d) (lockedEntries d')" "prefix (receipts d) (receipts d')" "prefix (creditTransactions d) (creditTransactions d')"
    using assms(2) by (simp_all add: advance_def evidenceKept_def)
  have "list_all (fromEntry d' b) (linesOf d' (eb_id b))"
    using assms(1,3) kept(1) by (auto simp: exportSound_def list_all_iff fromEntry_def intro: list_ex_prefix)
  moreover have "eb_status b = RECONCILED \<longrightarrow> reconciliationDone d' b"
    using assms(1,4) kept(2) by (auto simp: exportSound_def reconciliationDone_def intro: list_ex_prefix)
  ultimately show ?thesis
    using assms(1,3) ofLockedPeriod_advance [OF _ assms(2)] creditProven_prefix [OF _ kept(3)] by (simp add: exportSound_def)
qed

lemma exportInv_frame:
  assumes "exportInv d" and "advance d d'" and "exportsUntouched d d'"
  shows "exportInv d'"
proof -
  have "exportSound d' b" if "b \<in> set (exportBatches d)" for b
    by (rule exportSound_frame [OF _ assms(2)])
      (use that assms(1,3) in \<open>simp_all add: exportInv_def list_all_iff linesOf_def exportsUntouched_def countStates_def\<close>)
  then show ?thesis using assms(1,3) by (simp add: exportInv_def exportsUntouched_def list_all_iff)
qed

section \<open>How exports advance\<close>

lemma charged_advance: "charged d tenantId cost transactionId reason balance d' \<Longrightarrow> advance d d'"
  by (auto simp: charged_def debited_def payroll_tables.R_refl evidenceKept_def periodStep_same cardStep_same intro!: advanceI)

lemma charged_same:
  assumes "charged d tenantId cost transactionId reason balance d'"
  shows "exportBatches d' = exportBatches d" "exportLines d' = exportLines d" "lineStates d' = lineStates d" "payrollPeriods d' = payrollPeriods d"
    "timeCards d' = timeCards d" "lockedEntries d' = lockedEntries d" "receipts d' = receipts d"
  using assms by (auto simp: charged_def debited_def)

lemma charged_settled: "charged d tenantId cost transactionId reason balance d' \<Longrightarrow> settled d' tenantId cost transactionId reason balance"
  by (auto simp: charged_def intro: debited_settled)

lemma exportOutcome_advance: "exportOutcome E tenantId request cost periodId d d' \<Longrightarrow> advance d d'"
  unfolding exportOutcome_def exportCreated_def
proof (elim disjE exE conjE)
  fix p entries drafts b d1 log
  assume c: "charged d tenantId cost (exportCreditId (rq_operationId request)) (exportReason periodId) (eb_newBalance b) d1"
    and d': "d' = auditLogs_update (\<lambda>ls. ls @ [log]) (exportLines_update (\<lambda>ls. ls @ map (exportLineRow tenantId (eb_id b)) drafts)
        (exportBatches_update (\<lambda>bs. bs @ [b]) d1))"
  have "advance d1 d'" by (simp add: d' advanceI evidenceKept_def periodStep_same cardStep_same)
  then show ?thesis using charged_advance [OF c] payroll_tables.R_trans by blast
qed (simp add: payroll_tables.R_refl)

lemma exportOutcome_inv:
  assumes "exportOutcome E tenantId request cost periodId d d'" and "payrollInv F d"
  shows "payrollInv F d'"
  using assms(1) unfolding exportOutcome_def exportCreated_def
proof (elim disjE exE conjE)
  fix p entries drafts b d1 log
  assume c: "charged d tenantId cost (exportCreditId (rq_operationId request)) (exportReason periodId) (eb_newBalance b) d1"
    and d': "d' = auditLogs_update (\<lambda>ls. ls @ [log]) (exportLines_update (\<lambda>ls. ls @ map (exportLineRow tenantId (eb_id b)) drafts)
        (exportBatches_update (\<lambda>bs. bs @ [b]) d1))"
  show ?thesis by (subst payrollInv_cong [of _ d]) (simp_all add: d' charged_same [OF c] assms(2))
qed (simp add: assms(2))

lemma downloadOutcome_advance: "downloadOutcome tenantId d d' \<Longrightarrow> advance d d'"
  unfolding downloadOutcome_def
  by (elim disjE exE conjE) (simp_all add: payroll_tables.R_refl advanceI evidenceKept_def periodStep_same cardStep_same)

lemma downloadOutcome_inv: "downloadOutcome tenantId d d' \<Longrightarrow> payrollInv E d \<Longrightarrow> payrollInv E d'"
  unfolding downloadOutcome_def by (elim disjE exE conjE, simp, hypsubst, subst payrollInv_cong [of _ d]) simp_all


lemma statesKept_advance:
  "statesKept batchId (lineEvents_update (\<lambda>rows. rows @ evs) (receipts_update (\<lambda>rows. rows @ [r]) d)) d1 \<Longrightarrow> advance d d1"
  unfolding statesKept_def
  by (elim exE conjE) (simp add: advanceI evidenceKept_def periodStep_same cardStep_same)

lemma batchesMoved_advance: "batchesMoved tenantId batchId complete d d' \<Longrightarrow> advance d d'"
  unfolding batchesMoved_def
  by (elim exE conjE) (simp add: advanceI evidenceKept_def periodStep_same cardStep_same)

lemma audit_advance: "advance d (auditLogs_update (\<lambda>ls. ls @ [log]) d)"
  by (simp add: advanceI evidenceKept_def periodStep_same cardStep_same)

lemma receiptOutcome_advance: "receiptOutcome tenantId d d' \<Longrightarrow> advance d d'"
  unfolding receiptOutcome_def receiptStored_def
proof (elim disjE exE conjE)
  fix b r evs d1 d2 log
  assume k: "statesKept (eb_id b) (lineEvents_update (\<lambda>rows. rows @ evs) (receipts_update (\<lambda>rows. rows @ [r]) d)) d1"
    and m: "batchesMoved tenantId (eb_id b) (countStates tenantId (eb_id b) LINE_ACCEPTED d1 = eb_rowCount b
            \<and> re_providerTotalMinutes r = eb_totalPayableMinutes b) d1 d2"
    and d': "d' = auditLogs_update (\<lambda>ls. ls @ [log]) d2"
  show ?thesis unfolding d'
    by (rule payroll_tables.R_trans [OF payroll_tables.R_trans [OF statesKept_advance [OF k] batchesMoved_advance [OF m]] audit_advance])
qed (simp add: payroll_tables.R_refl)

lemma batchesMoved_same: "batchesMoved tenantId batchId complete d d' \<Longrightarrow>
    payrollPeriods d' = payrollPeriods d \<and> timeCards d' = timeCards d \<and> lockedEntries d' = lockedEntries d \<and> exportLines d' = exportLines d
    \<and> receipts d' = receipts d \<and> lineStates d' = lineStates d"
  by (auto simp: batchesMoved_def)

lemma statesKept_same: "statesKept batchId d d' \<Longrightarrow>
    payrollPeriods d' = payrollPeriods d \<and> timeCards d' = timeCards d \<and> lockedEntries d' = lockedEntries d \<and> exportLines d' = exportLines d
    \<and> receipts d' = receipts d \<and> exportBatches d' = exportBatches d"
  by (auto simp: statesKept_def)

lemma receiptOutcome_inv:
  assumes "receiptOutcome tenantId d d'" and "payrollInv E d"
  shows "payrollInv E d'"
  using assms(1) unfolding receiptOutcome_def receiptStored_def
proof (elim disjE exE conjE)
  fix b r evs d1 d2 log
  assume k: "statesKept (eb_id b) (lineEvents_update (\<lambda>rows. rows @ evs) (receipts_update (\<lambda>rows. rows @ [r]) d)) d1"
    and m: "batchesMoved tenantId (eb_id b) (countStates tenantId (eb_id b) LINE_ACCEPTED d1 = eb_rowCount b
            \<and> re_providerTotalMinutes r = eb_totalPayableMinutes b) d1 d2"
    and d': "d' = auditLogs_update (\<lambda>ls. ls @ [log]) d2"
  show ?thesis using statesKept_same [OF k] batchesMoved_same [OF m] by (subst payrollInv_cong [of _ d]) (simp_all add: d' assms(2))
qed (simp add: assms(2))

section \<open>Exports keep the invariant\<close>

lemma settled_proven:
  assumes "settled d tenantId cost (exportCreditId (rq_operationId request)) (exportReason periodId) (eb_newBalance b)"
    and "eb_tenantId b = tenantId" "eb_periodId b = periodId" "eb_operationId b = rq_operationId request"
      "eb_creditTransactionId b = exportCreditId (rq_operationId request)" "eb_consumedCredits b = cost"
  shows "creditProven b (find (\<lambda>c. ct_id c = eb_creditTransactionId b) (creditTransactions d))"
proof -
  obtain c where c: "find (\<lambda>c. ct_id c = exportCreditId (rq_operationId request)) (creditTransactions d) = Some c"
    and f: "ct_tenantId c = tenantId" "ct_amount c = - cost" "ct_debtAmount c = 0" "ct_reason c = exportReason periodId"
      "ct_balanceAfter c = Some (eb_newBalance b)" "ct_debtAfter c = Some 0"
    using assms(1) by (auto simp: settled_def)
  show ?thesis using find_SomeD [OF c] f assms(2-6) by (simp add: creditProven_def c)
qed

lemma evidence_checked:
  assumes "checkLockedEvidence E tenantId p entries = ok n"
  shows "pp_lockedEntryCount p = Some (int (length entries))" "pp_totalPayableMinutes p = Some n" "n = sum_list (map en_payableMinutes entries)"
    "entries \<noteq> []" "isSafeInteger n"
  using assms by (auto simp: checkLockedEvidence_def Let_def bindR_ok checkR_ok)

lemma linesOf_append: "linesOf (exportLines_update (\<lambda>ls. ls @ new) d) i = linesOf d i @ filter (\<lambda>l. el_batchId l = i) new"
  by (simp add: linesOf_def)

lemma newLines:
  "filter (\<lambda>l. el_batchId l = i) (map (exportLineRow tenantId batchId) drafts) = (if i = batchId then map (exportLineRow tenantId batchId) drafts else [])"
  by (induction drafts) (auto simp: exportLineRow_def Let_def)

lemma exportCreated_exportInv:
  assumes "exportCreated E tenantId request cost periodId d d'" and "exportInv d"
  shows "exportInv d'"
proof -
  obtain p entries drafts b d1 log where p: "p \<in> set (payrollPeriods d)" "pp_id p = periodId" "pp_tenantId p = tenantId" "pp_status p = PERIOD_LOCKED"
    and es: "set entries \<subseteq> {e \<in> set (lockedEntries d). en_tenantId e = tenantId \<and> en_periodId e = periodId}"
    and ev: "checkLockedEvidence E tenantId p entries = ok (eb_totalPayableMinutes b)"
    and ds: "list_all2 (draftOf E tenantId (eb_id b)) (enumerate 0 entries) drafts"
    and c: "charged d tenantId cost (exportCreditId (rq_operationId request)) (exportReason periodId) (eb_newBalance b) d1"
    and b: "eb_tenantId b = tenantId" "eb_periodId b = periodId" "eb_status b = GENERATED" "eb_rowCount b = int (length drafts)"
      "eb_operationId b = rq_operationId request" "eb_creditTransactionId b = exportCreditId (rq_operationId request)" "eb_consumedCredits b = cost"
    and clash: "\<not> list_ex (batchClash b) (exportBatches d1)"
    and d': "d' = auditLogs_update (\<lambda>ls. ls @ [log]) (exportLines_update (\<lambda>ls. ls @ map (exportLineRow tenantId (eb_id b)) drafts)
            (exportBatches_update (\<lambda>bs. bs @ [b]) d1))"
    using assms(1) unfolding exportCreated_def by (elim exE conjE) (rule that)
  note same = charged_same [OF c]
  have fresh: "eb_id b \<notin> eb_id ` set (exportBatches d)" "eb_periodId b \<notin> eb_periodId ` set (exportBatches d)"
    using clash by (auto simp: list_ex_iff batchClash_def same)
  have lines: "linesOf d' i = linesOf d i @ (if i = eb_id b then map (exportLineRow tenantId (eb_id b)) drafts else [])" for i
    using newLines by (simp add: linesOf_def d' same)
  have "el_batchId l \<noteq> eb_id b" if "l \<in> set (exportLines d)" for l
    using assms(2) fresh(1) that unfolding exportInv_def list_all_iff by metis
  then have "linesOf d (eb_id b) = []" by (simp add: linesOf_def filter_empty_conv)
  then have own: "linesOf d' (eb_id b) = map (exportLineRow tenantId (eb_id b)) drafts" by (simp add: lines)
  have entries: "map dl_entry drafts = entries" by (rule drafts_entries [OF ds])
  have adv: "advance d d'" by (rule exportOutcome_advance [of E tenantId request cost periodId]) (simp add: exportOutcome_def assms(1))
  have minutes: "map el_payableMinutes (linesOf d' (eb_id b)) = map en_payableMinutes entries"
    by (simp add: own entries [symmetric] exportLineRow_def Let_def)
  have sums: "sum_list (map el_payableMinutes (map (exportLineRow tenantId (eb_id b)) drafts)) = eb_totalPayableMinutes b"
    using evidence_checked(3) [OF ev] minutes own by metis
  have locked: "lockedEntries d' = lockedEntries d" "payrollPeriods d' = payrollPeriods d" "creditTransactions d' = creditTransactions d1"
    by (simp_all add: d' same)
  have "fromEntry d' b (exportLineRow tenantId (eb_id b) l)" if "l \<in> set drafts" for l
  proof -
    have "dl_entry l \<in> set entries" using that entries by force
    then show ?thesis using es b(2) by (auto simp: fromEntry_def list_ex_iff locked exportLineRow_def Let_def)
  qed
  then have "exportSound d' b"
    using evidence_checked(1,2) [OF ev] sums p b settled_proven [OF charged_settled [OF c] b(1,2,5,6,7)] length_map [of dl_entry drafts]
    unfolding exportSound_def own [symmetric]
    by (auto simp: own list_all_iff ofLockedPeriod_def list_ex_iff locked entries)
  moreover have "exportSound d' a" if "a \<in> set (exportBatches d)" for a
  proof (rule exportSound_frame [OF _ adv])
    show "exportSound d a" using that assms(2) by (simp add: exportInv_def list_all_iff)
    show "linesOf d' (eb_id a) = linesOf d (eb_id a)" using image_eqI [OF refl that, of eb_id] fresh(1) by (auto simp: lines)
  qed (simp add: countStates_def d' same)
  ultimately show ?thesis
    using assms(2) fresh unfolding exportInv_def by (auto simp: d' same list_all_iff exportLineRow_def Let_def)
qed

text \<open>Rows that move forward keep what the invariant says about them.\<close>

lemma exportSound_step:
  assumes "exportSound d b" and "batchStep b c" and "c \<noteq> b \<Longrightarrow> eb_status c = RECONCILED \<Longrightarrow> reconciliationDone d c"
  shows "exportSound d c"
proof -
  have id: "batchIdentity c = batchIdentity b" using assms(2) by (simp add: batchStep_def)
  note f = batchIdentity_fields [OF id]
  have "reconciliationDone d c" if "eb_status c = RECONCILED"
    using that assms(1,3) by (auto simp: exportSound_def)
  moreover have "creditProven c v = creditProven b v" for v by (simp add: creditProven_def f split: option.split)
  moreover have "fromEntry d c l = fromEntry d b l" "ofLockedPeriod d c = ofLockedPeriod d b" for l
    by (simp_all add: fromEntry_def ofLockedPeriod_def f)
  ultimately show ?thesis using assms(1) by (simp add: exportSound_def f list_all_iff)
qed

lemma exportInv_batches:
  assumes "exportInv d" and "list_all2 R (exportBatches d) (exportBatches d')" and "\<And>b c. R b c \<Longrightarrow> batchStep b c"
    and "exportLines d' = exportLines d"
    and "\<And>b c. b \<in> set (exportBatches d) \<Longrightarrow> R b c \<Longrightarrow> exportSound d b \<Longrightarrow> exportSound d' c"
  shows "exportInv d'"
proof -
  have ids: "map eb_id (exportBatches d') = map eb_id (exportBatches d)" "map eb_periodId (exportBatches d') = map eb_periodId (exportBatches d)"
    using assms(2) by (induction rule: list_all2_induct) (auto dest!: assms(3) simp: batchStep_def dest: batchIdentity_fields)
  have "exportSound d' c" if "c \<in> set (exportBatches d')" for c
    using list_all2_source [OF assms(2) that] assms(1,5) by (auto simp: exportInv_def list_all_iff)
  then show ?thesis
    using assms(1,4) ids unfolding exportInv_def list_all_iff by (metis list.set_map)
qed

lemma downloadOutcome_exportInv:
  assumes "downloadOutcome tenantId d d'" and "exportInv d"
  shows "exportInv d'"
  using assms(1) unfolding downloadOutcome_def
proof (elim disjE exE conjE)
  fix batchId t u log
  assume d': "d' = auditLogs_update (\<lambda>ls. ls @ [log])
      (exportBatches_update (updateWhere (downloadTarget tenantId batchId GENERATED) (downloadedRow t u)) d)"
  have steps: "list_all2 (\<lambda>b c. batchStep b c \<and> (c = b \<or> eb_status c = DOWNLOADED)) (exportBatches d) (exportBatches d')"
    unfolding d' updateWhere_def by (auto simp: list.rel_map downloadTarget_def batchStep_def batchIdentity_def downloadedRow_def
        intro!: list.rel_refl_strong)
  have frame: "exportSound d' b" if "exportSound d b" for b
    by (rule exportSound_frame [OF that downloadOutcome_advance [OF assms(1)]]) (simp_all add: d' linesOf_def countStates_def)
  show ?thesis
    by (rule exportInv_batches [OF assms(2) steps]) (simp, simp add: d', auto intro: exportSound_step [OF frame])
qed (simp add: assms(2))

lemma countStates_other:
  assumes "statesKept batchId d d'" and "i \<noteq> batchId"
  shows "countStates t i s d' = countStates t i s d"
proof -
  have split: "filter (\<lambda>st. st_tenantId st = t \<and> st_batchId st = i \<and> st_status st = s) sts
      = filter (\<lambda>st. st_tenantId st = t \<and> st_batchId st = i \<and> st_status st = s) (filter (\<lambda>st. st_batchId st \<noteq> batchId) sts)" for sts
    using assms(2) by (induction sts) auto
  have kept: "filter (\<lambda>st. st_batchId st \<noteq> batchId) (lineStates d') = filter (\<lambda>st. st_batchId st \<noteq> batchId) (lineStates d)"
    using assms(1) by (auto simp: statesKept_def)
  show ?thesis unfolding countStates_def by (subst (1 2) split) (simp only: kept)
qed

lemma receiptOutcome_exportInv:
  assumes "receiptOutcome tenantId d d'" and "exportInv d"
  shows "exportInv d'"
  using assms(1) unfolding receiptOutcome_def receiptStored_def
proof (elim disjE exE conjE)
  fix b :: exportBatch and r :: receipt and evs d1 d2 log
  let ?d0 = "lineEvents_update (\<lambda>rows. rows @ evs) (receipts_update (\<lambda>rows. rows @ [r]) d)"
  let ?complete = "countStates tenantId (eb_id b) LINE_ACCEPTED d1 = eb_rowCount b \<and> re_providerTotalMinutes r = eb_totalPayableMinutes b"
  assume b: "b \<in> set (exportBatches d)" "eb_tenantId b = tenantId" "eb_status b \<in> {DOWNLOADED, RECONCILING}" and r: "re_batchId r = eb_id b"
    and k: "statesKept (eb_id b) ?d0 d1" and m: "batchesMoved tenantId (eb_id b) ?complete d1 d2"
    and d': "d' = auditLogs_update (\<lambda>ls. ls @ [log]) d2"
  have same: "exportLines d' = exportLines d" "exportBatches d1 = exportBatches d" "lineStates d' = lineStates d1" "receipts d' = receipts d @ [r]"
    using statesKept_same [OF k] batchesMoved_same [OF m] by (simp_all add: d')
  have steps: "list_all2 (moveStep tenantId (eb_id b) ?complete) (exportBatches d) (exportBatches d')"
    using m same(2) by (auto simp: batchesMoved_def d')
  have unique: "a = b" if "a \<in> set (exportBatches d)" "eb_id a = eb_id b" for a
    using assms(2) b(1) that by (auto simp: exportInv_def distinct_map dest: inj_onD)
  have count: "countStates t i s d' = countStates t i s d1" for t i s by (simp add: countStates_def same)
  have frame: "exportSound d' a" if a: "a \<in> set (exportBatches d)" "exportSound d a" for a
  proof (rule exportSound_frame [OF a(2) receiptOutcome_advance [OF assms(1)]])
    assume "eb_status a = RECONCILED"
    then have "eb_id a \<noteq> eb_id b" using unique [OF a(1)] b(3) by auto
    from countStates_other [OF k this] show "countStates (eb_tenantId a) (eb_id a) LINE_ACCEPTED d' = countStates (eb_tenantId a) (eb_id a) LINE_ACCEPTED d"
      by (simp add: count) (simp add: countStates_def)
  qed (simp add: linesOf_def same)
  show ?thesis
  proof (rule exportInv_batches [OF assms(2) steps])
    fix a c
    assume a: "a \<in> set (exportBatches d)" and s: "moveStep tenantId (eb_id b) ?complete a c" and e: "exportSound d a"
    show "exportSound d' c"
    proof (rule exportSound_step [OF frame [OF a e]])
      assume "c \<noteq> a" "eb_status c = RECONCILED"
      then have "eb_id a = eb_id b" and whole: ?complete using s by (auto simp: moveStep_def)
      then have "a = b" using unique [OF a] by simp
      then have "batchIdentity c = batchIdentity b" using s by (simp add: moveStep_def batchStep_def)
      from batchIdentity_fields [OF this] show "reconciliationDone d' c"
        using whole b(2) r by (simp add: reconciliationDone_def count same)
    qed (use s in \<open>simp add: moveStep_def\<close>)
  qed (simp_all add: same moveStep_def)
qed (simp add: assms(2))

end
