(* ===== verification/TimeCardLifecycle.thy ===== *)
theory TimeCardLifecycle
  imports TimeCards ExportInvariants
begin

text \<open>
  What clocking in, clocking out and correcting a card do to the database: the card that is added or changed,
  whose it is, the period it is assigned to, and the credit a clock-in costs.
\<close>

section \<open>Reads\<close>

lemma readsOnly_loadView [simp]: "readsOnly (loadView c)"
  unfolding loadView_def by (intro readsOnly_bind) simp_all

lemma readsOnly_cardJson [simp]: "readsOnly (cardJson E v)"
  unfolding cardJson_def by (intro readsOnly_bind) simp_all

lemma readsOnly_resolutions [simp]:
  "readsOnly (resolveClockInTargetForReplay tenantId publicId)" "readsOnly (readActiveClockInTarget tenantId publicId)"
  "readsOnly (resolveLocationForReplay tenantId publicId)" "readsOnly (resolveShiftForReplay tenantId publicId)"
  "readsOnly (resolveLocation tenantId publicId)" "readsOnly (resolveLocationByInternalId tenantId publicId)"
  "readsOnly (resolveShift tenantId publicId targetUserId)"
  unfolding resolveClockInTargetForReplay_def readActiveClockInTarget_def resolveLocationForReplay_def resolveShiftForReplay_def
    resolveLocation_def resolveLocationByInternalId_def resolveShift_def
  by (intro readsOnly_bind readsOnly_then; simp)+

lemma readsOnly_resolveOptional [simp]: "(\<And>s. readsOnly (resolve s)) \<Longrightarrow> readsOnly (resolveOptional resolve v)"
  unfolding resolveOptional_def by (intro readsOnly_option readsOnly_if readsOnly_bind) simp_all

lemma readsOnly_chosenLocation [simp]: "readsOnly (chosenLocation tenantId body sh)"
  unfolding chosenLocation_def by (intro readsOnly_option readsOnly_if readsOnly_bind readsOnly_resolveOptional) simp_all

lemma readsOnly_findClockInReplay [simp]: "readsOnly (findClockInReplay tenantId operation requestHash)"
  unfolding findClockInReplay_def by (intro readsOnly_bind readsOnly_then readsOnly_option readsOnly_if) simp_all

lemma readsOnly_findScoped [simp]: "readsOnly (findScopedTimeCard identity publicId includeClosed)"
  unfolding findScopedTimeCard_def by (intro readsOnly_bind) simp_all

lemma readsOnly_policySearch [simp]: "readsOnly cur \<Longrightarrow> readsOnly (policySearch rounds E tenantId clockInAt cur cursorId)"
  by (induction rounds arbitrary: cursorId) (auto intro!: readsOnly_bind readsOnly_then)

lemma readsOnly_locateTarget [simp]: "readsOnly (locateTarget identity body)"
  unfolding locateTarget_def by (intro readsOnly_option readsOnly_if) simp_all

lemma readsOnly_setLocal [simp]: "readsOnly (setLocalT v)"
  by (simp add: readsOnly_def setLocalT_def)

lemma readsOnly_local [simp]: "readsOnly localT"
  by (simp add: readsOnly_def localT_def)

lemma readsOnly_recoverClockIn [simp]: "readsOnly cur \<Longrightarrow> readsOnly (recoverClockIn E body operation current cur)"
  unfolding recoverClockIn_def by (intro readsOnly_bind readsOnly_then readsOnly_option readsOnly_if) simp_all

section \<open>Who acts\<close>

definition teamAccess :: "database \<Rightarrow> string \<Rightarrow> string \<Rightarrow> bool" where
  "teamAccess d tenantId userId \<longleftrightarrow> list_all (holdsPermission d tenantId userId) TEAM_TIME_CARD_PERMISSIONS"

text \<open>The identity a body runs with: the requester, with the permissions the stored roles grant.\<close>

definition actingAs :: "database \<Rightarrow> sessionIdentity \<Rightarrow> sessionIdentity \<Rightarrow> bool" where
  "actingAs d identity current \<longleftrightarrow> id_tenantId current = id_tenantId identity \<and> id_sub current = id_sub identity
     \<and> (\<exists>u \<in> set (users d). us_id u = id_sub identity \<and> us_publicId u = id_publicUserId current)
     \<and> (\<forall>p \<in> set (id_permissions current). holdsPermission d (id_tenantId identity) (id_sub identity) p)"

lemma actingAs_team: "actingAs d identity current \<Longrightarrow> canViewTeam current \<Longrightarrow> teamAccess d (id_tenantId identity) (id_sub identity)"
  by (auto simp: actingAs_def canViewTeam_def teamAccess_def list_all_iff)

lemma userRows_users: "u \<in> set (userRows tenantId ids d) \<Longrightarrow> u \<in> set (users d)"
  by (auto simp: userRows_def findMany_def Let_def)

lemma sat_authorize_permissions:
  "sat d (authorizeMutation E identity permission options) (\<lambda>ma d'. d' = d \<and> ma_actor ma \<in> set (users d)
     \<and> (\<forall>p \<in> set (as_permissions (ma_actorAccess ma)). holdsPermission d (id_tenantId identity) (us_id (ma_actor ma)) p))"
  unfolding authorizeMutation_def isAfter_def lockActorSession_def
  by (intro tx_rules) (auto dest!: find_SomeD dest: rolesOf_holds userRows_users)

lemma sat_authorizeCurrent_permissions:
  "sat d (authorizeCurrentMutation E identity permission options) (\<lambda>ca d'. d' = d
     \<and> actingAs d identity (identity \<lparr> id_sub := us_id (ma_actor (ca_authority ca)), id_publicUserId := us_publicId (ma_actor (ca_authority ca)),
         id_permissions := as_permissions (ma_actorAccess (ca_authority ca)) \<rparr>))"
  unfolding authorizeCurrentMutation_def
  apply (rule post_bind, rule post_weaken [OF sat_authorize_permissions])
   apply (intro tx_rules)
                  apply (auto simp: actingAs_def dest!: find_SomeD)
  done

lemma sat_timeScopeBody:
  assumes "readsOnly locate" and "\<And>current cur t. readsOnly cur \<Longrightarrow> actingAs d identity current \<Longrightarrow> sat d (operation current cur t) Q"
  shows "sat d (timeScopeBody E identity permission scope locate operation) Q"
  unfolding timeScopeBody_def Let_def
  apply (rule post_bind, rule post_readsOnly [OF assms(1)])
   apply (rule post_bind, rule post_weaken [OF sat_authorizeCurrent_permissions])
    apply (elim conjE, hypsubst)
    apply (rule post_then, rule post_readsOnly [OF readsOnly_assertCurrent])
     apply (rule post_bind, rule post_weaken [OF assms(2) [OF readsOnly_assertCurrent]], assumption)
       apply (rule post_then, rule post_readsOnly [OF readsOnly_assertCurrent])
        apply (auto intro: post_return)
  done

lemma post_runTimeScope:
  assumes "readsOnly locate" and "\<And>current cur t. readsOnly cur \<Longrightarrow> actingAs d identity current \<Longrightarrow> sat d (operation current cur t) Q"
    and "\<And>e. F e d" and "\<And>x d'. Q x d' \<Longrightarrow> F (DbError P1017) d'"
  shows "post d (runTimeScope E identity permission scope locate operation) Q F"
  unfolding runTimeScope_def
  by (rule post_retry_withTenant, rule sat_timeScopeBody [OF assms(1,2)]) (use assms(3,4) in auto)

lemma outcome_runTimeScope:
  assumes "readsOnly locate" and "\<And>current cur t. readsOnly cur \<Longrightarrow> actingAs d identity current \<Longrightarrow> sat d (operation current cur t) Q"
  shows "outcome d (runTimeScope E identity permission scope locate operation) Q"
  unfolding outcome_def by (rule post_runTimeScope [OF assms]) auto

lemma readsOnly_runTimeScope:
  assumes "readsOnly locate" and "\<And>current cur t. readsOnly cur \<Longrightarrow> readsOnly (operation current cur t)"
  shows "readsOnly (runTimeScope E identity permission scope locate operation)"
  by (rule readsOnlyI, rule post_runTimeScope [OF assms(1)]) (auto intro: post_readsOnly assms(2))

section \<open>Payroll assignment\<close>

text \<open>An assignment names an open period of the tenant that covers the clock-in, or none.\<close>

definition assignedOpen :: "database \<Rightarrow> string \<Rightarrow> instant \<Rightarrow> payrollAssignment \<Rightarrow> bool" where
  "assignedOpen d tenantId clockInAt a \<longleftrightarrow> (\<forall>i. pa_payrollPeriodId a = Some i \<longrightarrow>
     (\<exists>p \<in> set (payrollPeriods d). pp_id p = i \<and> pp_tenantId p = tenantId \<and> pp_status p = PERIOD_OPEN
        \<and> pp_startsAt p \<le> clockInAt \<and> clockInAt < pp_endsAt p))"

lemma sat_resolveAssignment:
  assumes "readsOnly cur"
  shows "sat d (resolveTimeCardPayrollAssignment E tenantId clockInAt place cur) (\<lambda>a d'. d' = d \<and> assignedOpen d tenantId clockInAt a)"
  unfolding resolveTimeCardPayrollAssignment_def
  apply (intro tx_rules TrueI post_cur [OF assms] post_any [OF readsOnly_policySearch [OF assms]])
   apply (auto simp: assignedOpen_def assignable_def dest!: find_SomeD)
  done

definition contextLocked :: "database \<Rightarrow> string \<Rightarrow> string option list \<Rightarrow> payrollPeriod list \<Rightarrow> bool" where
  "contextLocked d tenantId ids ps \<longleftrightarrow> set ps \<subseteq> {p \<in> set (payrollPeriods d). pp_tenantId p = tenantId \<and> pp_status p \<noteq> PERIOD_LOCKED}
     \<and> (\<forall>i. Some i \<in> set ids \<longrightarrow> i \<noteq> [] \<longrightarrow> i \<in> pp_id ` set ps)"

lemma sat_lockPeriodOfCard:
  assumes "readsOnly cur"
  shows "sat d (lockPeriodOfCard tenantId cur periodId) (\<lambda>p d'. d' = d \<and> p \<in> set (payrollPeriods d) \<and> pp_id p = periodId
     \<and> pp_tenantId p = tenantId \<and> pp_status p \<noteq> PERIOD_LOCKED)"
  unfolding lockPeriodOfCard_def
  apply (intro tx_rules TrueI post_cur [OF assms])
  apply (auto simp: length_Suc_conv filter_eq_Cons_iff)
  done

lemma contextLockedI:
  assumes "list_all2 (\<lambda>i p. p \<in> set (payrollPeriods d) \<and> pp_id p = i \<and> pp_tenantId p = tenantId \<and> pp_status p \<noteq> PERIOD_LOCKED)
    (sortBy le (jsSet (concat (map (\<lambda>i. case i of None \<Rightarrow> [] | Some s \<Rightarrow> if s = [] then [] else [s]) ids)))) ps"
  shows "contextLocked d tenantId ids ps"
proof -
  have "i \<in> pp_id ` set ps" if "Some i \<in> set ids" "i \<noteq> []" for i
  proof -
    have "i \<in> set (sortBy le (jsSet (concat (map (\<lambda>i. case i of None \<Rightarrow> [] | Some s \<Rightarrow> if s = [] then [] else [s]) ids))))"
      using that by (auto intro!: bexI [of _ "Some i"])
    from list_all2_target [OF assms this] show ?thesis by auto
  qed
  moreover have "p \<in> set (payrollPeriods d) \<and> pp_tenantId p = tenantId \<and> pp_status p \<noteq> PERIOD_LOCKED" if "p \<in> set ps" for p
    using list_all2_source [OF assms that] by auto
  ultimately show ?thesis by (auto simp: contextLocked_def)
qed

lemma sat_lockContext:
  assumes "readsOnly cur"
  shows "sat d (lockTimeCardPayrollContext tenantId ids cur) (\<lambda>ps d'. d' = d \<and> contextLocked d tenantId ids ps)"
  unfolding lockTimeCardPayrollContext_def Let_def
  apply (intro tx_rules TrueI post_cur [OF assms] post_weaken [OF sat_mapT [OF sat_lockPeriodOfCard [OF assms]]])
  apply (elim conjE, hypsubst)
  apply (intro tx_rules TrueI post_cur [OF assms] conjI refl)
  apply (rule contextLockedI, assumption)
  done

section \<open>Clocking in\<close>

definition mayClock :: "database \<Rightarrow> sessionIdentity \<Rightarrow> user \<Rightarrow> bool" where
  "mayClock d identity target \<longleftrightarrow> teamAccess d (id_tenantId identity) (id_sub identity)
     \<or> (\<exists>u \<in> set (users d). us_id u = id_sub identity \<and> sameUuid (us_publicId target) (us_publicId u))"

definition activeWorker :: "database \<Rightarrow> string \<Rightarrow> user \<Rightarrow> bool" where
  "activeWorker d tenantId u \<longleftrightarrow> u \<in> set (users d) \<and> us_tenantId u = tenantId \<and> us_role u \<in> {MANAGER, STAFF}
     \<and> us_deletedAt u = None \<and> us_suspendedAt u = None"

definition newCard :: "database \<Rightarrow> string \<Rightarrow> string \<Rightarrow> timeCard \<Rightarrow> bool" where
  "newCard d tenantId operation c \<longleftrightarrow> tc_tenantId c = tenantId \<and> tc_status c = CARD_OPEN \<and> tc_clockOutAt c = None \<and> tc_deletedAt c = None
     \<and> tc_breakMinutes c = 0 \<and> tc_revision c = 1 \<and> tc_clockInOperationId c = Some operation
     \<and> assignedOpen d tenantId (tc_clockInAt c) \<lparr> pa_payrollPeriodId = tc_payrollPeriodId c, pa_workTimeZone = tc_workTimeZone c \<rparr>
     \<and> \<not> list_ex (cardClash c) (timeCards d)"

definition clockInReason :: "timeCard \<Rightarrow> string" where "clockInReason c = ''Time card clock-in ('' @ tc_id c @ '')''"

definition clockInOutcome :: "sessionIdentity \<Rightarrow> string \<Rightarrow> database \<Rightarrow> database \<Rightarrow> bool" where
  "clockInOutcome identity operation d d' \<longleftrightarrow> d' = d
     \<or> (\<exists>c target balance d1 log. newCard d (id_tenantId identity) operation c \<and> activeWorker d (id_tenantId identity) target
          \<and> us_id target = tc_userId c \<and> mayClock d identity target
          \<and> charged (timeCards_update (\<lambda>cs. cs @ [c]) d) (id_tenantId identity) 1 (''feature-usage-'' @ operation) (clockInReason c) balance d1
          \<and> d' = auditLogs_update (\<lambda>ls. ls @ [log]) d1)"

lemma sat_entitled:
  "sat d (assertFeatureEntitled E tenantId feature billable) (\<lambda>r d'. d' = d \<and> (\<forall>x. r = Some x \<longrightarrow> fe_creditCost x = 1))"
  unfolding assertFeatureEntitled_def by (intro tx_rules TrueI) auto

lemma sat_activeTarget:
  "sat d (readActiveClockInTarget tenantId publicId) (\<lambda>u d'. d' = d \<and> activeWorker d tenantId u \<and> sameUuid (us_publicId u) publicId)"
  unfolding readActiveClockInTarget_def by (intro tx_rules TrueI) (auto simp: activeWorker_def dest!: find_SomeD)

lemma sat_debitUsage:
  assumes "readsOnly cur"
  shows "sat d (debitFeatureCredit cur tenantId entitlement operation reason None) (\<lambda>s d'.
      charged d tenantId (fe_creditCost entitlement) (''feature-usage-'' @ operation) reason (sm_newBalance s) d')"
proof -
  have "debitFeatureCredit cur tenantId entitlement operation reason None
      = debitFeatureCredit cur tenantId entitlement operation reason (Some (''feature-usage-'' @ operation))"
    by (simp add: debitFeatureCredit_def)
  then show ?thesis using post_weaken [OF sat_debit [OF assms, of d tenantId entitlement operation reason "''feature-usage-'' @ operation"]] by auto
qed

lemma clockInOutcomeI:
  assumes "activeWorker d (id_tenantId identity) target" "mayClock d identity target"
    and "c = clockedInCard newId publicId (id_tenantId identity) (us_id target) place sh operation requestHash clockInAt payroll notes createdAt updatedAt"
    and "assignedOpen d (id_tenantId identity) clockInAt payroll" "\<not> list_ex (cardClash c) (timeCards d)"
    and "charged (timeCards_update (\<lambda>cs. cs @ [c]) d) (id_tenantId identity) cost (''feature-usage-'' @ operation)
      (''Time card clock-in ('' @ newId @ '')'') balance d1" and "cost = 1"
  shows "clockInOutcome identity operation d (auditLogs_update (\<lambda>ls. ls @ [log]) d1)"
proof -
  have "newCard d (id_tenantId identity) operation c" using assms(3-5) by (simp add: newCard_def clockedInCard_def assignedOpen_def)
  moreover have "us_id target = tc_userId c" "clockInReason c = ''Time card clock-in ('' @ newId @ '')''"
    using assms(3) by (simp_all add: clockedInCard_def clockInReason_def)
  ultimately show ?thesis
    unfolding clockInOutcome_def using assms(1,2,6,7)
    by (intro disjI2 exI [of _ c] exI [of _ target] exI [of _ balance] exI [of _ d1] exI [of _ log]) simp
qed

lemma readsOnly_clock [simp]: "readsOnly (case t of None \<Rightarrow> nowT E | Some x \<Rightarrow> returnT x)"
  by (rule readsOnly_option) simp_all

lemma sat_clockInCreate:
  assumes "readsOnly cur" and "\<And>u. sameUuid (us_publicId u) targetPublicId \<Longrightarrow> mayClock d identity u"
  shows "sat d (clockInCreate E identity body targetPublicId operation requestHash requestedClockInAt notes cur) (\<lambda>_. clockInOutcome identity operation d)"
  unfolding clockInCreate_def writeCardAudit_def cardTable_def
  apply (intro post_let post_bind post_then post_weaken [OF sat_activeTarget])
   apply (elim conjE, hypsubst)
   apply (intro post_let post_bind post_then post_cur [OF assms(1)] TrueI post_check post_weaken [OF sat_entitled]
      post_any [OF readsOnly_resolveOptional [OF readsOnly_resolutions(7)]] post_any [OF readsOnly_chosenLocation])
    apply (elim conjE, hypsubst)
    apply (intro post_let post_bind post_then post_cur [OF assms(1)] TrueI post_check post_require post_get post_any [OF readsOnly_clock]
      post_weaken [OF sat_resolveAssignment [OF assms(1)]])
     apply (elim conjE, hypsubst)
     apply (intro tx_rules post_cur [OF assms(1)] TrueI post_any [OF readsOnly_loadView] post_any [OF readsOnly_cardJson]
      post_weaken [OF sat_debitUsage [OF assms(1)]])
      apply (unfold fst_conv snd_conv)
      apply (rule clockInOutcomeI, assumption, erule assms(2), assumption, assumption, assumption, assumption)
      apply simp_all
  done

text \<open>The identity a body runs with may only clock in workers it may clock in.\<close>

lemma writable_mayClock:
  assumes "actingAs d identity current" and "writableTargetPublicId current requested = ok publicId" and "sameUuid (us_publicId u) publicId"
  shows "mayClock d current u"
proof -
  have id: "id_tenantId current = id_tenantId identity" "id_sub current = id_sub identity" using assms(1) by (simp_all add: actingAs_def)
  show ?thesis
    using assms actingAs_team [OF assms(1)] id
    by (auto simp: writableTargetPublicId_def Let_def bindR_ok checkR_ok mayClock_def actingAs_def)
qed

lemma sat_clockInBody:
  assumes "readsOnly cur" and "actingAs d identity current"
  shows "sat d (clockInBody E body operation requestedClockInAt notes current cur targetUserId) (\<lambda>_. clockInOutcome current operation d)"
  unfolding clockInBody_def
  apply (intro post_let post_bind post_then post_lift post_cur [OF assms(1)] TrueI post_check post_setLocal post_option post_return
      post_any [OF readsOnly_resolutions(1)] post_any [OF readsOnly_resolveOptional [OF readsOnly_resolutions(3)]]
      post_any [OF readsOnly_resolveOptional [OF readsOnly_resolutions(4)]] post_any [OF readsOnly_findClockInReplay]
      post_any [OF readsOnly_cardJson])
   apply (rule sat_clockInCreate [OF assms(1)], erule (1) writable_mayClock [OF assms(2)])
  apply (simp add: clockInOutcome_def)
  done

lemma clockInOutcome_identity: "actingAs d identity current \<Longrightarrow> clockInOutcome current operation d d' = clockInOutcome identity operation d d'"
  by (simp add: clockInOutcome_def mayClock_def actingAs_def)

lemma outcome_catchReads:
  assumes "outcome d m (\<lambda>_. R d)" and "R d d" and "\<And>e. readsOnly (h e)"
  shows "outcome d (catchT m h) (\<lambda>_. R d)"
  unfolding outcome_def
  apply (rule post_catch, rule post_weaken [OF assms(1) [unfolded outcome_def]], assumption)
  apply (rule post_readsOnly [OF assms(3)])
   apply (use assms(2) in auto)
  done

lemma outcome_lift: "(\<And>x. r = ok x \<Longrightarrow> outcome d (f x) Q) \<Longrightarrow> outcome d (bindT (liftT r) f) Q"
  unfolding outcome_def by (intro post_bind post_lift) simp_all

definition clockInOperation :: "env \<Rightarrow> sessionIdentity \<Rightarrow> string option \<Rightarrow> string" where
  "clockInOperation E identity key = operationId E (id_tenantId identity) (case key of None \<Rightarrow> [] | Some k \<Rightarrow> trim k)"

lemma clockInOperation_key:
  "normalizeClockInIdempotencyKey v = ok k \<Longrightarrow> operationId E (id_tenantId identity) k = clockInOperation E identity v"
  by (auto simp: normalizeClockInIdempotencyKey_def clockInOperation_def Let_def bindR_ok)

lemma outcome_clockIn:
  "outcome d (clockIn E who body key) (\<lambda>_. clockInOutcome (mutationIdentity who) (clockInOperation E (mutationIdentity who) key) d)"
  unfolding clockIn_def
  apply (intro outcome_let outcome_lift outcome_then outcome_bind readsOnly_setLocal readsOnly_prepare outcome_catchReads)
    apply (rule outcome_runTimeScope)
     apply simp
    apply (rule post_weaken [OF sat_clockInBody])
       apply assumption
      apply assumption
     apply (simp add: clockInOutcome_identity clockInOperation_key)
    apply simp
   apply (simp add: clockInOutcome_def)
  apply (auto intro!: readsOnly_bind readsOnly_runTimeScope readsOnly_option)
  done

section \<open>Clocking out\<close>

definition scopedCard :: "sessionIdentity \<Rightarrow> string \<Rightarrow> bool \<Rightarrow> timeCard \<Rightarrow> bool" where
  "scopedCard identity publicId includeClosed c \<longleftrightarrow> tc_tenantId c = id_tenantId identity \<and> sameUuid (tc_publicId c) publicId \<and> tc_deletedAt c = None
     \<and> (includeClosed \<or> tc_status c \<noteq> CARD_VOID) \<and> (canViewTeam identity \<or> tc_userId c = id_sub identity)"

lemma viewOf_card: "viewOf d c = ok v \<Longrightarrow> cv_card v = c"
  by (auto simp: viewOf_def split: option.splits)

lemma sat_findScoped:
  "sat d (findScopedTimeCard identity publicId includeClosed) (\<lambda>v d'. d' = d
     \<and> find (scopedCard identity publicId includeClosed) (timeCards d) = Some (cv_card v) \<and> viewOf d (cv_card v) = ok v)"
  unfolding findScopedTimeCard_def loadView_def scopedCard_def [abs_def] by (intro tx_rules TrueI) (auto dest: viewOf_card)

text \<open>The period of a card may still change, and the clock-out is not after its end.\<close>

definition periodOpenUntil :: "database \<Rightarrow> string \<Rightarrow> string option \<Rightarrow> instant option \<Rightarrow> bool" where
  "periodOpenUntil d tenantId periodId clockOutAt \<longleftrightarrow> (\<forall>i. periodId = Some i \<longrightarrow> i \<noteq> [] \<longrightarrow>
     (\<exists>p \<in> set (payrollPeriods d). pp_id p = i \<and> pp_tenantId p = tenantId \<and> pp_status p \<noteq> PERIOD_LOCKED
        \<and> (\<forall>t. clockOutAt = Some t \<longrightarrow> t \<le> pp_endsAt p)))"

lemma context_cutoff:
  assumes "contextLocked d tenantId ids ps" and "assertClockOutWithinPayrollPeriod i t ps = ok x"
  shows "periodOpenUntil d tenantId i (Some t)"
  using assms
  by (auto simp: assertClockOutWithinPayrollPeriod_def periodOpenUntil_def contextLocked_def checkR_ok split: option.splits if_splits dest!: find_SomeD)

lemma context_unlocked: "contextLocked d tenantId ids ps \<Longrightarrow> i \<in> set ids \<Longrightarrow> periodOpenUntil d tenantId i None"
  by (fastforce simp: contextLocked_def periodOpenUntil_def)

definition breakFits :: "int \<Rightarrow> instant \<Rightarrow> instant \<Rightarrow> bool" where
  "breakFits breakMinutes clockInAt clockOutAt \<longleftrightarrow> 0 \<le> breakMinutes
     \<and> (breakMinutes = 0 \<or> breakMinutes < floorMinutes (clockOutAt - clockInAt))"

lemma normalizeBreak_fits: "normalizeClockOutBreakMinutes v (floorMinutes (t - s)) = ok n \<Longrightarrow> breakFits n s t"
  by (auto simp: normalizeClockOutBreakMinutes_def breakFits_def bindR_ok checkR_ok split: option.splits)

definition mayEdit :: "database \<Rightarrow> sessionIdentity \<Rightarrow> timeCard \<Rightarrow> bool" where
  "mayEdit d identity c \<longleftrightarrow> tc_tenantId c = id_tenantId identity \<and> tc_deletedAt c = None
     \<and> (teamAccess d (id_tenantId identity) (id_sub identity) \<or> tc_userId c = id_sub identity)"

lemma scoped_mayEdit:
  "actingAs d identity current \<Longrightarrow> scopedCard current publicId includeClosed c \<Longrightarrow> mayEdit d identity c"
  using actingAs_team [of d identity current] by (auto simp: scopedCard_def mayEdit_def actingAs_def)

definition clockOutDone :: "sessionIdentity \<Rightarrow> database \<Rightarrow> timeCard \<Rightarrow> instant \<Rightarrow> int \<Rightarrow> bool" where
  "clockOutDone identity d c clockOutAt breakMinutes \<longleftrightarrow> c \<in> set (timeCards d) \<and> mayEdit d identity c \<and> tc_status c = CARD_OPEN
     \<and> tc_clockInAt c < clockOutAt \<and> breakFits breakMinutes (tc_clockInAt c) clockOutAt
     \<and> periodOpenUntil d (id_tenantId identity) (tc_payrollPeriodId c) (Some clockOutAt)
     \<and> length (filter (clockOutTarget c (id_tenantId identity)) (timeCards d)) = 1"

definition clockOutOutcome :: "sessionIdentity \<Rightarrow> database \<Rightarrow> database \<Rightarrow> bool" where
  "clockOutOutcome identity d d' \<longleftrightarrow> d' = d
     \<or> (\<exists>c clockOutAt breakMinutes notes updatedAt log. clockOutDone identity d c clockOutAt breakMinutes
          \<and> d' = auditLogs_update (\<lambda>ls. ls @ [log]) (timeCards_update
              (updateWhere (clockOutTarget c (id_tenantId identity)) (clockedOut clockOutAt breakMinutes notes updatedAt)) d))"

lemma clockOutOutcomeI:
  assumes "clockOutDone identity d c clockOutAt breakMinutes" and "tenantId = id_tenantId identity"
  shows "clockOutOutcome identity d (auditLogs_update (\<lambda>ls. ls @ [log]) (timeCards_update
      (updateWhere (clockOutTarget c tenantId) (clockedOut clockOutAt breakMinutes notes updatedAt)) d))"
  unfolding clockOutOutcome_def assms(2) by (intro disjI2 exI conjI) (rule assms(1), rule refl)

lemma clockOutDoneI:
  assumes "actingAs d identity current" and "contextLocked d (id_tenantId current) ids ps"
    and "tc_status c = CARD_OPEN" and "find (scopedCard current publicId False) (timeCards d) = Some c"
    and "\<not> clockOutAt \<le> tc_clockInAt c" and "assertClockOutWithinPayrollPeriod (tc_payrollPeriodId c) clockOutAt ps = ok x"
    and "totalMinutes = floorMinutes (clockOutAt - tc_clockInAt c)" and "normalizeClockOutBreakMinutes v totalMinutes = ok breakMinutes"
    and "length (filter (clockOutTarget c (id_tenantId current)) (timeCards d)) = 1"
  shows "clockOutDone identity d c clockOutAt breakMinutes"
  unfolding clockOutDone_def
  using assms find_SomeD [OF assms(4)] scoped_mayEdit [OF assms(1)] context_cutoff [OF assms(2,6)]
    normalizeBreak_fits [OF assms(8) [unfolded assms(7)]]
  by (auto simp: actingAs_def)

lemma actingAs_tenant: "actingAs d identity current \<Longrightarrow> id_tenantId current = id_tenantId identity"
  by (simp add: actingAs_def)

lemma sat_clockOutBody:
  assumes "readsOnly cur" and "actingAs d identity current"
  shows "sat d (clockOutBody E publicId body requestedClockOutAt notes current cur) (\<lambda>_. clockOutOutcome identity d)"
  unfolding clockOutBody_def writeCardAudit_def cardTable_def
  apply (intro post_let post_bind post_then post_check TrueI post_weaken [OF sat_findScoped])
  apply (elim conjE, hypsubst)
  apply (intro post_let post_bind post_then post_check TrueI post_cur [OF assms(1)] post_weaken [OF sat_lockContext [OF assms(1)]])
  apply (elim conjE, hypsubst)
  apply (intro post_let post_bind post_then post_check TrueI post_cur [OF assms(1)] post_weaken [OF sat_findScoped])
  apply (elim conjE, hypsubst)
  apply (intro tx_rules post_cur [OF assms(1)] TrueI post_any [OF readsOnly_clock] post_any [OF readsOnly_findScoped] post_any [OF readsOnly_cardJson])
  apply (unfold fst_conv snd_conv)
  apply ((rule clockOutOutcomeI, (rule clockOutDoneI [OF assms(2)]; assumption), rule actingAs_tenant [OF assms(2)])+)
  done

lemma outcome_clockOut: "outcome d (clockOut E who publicId body) (\<lambda>_. clockOutOutcome (mutationIdentity who) d)"
  unfolding clockOut_def
  by (intro outcome_rules outcome_runTimeScope readsOnly_prepare) (simp_all add: sat_clockOutBody)

section \<open>Corrections\<close>

definition breaksReplaced :: "database \<Rightarrow> string \<Rightarrow> string \<Rightarrow> interval list option \<Rightarrow> timeCardBreak list \<Rightarrow> bool" where
  "breaksReplaced d tenantId cardId intervals rows = (case intervals of None \<Rightarrow> rows = timeCardBreaks d
     | Some xs \<Rightarrow> (\<exists>new. rows = filter (\<lambda>b. \<not> (tb_tenantId b = tenantId \<and> tb_timeCardId b = cardId)) (timeCardBreaks d) @ new
          \<and> map (\<lambda>b. (tb_startAt b, tb_endAt b)) new = xs \<and> (\<forall>b \<in> set new. tb_tenantId b = tenantId \<and> tb_timeCardId b = cardId)))"

definition breakOf :: "string \<Rightarrow> string \<Rightarrow> interval \<Rightarrow> timeCardBreak \<Rightarrow> bool" where
  "breakOf tenantId cardId iv b \<longleftrightarrow> tb_tenantId b = tenantId \<and> tb_timeCardId b = cardId \<and> (tb_startAt b, tb_endAt b) = iv"

lemma sat_breakRow: "sat d (breakRow E tenantId cardId iv) (\<lambda>b d'. d' = d \<and> breakOf tenantId cardId iv b)"
  unfolding breakRow_def by (intro tx_rules TrueI) (simp add: breakOf_def)

lemma breaks_of: "list_all2 (breakOf tenantId cardId) xs new \<Longrightarrow>
    map (\<lambda>b. (tb_startAt b, tb_endAt b)) new = xs \<and> (\<forall>b \<in> set new. tb_tenantId b = tenantId \<and> tb_timeCardId b = cardId)"
  by (induction rule: list_all2_induct) (auto simp: breakOf_def)

lemma sat_createBreaks:
  "sat d (createManyT breakTable breakClash rows) (\<lambda>_ d'. d' = timeCardBreaks_update (\<lambda>bs. bs @ rows) d)"
  using sat_createMany [of breakTable d breakClash rows] by (simp add: breakTable_def comp_def)

lemma breaks_twice: "timeCardBreaks_update f (timeCardBreaks_update g d) = timeCardBreaks_update (\<lambda>_. f (g (timeCardBreaks d))) d"
  by simp

lemma breaks_once: "timeCardBreaks_update f d = timeCardBreaks_update (\<lambda>_. f (timeCardBreaks d)) d"
  by simp

lemma sat_replaceBreaks:
  assumes "readsOnly cur"
  shows "sat d (replaceBreaks E tenantId cardId intervals cur) (\<lambda>_ d'. \<exists>rows. d' = timeCardBreaks_update (\<lambda>_. rows) d
    \<and> breaksReplaced d tenantId cardId intervals rows)"
proof (cases intervals)
  case None
  have "timeCardBreaks_update (\<lambda>_. timeCardBreaks d) d = d" by simp
  then show ?thesis
    unfolding None replaceBreaks_def option.case
    by (intro post_return exI [of _ "timeCardBreaks d"] conjI) (simp_all add: breaksReplaced_def)
next
  case (Some xs)
  let ?kept = "filter (\<lambda>b. \<not> (tb_tenantId b = tenantId \<and> tb_timeCardId b = cardId))"
  let ?Q = "\<lambda>_ d'. \<exists>rows. d' = timeCardBreaks_update (\<lambda>_. rows) d \<and> breaksReplaced d tenantId cardId (Some xs) rows"
  have done': "?Q () (timeCardBreaks_update (\<lambda>bs. bs @ new) (timeCardBreaks_update ?kept d))" if "list_all2 (breakOf tenantId cardId) xs new" for new
    using breaks_of [OF that]
    by (intro exI [of _ "?kept (timeCardBreaks d) @ new"] conjI) (rule breaks_twice, auto simp: breaksReplaced_def)
  have none: "?Q () (timeCardBreaks_update ?kept d)" if "xs = []"
    by (intro exI [of _ "?kept (timeCardBreaks d)"] conjI) (rule breaks_once, use that in \<open>simp add: breaksReplaced_def\<close>)
  show ?thesis
    unfolding replaceBreaks_def Some option.case
    apply (intro post_then post_cur [OF assms] post_deleteMany)
     apply (unfold breakTable_def fst_conv snd_conv)
     apply (intro post_cur [OF assms] post_if)
       apply (rule post_return, erule none)
      apply (intro post_then post_cur [OF assms] post_bind post_weaken [OF sat_mapT [OF sat_breakRow]])
        apply (elim conjE, hypsubst)
        apply (intro post_then post_weaken [OF sat_createBreaks [unfolded breakTable_def]])
         apply hypsubst
         apply (rule post_cur [OF assms], erule done')
        apply (rule TrueI)+
    done
qed

definition correctionDone :: "sessionIdentity \<Rightarrow> database \<Rightarrow> timeCard \<Rightarrow> correction \<Rightarrow> payrollAssignment \<Rightarrow> bool" where
  "correctionDone identity d c cn assignment \<longleftrightarrow> c \<in> set (timeCards d) \<and> mayEdit d identity c
     \<and> teamAccess d (id_tenantId identity) (id_sub identity) \<and> tc_status c \<noteq> CARD_VOID
     \<and> (\<exists>body breaks now. validateTimeCardCorrection body c breaks now = ok cn)
     \<and> assignedOpen d (id_tenantId identity) (cn_clockInAt cn) assignment
     \<and> periodOpenUntil d (id_tenantId identity) (tc_payrollPeriodId c) None
     \<and> periodOpenUntil d (id_tenantId identity) (pa_payrollPeriodId assignment) (cn_clockOutAt cn)
     \<and> \<not> list_ex (cardOverlaps (id_tenantId identity) (tc_userId c) (tc_id c) (cn_clockInAt cn) (cn_clockOutAt cn)) (timeCards d)
     \<and> correctTarget c (id_tenantId identity) (cn_expectedUpdatedAt cn) c
     \<and> (cn_status cn = CARD_OPEN \<longrightarrow> \<not> list_ex (\<lambda>other. tc_id other \<noteq> tc_id c \<and> openFor (tc_tenantId c) (tc_userId c) other) (timeCards d))"

definition correctOutcome :: "sessionIdentity \<Rightarrow> database \<Rightarrow> database \<Rightarrow> bool" where
  "correctOutcome identity d d' \<longleftrightarrow> d' = d
     \<or> (\<exists>c cn assignment updatedAt rows log. correctionDone identity d c cn assignment
          \<and> breaksReplaced d (id_tenantId identity) (tc_id c) (cn_breakIntervals cn) rows
          \<and> d' = auditLogs_update (\<lambda>ls. ls @ [log]) (timeCardBreaks_update (\<lambda>_. rows) (timeCards_update
              (updateWhere (correctTarget c (id_tenantId identity) (cn_expectedUpdatedAt cn)) (corrected cn assignment updatedAt)) d)))"

lemma correctOutcomeI:
  assumes "correctionDone identity d c cn assignment" and "breaksReplaced d tenantId (tc_id c) (cn_breakIntervals cn) rows"
    and "tenantId = id_tenantId identity"
  shows "correctOutcome identity d (auditLogs_update (\<lambda>ls. ls @ [log]) (timeCardBreaks_update (\<lambda>_. rows) (timeCards_update
      (updateWhere (correctTarget c tenantId (cn_expectedUpdatedAt cn)) (corrected cn assignment updatedAt)) d)))"
  unfolding correctOutcome_def assms(3) by (intro disjI2 exI conjI) (rule assms(1), rule assms(2) [unfolded assms(3)], rule refl)

lemma breaksReplaced_cong: "timeCardBreaks d' = timeCardBreaks d \<Longrightarrow> breaksReplaced d' = breaksReplaced d"
  by (intro ext) (simp add: breaksReplaced_def split: option.split)

lemma correctOutcome_refl: "correctOutcome identity d d"
  by (simp add: correctOutcome_def)

text \<open>A row found by something an update does not touch is found again.\<close>

lemma find_updateWhere:
  "(\<And>r. P (f r) = P r) \<Longrightarrow> find P (updateWhere T f rows) = map_option (\<lambda>r. if T r then f r else r) (find P rows)"
  by (induction rows) (auto simp: updateWhere_def)

lemma scopedCard_corrected: "canViewTeam identity \<Longrightarrow>
    scopedCard identity publicId True (corrected cn assignment updatedAt c) = scopedCard identity publicId True c"
  by (simp add: scopedCard_def corrected_def)

lemma correctTarget_hit:
  assumes "distinct (map tc_id (timeCards d))" and "length (filter (correctTarget c tenantId t) (timeCards d)) = 1" and "c \<in> set (timeCards d)"
  shows "correctTarget c tenantId t c"
  by (rule distinct_filter_one [OF assms(1,2) _ assms(3)]) (simp_all add: correctTarget_def)

text \<open>Other cards are not touched, so an open one stays open.\<close>

lemma open_others_updateWhere:
  "(\<And>r. T r \<Longrightarrow> tc_id r = k) \<Longrightarrow> (\<And>r. tc_id (f r) = tc_id r) \<Longrightarrow>
     list_ex (\<lambda>r. tc_id r \<noteq> k \<and> P r) (updateWhere T f rows) = list_ex (\<lambda>r. tc_id r \<noteq> k \<and> P r) rows"
  by (induction rows) (auto simp: updateWhere_def)

lemma correctionDoneI:
  assumes "actingAs d identity current" and "canViewTeam current" and "distinct (map tc_id (timeCards d))"
    and "validateTimeCardCorrection body c breaks now = ok cn"
    and "assignedOpen d (id_tenantId current) (cn_clockInAt cn) assignment"
    and "contextLocked d (id_tenantId current) [tc_payrollPeriodId c, pa_payrollPeriodId assignment] ps"
    and "find (scopedCard current publicId True) (timeCards d) = Some c" and "tc_status c \<noteq> CARD_VOID"
    and "\<not> list_ex (cardOverlaps (id_tenantId current) (tc_userId c) (tc_id c) (cn_clockInAt cn) (cn_clockOutAt cn)) (timeCards d)"
    and "length (filter (correctTarget c (id_tenantId current) (cn_expectedUpdatedAt cn)) (timeCards d)) = 1"
    and "\<not> (cn_status cn = CARD_OPEN \<and> list_ex (\<lambda>other. tc_id other \<noteq> tc_id c \<and> openFor (tc_tenantId c) (tc_userId c) other)
      (updateWhere (correctTarget c (id_tenantId current) (cn_expectedUpdatedAt cn)) (corrected cn assignment updatedAt) (timeCards d)))"
    and "periodOpenUntil d (id_tenantId current) (pa_payrollPeriodId assignment) (cn_clockOutAt cn)"
  shows "correctionDone identity d c cn assignment"
proof -
  have tenant: "id_tenantId current = id_tenantId identity" using assms(1) by (rule actingAs_tenant)
  have mem: "c \<in> set (timeCards d)" "scopedCard current publicId True c" using find_SomeD [OF assms(7)] by auto
  have others: "\<not> (cn_status cn = CARD_OPEN \<and> list_ex (\<lambda>other. tc_id other \<noteq> tc_id c \<and> openFor (tc_tenantId c) (tc_userId c) other) (timeCards d))"
    using assms(11) open_others_updateWhere [of "correctTarget c (id_tenantId current) (cn_expectedUpdatedAt cn)" "tc_id c" "corrected cn assignment updatedAt"]
    by (simp add: correctTarget_def corrected_def)
  show ?thesis
    unfolding correctionDone_def
    using assms(4,5,8,9,12) mem others scoped_mayEdit [OF assms(1) mem(2)] actingAs_team [OF assms(1,2)]
      context_unlocked [OF assms(6)] correctTarget_hit [OF assms(3,10) mem(1)]
    by (auto simp: tenant)
qed

text \<open>What the card read after the update says is what the correction wrote.\<close>

lemma corrected_reread:
  assumes "canViewTeam current" and "distinct (map tc_id (timeCards d))" and "find (scopedCard current publicId True) (timeCards d) = Some c"
    and "length (filter (correctTarget c tenantId (cn_expectedUpdatedAt cn)) (timeCards d)) = 1"
    and "find (scopedCard current publicId True) (updateWhere (correctTarget c tenantId (cn_expectedUpdatedAt cn)) (corrected cn assignment updatedAt) (timeCards d)) = Some r"
  shows "r = corrected cn assignment updatedAt c"
  using assms(3,5) correctTarget_hit [OF assms(2,4)] find_SomeD [OF assms(3)]
  by (simp add: find_updateWhere scopedCard_corrected [OF assms(1)])

lemma reread_cutoff:
  assumes "(case (pa_payrollPeriodId assignment, cn_clockOutAt cn) of (Some i, Some t) \<Rightarrow> assertClockOutWithinPayrollPeriod (Some i) t ps | _ \<Rightarrow> ok ()) = ok x"
    and "contextLocked d tenantId [i, pa_payrollPeriodId assignment] ps"
  shows "periodOpenUntil d tenantId (pa_payrollPeriodId assignment) (cn_clockOutAt cn)"
proof (cases "cn_clockOutAt cn")
  case None
  then show ?thesis using context_unlocked [OF assms(2)] by simp
next
  case (Some t)
  then show ?thesis using assms context_cutoff [OF assms(2), of "pa_payrollPeriodId assignment" t x]
    by (auto simp: periodOpenUntil_def split: option.splits)
qed

lemma correctOutcome_final:
  fixes d :: database
  defines "d1 c cn assignment current updatedAt \<equiv> timeCards_update
      (updateWhere (correctTarget c (id_tenantId current) (cn_expectedUpdatedAt cn)) (corrected cn assignment updatedAt)) d"
  assumes "actingAs d identity current" and "distinct (map tc_id (timeCards d))" and "canViewTeam current"
    and "validateTimeCardCorrection body c0 breaks now = ok cn" and "find (scopedCard current publicId True) (timeCards d) = Some c0"
    and "assignedOpen d (id_tenantId current) (cn_clockInAt cn) assignment"
    and "contextLocked d (id_tenantId current) [tc_payrollPeriodId c0, pa_payrollPeriodId assignment] ps"
    and "tc_status c \<noteq> CARD_VOID" and "find (scopedCard current publicId True) (timeCards d) = Some c"
    and "\<not> list_ex (cardOverlaps (id_tenantId current) (tc_userId c) (tc_id c) (cn_clockInAt cn) (cn_clockOutAt cn)) (timeCards d)"
    and "length (filter (correctTarget c (id_tenantId current) (cn_expectedUpdatedAt cn)) (timeCards d)) = 0
      \<or> \<not> (cn_status cn = CARD_OPEN \<and> list_ex (\<lambda>other. tc_id other \<noteq> tc_id c \<and> openFor (tc_tenantId c) (tc_userId c) other)
          (timeCards (d1 c cn assignment current updatedAt)))"
    and "length (filter (correctTarget c (id_tenantId current) (cn_expectedUpdatedAt cn)) (timeCards d)) = 1"
    and "breaksReplaced (d1 c cn assignment current updatedAt) (id_tenantId current) (tc_id c) (cn_breakIntervals cn) rows"
    and "find (scopedCard current publicId True) (timeCards (timeCardBreaks_update (\<lambda>_. rows) (d1 c cn assignment current updatedAt))) = Some r"
    and "(case (tc_payrollPeriodId r, tc_clockOutAt r) of (None, b) \<Rightarrow> ok () | (Some i, None) \<Rightarrow> ok ()
      | (Some i, Some t) \<Rightarrow> assertClockOutWithinPayrollPeriod (Some i) t ps) = ok x"
  shows "correctOutcome identity d (auditLogs_update (\<lambda>rows. rows @ [log]) (timeCardBreaks_update (\<lambda>_. rows) (d1 c cn assignment current updatedAt)))"
proof -
  have c0: "c0 = c" using assms(6,10) by simp
  have r: "r = corrected cn assignment updatedAt c"
    by (rule corrected_reread [OF assms(4,3,10,13)]) (use assms(15) in \<open>simp add: d1_def\<close>)
  have "periodOpenUntil d (id_tenantId current) (pa_payrollPeriodId assignment) (cn_clockOutAt cn)"
    by (rule reread_cutoff [OF _ assms(8)]) (use assms(16) in \<open>simp add: r corrected_def\<close>)
  then have "correctionDone identity d c cn assignment"
    using assms(12,13)
    by (intro correctionDoneI [OF assms(2,4,3) assms(5) [unfolded c0] assms(7) assms(8) [unfolded c0] assms(10,9,11,13)]) (simp_all add: d1_def)
  moreover have breaks: "breaksReplaced d (id_tenantId current) (tc_id c) (cn_breakIntervals cn) rows"
    using assms(14) breaksReplaced_cong [of "d1 c cn assignment current updatedAt" d] by (simp add: d1_def)
  ultimately show ?thesis
    unfolding d1_def
    by (intro correctOutcomeI [OF _ breaks actingAs_tenant [OF assms(2)]])
qed

lemma sat_correctBody:
  assumes "readsOnly cur" and "actingAs d identity current" and "distinct (map tc_id (timeCards d))"
  shows "sat d (correctBody E publicId body current cur) (\<lambda>_. correctOutcome identity d)"
  unfolding correctBody_def writeCardAudit_def cardTable_def assertNoOverlap_def
  apply (intro post_let post_bind post_then post_check TrueI post_any [OF readsOnly_assertFeatureEntitled] post_cur [OF assms(1)] post_now
      post_lift post_weaken [OF sat_findScoped])
  apply (elim conjE, hypsubst)
  apply (intro post_let post_bind post_then post_check TrueI post_cur [OF assms(1)] post_now post_lift
      post_weaken [OF sat_resolveAssignment [OF assms(1)]])
  apply (elim conjE, hypsubst)
  apply (intro post_let post_bind post_then post_check TrueI post_cur [OF assms(1)] post_now post_lift
      post_weaken [OF sat_lockContext [OF assms(1)]])
  apply (elim conjE, hypsubst)
  apply (intro post_let post_bind post_then post_check TrueI post_cur [OF assms(1)] post_weaken [OF sat_findScoped])
  apply (elim conjE, hypsubst)
  apply (intro post_let post_bind post_then post_check TrueI post_cur [OF assms(1)] post_now post_get post_updateMany
      post_weaken [OF sat_replaceBreaks [OF assms(1)]])
  apply (elim exE conjE, hypsubst)
  apply (intro post_let post_bind post_then post_weaken [OF sat_findScoped])
  apply (elim conjE, hypsubst)
  apply (intro tx_rules post_cur [OF assms(1)] TrueI post_any [OF readsOnly_cardJson])
  apply (unfold fst_conv snd_conv)
   apply (rule correctOutcome_final [OF assms(2,3)]; assumption)
  apply (rule TrueI)
  done

lemma outcome_correct:
  "distinct (map tc_id (timeCards d)) \<Longrightarrow> outcome d (correct E who publicId body) (\<lambda>_. correctOutcome (mutationIdentity who) d)"
  unfolding correct_def
  by (intro outcome_rules outcome_catchReads outcome_runTimeScope readsOnly_prepare)
    (simp_all add: sat_correctBody correctOutcome_refl)

end
