(* ===== verification/TimeCardInvariants.thy ===== *)
theory TimeCardInvariants
  imports TimeCardLifecycle
begin

text \<open>
  The invariant of time cards: an employee has one open card, identifiers and clock-in operations are keys, a closed
  card ends after it starts and its breaks are shorter than it, and a card that is assigned to a
  payroll period lies within it.
\<close>

section \<open>The invariant\<close>

definition cardWindow :: "database \<Rightarrow> timeCard \<Rightarrow> bool" where
  "cardWindow d c = (case tc_payrollPeriodId c of None \<Rightarrow> True
     | Some i \<Rightarrow> i = [] \<or> list_ex (\<lambda>p. pp_id p = i \<and> pp_tenantId p = tc_tenantId c \<and> pp_startsAt p \<le> tc_clockInAt c
         \<and> (case tc_clockOutAt c of None \<Rightarrow> tc_clockInAt c < pp_endsAt p | Some t \<Rightarrow> t \<le> pp_endsAt p)) (payrollPeriods d))"

definition cardSound :: "database \<Rightarrow> timeCard \<Rightarrow> bool" where
  "cardSound d c \<longleftrightarrow> (tc_status c = CARD_OPEN \<longrightarrow> tc_clockOutAt c = None) \<and> (tc_status c = CARD_CLOSED \<longrightarrow> tc_clockOutAt c \<noteq> None)
     \<and> (case tc_clockOutAt c of None \<Rightarrow> True | Some t \<Rightarrow> tc_clockInAt c < t \<and> breakFits (tc_breakMinutes c) (tc_clockInAt c) t)
     \<and> 0 \<le> tc_breakMinutes c \<and> 1 \<le> tc_revision c \<and> cardWindow d c"

definition cardInv :: "database \<Rightarrow> bool" where
  "cardInv d \<longleftrightarrow> sorted_wrt (\<lambda>a b. \<not> cardClash b a) (timeCards d) \<and> list_all (cardSound d) (timeCards d)"

lemma periodStep_bounds:
  "periodStep p q \<Longrightarrow> pp_id q = pp_id p \<and> pp_tenantId q = pp_tenantId p \<and> pp_startsAt q = pp_startsAt p \<and> pp_endsAt q = pp_endsAt p"
  by (simp add: periodStep_def)

text \<open>Periods keep their bounds, so a window stays one.\<close>

lemma cardWindow_advance:
  assumes "cardWindow d c" and "growsBy periodStep (payrollPeriods d) (payrollPeriods d')"
  shows "cardWindow d' c"
proof (cases "tc_payrollPeriodId c")
  case (Some i)
  let ?W = "\<lambda>p. pp_id p = i \<and> pp_tenantId p = tc_tenantId c \<and> pp_startsAt p \<le> tc_clockInAt c
    \<and> (case tc_clockOutAt c of None \<Rightarrow> tc_clockInAt c < pp_endsAt p | Some t \<Rightarrow> t \<le> pp_endsAt p)"
  have "\<exists>q \<in> set (payrollPeriods d'). ?W q" if mem: "p \<in> set (payrollPeriods d)" and W: "?W p" for p
  proof -
    obtain q where q: "q \<in> set (payrollPeriods d')" "periodStep p q" using growsBy_mem [OF assms(2) mem] by blast
    have "?W q" using W by (simp add: periodStep_bounds [OF q(2)] split: option.splits)
    with q(1) show ?thesis by blast
  qed
  then show ?thesis using assms(1) unfolding cardWindow_def Some option.case list_ex_iff by blast
qed (simp add: cardWindow_def)

lemma cardSound_advance: "cardSound d c \<Longrightarrow> growsBy periodStep (payrollPeriods d) (payrollPeriods d') \<Longrightarrow> cardSound d' c"
  using cardWindow_advance by (auto simp: cardSound_def)

lemma cardInv_frame: "cardInv d \<Longrightarrow> growsBy periodStep (payrollPeriods d) (payrollPeriods d') \<Longrightarrow> timeCards d' = timeCards d \<Longrightarrow> cardInv d'"
  by (auto simp: cardInv_def list_all_iff intro: cardSound_advance)

lemma cardInv_advance: "cardInv d \<Longrightarrow> advance d d' \<Longrightarrow> timeCards d' = timeCards d \<Longrightarrow> cardInv d'"
  by (rule cardInv_frame) (simp_all add: advance_def)

lemma cardSound_cong: "payrollPeriods d' = payrollPeriods d \<Longrightarrow> cardSound d' = cardSound d"
  by (intro ext) (simp add: cardSound_def cardWindow_def split: option.split)

section \<open>Clocking in\<close>

lemma newCard_sound:
  assumes "newCard d tenantId operation c"
  shows "cardSound d c"
  using assms by (auto simp: newCard_def cardSound_def cardWindow_def assignedOpen_def list_ex_iff split: option.split)

lemma charged_tables:
  assumes "charged d tenantId cost transactionId reason balance d'"
  shows "payrollPeriods d' = payrollPeriods d" "timeCards d' = timeCards d" "lockedEntries d' = lockedEntries d"
  using charged_same [OF assms] by simp_all

lemma clockIn_cards:
  assumes "clockInOutcome identity operation d d'"
  obtains "d' = d" | c where "newCard d (id_tenantId identity) operation c" "timeCards d' = timeCards d @ [c]"
    "payrollPeriods d' = payrollPeriods d" "lockedEntries d' = lockedEntries d"
  using assms unfolding clockInOutcome_def
proof (elim disjE exE conjE)
  fix c target balance d1 log
  assume c: "newCard d (id_tenantId identity) operation c"
    and d1: "charged (timeCards_update (\<lambda>cs. cs @ [c]) d) (id_tenantId identity) 1 (''feature-usage-'' @ operation) (clockInReason c) balance d1"
    and d': "d' = auditLogs_update (\<lambda>ls. ls @ [log]) d1"
  show thesis by (rule that(2) [OF c]) (simp_all add: d' charged_tables [OF d1])
qed

lemma clockInOutcome_cardInv:
  assumes "clockInOutcome identity operation d d'" and "cardInv d"
  shows "cardInv d'"
  using assms(1)
proof (rule clockIn_cards)
  fix c
  assume c: "newCard d (id_tenantId identity) operation c" and cards: "timeCards d' = timeCards d @ [c]"
    and periods: "payrollPeriods d' = payrollPeriods d"
  have "cardSound d' = cardSound d" using periods by (rule cardSound_cong)
  then show ?thesis
    using assms(2) c newCard_sound [OF c] by (auto simp: cardInv_def cards sorted_wrt_append newCard_def list_ex_iff)
qed (use assms(2) in simp)

lemma clockInOutcome_inv: "clockInOutcome identity operation d d' \<Longrightarrow> payrollInv E d \<Longrightarrow> payrollInv E d'"
  by (erule clockIn_cards)
    (auto simp: payrollInv_def entriesOf_def newCard_def list_ex_iff cardClash_def)

lemma clockInOutcome_advance:
  assumes "clockInOutcome identity operation d d'"
  shows "advance d d'"
  using assms unfolding clockInOutcome_def
proof (elim disjE exE conjE)
  fix c target balance d1 log
  assume d1: "charged (timeCards_update (\<lambda>cs. cs @ [c]) d) (id_tenantId identity) 1 (''feature-usage-'' @ operation) (clockInReason c) balance d1"
    and d': "d' = auditLogs_update (\<lambda>ls. ls @ [log]) d1"
  have 1: "advance d (timeCards_update (\<lambda>cs. cs @ [c]) d)"
    by (rule advanceI) (auto simp: evidenceKept_def periodStep_same cardStep_def intro: growsBy_append)
  have 2: "advance d1 d'" by (simp add: d' advanceI evidenceKept_def periodStep_same cardStep_same)
  show ?thesis using payroll_tables.R_trans [OF payroll_tables.R_trans [OF 1 charged_advance [OF d1]] 2] .
qed (simp add: payroll_tables.R_refl)

lemma clockInOutcome_exports: "clockInOutcome identity operation d d' \<Longrightarrow> exportsUntouched d d'"
  unfolding clockInOutcome_def by (elim disjE exE conjE) (simp_all add: exportsUntouched_def charged_same)

section \<open>Changing a card\<close>

text \<open>A change of one card that is not frozen.\<close>

lemma updateCard_advance:
  assumes "distinct (map tc_id (timeCards d))" and "c \<in> set (timeCards d)" and "\<not> frozen d c"
    and "\<And>r. T r \<Longrightarrow> tc_id r = tc_id c" and "\<And>r. tc_id (f r) = tc_id r"
  shows "growsBy (cardStep d) (timeCards d) (updateWhere T f (timeCards d))"
proof (rule growsBy_all2)
  have "cardStep d r (if T r then f r else r)" if "r \<in> set (timeCards d)" for r
    using that assms by (auto simp: cardStep_def distinct_map dest: inj_onD)
  then show "list_all2 (cardStep d) (timeCards d) (updateWhere T f (timeCards d))"
    unfolding updateWhere_def list.rel_map by (intro list.rel_refl_strong) simp
qed

lemma unlocked_not_frozen:
  assumes "payrollInv E d" and "periodOpenUntil d tenantId (tc_payrollPeriodId c) t"
  shows "\<not> frozen d c"
proof
  assume "frozen d c"
  then obtain p where p: "p \<in> set (payrollPeriods d)" "pp_status p = PERIOD_LOCKED" "pp_id p \<noteq> []" "tc_payrollPeriodId c = Some (pp_id p)"
    by (auto simp: frozen_def)
  obtain q where "q \<in> set (payrollPeriods d)" "pp_id q = pp_id p" "pp_status q \<noteq> PERIOD_LOCKED"
    using assms(2) p by (auto simp: periodOpenUntil_def)
  then show False using assms(1) p by (auto simp: payrollInv_def distinct_map dest: inj_onD)
qed

lemma clockOutTarget_id: "clockOutTarget c tenantId r \<Longrightarrow> tc_id r = tc_id c"
  by (simp add: clockOutTarget_def)

lemma clockOutOutcome_advance:
  assumes "clockOutOutcome identity d d'" and "payrollInv E d"
  shows "advance d d'"
  using assms(1) unfolding clockOutOutcome_def
proof (elim disjE exE conjE)
  fix c clockOutAt breakMinutes text' updatedAt log
  assume c: "clockOutDone identity d c clockOutAt breakMinutes"
    and d': "d' = auditLogs_update (\<lambda>ls. ls @ [log]) (timeCards_update
      (updateWhere (clockOutTarget c (id_tenantId identity)) (clockedOut clockOutAt breakMinutes text' updatedAt)) d)"
  have "growsBy (cardStep d) (timeCards d) (updateWhere (clockOutTarget c (id_tenantId identity)) (clockedOut clockOutAt breakMinutes text' updatedAt) (timeCards d))"
    by (rule updateCard_advance [where c = c])
      (use c assms(2) in \<open>auto simp: clockOutDone_def payrollInv_def clockOutTarget_def clockedOut_def dest: unlocked_not_frozen [OF assms(2)]\<close>)
  then show ?thesis by (simp add: d' advanceI evidenceKept_def periodStep_same)
qed (simp add: payroll_tables.R_refl)

lemma clockOutOutcome_inv: "clockOutOutcome identity d d' \<Longrightarrow> payrollInv E d \<Longrightarrow> payrollInv E d'"
  unfolding clockOutOutcome_def
  by (elim disjE exE conjE, simp, hypsubst, subst payrollInv_cong [of _ d])
    (simp_all add: map_updateWhere_same clockedOut_def)

lemma clockOutOutcome_exports: "clockOutOutcome identity d d' \<Longrightarrow> exportsUntouched d d'"
  unfolding clockOutOutcome_def by (elim disjE exE conjE) (simp_all add: exportsUntouched_def)

text \<open>A change of cards that keeps their keys and opens none keeps them apart.\<close>

lemma keysApart_updateWhere:
  assumes "sorted_wrt (\<lambda>a b. \<not> cardClash b a) rows"
    and "\<And>r. tc_id (f r) = tc_id r \<and> tc_publicId (f r) = tc_publicId r \<and> tc_tenantId (f r) = tc_tenantId r \<and> tc_userId (f r) = tc_userId r
      \<and> tc_clockInOperationId (f r) = tc_clockInOperationId r \<and> tc_deletedAt (f r) = tc_deletedAt r"
    and "\<And>a b. a \<in> set rows \<Longrightarrow> b \<in> set rows \<Longrightarrow> tc_id a \<noteq> tc_id b \<Longrightarrow> T a \<Longrightarrow> tc_status (f a) = CARD_OPEN \<Longrightarrow>
      openFor (tc_tenantId a) (tc_userId a) b \<Longrightarrow> False"
    and "\<And>a b. T a \<Longrightarrow> T b \<Longrightarrow> tc_id a = tc_id b"
  shows "sorted_wrt (\<lambda>a b. \<not> cardClash b a) (updateWhere T f rows)"
  unfolding updateWhere_def sorted_wrt_map
proof (rule sorted_wrt_mono_rel [OF _ assms(1)])
  fix a b
  assume ab: "a \<in> set rows" "b \<in> set rows" "\<not> cardClash b a"
  have ids: "tc_id a \<noteq> tc_id b" using ab(3) by (auto simp: cardClash_def)
  then have "\<not> (T a \<and> T b)" using assms(4) by blast
  then show "\<not> cardClash (if T b then f b else b) (if T a then f a else a)"
    using ab assms(2) [of a] assms(2) [of b] assms(3) [OF ab(1,2)] assms(3) [OF ab(2,1)] ids
    by (auto simp: cardClash_def openFor_def)
qed

lemma cardInv_update:
  assumes "cardInv d" and "payrollPeriods d' = payrollPeriods d" and "timeCards d' = updateWhere T f (timeCards d)"
    and "sorted_wrt (\<lambda>a b. \<not> cardClash b a) (updateWhere T f (timeCards d))"
    and "\<And>r. r \<in> set (timeCards d) \<Longrightarrow> T r \<Longrightarrow> cardSound d (f r)"
  shows "cardInv d'"
  using assms cardSound_cong [OF assms(2)] by (auto simp: cardInv_def list_all_iff updateWhere_def)

lemma same_period:
  "payrollInv E d \<Longrightarrow> p \<in> set (payrollPeriods d) \<Longrightarrow> q \<in> set (payrollPeriods d) \<Longrightarrow> pp_id p = pp_id q \<Longrightarrow> p = q"
  by (auto simp: payrollInv_def distinct_map dest: inj_onD)

lemma same_card:
  "payrollInv E d \<Longrightarrow> p \<in> set (timeCards d) \<Longrightarrow> q \<in> set (timeCards d) \<Longrightarrow> tc_id p = tc_id q \<Longrightarrow> p = q"
  by (auto simp: payrollInv_def distinct_map dest: inj_onD)

lemma clockedOut_sound:
  assumes "payrollInv E d" and "clockOutDone identity d c t breakMinutes" and "cardSound d c"
  shows "cardSound d (clockedOut t breakMinutes nts updatedAt c)"
proof -
  have c: "tc_clockOutAt c = None" "tc_clockInAt c < t" "breakFits breakMinutes (tc_clockInAt c) t" "tc_tenantId c = id_tenantId identity"
    and until: "periodOpenUntil d (id_tenantId identity) (tc_payrollPeriodId c) (Some t)"
    using assms(2,3) by (auto simp: clockOutDone_def cardSound_def mayEdit_def)
  have "cardWindow d (clockedOut t breakMinutes nts updatedAt c)"
  proof (cases "tc_payrollPeriodId c")
    case (Some i)
    have "cardWindow d c" using assms(3) by (simp add: cardSound_def)
    then show ?thesis
      using until same_period [OF assms(1)] c(1,4) unfolding cardWindow_def clockedOut_def Some list_ex_iff periodOpenUntil_def
      by (auto simp: Some)
  qed (simp add: cardWindow_def clockedOut_def)
  then show ?thesis using assms(3) c by (auto simp: cardSound_def clockedOut_def breakFits_def)
qed

lemma clockOutOutcome_cardInv:
  assumes "clockOutOutcome identity d d'" and "payrollInv E d" and "cardInv d"
  shows "cardInv d'"
  using assms(1) unfolding clockOutOutcome_def
proof (elim disjE exE conjE)
  fix c clockOutAt breakMinutes nts updatedAt log
  assume c: "clockOutDone identity d c clockOutAt breakMinutes"
    and d': "d' = auditLogs_update (\<lambda>ls. ls @ [log]) (timeCards_update
      (updateWhere (clockOutTarget c (id_tenantId identity)) (clockedOut clockOutAt breakMinutes nts updatedAt)) d)"
  have mem: "c \<in> set (timeCards d)" using c by (simp add: clockOutDone_def)
  show ?thesis
  proof (rule cardInv_update [OF assms(3)])
    show "sorted_wrt (\<lambda>a b. \<not> cardClash b a) (updateWhere (clockOutTarget c (id_tenantId identity)) (clockedOut clockOutAt breakMinutes nts updatedAt) (timeCards d))"
      by (rule keysApart_updateWhere) (use assms(3) in \<open>auto simp: cardInv_def clockedOut_def clockOutTarget_def\<close>)
    fix r
    assume r: "r \<in> set (timeCards d)" "clockOutTarget c (id_tenantId identity) r"
    then have "r = c" using same_card [OF assms(2) r(1) mem] by (simp add: clockOutTarget_def)
    then show "cardSound d (clockedOut clockOutAt breakMinutes nts updatedAt r)"
      using clockedOut_sound [OF assms(2) c] assms(3) mem by (auto simp: cardInv_def list_all_iff)
  qed (simp_all add: d')
qed (use assms(3) in simp)

section \<open>Corrections\<close>

lemma checkIntervals_order: "checkIntervals s e prev xs = ok () \<Longrightarrow> (a, b) \<in> set xs \<Longrightarrow> a < b"
  by (induction s e prev xs rule: checkIntervals.induct) (auto simp: bindR_ok checkR_ok)

lemma durations_nonneg:
  assumes "\<And>a b. (a, b) \<in> set xs \<Longrightarrow> a < b"
  shows "0 \<le> sum_list (map durationMinutes xs)"
proof (rule sum_list_nonneg)
  fix n
  assume "n \<in> set (map durationMinutes xs)"
  then obtain a b where "(a, b) \<in> set xs" "n = (b - a) div 60000" by (auto simp: durationMinutes_def)
  then show "0 \<le> n" using assms [of a b] by (simp add: pos_imp_zdiv_nonneg_iff)
qed

text \<open>What a validated correction says of the new times and breaks.\<close>

definition effectiveEnd :: "instant option \<Rightarrow> instant \<Rightarrow> instant" where
  "effectiveEnd clockOutAt now = (case clockOutAt of None \<Rightarrow> now | Some t \<Rightarrow> t)"

lemma validatedE:
  assumes "validateTimeCardCorrection body c breaks now = ok cn"
  obtains ivs where
    "assertCorrectionWindow (cn_clockInAt cn) (cn_clockOutAt cn) now = ok ()"
    "checkIntervals (cn_clockInAt cn) (effectiveEnd (cn_clockOutAt cn) now) None ivs = ok ()" "length ivs \<le> MAX_BREAK_INTERVALS"
    "cn_breakMinutes cn = (if cr_breakIntervals body = None then tc_breakMinutes c else sum_list (map durationMinutes ivs))"
    "cn_status cn = (if cn_clockOutAt cn = None then CARD_OPEN else CARD_CLOSED)"
    "\<not> (0 < cn_breakMinutes cn \<and> floorMinutes (effectiveEnd (cn_clockOutAt cn) now - cn_clockInAt cn) \<le> cn_breakMinutes cn)"
    "cn_breakIntervals cn = (if cr_breakIntervals body = None then None else Some ivs)"
proof -
  have len: "length ivs = intervalCount v" if "intervalDates v = ok ivs" for v ivs
    using that by (cases v) (auto dest: mapR_ok_length)
  show ?thesis
    using assms unfolding validateTimeCardCorrection_def validateBreakIntervals_def Let_def bindR_ok checkR_ok sum.inject
    apply (elim exE conjE)
    apply (drule sym [of _ cn])
    apply (rule that)
          apply (simp_all add: effectiveEnd_def)
     apply (simp add: len)
    apply (cases "cr_breakIntervals body"; simp)+
    done
qed

lemma correctionWindow_ok:
  "assertCorrectionWindow clockInAt clockOutAt now = ok () \<longleftrightarrow> clockInAt \<le> now + MAX_FUTURE_SKEW_MS
     \<and> (\<forall>t. clockOutAt = Some t \<longrightarrow> t \<le> now + MAX_FUTURE_SKEW_MS) \<and> clockInAt < effectiveEnd clockOutAt now
     \<and> effectiveEnd clockOutAt now - clockInAt \<le> MAX_CORRECTION_WINDOW_MS"
  by (cases clockOutAt) (auto simp: assertCorrectionWindow_def effectiveEnd_def Let_def bindR_ok checkR_ok)

lemma validated_correction:
  assumes "validateTimeCardCorrection body c breaks now = ok cn" and "0 \<le> tc_breakMinutes c"
  shows "0 \<le> cn_breakMinutes cn" "cn_status cn = (if cn_clockOutAt cn = None then CARD_OPEN else CARD_CLOSED)"
    "cn_clockOutAt cn = Some t \<Longrightarrow> cn_clockInAt cn < t \<and> breakFits (cn_breakMinutes cn) (cn_clockInAt cn) t"
proof -
  obtain ivs where w: "assertCorrectionWindow (cn_clockInAt cn) (cn_clockOutAt cn) now = ok ()"
    and ivs: "checkIntervals (cn_clockInAt cn) (effectiveEnd (cn_clockOutAt cn) now) None ivs = ok ()"
    and m: "cn_breakMinutes cn = (if cr_breakIntervals body = None then tc_breakMinutes c else sum_list (map durationMinutes ivs))"
    and st: "cn_status cn = (if cn_clockOutAt cn = None then CARD_OPEN else CARD_CLOSED)"
    and f: "\<not> (0 < cn_breakMinutes cn \<and> floorMinutes (effectiveEnd (cn_clockOutAt cn) now - cn_clockInAt cn) \<le> cn_breakMinutes cn)"
    using validatedE [OF assms(1)] by metis
  have "0 \<le> sum_list (map durationMinutes ivs)" by (rule durations_nonneg) (rule checkIntervals_order [OF ivs])
  then show 1: "0 \<le> cn_breakMinutes cn" using m assms(2) by simp
  show "cn_status cn = (if cn_clockOutAt cn = None then CARD_OPEN else CARD_CLOSED)" by (rule st)
  show "cn_clockInAt cn < t \<and> breakFits (cn_breakMinutes cn) (cn_clockInAt cn) t" if "cn_clockOutAt cn = Some t"
    using w f 1 that by (auto simp: breakFits_def correctionWindow_ok effectiveEnd_def)
qed

lemma corrected_sound:
  assumes "payrollInv E d" and "correctionDone identity d c cn assignment" and "cardSound d c"
  shows "cardSound d (corrected cn assignment updatedAt c)"
proof -
  obtain body breaks now where v: "validateTimeCardCorrection body c breaks now = ok cn" using assms(2) by (auto simp: correctionDone_def)
  have c: "0 \<le> tc_breakMinutes c" "1 \<le> tc_revision c" "tc_tenantId c = id_tenantId identity"
    using assms(2,3) by (auto simp: correctionDone_def cardSound_def mayEdit_def)
  note cn = validated_correction [OF v c(1)]
  have "cardWindow d (corrected cn assignment updatedAt c)"
  proof (cases "pa_payrollPeriodId assignment")
    case (Some i)
    have a: "assignedOpen d (id_tenantId identity) (cn_clockInAt cn) assignment"
      and u: "periodOpenUntil d (id_tenantId identity) (Some i) (cn_clockOutAt cn)" using assms(2) Some by (auto simp: correctionDone_def)
    obtain p where p: "p \<in> set (payrollPeriods d)" "pp_id p = i" "pp_tenantId p = id_tenantId identity" "pp_startsAt p \<le> cn_clockInAt cn"
        "cn_clockInAt cn < pp_endsAt p" using a Some by (auto simp: assignedOpen_def)
    have "t \<le> pp_endsAt p" if i: "i \<noteq> []" and t: "cn_clockOutAt cn = Some t" for t
    proof -
      obtain q where q: "q \<in> set (payrollPeriods d)" "pp_id q = i" "t \<le> pp_endsAt q" using u i t by (auto simp: periodOpenUntil_def)
      show ?thesis using same_period [OF assms(1) p(1) q(1)] p(2) q(2,3) by simp
    qed
    then show ?thesis using p c(3) by (auto simp: cardWindow_def corrected_def Some list_ex_iff split: option.splits intro!: bexI [of _ p])
  qed (simp add: cardWindow_def corrected_def)
  then show ?thesis using cn c by (auto simp: cardSound_def corrected_def split: option.splits)
qed

lemma correctOutcome_cases:
  assumes "correctOutcome identity d d'"
  obtains "d' = d" | c cn assignment updatedAt rows where "correctionDone identity d c cn assignment"
    "breaksReplaced d (id_tenantId identity) (tc_id c) (cn_breakIntervals cn) rows" "timeCardBreaks d' = rows"
    "timeCards d' = updateWhere (correctTarget c (id_tenantId identity) (cn_expectedUpdatedAt cn)) (corrected cn assignment updatedAt) (timeCards d)"
    "payrollPeriods d' = payrollPeriods d" "lockedEntries d' = lockedEntries d" "evidenceKept d d'" "exportsUntouched d d'"
  using assms unfolding correctOutcome_def
proof (elim disjE exE conjE)
  fix c cn assignment updatedAt rows log
  assume c: "correctionDone identity d c cn assignment" "breaksReplaced d (id_tenantId identity) (tc_id c) (cn_breakIntervals cn) rows"
    and d': "d' = auditLogs_update (\<lambda>ls. ls @ [log]) (timeCardBreaks_update (\<lambda>_. rows) (timeCards_update
              (updateWhere (correctTarget c (id_tenantId identity) (cn_expectedUpdatedAt cn)) (corrected cn assignment updatedAt)) d))"
  show thesis by (rule that(2) [OF c]) (simp_all add: d' evidenceKept_def exportsUntouched_def)
qed

lemma correctTarget_only:
  assumes "payrollInv E d" and "correctionDone identity d c cn assignment" and "r \<in> set (timeCards d)"
    and "correctTarget c (id_tenantId identity) t r"
  shows "r = c"
  using same_card [OF assms(1,3)] assms(2,4) by (auto simp: correctionDone_def correctTarget_def)

lemma correctOutcome_cardInv:
  assumes "correctOutcome identity d d'" and "payrollInv E d" and "cardInv d"
  shows "cardInv d'"
  using assms(1)
proof (rule correctOutcome_cases)
  fix c cn assignment updatedAt rows
  assume c: "correctionDone identity d c cn assignment"
    and cards: "timeCards d' = updateWhere (correctTarget c (id_tenantId identity) (cn_expectedUpdatedAt cn)) (corrected cn assignment updatedAt) (timeCards d)"
    and periods: "payrollPeriods d' = payrollPeriods d"
  let ?T = "correctTarget c (id_tenantId identity) (cn_expectedUpdatedAt cn)"
  have mem: "c \<in> set (timeCards d)" using c by (simp add: correctionDone_def)
  have alone: "\<not> openFor (tc_tenantId c) (tc_userId c) b" if "cn_status cn = CARD_OPEN" "b \<in> set (timeCards d)" "tc_id c \<noteq> tc_id b" for b
    using c that by (auto simp: correctionDone_def list_ex_iff)
  show ?thesis
  proof (rule cardInv_update [OF assms(3) periods cards])
    show "sorted_wrt (\<lambda>a b. \<not> cardClash b a) (updateWhere ?T (corrected cn assignment updatedAt) (timeCards d))"
    proof (rule keysApart_updateWhere)
      fix a b
      assume ab: "a \<in> set (timeCards d)" "b \<in> set (timeCards d)" "tc_id a \<noteq> tc_id b" "?T a"
        "tc_status (corrected cn assignment updatedAt a) = CARD_OPEN" "openFor (tc_tenantId a) (tc_userId a) b"
      have "a = c" using correctTarget_only [OF assms(2) c ab(1,4)] .
      then show False using alone [of b] ab by (simp add: corrected_def)
    qed (use assms(3) in \<open>auto simp: cardInv_def corrected_def correctTarget_def\<close>)
    fix r
    assume r: "r \<in> set (timeCards d)" "?T r"
    then have "r = c" by (rule correctTarget_only [OF assms(2) c])
    then show "cardSound d (corrected cn assignment updatedAt r)"
      using corrected_sound [OF assms(2) c] assms(3) mem by (auto simp: cardInv_def list_all_iff)
  qed
qed (use assms(3) in simp)

lemma breaksReplaced_others:
  assumes "breaksReplaced d tenantId cardId intervals rows" and "k \<noteq> cardId"
  shows "filter (\<lambda>b. tb_timeCardId b = k) rows = filter (\<lambda>b. tb_timeCardId b = k) (timeCardBreaks d)"
proof (cases intervals)
  case (Some xs)
  then obtain new where rows: "rows = filter (\<lambda>b. \<not> (tb_tenantId b = tenantId \<and> tb_timeCardId b = cardId)) (timeCardBreaks d) @ new"
    and new: "\<forall>b \<in> set new. tb_timeCardId b = cardId" using assms(1) by (auto simp: breaksReplaced_def)
  have "filter (\<lambda>b. tb_timeCardId b = k) new = []" using new assms(2) by (auto simp: filter_empty_conv)
  moreover have "filter (\<lambda>b. tb_timeCardId b = k) (filter (\<lambda>b. \<not> (tb_tenantId b = tenantId \<and> tb_timeCardId b = cardId)) (timeCardBreaks d))
      = filter (\<lambda>b. tb_timeCardId b = k) (timeCardBreaks d)"
    unfolding filter_filter by (rule filter_cong) (use assms(2) in auto)
  ultimately show ?thesis by (simp add: rows)
qed (use assms(1) in \<open>simp add: breaksReplaced_def\<close>)

lemma correctOutcome_advance:
  assumes "correctOutcome identity d d'" and "payrollInv E d"
  shows "advance d d'"
  using assms(1)
proof (rule correctOutcome_cases)
  fix c cn assignment updatedAt rows
  assume c: "correctionDone identity d c cn assignment"
    and breaks: "breaksReplaced d (id_tenantId identity) (tc_id c) (cn_breakIntervals cn) rows" "timeCardBreaks d' = rows"
    and cards: "timeCards d' = updateWhere (correctTarget c (id_tenantId identity) (cn_expectedUpdatedAt cn)) (corrected cn assignment updatedAt) (timeCards d)"
    and periods: "payrollPeriods d' = payrollPeriods d" and kept: "evidenceKept d d'"
  have nf: "\<not> frozen d c" using c unlocked_not_frozen [OF assms(2)] by (auto simp: correctionDone_def)
  have mem: "c \<in> set (timeCards d)" using c by (simp add: correctionDone_def)
  have "growsBy (cardStep d) (timeCards d) (timeCards d')"
    unfolding cards by (rule updateCard_advance [OF _ mem nf]) (use assms(2) in \<open>auto simp: payrollInv_def correctTarget_def corrected_def\<close>)
  moreover have "filter (\<lambda>b. tb_timeCardId b = tc_id f) (timeCardBreaks d') = filter (\<lambda>b. tb_timeCardId b = tc_id f) (timeCardBreaks d)"
    if f: "f \<in> set (timeCards d)" "frozen d f" for f
  proof -
    have "tc_id f \<noteq> tc_id c" using same_card [OF assms(2) f(1) mem] f(2) nf by auto
    then show ?thesis using breaksReplaced_others [OF breaks(1)] breaks(2) by simp
  qed
  ultimately show ?thesis using kept by (simp add: advance_def periods periodStep_same)
qed (simp add: payroll_tables.R_refl)

lemma correctOutcome_inv:
  assumes "correctOutcome identity d d'" and "payrollInv E d"
  shows "payrollInv E d'"
  using assms(1)
proof (rule correctOutcome_cases)
  fix c cn assignment updatedAt
  assume "timeCards d' = updateWhere (correctTarget c (id_tenantId identity) (cn_expectedUpdatedAt cn)) (corrected cn assignment updatedAt) (timeCards d)"
    and "payrollPeriods d' = payrollPeriods d" "lockedEntries d' = lockedEntries d"
  then show ?thesis
    by (subst payrollInv_cong [of _ d]) (simp_all add: assms(2) map_updateWhere_same corrected_def)
qed (use assms(2) in simp)

lemma correctOutcome_exports: "correctOutcome identity d d' \<Longrightarrow> exportsUntouched d d'"
  by (erule correctOutcome_cases) (simp_all add: exportsUntouched_def)

section \<open>Adopting cards\<close>

lemma adopted_sound:
  assumes "adoptedRow tenantId periodId ids c c'" and "cardSound d c" and "p \<in> set (payrollPeriods d)" "pp_id p = periodId" "pp_tenantId p = tenantId"
    and "tc_id c \<in> ids \<Longrightarrow> insidePeriod p c"
  shows "cardSound d c'"
proof (cases "tc_id c \<in> ids")
  case True
  then obtain t where c': "c' = adoptRow periodId t c" and tenant: "tc_tenantId c = tenantId" using assms(1) by (auto simp: adoptedRow_def)
  have "cardWindow d c'"
    using assms(3-6) True tenant unfolding c' by (auto simp: cardWindow_def adoptRow_def insidePeriod_def list_ex_iff intro!: bexI [of _ p])
  then show ?thesis using assms(2) by (simp add: c' cardSound_def adoptRow_def split: option.splits)
qed (use assms(1,2) in \<open>simp add: adoptedRow_def\<close>)

lemma adopted_keys:
  "adoptedRow tenantId periodId ids c c' \<Longrightarrow> tc_id c' = tc_id c \<and> tc_publicId c' = tc_publicId c \<and> tc_tenantId c' = tc_tenantId c
     \<and> tc_userId c' = tc_userId c \<and> tc_clockInOperationId c' = tc_clockInOperationId c \<and> tc_status c' = tc_status c \<and> tc_deletedAt c' = tc_deletedAt c"
  by (auto simp: adoptedRow_def adoptRow_def split: if_splits)

lemma cardClash_keys:
  assumes "tc_id a' = tc_id a \<and> tc_publicId a' = tc_publicId a \<and> tc_tenantId a' = tc_tenantId a
     \<and> tc_userId a' = tc_userId a \<and> tc_clockInOperationId a' = tc_clockInOperationId a \<and> tc_status a' = tc_status a \<and> tc_deletedAt a' = tc_deletedAt a"
    and "tc_id b' = tc_id b \<and> tc_publicId b' = tc_publicId b \<and> tc_tenantId b' = tc_tenantId b
     \<and> tc_userId b' = tc_userId b \<and> tc_clockInOperationId b' = tc_clockInOperationId b \<and> tc_status b' = tc_status b \<and> tc_deletedAt b' = tc_deletedAt b"
  shows "cardClash a' b' = cardClash a b"
  using assms by (simp add: cardClash_def openFor_def)

lemma adopted_apart:
  "list_all2 (adoptedRow tenantId periodId ids) xs ys \<Longrightarrow> sorted_wrt (\<lambda>a b. \<not> cardClash b a) xs \<Longrightarrow> sorted_wrt (\<lambda>a b. \<not> cardClash b a) ys"
proof (induction rule: list_all2_induct)
  case (Cons x xs y ys)
  have "\<not> cardClash b y" if b: "b \<in> set ys" for b
  proof -
    obtain a where a: "a \<in> set xs" "adoptedRow tenantId periodId ids a b" using list_all2_source [OF Cons.hyps(2) b] by blast
    then show ?thesis using Cons.prems cardClash_keys [OF adopted_keys [OF a(2)] adopted_keys [OF Cons.hyps(1)]] by simp
  qed
  then show ?case using Cons.IH Cons.prems by simp
qed simp

lemma cardsAdopted_cardInv:
  assumes "cardsAdopted tenantId d periodId d'" and "cardInv d"
  shows "cardInv d'"
  using assms(1) unfolding cardsAdopted_def
proof (elim exE conjE)
  fix p rows ids
  assume p: "p \<in> set (payrollPeriods d)" "pp_id p = periodId" "pp_tenantId p = tenantId"
    and inside: "\<forall>c \<in> set (timeCards d). tc_id c \<in> ids \<longrightarrow> insidePeriod p c"
    and rows: "list_all2 (adoptedRow tenantId periodId ids) (timeCards d) rows" and d': "d' = timeCards_update (\<lambda>_. rows) d"
  have "cardSound d r" if r: "r \<in> set rows" for r
  proof -
    obtain c where c: "c \<in> set (timeCards d)" "adoptedRow tenantId periodId ids c r" using list_all2_source [OF rows r] by blast
    then show ?thesis using adopted_sound [OF c(2) _ p] inside assms(2) by (auto simp: cardInv_def list_all_iff)
  qed
  moreover have "cardSound d' = cardSound d" by (rule cardSound_cong) (simp add: d')
  ultimately show ?thesis using assms(2) adopted_apart [OF rows] by (simp add: cardInv_def list_all_iff d')
qed

end
