(* ===== verification/PayrollSystem.thy ===== *)
theory PayrollSystem
  imports TimeCardInvariants
begin

text \<open>
  The commands together.  Every command of the modelled services obeys one contract, the locale \<open>lawful\<close>: from a
  well-formed database it leaves a well-formed one, and the records only advance.  The
  contract is discharged for every command, and what follows from it for sequences of commands, among
  changes other services make to the tables the modelled ones only read, is proved once.
\<close>

section \<open>Well-formed databases and lawful steps\<close>

definition wellFormed :: "env \<Rightarrow> database \<Rightarrow> bool" where
  "wellFormed E d \<longleftrightarrow> payrollInv E d \<and> exportInv d \<and> cardInv d"

definition records :: "database \<Rightarrow> database \<Rightarrow> bool" where
  "records d d' \<longleftrightarrow> advance d d' \<and> growsBy batchStep (exportBatches d) (exportBatches d')"

definition lawfulStep :: "env \<Rightarrow> database \<Rightarrow> database \<Rightarrow> bool" where
  "lawfulStep E d d' \<longleftrightarrow> wellFormed E d' \<and> records d d'"

interpretation all_records: preserved records
proof
  fix d d' d'' :: database
  show "records d d" by (simp add: records_def payroll_tables.R_refl growsBy_refl batchStep_refl)
  assume 1: "records d d'" and 2: "records d' d''"
  have "growsBy batchStep (exportBatches d) (exportBatches d'')"
    by (rule growsBy_trans [where R = batchStep and S = batchStep]) (use 1 2 batchStep_trans in \<open>auto simp: records_def\<close>)
  then show "records d d''" using 1 2 payroll_tables.R_trans by (auto simp: records_def)
qed

locale lawful =
  fixes E :: env and m :: "'a tx"
  assumes lawful: "wellFormed E d \<Longrightarrow> outcome d m (\<lambda>_. lawfulStep E d)"
begin

lemma step: "wellFormed E (w_db w) \<Longrightarrow> lawfulStep E (w_db w) (w_db (snd (m w)))"
  by (rule outcome_always [OF lawful]) (simp_all add: lawfulStep_def all_records.R_refl)

lemma well_formed: "wellFormed E (w_db w) \<Longrightarrow> wellFormed E (w_db (snd (m w)))"
  using step by (simp add: lawfulStep_def)

text \<open>What is thrown leaves the database alone, unless a commit was not acknowledged.\<close>

lemma throws: "wellFormed E (w_db w) \<Longrightarrow> m w = (err e, w') \<Longrightarrow> w_db w' = w_db w \<or> lawfulStep E (w_db w) (w_db w')"
  using postD_err [OF lawful [unfolded outcome_def]] by blast

end

lemma lawfulI: "(\<And>d. wellFormed E d \<Longrightarrow> outcome d m (\<lambda>_. lawfulStep E d)) \<Longrightarrow> lawful E m"
  by unfold_locales

text \<open>Ways to establish a lawful step: the records advance, and the tables of another component are not touched.\<close>

lemma lawfulStep_refl: "wellFormed E d \<Longrightarrow> lawfulStep E d d"
  by (simp add: lawfulStep_def all_records.R_refl)

lemma untouched_batches: "exportsUntouched d d' \<Longrightarrow> growsBy batchStep (exportBatches d) (exportBatches d')"
  by (simp add: exportsUntouched_def growsBy_refl batchStep_refl)

lemma lawful_payroll:
  assumes "wellFormed E d" and "payrollInv E d'" and "advance d d'" and "exportsUntouched d d'" and "cardInv d'"
  shows "lawfulStep E d d'"
  using assms exportInv_frame [OF _ assms(3,4)] untouched_batches [OF assms(4)] by (simp add: lawfulStep_def wellFormed_def records_def)

lemma lawful_quiet:
  assumes "wellFormed E d" and "payrollInv E d'" and "advance d d'" and "exportsUntouched d d'" and "timeCards d' = timeCards d"
  shows "lawfulStep E d d'"
  by (rule lawful_payroll [OF assms(1-4)]) (use assms cardInv_advance in \<open>auto simp: wellFormed_def\<close>)

lemma lawful_recorded:
  assumes "recordedOutcome identity request kind change d r d'" and "wellFormed E d"
    and "\<And>periodId mid. change d periodId mid \<Longrightarrow> payrollInv E mid \<and> advance d mid \<and> exportsUntouched d mid \<and> cardInv mid"
  shows "lawfulStep E d d'"
proof (rule lawful_payroll [OF assms(2)])
  show "payrollInv E d'" using recorded_inv [OF assms(1)] assms(2,3) by (auto simp: wellFormed_def)
  show "advance d d'" using recorded_advance [OF assms(1)] assms(3) by blast
  have "exportsUntouched d d' \<and> cardInv d'"
    using assms(1) unfolding recordedOutcome_def
  proof (elim disjE exE conjE)
    fix periodId log mid
    assume c: "change d periodId mid"
      and d': "d' = auditLogs_update (\<lambda>rows. rows @ [log]) (payrollOperations_update (\<lambda>rows. rows @ [operationRow identity request periodId kind r]) mid)"
    have "cardInv d'" by (rule cardInv_frame [of mid]) (use assms(3) [OF c] in \<open>simp_all add: d' periodStep_same\<close>)
    then show ?thesis using assms(3) [OF c] by (simp add: d' exportsUntouched_def)
  qed (use assms(2) in \<open>simp add: exportsUntouched_def wellFormed_def\<close>)
  then show "exportsUntouched d d'" "cardInv d'" by simp_all
qed

section \<open>The contract of every command\<close>

lemma policyOutcome_same: "policyOutcome tenantId request d d' \<Longrightarrow> exportsUntouched d d' \<and> timeCards d' = timeCards d"
  unfolding policyOutcome_def by (elim disjE exE conjE) (simp_all add: exportsUntouched_def)

interpretation create_policy: lawful E "createPolicy E who body key" for E who body key
proof (rule lawfulI, rule outcome_mono [OF outcome_createPolicy])
  fix d d'
  assume w: "wellFormed E d" and "\<exists>request. policyOutcome (id_tenantId (mutationIdentity who)) request d d'"
  then obtain request where p: "policyOutcome (id_tenantId (mutationIdentity who)) request d d'" by blast
  show "lawfulStep E d d'"
    by (rule lawful_quiet [OF w]) (use w policyOutcome_same [OF p] policyOutcome_inv [OF p] policyOutcome_advance [OF p] in \<open>auto simp: wellFormed_def\<close>)
qed

lemma periodAdded_lawful:
  assumes "wellFormed E d" and "periodAdded tenantId d periodId mid"
  shows "payrollInv E mid \<and> advance d mid \<and> exportsUntouched d mid \<and> cardInv mid"
proof -
  have "exportsUntouched d mid" "timeCards mid = timeCards d" using assms(2) by (auto simp: periodAdded_def exportsUntouched_def)
  then show ?thesis
    using assms periodAdded_inv periodAdded_advance cardInv_advance by (auto simp: wellFormed_def)
qed

interpretation create_period: lawful E "createPeriod E who localStartDate key" for E who localStartDate key
  by (rule lawfulI, rule outcome_mono [OF outcome_createPeriod]) (auto intro: lawful_recorded dest: periodAdded_lawful)

lemma reviewStarted_lawful:
  assumes "wellFormed E d" and "reviewStarted tenantId revision d periodId mid"
  shows "payrollInv E mid \<and> advance d mid \<and> exportsUntouched d mid \<and> cardInv mid"
proof -
  have "exportsUntouched d mid" "timeCards mid = timeCards d" using assms(2) by (auto simp: reviewStarted_def exportsUntouched_def)
  then show ?thesis
    using assms reviewStarted_inv reviewStarted_advance cardInv_advance by (auto simp: wellFormed_def)
qed

interpretation start_review: lawful E "startReview E who publicId revision key" for E who publicId revision key
  by (rule lawfulI, rule outcome_mono [OF outcome_startReview]) (auto intro: lawful_recorded dest: reviewStarted_lawful)

lemma cardsAdopted_lawful:
  assumes "wellFormed E d" and "cardsAdopted tenantId d periodId mid"
  shows "payrollInv E mid \<and> advance d mid \<and> exportsUntouched d mid \<and> cardInv mid"
proof -
  have "exportsUntouched d mid" using assms(2) unfolding cardsAdopted_def by (elim exE conjE) (simp add: exportsUntouched_def)
  then show ?thesis
    using assms cardsAdopted_inv cardsAdopted_advance cardsAdopted_cardInv by (auto simp: wellFormed_def)
qed

interpretation adopt_cards: lawful E "adoptCards E who publicId body key" for E who publicId body key
proof (rule lawfulI, rule outcome_mono [OF outcome_adoptCards])
  fix d
  assume w: "wellFormed E d"
  then show "distinct (map tc_id (timeCards d))" by (simp add: wellFormed_def payrollInv_def)
  fix r d'
  assume "\<exists>request. recordedOutcome (mutationIdentity who) request ADOPT (cardsAdopted (id_tenantId (mutationIdentity who))) d r d'"
  then show "lawfulStep E d d'" using lawful_recorded [OF _ w] cardsAdopted_lawful [OF w] by blast
qed

lemma cardsDecided_lawful:
  assumes "wellFormed E d" and "cardsDecided identity d periodId mid"
  shows "payrollInv E mid \<and> advance d mid \<and> exportsUntouched d mid \<and> cardInv mid"
proof -
  have "exportsUntouched d mid" "timeCards mid = timeCards d"
    using assms(2) unfolding cardsDecided_def by (elim exE conjE; simp add: exportsUntouched_def)+
  then show ?thesis
    using assms cardsDecided_inv cardsDecided_advance cardInv_advance by (auto simp: wellFormed_def)
qed

interpretation decide_cards: lawful E "decideCards E who publicId body key" for E who publicId body key
proof (rule lawfulI, rule outcome_mono [OF outcome_decideCards])
  fix d
  assume w: "wellFormed E d"
  then show "distinct (map tc_id (timeCards d))" by (simp add: wellFormed_def payrollInv_def)
  fix r d'
  assume "\<exists>request. recordedOutcome (mutationIdentity who) request APPROVAL (cardsDecided (mutationIdentity who)) d r d'"
  then show "lawfulStep E d d'" using lawful_recorded [OF _ w] cardsDecided_lawful [OF w] by blast
qed

lemma lockOutcome_same: "lockOutcome E identity request revision periodId d d' \<Longrightarrow> exportsUntouched d d' \<and> timeCards d' = timeCards d"
  unfolding lockOutcome_def periodLocked_def by (elim disjE exE conjE) (simp_all add: exportsUntouched_def)

interpretation lock_period: lawful E "lockPeriod E who publicId revision key" for E who publicId revision key
proof (rule lawfulI, rule outcome_mono [OF outcome_lockPeriod])
  fix d d'
  assume w: "wellFormed E d" and "\<exists>request periodId. lockOutcome E (mutationIdentity who) request revision periodId d d'"
  then obtain request periodId where l: "lockOutcome E (mutationIdentity who) request revision periodId d d'" by blast
  show "lawfulStep E d d'"
    by (rule lawful_quiet [OF w]) (use w lockOutcome_same [OF l] lockOutcome_inv [OF l] lockOutcome_advance [OF l] in \<open>auto simp: wellFormed_def\<close>)
qed

lemma amendmentOutcome_same: "amendmentOutcome identity d d' \<Longrightarrow> exportsUntouched d d' \<and> timeCards d' = timeCards d"
  unfolding amendmentOutcome_def by (elim disjE exE conjE) (simp_all add: exportsUntouched_def)

lemma decisionOutcome_same: "decisionOutcome identity d d' \<Longrightarrow> exportsUntouched d d' \<and> timeCards d' = timeCards d"
  unfolding decisionOutcome_def by (elim disjE exE conjE) (simp_all add: exportsUntouched_def)

interpretation create_amendment: lawful E "createAmendment E who publicId body key" for E who publicId body key
  by (rule lawfulI, rule outcome_mono [OF outcome_createAmendment], rule lawful_quiet)
    (auto simp: wellFormed_def intro: amendmentOutcome_inv amendmentOutcome_advance dest: amendmentOutcome_same)

interpretation decide_amendment: lawful E "decideAmendment E who publicId verdict reason key" for E who publicId verdict reason key
  by (rule lawfulI, rule outcome_mono [OF outcome_decideAmendment], rule lawful_quiet)
    (auto simp: wellFormed_def intro: decisionOutcome_inv decisionOutcome_advance dest: decisionOutcome_same)

lemma exportOutcome_cards: "exportOutcome E tenantId request cost periodId d d' \<Longrightarrow> timeCards d' = timeCards d"
  unfolding exportOutcome_def exportCreated_def by (elim disjE exE conjE) (simp_all add: charged_same)

lemma exportOutcome_batches:
  assumes "exportOutcome E tenantId request cost periodId d d'"
  shows "growsBy batchStep (exportBatches d) (exportBatches d')"
  using assms unfolding exportOutcome_def exportCreated_def
proof (elim disjE exE conjE)
  fix p entries drafts b d1 log
  assume c: "charged d tenantId cost (exportCreditId (rq_operationId request)) (exportReason periodId) (eb_newBalance b) d1"
    and d': "d' = auditLogs_update (\<lambda>ls. ls @ [log]) (exportLines_update (\<lambda>ls. ls @ map (exportLineRow tenantId (eb_id b)) drafts)
        (exportBatches_update (\<lambda>bs. bs @ [b]) d1))"
  show ?thesis by (simp add: d' charged_same [OF c] growsBy_append batchStep_refl)
qed (simp add: growsBy_refl batchStep_refl)

interpretation create_export: lawful E "createExport E who publicId cost key" for E who publicId cost key
proof (rule lawfulI, rule outcome_mono [OF outcome_createExport])
  fix d d'
  assume w: "wellFormed E d" and "\<exists>request periodId. exportOutcome E (id_tenantId (mutationIdentity who)) request cost periodId d d'"
  then obtain request periodId where x: "exportOutcome E (id_tenantId (mutationIdentity who)) request cost periodId d d'" by blast
  have "exportInv d'" using x w exportCreated_exportInv by (auto simp: exportOutcome_def wellFormed_def)
  moreover have "cardInv d'" by (rule cardInv_advance [OF _ exportOutcome_advance [OF x] exportOutcome_cards [OF x]]) (use w in \<open>simp add: wellFormed_def\<close>)
  ultimately show "lawfulStep E d d'"
    using w exportOutcome_inv [OF x] exportOutcome_advance [OF x] exportOutcome_batches [OF x] by (simp add: lawfulStep_def wellFormed_def records_def)
qed

lemma downloadOutcome_batches: "downloadOutcome tenantId d d' \<Longrightarrow> growsBy batchStep (exportBatches d) (exportBatches d') \<and> timeCards d' = timeCards d"
  unfolding downloadOutcome_def
  by (elim disjE exE conjE)
    (auto simp: growsBy_refl batchStep_refl downloadTarget_def downloadedRow_def batchStep_def batchIdentity_def intro!: growsBy_updateWhere)

interpretation download_export: lawful E "downloadExport E who publicId" for E who publicId
proof (rule lawfulI, rule outcome_mono [OF outcome_downloadExport])
  fix d d'
  assume w: "wellFormed E d" and x: "downloadOutcome (id_tenantId (mutationIdentity who)) d d'"
  have "cardInv d'" by (rule cardInv_advance [OF _ downloadOutcome_advance [OF x]]) (use w downloadOutcome_batches [OF x] in \<open>simp_all add: wellFormed_def\<close>)
  then show "lawfulStep E d d'"
    using w downloadOutcome_inv [OF x] downloadOutcome_advance [OF x] downloadOutcome_batches [OF x] downloadOutcome_exportInv [OF x]
    by (simp add: lawfulStep_def wellFormed_def records_def)
qed

lemma receiptOutcome_batches:
  assumes "receiptOutcome tenantId d d'"
  shows "growsBy batchStep (exportBatches d) (exportBatches d') \<and> timeCards d' = timeCards d"
  using assms unfolding receiptOutcome_def receiptStored_def
proof (elim disjE exE conjE)
  fix b r evs d1 d2 log complete
  assume k: "statesKept (eb_id b) (lineEvents_update (\<lambda>rows. rows @ evs) (receipts_update (\<lambda>rows. rows @ [r]) d)) d1"
    and m: "batchesMoved tenantId (eb_id b) (countStates tenantId (eb_id b) LINE_ACCEPTED d1 = eb_rowCount b
        \<and> re_providerTotalMinutes r = eb_totalPayableMinutes b) d1 d2"
    and d': "d' = auditLogs_update (\<lambda>ls. ls @ [log]) d2"
  have d1: "exportBatches d1 = exportBatches d" "timeCards d1 = timeCards d" using k by (auto simp: statesKept_def)
  obtain bs where d2: "d2 = exportBatches_update (\<lambda>_. bs) d1"
    and bs: "list_all2 (moveStep tenantId (eb_id b) (countStates tenantId (eb_id b) LINE_ACCEPTED d1 = eb_rowCount b
        \<and> re_providerTotalMinutes r = eb_totalPayableMinutes b)) (exportBatches d1) bs"
    using m unfolding batchesMoved_def by (elim exE conjE) (rule that)
  have "list_all2 batchStep (exportBatches d) bs" using bs d1 by (auto simp: moveStep_def elim: list_all2_mono)
  then show ?thesis using d1 by (simp add: d' d2 growsBy_all2)
qed (simp add: growsBy_refl batchStep_refl)

interpretation reconcile_export: lawful E "reconcileExport E who publicId body" for E who publicId body
proof (rule lawfulI, rule outcome_mono [OF outcome_reconcileExport])
  fix d d'
  assume w: "wellFormed E d" and x: "receiptOutcome (id_tenantId (mutationIdentity who)) d d'"
  have "cardInv d'" by (rule cardInv_advance [OF _ receiptOutcome_advance [OF x]]) (use w receiptOutcome_batches [OF x] in \<open>simp_all add: wellFormed_def\<close>)
  then show "lawfulStep E d d'"
    using w receiptOutcome_inv [OF x] receiptOutcome_advance [OF x] receiptOutcome_batches [OF x] receiptOutcome_exportInv [OF x]
    by (simp add: lawfulStep_def wellFormed_def records_def)
qed

interpretation clock_in: lawful E "clockIn E who body key" for E who body key
  by (rule lawfulI, rule outcome_mono [OF outcome_clockIn], rule lawful_payroll)
    (auto simp: wellFormed_def intro: clockInOutcome_inv clockInOutcome_advance clockInOutcome_exports clockInOutcome_cardInv)

interpretation clock_out: lawful E "clockOut E who publicId body" for E who publicId body
  by (rule lawfulI, rule outcome_mono [OF outcome_clockOut], rule lawful_payroll)
    (auto simp: wellFormed_def intro: clockOutOutcome_inv clockOutOutcome_advance clockOutOutcome_exports clockOutOutcome_cardInv)

interpretation correct_card: lawful E "correct E who publicId body" for E who publicId body
proof (rule lawfulI, rule outcome_mono [OF outcome_correct])
  fix d d'
  assume w: "wellFormed E d"
  then show "distinct (map tc_id (timeCards d))" by (simp add: wellFormed_def payrollInv_def)
  assume x: "correctOutcome (mutationIdentity who) d d'"
  show "lawfulStep E d d'"
    by (rule lawful_payroll [OF w]) (use w x in
      \<open>auto simp: wellFormed_def intro: correctOutcome_inv correctOutcome_advance correctOutcome_exports correctOutcome_cardInv\<close>)
qed

end
