(* ===== verification/Progress.thy ===== *)
theory Progress
  imports PayrollQueries
begin

text \<open>
  Total correctness: \<open>returns d m Q\<close> says that \<open>m\<close>, run on database \<open>d\<close>, returns a value and leaves a database
  that meet \<open>Q\<close>, however often the clocks have been read and however many identifiers have been drawn.
  With it, a scenario is shown to run to its end, so that the theorems about runs that return are
  about runs that exist.
\<close>

definition returns :: "database \<Rightarrow> 'a tx \<Rightarrow> ('a \<Rightarrow> database \<Rightarrow> bool) \<Rightarrow> bool" where
  "returns d m Q \<longleftrightarrow> (\<forall>w. w_db w = d \<longrightarrow> (\<exists>x w'. m w = (ok x, w') \<and> Q x (w_db w')))"

named_theorems run_rules \<open>syntax-directed rules for returning\<close>

lemma returnsD: "returns (w_db w) m Q \<Longrightarrow> \<exists>x w'. m w = (ok x, w') \<and> Q x (w_db w')"
  by (simp add: returns_def)

lemma returns_mono: "returns d m Q \<Longrightarrow> (\<And>x d'. Q x d' \<Longrightarrow> Q' x d') \<Longrightarrow> returns d m Q'"
  unfolding returns_def by fast

lemma returns_return [run_rules]: "Q x d \<Longrightarrow> returns d (returnT x) Q"
  by (simp add: returns_def returnT_def)

lemma returns_bind [run_rules]: "returns d m (\<lambda>x d'. returns d' (f x) Q) \<Longrightarrow> returns d (bindT m f) Q"
  unfolding returns_def bindT_def by (metis (no_types, lifting) case_prod_conv old.sum.simps(6))

lemma returns_then [run_rules]: "returns d m (\<lambda>_ d'. returns d' k Q) \<Longrightarrow> returns d (thenT m k) Q"
  unfolding thenT_def by (rule returns_bind)

lemma returns_check [run_rules]: "b \<Longrightarrow> Q () d \<Longrightarrow> returns d (checkT b e) Q"
  by (simp add: checkT_def returns_return)

lemma returns_lift [run_rules]: "r = ok x \<Longrightarrow> Q x d \<Longrightarrow> returns d (liftT r) Q"
  by (simp add: returns_def liftT_def)

lemma returns_get [run_rules]: "Q (f d) d \<Longrightarrow> returns d (getT f) Q"
  by (simp add: returns_def getT_def)

lemma returns_modify [run_rules]: "Q () (f d) \<Longrightarrow> returns d (modifyT f) Q"
  by (simp add: returns_def modifyT_def)

lemma returns_require [run_rules]: "x = Some a \<Longrightarrow> Q a d \<Longrightarrow> returns d (requireT x e) Q"
  by (simp add: requireT_def returns_return)

lemma returns_now [run_rules]: "(\<And>n. Q (e_clock E n) d) \<Longrightarrow> returns d (nowT E) Q"
  by (simp add: returns_def nowT_def)

lemma returns_monotonic [run_rules]: "(\<And>n. Q (e_monotonic E n) d) \<Longrightarrow> returns d (monotonicT E) Q"
  by (simp add: returns_def monotonicT_def)

lemma returns_uuid [run_rules]: "(\<And>n. Q (e_uuid E n) d) \<Longrightarrow> returns d (uuidT E) Q"
  by (simp add: returns_def uuidT_def)

lemma returns_redis [run_rules]: "(\<And>n. \<exists>x. e_redis E n key = ok x \<and> Q x d) \<Longrightarrow> returns d (redisT E key) Q"
  unfolding returns_def redisT_def by auto

lemma returns_if [run_rules]: "(b \<Longrightarrow> returns d m Q) \<Longrightarrow> (\<not> b \<Longrightarrow> returns d k Q) \<Longrightarrow> returns d (if b then m else k) Q"
  by simp

lemma returns_let [run_rules]: "returns d (k x) Q \<Longrightarrow> returns d (let y = x in k y) Q"
  by simp

lemma returns_create [run_rules]:
  "\<not> list_ex (clash row) (fst table d) \<Longrightarrow> Q () (snd table (\<lambda>rs. rs @ [row]) d) \<Longrightarrow> returns d (createT table clash row) Q"
  unfolding createT_def by (auto intro!: run_rules)

lemma returns_updateMany [run_rules]:
  "Q (length (filter P (fst table d))) (snd table (updateWhere P f) d) \<Longrightarrow> returns d (updateManyT table P f) Q"
  unfolding updateManyT_def by (intro run_rules)

lemma returns_deleteMany [run_rules]:
  "Q () (snd table (filter (\<lambda>r. \<not> P r)) d) \<Longrightarrow> returns d (deleteManyT table P) Q"
  unfolding deleteManyT_def by (intro run_rules)

text \<open>The same from one world, as equations with which the simplifier runs a transaction.\<close>

definition runs :: "world \<Rightarrow> 'a tx \<Rightarrow> ('a \<Rightarrow> world \<Rightarrow> bool) \<Rightarrow> bool" where
  "runs w m Q \<longleftrightarrow> (\<exists>x w'. m w = (ok x, w') \<and> Q x w')"

lemma returnsI: "(\<And>w. w_db w = d \<Longrightarrow> runs w m (\<lambda>x w'. Q x (w_db w'))) \<Longrightarrow> returns d m Q"
  by (simp add: returns_def runs_def)

lemma runs_returns: "returns d m Q \<Longrightarrow> w_db w = d \<Longrightarrow> (\<And>x w'. Q x (w_db w') \<Longrightarrow> Q' x w') \<Longrightarrow> runs w m Q'"
  unfolding returns_def runs_def by fast

lemma runs_bind: "runs w (bindT m f) Q = runs w m (\<lambda>x w'. runs w' (f x) Q)"
  by (auto simp: runs_def bindT_def split: prod.splits sum.splits)

lemma runs_then: "runs w (thenT m k) Q = runs w m (\<lambda>_ w'. runs w' k Q)"
  by (simp add: thenT_def runs_bind)

lemma runs_basic:
  "runs w (returnT x) Qr = Qr x w"
  "runs w (throwT e) Qe = False"
  "runs w (checkT b e) Qc = (b \<and> Qc () w)"
  "runs w (liftT r) Ql = (\<exists>y. r = ok y \<and> Ql y w)"
  "runs w (getT f) Qg = Qg (f (w_db w)) w"
  "runs w (modifyT g) Qc = Qc () (w \<lparr> w_db := g (w_db w) \<rparr>)"
  "runs w (requireT v e) Qa = (\<exists>a. v = Some a \<and> Qa a w)"
  "runs w (nowT E) Qi = Qi (e_clock E (w_ticks w)) (w \<lparr> w_ticks := Suc (w_ticks w) \<rparr>)"
  "runs w (monotonicT E) Qi = Qi (e_monotonic E (w_ticks w)) (w \<lparr> w_ticks := Suc (w_ticks w) \<rparr>)"
  "runs w (uuidT E) Qs = Qs (e_uuid E (w_fresh w)) (w \<lparr> w_fresh := Suc (w_fresh w) \<rparr>)"
  "runs w (redisT E key) Qi = (\<exists>x. e_redis E (w_ticks w) key = ok x \<and> Qi x (w \<lparr> w_ticks := Suc (w_ticks w) \<rparr>))"
  by (auto simp: runs_def returnT_def throwT_def checkT_def liftT_def getT_def modifyT_def requireT_def nowT_def monotonicT_def
      uuidT_def redisT_def split: option.splits)

lemma runs_catch: "runs w m Q \<Longrightarrow> runs w (catchT m h) Q"
  by (auto simp: runs_def catchT_def)

lemma runs_create: "runs w (createT table clash row) Q = (\<not> list_ex (clash row) (fst table (w_db w)) \<and> Q () (w \<lparr> w_db := snd table (\<lambda>rs. rs @ [row]) (w_db w) \<rparr>))"
  by (simp add: createT_def runs_bind runs_basic)

lemma runs_updateMany: "runs w (updateManyT table P f) Q = Q (length (filter P (fst table (w_db w)))) (w \<lparr> w_db := snd table (updateWhere P f) (w_db w) \<rparr>)"
  by (simp add: updateManyT_def runs_bind runs_then runs_basic)

lemma runs_deleteMany: "runs w (deleteManyT table P) Q = Q () (w \<lparr> w_db := snd table (filter (\<lambda>r. \<not> P r)) (w_db w) \<rparr>)"
  by (simp add: deleteManyT_def runs_basic)

lemma runs_let: "runs w (let y = v in k y) Q = runs w (k v) Q"
  by simp

lemmas runs_simps = runs_let runs_bind runs_then runs_basic runs_create runs_updateMany runs_deleteMany

lemma returns_catch: "returns d m Q \<Longrightarrow> returns d (catchT m h) Q"
  unfolding returns_def catchT_def by fastforce

lemma returns_withTenant:
  assumes "trim tenantId \<noteq> []" and "e_fault E = (\<lambda>_. None)" and "returns d body Q"
  shows "returns d (withTenant E tenantId body) Q"
  unfolding returns_def
proof (intro allI impI)
  fix w :: world
  assume "w_db w = d"
  then have "w_db (w \<lparr> w_txs := Suc (w_txs w) \<rparr>) = d" by simp
  then obtain x w' where "body (w \<lparr> w_txs := Suc (w_txs w) \<rparr>) = (ok x, w')" "Q x (w_db w')"
    using assms(3) unfolding returns_def by blast
  then show "\<exists>x w'. withTenant E tenantId body w = (ok x, w') \<and> Q x (w_db w')"
    using assms(1,2) by (simp add: withTenant_def Let_def)
qed

lemma returns_retry: "returns d m Q \<Longrightarrow> returns d (retryPayrollSerializableMutation m) Q"
  unfolding retryPayrollSerializableMutation_def by (rule returns_catch)

text \<open>A check that passes: it returns and changes nothing.\<close>

definition passes :: "database \<Rightarrow> unit tx \<Rightarrow> bool" where
  "passes d cur \<longleftrightarrow> returns d cur (\<lambda>_ d'. d' = d)"

lemma returns_passes: "passes d cur \<Longrightarrow> Q () d \<Longrightarrow> returns d cur Q"
  unfolding passes_def by (erule returns_mono) simp

lemma passes_noCheck [simp]: "passes d noCheck"
  by (simp add: passes_def noCheck_def returns_return)

end
