(* ===== verification/Scenario.thy ===== *)
theory Scenario
  imports PayrollInvariants Progress
begin

text \<open>
  A small workspace in which the commands run to their end: a tenant with credits, an administrator, an employee
  with a closed card, a policy and a period.  Clocks stand still at one instant, generated identifiers
  start with zeros and stored ones with ones.
\<close>

definition adminPermissions :: "string list" where
  "adminPermissions = [''payroll:read'', ''payroll:policy_write'', ''payroll:lock'', ''payroll:export'', ''payroll:reconcile'', ''time_cards:approve'', ''shifts:write'']"

definition storedUuid :: "nat \<Rightarrow> string" where
  "storedUuid n = ''11111111-0000-4000-8000-'' @ fixedDigits 12 (int n)"

definition scenarioNow :: instant where "scenarioNow = 1767225600000"

definition scenarioEnv :: env where
  "scenarioEnv = sampleEnv \<lparr> e_clock := (\<lambda>_. scenarioNow), e_monotonic := (\<lambda>_. 0) \<rparr>"

definition emptyDatabase :: database where
  "emptyDatabase = \<lparr> tenants = [], tenantSettings = [], planDefinitions = [], users = [], sessions = [], roles = [],
     roleAssignments = [], locations = [], schedules = [], shifts = [], shiftBreaks = [], demandWindows = [], scheduleChangeSets = [], generationRequests = [], creditTransactions = [], auditLogs = [], timeCards = [], timeCardBreaks = [],
     policyVersions = [], payrollPeriods = [], cardApprovals = [], lockedEntries = [], amendments = [], amendmentDecisions = [],
     exportBatches = [], exportLines = [], receipts = [], lineEvents = [], lineStates = [], payrollOperations = [] \<rparr>"

definition sampleUser :: "string \<Rightarrow> nat \<Rightarrow> user" where
  "sampleUser i n = \<lparr> us_id = i, us_publicId = storedUuid n, us_tenantId = ''t1'', us_name = i, us_username = None, us_role = ADMIN,
     us_mfaEnabled = False, us_pinResetRequired = False, us_pinLockedUntil = None, us_lockedUntil = None, us_suspendedAt = None,
     us_deletedAt = None \<rparr>"

definition sampleTenant :: tenant where
  "sampleTenant = \<lparr> tn_id = ''t1'', tn_planTier = ''GROWTH'', tn_status = TENANT_ACTIVE, tn_stripeSubscriptionId = Some ''sub'',
     tn_stripeSubscriptionCurrentPeriodEnd = Some 2000000000000, tn_trialEndsAt = None, tn_usageCredits = 5, tn_creditDebt = 0,
     tn_deletedAt = None \<rparr>"

definition sampleRole :: role where
  "sampleRole = \<lparr> ro_id = ''r1'', ro_tenantId = ''t1'', ro_isSystem = False, ro_legacyRole = None, ro_permissions = adminPermissions,
     ro_deletedAt = None \<rparr>"

definition sampleSession :: session where
  "sampleSession = \<lparr> se_id = ''s1'', se_userId = ''u1'', se_createdAt = 1767225590000, se_expiresAt = 1767235590000, se_revokedAt = None \<rparr>"

definition samplePolicy :: policyVersion where
  "samplePolicy = \<lparr> pv_id = ''pv1'', pv_publicId = storedUuid 901, pv_tenantId = ''t1'', pv_version = 1, pv_timeZone = ''UTC'',
     pv_cadence = WEEKLY, pv_anchorDate = 1717372800000, pv_effectiveFrom = 1717372800000, pv_operationId = ''x'', pv_requestHash = ''x'',
     pv_createdByUserId = ''u1'', pv_createdAt = 0 \<rparr>"

definition samplePeriod :: payrollPeriod where
  "samplePeriod = \<lparr> pp_id = ''p1'', pp_publicId = storedUuid 902, pp_tenantId = ''t1'', pp_policyVersionId = ''pv1'',
     pp_localStartDate = 1717372800000, pp_localEndDateExclusive = 1717977600000, pp_startsAt = 1717372800000, pp_endsAt = 1717977600000,
     pp_timeZone = ''UTC'', pp_cadence = WEEKLY, pp_status = PERIOD_OPEN, pp_revision = 0, pp_reviewStartedAt = None,
     pp_reviewStartedByUserId = None, pp_lockedAt = None, pp_lockedByUserId = None, pp_lockOperationId = None, pp_lockRequestHash = None,
     pp_lockedEntrySha256 = None, pp_lockedEntryCount = None, pp_totalPayableMinutes = None, pp_createdAt = 0, pp_updatedAt = 0 \<rparr>"

definition sampleCard :: "string \<Rightarrow> timeCard" where
  "sampleCard i = \<lparr> tc_id = i, tc_publicId = storedUuid 903, tc_tenantId = ''t1'', tc_userId = ''u2'', tc_locationId = None, tc_shiftId = None,
     tc_clockInOperationId = None, tc_clockInRequestHash = None, tc_clockInAt = 1717405200000, tc_clockOutAt = Some 1717434000000,
     tc_payrollPeriodId = Some ''p1'', tc_workTimeZone = ''UTC'', tc_revision = 1, tc_breakMinutes = 30, tc_notes = None,
     tc_status = CARD_CLOSED, tc_createdAt = 0, tc_updatedAt = 0, tc_deletedAt = None \<rparr>"

definition sampleDb :: database where
  "sampleDb = emptyDatabase \<lparr> tenants := [sampleTenant], users := [sampleUser ''u1'' 11, sampleUser ''u2'' 12], sessions := [sampleSession],
     roles := [sampleRole], roleAssignments := [\<lparr> ra_tenantId = ''t1'', ra_userId = ''u1'', ra_roleId = ''r1'' \<rparr>],
     policyVersions := [samplePolicy], payrollPeriods := [samplePeriod], timeCards := [sampleCard ''c1''] \<rparr>"

definition sampleWorld :: world where
  "sampleWorld = \<lparr> w_db = sampleDb, w_ticks = 0, w_fresh = 0, w_txs = 0, w_local = None \<rparr>"

definition sampleWho :: sessionIdentity where
  "sampleWho = \<lparr> id_sub = ''u1'', id_tenantId = ''t1'', id_sessionId = ''s1'', id_publicUserId = storedUuid 11, id_permissions = [''shifts:write''],
     id_legacyRole = ''ADMIN'', id_roles = [] \<rparr>"


definition sampleAuthority :: currentAuthority where
  "sampleAuthority = \<lparr> ca_authority = \<lparr> ma_actor = sampleUser ''u1'' 11, ma_actorAccess = accessFor ADMIN [sampleRole],
       ma_target = None, ma_targetAccess = None \<rparr>,
     ca_identity = \<lparr> mi_sub = ''u1'', mi_tenantId = ''t1'', mi_sessionId = ''s1'' \<rparr>, ca_expiresAtEpochMs = 1767235590000, ca_requiresMfa = True \<rparr>"

definition sampleObservation :: mfaObservation where
  "sampleObservation = \<lparr> mo_sub = ''u1'', mo_tenantId = ''t1'', mo_sessionId = ''s1'', mo_expiresAtEpochMs = scenarioNow + 600000,
     mo_expiresAtMonotonicMs = 600000 \<rparr>"

definition sampleScope :: mutationScope where
  "sampleScope = \<lparr> sc_requestExpiresAt = 1767235590000, sc_observation = Some sampleObservation \<rparr>"

text \<open>The tables that decide about authority are those of the sample.\<close>

definition sampleAccess :: "database \<Rightarrow> bool" where
  "sampleAccess d \<longleftrightarrow> tenants d = [sampleTenant] \<and> users d = users sampleDb \<and> sessions d = [sampleSession] \<and> roles d = [sampleRole]
     \<and> roleAssignments d = roleAssignments sampleDb \<and> tenantSettings d = []"

lemma access_facts:
  "as_permissions (accessFor ADMIN [sampleRole]) = adminPermissions"
  "as_roles (accessFor ADMIN [sampleRole]) = [sampleRole]"
  "us_id (sampleUser ''u1'' 11) = ''u1''"
  "us_role (sampleUser ''u1'' 11) = ADMIN"
  by code_simp+

lemma rolesOf_sample: "sampleAccess d \<Longrightarrow> rolesOf ''t1'' ''u1'' d = [sampleRole]"
  by (simp add: sampleAccess_def rolesOf_def findMany_def sampleDb_def emptyDatabase_def sampleRole_def)

lemma userRows_sample: "sampleAccess d \<Longrightarrow> userRows ''t1'' [''u1'', []] d = [sampleUser ''u1'' 11]"
  by (simp add: sampleAccess_def userRows_def findMany_def sampleDb_def emptyDatabase_def sampleUser_def jsSet_def trim_def isJsSpace_def codeUnit_def Let_def)

lemma env_facts: "e_clock scenarioEnv n = scenarioNow" "e_monotonic scenarioEnv n = 0" "e_fault scenarioEnv = (\<lambda>_. None)"
  "e_redis scenarioEnv n key = ok 600000" "e_observer scenarioEnv" "e_uuid scenarioEnv n = sampleUuid n"
  by (simp_all add: scenarioEnv_def sampleEnv_def)

lemma who_facts: "id_sub sampleWho = ''u1''" "id_tenantId sampleWho = ''t1''" "id_sessionId sampleWho = ''s1''" "trim ''u1'' = ''u1''" "trim ''s1'' = ''s1''"
  "trim ''t1'' = ''t1''" "mutationIdentity sampleWho = sampleWho"
  by code_simp+

lemma session_facts: "se_id sampleSession = ''s1''" "se_revokedAt sampleSession = None" "se_expiresAt sampleSession = 1767235590000"
  "se_createdAt sampleSession = 1767225590000"
  by code_simp+

lemma user_facts: "us_deletedAt (sampleUser i n) = None" "us_suspendedAt (sampleUser i n) = None" "us_lockedUntil (sampleUser i n) = None"
  "us_pinLockedUntil (sampleUser i n) = None" "us_pinResetRequired (sampleUser i n) = False" "us_id (sampleUser i n) = i"
  "us_tenantId (sampleUser i n) = ''t1''" "us_mfaEnabled (sampleUser i n) = False" "us_publicId (sampleUser i n) = storedUuid n"
  by (simp_all add: sampleUser_def)

lemma tenant_facts: "tn_id sampleTenant = ''t1''" "tn_deletedAt sampleTenant = None" "tn_status sampleTenant = TENANT_ACTIVE"
  by code_simp+

lemma session_found: "sampleAccess d \<Longrightarrow> find (\<lambda>s. se_id s = ''s1'' \<and> se_userId s = ''u1'') (sessions d) = Some sampleSession"
  by (simp add: sampleAccess_def sampleSession_def)

lemma tenant_found: "sampleAccess d \<Longrightarrow> find (\<lambda>t. tn_id t = ''t1'') (tenants d) = Some sampleTenant"
  by (simp add: sampleAccess_def tenant_facts)

lemma user_found:
  "sampleAccess d \<Longrightarrow> find (\<lambda>u. us_id u = ''u1'' \<and> us_tenantId u = ''t1'' \<and> us_deletedAt u = None \<and> us_suspendedAt u = None) (users d)
     = Some (sampleUser ''u1'' 11)"
  by (simp add: sampleAccess_def sampleDb_def emptyDatabase_def user_facts)

lemma security_sample: "sampleAccess d \<Longrightarrow> securityOf ''t1'' d = JObj []"
  by (simp add: sampleAccess_def securityOf_def)

lemmas sample_facts = who_facts env_facts access_facts session_facts user_facts tenant_facts session_found tenant_found user_found
  rolesOf_sample userRows_sample security_sample

lemma returns_authorizeMutation:
  assumes "sampleAccess d" and "permission \<in> set adminPermissions"
  shows "returns d (authorizeMutation scenarioEnv sampleWho permission noOptions) (\<lambda>ma d'. d' = d \<and> ma = ca_authority sampleAuthority)"
  unfolding authorizeMutation_def lockActorSession_def isAfter_def
  by (rule returnsI) (simp add: Let_def runs_simps noOptions_def sample_facts assms sampleAuthority_def scenarioNow_def)

lemma privileged: "list_ex (\<lambda>k. k \<in> set PRIVILEGED_MFA_PERMISSION_KEYS) adminPermissions"
  by code_simp

lemma returns_authority:
  assumes "sampleAccess d" and "permission \<in> set adminPermissions"
  shows "returns d (authorizeCurrentMutation scenarioEnv sampleWho permission noOptions) (\<lambda>ca d'. d' = d \<and> ca = sampleAuthority)"
  unfolding authorizeCurrentMutation_def
  apply (rule returns_bind, rule returns_mono [OF returns_authorizeMutation [OF assms]], elim conjE)
  apply (rule returnsI)
  using privileged
  apply (simp add: Let_def runs_simps noOptions_def sample_facts assms(1) sampleAuthority_def scenarioNow_def sessionMinutes_def member_def)
  done

definition sampleCur :: "unit tx" where
  "sampleCur = assertCurrent scenarioEnv sampleScope sampleAuthority"

lemma runs_cur: "runs w sampleCur Q = Q () (w \<lparr> w_ticks := w_ticks w + 4 \<rparr>)"
  unfolding sampleCur_def assertCurrent_def assertCurrentMutation_def isCurrentMfaObservation_def
  by (simp add: runs_simps sampleScope_def sampleAuthority_def sampleObservation_def env_facts scenarioNow_def
      isSafeInteger_def MAX_SAFE_INTEGER_def eval_nat_numeral)

lemma passes_current: "passes d sampleCur"
  unfolding passes_def by (rule returnsI) (simp add: runs_cur)

lemma returns_prepare:
  assumes "sampleAccess d" and "permission \<in> set adminPermissions"
  shows "returns d (prepareCurrentMutation scenarioEnv sampleWho permission) (\<lambda>scope d'. d' = d \<and> scope = sampleScope)"
  unfolding prepareCurrentMutation_def
  apply (rule returns_bind, rule returns_retry, rule returns_withTenant)
    apply (simp add: who_facts)
   apply (simp add: env_facts)
  apply (rule returns_mono [OF returns_authority [OF assms]], elim conjE)
  apply (rule returnsI)
  apply (simp add: Let_def runs_simps sampleAuthority_def env_facts)
  apply (rule runs_catch)
  apply (simp add: Let_def runs_simps observeMfaVerification_def isCurrentMfaObservation_def assertCurrentMutation_def env_facts scenarioNow_def
      isSafeInteger_def MAX_SAFE_INTEGER_def sampleScope_def sampleObservation_def MAX_MFA_MARKER_TTL_MS_def Let_def)
  done

lemma returns_scopeBody:
  assumes "sampleAccess d" and "permission \<in> set adminPermissions" and "returns d (operation sampleCur) Q"
  shows "returns d (scopeBody scenarioEnv sampleWho permission sampleScope operation) Q"
  unfolding scopeBody_def sampleCur_def [symmetric]
  apply (rule returns_bind, rule returns_mono [OF returns_authority [OF assms(1,2)]], elim conjE, hypsubst)
  apply (fold sampleCur_def)
  apply (rule returns_then, rule returns_passes [OF passes_current])
  apply (rule returns_bind, rule returns_mono [OF assms(3)])
  apply (rule returns_then, rule returns_passes [OF passes_current], erule returns_return)
  done

lemma returns_command:
  assumes "sampleAccess d" and "permission \<in> set adminPermissions" and "returns d (operation sampleCur) Q"
  shows "returns d (runScope scenarioEnv sampleWho permission sampleScope operation) Q"
  unfolding runScope_def
  by (intro returns_retry returns_withTenant returns_scopeBody [OF assms(1,2)] assms(3)) (simp_all add: who_facts env_facts)

section \<open>Runs\<close>

lemma isDigest_sampleSha [simp]: "isDigest (sampleSha s)"
  using isDigit_fixedDigits [of 64] by (auto simp: isDigest_def sampleSha_def list_all_iff isLowerHex_def isDigit_def)

lemma uuid_facts: "trim (storedUuid 902) = storedUuid 902" "isUuid (storedUuid 902)" "trim (storedUuid 903) = storedUuid 903" "isUuid (storedUuid 903)"
  by code_simp+

lemma key_facts: "normalizeIdempotencyKey (Some ''k1'') = ok ''k1''"
  by code_simp

lemma iso_facts: "isoDay 1717372800000 = ''2024-06-03''" "isoDay 1717977600000 = ''2024-06-10''"
  by code_simp+

lemma access_sampleDb: "sampleAccess sampleDb"
  by (simp add: sampleAccess_def sampleDb_def emptyDatabase_def)

lemma db_facts: "payrollPeriods sampleDb = [samplePeriod]" "payrollOperations sampleDb = []" "policyVersions sampleDb = [samplePolicy]"
  "timeCards sampleDb = [sampleCard ''c1'']" "cardApprovals sampleDb = []" "amendments sampleDb = []" "lockedEntries sampleDb = []" "auditLogs sampleDb = []"
  by (simp_all add: sampleDb_def emptyDatabase_def)

lemma period_facts: "pp_id samplePeriod = ''p1''" "pp_tenantId samplePeriod = ''t1''" "pp_publicId samplePeriod = storedUuid 902"
 "pp_status samplePeriod = PERIOD_OPEN" "pp_revision samplePeriod = 0" "pp_endsAt samplePeriod = 1717977600000"  "pp_startsAt samplePeriod = 1717372800000"
 "pp_policyVersionId samplePeriod = ''pv1''" "pp_localStartDate samplePeriod = 1717372800000" "pp_localEndDateExclusive samplePeriod = 1717977600000"
 by (simp_all add: samplePeriod_def)

lemma returns_resolvePeriod:
  assumes "payrollPeriods d = [p]" "pp_publicId p = storedUuid 902" "pp_tenantId p = ''t1''"
  shows "returns d (resolvePeriodId scenarioEnv sampleWho (storedUuid 902)) (\<lambda>i d'. d' = d \<and> i = pp_id p)"
  unfolding resolvePeriodId_def resolveId_def
  apply (rule returns_bind, rule returns_lift)
   apply (simp add: requiredPublicId_def uuid_facts Let_def)
  apply (rule returns_withTenant)
    apply (simp_all add: who_facts env_facts)
  apply (rule returnsI)
  apply (simp add: runs_simps assms)
  done

lemma zone_facts: "normalizeTimeZone scenarioEnv ''UTC'' = ok ''UTC''" "trim ''UTC'' \<noteq> []" "trim ''u2'' \<noteq> []"
  by code_simp+


lemmas run_facts = db_facts period_facts who_facts env_facts zone_facts iso_facts

lemmas run_defs = findOperation_def requirePeriodById_def findMany_def MAX_PAYROLL_LOCK_ENTRIES_def loadPayrollPeriodSummary_def
  publicPolicies_def publicRefs_def serializePeriod_def jsSet_def noCheck_def summaryOf_def summaryRows_def countRows_def countValue_def
  serializeDateOnly_def requiredDate_def recordOperation_def writePayrollAudit_def jsMap_def requireMapped_def storedUuid_def
  isSafeInteger_def MAX_SAFE_INTEGER_def Let_def operationTable_def auditTable_def periodTable_def updateWhere_def
  lockPayrollCandidateCards_def validatePayrollCandidateCards_def sampleCard_def samplePolicy_def scenarioNow_def

lemma permitted: "''payroll:lock'' \<in> set adminPermissions" "''payroll:policy_write'' \<in> set adminPermissions" "''time_cards:approve'' \<in> set adminPermissions"
  "''payroll:export'' \<in> set adminPermissions" "''payroll:reconcile'' \<in> set adminPermissions" "''payroll:read'' \<in> set adminPermissions" "''shifts:write'' \<in> set adminPermissions"
  by code_simp+

text \<open>The preamble of a command on the period of a database.\<close>

lemma returns_onPeriod:
  assumes "sampleAccess d" "permission \<in> set adminPermissions" "payrollPeriods d = [p]" "pp_publicId p = storedUuid 902" "pp_tenantId p = ''t1''"
    and "returns d (operation (pp_id p) ''k1'' sampleCur) Q"
  shows "returns d (bindT (prepareCurrentMutation scenarioEnv sampleWho permission) (\<lambda>scope.
      bindT (resolvePeriodId scenarioEnv sampleWho (storedUuid 902)) (\<lambda>periodId.
      bindT (liftT (normalizeIdempotencyKey (Some ''k1''))) (\<lambda>key.
      runScope scenarioEnv sampleWho permission scope (operation periodId key))))) Q"
  apply (rule returns_bind, rule returns_mono [OF returns_prepare [OF assms(1,2)]], elim conjE, hypsubst)
  apply (rule returns_bind, rule returns_mono [OF returns_resolvePeriod [OF assms(3-5)]], elim conjE, hypsubst)
  apply (rule returns_bind, rule returns_lift, rule key_facts)
  apply (rule returns_command [OF assms(1,2)], rule assms(6))
  done

lemma run_startReview:
  "returns sampleDb (startReview scenarioEnv sampleWho (storedUuid 902) 0 (Some ''k1''))
     (\<lambda>r d'. payrollPeriods d' = [reviewRow ''u1'' scenarioNow scenarioNow samplePeriod])"
  unfolding startReview_def who_facts Let_def
  apply (rule returns_onPeriod [OF access_sampleDb permitted(1) db_facts(1)])
    apply (simp_all add: period_facts)
  unfolding startReviewBody_def
  apply (rule returnsI)
  apply (simp add: runs_simps runs_cur run_facts run_defs reviewTarget_def reviewRow_def)
  done

text \<open>The same period in review, with the decision on its card.\<close>

definition reviewPeriod :: payrollPeriod where
  "reviewPeriod = reviewRow ''u1'' scenarioNow scenarioNow samplePeriod"

definition sampleApproval :: cardApproval where
  "sampleApproval = \<lparr> ap_id = ''a1'', ap_tenantId = ''t1'', ap_periodId = ''p1'', ap_timeCardId = ''c1'', ap_timeCardRevision = 1,
     ap_decision = APPROVED, ap_reason = None, ap_operationId = ''o1'', ap_requestHash = ''h1'', ap_decidedAt = scenarioNow, ap_decidedByUserId = ''u1'' \<rparr>"

definition approvedDb :: database where
  "approvedDb = sampleDb \<lparr> payrollPeriods := [reviewPeriod], cardApprovals := [sampleApproval] \<rparr>"

lemma approved_facts: "payrollPeriods approvedDb = [reviewPeriod]" "payrollOperations approvedDb = []" "policyVersions approvedDb = [samplePolicy]"
  "timeCards approvedDb = [sampleCard ''c1'']" "cardApprovals approvedDb = [sampleApproval]" "amendments approvedDb = []"
  "amendmentDecisions approvedDb = []" "timeCardBreaks approvedDb = []" "lockedEntries approvedDb = []" "auditLogs approvedDb = []"
  by (simp_all add: approvedDb_def sampleDb_def emptyDatabase_def)

lemma review_facts: "pp_id reviewPeriod = ''p1''" "pp_tenantId reviewPeriod = ''t1''" "pp_publicId reviewPeriod = storedUuid 902"
 "pp_status reviewPeriod = PERIOD_REVIEW" "pp_revision reviewPeriod = 1" "pp_endsAt reviewPeriod = 1717977600000" "pp_startsAt reviewPeriod = 1717372800000"
 "pp_policyVersionId reviewPeriod = ''pv1''" "pp_localStartDate reviewPeriod = 1717372800000" "pp_localEndDateExclusive reviewPeriod = 1717977600000"
 "pp_lockOperationId reviewPeriod = None"
 by (simp_all add: reviewPeriod_def reviewRow_def samplePeriod_def)

lemma access_approvedDb: "sampleAccess approvedDb"
  by (simp add: sampleAccess_def approvedDb_def sampleDb_def emptyDatabase_def)

lemma key_sample: "cardRevisionKey ''c1'' 1 = ''c1:1''"
  by code_simp

definition sampleSourceOf :: lockedEntrySource where
  "sampleSourceOf = \<lparr> ls_sourceType = TIME_CARD, ls_sourceId = ''c1'', ls_sourceRevision = 1, ls_employeeId = ''u2'', ls_locationId = None,
     ls_workTimeZone = ''UTC'', ls_clockInAt = Some 1717405200000, ls_clockOutAt = Some 1717434000000, ls_breakMinutes = 30,
     ls_payableMinutes = 450, ls_approvedAt = Some scenarioNow, ls_approvedByUserId = ''u1'', ls_breakIntervals = [] \<rparr>"

lemma materialize_sample:
  "\<exists>h a. materializeLockedSnapshots scenarioEnv ''t1'' ''p1'' [sampleSourceOf] = ok
     \<lparr> sn_entries = [\<lparr> le_source = sampleSourceOf, le_sequence = 0, le_canonicalSha256 = h \<rparr>], sn_aggregateSha256 = a, sn_totalPayableMinutes = 450 \<rparr>"
  by (simp add: materializeLockedSnapshots_def snapshotEntry_def normalizedSource_def requiredDate_def sampleSourceOf_def isSafeInteger_def
      MAX_SAFE_INTEGER_def payrollLockAggregateSha256_def canonicalSha256_def scenarioEnv_def sampleEnv_def)

lemma lockSnapshot_sample:
  "\<exists>h a. \<forall>w. w_db w = approvedDb \<longrightarrow> lockSnapshot scenarioEnv ''t1'' reviewPeriod w = (ok
     \<lparr> sn_entries = [\<lparr> le_source = sampleSourceOf, le_sequence = 0, le_canonicalSha256 = h \<rparr>], sn_aggregateSha256 = a, sn_totalPayableMinutes = 450 \<rparr>, w)"
proof -
  obtain h a where m: "materializeLockedSnapshots scenarioEnv ''t1'' ''p1'' [sampleSourceOf] = ok
     \<lparr> sn_entries = [\<lparr> le_source = sampleSourceOf, le_sequence = 0, le_canonicalSha256 = h \<rparr>], sn_aggregateSha256 = a, sn_totalPayableMinutes = 450 \<rparr>"
    using materialize_sample by blast
  have worked: "payrollWorkedMinutes (Some 1717405200000) (Some 1717434000000) 30 = ok 450" by code_simp
  have source: "approvedCardSource [''c1:1'' \<mapsto> sampleApproval] (\<lambda>_. []) (sampleCard ''c1'') = ok sampleSourceOf"
    by (simp add: approvedCardSource_def sampleCard_def key_sample jsMap_def sampleApproval_def worked sampleSourceOf_def)
  have card: "tc_id (sampleCard ''c1'') = ''c1''" "tc_revision (sampleCard ''c1'') = 1" "tc_clockInAt (sampleCard ''c1'') = 1717405200000"
    "tc_tenantId (sampleCard ''c1'') = ''t1''" "tc_payrollPeriodId (sampleCard ''c1'') = Some ''p1''" "tc_status (sampleCard ''c1'') = CARD_CLOSED"
    "tc_deletedAt (sampleCard ''c1'') = None" "tc_clockOutAt (sampleCard ''c1'') = Some 1717434000000" "tc_userId (sampleCard ''c1'') = ''u2''"
    "tc_workTimeZone (sampleCard ''c1'') = ''UTC''"
    by (simp_all add: sampleCard_def)
  have approval: "ap_tenantId sampleApproval = ''t1''" "ap_periodId sampleApproval = ''p1''" "ap_timeCardId sampleApproval = ''c1''" "ap_timeCardRevision sampleApproval = 1"
    by (simp_all add: sampleApproval_def)
  have "lockSnapshot scenarioEnv ''t1'' reviewPeriod w = (ok
     \<lparr> sn_entries = [\<lparr> le_source = sampleSourceOf, le_sequence = 0, le_canonicalSha256 = h \<rparr>], sn_aggregateSha256 = a, sn_totalPayableMinutes = 450 \<rparr>, w)"
    if "w_db w = approvedDb" for w
    using that
    by (simp add: lockSnapshot_def tx_run lockPayrollCandidateCards_def findMany_def approved_facts review_facts card
        MAX_PAYROLL_LOCK_ENTRIES_def validatePayrollCandidateCards_def Let_def zone_facts lockAndValidateBreaks_def approvedCardSources_def approval
        key_sample source jsSet_def jsMap_def checkCardBreaks_def approvedAmendmentSources_def m
        split del: if_split)
  then show ?thesis by blast
qed

end
