(* ===== verification/PayrollHistory.thy ===== *)
theory PayrollHistory
  imports PayrollSystem Scenario
begin

text \<open>
  Histories: any sequence of commands by any callers, interleaved with changes that other services make to the tables the
  payroll and time-card services only read.  What the contract of a command gives for every history is
  proved by rule induction: what is locked stays, evidence is only added, and exports are paid for and agree with the
  locked evidence.
\<close>

lemma wellFormed_cards: "wellFormed E d \<Longrightarrow> distinct (map tc_id (timeCards d))"
  by (simp add: wellFormed_def payrollInv_def)

section \<open>Commands and histories\<close>

datatype command =
    CreatePolicy payrollPolicy "string option"
  | CreatePeriod string "string option"
  | StartReview string int "string option"
  | AdoptCards string "(string \<times> int) list" "string option"
  | DecideCards string "decisionRequest list" "string option"
  | LockPeriod string int "string option"
  | CreateAmendment string amendmentRequest "string option"
  | DecideAmendment string decision "string option" "string option"
  | CreateExport string int "string option"
  | DownloadExport string
  | ReconcileExport string reconciliationRequest
  | ClockIn clockInRequest "string option"
  | ClockOut string clockOutRequest
  | Correct string correctionRequest

text \<open>What a caller sees of a command: that it succeeded, or what it threw; and the world it leaves.\<close>

definition attempt :: "'a tx \<Rightarrow> world \<Rightarrow> failure option \<times> world" where
  "attempt m w = (case m w of (Inl e, w') \<Rightarrow> (Some e, w') | (Inr _, w') \<Rightarrow> (None, w'))"

fun dispatch :: "env \<Rightarrow> sessionIdentity \<Rightarrow> command \<Rightarrow> world \<Rightarrow> failure option \<times> world" where
  "dispatch E who (CreatePolicy body key) = attempt (createPolicy E who body key)"
| "dispatch E who (CreatePeriod localStartDate key) = attempt (createPeriod E who localStartDate key)"
| "dispatch E who (StartReview publicId revision key) = attempt (startReview E who publicId revision key)"
| "dispatch E who (AdoptCards publicId body key) = attempt (adoptCards E who publicId body key)"
| "dispatch E who (DecideCards publicId body key) = attempt (decideCards E who publicId body key)"
| "dispatch E who (LockPeriod publicId revision key) = attempt (lockPeriod E who publicId revision key)"
| "dispatch E who (CreateAmendment publicId body key) = attempt (createAmendment E who publicId body key)"
| "dispatch E who (DecideAmendment publicId verdict reason key) = attempt (decideAmendment E who publicId verdict reason key)"
| "dispatch E who (CreateExport publicId cost key) = attempt (createExport E who publicId cost key)"
| "dispatch E who (DownloadExport publicId) = attempt (downloadExport E who publicId)"
| "dispatch E who (ReconcileExport publicId body) = attempt (reconcileExport E who publicId body)"
| "dispatch E who (ClockIn body key) = attempt (clockIn E who body key)"
| "dispatch E who (ClockOut publicId body) = attempt (clockOut E who publicId body)"
| "dispatch E who (Correct publicId body) = attempt (correct E who publicId body)"

definition perform :: "env \<Rightarrow> sessionIdentity \<Rightarrow> command \<Rightarrow> world \<Rightarrow> world" where
  "perform E who c w = snd (dispatch E who c w)"

lemma snd_attempt: "snd (attempt m w) = snd (m w)"
  by (simp add: attempt_def split: prod.split sum.split)

lemma perform_lawful: "wellFormed E (w_db w) \<Longrightarrow> lawfulStep E (w_db w) (w_db (perform E who c w))"
  by (cases c) (simp_all add: perform_def snd_attempt create_policy.step create_period.step start_review.step adopt_cards.step decide_cards.step lock_period.step
      create_amendment.step decide_amendment.step create_export.step download_export.step reconcile_export.step
      clock_in.step clock_out.step correct_card.step)

text \<open>Other services leave the payroll and time-card tables alone and only append to the ledger and the audit log.\<close>

definition outside :: "database \<Rightarrow> database \<Rightarrow> bool" where
  "outside d d' \<longleftrightarrow> timeCards d' = timeCards d \<and> timeCardBreaks d' = timeCardBreaks d \<and> policyVersions d' = policyVersions d
     \<and> payrollPeriods d' = payrollPeriods d \<and> cardApprovals d' = cardApprovals d \<and> lockedEntries d' = lockedEntries d
     \<and> amendments d' = amendments d \<and> amendmentDecisions d' = amendmentDecisions d \<and> exportBatches d' = exportBatches d
     \<and> exportLines d' = exportLines d \<and> receipts d' = receipts d \<and> lineEvents d' = lineEvents d \<and> lineStates d' = lineStates d
     \<and> payrollOperations d' = payrollOperations d
     \<and> prefix (creditTransactions d) (creditTransactions d') \<and> prefix (auditLogs d) (auditLogs d')"

lemma outside_lawful:
  assumes "outside d d'" and "wellFormed E d"
  shows "lawfulStep E d d'"
proof (rule lawful_quiet [OF assms(2)])
  show "payrollInv E d'" by (subst payrollInv_cong [of _ d]) (use assms in \<open>simp_all add: outside_def wellFormed_def\<close>)
  show "advance d d'" by (rule advanceI) (use assms(1) in \<open>simp_all add: outside_def evidenceKept_def periodStep_same cardStep_same\<close>)
qed (use assms(1) in \<open>simp_all add: outside_def exportsUntouched_def\<close>)

inductive history :: "env \<Rightarrow> world \<Rightarrow> world \<Rightarrow> bool" for E where
  start: "history E w w"
| command: "history E w v \<Longrightarrow> history E w (perform E who c v)"
| elsewhere: "history E w v \<Longrightarrow> outside (w_db v) (w_db u) \<Longrightarrow> history E w u"

lemma lawfulStep_trans: "lawfulStep E d d' \<Longrightarrow> lawfulStep E d' d'' \<Longrightarrow> lawfulStep E d d''"
  using all_records.R_trans [of d d' d''] by (simp add: lawfulStep_def)

lemma history_lawful: "history E w v \<Longrightarrow> wellFormed E (w_db w) \<Longrightarrow> lawfulStep E (w_db w) (w_db v)"
proof (induction rule: history.induct)
  case (command w v who c)
  then have 1: "lawfulStep E (w_db w) (w_db v)" by simp
  then have "lawfulStep E (w_db v) (w_db (perform E who c v))" by (intro perform_lawful) (simp add: lawfulStep_def)
  with 1 show ?case by (rule lawfulStep_trans)
next
  case (elsewhere w v u)
  then have 1: "lawfulStep E (w_db w) (w_db v)" by simp
  then have "lawfulStep E (w_db v) (w_db u)" using elsewhere by (intro outside_lawful) (simp_all add: lawfulStep_def)
  with 1 show ?case by (rule lawfulStep_trans)
qed (simp add: lawfulStep_refl)

text \<open>A workspace that has not used payroll and time cards yet.\<close>

definition unused :: "database \<Rightarrow> bool" where
  "unused d \<longleftrightarrow> timeCards d = [] \<and> payrollPeriods d = [] \<and> lockedEntries d = [] \<and> exportBatches d = [] \<and> exportLines d = []"

lemma unused_wellFormed: "unused d \<Longrightarrow> wellFormed E d"
  by (simp add: unused_def wellFormed_def payrollInv_def exportInv_def cardInv_def periodsDisjoint_def)

definition exportedFrom :: "env \<Rightarrow> database \<Rightarrow> exportBatch \<Rightarrow> bool" where
  "exportedFrom E d b \<longleftrightarrow> (\<exists>p \<in> set (payrollPeriods d). pp_id p = eb_periodId b \<and> pp_tenantId p = eb_tenantId b
      \<and> pp_status p = PERIOD_LOCKED \<and> totalsMatch E p (entriesOf d (pp_id p))
      \<and> length (linesOf d (eb_id b)) = length (entriesOf d (pp_id p))
      \<and> sum_list (map el_payableMinutes (linesOf d (eb_id b))) = sum_list (map en_payableMinutes (entriesOf d (pp_id p))))"

lemma wellFormed_exported:
  assumes "wellFormed E d" and "b \<in> set (exportBatches d)"
  shows "exportedFrom E d b"
proof -
  have s: "exportSound d b" using assms by (simp add: wellFormed_def exportInv_def list_all_iff)
  then obtain p where p: "p \<in> set (payrollPeriods d)" "pp_id p = eb_periodId b" "pp_tenantId p = eb_tenantId b" "pp_status p = PERIOD_LOCKED"
      "pp_totalPayableMinutes p = Some (eb_totalPayableMinutes b)" "pp_lockedEntryCount p = Some (eb_rowCount b)"
    by (auto simp: exportSound_def ofLockedPeriod_def list_ex_iff)
  then have t: "totalsMatch E p (entriesOf d (pp_id p))"
    using assms(1) by (auto simp: wellFormed_def payrollInv_def list_all_iff sealed_def)
  then show ?thesis using p s unfolding exportedFrom_def by (intro bexI [of _ p]) (auto simp: totalsMatch_def exportSound_def)
qed

lemma locked_entries_same:
  assumes "wellFormed E d" and "wellFormed E d'" and "advance d d'" and "p \<in> set (payrollPeriods d)" and "pp_status p = PERIOD_LOCKED"
  shows "p \<in> set (payrollPeriods d')" "entriesOf d' (pp_id p) = entriesOf d (pp_id p)"
proof -
  show q: "p \<in> set (payrollPeriods d')"
    using assms(3-5) growsBy_mem [of periodStep "payrollPeriods d" "payrollPeriods d'" p] periodStep_locked by (auto simp: advance_def)
  have "totalsMatch E p (entriesOf d (pp_id p))" "totalsMatch E p (entriesOf d' (pp_id p))"
    using assms q by (auto simp: wellFormed_def payrollInv_def list_all_iff sealed_def)
  then have "length (entriesOf d' (pp_id p)) = length (entriesOf d (pp_id p))" by (simp add: totalsMatch_def)
  moreover have "prefix (entriesOf d (pp_id p)) (entriesOf d' (pp_id p))"
    using assms(3) by (auto simp: advance_def evidenceKept_def entriesOf_def prefix_def)
  ultimately show "entriesOf d' (pp_id p) = entriesOf d (pp_id p)" by (auto simp: prefix_def)
qed

lemma frozen_card_same:
  assumes "advance d d'" and "c \<in> set (timeCards d)" and "frozen d c"
  shows "c \<in> set (timeCards d')"
    "filter (\<lambda>b. tb_timeCardId b = tc_id c) (timeCardBreaks d') = filter (\<lambda>b. tb_timeCardId b = tc_id c) (timeCardBreaks d)"
proof -
  obtain c' where "c' \<in> set (timeCards d')" "cardStep d c c'"
    using growsBy_mem [of "cardStep d" "timeCards d" "timeCards d'", OF _ assms(2)] assms(1) by (auto simp: advance_def)
  then show "c \<in> set (timeCards d')" using assms(3) by (auto simp: cardStep_def)
  show "filter (\<lambda>b. tb_timeCardId b = tc_id c) (timeCardBreaks d') = filter (\<lambda>b. tb_timeCardId b = tc_id c) (timeCardBreaks d)"
    using assms by (simp add: advance_def)
qed

lemma sorted_wrt_pair: "sorted_wrt P xs \<Longrightarrow> a \<in> set xs \<Longrightarrow> b \<in> set xs \<Longrightarrow> a \<noteq> b \<Longrightarrow> P a b \<or> P b a"
  by (induction xs) auto

lemma one_open_card:
  assumes "cardInv d" and "a \<in> set (timeCards d)" and "b \<in> set (timeCards d)" and "openFor t u a" and "openFor t u b"
  shows "a = b"
proof (rule ccontr)
  assume "a \<noteq> b"
  then have "\<not> cardClash b a \<or> \<not> cardClash a b"
    using sorted_wrt_pair [OF _ assms(2,3)] assms(1) unfolding cardInv_def by blast
  then show False using assms(4,5) by (auto simp: cardClash_def openFor_def)
qed

end
