(* ===== verification/SampleStates.thy ===== *)
theory SampleStates
  imports PayrollHistory
begin

text \<open>
  Stored states in which a period is locked and its evidence exported, and that they are well formed.
\<close>

definition sampleEntry :: lockedEntryRow where
  "sampleEntry = \<lparr> en_id = ''e1'', en_publicId = storedUuid 904, en_tenantId = ''t1'', en_periodId = ''p1'', en_sequence = 0,
     en_sourceType = TIME_CARD, en_sourceId = ''c1'', en_sourceRevision = 1, en_employeeId = ''u2'', en_locationId = None,
     en_workTimeZone = ''UTC'', en_clockInAt = 1717405200000, en_clockOutAt = 1717434000000, en_breakMinutes = 30,
     en_payableMinutes = 450, en_approvedAt = scenarioNow, en_approvedByUserId = ''u1'', en_canonicalSha256 = sampleSha ''c1'' \<rparr>"

definition lockedPeriod :: payrollPeriod where
  "lockedPeriod = reviewPeriod \<lparr> pp_status := PERIOD_LOCKED, pp_revision := 2, pp_lockedAt := Some scenarioNow,
     pp_lockedByUserId := Some ''u1'', pp_lockedEntryCount := Some 1, pp_totalPayableMinutes := Some 450,
     pp_lockedEntrySha256 := (case payrollLockAggregateSha256 scenarioEnv ''t1'' ''p1'' [sampleSha ''c1''] 450 of Inl _ \<Rightarrow> None | Inr h \<Rightarrow> Some h) \<rparr>"

definition lockedDb :: database where
  "lockedDb = approvedDb \<lparr> payrollPeriods := [lockedPeriod], lockedEntries := [sampleEntry] \<rparr>"

definition sampleBatch :: exportBatch where
  "sampleBatch = \<lparr> eb_id = ''b1'', eb_publicId = storedUuid 905, eb_tenantId = ''t1'', eb_periodId = ''p1'', eb_operationId = ''o2'',
     eb_requestHash = ''h2'', eb_creditTransactionId = exportCreditId ''o2'', eb_formatVersion = 1, eb_status = RECONCILED,
     eb_contentSha256 = sampleSha ''csv'', eb_rowCount = 1, eb_totalPayableMinutes = 450, eb_consumedCredits = 2, eb_newBalance = 3,
     eb_createdAt = scenarioNow, eb_downloadedAt = Some scenarioNow, eb_reconciledAt = Some scenarioNow, eb_updatedAt = scenarioNow \<rparr>"

definition sampleLine :: exportLine where
  "sampleLine = \<lparr> el_id = ''l1'', el_publicId = storedUuid 906, el_tenantId = ''t1'', el_batchId = ''b1'', el_lineNumber = 1,
     el_lockedEntryId = ''e1'', el_sourceType = TIME_CARD, el_sourceId = ''c1'', el_employeeId = ''u2'', el_locationId = None,
     el_workTimeZone = ''UTC'', el_clockInAt = 1717405200000, el_clockOutAt = 1717434000000, el_breakMinutes = 30,
     el_payableMinutes = 450, el_canonicalSha256 = sampleSha ''c1'' \<rparr>"

definition sampleLedger :: creditTransaction where
  "sampleLedger = \<lparr> ct_id = exportCreditId ''o2'', ct_tenantId = ''t1'', ct_amount = - 2, ct_debtAmount = 0, ct_reason = exportReason ''p1'',
     ct_balanceAfter = Some 3, ct_debtAfter = Some 0 \<rparr>"

definition sampleReceipt :: receipt where
  "sampleReceipt = \<lparr> re_id = ''r1'', re_publicId = storedUuid 907, re_tenantId = ''t1'', re_batchId = ''b1'', re_provider = ''adp'',
     re_providerEventId = ''ev1'', re_payloadSha256 = sampleSha ''r1'', re_providerTotalMinutes = 450, re_acceptedCount = 1, re_rejectedCount = 0,
     re_pendingCount = 0, re_receivedByUserId = ''u1'', re_receivedAt = scenarioNow \<rparr>"

definition exportedDb :: database where
  "exportedDb = lockedDb \<lparr> exportBatches := [sampleBatch], exportLines := [sampleLine], creditTransactions := [sampleLedger],
     receipts := [sampleReceipt],
     lineStates := [\<lparr> st_tenantId = ''t1'', st_batchId = ''b1'', st_lineId = ''l1'', st_status = LINE_ACCEPTED, st_latestReceiptId = ''r1'', st_reason = None \<rparr>] \<rparr>"

definition worldOf :: "database \<Rightarrow> world" where
  "worldOf d = \<lparr> w_db = d, w_ticks = 0, w_fresh = 0, w_txs = 0, w_local = None \<rparr>"

lemma db_worldOf [simp]: "w_db (worldOf d) = d"
  by (simp add: worldOf_def)

lemma cards_sound:
  assumes "timeCards d = [sampleCard ''c1'']" "payrollPeriods d = [p]" "pp_id p = ''p1''" "pp_tenantId p = ''t1''"
    "pp_startsAt p = 1717372800000" "pp_endsAt p = 1717977600000"
  shows "cardInv d"
  by (simp add: cardInv_def cardSound_def cardWindow_def assms sampleCard_def breakFits_def floorMinutes_def)

lemma locked_facts: "pp_id lockedPeriod = ''p1''" "pp_tenantId lockedPeriod = ''t1''" "pp_status lockedPeriod = PERIOD_LOCKED"
  "pp_startsAt lockedPeriod = 1717372800000" "pp_endsAt lockedPeriod = 1717977600000" "pp_lockedEntryCount lockedPeriod = Some 1"
  "pp_totalPayableMinutes lockedPeriod = Some 450"
  by (simp_all add: lockedPeriod_def review_facts)

lemma aggregate_sample:
  "\<exists>h. payrollLockAggregateSha256 scenarioEnv ''t1'' ''p1'' [sampleSha ''c1''] 450 = ok h \<and> pp_lockedEntrySha256 lockedPeriod = Some h"
  by (simp add: payrollLockAggregateSha256_def lockedPeriod_def isSafeInteger_def MAX_SAFE_INTEGER_def)

lemma locked_tables: "payrollPeriods lockedDb = [lockedPeriod]" "lockedEntries lockedDb = [sampleEntry]" "timeCards lockedDb = [sampleCard ''c1'']"
  "exportBatches lockedDb = []" "exportLines lockedDb = []" "timeCardBreaks lockedDb = []"
  by (simp_all add: lockedDb_def approvedDb_def sampleDb_def emptyDatabase_def)

lemma sealed_sample: "totalsMatch scenarioEnv lockedPeriod [sampleEntry]"
  using aggregate_sample by (auto simp: totalsMatch_def locked_facts sampleEntry_def)

lemma entry_period: "en_periodId sampleEntry = ''p1''" "en_id sampleEntry = ''e1''" "en_payableMinutes sampleEntry = 450"
  by (simp_all add: sampleEntry_def)

lemma payrollInv_sample:
  assumes "payrollPeriods d = [lockedPeriod]" "lockedEntries d = [sampleEntry]" "timeCards d = [sampleCard ''c1'']"
  shows "payrollInv scenarioEnv d"
  by (simp add: payrollInv_def assms periodsDisjoint_def entriesOf_def entry_period locked_facts sealed_def sealed_sample)

lemma wellFormed_sampleDb: "wellFormed scenarioEnv sampleDb"
  using cards_sound [of sampleDb samplePeriod]
  by (simp add: wellFormed_def payrollInv_def exportInv_def db_facts period_facts periodsDisjoint_def sealed_def entriesOf_def
      sampleDb_def emptyDatabase_def)

lemma wellFormed_approvedDb: "wellFormed scenarioEnv approvedDb"
  using cards_sound [of approvedDb reviewPeriod]
  by (simp add: wellFormed_def payrollInv_def exportInv_def approved_facts review_facts periodsDisjoint_def sealed_def entriesOf_def)
    (simp add: approvedDb_def sampleDb_def emptyDatabase_def)

lemma wellFormed_lockedDb: "wellFormed scenarioEnv lockedDb"
  using cards_sound [of lockedDb lockedPeriod] payrollInv_sample [of lockedDb]
  by (simp add: wellFormed_def exportInv_def locked_tables locked_facts)

lemma exported_tables: "payrollPeriods exportedDb = [lockedPeriod]" "lockedEntries exportedDb = [sampleEntry]"
  "timeCards exportedDb = [sampleCard ''c1'']" "exportBatches exportedDb = [sampleBatch]" "exportLines exportedDb = [sampleLine]"
  "creditTransactions exportedDb = [sampleLedger]" "receipts exportedDb = [sampleReceipt]"
  by (simp_all add: exportedDb_def locked_tables)

lemma batch_facts: "eb_id sampleBatch = ''b1''" "eb_periodId sampleBatch = ''p1''" "eb_tenantId sampleBatch = ''t1''"
  "eb_status sampleBatch = RECONCILED" "eb_rowCount sampleBatch = 1" "eb_totalPayableMinutes sampleBatch = 450"
  by (simp_all add: sampleBatch_def)

lemma exportSound_sample: "exportSound exportedDb sampleBatch"
proof -
  have lines: "linesOf exportedDb ''b1'' = [sampleLine]" by (simp add: linesOf_def exported_tables sampleLine_def)
  have entry: "fromEntry exportedDb sampleBatch sampleLine"
    by (simp add: fromEntry_def exported_tables entry_period batch_facts sampleLine_def)
  have period: "ofLockedPeriod exportedDb sampleBatch" by (simp add: ofLockedPeriod_def exported_tables locked_facts batch_facts)
  have paid: "creditProven sampleBatch (find (\<lambda>c. ct_id c = eb_creditTransactionId sampleBatch) (creditTransactions exportedDb))"
    by (simp add: creditProven_def exported_tables sampleLedger_def sampleBatch_def)
  have "reconciliationDone exportedDb sampleBatch"
    by (simp add: reconciliationDone_def countStates_def exported_tables batch_facts sampleReceipt_def) (simp add: exportedDb_def)
  then show ?thesis by (simp add: exportSound_def batch_facts lines entry period paid) (simp add: sampleLine_def)
qed

lemma wellFormed_exportedDb: "wellFormed scenarioEnv exportedDb"
  using cards_sound [of exportedDb lockedPeriod] payrollInv_sample [of exportedDb] exportSound_sample
  by (simp add: wellFormed_def exportInv_def exported_tables locked_facts batch_facts) (simp add: sampleLine_def)

end
