(* ===== verification/ScenarioRuns.thy ===== *)
theory ScenarioRuns
  imports Scenario
begin

text \<open>
  Runs of the sample workspace to their end: the period with its approved card locks.
\<close>

definition snapshotOf :: "string \<Rightarrow> string \<Rightarrow> snapshot" where
  "snapshotOf h a = \<lparr> sn_entries = [\<lparr> le_source = sampleSourceOf, le_sequence = 0, le_canonicalSha256 = h \<rparr>], sn_aggregateSha256 = a,
     sn_totalPayableMinutes = 450 \<rparr>"

lemma snapshot_facts: "sn_entries (snapshotOf h a) = [\<lparr> le_source = sampleSourceOf, le_sequence = 0, le_canonicalSha256 = h \<rparr>]"
  "sn_totalPayableMinutes (snapshotOf h a) = 450" "sn_aggregateSha256 (snapshotOf h a) = a"
  by (simp_all add: snapshotOf_def)

lemma runs_lockSnapshot:
  "\<exists>h a. \<forall>w Q. w_db w = approvedDb \<longrightarrow> runs w (lockSnapshot scenarioEnv ''t1'' reviewPeriod) Q = Q (snapshotOf h a) w"
proof -
  obtain h a where "\<forall>w. w_db w = approvedDb \<longrightarrow> lockSnapshot scenarioEnv ''t1'' reviewPeriod w = (ok (snapshotOf h a), w)"
    using lockSnapshot_sample unfolding snapshotOf_def by blast
  then show ?thesis by (intro exI [of _ h] exI [of _ a]) (simp add: runs_def)
qed

lemma lockRow_facts:
  "pp_tenantId (lockRow identity request snap t u p) = pp_tenantId p" "pp_id (lockRow identity request snap t u p) = pp_id p"
  "pp_policyVersionId (lockRow identity request snap t u p) = pp_policyVersionId p"
  "pp_localStartDate (lockRow identity request snap t u p) = pp_localStartDate p"
  "pp_localEndDateExclusive (lockRow identity request snap t u p) = pp_localEndDateExclusive p" "pp_status (lockRow identity request snap t u p) = PERIOD_LOCKED"
  by (simp_all add: lockRow_def)

lemma countRows_small: "length xs \<le> 1 \<Longrightarrow> countRows xs = ok (int (length xs))"
  by (simp add: countRows_def countValue_def isSafeInteger_def MAX_SAFE_INTEGER_def)

lemma countRows_filter: "length xs \<le> 1 \<Longrightarrow> countRows (filter P xs) = ok (int (length (filter P xs)))"
  by (rule countRows_small) (use length_filter_le [of P xs] in linarith)

text \<open>A period with one card, one decision and one locked entry has a summary.\<close>

lemma summary_small:
  assumes "timeCards d = [c]" "cardApprovals d = [a]" "amendments d = []" "lockedEntries d = [e]"
  shows "\<exists>s. summaryOf tenantId periodId d = ok s"
proof -
  have rows: "length (summaryRows tenantId periodId d) \<le> 1" by (simp add: summaryRows_def assms Let_def)
  have none: "countRows [] = ok 0" and entries: "countRows (filter P [e]) = ok (int (length (filter P [e])))" for P :: "lockedEntryRow \<Rightarrow> bool"
    using countRows_small [of "[]"] countRows_filter [of "[e]" P] by simp_all
  show ?thesis
    unfolding summaryOf_def Let_def assms
    by (simp only: countRows_filter [OF rows] countRows_small [OF rows] entries bindR_simps filter.simps(1) list.map concat.simps none) simp
qed

lemma runs_summary:
  assumes "timeCards (w_db w) = [c]" "cardApprovals (w_db w) = [a]" "amendments (w_db w) = []" "lockedEntries (w_db w) = [e]"
    and "\<And>s. Q s w"
  shows "runs w (loadPayrollPeriodSummary noCheck tenantId periodId) Q"
  using summary_small [OF assms(1-4), of tenantId periodId] assms(5)
  by (auto simp: loadPayrollPeriodSummary_def runs_simps noCheck_def Let_def)

lemma ex_and: "\<exists>x. P x \<Longrightarrow> (\<And>x. Q x) \<Longrightarrow> \<exists>x. P x \<and> Q x"
  by blast

lemma serialize_sample:
  assumes "pp_policyVersionId p = ''pv1''" "refs ''pv1'' = Some (storedUuid 901)" "pp_localStartDate p = 1717372800000"
    "pp_localEndDateExclusive p = 1717977600000"
  shows "\<exists>r. serializePeriod p summary refs batch = ok r"
  by (simp add: serializePeriod_def requireMapped_def assms storedUuid_def serializeDateOnly_def requiredDate_def)

lemma run_lockPeriod:
  "returns approvedDb (lockPeriod scenarioEnv sampleWho (storedUuid 902) 1 (Some ''k1''))
     (\<lambda>r d'. map pp_status (payrollPeriods d') = [PERIOD_LOCKED] \<and> map en_payableMinutes (lockedEntries d') = [450])"
proof -
  obtain h a where "\<forall>w Q. w_db w = approvedDb \<longrightarrow> runs w (lockSnapshot scenarioEnv ''t1'' reviewPeriod) Q = Q (snapshotOf h a) w"
    using runs_lockSnapshot by blast
  then have snap: "\<And>w Q. w_db w = approvedDb \<Longrightarrow> runs w (lockSnapshot scenarioEnv ''t1'' reviewPeriod) Q = Q (snapshotOf h a) w" by blast
  show ?thesis
    unfolding lockPeriod_def who_facts Let_def
    apply (rule returns_onPeriod [OF access_approvedDb permitted(1) approved_facts(1)])
      apply (simp_all add: review_facts)
    unfolding lockPeriodBody_def
    apply (rule returnsI)
    apply (simp add: Let_def runs_simps requirePeriodById_def findMany_def approved_facts review_facts who_facts env_facts scenarioNow_def split del: if_split)
    apply (simp add: snap split del: if_split)
    apply (simp add: storeEntries_def runs_simps runs_cur lockedEntryOf_def snapshot_facts  split del: if_split)
    apply (simp add: createManyT_def runs_simps runs_cur entryTable_def sampleSourceOf_def requiredDate_def approved_facts split del: if_split)
    apply (simp add: lockPeriodRow_def lockTarget_def review_facts runs_simps runs_cur periodTable_def updateWhere_def approved_facts env_facts who_facts split del: if_split)
    apply (simp add: lockRow_facts review_facts)
    apply (rule runs_summary)
        apply (simp_all add: approved_facts)
    apply (simp add: publicPolicies_def publicRefs_def runs_simps noCheck_def Let_def jsSet_def approved_facts jsMap_def samplePolicy_def)
    apply (rule ex_and [OF serialize_sample]; (simp add: lockRow_facts review_facts; fail)?)+
    apply (simp add: writePayrollAudit_def runs_simps auditTable_def approved_facts updateWhere_def lockRow_facts lockTarget_def review_facts)
    done
qed

section \<open>Decisions\<close>

definition reviewDb :: database where
  "reviewDb = sampleDb \<lparr> payrollPeriods := [reviewPeriod] \<rparr>"

definition sampleDecision :: decisionRequest where
  "sampleDecision = \<lparr> dr_timeCardId = storedUuid 903, dr_expectedRevision = 1, dr_decision = APPROVED, dr_reason = None \<rparr>"

lemma reviewDb_facts: "payrollPeriods reviewDb = [reviewPeriod]" "payrollOperations reviewDb = []" "timeCards reviewDb = [sampleCard ''c1'']"
  "cardApprovals reviewDb = []" "auditLogs reviewDb = []" "lockedEntries reviewDb = []" "exportBatches reviewDb = []" "exportLines reviewDb = []"
  by (simp_all add: reviewDb_def sampleDb_def emptyDatabase_def)

lemma access_reviewDb: "sampleAccess reviewDb"
  by (simp add: sampleAccess_def reviewDb_def sampleDb_def emptyDatabase_def)

lemma card_fields: "tc_id (sampleCard i) = i" "tc_publicId (sampleCard i) = storedUuid 903" "tc_tenantId (sampleCard i) = ''t1''"
  "tc_payrollPeriodId (sampleCard i) = Some ''p1''" "tc_status (sampleCard i) = CARD_CLOSED" "tc_deletedAt (sampleCard i) = None"
  "tc_revision (sampleCard i) = 1" "tc_userId (sampleCard i) = ''u2''"
  by (simp_all add: sampleCard_def)

lemma returns_resolveCards:
  "returns reviewDb (resolveTimeCards scenarioEnv sampleWho [storedUuid 903]) (\<lambda>refs d'. d' = reviewDb \<and> refs = [storedUuid 903 \<mapsto> ''c1''])"
  unfolding resolveTimeCards_def
  apply (rule returns_bind, rule returns_lift)
   apply (simp add: requiredPublicId_def uuid_facts Let_def)
  unfolding Let_def
  apply (rule returns_withTenant)
    apply (simp_all add: who_facts env_facts)
  apply (rule returnsI)
  apply (simp add: runs_simps reviewDb_facts card_fields jsSet_def jsMap_def sameUuid_refl)
  done

lemma run_decideCards:
  "returns reviewDb (decideCards scenarioEnv sampleWho (storedUuid 902) [sampleDecision] (Some ''k1''))
     (\<lambda>r d'. \<exists>a. cardApprovals d' = [a])"
  unfolding decideCards_def who_facts Let_def
  apply (rule returns_bind, rule returns_mono [OF returns_prepare [OF access_reviewDb permitted(3)]], elim conjE, hypsubst)
  apply (rule returns_bind, rule returns_mono [OF returns_resolvePeriod [OF reviewDb_facts(1)]])
    apply (simp_all only: review_facts)
  apply (elim conjE, hypsubst)
  apply (rule returns_bind, simp only: list.map sampleDecision_def decisionRequest.simps, rule returns_mono [OF returns_resolveCards], elim conjE, hypsubst)
  apply (rule returns_bind, rule returns_lift, simp add: requireMapped_def optionalText_def)
  apply (rule returns_then, rule returns_check)
   apply (simp add: jsSet_def)
  apply (rule returns_bind, rule returns_lift, rule key_facts)
  unfolding mapConflict_def
  apply (rule returns_catch, rule returns_command [OF access_reviewDb permitted(3)])
  unfolding decideCardsBody_def
  apply (rule returnsI)
  apply (simp add: Let_def runs_simps findOperation_def requirePeriodById_def findMany_def reviewDb_facts review_facts who_facts card_fields
    decidable_def jsMap_def split del: if_split)
  apply (simp add: recordDecision_def Let_def runs_simps runs_cur approvalTable_def reviewDb_facts who_facts env_facts split del: if_split)
  apply (simp add: decisionJson_def requireMapped_def storedUuid_def recordOperation_def writePayrollAudit_def runs_simps operationTable_def auditTable_def
    reviewDb_facts)
  done

end
