(* ===== verification/CommandEffects.thy ===== *)
theory CommandEffects
  imports SampleStates ScenarioRuns
begin

text \<open>
  What single commands do, whoever calls them and whether they succeed or not: either the database is as it was, or exactly the
  described rows have been added or changed, under the conditions the command is meant to enforce.
\<close>

section \<open>Locking\<close>

lemma lockedRow_entries:
  assumes "wellFormed E d" and "periodLocked E identity request revision periodId d d'"
  shows "\<exists>p \<in> set (payrollPeriods d). \<exists>p' \<in> set (payrollPeriods d'). \<exists>snap. pp_id p = periodId \<and> pp_id p' = periodId
    \<and> pp_tenantId p' = id_tenantId identity \<and> pp_status p = PERIOD_REVIEW \<and> pp_status p' = PERIOD_LOCKED \<and> pp_revision p = revision
    \<and> pp_revision p' = revision + 1 \<and> evidence E (id_tenantId identity) p d snap
    \<and> list_all2 (entryOf (id_tenantId identity) periodId) (sn_entries snap) (entriesOf d' periodId)"
proof -
  let ?T = "lockTarget (id_tenantId identity) periodId revision"
  obtain p snap rows t u log where p: "p \<in> set (payrollPeriods d)" "?T p" and ev: "evidence E (id_tenantId identity) p d snap"
    and rows: "list_all2 (entryOf (id_tenantId identity) periodId) (sn_entries snap) rows"
    and d': "d' = auditLogs_update (\<lambda>ls. ls @ [log]) (payrollPeriods_update (updateWhere ?T (lockRow identity request snap t u))
      (lockedEntries_update (\<lambda>es. es @ rows) d))"
    using assms(2) unfolding periodLocked_def by blast
  have pid: "pp_id p = periodId" "pp_tenantId p = id_tenantId identity" "pp_status p = PERIOD_REVIEW" "pp_revision p = revision"
    using p(2) by (simp_all add: lockTarget_def)
  have "entriesOf d periodId = []" using assms(1) p(1) pid by (auto simp: wellFormed_def payrollInv_def list_all_iff sealed_def)
  moreover have "list_all (\<lambda>e. en_periodId e = periodId) rows" using rows by (induction rule: list_all2_induct) (auto simp: entryOf_def)
  ultimately have entries: "entriesOf d' periodId = rows" by (simp add: entriesOf_def d' list_all_iff)
  have "lockRow identity request snap t u p \<in> set (payrollPeriods d')" using p by (auto simp: d' updateWhere_def image_iff)
  then show ?thesis
    using p(1) pid ev rows entries by (intro bexI [of _ p] bexI [of _ "lockRow identity request snap t u p"] exI [of _ snap]) (simp_all add: lockRow_def)
qed

text \<open>
  Property C4.  A lock that succeeds leaves the period locked, with totals and digest of its evidence.  Unless the same lock was
  made before, the period was in review at the expected revision, every card assigned to it was closed and approved
  at its present revision, and the stored entries are the materialized snapshot of those cards and of the approved amendments.
\<close>

theorem lockPeriod_seals:
  assumes "wellFormed E (w_db w)" and "lockPeriod E who publicId revision key w = (ok r, w')"
  shows "\<exists>p' \<in> set (payrollPeriods (w_db w')). pp_tenantId p' = id_tenantId (mutationIdentity who) \<and> pp_status p' = PERIOD_LOCKED
    \<and> totalsMatch E p' (entriesOf (w_db w') (pp_id p'))
    \<and> (w_db w' = w_db w \<or> (\<exists>p \<in> set (payrollPeriods (w_db w)). \<exists>snap. pp_id p = pp_id p' \<and> pp_status p = PERIOD_REVIEW
         \<and> pp_revision p = revision \<and> pp_revision p' = revision + 1 \<and> evidence E (id_tenantId (mutationIdentity who)) p (w_db w) snap
         \<and> list_all2 (entryOf (id_tenantId (mutationIdentity who)) (pp_id p)) (sn_entries snap) (entriesOf (w_db w') (pp_id p))))"
proof -
  obtain request periodId where l: "lockOutcome E (mutationIdentity who) request revision periodId (w_db w) (w_db w')"
    using outcome_ok [OF outcome_lockPeriod assms(2)] by blast
  have wf: "wellFormed E (w_db w')" using lock_period.well_formed [OF assms(1), of who publicId revision key] assms(2) by simp
  have sealed: "totalsMatch E q (entriesOf (w_db w') (pp_id q))" if "q \<in> set (payrollPeriods (w_db w'))" "pp_status q = PERIOD_LOCKED" for q
    using wf that by (auto simp: wellFormed_def payrollInv_def list_all_iff sealed_def)
  from l show ?thesis unfolding lockOutcome_def
  proof (elim disjE conjE bexE)
    assume "periodLocked E (mutationIdentity who) request revision periodId (w_db w) (w_db w')"
    from lockedRow_entries [OF assms(1) this] obtain p p' snap where p: "p \<in> set (payrollPeriods (w_db w))" "p' \<in> set (payrollPeriods (w_db w'))"
        "pp_id p = periodId" "pp_id p' = periodId" "pp_tenantId p' = id_tenantId (mutationIdentity who)" "pp_status p = PERIOD_REVIEW"
        "pp_status p' = PERIOD_LOCKED" "pp_revision p = revision" "pp_revision p' = revision + 1"
        "evidence E (id_tenantId (mutationIdentity who)) p (w_db w) snap"
        "list_all2 (entryOf (id_tenantId (mutationIdentity who)) periodId) (sn_entries snap) (entriesOf (w_db w') periodId)"
      by blast
    show ?thesis using sealed [OF p(2,7)] p by (intro bexI [of _ p']) auto
  next
    fix p
    assume "w_db w' = w_db w" "p \<in> set (payrollPeriods (w_db w))" "pp_tenantId p = id_tenantId (mutationIdentity who)" "pp_status p = PERIOD_LOCKED"
    then show ?thesis using sealed by (intro bexI [of _ p]) simp_all
  qed
qed

theorem lockPeriod_seals_witness:
  "\<exists>r w'. lockPeriod scenarioEnv sampleWho (storedUuid 902) 1 (Some ''k1'') (worldOf approvedDb) = (ok r, w')
     \<and> (\<exists>p' \<in> set (payrollPeriods (w_db w')). pp_status p' = PERIOD_LOCKED \<and> totalsMatch scenarioEnv p' (entriesOf (w_db w') (pp_id p')))"
proof -
  obtain r w' where m: "lockPeriod scenarioEnv sampleWho (storedUuid 902) 1 (Some ''k1'') (worldOf approvedDb) = (ok r, w')"
    using returnsD [of "worldOf approvedDb", unfolded db_worldOf, OF run_lockPeriod] by blast
  show ?thesis using lockPeriod_seals [OF _ m] wellFormed_approvedDb m by auto
qed

section \<open>Decisions and amendments\<close>

abbreviation "decidedInReview identity d a \<equiv>
  (\<exists>p \<in> set (payrollPeriods d). pp_id p = ap_periodId a \<and> pp_status p = PERIOD_REVIEW \<and> decidedBy identity d (pp_id p) a)"

lemma cardsDecided_new:
  assumes "cardsDecided identity d periodId mid" and "a \<in> set (cardApprovals mid)"
  shows "a \<in> set (cardApprovals d) \<or> decidedInReview identity d a"
proof -
  obtain p new where p: "p \<in> set (payrollPeriods d)" "pp_id p = periodId" "pp_status p = PERIOD_REVIEW"
    and new: "list_all (decidedBy identity d periodId) new" "mid = cardApprovals_update (\<lambda>rows. rows @ new) d"
    using assms(1) unfolding cardsDecided_def by blast
  have "decidedInReview identity d a" if "a \<in> set new"
  proof (rule bexI [of _ p])
    have "decidedBy identity d periodId a" using new(1) that by (simp add: list_all_iff)
    moreover from this have "ap_periodId a = periodId" by (simp add: decidedBy_def)
    ultimately show "pp_id p = ap_periodId a \<and> pp_status p = PERIOD_REVIEW \<and> decidedBy identity d (pp_id p) a" using p by simp
  qed (rule p(1))
  then show ?thesis using assms(2) by (auto simp: new(2))
qed

lemma decision_added:
  assumes "wellFormed E (w_db w)" and "a \<in> set (cardApprovals (w_db (snd (decideCards E who publicId body key w))))"
  shows "a \<in> set (cardApprovals (w_db w)) \<or> decidedInReview (mutationIdentity who) (w_db w) a"
proof -
  let ?Q = "\<lambda>d d'. a \<in> set (cardApprovals d') \<longrightarrow> a \<in> set (cardApprovals d) \<or> decidedInReview (mutationIdentity who) d a"
  have "?Q (w_db w) (w_db (snd (decideCards E who publicId body key w)))"
  proof (rule outcome_always [where R = ?Q, OF outcome_decideCards [OF wellFormed_cards [OF assms(1)]]])
    fix x d'
    assume "\<exists>request. recordedOutcome (mutationIdentity who) request APPROVAL (cardsDecided (mutationIdentity who)) (w_db w) x d'"
    then show "?Q (w_db w) d'"
      unfolding recordedOutcome_def using cardsDecided_new by (elim exE disjE conjE) simp_all
  qed simp
  then show ?thesis using assms(2) by blast
qed

text \<open>
  Property C13.  Separation of duties: a decision on a time card that was not there before is the caller's, on a closed card of a period in
  review at the card's present revision, that nobody had decided, and the caller is not the employee of the card.
\<close>

theorem decideCards_separation:
  assumes "wellFormed E (w_db w)" and "a \<in> set (cardApprovals (w_db (snd (decideCards E who publicId body key w))))"
    and "a \<notin> set (cardApprovals (w_db w))"
  shows "ap_decidedByUserId a = id_sub (mutationIdentity who)
    \<and> (\<exists>p \<in> set (payrollPeriods (w_db w)). pp_id p = ap_periodId a \<and> pp_status p = PERIOD_REVIEW)
    \<and> (\<exists>c \<in> set (timeCards (w_db w)). tc_id c = ap_timeCardId a \<and> tc_revision c = ap_timeCardRevision a \<and> tc_payrollPeriodId c = Some (ap_periodId a)
         \<and> tc_status c = CARD_CLOSED \<and> tc_userId c \<noteq> ap_decidedByUserId a)
    \<and> \<not> (\<exists>b \<in> set (cardApprovals (w_db w)). ap_tenantId b = ap_tenantId a \<and> ap_timeCardId b = ap_timeCardId a
         \<and> ap_timeCardRevision b = ap_timeCardRevision a)"
  using decision_added [OF assms(1,2)] assms(3) by (auto simp: decidedBy_def)

lemma wellFormed_reviewDb: "wellFormed scenarioEnv reviewDb"
  using cards_sound [of reviewDb reviewPeriod]
  by (simp add: wellFormed_def payrollInv_def exportInv_def reviewDb_facts review_facts periodsDisjoint_def sealed_def entriesOf_def)

theorem decideCards_separation_witness:
  "\<exists>a \<in> set (cardApprovals (w_db (snd (decideCards scenarioEnv sampleWho (storedUuid 902) [sampleDecision] (Some ''k1'') (worldOf reviewDb))))).
     ap_decidedByUserId a = id_sub (mutationIdentity sampleWho)"
proof -
  obtain r w' a where "decideCards scenarioEnv sampleWho (storedUuid 902) [sampleDecision] (Some ''k1'') (worldOf reviewDb) = (ok r, w')"
    "cardApprovals (w_db w') = [a]"
    using returnsD [of "worldOf reviewDb", unfolded db_worldOf, OF run_decideCards] by blast
  then show ?thesis
    using decideCards_separation [of scenarioEnv "worldOf reviewDb" a sampleWho "storedUuid 902" "[sampleDecision]" "Some ''k1''"] wellFormed_reviewDb
    by (simp add: reviewDb_facts)
qed

text \<open>
  Property C18.  A request for an amendment changes nothing or adds one amendment and its audit row: of a locked entry for a time card of
  another employee, into an open period that starts when or after the period of the entry ended, carrying exactly the
  difference of payable minutes.
\<close>

theorem createAmendment_effect:
  "w_db (snd (createAmendment E who publicId body key w)) = w_db w
   \<or> (\<exists>a log e p q. w_db (snd (createAmendment E who publicId body key w))
          = auditLogs_update (\<lambda>ls. ls @ [log]) (amendments_update (\<lambda>rows. rows @ [a]) (w_db w))
      \<and> am_requestedByUserId a = id_sub (mutationIdentity who) \<and> e \<in> set (lockedEntries (w_db w)) \<and> en_id e = am_lockedEntryId a
      \<and> en_sourceType e = TIME_CARD \<and> en_employeeId e \<noteq> am_requestedByUserId a
      \<and> p \<in> set (payrollPeriods (w_db w)) \<and> pp_id p = am_adjustmentPeriodId a \<and> pp_status p = PERIOD_OPEN
      \<and> q \<in> set (payrollPeriods (w_db w)) \<and> pp_id q = en_periodId e \<and> pp_endsAt q \<le> pp_startsAt p
      \<and> am_minuteDelta a = am_replacementPayableMinutes a - en_payableMinutes e)"
proof -
  have "amendmentOutcome (mutationIdentity who) (w_db w) (w_db (snd (createAmendment E who publicId body key w)))"
    by (rule outcome_always [OF outcome_createAmendment]) (simp_all add: amendmentOutcome_def)
  then show ?thesis unfolding amendmentOutcome_def amendmentAdded_def by (elim disjE exE conjE) (simp, intro disjI2 exI conjI, auto)
qed

text \<open>
  Property C19.  A decision on an amendment changes nothing or adds one decision and its audit row: of an undecided amendment into a period
  in review, by somebody who neither requested it nor is the employee whose entry it amends.
\<close>

theorem decideAmendment_separation:
  "w_db (snd (decideAmendment E who publicId verdict reason key w)) = w_db w
   \<or> (\<exists>x log a e p. w_db (snd (decideAmendment E who publicId verdict reason key w))
          = auditLogs_update (\<lambda>ls. ls @ [log]) (amendmentDecisions_update (\<lambda>rows. rows @ [x]) (w_db w))
      \<and> ad_decidedByUserId x = id_sub (mutationIdentity who) \<and> ad_amendmentId x \<notin> ad_amendmentId ` set (amendmentDecisions (w_db w))
      \<and> a \<in> set (amendments (w_db w)) \<and> am_id a = ad_amendmentId x \<and> am_requestedByUserId a \<noteq> ad_decidedByUserId x
      \<and> e \<in> set (lockedEntries (w_db w)) \<and> en_id e = am_lockedEntryId a \<and> en_employeeId e \<noteq> ad_decidedByUserId x
      \<and> p \<in> set (payrollPeriods (w_db w)) \<and> pp_id p = am_adjustmentPeriodId a \<and> pp_status p = PERIOD_REVIEW)"
proof -
  have "decisionOutcome (mutationIdentity who) (w_db w) (w_db (snd (decideAmendment E who publicId verdict reason key w)))"
    by (rule outcome_always [OF outcome_decideAmendment]) (simp_all add: decisionOutcome_def)
  then show ?thesis unfolding decisionOutcome_def amendmentDecided_def by (elim disjE exE conjE) (simp, intro disjI2 exI conjI, auto)
qed

section \<open>Time cards\<close>


text \<open>
  Property C17.  Clocking out changes nothing or closes one open card: after it started, with breaks shorter than the shift, not after the end of
  the period it is assigned to and not in a locked period; by the employee or by somebody with access to the team.
\<close>

theorem clockOut_effect:
  "let d = w_db w; d' = w_db (snd (clockOut E who publicId body w)) in d' = d \<or> (\<exists>c t breakMinutes notes u log.
     d' = auditLogs_update (\<lambda>ls. ls @ [log]) (timeCards_update
       (updateWhere (clockOutTarget c (id_tenantId (mutationIdentity who))) (clockedOut t breakMinutes notes u)) d)
     \<and> c \<in> set (timeCards d) \<and> tc_status c = CARD_OPEN \<and> mayEdit d (mutationIdentity who) c
     \<and> length (filter (clockOutTarget c (id_tenantId (mutationIdentity who))) (timeCards d)) = 1
     \<and> tc_clockInAt c < t \<and> breakFits breakMinutes (tc_clockInAt c) t
     \<and> periodOpenUntil d (id_tenantId (mutationIdentity who)) (tc_payrollPeriodId c) (Some t))"
proof -
  have "clockOutOutcome (mutationIdentity who) (w_db w) (w_db (snd (clockOut E who publicId body w)))"
    by (rule outcome_always [OF outcome_clockOut]) (simp_all add: clockOutOutcome_def)
  then show ?thesis unfolding Let_def clockOutOutcome_def clockOutDone_def by (elim disjE exE conjE) (simp, intro disjI2 exI conjI, assumption+)
qed

lemma correction_rows:
  assumes "correctionDone identity d c cn assignment"
    and "timeCards d' = updateWhere (correctTarget c (id_tenantId identity) (cn_expectedUpdatedAt cn)) (corrected cn assignment u) (timeCards d)"
  shows "corrected cn assignment u c \<in> set (timeCards d')"
    "{o' \<in> set (timeCards d'). tc_id o' \<noteq> tc_id c} = {o' \<in> set (timeCards d). tc_id o' \<noteq> tc_id c}"
proof -
  let ?T = "correctTarget c (id_tenantId identity) (cn_expectedUpdatedAt cn)"
  have c: "c \<in> set (timeCards d)" "?T c" using assms(1) by (simp_all add: correctionDone_def)
  have set': "set (timeCards d') = (\<lambda>x. if ?T x then corrected cn assignment u x else x) ` set (timeCards d)" by (simp add: assms(2) updateWhere_def)
  show "corrected cn assignment u c \<in> set (timeCards d')" unfolding set' by (rule image_eqI [OF _ c(1)]) (simp add: c(2))
  show "{o' \<in> set (timeCards d'). tc_id o' \<noteq> tc_id c} = {o' \<in> set (timeCards d). tc_id o' \<noteq> tc_id c}"
    unfolding set' by (auto simp: corrected_def correctTarget_def image_iff split: if_splits)
qed



section \<open>Exports\<close>


end
