(* ===== verification/PeriodMachine.thy ===== *)
theory PeriodMachine
  imports PayrollHistory
begin

text \<open>
  The abstract specification of a payroll period: a machine with the stages of its life, labelled by the commands that move it.
  The stored rows implement it: what the tables say about a period is its stage, and every command moves every
  period by a step of the machine.  The evidence is fixed when the period is sealed and carried along unchanged.
\<close>

section \<open>The machine\<close>

datatype stage = Absent | Collecting | Reviewing | Sealed "lockedEntryRow list" | Exported exportStatus "lockedEntryRow list"

inductive stageStep :: "command \<Rightarrow> stage \<Rightarrow> stage \<Rightarrow> bool" where
  idle: "stageStep c s s"
| opened: "stageStep (CreatePeriod start key) Absent Collecting"
| review: "stageStep (StartReview i revision key) Collecting Reviewing"
| seal: "stageStep (LockPeriod i revision key) Reviewing (Sealed es)"
| export: "es \<noteq> [] \<Longrightarrow> stageStep (CreateExport i cost key) (Sealed es) (Exported GENERATED es)"
| download: "stageStep (DownloadExport i) (Exported GENERATED es) (Exported DOWNLOADED es)"
| reconcile: "s \<in> {DOWNLOADED, RECONCILING} \<Longrightarrow> s' \<in> {RECONCILING, RECONCILED} \<Longrightarrow>
     stageStep (ReconcileExport i body) (Exported s es) (Exported s' es)"

inductive_simps stageStep_simps:
  "stageStep c Absent s" "stageStep c Collecting s" "stageStep c Reviewing s" "stageStep c (Sealed es) s" "stageStep c (Exported x es) s"

inductive_cases stageStep_sealedE: "stageStep c (Sealed es) s"
inductive_cases stageStep_exportedE: "stageStep c (Exported x es) s"

section \<open>What the tables say\<close>

definition exportOf :: "database \<Rightarrow> string \<Rightarrow> exportBatch option" where
  "exportOf d i = find (\<lambda>b. eb_periodId b = i) (exportBatches d)"

fun stageFor :: "periodStatus \<Rightarrow> exportBatch option \<Rightarrow> lockedEntryRow list \<Rightarrow> stage" where
  "stageFor PERIOD_OPEN _ _ = Collecting"
| "stageFor PERIOD_REVIEW _ _ = Reviewing"
| "stageFor PERIOD_LOCKED None es = Sealed es"
| "stageFor PERIOD_LOCKED (Some b) es = Exported (eb_status b) es"

definition stageOf :: "database \<Rightarrow> string \<Rightarrow> stage" where
  "stageOf d i = (case find (\<lambda>p. pp_id p = i) (payrollPeriods d) of
     None \<Rightarrow> Absent | Some p \<Rightarrow> stageFor (pp_status p) (exportOf d i) (entriesOf d i))"

lemma stageOf_cong:
  "payrollPeriods d' = payrollPeriods d \<Longrightarrow> lockedEntries d' = lockedEntries d \<Longrightarrow> exportBatches d' = exportBatches d \<Longrightarrow> stageOf d' i = stageOf d i"
  unfolding stageOf_def exportOf_def entriesOf_def by (simp only:)

text \<open>An export belongs to a locked period.\<close>

lemma find_period:
  assumes "payrollInv E d" and "p \<in> set (payrollPeriods d)"
  shows "find (\<lambda>q. pp_id q = pp_id p) (payrollPeriods d) = Some p"
proof (cases "find (\<lambda>q. pp_id q = pp_id p) (payrollPeriods d)")
  case None
  then show ?thesis using find_NoneD [OF None] assms(2) by auto
next
  case (Some q)
  then show ?thesis using find_SomeD [OF Some] assms by (auto simp: payrollInv_def distinct_map dest: inj_onD)
qed

lemma export_locked:
  assumes "wellFormed E d" and "exportOf d i = Some b" and "find (\<lambda>p. pp_id p = i) (payrollPeriods d) = Some p"
  shows "pp_status p = PERIOD_LOCKED"
proof -
  have b: "b \<in> set (exportBatches d)" "eb_periodId b = i" using find_SomeD [OF assms(2) [unfolded exportOf_def]] by simp_all
  then obtain q where q: "q \<in> set (payrollPeriods d)" "pp_id q = i" "pp_status q = PERIOD_LOCKED"
    using assms(1) by (auto simp: wellFormed_def exportInv_def list_all_iff exportSound_def ofLockedPeriod_def list_ex_iff)
  then show ?thesis using find_period [of E d q] assms(1,3) by (simp add: wellFormed_def)
qed

lemma find_snoc: "\<not> P x \<Longrightarrow> find P (xs @ [x]) = find P xs"
  by (induction xs) auto

lemma find_all2: "list_all2 R xs ys \<Longrightarrow> (\<And>x y. R x y \<Longrightarrow> P y = P x) \<Longrightarrow> rel_option R (find P xs) (find P ys)"
  by (induction rule: list_all2_induct) auto

section \<open>Every command is a step of the machine\<close>

locale simulates =
  fixes E :: env and c :: command and m :: "'a tx"
  assumes simulates: "wellFormed E d \<Longrightarrow> outcome d m (\<lambda>_ d'. stageStep c (stageOf d i) (stageOf d' i))"
begin

lemma step: "wellFormed E (w_db w) \<Longrightarrow> stageStep c (stageOf (w_db w) i) (stageOf (w_db (snd (m w))) i)"
  by (rule outcome_always [where R = "\<lambda>d d'. stageStep c (stageOf d i) (stageOf d' i)", OF simulates]) (simp_all add: stageStep.idle)

end

lemma simulatesI: "(\<And>d i. wellFormed E d \<Longrightarrow> outcome d m (\<lambda>_ d'. stageStep c (stageOf d i) (stageOf d' i))) \<Longrightarrow> simulates E c m"
  by unfold_locales

lemma stageStep_same:
  "payrollPeriods d' = payrollPeriods d \<Longrightarrow> lockedEntries d' = lockedEntries d \<Longrightarrow> exportBatches d' = exportBatches d \<Longrightarrow>
     stageStep c (stageOf d i) (stageOf d' i)"
  using stageOf_cong [of d' d i] by (simp add: stageStep.idle)

lemma stageStep_recorded:
  assumes "recordedOutcome identity request kind change d r d'"
    and "\<And>periodId mid. change d periodId mid \<Longrightarrow> stageStep c (stageOf d i) (stageOf mid i)"
  shows "stageStep c (stageOf d i) (stageOf d' i)"
  using assms(1) unfolding recordedOutcome_def
proof (elim disjE exE conjE)
  fix periodId log mid
  assume c: "change d periodId mid"
    and d': "d' = auditLogs_update (\<lambda>rows. rows @ [log]) (payrollOperations_update (\<lambda>rows. rows @ [operationRow identity request periodId kind r]) mid)"
  have "stageOf d' i = stageOf mid i" by (rule stageOf_cong) (simp_all add: d')
  then show ?thesis using assms(2) [OF c] by simp
qed (simp add: stageStep.idle)

lemma periodAdded_stage:
  assumes "wellFormed E d" and "periodAdded tenantId d periodId d'"
  shows "stageStep (CreatePeriod start key) (stageOf d i) (stageOf d' i)"
proof -
  obtain p where p: "pp_id p = periodId" "pp_status p = PERIOD_OPEN" "\<not> list_ex (periodClash p) (payrollPeriods d)"
    and d': "d' = payrollPeriods_update (\<lambda>rows. rows @ [p]) d"
    using assms(2) by (auto simp: periodAdded_def)
  have tables: "payrollPeriods d' = payrollPeriods d @ [p]" "lockedEntries d' = lockedEntries d" "exportBatches d' = exportBatches d"
    by (simp_all add: d')
  have rest: "exportOf d' i = exportOf d i" "entriesOf d' i = entriesOf d i" by (simp_all add: exportOf_def entriesOf_def tables)
  show ?thesis
  proof (cases "find (\<lambda>p. pp_id p = i) (payrollPeriods d)")
    case (Some q)
    then have "stageOf d' i = stageOf d i" by (simp add: stageOf_def rest tables find_append [OF Some])
    then show ?thesis by (simp add: stageStep.idle)
  next
    case None
    then have "find (\<lambda>p. pp_id p = i) (payrollPeriods d') = (if periodId = i then Some p else None)"
      using p(1) find_NoneD [OF None] unfolding tables by (simp add: find_append_unique)
    then show ?thesis using None p(2) by (simp add: stageOf_def stageStep_simps)
  qed
qed

interpretation create_period_stage: simulates E "CreatePeriod localStartDate key" "createPeriod E who localStartDate key" for E localStartDate key who
  by (rule simulatesI, rule outcome_mono [OF outcome_createPeriod]) (auto intro: stageStep_recorded periodAdded_stage)

lemma reviewStarted_stage:
  assumes "reviewStarted tenantId revision d periodId d'"
  shows "stageStep (StartReview publicId revision key) (stageOf d i) (stageOf d' i)"
proof -
  obtain a s u where d': "d' = payrollPeriods_update (updateWhere (reviewTarget tenantId periodId revision) (reviewRow a s u)) d"
    using assms by (auto simp: reviewStarted_def)
  have rest: "exportOf d' i = exportOf d i" "entriesOf d' i = entriesOf d i" by (simp_all add: exportOf_def entriesOf_def d')
  have found: "find (\<lambda>p. pp_id p = i) (payrollPeriods d') = map_option (\<lambda>p. if reviewTarget tenantId periodId revision p then reviewRow a s u p else p)
      (find (\<lambda>p. pp_id p = i) (payrollPeriods d))"
    unfolding d' by (simp add: find_updateWhere reviewRow_def)
  show ?thesis
    by (cases "find (\<lambda>p. pp_id p = i) (payrollPeriods d)")
      (auto simp: stageOf_def rest found reviewTarget_def reviewRow_def stageStep_simps stageStep.idle)
qed

interpretation start_review_stage: simulates E "StartReview publicId revision key" "startReview E who publicId revision key" for E publicId revision key who
  by (rule simulatesI, rule outcome_mono [OF outcome_startReview]) (auto intro: stageStep_recorded reviewStarted_stage)

lemma periodLocked_stage:
  assumes "wellFormed E d" and "periodLocked E identity request revision periodId d d'"
  shows "stageStep (LockPeriod publicId revision key) (stageOf d i) (stageOf d' i)"
proof -
  let ?T = "lockTarget (id_tenantId identity) periodId revision"
  obtain p snap rows t u log where p: "p \<in> set (payrollPeriods d)" "?T p"
    and rows: "list_all2 (entryOf (id_tenantId identity) periodId) (sn_entries snap) rows"
    and d': "d' = auditLogs_update (\<lambda>ls. ls @ [log]) (payrollPeriods_update (updateWhere ?T (lockRow identity request snap t u))
      (lockedEntries_update (\<lambda>es. es @ rows) d))"
    using assms(2) unfolding periodLocked_def by blast
  have "list_all (\<lambda>e. en_periodId e = periodId) rows" using rows by (induction rule: list_all2_induct) (auto simp: entryOf_def)
  then have entries: "entriesOf d' i = entriesOf d i" if "i \<noteq> periodId" using that by (auto simp: entriesOf_def d' list_all_iff filter_empty_conv)
  have export: "exportOf d' i = exportOf d i" by (simp add: exportOf_def d')
  have found: "find (\<lambda>p. pp_id p = i) (payrollPeriods d') = map_option (\<lambda>p. if ?T p then lockRow identity request snap t u p else p)
      (find (\<lambda>p. pp_id p = i) (payrollPeriods d))"
    unfolding d' by (simp add: find_updateWhere lockRow_def)
  show ?thesis
  proof (cases "i = periodId")
    case True
    have f: "find (\<lambda>p. pp_id p = i) (payrollPeriods d) = Some p"
      using find_period [of E d p] assms(1) p True by (simp add: wellFormed_def lockTarget_def)
    moreover have "exportOf d i = None"
      using export_locked [OF assms(1) _ f] p(2) by (cases "exportOf d i") (auto simp: lockTarget_def)
    ultimately show ?thesis using p(2) by (simp add: stageOf_def found export stageStep_simps lockTarget_def lockRow_def)
  next
    case False
    have "stageOf d' i = stageOf d i"
      using find_SomeD [of "\<lambda>p. pp_id p = i" "payrollPeriods d"] False
      by (cases "find (\<lambda>p. pp_id p = i) (payrollPeriods d)") (auto simp: stageOf_def found export entries lockTarget_def)
    then show ?thesis by (simp add: stageStep.idle)
  qed
qed

interpretation lock_period_stage: simulates E "LockPeriod publicId revision key" "lockPeriod E who publicId revision key" for E publicId revision key who
  by (rule simulatesI, rule outcome_mono [OF outcome_lockPeriod]) (auto simp: lockOutcome_def stageStep.idle intro: periodLocked_stage)

lemma exportCreated_stage:
  assumes "wellFormed E d" and "exportCreated E tenantId request cost periodId d d'"
  shows "stageStep (CreateExport publicId cost key) (stageOf d i) (stageOf d' i)"
  using assms(2) unfolding exportCreated_def
proof (elim exE conjE)
  fix p entries drafts b d1 log
  assume p: "p \<in> set (payrollPeriods d)" "pp_id p = periodId" "pp_status p = PERIOD_LOCKED"
    and entries: "set entries \<subseteq> {e \<in> set (lockedEntries d). en_tenantId e = tenantId \<and> en_periodId e = periodId}"
      "checkLockedEvidence E tenantId p entries = ok (eb_totalPayableMinutes b)"
    and c: "charged d tenantId cost (exportCreditId (rq_operationId request)) (exportReason periodId) (eb_newBalance b) d1"
    and b: "eb_periodId b = periodId" "eb_status b = GENERATED" "\<not> list_ex (batchClash b) (exportBatches d1)"
    and d': "d' = auditLogs_update (\<lambda>ls. ls @ [log]) (exportLines_update (\<lambda>ls. ls @ map (exportLineRow tenantId (eb_id b)) drafts)
        (exportBatches_update (\<lambda>bs. bs @ [b]) d1))"
  have tables: "payrollPeriods d' = payrollPeriods d" "lockedEntries d' = lockedEntries d" "exportBatches d' = exportBatches d @ [b]"
    by (simp_all add: d' charged_same [OF c])
  have es: "entriesOf d' i = entriesOf d i" by (simp add: entriesOf_def tables)
  show ?thesis
  proof (cases "i = periodId")
    case True
    have f: "find (\<lambda>p. pp_id p = i) (payrollPeriods d) = Some p" using find_period [of E d p] assms(1) p True by (simp add: wellFormed_def)
    have none: "exportOf d i = None"
      unfolding exportOf_def find_None_iff using b(1,3) True by (auto simp: charged_same [OF c] list_ex_iff batchClash_def)
    then have "exportOf d' i = Some b"
      using b(1) True unfolding exportOf_def tables find_None_iff by (subst find_append_unique) auto
    moreover have "entriesOf d i \<noteq> []"
      using entries(1) evidence_checked(4) [OF entries(2)] True by (cases entries) (auto simp: entriesOf_def filter_empty_conv)
    ultimately show ?thesis using b(2) p(3) by (simp add: stageOf_def tables f none es stageStep_simps)
  next
    case False
    have "exportOf d' i = exportOf d i" using False b(1) by (simp add: exportOf_def tables find_snoc)
    then have "stageOf d' i = stageOf d i" by (simp add: stageOf_def tables es split: option.split)
    then show ?thesis by (simp add: stageStep.idle)
  qed
qed

interpretation create_export_stage: simulates E "CreateExport publicId cost key" "createExport E who publicId cost key" for E publicId cost key who
  by (rule simulatesI, rule outcome_mono [OF outcome_createExport]) (auto simp: exportOutcome_def stageStep.idle intro: exportCreated_stage)

text \<open>Moves of the exports: the period and the evidence stay.\<close>

lemma stageStep_exports:
  assumes "wellFormed E d" and "payrollPeriods d' = payrollPeriods d" and "lockedEntries d' = lockedEntries d"
    and "list_all2 R (exportBatches d) (exportBatches d')" and "\<And>b b'. R b b' \<Longrightarrow> eb_periodId b' = eb_periodId b"
    and "\<And>b b' es. b \<in> set (exportBatches d) \<Longrightarrow> R b b' \<Longrightarrow> stageStep c (Exported (eb_status b) es) (Exported (eb_status b') es)"
  shows "stageStep c (stageOf d i) (stageOf d' i)"
proof -
  have es: "entriesOf d' i = entriesOf d i" by (simp add: entriesOf_def assms(3))
  have rel: "rel_option R (exportOf d i) (exportOf d' i)" unfolding exportOf_def by (rule find_all2 [OF assms(4)]) (simp add: assms(5))
  show ?thesis
  proof (cases "find (\<lambda>p. pp_id p = i) (payrollPeriods d)")
    case (Some p)
    show ?thesis
    proof (cases "exportOf d i")
      case None
      with rel have "exportOf d' i = None" by simp
      with None show ?thesis by (simp add: stageOf_def assms(2) Some es stageStep.idle)
    next
      case b: (Some b)
      with rel obtain b' where b': "exportOf d' i = Some b'" "R b b'" by (auto simp: option_rel_Some1)
      have mem: "b \<in> set (exportBatches d)" using find_SomeD [OF b [unfolded exportOf_def]] by simp
      show ?thesis
        using assms(6) [OF mem b'(2)] export_locked [OF assms(1) b Some] by (simp add: stageOf_def assms(2) Some es b b'(1))
    qed
  qed (simp add: stageOf_def assms(2) stageStep.idle)
qed

lemma downloadOutcome_stage:
  assumes "wellFormed E d" and "downloadOutcome tenantId d d'"
  shows "stageStep (DownloadExport publicId) (stageOf d i) (stageOf d' i)"
  using assms(2) unfolding downloadOutcome_def
proof (elim disjE exE)
  fix batchId t u log
  let ?T = "downloadTarget tenantId batchId GENERATED"
  assume d': "d' = auditLogs_update (\<lambda>ls. ls @ [log]) (exportBatches_update (updateWhere ?T (downloadedRow t u)) d)"
  show ?thesis
  proof (rule stageStep_exports [OF assms(1), where R = "\<lambda>b b'. b' = (if ?T b then downloadedRow t u b else b)"])
    show "list_all2 (\<lambda>b b'. b' = (if ?T b then downloadedRow t u b else b)) (exportBatches d) (exportBatches d')"
      by (simp add: d' updateWhere_def list.rel_map list.rel_refl)
  qed (auto simp: d' downloadedRow_def downloadTarget_def stageStep_simps)
qed (simp add: stageStep.idle)

interpretation download_export_stage: simulates E "DownloadExport publicId" "downloadExport E who publicId" for E publicId who
  by (rule simulatesI, rule outcome_mono [OF outcome_downloadExport]) (auto intro: downloadOutcome_stage)

lemma receiptOutcome_stage:
  assumes "wellFormed E d" and "receiptOutcome tenantId d d'"
  shows "stageStep (ReconcileExport publicId body) (stageOf d i) (stageOf d' i)"
  using assms(2) unfolding receiptOutcome_def receiptStored_def
proof (elim disjE exE conjE)
  fix b :: exportBatch and r :: receipt and evs d1 d2 log
  let ?done = "countStates tenantId (eb_id b) LINE_ACCEPTED d1 = eb_rowCount b \<and> re_providerTotalMinutes r = eb_totalPayableMinutes b"
  assume b: "b \<in> set (exportBatches d)" "eb_status b \<in> {DOWNLOADED, RECONCILING}"
    and k: "statesKept (eb_id b) (lineEvents_update (\<lambda>rows. rows @ evs) (receipts_update (\<lambda>rows. rows @ [r]) d)) d1"
    and m: "batchesMoved tenantId (eb_id b) ?done d1 d2" and d': "d' = auditLogs_update (\<lambda>ls. ls @ [log]) d2"
  have same: "payrollPeriods d' = payrollPeriods d" "lockedEntries d' = lockedEntries d" "exportBatches d1 = exportBatches d" "exportBatches d' = exportBatches d2"
    using statesKept_same [OF k] batchesMoved_same [OF m] by (simp_all add: d')
  show ?thesis
  proof (rule stageStep_exports [OF assms(1) same(1,2), where R = "moveStep tenantId (eb_id b) ?done"])
    show "list_all2 (moveStep tenantId (eb_id b) ?done) (exportBatches d) (exportBatches d')"
      using m unfolding batchesMoved_def same(3,4) by auto
  next
    fix x x' :: exportBatch and es
    assume x: "x \<in> set (exportBatches d)" and "moveStep tenantId (eb_id b) ?done x x'"
    then have "x' = x \<or> eb_id x = eb_id b \<and> exportRank (eb_status x) < exportRank (eb_status x')" by (auto simp: moveStep_def batchStep_def)
    moreover have "x = b" if "eb_id x = eb_id b"
      using that x b(1) assms(1) by (auto simp: wellFormed_def exportInv_def distinct_map dest: inj_onD)
    ultimately show "stageStep (ReconcileExport publicId body) (Exported (eb_status x) es) (Exported (eb_status x') es)"
      using b(2) by (cases "eb_status x'") (auto simp: stageStep_simps)
  qed (auto simp: moveStep_def batchStep_def dest: batchIdentity_fields)
qed (simp add: stageStep.idle)

interpretation reconcile_export_stage: simulates E "ReconcileExport publicId body" "reconcileExport E who publicId body" for E publicId body who
  by (rule simulatesI, rule outcome_mono [OF outcome_reconcileExport]) (auto intro: receiptOutcome_stage)

text \<open>The other commands leave every period at its stage.\<close>

lemma stageStep_cards: "cardsAdopted tenantId d periodId mid \<Longrightarrow> stageStep c (stageOf d i) (stageOf mid i)"
  unfolding cardsAdopted_def by (elim exE conjE) (simp add: stageStep_same)

lemma stageStep_decisions: "cardsDecided identity d periodId mid \<Longrightarrow> stageStep c (stageOf d i) (stageOf mid i)"
  unfolding cardsDecided_def by (elim exE conjE) (simp add: stageStep_same)

interpretation adopt_cards_stage: simulates E c "adoptCards E who publicId body key" for E c publicId body key who
  by (rule simulatesI, rule outcome_mono [OF outcome_adoptCards [OF wellFormed_cards]], assumption)
    (auto intro: stageStep_recorded stageStep_cards)

interpretation decide_cards_stage: simulates E c "decideCards E who publicId body key" for E c publicId body key who
  by (rule simulatesI, rule outcome_mono [OF outcome_decideCards [OF wellFormed_cards]], assumption)
    (auto intro: stageStep_recorded stageStep_decisions)

interpretation create_policy_stage: simulates E c "createPolicy E who body key" for E c body key who
  by (rule simulatesI, rule outcome_mono [OF outcome_createPolicy]) (auto simp: policyOutcome_def stageStep.idle intro!: stageStep_same)

interpretation create_amendment_stage: simulates E c "createAmendment E who publicId body key" for E c publicId body key who
  by (rule simulatesI, rule outcome_mono [OF outcome_createAmendment]) (auto simp: amendmentOutcome_def stageStep.idle intro!: stageStep_same)

interpretation decide_amendment_stage: simulates E c "decideAmendment E who publicId verdict reason key" for E c publicId verdict reason key who
  by (rule simulatesI, rule outcome_mono [OF outcome_decideAmendment]) (auto simp: decisionOutcome_def stageStep.idle intro!: stageStep_same)

interpretation clock_in_stage: simulates E c "clockIn E who body key" for E c body key who
  by (rule simulatesI, rule outcome_mono [OF outcome_clockIn], rule stageStep_same)
    (auto elim: clockIn_cards dest: clockInOutcome_exports simp: exportsUntouched_def)

interpretation clock_out_stage: simulates E c "clockOut E who publicId body" for E c publicId body who
  by (rule simulatesI, rule outcome_mono [OF outcome_clockOut]) (auto simp: clockOutOutcome_def stageStep.idle intro!: stageStep_same)

interpretation correct_card_stage: simulates E c "correct E who publicId body" for E c publicId body who
  by (rule simulatesI, rule outcome_mono [OF outcome_correct [OF wellFormed_cards]], assumption, erule correctOutcome_cases)
    (auto simp: stageStep.idle exportsUntouched_def intro!: stageStep_same)

lemma perform_stage: "wellFormed E (w_db w) \<Longrightarrow> stageStep c (stageOf (w_db w) i) (stageOf (w_db (perform E who c w)) i)"
  by (cases c) (simp_all add: perform_def snd_attempt create_policy_stage.step create_period_stage.step start_review_stage.step adopt_cards_stage.step
      decide_cards_stage.step lock_period_stage.step create_amendment_stage.step decide_amendment_stage.step create_export_stage.step
      download_export_stage.step reconcile_export_stage.step clock_in_stage.step clock_out_stage.step correct_card_stage.step)

text \<open>Histories run the machine.\<close>

definition stageSteps :: "stage \<Rightarrow> stage \<Rightarrow> bool" where
  "stageSteps = (\<lambda>s s'. \<exists>c. stageStep c s s')\<^sup>*\<^sup>*"

lemma history_stages: "history E w v \<Longrightarrow> wellFormed E (w_db w) \<Longrightarrow> stageSteps (stageOf (w_db w) i) (stageOf (w_db v) i)"
proof (induction rule: history.induct)
  case (command w v who c)
  have "wellFormed E (w_db v)" using history_lawful [OF command.hyps command.prems] by (simp add: lawfulStep_def)
  then have "\<exists>c'. stageStep c' (stageOf (w_db v) i) (stageOf (w_db (perform E who c v)) i)" by (intro exI [of _ c] perform_stage)
  then show ?case
    using command.IH [OF command.prems] unfolding stageSteps_def by (rule rtranclp.rtrancl_into_rtrancl [rotated])
next
  case (elsewhere w v u)
  have "stageOf (w_db u) i = stageOf (w_db v) i" by (rule stageOf_cong) (use elsewhere.hyps(2) in \<open>simp_all add: outside_def\<close>)
  then show ?case using elsewhere by simp
qed (simp add: stageSteps_def)

end
