(* ===== verification/Atomicity.thy ===== *)
theory Atomicity
  imports PayrollHistory
begin

text \<open>
  All or nothing: as long as no acknowledgement of a commit is lost, a command that throws has changed nothing.  A transaction
  rolls back, what runs outside of one only reads, and handlers either read or run another transaction.
\<close>

definition allOrNothing :: "'a tx \<Rightarrow> bool" where
  "allOrNothing m \<longleftrightarrow> (\<forall>w e w'. m w = (err e, w') \<longrightarrow> w_db w' = w_db w)"

definition acknowledged :: "env \<Rightarrow> bool" where
  "acknowledged E \<longleftrightarrow> (\<forall>n. e_fault E n \<noteq> Some AckLost)"

named_theorems atomic_rules \<open>syntax-directed rules for all or nothing\<close>

lemma atomic_reads: "readsOnly m \<Longrightarrow> allOrNothing m"
  unfolding allOrNothing_def readsOnly_def by (metis snd_conv)

lemma atomic_throw [atomic_rules]: "allOrNothing (throwT e)"
  by (simp add: allOrNothing_def throwT_def)

lemma atomic_return [atomic_rules]: "allOrNothing (returnT x)"
  by (simp add: allOrNothing_def returnT_def)

lemma atomic_bind [atomic_rules]:
  assumes "readsOnly m" and "\<And>x. allOrNothing (f x)"
  shows "allOrNothing (bindT m f)"
  unfolding allOrNothing_def bindT_def
proof (intro allI impI)
  fix w e w'
  assume "(case m w of (Inl e, w') \<Rightarrow> (err e, w') | (Inr x, w') \<Rightarrow> f x w') = (err e, w')"
  moreover have "w_db (snd (m w)) = w_db w" using assms(1) by (simp add: readsOnly_def)
  ultimately show "w_db w' = w_db w"
    using assms(2) unfolding allOrNothing_def by (auto split: prod.splits sum.splits)
qed

lemma atomic_then [atomic_rules]: "readsOnly m \<Longrightarrow> allOrNothing k \<Longrightarrow> allOrNothing (thenT m k)"
  unfolding thenT_def by (rule atomic_bind)

lemma atomic_let [atomic_rules]: "(\<And>y. allOrNothing (k y)) \<Longrightarrow> allOrNothing (let y = x in k y)"
  by simp

lemma atomic_if [atomic_rules]: "allOrNothing m \<Longrightarrow> allOrNothing k \<Longrightarrow> allOrNothing (if b then m else k)"
  by simp

lemma atomic_option [atomic_rules]: "allOrNothing m \<Longrightarrow> (\<And>x. allOrNothing (f x)) \<Longrightarrow> allOrNothing (case v of None \<Rightarrow> m | Some x \<Rightarrow> f x)"
  by (simp split: option.split)

lemma atomic_catch [atomic_rules]:
  assumes "allOrNothing m" and "\<And>e. allOrNothing (h e)"
  shows "allOrNothing (catchT m h)"
  unfolding allOrNothing_def catchT_def
proof (intro allI impI)
  fix w e w'
  assume "(case m w of (Inl e, w') \<Rightarrow> h e w' | (Inr x, w') \<Rightarrow> (ok x, w')) = (err e, w')"
  then show "w_db w' = w_db w"
    using assms unfolding allOrNothing_def by (auto split: prod.splits sum.splits)
qed

lemma atomic_withTenant [atomic_rules]: "acknowledged E \<Longrightarrow> allOrNothing (withTenant E tenantId body)"
  unfolding allOrNothing_def acknowledged_def withTenant_def
  by (auto simp: Let_def split: if_splits option.splits prod.splits sum.splits fault.splits)

lemma atomic_retry [atomic_rules]: "allOrNothing m \<Longrightarrow> allOrNothing (retryPayrollSerializableMutation m)"
  unfolding retryPayrollSerializableMutation_def by (intro atomic_rules)

lemma atomic_runScope [atomic_rules]: "acknowledged E \<Longrightarrow> allOrNothing (runScope E identity permission scope operation)"
  unfolding runScope_def by (intro atomic_rules)

lemma atomic_runTimeScope [atomic_rules]: "acknowledged E \<Longrightarrow> allOrNothing (runTimeScope E identity permission scope target operation)"
  unfolding runTimeScope_def by (intro atomic_rules)

lemma atomic_mapConflict [atomic_rules]: "allOrNothing m \<Longrightarrow> allOrNothing (mapConflict code m)"
  unfolding mapConflict_def by (intro atomic_rules)

lemma atomic_replayOr [atomic_rules]: "readsOnly m \<Longrightarrow> allOrNothing (replayOr m e)"
  unfolding replayOr_def requireT_def by (intro atomic_rules)

lemma atomic_payroll:
  assumes "acknowledged E"
  shows "allOrNothing (createPolicy E who body1 key)" "allOrNothing (createPeriod E who publicId key)"
    "allOrNothing (startReview E who publicId revision key)" "allOrNothing (adoptCards E who publicId body2 key)"
    "allOrNothing (decideCards E who publicId body3 key)" "allOrNothing (lockPeriod E who publicId revision key)"
    "allOrNothing (createAmendment E who publicId body4 key)" "allOrNothing (decideAmendment E who publicId verdict reason key)"
    "allOrNothing (createExport E who publicId revision key)" "allOrNothing (downloadExport E who publicId)"
    "allOrNothing (reconcileExport E who publicId body5)"
  unfolding createPolicy_def createPeriod_def startReview_def adoptCards_def decideCards_def lockPeriod_def createAmendment_def
    decideAmendment_def createExport_def downloadExport_def reconcileExport_def
  by (intro atomic_rules assms; simp add: readsOnly_prepare readsOnly_withTenant readsOnly_findExportReplay readsOnly_findReceiptReplay)+

lemma atomic_time:
  assumes "acknowledged E"
  shows "allOrNothing (clockIn E who body1 key)" "allOrNothing (clockOut E who publicId body2)" "allOrNothing (correct E who publicId body3)"
  unfolding clockIn_def clockOut_def correct_def
  by (intro atomic_rules assms; simp add: readsOnly_prepare readsOnly_setLocal readsOnly_runTimeScope readsOnly_recoverClockIn)+

lemma attempt_atomic: "allOrNothing m \<Longrightarrow> attempt m w = (Some e, w') \<Longrightarrow> w_db w' = w_db w"
  by (auto simp: attempt_def allOrNothing_def split: prod.splits sum.splits)

lemma dispatch_atomic: "acknowledged E \<Longrightarrow> dispatch E who c w = (Some e, w') \<Longrightarrow> w_db w' = w_db w"
  by (cases c) (auto dest: attempt_atomic [OF atomic_payroll(1)] attempt_atomic [OF atomic_payroll(2)] attempt_atomic [OF atomic_payroll(3)]
    attempt_atomic [OF atomic_payroll(4)] attempt_atomic [OF atomic_payroll(5)] attempt_atomic [OF atomic_payroll(6)]
    attempt_atomic [OF atomic_payroll(7)] attempt_atomic [OF atomic_payroll(8)] attempt_atomic [OF atomic_payroll(9)]
    attempt_atomic [OF atomic_payroll(10)] attempt_atomic [OF atomic_payroll(11)]
    attempt_atomic [OF atomic_time(1)] attempt_atomic [OF atomic_time(2)] attempt_atomic [OF atomic_time(3)])

end
