(* ===== verification/Idempotence.thy ===== *)
theory Idempotence
  imports PayrollHistory
begin

text \<open>
  Idempotency keys.  A command that succeeded has recorded its response under an identifier derived from tenant, caller, kind and
  key; operations are never removed, so a retry, however much later, finds the record, answers the same
  and changes nothing.
\<close>

definition operationKey :: "env \<Rightarrow> sessionIdentity \<Rightarrow> operationName \<Rightarrow> string option \<Rightarrow> string" where
  "operationKey E identity kind key = (case normalizeIdempotencyKey key of
       Inl _ \<Rightarrow> []
     | Inr k \<Rightarrow> rq_operationId (payrollRequestIdentity E (id_tenantId identity) (id_sub identity) kind k JNull))"

lemma operationKey_body: "normalizeIdempotencyKey key = ok k \<Longrightarrow>
    rq_operationId (payrollRequestIdentity E (id_tenantId identity) (id_sub identity) kind k body) = operationKey E identity kind key"
  by (simp add: operationKey_def payrollRequestIdentity_def)

abbreviation "recordAs E identity kind key change d r d' \<equiv>
  (\<exists>request. rq_operationId request = operationKey E identity kind key \<and> recordedOutcome identity request kind change d r d')"

lemma recordAsI: "normalizeIdempotencyKey key = ok k \<Longrightarrow>
    recordedOutcome identity (payrollRequestIdentity E (id_tenantId identity) (id_sub identity) kind k body) kind change d r d' \<Longrightarrow>
    recordAs E identity kind key change d r d'"
  using operationKey_body by blast

text \<open>After a recorded outcome the record is there.\<close>

lemma recorded_found:
  assumes "recordedOutcome identity request kind change d r d'"
  shows "\<exists>row. find (\<lambda>x. op_operationId x = rq_operationId request) (payrollOperations d') = Some row \<and> op_response row = r"
  using assms unfolding recordedOutcome_def
proof (elim disjE exE conjE)
  fix row
  assume "find (\<lambda>x. op_operationId x = rq_operationId request) (payrollOperations d) = Some row"
    "replayOperation row (rq_requestHash request) = ok r" "d' = d"
  then show ?thesis by (auto simp: replayOperation_def split: if_splits)
next
  fix periodId log mid
  assume none: "find (\<lambda>x. op_operationId x = rq_operationId request) (payrollOperations mid) = None"
    and d': "d' = auditLogs_update (\<lambda>rows. rows @ [log]) (payrollOperations_update (\<lambda>rows. rows @ [operationRow identity request periodId kind r]) mid)"
  have "find (\<lambda>x. op_operationId x = rq_operationId request) (payrollOperations d') = Some (operationRow identity request periodId kind r)"
    using none unfolding d' find_None_iff by (simp add: find_append_unique operationRow_def)
  then show ?thesis by (simp add: operationRow_def)
qed

locale recorded = lawful E m for E :: env and m :: "json tx" +
  fixes identity :: sessionIdentity and kind :: operationName and key :: "string option"
    and change :: "database \<Rightarrow> string \<Rightarrow> database \<Rightarrow> bool"
  assumes records_as: "wellFormed E d \<Longrightarrow> outcome d m (recordAs E identity kind key change d)"
    and keeps_operations: "change d periodId mid \<Longrightarrow> payrollOperations mid = payrollOperations d"
begin

lemma replayed:
  assumes "find (\<lambda>x. op_operationId x = operationKey E identity kind key) (payrollOperations d) = Some row" and "recordAs E identity kind key change d r d'"
  shows "r = op_response row \<and> d' = d"
proof -
  obtain request where k: "rq_operationId request = operationKey E identity kind key" and o: "recordedOutcome identity request kind change d r d'"
    using assms(2) by blast
  have "d' = d" using o assms(1) keeps_operations unfolding recordedOutcome_def k by auto
  moreover have "r = op_response row"
    using recorded_found [OF o] assms(1) \<open>d' = d\<close> unfolding k by auto
  ultimately show ?thesis by simp
qed

lemma retry:
  assumes "wellFormed E (w_db w)" and "m w = (ok r, w')" and "history E w' v"
  shows "w_db (snd (m v)) = w_db v \<and> (\<forall>r' v'. m v = (ok r', v') \<longrightarrow> r' = r)"
proof -
  have first: "recordAs E identity kind key change (w_db w) r (w_db w')" by (rule outcome_ok [OF records_as [OF assms(1)] assms(2)])
  then obtain row where row: "find (\<lambda>x. op_operationId x = operationKey E identity kind key) (payrollOperations (w_db w')) = Some row" "op_response row = r"
    using recorded_found by fastforce
  have later: "lawfulStep E (w_db w') (w_db v)"
    by (rule history_lawful [OF assms(3)]) (use well_formed [OF assms(1)] assms(2) in simp)
  then have "prefix (payrollOperations (w_db w')) (payrollOperations (w_db v))"
    by (simp add: lawfulStep_def records_def advance_def evidenceKept_def)
  then have found: "find (\<lambda>x. op_operationId x = operationKey E identity kind key) (payrollOperations (w_db v)) = Some row"
    by (rule find_prefix [OF row(1)])
  have again: "outcome (w_db v) m (recordAs E identity kind key change (w_db v))" using later by (intro records_as) (simp add: lawfulStep_def)
  have "w_db (snd (m v)) = w_db v"
    by (rule outcome_always [where R = "\<lambda>d d'. d' = d", OF again]) (use replayed [OF found] in auto)
  moreover have "r' = r" if "m v = (ok r', v')" for r' v'
    using replayed [OF found outcome_ok [OF again that]] row(2) by simp
  ultimately show ?thesis by blast
qed

end

section \<open>The recorded commands\<close>

interpretation create_period_once: recorded E "createPeriod E who localStartDate key" "mutationIdentity who" PERIOD_CREATE key
    "periodAdded (id_tenantId (mutationIdentity who))" for E who localStartDate key
proof unfold_locales
  fix d
  show "outcome d (createPeriod E who localStartDate key)
      (recordAs E (mutationIdentity who) PERIOD_CREATE key (periodAdded (id_tenantId (mutationIdentity who))) d)"
    unfolding createPeriod_def
    by (intro outcome_rules outcome_lift outcome_mapConflict outcome_runScope post_weaken [OF sat_createPeriodBody])
      (auto intro: recordAsI)
qed (auto simp: periodAdded_def)

interpretation start_review_once: recorded E "startReview E who publicId revision key" "mutationIdentity who" REVIEW_OP key
    "reviewStarted (id_tenantId (mutationIdentity who)) revision" for E who publicId revision key
proof unfold_locales
  fix d
  show "outcome d (startReview E who publicId revision key)
      (recordAs E (mutationIdentity who) REVIEW_OP key (reviewStarted (id_tenantId (mutationIdentity who)) revision) d)"
    unfolding startReview_def
    by (intro outcome_rules outcome_lift outcome_runScope post_weaken [OF sat_startReviewBody]) (auto intro: recordAsI)
qed (auto simp: reviewStarted_def)

interpretation adopt_cards_once: recorded E "adoptCards E who publicId body key" "mutationIdentity who" ADOPT key
    "cardsAdopted (id_tenantId (mutationIdentity who))" for E who publicId body key
proof unfold_locales
  fix d
  assume "wellFormed E d"
  then show "outcome d (adoptCards E who publicId body key)
      (recordAs E (mutationIdentity who) ADOPT key (cardsAdopted (id_tenantId (mutationIdentity who))) d)"
    unfolding adoptCards_def
    by (intro outcome_rules outcome_lift outcome_mapConflict outcome_runScope post_weaken [OF sat_adoptCardsBody])
      (auto intro: recordAsI dest: wellFormed_cards)
qed (auto simp: cardsAdopted_def)

interpretation decide_cards_once: recorded E "decideCards E who publicId body key" "mutationIdentity who" APPROVAL key
    "cardsDecided (mutationIdentity who)" for E who publicId body key
proof unfold_locales
  fix d
  assume "wellFormed E d"
  then show "outcome d (decideCards E who publicId body key)
      (recordAs E (mutationIdentity who) APPROVAL key (cardsDecided (mutationIdentity who)) d)"
    unfolding decideCards_def
    by (intro outcome_rules outcome_lift outcome_mapConflict outcome_runScope post_weaken [OF sat_decideCardsBody])
      (auto intro: recordAsI dest: wellFormed_cards)
qed (auto simp: cardsDecided_def)

end
