(* ===== verification/PolicySearch.thy ===== *)
theory PolicySearch
  imports TimeCards Scenario
begin

text \<open>
  The search for the policy in force reads the versions page by page.  It ends, and finds what one pass over all versions of the tenant would find.
\<close>

lemma findR_append: "findR P (xs @ ys) = bindR (findR P xs) (\<lambda>r. case r of None \<Rightarrow> findR P ys | Some x \<Rightarrow> ok (Some x))"
proof (induction xs)
  case (Cons x xs)
  then show ?case by (cases "P x") auto
qed simp

lemma findR_take:
  assumes "findR P xs = ok r"
  obtains x where "findR P (take n xs) = ok (Some x)" "r = Some x" | "findR P (take n xs) = ok None" "findR P (drop n xs) = ok r"
proof -
  have "findR P (take n xs @ drop n xs) = ok r" using assms by simp
  then obtain s where "findR P (take n xs) = ok s" "(case s of None \<Rightarrow> findR P (drop n xs) | Some x \<Rightarrow> ok (Some x)) = ok r"
    unfolding findR_append by (auto simp: bindR_ok)
  then show thesis using that by (cases s) auto
qed

lemma page_after:
  assumes "distinct (map pv_id (seen @ rest))" and "seen \<noteq> []"
  shows "policyPage (Some (pv_id (last seen))) (seen @ rest) = take POLICY_ASSIGNMENT_PAGE_SIZE rest"
proof -
  obtain before x where s: "seen = before @ [x]" using assms(2) by (metis append_butlast_last_id)
  have "pv_id p \<noteq> pv_id x" if "p \<in> set before" for p using assms(1) imageI [OF that, of pv_id] by (auto simp: s)
  then have "dropWhile (\<lambda>p. pv_id p \<noteq> pv_id x) (before @ x # rest) = x # rest" by (simp add: dropWhile_append3)
  then show ?thesis by (simp add: policyPage_def s)
qed

lemma policySearch_rest:
  assumes "passes d cur" and "[] \<notin> pv_id ` set (orderedPolicies tenantId d)" and "distinct (map pv_id (orderedPolicies tenantId d))"
    and "orderedPolicies tenantId d = seen @ rest" and "cursor = (if seen = [] then None else Some (pv_id (last seen)))"
    and "length rest < rounds" and "findR (policyInForce E t) rest = ok r"
  shows "returns d (policySearch rounds E tenantId t cur cursor) (\<lambda>x d'. d' = d \<and> x = r)"
  using assms(4-7)
proof (induction rounds arbitrary: seen rest cursor)
  case (Suc rounds)
  let ?n = POLICY_ASSIGNMENT_PAGE_SIZE
  have page: "policyPage cursor (orderedPolicies tenantId d) = take ?n rest"
    using Suc.prems(1,2) page_after [of seen rest] assms(3) by (cases "seen = []") (simp_all add: policyPage_def)
  have next_page: "returns d (policySearch rounds E tenantId t cur (Some (pv_id (last (take ?n rest))))) (\<lambda>x d'. d' = d \<and> x = r)"
    if "findR (policyInForce E t) (drop ?n rest) = ok r" "\<not> length rest < ?n"
  proof (rule Suc.IH [of "seen @ take ?n rest" "drop ?n rest"])
    show "length (drop ?n rest) < rounds" using that(2) Suc.prems(3) by (simp add: POLICY_ASSIGNMENT_PAGE_SIZE_def)
    have "take ?n rest \<noteq> []" using that(2) by (auto simp: POLICY_ASSIGNMENT_PAGE_SIZE_def)
    then show "Some (pv_id (last (take ?n rest))) = (if seen @ take ?n rest = [] then None else Some (pv_id (last (seen @ take ?n rest))))" by simp
  qed (use Suc.prems(1) that(1) in simp_all)
  have id: "pv_id (last (take ?n rest)) \<noteq> []" if "\<not> length rest < ?n"
  proof -
    have "take ?n rest \<noteq> []" using that by (auto simp: POLICY_ASSIGNMENT_PAGE_SIZE_def)
    then have "last (take ?n rest) \<in> set rest" by (rule in_set_takeD [OF last_in_set])
    then have "last (take ?n rest) \<in> set (orderedPolicies tenantId d)" by (simp add: Suc.prems(1))
    then show ?thesis using assms(2) by (metis image_eqI)
  qed
  have step: "returns d (bindT (liftT (findR (policyInForce E t) (take ?n rest))) (\<lambda>policy.
       if policy \<noteq> None \<or> length (take ?n rest) < ?n then returnT policy
       else if pv_id (last (take ?n rest)) = [] then returnT None
       else policySearch rounds E tenantId t cur (Some (pv_id (last (take ?n rest)))))) (\<lambda>x d'. d' = d \<and> x = r)"
    using findR_take [OF Suc.prems(4), of ?n]
  proof cases
    case (1 x)
    then show ?thesis by (intro returns_bind returns_lift [OF 1(1)]) (simp add: returns_return)
  next
    case 2
    then show ?thesis
      by (intro returns_bind returns_lift [OF 2(1)]) (use id next_page in \<open>auto intro!: returns_return\<close>)
  qed
  show ?case
    unfolding policySearch.simps
    by (rule returns_then, rule returns_passes [OF assms(1)], rule returns_bind, rule returns_get, rule returns_then,
        rule returns_passes [OF assms(1)], unfold page, rule step)
qed simp

lemma length_orderedPolicies: "length (orderedPolicies tenantId d) \<le> length (policyVersions d)"
  by (simp add: orderedPolicies_def findMany_def)



end
