(* ===== verification/Pagination.thy ===== *)
theory Pagination
  imports TimeCardInvariants Scenario
begin

text \<open>
  Keyset pagination of time cards: following the cursors from the first page on shows every listed card once, newest first.
\<close>

fun followPages :: "nat \<Rightarrow> string \<Rightarrow> string option \<Rightarrow> listQuery \<Rightarrow> (instant \<times> string) option \<Rightarrow> database \<Rightarrow> timeCard list" where
  "followPages 0 tenantId publicUserId q cursor d = []"
| "followPages (Suc rounds) tenantId publicUserId q cursor d =
     (case listPage tenantId publicUserId q cursor d of
        (page, None) \<Rightarrow> page
      | (page, Some c) \<Rightarrow> page @ followPages rounds tenantId publicUserId q (Some c) d)"

interpretation newest_first: comparator newestFirst
  by unfold_locales (auto simp: newestFirst_def)

lemma newest_tie: "newestFirst a b \<Longrightarrow> newestFirst b a \<Longrightarrow> tc_publicId a = tc_publicId b"
  by (auto simp: newestFirst_def)

text \<open>Sorting and filtering commute when the order never ties.\<close>

lemma filter_newest:
  assumes "distinct (map tc_publicId rows)"
  shows "filter Q (sortBy newestFirst rows) = sortBy newestFirst (filter Q rows)"
proof (rule newest_first.sorted_unique)
  show "sorted_wrt newestFirst (filter Q (sortBy newestFirst rows))" by (rule sorted_wrt_filter) (rule newest_first.sorted_sortBy)
  show "sorted_wrt newestFirst (sortBy newestFirst (filter Q rows))" by (rule newest_first.sorted_sortBy)
qed (use assms in \<open>auto simp: distinct_map dest: newest_tie inj_onD\<close>)

definition cursorAfter :: "timeCard list \<Rightarrow> (instant \<times> string) option" where
  "cursorAfter seen = (if seen = [] then None else Some (cursorOf (last seen)))"

lemma rows_after:
  assumes "distinct (map tc_publicId (timeCards d))" and "findMany P newestFirst (timeCards d) = seen @ rest"
  shows "findMany (\<lambda>c. P c \<and> afterCursor (cursorAfter seen) c) newestFirst (timeCards d) = rest"
proof -
  have "distinct (map tc_publicId (filter P (timeCards d)))" using assms(1) by (simp add: distinct_map_filter)
  from filter_newest [OF this, of "afterCursor (cursorAfter seen)"]
  have "findMany (\<lambda>c. P c \<and> afterCursor (cursorAfter seen) c) newestFirst (timeCards d) = filter (afterCursor (cursorAfter seen)) (seen @ rest)"
    by (simp add: findMany_def assms(2) [unfolded findMany_def] conj_commute)
  moreover have "filter (afterCursor (cursorAfter seen)) (seen @ rest) = rest"
  proof (cases "seen = []")
    case False
    then obtain before x where s: "seen = before @ [x]" by (metis append_butlast_last_id)
    have sorted: "sorted_wrt newestFirst (before @ x # rest)" using newest_first.sorted_sortBy [of "filter P (timeCards d)"] assms(2) by (simp add: findMany_def s)
    have "distinct (map tc_publicId (findMany P newestFirst (timeCards d)))" using assms(1) by (simp add: findMany_def distinct_map_filter)
    then have keys: "distinct (map tc_publicId (before @ x # rest))" by (simp add: assms(2) s)
    have "\<not> afterCursor (Some (cursorOf x)) y" if "newestFirst y x" for y
      using that by (auto simp: afterCursor_def cursorOf_def newestFirst_def)
    moreover have "newestFirst y x" if "y \<in> set (before @ [x])" for y
      using that sorted newest_first.le_refl by (auto simp: sorted_wrt_append)
    moreover have "afterCursor (Some (cursorOf x)) y" if "y \<in> set rest" for y
    proof -
      have "newestFirst x y" using that sorted by (simp add: sorted_wrt_append)
      moreover have "tc_publicId y \<noteq> tc_publicId x" using keys imageI [OF that, of tc_publicId] by auto
      ultimately show ?thesis unfolding newestFirst_def afterCursor_def cursorOf_def by (auto simp: order_less_le)
    qed
    ultimately show ?thesis by (simp add: cursorAfter_def s filter_empty_conv)
  qed (simp add: cursorAfter_def afterCursor_def)
  ultimately show ?thesis by simp
qed

lemma followPages_rest:
  assumes "distinct (map tc_publicId (timeCards d))" and "0 < lq_limit q"
    and "findMany (listed tenantId u q d) newestFirst (timeCards d) = seen @ rest" and "length rest < rounds"
  shows "followPages rounds tenantId u q (cursorAfter seen) d = rest"
  using assms(3,4)
proof (induction rounds arbitrary: seen rest)
  case (Suc rounds)
  let ?n = "lq_limit q"
  have rows: "listRows tenantId u q (cursorAfter seen) d = take (?n + 1) rest"
    by (simp add: listRows_def rows_after [OF assms(1) Suc.prems(1)])
  show ?case
  proof (cases "?n < length rest")
    case True
    have ne: "take ?n rest \<noteq> []" using True assms(2) by auto
    have "followPages rounds tenantId u q (cursorAfter (seen @ take ?n rest)) d = drop ?n rest"
      by (rule Suc.IH) (use Suc.prems True assms(2) in auto)
    moreover have "cursorAfter (seen @ take ?n rest) = Some (cursorOf (last (take ?n rest)))" using ne by (simp add: cursorAfter_def)
    ultimately show ?thesis using True ne by (simp add: listPage_def rows Let_def)
  qed (simp add: listPage_def rows Let_def)
qed simp

text \<open>
  Property C32.  Following the cursors of the list of time cards from its first page on, page after page of any positive limit, shows exactly the cards the
  query selects, each once and newest first; no more pages than cards are needed.
\<close>

theorem pages_cover_list:
  assumes "distinct (map tc_publicId (timeCards d))" and "0 < lq_limit q"
  shows "followPages (Suc (length (timeCards d))) tenantId u q None d = findMany (listed tenantId u q d) newestFirst (timeCards d)"
proof -
  have "length (findMany (listed tenantId u q d) newestFirst (timeCards d)) \<le> length (timeCards d)" by (simp add: findMany_def)
  then show ?thesis using followPages_rest [OF assms, of tenantId u "[]"] by (simp del: followPages.simps add: cursorAfter_def)
qed

definition threeCards :: database where
  "threeCards = sampleDb \<lparr> timeCards := [(sampleCard ''c1'') \<lparr> tc_publicId := ''a'' \<rparr>, (sampleCard ''c2'') \<lparr> tc_publicId := ''b'', tc_clockInAt := 1717491600000 \<rparr>,
     (sampleCard ''c3'') \<lparr> tc_publicId := ''c'' \<rparr>] \<rparr>"

theorem pages_cover_list_witness:
  "map tc_id (followPages 4 ''t1'' None \<lparr> lq_userId = None, lq_locationId = None, lq_startDate = None, lq_endDate = None, lq_limit = 1 \<rparr> None threeCards)
     = [''c2'', ''c3'', ''c1'']"
proof -
  let ?q = "\<lparr> lq_userId = None, lq_locationId = None, lq_startDate = None, lq_endDate = None, lq_limit = 1 \<rparr>"
  have cards: "timeCards threeCards = [(sampleCard ''c1'') \<lparr> tc_publicId := ''a'' \<rparr>, (sampleCard ''c2'') \<lparr> tc_publicId := ''b'', tc_clockInAt := 1717491600000 \<rparr>,
     (sampleCard ''c3'') \<lparr> tc_publicId := ''c'' \<rparr>]" by (simp add: threeCards_def)
  have "distinct (map tc_publicId (timeCards threeCards))" by (simp add: cards)
  moreover have "length (timeCards threeCards) = 3" by (simp add: cards)
  moreover have "map tc_id (findMany (listed ''t1'' None ?q threeCards) newestFirst (timeCards threeCards)) = [''c2'', ''c3'', ''c1'']"
    by (simp add: findMany_def listed_def cards newestFirst_def sampleCard_def)
  ultimately show ?thesis using pages_cover_list [of threeCards ?q "''t1''" None] by (simp add: eval_nat_numeral)
qed

end
