(* ===== verification/AccessScenario.thy ===== *)
theory AccessScenario
  imports Scenario
begin



section \<open>Settlement\<close>

lemma tenant_credit: "tn_id sampleTenant = ''t1''" "tn_creditDebt sampleTenant = 0" "tn_usageCredits sampleTenant = 5"
  by (simp_all add: sampleTenant_def)

lemma db_credit: "tenants sampleDb = [sampleTenant]" "creditTransactions sampleDb = []"
  by (simp_all add: sampleDb_def emptyDatabase_def)

theorem debit_exact_witness:
  "\<exists>s w'. debitFeatureCredit (assertCurrent scenarioEnv sampleScope sampleAuthority) ''t1'' \<lparr> fe_feature = Time_cards, fe_creditCost = 1 \<rparr> [] ''r'' (Some ''x'') sampleWorld
      = (ok s, w') \<and> wallet (w_db w') ''t1'' = wallet sampleDb ''t1'' - 1"
proof -
  let ?m = "debitFeatureCredit (assertCurrent scenarioEnv sampleScope sampleAuthority) ''t1'' \<lparr> fe_feature = Time_cards, fe_creditCost = 1 \<rparr> [] ''r'' (Some ''x'')"
  have "runs sampleWorld ?m (\<lambda>s w'. creditTransactions (w_db w') \<noteq> [])"
    unfolding debitFeatureCredit_def sampleCur_def [symmetric]
    by (simp add: Let_def runs_simps runs_cur sampleWorld_def db_credit tenant_credit tenantTable_def creditTable_def updateWhere_def
        isSafeInteger_def MAX_SAFE_INTEGER_def)
  then obtain s w' where m: "?m sampleWorld = (ok s, w')" "creditTransactions (w_db w') \<noteq> []" by (auto simp: runs_def)
  show ?thesis using debit_exact [OF m(1)] m by (auto simp: sampleWorld_def db_credit)
qed

theorem debit_idempotent_witness:
  "\<exists>a b w'. bindT (debitFeatureCredit noCheck ''t1'' \<lparr> fe_feature = Time_cards, fe_creditCost = 1 \<rparr> [] ''r'' (Some ''x'')) (\<lambda>a.
      bindT (debitFeatureCredit noCheck ''t1'' \<lparr> fe_feature = Time_cards, fe_creditCost = 1 \<rparr> [] ''r'' (Some ''x'')) (\<lambda>b.
        returnT (a, b))) sampleWorld = (ok (a, b), w') \<and> a = b"
proof -
  let ?d = "debitFeatureCredit noCheck ''t1'' \<lparr> fe_feature = Time_cards, fe_creditCost = 1 \<rparr> [] ''r'' (Some ''x'')"
  let ?m = "bindT ?d (\<lambda>a. bindT ?d (\<lambda>b. returnT (a, b)))"
  have "runs sampleWorld ?m (\<lambda>_ _. True)"
    unfolding debitFeatureCredit_def noCheck_def
    by (simp add: Let_def runs_simps sampleWorld_def db_credit tenant_credit tenantTable_def creditTable_def updateWhere_def
        isSafeInteger_def MAX_SAFE_INTEGER_def)
  then obtain a b w' where m: "?m sampleWorld = (ok (a, b), w')" by (auto simp: runs_def)
  show ?thesis using debit_idempotent [OF m] m by simp
qed

end
