(* ===== verification/ScheduleContract.thy ===== *)
theory ScheduleContract
  imports PayrollQueries
begin

text \<open>
  What the scheduling endpoints share (\<open>scheduling/contract-helpers.ts\<close>): the entity tag that carries the revision of a
  schedule, the idempotency key, the canonical text of a request and its digest, UTC instants and the role of a
  shift.  The lemmas show that the tag of a schedule is read back as its revision and that the canonical text is
  the one the payroll code computes.
\<close>

section \<open>Entity tags and keys\<close>

definition scheduleEtag :: "string \<Rightarrow> int \<Rightarrow> string" where
  "scheduleEtag schedulePublicId revision =
     [CHR 0x22] @ ''schedule:'' @ schedulePublicId @ '':'' @ showInt revision @ [CHR 0x22]"

text \<open>\<open>/^"schedule:([0-9a-f-]{36}):(\d+)"$/\<close> with its two groups.\<close>

definition matchScheduleEtag :: "string \<Rightarrow> (string \<times> string) option" where
  "matchScheduleEtag s =
     (let i = take 36 (drop 10 s); n = butlast (drop 47 s)
      in if 49 \<le> length s \<and> take 10 s = [CHR 0x22] @ ''schedule:'' \<and> list_all (\<lambda>c. isLowerHex c \<or> c = CHR ''-'') i
            \<and> s ! 46 = CHR '':'' \<and> isDigits n \<and> last s = CHR 0x22
         then Some (i, n) else None)"

definition ifMatchRequired :: failure where "ifMatchRequired = Problem 428 ''if_match_required''"

definition invalidIfMatch :: failure where "invalidIfMatch = Problem 428 ''invalid_if_match''"

definition requireScheduleRevision :: "string option \<Rightarrow> string \<Rightarrow> int result" where
  "requireScheduleRevision ifMatch schedulePublicId =
     (case ifMatch of
        None \<Rightarrow> err ifMatchRequired
      | Some header \<Rightarrow>
          if trim header = [] then err ifMatchRequired
          else case matchScheduleEtag (trim header) of
                 None \<Rightarrow> err invalidIfMatch
               | Some (i, n) \<Rightarrow>
                   bindR (checkR (i = schedulePublicId) invalidIfMatch) (\<lambda>_.
                   let revision = int (digitsValue n)
                   in bindR (checkR (isSafeInteger revision \<and> 0 \<le> revision) invalidIfMatch) (\<lambda>_. ok revision)))"

text \<open>\<open>/^[A-Za-z0-9._:-]{8,200}$/\<close>.\<close>

definition isKeyChar :: "char \<Rightarrow> bool" where
  "isKeyChar c \<longleftrightarrow> (let n = codeUnit c in 65 \<le> n \<and> n \<le> 90 \<or> 97 \<le> n \<and> n \<le> 122 \<or> 48 \<le> n \<and> n \<le> 57) \<or> c \<in> set ''._:-''"

definition requireIdempotencyKey :: "string option \<Rightarrow> string result" where
  "requireIdempotencyKey v =
     (let normalized = (case v of None \<Rightarrow> [] | Some s \<Rightarrow> trim s)
      in if 8 \<le> length normalized \<and> length normalized \<le> 200 \<and> list_all isKeyChar normalized then ok normalized
         else err (Problem 428 ''idempotency_key_required''))"

section \<open>Canonical text\<close>

text \<open>A \<open>Date\<close> has no entries of its own, and an element that is \<open>undefined\<close> joins as nothing.\<close>

function canonicalJson :: "collation \<Rightarrow> json \<Rightarrow> string" where
  "canonicalJson collate (JArr xs) = ''['' @ joinText '','' (map (canonicalJson collate) xs) @ '']''"
| "canonicalJson collate (JObj kvs) =
     ''{'' @ joinText '','' (map (\<lambda>(k, v). quote k @ '':'' @ canonicalJson collate v) (sortEntries collate kvs)) @ ''}''"
| "canonicalJson collate (JDate t) = ''{}''"
| "canonicalJson collate JUndefined = []"
| "canonicalJson collate JNull = stringify JNull"
| "canonicalJson collate (JBool b) = stringify (JBool b)"
| "canonicalJson collate (JNum n) = stringify (JNum n)"
| "canonicalJson collate (JStr s) = stringify (JStr s)"
  by pat_completeness auto

termination canonicalJson
proof (relation "measure (\<lambda>(_, j). size j)", goal_cases)
  case 1
  show ?case by simp
next
  case (2 collate xs x)
  then show ?case by (simp add: size_json_element)
next
  case (3 collate kvs x k v)
  then have "(k, v) \<in> set kvs" using set_sortEntries by blast
  then show ?case using size_json_member [of k v kvs] by simp
qed

definition requestHash :: "env \<Rightarrow> json \<Rightarrow> string" where
  "requestHash E v = e_sha E (canonicalJson (e_collate E) v)"

section \<open>Instants and roles\<close>

text \<open>\<open>/^(\d{4})-(\d{2})-(\d{2})T(\d{2}):(\d{2}):(\d{2})(?:\.(\d{1,3}))?Z$/\<close> on a text that \<open>new Date\<close> accepts: a year of four
  digits, and its other groups read as numbers.\<close>

definition utcGroups :: "string \<Rightarrow> int list" where
  "utcGroups s = map (\<lambda>(i, n). int (digitsValue (take n (drop i s)))) [(0, 4), (5, 2), (8, 2), (11, 2), (14, 2), (17, 2)]"

definition getUTCHours :: "instant \<Rightarrow> int" where "getUTCHours t = timeInDay t div 3600000"

definition getUTCMinutes :: "instant \<Rightarrow> int" where "getUTCMinutes t = timeInDay t div 60000 mod 60"

definition getUTCSeconds :: "instant \<Rightarrow> int" where "getUTCSeconds t = timeInDay t div 1000 mod 60"

definition invalidUtcInstant :: failure where "invalidUtcInstant = Problem 422 ''invalid_utc_instant''"

definition parseUtcInstant :: "string \<Rightarrow> instant result" where
  "parseUtcInstant v =
     (case dateParse v of
        None \<Rightarrow> err invalidUtcInstant
      | Some t \<Rightarrow>
          if list_all isDigit (take 4 v)
             \<and> utcGroups v = [getUTCFullYear t, getUTCMonth t + 1, getUTCDate t, getUTCHours t, getUTCMinutes t, getUTCSeconds t]
          then ok t else err invalidUtcInstant)"

text \<open>\<open>undefined\<close> is \<open>None\<close> and \<open>null\<close> is \<open>Some None\<close>.\<close>

definition normalizedRole :: "string option option \<Rightarrow> string option option result" where
  "normalizedRole v =
     (case v of
        None \<Rightarrow> ok None
      | Some None \<Rightarrow> ok (Some None)
      | Some (Some s) \<Rightarrow>
          if trim s = [] then ok (Some None)
          else if 64 < length (trim s) then err (Problem 422 ''invalid_shift_role'')
          else ok (Some (Some (trim s))))"

section \<open>Properties\<close>

text \<open>A value as a request body holds it: no dates, and \<open>undefined\<close> only as the value of a member.\<close>

function requestJson :: "json \<Rightarrow> bool" where
  "requestJson (JArr xs) = list_all requestJson xs"
| "requestJson (JObj kvs) = list_all (\<lambda>(k, v). v = JUndefined \<or> requestJson v) kvs"
| "requestJson (JDate t) = False"
| "requestJson JUndefined = False"
| "requestJson JNull = True"
| "requestJson (JBool b) = True"
| "requestJson (JNum n) = True"
| "requestJson (JStr s) = True"
  by pat_completeness auto

termination requestJson
  by (relation "measure size") (auto simp: size_json_element size_json_member)

lemma canonical_not_undefined: "v \<noteq> JUndefined \<Longrightarrow> canonicalJsonValue collate v \<noteq> JUndefined"
  by (cases v) simp_all

lemma canonicalJson_stringify: "requestJson v \<Longrightarrow> canonicalJson collate v = stringify (canonicalJsonValue collate v)"
proof (induction collate v rule: canonicalJson.induct)
  case (1 collate xs)
  then have "map (canonicalJson collate) xs = map stringify (map (canonicalJsonValue collate) xs)"
    by (simp add: list_all_iff)
  then show ?case by (simp only: canonicalJson.simps canonicalJsonValue.simps stringify.simps)
next
  case (2 collate kvs)
  have mem: "v \<noteq> JUndefined \<and> requestJson v" if "(k, v) \<in> set (sortEntries collate kvs)" for k v
    using that "2.prems" by (auto simp: sortEntries_def list_all_iff)
  let ?es = "map (\<lambda>(k, v). (k, canonicalJsonValue collate v)) (sortEntries collate kvs)"
  have "filter (\<lambda>(k, v). v \<noteq> JUndefined) ?es = ?es"
    using mem canonical_not_undefined by (auto simp: filter_id_conv)
  moreover have "map (\<lambda>(k, v). quote k @ '':'' @ canonicalJson collate v) (sortEntries collate kvs)
      = map (\<lambda>(k, v). quote k @ '':'' @ stringify v) ?es"
    using "2.IH" mem by auto
  ultimately show ?case by (simp only: canonicalJson.simps canonicalJsonValue.simps stringify.simps)
qed simp_all

lemma etag_trim: "trim (scheduleEtag i r) = scheduleEtag i r"
  by (rule trim_eq_self) (simp_all add: scheduleEtag_def isJsSpace_def codeUnit_def)

lemma matchScheduleEtag_etag:
  assumes "length i = 36" and "list_all (\<lambda>c. isLowerHex c \<or> c = CHR ''-'') i" and "0 \<le> r"
  shows "matchScheduleEtag (scheduleEtag i r) = Some (i, showInt r)"
proof -
  have d: "isDigits (showInt r)" using showNat_digits [OF assms(3)] assms(3) by (simp add: showInt_def)
  then have n: "showInt r \<noteq> []" by (auto simp: isDigits_def)
  have s: "scheduleEtag i r = ([CHR 0x22] @ ''schedule:'') @ i @ '':'' @ showInt r @ [CHR 0x22]" by (simp add: scheduleEtag_def)
  have "drop 47 (scheduleEtag i r) = showInt r @ [CHR 0x22]" "take 36 (drop 10 (scheduleEtag i r)) = i"
    "scheduleEtag i r ! 46 = CHR '':''" "take 10 (scheduleEtag i r) = [CHR 0x22] @ ''schedule:''" "last (scheduleEtag i r) = CHR 0x22"
    unfolding s using assms(1) by (simp_all add: nth_append)
  moreover have "49 \<le> length (scheduleEtag i r)" unfolding s using assms(1) n by (cases "showInt r") simp_all
  ultimately show ?thesis using assms(2) d unfolding matchScheduleEtag_def Let_def by simp
qed

text \<open>
  Property C40.  The entity tag of a schedule is read back: for a schedule identifier of the form the database prints and any
  revision a client can hold, the header that repeats the tag yields exactly the revision.
\<close>

theorem etag_roundtrip:
  assumes "length i = 36" and "list_all (\<lambda>c. isLowerHex c \<or> c = CHR ''-'') i" and "0 \<le> r" and "r \<le> MAX_SAFE_INTEGER"
  shows "requireScheduleRevision (Some (scheduleEtag i r)) i = ok r"
proof -
  have "int (digitsValue (showInt r)) = r" using showNat_digits [OF assms(3)] assms(3) by (simp add: showInt_def)
  moreover have "scheduleEtag i r \<noteq> []" by (simp add: scheduleEtag_def)
  ultimately show ?thesis
    unfolding requireScheduleRevision_def using assms(3,4)
    by (simp add: etag_trim matchScheduleEtag_etag [OF assms(1-3)] isSafeInteger_def MAX_SAFE_INTEGER_def Let_def)
qed

theorem etag_roundtrip_witness:
  "requireScheduleRevision (Some (scheduleEtag ''00000000-0000-4000-8000-00000000abcd'' 7)) ''00000000-0000-4000-8000-00000000abcd'' = ok 7"
  by (rule etag_roundtrip) (simp_all add: isLowerHex_def isDigit_def codeUnit_def MAX_SAFE_INTEGER_def)

text \<open>
  The two canonical forms agree: on every request body the text the scheduling code hashes is the one the payroll code
  computes, so what is known of the one (values that differ in member order share an identity) holds of the other.
\<close>

lemma canonical_text_agrees:
  assumes "requestJson v"
  shows "requestHash E v = canonicalSha256 (e_sha E) (e_collate E) v"
  by (simp add: requestHash_def canonicalSha256_def canonicalJson_stringify [OF assms])

end
