(* ===== verification/SchedulePlan.thy ===== *)
theory SchedulePlan
  imports ScheduleContract
begin

text \<open>
  Planning a change set (\<open>scheduling/change-set-plan.ts\<close>): the operations of a request are folded over the saved shifts
  of a schedule into the mutations to apply and the shifts the schedule will hold, and the result is checked as a
  whole: windows, overlaps of one employee inside the schedule and with shifts elsewhere.  JSON pointers of
  violations are left out.
\<close>

section \<open>Ordered maps\<close>

text \<open>A JavaScript \<open>Map\<close> as the list of its entries: \<open>set\<close> keeps the place of a key that is there and appends a new one.\<close>

type_synonym ('k, 'v) entries = "('k \<times> 'v) list"

fun mapSet :: "'k \<Rightarrow> 'v \<Rightarrow> ('k, 'v) entries \<Rightarrow> ('k, 'v) entries" where
  "mapSet k v [] = [(k, v)]"
| "mapSet k v ((k', v') # m) = (if k' = k then (k, v) # m else (k', v') # mapSet k v m)"

definition mapDelete :: "'k \<Rightarrow> ('k, 'v) entries \<Rightarrow> ('k, 'v) entries" where
  "mapDelete k m = filter (\<lambda>(k', _). k' \<noteq> k) m"

definition newMap :: "('k \<times> 'v) list \<Rightarrow> ('k, 'v) entries" where
  "newMap kvs = foldl (\<lambda>m (k, v). mapSet k v m) [] kvs"

text \<open>\<open>xs.forEach(f)\<close> where \<open>f\<close> changes a state and may throw.\<close>

fun foldR :: "('s \<Rightarrow> 'a \<Rightarrow> 'e + 's) \<Rightarrow> 's \<Rightarrow> 'a list \<Rightarrow> 'e + 's" where
  "foldR f s [] = Inr s"
| "foldR f s (x # xs) = bindR (f s x) (\<lambda>s'. foldR f s' xs)"

section \<open>Shifts, operations and mutations\<close>

record plannedBreak =
  pk_internalId :: string
  pk_startTime :: instant
  pk_endTime :: instant

record plannedShift =
  ps_internalId :: "string option"
  ps_publicId :: string
  ps_userInternalId :: "string option"
  ps_userPublicId :: "string option"
  ps_startTime :: instant
  ps_endTime :: instant
  ps_role :: "string option"
  ps_breaks :: "plannedBreak list"

record resolvedUser =
  ru_internalId :: string
  ru_publicId :: string

record externalShift =
  xs_internalId :: string
  xs_userInternalId :: string
  xs_startTime :: instant
  xs_endTime :: instant

datatype shiftMutation =
    CreateShift plannedShift "string option"
  | UpdateShift plannedShift plannedShift
  | DeleteShift plannedShift

record createOperation =
  co_clientId :: "string option"
  co_userId :: "string option"
  co_startTime :: string
  co_endTime :: string
  co_role :: "string option option"

record updateOperation =
  uo_shiftId :: string
  uo_userId :: "string option option"
  uo_startTime :: "string option"
  uo_endTime :: "string option"
  uo_role :: "string option option"

datatype shiftOperation = ShiftCreate createOperation | ShiftUpdate updateOperation | ShiftDelete string

record changeSetPlan =
  cp_finalShifts :: "plannedShift list"
  cp_mutations :: "shiftMutation list"
  cp_created :: "(string option \<times> string) list"

record planInput =
  in_scheduleStart :: instant
  in_scheduleEnd :: instant
  in_currentShifts :: "plannedShift list"
  in_externalShifts :: "externalShift list"
  in_users :: "string \<rightharpoonup> resolvedUser"
  in_operations :: "shiftOperation list"

definition windowsOverlap :: "instant \<Rightarrow> instant \<Rightarrow> instant \<Rightarrow> instant \<Rightarrow> bool" where
  "windowsOverlap s e s' e' \<longleftrightarrow> s < e' \<and> s' < e"

definition shiftsOverlap :: "plannedShift \<Rightarrow> plannedShift \<Rightarrow> bool" where
  "shiftsOverlap l r = windowsOverlap (ps_startTime l) (ps_endTime l) (ps_startTime r) (ps_endTime r)"

section \<open>One operation\<close>

definition userFor :: "string option \<Rightarrow> (string \<rightharpoonup> resolvedUser) \<Rightarrow> resolvedUser option result" where
  "userFor publicId usersByPublicId =
     (case publicId of
        None \<Rightarrow> ok None
      | Some p \<Rightarrow> (case usersByPublicId p of
                    None \<Rightarrow> err (Problem 422 ''staff_not_schedulable'')
                  | Some u \<Rightarrow> ok (Some u)))"

definition moveBreak :: "int \<Rightarrow> plannedBreak \<Rightarrow> plannedBreak" where
  "moveBreak deltaMs b = b \<lparr> pk_startTime := pk_startTime b + deltaMs, pk_endTime := pk_endTime b + deltaMs \<rparr>"

definition translatedBreaks :: "plannedShift \<Rightarrow> instant \<Rightarrow> instant \<Rightarrow> plannedBreak list result" where
  "translatedBreaks before nextStart nextEnd =
     (let translated = map (moveBreak (nextStart - ps_startTime before)) (ps_breaks before)
      in if list_ex (\<lambda>b. pk_startTime b < nextStart \<or> nextEnd < pk_endTime b) translated
         then err (Problem 422 ''break_outside_shift'') else ok translated)"

definition validateWindow :: "plannedShift \<Rightarrow> instant \<Rightarrow> instant \<Rightarrow> unit result" where
  "validateWindow s scheduleStart scheduleEnd =
     bindR (checkR (\<not> ps_endTime s \<le> ps_startTime s) (Problem 422 ''invalid_shift_window'')) (\<lambda>_.
     checkR (\<not> (ps_startTime s < scheduleStart \<or> scheduleEnd \<le> ps_startTime s \<or> 86400000 < ps_endTime s - ps_startTime s))
       (Problem 422 ''shift_outside_schedule''))"

text \<open>\<open>left.breaks.every((item, index) => ...)\<close>: a break of \<open>right\<close> that is missing compares unequal.\<close>

fun sameBreakTimes :: "plannedBreak list \<Rightarrow> plannedBreak list \<Rightarrow> bool" where
  "sameBreakTimes [] rs = True"
| "sameBreakTimes (l # ls) [] = False"
| "sameBreakTimes (l # ls) (r # rs) \<longleftrightarrow>
     pk_startTime l = pk_startTime r \<and> pk_endTime l = pk_endTime r \<and> sameBreakTimes ls rs"

definition sameShift :: "plannedShift \<Rightarrow> plannedShift \<Rightarrow> bool" where
  "sameShift l r \<longleftrightarrow> ps_userInternalId l = ps_userInternalId r \<and> ps_startTime l = ps_startTime r
     \<and> ps_endTime l = ps_endTime r \<and> ps_role l = ps_role r \<and> sameBreakTimes (ps_breaks l) (ps_breaks r)"

record planState =
  pl_working :: "(string, plannedShift) entries"
  pl_touched :: "string list"
  pl_clientIds :: "string list"
  pl_mutations :: "shiftMutation list"
  pl_created :: "(string option \<times> string) list"

text \<open>\<open>idFactory\<close> is called once for every created shift: \<open>ids n\<close> is what the call after \<open>n\<close> others returns.\<close>

definition planCreate :: "planInput \<Rightarrow> (nat \<Rightarrow> string) \<Rightarrow> planState \<Rightarrow> createOperation \<Rightarrow> planState result" where
  "planCreate input ids st op =
     (let named = (case co_clientId op of None \<Rightarrow> [] | Some c \<Rightarrow> if c = [] then [] else [c])
      in bindR (checkR (\<not> list_ex (\<lambda>c. c \<in> set (pl_clientIds st)) named) (Problem 422 ''duplicate_client_id'')) (\<lambda>_.
         bindR (userFor (co_userId op) (in_users input)) (\<lambda>user.
         bindR (parseUtcInstant (co_startTime op)) (\<lambda>startTime.
         bindR (parseUtcInstant (co_endTime op)) (\<lambda>endTime.
         bindR (normalizedRole (co_role op)) (\<lambda>role.
         let publicId = ids (length (pl_created st));
             s = \<lparr> ps_internalId = None, ps_publicId = publicId, ps_userInternalId = map_option ru_internalId user,
                   ps_userPublicId = map_option ru_publicId user, ps_startTime = startTime, ps_endTime = endTime,
                   ps_role = (case role of None \<Rightarrow> None | Some r \<Rightarrow> r), ps_breaks = [] \<rparr>
         in ok (st \<lparr> pl_working := mapSet publicId s (pl_working st),
                     pl_clientIds := pl_clientIds st @ named,
                     pl_mutations := pl_mutations st @ [CreateShift s (co_clientId op)],
                     pl_created := pl_created st @ [(co_clientId op, publicId)] \<rparr>)))))))"

text \<open>An optional instant: absent, and the empty text, keep the saved one.\<close>

definition nextInstant :: "string option \<Rightarrow> instant \<Rightarrow> instant result" where
  "nextInstant v saved = (case v of None \<Rightarrow> ok saved | Some s \<Rightarrow> if s = [] then ok saved else parseUtcInstant s)"

text \<open>The shift an update makes of a saved one.\<close>

definition updatedShift :: "planInput \<Rightarrow> plannedShift \<Rightarrow> updateOperation \<Rightarrow> plannedShift result" where
  "updatedShift input before op =
     bindR (nextInstant (uo_startTime op) (ps_startTime before)) (\<lambda>nextStart.
     bindR (nextInstant (uo_endTime op) (ps_endTime before)) (\<lambda>nextEnd.
     bindR (case uo_userId op of
              None \<Rightarrow> ok (ps_userInternalId before, ps_userPublicId before)
            | Some u \<Rightarrow> bindR (userFor u (in_users input)) (\<lambda>user. ok (map_option ru_internalId user, map_option ru_publicId user)))
       (\<lambda>(userInternalId, userPublicId).
     bindR (case uo_role op of
              None \<Rightarrow> ok (ps_role before)
            | Some r \<Rightarrow> bindR (normalizedRole (Some r)) (\<lambda>role. ok (case role of None \<Rightarrow> None | Some x \<Rightarrow> x)))
       (\<lambda>role.
     bindR (translatedBreaks before nextStart nextEnd) (\<lambda>breaks.
     ok (before \<lparr> ps_userInternalId := userInternalId, ps_userPublicId := userPublicId, ps_startTime := nextStart,
                  ps_endTime := nextEnd, ps_role := role, ps_breaks := breaks \<rparr>))))))"

text \<open>\<open>touched\<close> and \<open>byPublicId\<close>: a saved shift appears once.\<close>

definition touchShift :: "(string, plannedShift) entries \<Rightarrow> planState \<Rightarrow> string \<Rightarrow> (planState \<times> plannedShift) result" where
  "touchShift byPublicId st shiftId =
     bindR (checkR (shiftId \<notin> set (pl_touched st)) (Problem 422 ''duplicate_shift_operation'')) (\<lambda>_.
     case map_of byPublicId shiftId of
       None \<Rightarrow> err (Problem 404 ''shift_not_found'')
     | Some before \<Rightarrow> ok (st \<lparr> pl_touched := pl_touched st @ [shiftId] \<rparr>, before))"

definition planOperation ::
    "planInput \<Rightarrow> (nat \<Rightarrow> string) \<Rightarrow> (string, plannedShift) entries \<Rightarrow> planState \<Rightarrow> shiftOperation \<Rightarrow> planState result" where
  "planOperation input ids byPublicId st operation =
     (case operation of
        ShiftCreate op \<Rightarrow> planCreate input ids st op
      | ShiftDelete shiftId \<Rightarrow>
          bindR (touchShift byPublicId st shiftId) (\<lambda>(st, before).
          ok (st \<lparr> pl_working := mapDelete shiftId (pl_working st), pl_mutations := pl_mutations st @ [DeleteShift before] \<rparr>))
      | ShiftUpdate op \<Rightarrow>
          bindR (touchShift byPublicId st (uo_shiftId op)) (\<lambda>(st, before).
          bindR (updatedShift input before op) (\<lambda>after.
          ok (st \<lparr> pl_working := mapSet (uo_shiftId op) after (pl_working st),
                   pl_mutations := pl_mutations st @ (if sameShift before after then [] else [UpdateShift before after]) \<rparr>))))"

section \<open>The whole change set\<close>

definition hasUser :: "plannedShift \<Rightarrow> bool" where
  "hasUser s \<longleftrightarrow> (case ps_userInternalId s of None \<Rightarrow> False | Some u \<Rightarrow> u \<noteq> [])"

definition userOf :: "plannedShift \<Rightarrow> string" where
  "userOf s = (case ps_userInternalId s of None \<Rightarrow> [] | Some u \<Rightarrow> u)"

definition assignedOrder :: "collation \<Rightarrow> plannedShift \<Rightarrow> plannedShift \<Rightarrow> bool" where
  "assignedOrder collate = thenCompare (\<lambda>l r. collate (userOf l) (userOf r))
     (thenCompare (byKey ps_startTime) (\<lambda>l r. collate (ps_publicId l) (ps_publicId r)))"

definition scheduleOverlap :: failure where "scheduleOverlap = Problem 422 ''schedule_overlap''"

text \<open>The loop over neighbours of the sorted list.\<close>

fun checkNeighbours :: "plannedShift list \<Rightarrow> unit result" where
  "checkNeighbours (previous # current # rest) =
     bindR (checkR (\<not> (ps_userInternalId current = ps_userInternalId previous \<and> shiftsOverlap previous current)) scheduleOverlap) (\<lambda>_.
     checkNeighbours (current # rest))"
| "checkNeighbours _ = ok ()"

definition conflictsWith :: "plannedShift \<Rightarrow> externalShift \<Rightarrow> bool" where
  "conflictsWith s x \<longleftrightarrow> Some (xs_userInternalId x) = ps_userInternalId s
     \<and> windowsOverlap (ps_startTime s) (ps_endTime s) (xs_startTime x) (xs_endTime x)"

definition savedShifts :: "planInput \<Rightarrow> (string, plannedShift) entries" where
  "savedShifts input = newMap (map (\<lambda>s. (ps_publicId s, s)) (in_currentShifts input))"

text \<open>The loop over the operations, from the saved shifts.\<close>

definition planOperations :: "(nat \<Rightarrow> string) \<Rightarrow> planInput \<Rightarrow> planState result" where
  "planOperations ids input = foldR (planOperation input ids (savedShifts input))
     \<lparr> pl_working = savedShifts input, pl_touched = [], pl_clientIds = [], pl_mutations = [], pl_created = [] \<rparr> (in_operations input)"

definition planScheduleChangeSet :: "collation \<Rightarrow> (nat \<Rightarrow> string) \<Rightarrow> planInput \<Rightarrow> changeSetPlan result" where
  "planScheduleChangeSet collate ids input =
     bindR (planOperations ids input) (\<lambda>st.
     bindR (checkR (pl_mutations st \<noteq> []) (Problem 422 ''no_effective_changes'')) (\<lambda>_.
     let finalShifts = map snd (pl_working st)
     in bindR (eachR (\<lambda>s. validateWindow s (in_scheduleStart input) (in_scheduleEnd input)) finalShifts) (\<lambda>_.
        let assigned = sortBy (assignedOrder collate) (filter hasUser finalShifts)
        in bindR (checkNeighbours assigned) (\<lambda>_.
           bindR (eachR (\<lambda>s. checkR (\<not> list_ex (conflictsWith s) (in_externalShifts input)) scheduleOverlap) assigned) (\<lambda>_.
           ok \<lparr> cp_finalShifts = finalShifts, cp_mutations = pl_mutations st, cp_created = pl_created st \<rparr>)))))"

section \<open>Lemmas on ordered maps and folds\<close>

lemma map_of_mapSet [simp]: "map_of (mapSet k v m) = (map_of m)(k \<mapsto> v)"
  by (induction k v m rule: mapSet.induct) (auto simp: fun_eq_iff)

lemma keys_mapSet: "fst ` set (mapSet k v m) = insert k (fst ` set m)"
  by (induction k v m rule: mapSet.induct) auto

lemma set_mapSet: "set (mapSet k v m) \<subseteq> insert (k, v) (set m)"
  by (induction k v m rule: mapSet.induct) auto

lemma distinct_mapSet: "distinct (map fst m) \<Longrightarrow> distinct (map fst (mapSet k v m))"
proof (induction k v m rule: mapSet.induct)
  case (2 k v k' v' m)
  then show ?case using keys_mapSet [of k v m] by (auto simp: image_iff)
qed simp

lemma map_of_mapDelete [simp]: "map_of (mapDelete k m) = (map_of m)(k := None)"
  by (induction m) (auto simp: mapDelete_def fun_eq_iff)

lemma set_mapDelete: "set (mapDelete k m) \<subseteq> set m"
  by (auto simp: mapDelete_def)

lemma distinct_mapDelete: "distinct (map fst m) \<Longrightarrow> distinct (map fst (mapDelete k m))"
  unfolding mapDelete_def by (rule distinct_map_filter)

lemma mapSet_append: "k \<notin> fst ` set m \<Longrightarrow> mapSet k v m = m @ [(k, v)]"
  by (induction k v m rule: mapSet.induct) auto

lemma newMap_distinct:
  assumes "distinct (map fst kvs)"
  shows "newMap kvs = kvs"
proof -
  have "foldl (\<lambda>m (k, v). mapSet k v m) m kvs = m @ kvs" if "distinct (map fst (m @ kvs))" for m
    using that
  proof (induction kvs arbitrary: m)
    case (Cons p kvs)
    then show ?case using mapSet_append [of "fst p" m "snd p"] by (auto simp: case_prod_beta)
  qed simp
  from this [of "[]"] show ?thesis using assms by (simp add: newMap_def)
qed

lemma newMap_entries: "distinct (map fst (newMap kvs)) \<and> set (newMap kvs) \<subseteq> set kvs"
proof -
  have "distinct (map fst (foldl (\<lambda>m (k, v). mapSet k v m) m kvs)) \<and> set (foldl (\<lambda>m (k, v). mapSet k v m) m kvs) \<subseteq> set m \<union> set kvs"
    if "distinct (map fst m)" for m
    using that
  proof (induction kvs arbitrary: m)
    case (Cons p kvs)
    have "distinct (map fst (mapSet (fst p) (snd p) m))" using Cons.prems by (rule distinct_mapSet)
    from Cons.IH [OF this] show ?case using set_mapSet [of "fst p" "snd p" m] by (auto simp: case_prod_beta)
  qed simp
  from this [of "[]"] show ?thesis by (simp add: newMap_def)
qed

lemma foldR_invariant:
  assumes "foldR f s xs = ok t" and "I s" and "\<And>s x s'. I s \<Longrightarrow> x \<in> set xs \<Longrightarrow> f s x = ok s' \<Longrightarrow> I s'"
  shows "I t"
  using assms
proof (induction xs arbitrary: s)
  case Nil
  from Nil.prems(1,2) show ?case by simp
next
  case (Cons x xs)
  obtain u where u: "f s x = ok u" "foldR f u xs = ok t" using Cons.prems(1) by (auto simp: bindR_ok)
  show ?case
  proof (rule Cons.IH [OF u(2)])
    show "I u" by (rule Cons.prems(3) [OF Cons.prems(2) _ u(1)]) simp
    fix s y s'
    assume "I s" and "y \<in> set xs" and "f s y = ok s'"
    then show "I s'" using Cons.prems(3) [of s y s'] by simp
  qed
qed

section \<open>What a plan does\<close>

text \<open>The columns of the shift the plan determines; the public identifier of the user is only echoed.\<close>

definition storedFacts :: "plannedShift \<Rightarrow> string option \<times> string \<times> string option \<times> instant \<times> instant \<times> string option \<times> plannedBreak list" where
  "storedFacts s = (ps_internalId s, ps_publicId s, ps_userInternalId s, ps_startTime s, ps_endTime s, ps_role s, ps_breaks s)"

definition breaksInside :: "plannedShift \<Rightarrow> bool" where
  "breaksInside s \<longleftrightarrow> list_all (\<lambda>b. ps_startTime s \<le> pk_startTime b \<and> pk_endTime b \<le> ps_endTime s) (ps_breaks s)"

fun mutationTarget :: "shiftMutation \<Rightarrow> string" where
  "mutationTarget (CreateShift a c) = ps_publicId a"
| "mutationTarget (UpdateShift b a) = ps_publicId b"
| "mutationTarget (DeleteShift b) = ps_publicId b"

fun mutationResult :: "shiftMutation \<Rightarrow> plannedShift option" where
  "mutationResult (CreateShift a c) = Some a"
| "mutationResult (UpdateShift b a) = Some a"
| "mutationResult (DeleteShift b) = None"

fun isCreate :: "shiftMutation \<Rightarrow> bool" where
  "isCreate (CreateShift a c) = True"
| "isCreate _ = False"

text \<open>The shifts after the mutations, as a map from public identifiers; every shift is the target of one mutation at most.\<close>

definition mutated :: "shiftMutation list \<Rightarrow> (string \<rightharpoonup> plannedShift) \<Rightarrow> string \<rightharpoonup> plannedShift" where
  "mutated ms m k = (case map_of (map (\<lambda>x. (mutationTarget x, mutationResult x)) ms) k of None \<Rightarrow> m k | Some r \<Rightarrow> r)"

fun mutationOf :: "(string \<rightharpoonup> plannedShift) \<Rightarrow> shiftMutation \<Rightarrow> bool" where
  "mutationOf saved (CreateShift a c) \<longleftrightarrow> ps_internalId a = None \<and> ps_breaks a = []"
| "mutationOf saved (UpdateShift b a) \<longleftrightarrow> saved (ps_publicId b) = Some b \<and> ps_publicId a = ps_publicId b
     \<and> ps_internalId a = ps_internalId b \<and> ps_breaks a = map (moveBreak (ps_startTime a - ps_startTime b)) (ps_breaks b) \<and> breaksInside a"
| "mutationOf saved (DeleteShift b) \<longleftrightarrow> saved (ps_publicId b) = Some b"

lemma mutated_absent: "k \<notin> mutationTarget ` set ms \<Longrightarrow> mutated ms m k = m k"
  unfolding mutated_def by (auto split: option.splits dest!: map_of_SomeD)

lemma mutated_snoc:
  "mutationTarget x \<notin> mutationTarget ` set ms \<Longrightarrow> mutated (ms @ [x]) m = (mutated ms m)(mutationTarget x := mutationResult x)"
proof
  fix k
  assume new: "mutationTarget x \<notin> mutationTarget ` set ms"
  show "mutated (ms @ [x]) m k = ((mutated ms m)(mutationTarget x := mutationResult x)) k"
  proof (cases "k = mutationTarget x")
    case True
    then have "map_of (map (\<lambda>x. (mutationTarget x, mutationResult x)) ms) k = None"
      using new by (auto simp: map_of_eq_None_iff)
    then show ?thesis using True by (simp add: mutated_def map_add_def)
  qed (simp add: mutated_def map_add_def split: option.split)
qed

text \<open>What holds of the state of the fold.  \<open>freshIds\<close>: the generated identifiers are new.\<close>

definition freshIds :: "(string \<rightharpoonup> plannedShift) \<Rightarrow> planState \<Rightarrow> bool" where
  "freshIds saved st \<longleftrightarrow> distinct (map snd (pl_created st)) \<and> snd ` set (pl_created st) \<inter> dom saved = {}"

definition workingOk :: "planInput \<Rightarrow> (string \<rightharpoonup> plannedShift) \<Rightarrow> planState \<Rightarrow> bool" where
  "workingOk input saved st \<longleftrightarrow> distinct (map fst (pl_working st)) \<and> (\<forall>(k, s) \<in> set (pl_working st). ps_publicId s = k
       \<and> (ps_userInternalId s \<in> ps_userInternalId ` ran saved \<union> {None} \<union> (Some \<circ> ru_internalId) ` ran (in_users input))
       \<and> ((\<forall>c \<in> ran saved. breaksInside c) \<longrightarrow> breaksInside s))
     \<and> list_all (mutationOf saved) (pl_mutations st)
     \<and> map mutationTarget (filter isCreate (pl_mutations st)) = map snd (pl_created st)"

definition effectOk :: "(string \<rightharpoonup> plannedShift) \<Rightarrow> planState \<Rightarrow> bool" where
  "effectOk saved st \<longleftrightarrow> distinct (map mutationTarget (pl_mutations st)) \<and> set (pl_touched st) \<subseteq> dom saved
     \<and> mutationTarget ` set (pl_mutations st) \<subseteq> set (pl_touched st) \<union> snd ` set (pl_created st)
     \<and> (\<forall>k. map_option storedFacts (map_of (pl_working st) k) = map_option storedFacts (mutated (pl_mutations st) saved k))"

lemma breaksInside_translated:
  "translatedBreaks b s e = ok bs \<Longrightarrow> breaksInside (b \<lparr> ps_userInternalId := u, ps_userPublicId := p, ps_startTime := s,
      ps_endTime := e, ps_role := r, ps_breaks := bs \<rparr>)"
  by (auto simp: translatedBreaks_def breaksInside_def Let_def list_ex_iff list_all_iff not_less split: if_splits)

lemma translatedBreaks_ok: "translatedBreaks b s e = ok bs \<Longrightarrow> bs = map (moveBreak (s - ps_startTime b)) (ps_breaks b)"
  by (auto simp: translatedBreaks_def Let_def split: if_splits)

lemma userFor_ok:
  assumes "userFor p us = ok u"
  shows "map_option ru_internalId u \<in> {None} \<union> (Some \<circ> ru_internalId) ` ran us"
proof (cases u)
  case (Some r)
  then obtain q where "us q = Some r" using assms by (auto simp: userFor_def split: option.splits)
  then show ?thesis using Some by (auto intro: ranI)
qed simp

lemma updatedShift_ok:
  assumes "updatedShift input b op = ok a"
  shows "ps_publicId a = ps_publicId b" "ps_internalId a = ps_internalId b" "breaksInside a"
    "ps_breaks a = map (moveBreak (ps_startTime a - ps_startTime b)) (ps_breaks b)"
    "ps_userInternalId a \<in> {ps_userInternalId b, None} \<union> (Some \<circ> ru_internalId) ` ran (in_users input)"
proof -
  obtain s e u p r bs where a: "a = b \<lparr> ps_userInternalId := u, ps_userPublicId := p, ps_startTime := s,
      ps_endTime := e, ps_role := r, ps_breaks := bs \<rparr>" and bs: "translatedBreaks b s e = ok bs"
    and u: "(case uo_userId op of None \<Rightarrow> ok (ps_userInternalId b, ps_userPublicId b)
            | Some u \<Rightarrow> bindR (userFor u (in_users input)) (\<lambda>user. ok (map_option ru_internalId user, map_option ru_publicId user))) = ok (u, p)"
    using assms by (auto simp: updatedShift_def bindR_ok)
  show "ps_publicId a = ps_publicId b" "ps_internalId a = ps_internalId b" by (simp_all add: a)
  show "breaksInside a" unfolding a by (rule breaksInside_translated [OF bs])
  show "ps_breaks a = map (moveBreak (ps_startTime a - ps_startTime b)) (ps_breaks b)"
    using translatedBreaks_ok [OF bs] by (simp add: a)
  show "ps_userInternalId a \<in> {ps_userInternalId b, None} \<union> (Some \<circ> ru_internalId) ` ran (in_users input)"
    using u by (auto simp: a bindR_ok dest!: userFor_ok split: option.splits)
qed

lemma moveBreak_0 [simp]: "moveBreak 0 b = b"
  by (simp add: moveBreak_def)

lemma map_moveBreak_0 [simp]: "map (moveBreak 0) bs = bs"
  by (induction bs) simp_all

lemma updatedShift_same:
  assumes "updatedShift input b op = ok a" and "sameShift b a"
  shows "storedFacts a = storedFacts b"
  using updatedShift_ok [OF assms(1)] assms(2) by (simp add: storedFacts_def sameShift_def)

text \<open>One operation keeps the state in order.\<close>

lemma planCreate_ok:
  assumes "planCreate input ids st op = ok st'"
  obtains a cl where "st' = st \<lparr> pl_working := mapSet (ps_publicId a) a (pl_working st), pl_clientIds := cl,
      pl_mutations := pl_mutations st @ [CreateShift a (co_clientId op)], pl_created := pl_created st @ [(co_clientId op, ps_publicId a)] \<rparr>"
    and "ps_internalId a = None" and "ps_breaks a = []"
    and "ps_userInternalId a \<in> {None} \<union> (Some \<circ> ru_internalId) ` ran (in_users input)"
proof -
  obtain user startTime endTime role where u: "userFor (co_userId op) (in_users input) = ok user"
    and e: "st' = (let publicId = ids (length (pl_created st));
             s = \<lparr> ps_internalId = None, ps_publicId = publicId, ps_userInternalId = map_option ru_internalId user,
                   ps_userPublicId = map_option ru_publicId user, ps_startTime = startTime, ps_endTime = endTime,
                   ps_role = (case role of None \<Rightarrow> None | Some r \<Rightarrow> r), ps_breaks = [] \<rparr>
         in st \<lparr> pl_working := mapSet publicId s (pl_working st),
                     pl_clientIds := pl_clientIds st @ (case co_clientId op of None \<Rightarrow> [] | Some c \<Rightarrow> if c = [] then [] else [c]),
                     pl_mutations := pl_mutations st @ [CreateShift s (co_clientId op)],
                     pl_created := pl_created st @ [(co_clientId op, publicId)] \<rparr>)"
    using assms by (auto simp: planCreate_def Let_def bindR_ok)
  define a where "a = \<lparr> ps_internalId = None, ps_publicId = ids (length (pl_created st)), ps_userInternalId = map_option ru_internalId user,
                   ps_userPublicId = map_option ru_publicId user, ps_startTime = startTime, ps_endTime = endTime,
                   ps_role = (case role of None \<Rightarrow> None | Some r \<Rightarrow> r), ps_breaks = [] \<rparr>"
  have p: "ids (length (pl_created st)) = ps_publicId a" by (simp add: a_def)
  show thesis
  proof (rule that [of a])
    show "st' = st \<lparr> pl_working := mapSet (ps_publicId a) a (pl_working st),
        pl_clientIds := pl_clientIds st @ (case co_clientId op of None \<Rightarrow> [] | Some c \<Rightarrow> if c = [] then [] else [c]),
        pl_mutations := pl_mutations st @ [CreateShift a (co_clientId op)], pl_created := pl_created st @ [(co_clientId op, ps_publicId a)] \<rparr>"
      by (simp add: e Let_def a_def)
    show "ps_userInternalId a \<in> {None} \<union> (Some \<circ> ru_internalId) ` ran (in_users input)"
      using userFor_ok [OF u] by (simp add: a_def)
  qed (simp_all add: a_def)
qed

lemma touchShift_ok:
  assumes "touchShift m st i = ok (st', b)"
  shows "st' = st \<lparr> pl_touched := pl_touched st @ [i] \<rparr>" "i \<notin> set (pl_touched st)" "map_of m i = Some b"
  using assms by (auto simp: touchShift_def bindR_ok checkR_ok split: option.splits)

lemma planOperation_cases:
  assumes "planOperation input ids saved st x = ok st'"
  obtains (create) a cl c where "st' = st \<lparr> pl_working := mapSet (ps_publicId a) a (pl_working st), pl_clientIds := cl,
        pl_mutations := pl_mutations st @ [CreateShift a c], pl_created := pl_created st @ [(c, ps_publicId a)] \<rparr>"
      "ps_internalId a = None" "ps_breaks a = []" "ps_userInternalId a \<in> {None} \<union> (Some \<circ> ru_internalId) ` ran (in_users input)"
  | (update) i b a op where "st' = st \<lparr> pl_working := mapSet i a (pl_working st), pl_touched := pl_touched st @ [i],
        pl_mutations := pl_mutations st @ (if sameShift b a then [] else [UpdateShift b a]) \<rparr>"
      "i \<notin> set (pl_touched st)" "map_of saved i = Some b" "updatedShift input b op = ok a"
  | (delete) i b where "st' = st \<lparr> pl_working := mapDelete i (pl_working st), pl_touched := pl_touched st @ [i],
        pl_mutations := pl_mutations st @ [DeleteShift b] \<rparr>"
      "i \<notin> set (pl_touched st)" "map_of saved i = Some b"
proof (cases x)
  case (ShiftCreate op)
  with assms have "planCreate input ids st op = ok st'" by (simp add: planOperation_def)
  then show thesis by (rule planCreate_ok) (rule create)
next
  case (ShiftUpdate op)
  then obtain s1 b a where t: "touchShift saved st (uo_shiftId op) = ok (s1, b)" and a: "updatedShift input b op = ok a"
    and st': "st' = s1 \<lparr> pl_working := mapSet (uo_shiftId op) a (pl_working s1),
        pl_mutations := pl_mutations s1 @ (if sameShift b a then [] else [UpdateShift b a]) \<rparr>"
    using assms by (auto simp: planOperation_def bindR_ok)
  show thesis by (rule update [OF _ touchShift_ok(2,3) [OF t] a]) (simp add: st' touchShift_ok(1) [OF t])
next
  case (ShiftDelete i)
  then obtain s1 b where t: "touchShift saved st i = ok (s1, b)"
    and st': "st' = s1 \<lparr> pl_working := mapDelete i (pl_working s1), pl_mutations := pl_mutations s1 @ [DeleteShift b] \<rparr>"
    using assms by (auto simp: planOperation_def bindR_ok)
  show thesis by (rule delete [OF _ touchShift_ok(2,3) [OF t]]) (simp add: st' touchShift_ok(1) [OF t])
qed

text \<open>A saved shift is an entry under its public identifier.\<close>

locale planning =
  fixes input :: planInput and ids :: "nat \<Rightarrow> string" and saved :: "(string, plannedShift) entries"
  assumes keys: "(k, s) \<in> set saved \<Longrightarrow> ps_publicId s = k"
begin

lemma saved_key: "map_of saved k = Some s \<Longrightarrow> ps_publicId s = k"
  by (rule keys [OF map_of_SomeD])

definition entryOk :: "string \<times> plannedShift \<Rightarrow> bool" where
  "entryOk = (\<lambda>(k, s). ps_publicId s = k
     \<and> ps_userInternalId s \<in> ps_userInternalId ` ran (map_of saved) \<union> {None} \<union> (Some \<circ> ru_internalId) ` ran (in_users input)
     \<and> ((\<forall>c \<in> ran (map_of saved). breaksInside c) \<longrightarrow> breaksInside s))"

lemma workingOk_alt:
  "workingOk input (map_of saved) st \<longleftrightarrow> distinct (map fst (pl_working st)) \<and> (\<forall>p \<in> set (pl_working st). entryOk p)
     \<and> list_all (mutationOf (map_of saved)) (pl_mutations st)
     \<and> map mutationTarget (filter isCreate (pl_mutations st)) = map snd (pl_created st)"
  by (simp add: workingOk_def entryOk_def)

lemma entries_set: "\<forall>p \<in> set m. entryOk p \<Longrightarrow> entryOk (k, a) \<Longrightarrow> \<forall>p \<in> set (mapSet k a m). entryOk p"
  using set_mapSet [of k a m] by blast

lemma working_step:
  assumes I: "workingOk input (map_of saved) st" and r: "planOperation input ids saved st x = ok st'"
  shows "workingOk input (map_of saved) st'"
  using r
proof (cases rule: planOperation_cases)
  case (create a cl c)
  have "entryOk (ps_publicId a, a)" using create by (auto simp: entryOk_def breaksInside_def)
  from entries_set [OF _ this, of "pl_working st"] show ?thesis
    using I create by (simp add: workingOk_alt distinct_mapSet)
next
  case (update i b a op)
  note a = updatedShift_ok [OF update(4)] and b = saved_key [OF update(3)]
  have "entryOk (i, a)" using a b ranI [of "map_of saved" i b] update(3) by (auto simp: entryOk_def)
  from entries_set [OF _ this, of "pl_working st"] show ?thesis
    using I update a b by (simp add: workingOk_alt distinct_mapSet)
next
  case (delete i b)
  then show ?thesis
    using I set_mapDelete [of i "pl_working st"] saved_key by (auto simp: workingOk_alt distinct_mapDelete)
qed

lemma fresh_before:
  "freshIds m st' \<Longrightarrow> planOperation input ids saved st x = ok st' \<Longrightarrow> freshIds m st"
  by (erule planOperation_cases) (auto simp: freshIds_def)

lemma untouched:
  assumes "effectOk m st" and "freshIds m st" and "i \<notin> set (pl_touched st)" and "i \<in> dom m"
  shows "i \<notin> mutationTarget ` set (pl_mutations st)"
proof
  assume "i \<in> mutationTarget ` set (pl_mutations st)"
  then have "i \<in> snd ` set (pl_created st)" using assms(1,3) unfolding effectOk_def by blast
  then show False using assms(2,4) unfolding freshIds_def by blast
qed

lemma effect_step:
  assumes I: "effectOk (map_of saved) st" and r: "planOperation input ids saved st x = ok st'" and f: "freshIds (map_of saved) st'"
  shows "effectOk (map_of saved) st'"
  using r
proof (cases rule: planOperation_cases)
  case (create a cl c)
  have new: "ps_publicId a \<notin> mutationTarget ` set (pl_mutations st)"
    using f I create(1) by (auto simp: freshIds_def effectOk_def)
  then show ?thesis using I create mutated_snoc [of "CreateShift a c" "pl_mutations st" "map_of saved"]
    by (auto simp: effectOk_def)
next
  case (update i b a op)
  have i: "i \<in> dom (map_of saved)" using update(3) by auto
  note new = untouched [OF I fresh_before [OF f r] update(2) i]
  note b = saved_key [OF update(3)]
  show ?thesis
  proof (cases "sameShift b a")
    case True
    then show ?thesis
      using I update i updatedShift_same [OF update(4)] mutated_absent [OF new, of "map_of saved"] by (auto simp: effectOk_def)
  next
    case False
    then show ?thesis
      using I update i b new mutated_snoc [of "UpdateShift b a" "pl_mutations st" "map_of saved"] by (auto simp: effectOk_def)
  qed
next
  case (delete i b)
  have i: "i \<in> dom (map_of saved)" using delete(3) by auto
  note new = untouched [OF I fresh_before [OF f r] delete(2) i]
  note b = saved_key [OF delete(3)]
  show ?thesis using I delete i b new mutated_snoc [of "DeleteShift b" "pl_mutations st" "map_of saved"]
    by (auto simp: effectOk_def)
qed

lemma plan_fold:
  assumes r: "foldR (planOperation input ids saved) \<lparr> pl_working = saved, pl_touched = [], pl_clientIds = [], pl_mutations = [], pl_created = [] \<rparr> ops = ok st"
    and d: "distinct (map fst saved)"
  shows "workingOk input (map_of saved) st \<and> (freshIds (map_of saved) st \<longrightarrow> effectOk (map_of saved) st)"
proof (rule foldR_invariant [OF r])
  have "entryOk (k, s)" if p: "(k, s) \<in> set saved" for k s
  proof -
    have "s \<in> ran (map_of saved)" using map_of_is_SomeI [OF d p] by (rule ranI)
    then show ?thesis using keys [OF p] by (auto simp: entryOk_def)
  qed
  then have "\<forall>p \<in> set saved. entryOk p" by auto
  then show "workingOk input (map_of saved) \<lparr> pl_working = saved, pl_touched = [], pl_clientIds = [], pl_mutations = [], pl_created = [] \<rparr>
    \<and> (freshIds (map_of saved) \<lparr> pl_working = saved, pl_touched = [], pl_clientIds = [], pl_mutations = [], pl_created = [] \<rparr> \<longrightarrow>
       effectOk (map_of saved) \<lparr> pl_working = saved, pl_touched = [], pl_clientIds = [], pl_mutations = [], pl_created = [] \<rparr>)"
    using d by (simp add: workingOk_alt effectOk_def mutated_def)
qed (use working_step effect_step fresh_before in blast)

end

section \<open>What the checks establish\<close>

definition inWindow :: "instant \<Rightarrow> instant \<Rightarrow> plannedShift \<Rightarrow> bool" where
  "inWindow scheduleStart scheduleEnd s \<longleftrightarrow> ps_startTime s < ps_endTime s \<and> scheduleStart \<le> ps_startTime s
     \<and> ps_startTime s < scheduleEnd \<and> ps_endTime s \<le> ps_startTime s + 86400000"

lemma validateWindow_ok: "validateWindow s a b = ok u \<longleftrightarrow> inWindow a b s"
  by (auto simp: validateWindow_def inWindow_def bindR_ok checkR_ok)

text \<open>What is relied on of \<open>localeCompare\<close>: a total preorder that tells the identifiers at hand apart.\<close>

definition tellsApart :: "collation \<Rightarrow> string set \<Rightarrow> bool" where
  "tellsApart collate ids \<longleftrightarrow> comparator collate \<and> (\<forall>u \<in> ids. \<forall>v \<in> ids. collate u v \<and> collate v u \<longrightarrow> u = v)"

lemma tellsApartD: "tellsApart collate ids \<Longrightarrow> u \<in> ids \<Longrightarrow> v \<in> ids \<Longrightarrow> collate u v \<Longrightarrow> collate v u \<Longrightarrow> u = v"
  unfolding tellsApart_def by blast

lemma comparator_assignedOrder: "comparator collate \<Longrightarrow> comparator (assignedOrder collate)"
  unfolding assignedOrder_def
  by (intro comparator_thenCompare comparator_byKey) (unfold_locales; metis comparator.le_total comparator.le_trans)+

lemma neighbours_suffice:
  assumes "checkNeighbours xs = ok u" and "sorted_wrt (assignedOrder collate) xs" and "\<forall>s \<in> set xs. ps_startTime s < ps_endTime s \<and> hasUser s"
    and "tellsApart collate (userOf ` set xs)"
  shows "sorted_wrt (\<lambda>a b. ps_userInternalId a = ps_userInternalId b \<longrightarrow> ps_endTime a \<le> ps_startTime b) xs"
  using assms
proof (induction xs rule: checkNeighbours.induct)
  case (1 p c rest)
  let ?same = "\<lambda>a b. ps_userInternalId a = ps_userInternalId b \<longrightarrow> ps_endTime a \<le> ps_startTime b"
  have t: "tellsApart collate (userOf ` set (c # rest))" using "1.prems"(4) by (auto simp: tellsApart_def)
  have tail: "sorted_wrt ?same (c # rest)"
    using "1.IH" [OF _ _ _ _ t] "1.prems"(1-3) by (auto simp: bindR_ok checkR_ok)
  have pc: "?same p c"
  proof
    assume u: "ps_userInternalId p = ps_userInternalId c"
    then have e: "userOf p = userOf c" by (simp add: userOf_def)
    have "assignedOrder collate p c" using "1.prems"(2) by simp
    then have "ps_startTime p \<le> ps_startTime c" using e by (auto simp: assignedOrder_def thenCompare_def byKey_def)
    then show "ps_endTime p \<le> ps_startTime c"
      using "1.prems"(1,3) u by (auto simp: bindR_ok checkR_ok shiftsOverlap_def windowsOverlap_def not_less)
  qed
  have "?same p z" if z: "z \<in> set rest" for z
  proof
    assume u: "ps_userInternalId p = ps_userInternalId z"
    then have e: "userOf p = userOf z" by (simp add: userOf_def)
    have o: "assignedOrder collate p c" "assignedOrder collate c z" using "1.prems"(2) z by simp_all
    have c1: "collate (userOf p) (userOf c)" using o(1) by (simp add: assignedOrder_def thenCompare_def)
    have c2: "collate (userOf c) (userOf z)" using o(2) by (simp add: assignedOrder_def thenCompare_def)
    have pc': "userOf p = userOf c" by (rule tellsApartD [OF "1.prems"(4) _ _ c1]) (use c2 e in simp_all)
    have "hasUser p" "hasUser c" using "1.prems"(3) by simp_all
    then have "ps_userInternalId p = ps_userInternalId c"
      using pc' by (auto simp: userOf_def hasUser_def split: option.splits)
    moreover have "ps_startTime c \<le> ps_startTime z"
      using o(2) c1 pc' by (simp add: assignedOrder_def thenCompare_def byKey_def flip: e)
    ultimately show "ps_endTime p \<le> ps_startTime z" using pc by auto
  qed
  then show ?case using tail pc by simp
qed auto

text \<open>No employee is in two places: two different shifts of one employee never overlap.\<close>

definition noDoubleBooking :: "plannedShift list \<Rightarrow> bool" where
  "noDoubleBooking xs \<longleftrightarrow> (\<forall>a \<in> set xs. \<forall>b \<in> set xs. a \<noteq> b \<and> hasUser a \<and> ps_userInternalId a = ps_userInternalId b \<longrightarrow> \<not> shiftsOverlap a b)"

definition acceptable :: "planInput \<Rightarrow> plannedShift list \<Rightarrow> bool" where
  "acceptable input xs \<longleftrightarrow> (\<forall>s \<in> set xs. inWindow (in_scheduleStart input) (in_scheduleEnd input) s)
     \<and> noDoubleBooking xs \<and> (\<forall>s \<in> set xs. \<forall>x \<in> set (in_externalShifts input). hasUser s \<longrightarrow> \<not> conflictsWith s x)"

lemma shiftsOverlap_sym: "shiftsOverlap a b = shiftsOverlap b a"
  by (auto simp: shiftsOverlap_def windowsOverlap_def)

lemma sorted_wrt_symmetric:
  assumes "distinct xs" and "\<And>a b. R a b = R b a"
  shows "sorted_wrt R xs \<longleftrightarrow> (\<forall>a \<in> set xs. \<forall>b \<in> set xs. a \<noteq> b \<longrightarrow> R a b)"
  using assms(1)
proof (induction xs)
  case (Cons x xs)
  then show ?case using assms(2) by auto
qed simp

lemma sameUserApart:
  assumes "sorted_wrt (\<lambda>a b. ps_userInternalId a = ps_userInternalId b \<longrightarrow> ps_endTime a \<le> ps_startTime b) xs"
  shows "sorted_wrt (\<lambda>a b. \<not> (ps_userInternalId a = ps_userInternalId b \<and> shiftsOverlap a b)) xs"
  by (rule sorted_wrt_mono_rel [OF _ assms]) (auto simp: shiftsOverlap_def windowsOverlap_def)

lemma checkNeighbours_apart:
  "sorted_wrt (\<lambda>a b. \<not> (ps_userInternalId a = ps_userInternalId b \<and> shiftsOverlap a b)) xs \<Longrightarrow> checkNeighbours xs = ok ()"
  by (induction xs rule: checkNeighbours.induct) auto

text \<open>Comparing neighbours of the sorted list decides whether anyone is booked twice.\<close>

lemma checkNeighbours_iff:
  assumes "distinct xs" and "\<forall>s \<in> set xs. ps_startTime s < ps_endTime s" and "tellsApart collate (userOf ` set (filter hasUser xs))"
  shows "checkNeighbours (sortBy (assignedOrder collate) (filter hasUser xs)) = ok () \<longleftrightarrow> noDoubleBooking xs"
proof -
  let ?ys = "sortBy (assignedOrder collate) (filter hasUser xs)"
  let ?R = "\<lambda>a b. \<not> (ps_userInternalId a = ps_userInternalId b \<and> shiftsOverlap a b)"
  have c: "comparator (assignedOrder collate)" using assms(3) by (intro comparator_assignedOrder) (simp add: tellsApart_def)
  have "sorted_wrt ?R ?ys" if k: "checkNeighbours ?ys = ok ()"
    by (rule sameUserApart, rule neighbours_suffice [OF k comparator.sorted_sortBy [OF c]]) (use assms(2,3) in simp_all)
  then have "checkNeighbours ?ys = ok () \<longleftrightarrow> sorted_wrt ?R ?ys" using checkNeighbours_apart [of ?ys] by blast
  also have "\<dots> \<longleftrightarrow> (\<forall>a \<in> set ?ys. \<forall>b \<in> set ?ys. a \<noteq> b \<longrightarrow> ?R a b)"
    using assms(1) shiftsOverlap_sym by (intro sorted_wrt_symmetric) auto
  also have "\<dots> \<longleftrightarrow> noDoubleBooking xs"
    by (auto simp: noDoubleBooking_def hasUser_def)
  finally show ?thesis .
qed

lemma planning_saved: "planning (savedShifts input)"
  unfolding savedShifts_def by unfold_locales (use newMap_entries in fastforce)

text \<open>The identifiers of the employees a request may involve.\<close>

definition involvedIds :: "planInput \<Rightarrow> string set" where
  "involvedIds input = userOf ` set (in_currentShifts input) \<union> ru_internalId ` ran (in_users input)"

lemma saved_current: "map_of (savedShifts input) k = Some s \<Longrightarrow> s \<in> set (in_currentShifts input) \<and> ps_publicId s = k"
proof -
  assume "map_of (savedShifts input) k = Some s"
  then have "(k, s) \<in> set (map (\<lambda>s. (ps_publicId s, s)) (in_currentShifts input))"
    using newMap_entries map_of_SomeD unfolding savedShifts_def by (metis subsetD)
  then show ?thesis by auto
qed

lemma ran_saved: "ran (map_of (savedShifts input)) \<subseteq> set (in_currentShifts input)"
  using saved_current by (auto simp: ran_def)

lemma working_users:
  assumes "workingOk input (map_of (savedShifts input)) st"
  shows "userOf ` set (filter hasUser (map snd (pl_working st))) \<subseteq> involvedIds input"
proof
  fix u
  assume "u \<in> userOf ` set (filter hasUser (map snd (pl_working st)))"
  then obtain k s where s: "(k, s) \<in> set (pl_working st)" "ps_userInternalId s = Some u"
    by (auto simp: hasUser_def userOf_def split: option.splits)
  then have "Some u \<in> ps_userInternalId ` ran (map_of (savedShifts input)) \<union> (Some \<circ> ru_internalId) ` ran (in_users input)"
    using assms unfolding workingOk_def by force
  then have "Some u \<in> ps_userInternalId ` set (in_currentShifts input) \<union> (Some \<circ> ru_internalId) ` ran (in_users input)"
    using ran_saved by blast
  then show "u \<in> involvedIds input"
  proof
    assume "Some u \<in> ps_userInternalId ` set (in_currentShifts input)"
    then obtain c where "c \<in> set (in_currentShifts input)" "ps_userInternalId c = Some u" by auto
    then show ?thesis unfolding involvedIds_def by (intro UnI1 image_eqI [of _ _ c]) (simp_all add: userOf_def)
  qed (auto simp: involvedIds_def)
qed

lemma planOperations_ok:
  assumes "planOperations ids input = ok st"
  shows "workingOk input (map_of (savedShifts input)) st" "freshIds (map_of (savedShifts input)) st \<longrightarrow> effectOk (map_of (savedShifts input)) st"
  using planning.plan_fold [OF planning_saved assms [unfolded planOperations_def]] newMap_entries
  by (auto simp: savedShifts_def)

lemma working_publicIds:
  assumes "workingOk input saved st"
  shows "map ps_publicId (map snd (pl_working st)) = map fst (pl_working st)" "distinct (map ps_publicId (map snd (pl_working st)))"
proof -
  show "map ps_publicId (map snd (pl_working st)) = map fst (pl_working st)"
    using assms unfolding workingOk_def by auto
  then show "distinct (map ps_publicId (map snd (pl_working st)))" using assms by (simp only: workingOk_def)
qed

lemma plan_iff:
  assumes "tellsApart (collate :: collation) (involvedIds input)"
  shows "planScheduleChangeSet collate ids input = ok plan \<longleftrightarrow>
    (\<exists>st. planOperations ids input = ok st \<and> pl_mutations st \<noteq> [] \<and> acceptable input (map snd (pl_working st))
       \<and> plan = \<lparr> cp_finalShifts = map snd (pl_working st), cp_mutations = pl_mutations st, cp_created = pl_created st \<rparr>)"
proof (cases "planOperations ids input")
  case (Inr st)
  let ?xs = "map snd (pl_working st)"
  let ?ext = "\<lambda>s. \<forall>x \<in> set (in_externalShifts input). \<not> conflictsWith s x"
  have w: "workingOk input (map_of (savedShifts input)) st" by (rule planOperations_ok(1) [OF Inr])
  have t: "tellsApart collate (userOf ` set (filter hasUser ?xs))"
    using assms working_users [OF w] unfolding tellsApart_def by blast
  have d: "distinct ?xs" using working_publicIds(2) [OF w] unfolding distinct_map [of ps_publicId] by blast
  have n: "checkNeighbours (sortBy (assignedOrder collate) (filter hasUser ?xs)) = ok () \<longleftrightarrow> noDoubleBooking ?xs"
    if "\<forall>s \<in> set ?xs. inWindow (in_scheduleStart input) (in_scheduleEnd input) s"
    by (rule checkNeighbours_iff [OF d _ t]) (use that in \<open>simp add: inWindow_def\<close>)
  have "planScheduleChangeSet collate ids input = ok plan \<longleftrightarrow> pl_mutations st \<noteq> []
      \<and> (\<forall>s \<in> set ?xs. inWindow (in_scheduleStart input) (in_scheduleEnd input) s)
      \<and> checkNeighbours (sortBy (assignedOrder collate) (filter hasUser ?xs)) = ok ()
      \<and> (\<forall>s \<in> set (filter hasUser ?xs). ?ext s)
      \<and> plan = \<lparr> cp_finalShifts = ?xs, cp_mutations = pl_mutations st, cp_created = pl_created st \<rparr>"
    unfolding planScheduleChangeSet_def Let_def
    by (simp only: Inr bindR_simps bindR_ok checkR_ok eachR_ok validateWindow_ok list_ex_iff set_sortBy sum.inject) auto
  then show ?thesis using n by (auto simp: Inr acceptable_def)
qed (simp add: planScheduleChangeSet_def)

text \<open>What a plan tells the service that applies it.\<close>

lemma plan_facts:
  assumes "planScheduleChangeSet collate ids input = ok plan"
  obtains st where "planOperations ids input = ok st" "plan = \<lparr> cp_finalShifts = map snd (pl_working st), cp_mutations = pl_mutations st, cp_created = pl_created st \<rparr>"
    "\<forall>s \<in> set (cp_finalShifts plan). inWindow (in_scheduleStart input) (in_scheduleEnd input) s"
    "workingOk input (map_of (savedShifts input)) st" "pl_mutations st \<noteq> []"
proof -
  obtain st where st: "planOperations ids input = ok st" "plan = \<lparr> cp_finalShifts = map snd (pl_working st), cp_mutations = pl_mutations st, cp_created = pl_created st \<rparr>"
    "\<forall>s \<in> set (map snd (pl_working st)). inWindow (in_scheduleStart input) (in_scheduleEnd input) s" "pl_mutations st \<noteq> []"
    using assms unfolding planScheduleChangeSet_def Let_def by (auto simp: bindR_ok checkR_ok eachR_ok validateWindow_ok)
  then show thesis using that planOperations_ok(1) [OF st(1)] by simp
qed

lemma dom_saved: "dom (map_of (savedShifts input)) \<subseteq> ps_publicId ` set (in_currentShifts input)"
  using saved_current by blast

lemma map_of_final:
  assumes "workingOk input saved st"
  shows "map_of (map (\<lambda>s. (ps_publicId s, s)) (map snd (pl_working st))) = map_of (pl_working st)"
proof -
  have "map (\<lambda>s. (ps_publicId s, s)) (map snd (pl_working st)) = pl_working st"
    using assms unfolding workingOk_def by (auto intro!: map_idI)
  then show ?thesis by simp
qed

lemma plan_effects:
  assumes "planScheduleChangeSet collate ids input = ok plan"
    and "distinct (map snd (cp_created plan))" and "snd ` set (cp_created plan) \<inter> ps_publicId ` set (in_currentShifts input) = {}"
  shows "distinct (map mutationTarget (cp_mutations plan))"
    and "map_option storedFacts (map_of (map (\<lambda>s. (ps_publicId s, s)) (cp_finalShifts plan)) k)
       = map_option storedFacts (mutated (cp_mutations plan) (map_of (savedShifts input)) k)"
proof -
  obtain st where st: "planOperations ids input = ok st" "plan = \<lparr> cp_finalShifts = map snd (pl_working st), cp_mutations = pl_mutations st, cp_created = pl_created st \<rparr>"
    "workingOk input (map_of (savedShifts input)) st" by (rule plan_facts [OF assms(1)])
  have c: "cp_created plan = pl_created st" by (simp add: st(2))
  have "snd ` set (pl_created st) \<inter> dom (map_of (savedShifts input)) = {}"
    using assms(3) dom_saved [of input] unfolding c by (meson disjoint_iff subsetD)
  then have "freshIds (map_of (savedShifts input)) st" using assms(2) unfolding freshIds_def c by blast
  then have e: "effectOk (map_of (savedShifts input)) st" using planOperations_ok(2) [OF st(1)] by blast
  then show "distinct (map mutationTarget (cp_mutations plan))" by (simp add: effectOk_def st(2))
  show "map_option storedFacts (map_of (map (\<lambda>s. (ps_publicId s, s)) (cp_finalShifts plan)) k)
       = map_option storedFacts (mutated (cp_mutations plan) (map_of (savedShifts input)) k)"
    using e map_of_final [OF st(3)] by (simp add: effectOk_def st(2))
qed

section \<open>Properties\<close>

definition sampleShift :: "string \<Rightarrow> string \<Rightarrow> instant \<Rightarrow> instant \<Rightarrow> plannedShift" where
  "sampleShift i u s e = \<lparr> ps_internalId = Some i, ps_publicId = i, ps_userInternalId = Some u, ps_userPublicId = Some u,
     ps_startTime = s, ps_endTime = e, ps_role = None, ps_breaks = [] \<rparr>"

definition sampleInput :: "shiftOperation list \<Rightarrow> planInput" where
  "sampleInput ops = \<lparr> in_scheduleStart = 0, in_scheduleEnd = 604800000,
     in_currentShifts = [sampleShift ''s1'' ''u1'' 0 3600000, sampleShift ''s2'' ''u2'' 3600000 7200000], in_externalShifts = [],
     in_users = [''p1'' \<mapsto> \<lparr> ru_internalId = ''u1'', ru_publicId = ''p1'' \<rparr>], in_operations = ops \<rparr>"

lemma tellsApart_sample: "tellsApart sampleCollate ids"
  unfolding tellsApart_def sampleCollate_def by (auto intro!: comparator.intro)

text \<open>
  Property C20.  A change set is accepted exactly when its result is a sound schedule: given that the operations themselves can be
  planned and change something, the plan succeeds if and only if every resulting shift lies in the window of the schedule,
  no employee has two overlapping shifts in it, and none of its assigned shifts overlaps one the employee has
  elsewhere.  Sorting the assigned shifts and comparing neighbours misses no overlap.
\<close>

theorem plan_accepts_exactly:
  assumes "tellsApart collate (involvedIds input)" and "planOperations ids input = ok st" and "pl_mutations st \<noteq> []"
  shows "(\<exists>plan. planScheduleChangeSet collate ids input = ok plan) \<longleftrightarrow> acceptable input (map snd (pl_working st))"
  unfolding plan_iff [OF assms(1)] using assms(2,3) by simp

theorem plan_accepts_exactly_witness:
  "(\<exists>plan. planScheduleChangeSet sampleCollate sampleUuid (sampleInput [ShiftDelete ''s1'']) = ok plan)
   \<longleftrightarrow> acceptable (sampleInput [ShiftDelete ''s1'']) [sampleShift ''s2'' ''u2'' 3600000 7200000]"
proof -
  have "planOperations sampleUuid (sampleInput [ShiftDelete ''s1'']) =
      ok \<lparr> pl_working = [(''s2'', sampleShift ''s2'' ''u2'' 3600000 7200000)], pl_touched = [''s1''], pl_clientIds = [],
           pl_mutations = [DeleteShift (sampleShift ''s1'' ''u1'' 0 3600000)], pl_created = [] \<rparr>"
    by (simp add: planOperations_def savedShifts_def newMap_def planOperation_def touchShift_def sampleInput_def sampleShift_def mapDelete_def)
  from plan_accepts_exactly [OF tellsApart_sample this] show ?thesis by simp
qed

text \<open>
  Property C21.  The mutations of a plan make the result it was checked for: when the generated identifiers are new, every shift is the target of
  one mutation at most, and carrying the mutations out on the saved shifts, in any order, gives under each
  public identifier exactly the shift of the final schedule, with employee, times, role and breaks.
\<close>

theorem plan_mutations_give_result:
  assumes "planScheduleChangeSet collate ids input = ok plan"
    and "distinct (map snd (cp_created plan))" and "snd ` set (cp_created plan) \<inter> ps_publicId ` set (in_currentShifts input) = {}"
  shows "distinct (map mutationTarget (cp_mutations plan))
    \<and> (\<forall>k. map_option storedFacts (map_of (map (\<lambda>s. (ps_publicId s, s)) (cp_finalShifts plan)) k)
         = map_option storedFacts (mutated (cp_mutations plan) (map_of (savedShifts input)) k))"
  using plan_effects [OF assms] by blast

theorem plan_mutations_give_result_witness:
  "\<exists>plan. planScheduleChangeSet sampleCollate sampleUuid (sampleInput [ShiftDelete ''s1'']) = ok plan
     \<and> map_option storedFacts (map_of (map (\<lambda>s. (ps_publicId s, s)) (cp_finalShifts plan)) ''s1'')
         = map_option storedFacts (mutated (cp_mutations plan) (map_of (savedShifts (sampleInput [ShiftDelete ''s1'']))) ''s1'')"
proof -
  let ?i = "sampleInput [ShiftDelete ''s1'']"
  obtain plan where p: "planScheduleChangeSet sampleCollate sampleUuid ?i = ok plan" "cp_created plan = []"
    by (simp add: planScheduleChangeSet_def planOperations_def savedShifts_def newMap_def planOperation_def touchShift_def sampleInput_def
        sampleShift_def mapDelete_def validateWindow_def hasUser_def)
  then have d: "distinct (map snd (cp_created plan))" "snd ` set (cp_created plan) \<inter> ps_publicId ` set (in_currentShifts ?i) = {}" by simp_all
  show ?thesis using plan_mutations_give_result [OF p(1) d] p(1) by blast
qed

end
