(* ===== verification/BreakPlacement.thy ===== *)
theory BreakPlacement
  imports ScheduleContract
begin

text \<open>
  Lunch and break policy and the placement of breaks in a shift (\<open>operations/lunch-breaks.service.ts\<close>: \<open>integer\<close>,
  \<open>normalizePolicy\<close>, \<open>placeBreaks\<close>, \<open>placeBreakSubset\<close>, \<open>minimumGap\<close>).  The placement is compared with a declarative
  one: a set of breaks fits when start times exist that keep the gaps and the shift, and the code finds times
  whenever they exist and chooses the best set that fits.  Instants that the code prints with \<open>toISOString\<close> at once
  and reads back later stay instants.
\<close>

section \<open>Policy\<close>

record lunchBreakPolicy =
  lk_break1OffsetMinutes :: int
  lk_lunchOffsetMinutes :: int
  lk_break2OffsetMinutes :: int
  lk_break1DurationMinutes :: int
  lk_lunchDurationMinutes :: int
  lk_break2DurationMinutes :: int
  lk_timeStepMinutes :: int

definition DEFAULT_POLICY :: lunchBreakPolicy where
  "DEFAULT_POLICY = \<lparr> lk_break1OffsetMinutes = 120, lk_lunchOffsetMinutes = 240, lk_break2OffsetMinutes = 120,
     lk_break1DurationMinutes = 10, lk_lunchDurationMinutes = 30, lk_break2DurationMinutes = 10, lk_timeStepMinutes = 5 \<rparr>"

text \<open>\<open>Number(value)\<close> where it is a whole number; a text of another number (a fraction, an exponent, another radix) is
  outside the model and counts as \<open>NaN\<close>.\<close>

fun numberOf :: "json \<Rightarrow> int option" where
  "numberOf (JNum n) = Some n"
| "numberOf JNull = Some 0"
| "numberOf (JBool b) = Some (if b then 1 else 0)"
| "numberOf (JStr s) =
     (let t = trim s
      in if t = [] then Some 0
         else if isDigits t then Some (int (digitsValue t))
         else if hd t = CHR ''-'' \<and> isDigits (tl t) then Some (- int (digitsValue (tl t)))
         else if hd t = CHR ''+'' \<and> isDigits (tl t) then Some (int (digitsValue (tl t)))
         else None)"
| "numberOf (JDate t) = Some t"
| "numberOf (JArr []) = Some 0"
| "numberOf (JArr [JBool b]) = None"
| "numberOf (JArr [JUndefined]) = Some 0"
| "numberOf (JArr [x]) = numberOf x"
| "numberOf (JArr (x # y # xs)) = None"
| "numberOf (JObj kvs) = None"
| "numberOf JUndefined = None"

definition integer :: "json \<Rightarrow> int \<Rightarrow> int \<Rightarrow> int \<Rightarrow> int" where
  "integer v fallback minimum maximum =
     (case numberOf v of None \<Rightarrow> fallback | Some parsed \<Rightarrow> min maximum (max minimum parsed))"

definition normalizePolicy :: "json \<Rightarrow> lunchBreakPolicy" where
  "normalizePolicy v =
     \<lparr> lk_break1OffsetMinutes = integer (member ''break1OffsetMinutes'' v) (lk_break1OffsetMinutes DEFAULT_POLICY) 10 480,
       lk_lunchOffsetMinutes = integer (member ''lunchOffsetMinutes'' v) (lk_lunchOffsetMinutes DEFAULT_POLICY) 30 600,
       lk_break2OffsetMinutes = integer (member ''break2OffsetMinutes'' v) (lk_break2OffsetMinutes DEFAULT_POLICY) 10 480,
       lk_break1DurationMinutes = integer (member ''break1DurationMinutes'' v) (lk_break1DurationMinutes DEFAULT_POLICY) 5 60,
       lk_lunchDurationMinutes = integer (member ''lunchDurationMinutes'' v) (lk_lunchDurationMinutes DEFAULT_POLICY) 15 120,
       lk_break2DurationMinutes = integer (member ''break2DurationMinutes'' v) (lk_break2DurationMinutes DEFAULT_POLICY) 5 60,
       lk_timeStepMinutes = integer (member ''timeStepMinutes'' v) (lk_timeStepMinutes DEFAULT_POLICY) 1 60 \<rparr>"

definition policyFields :: "lunchBreakPolicy \<Rightarrow> (string \<times> json) list" where
  "policyFields p =
     [(''break1OffsetMinutes'', JNum (lk_break1OffsetMinutes p)), (''lunchOffsetMinutes'', JNum (lk_lunchOffsetMinutes p)),
      (''break2OffsetMinutes'', JNum (lk_break2OffsetMinutes p)), (''break1DurationMinutes'', JNum (lk_break1DurationMinutes p)),
      (''lunchDurationMinutes'', JNum (lk_lunchDurationMinutes p)), (''break2DurationMinutes'', JNum (lk_break2DurationMinutes p)),
      (''timeStepMinutes'', JNum (lk_timeStepMinutes p))]"

text \<open>\<open>{ ...policy, ...patch }\<close>: a member of the patch, \<open>undefined\<close> included, replaces the one of the policy.\<close>

definition patchedPolicy :: "lunchBreakPolicy \<Rightarrow> (string \<times> json) list \<Rightarrow> lunchBreakPolicy" where
  "patchedPolicy p patch = normalizePolicy (JObj (rev patch @ policyFields p))"

definition policyInRange :: "lunchBreakPolicy \<Rightarrow> bool" where
  "policyInRange p \<longleftrightarrow> 10 \<le> lk_break1OffsetMinutes p \<and> lk_break1OffsetMinutes p \<le> 480
     \<and> 30 \<le> lk_lunchOffsetMinutes p \<and> lk_lunchOffsetMinutes p \<le> 600
     \<and> 10 \<le> lk_break2OffsetMinutes p \<and> lk_break2OffsetMinutes p \<le> 480
     \<and> 5 \<le> lk_break1DurationMinutes p \<and> lk_break1DurationMinutes p \<le> 60
     \<and> 15 \<le> lk_lunchDurationMinutes p \<and> lk_lunchDurationMinutes p \<le> 120
     \<and> 5 \<le> lk_break2DurationMinutes p \<and> lk_break2DurationMinutes p \<le> 60
     \<and> 1 \<le> lk_timeStepMinutes p \<and> lk_timeStepMinutes p \<le> 60"

section \<open>Placement\<close>

record breakSpec =
  bs_type :: breakType
  bs_durationMinutes :: int
  bs_preferredStartMs :: instant
  bs_paid :: bool
  bs_priority :: int

record lunchBreak =
  lb_type :: breakType
  lb_startTime :: instant
  lb_endTime :: instant
  lb_durationMinutes :: int
  lb_paid :: bool

definition minimumGap :: "breakType \<Rightarrow> breakType \<Rightarrow> int" where
  "minimumGap l r = (if l = BREAK1 \<and> r = LUNCH then 30 * 60000 else 15 * 60000)"

abbreviation durationMs :: "breakSpec \<Rightarrow> int" where "durationMs s \<equiv> bs_durationMinutes s * 60000"

text \<open>The latest start of each break that leaves room for those after it, computed from the last one back.\<close>

fun latestStarts :: "instant \<Rightarrow> breakSpec list \<Rightarrow> instant list" where
  "latestStarts shiftEndMs [] = []"
| "latestStarts shiftEndMs [s] = [shiftEndMs - durationMs s]"
| "latestStarts shiftEndMs (s # r # specs) =
     (let ls = latestStarts shiftEndMs (r # specs) in (hd ls - minimumGap (bs_type s) (bs_type r) - durationMs s) # ls)"

text \<open>\<open>Math.round(x / step) * step\<close>: the quotients at hand are far from the limits of the number format, so the nearest
  multiple is exact, and half way goes up.\<close>

definition roundToStep :: "int \<Rightarrow> int \<Rightarrow> int" where
  "roundToStep x stepMs = (2 * x + stepMs) div (2 * stepMs) * stepMs"

definition placeOne :: "instant \<Rightarrow> instant \<Rightarrow> int \<Rightarrow> instant \<Rightarrow> breakSpec \<Rightarrow> instant \<Rightarrow> lunchBreak option" where
  "placeOne shiftStartMs shiftEndMs stepMs earliest spec latest =
     (if latest < earliest then None
      else let rounded = roundToStep (min latest (max earliest (bs_preferredStartMs spec))) stepMs;
               start = min latest (max earliest rounded);
               finish = start + durationMs spec
           in if start < shiftStartMs \<or> shiftEndMs < finish \<or> finish \<le> start then None
              else Some \<lparr> lb_type = bs_type spec, lb_startTime = start, lb_endTime = finish,
                     lb_durationMinutes = bs_durationMinutes spec, lb_paid = bs_paid spec \<rparr>)"

definition nextEarliest :: "lunchBreak \<Rightarrow> (breakSpec \<times> instant) list \<Rightarrow> instant" where
  "nextEarliest b rest = (case rest of [] \<Rightarrow> lb_endTime b | p # _ \<Rightarrow> lb_endTime b + minimumGap (lb_type b) (bs_type (fst p)))"

text \<open>The loop over the breaks with their latest starts.\<close>

primrec placeFrom :: "instant \<Rightarrow> instant \<Rightarrow> int \<Rightarrow> instant \<Rightarrow> (breakSpec \<times> instant) list \<Rightarrow> lunchBreak list option" where
  "placeFrom shiftStartMs shiftEndMs stepMs earliest [] = Some []"
| "placeFrom shiftStartMs shiftEndMs stepMs earliest (p # rest) =
     (case placeOne shiftStartMs shiftEndMs stepMs earliest (fst p) (snd p) of
        None \<Rightarrow> None
      | Some b \<Rightarrow> (case placeFrom shiftStartMs shiftEndMs stepMs (nextEarliest b rest) rest of
                     None \<Rightarrow> None
                   | Some output \<Rightarrow> Some (b # output)))"

definition placeBreakSubset :: "instant \<Rightarrow> instant \<Rightarrow> int \<Rightarrow> breakSpec list \<Rightarrow> lunchBreak list option" where
  "placeBreakSubset shiftStartMs shiftEndMs stepMs specs =
     placeFrom shiftStartMs shiftEndMs stepMs (shiftStartMs + 30 * 60000) (zip specs (latestStarts shiftEndMs specs))"

definition breakSpecs :: "instant \<Rightarrow> lunchBreakPolicy \<Rightarrow> int \<Rightarrow> breakSpec list" where
  "breakSpecs shiftStartMs policy lunchDuration =
     [\<lparr> bs_type = BREAK1, bs_durationMinutes = lk_break1DurationMinutes policy,
        bs_preferredStartMs = shiftStartMs + lk_break1OffsetMinutes policy * 60000, bs_paid = True, bs_priority = 2 \<rparr>,
      \<lparr> bs_type = LUNCH, bs_durationMinutes = lunchDuration,
        bs_preferredStartMs = shiftStartMs + lk_lunchOffsetMinutes policy * 60000, bs_paid = False, bs_priority = 4 \<rparr>,
      \<lparr> bs_type = BREAK2, bs_durationMinutes = lk_break2DurationMinutes policy,
        bs_preferredStartMs = shiftStartMs + (lk_lunchOffsetMinutes policy + lunchDuration + lk_break2OffsetMinutes policy) * 60000,
        bs_paid = True, bs_priority = 1 \<rparr>]"

text \<open>\<open>specs.filter((_entry, index) => (mask & (1 << index)) !== 0)\<close>.\<close>

definition selectedBy :: "nat \<Rightarrow> 'a list \<Rightarrow> 'a list" where
  "selectedBy bitset specs = map snd (filter (\<lambda>(i, _). odd (bitset div 2 ^ i)) (enumerate 0 specs))"

definition scoreOf :: "breakSpec list \<Rightarrow> int" where
  "scoreOf specs = sum_list (map bs_priority specs)"

definition betterOf :: "instant \<Rightarrow> instant \<Rightarrow> int \<Rightarrow> lunchBreak list \<times> int \<Rightarrow> breakSpec list \<Rightarrow> lunchBreak list \<times> int" where
  "betterOf shiftStartMs shiftEndMs stepMs best selected =
     (case placeBreakSubset shiftStartMs shiftEndMs stepMs selected of
        None \<Rightarrow> best
      | Some candidate \<Rightarrow>
          if length (fst best) < length candidate \<or> length candidate = length (fst best) \<and> snd best < scoreOf selected
          then (candidate, scoreOf selected) else best)"

definition placeBreaks :: "instant \<Rightarrow> instant \<Rightarrow> lunchBreakPolicy \<Rightarrow> int \<Rightarrow> lunchBreak list" where
  "placeBreaks shiftStartMs shiftEndMs policy lunchDuration =
     (let specs = breakSpecs shiftStartMs policy lunchDuration; stepMs = lk_timeStepMinutes policy * 60000
      in fst (foldl (\<lambda>best bitset. betterOf shiftStartMs shiftEndMs stepMs best (selectedBy bitset specs)) ([], 0) [1..<2 ^ length specs]))"

section \<open>Policies are in range\<close>

lemma integer_range: "minimum \<le> fallback \<Longrightarrow> fallback \<le> maximum \<Longrightarrow> minimum \<le> integer v fallback minimum maximum \<and> integer v fallback minimum maximum \<le> maximum"
  by (auto simp: integer_def split: option.split)

lemma normalizePolicy_range: "policyInRange (normalizePolicy v)"
  unfolding policyInRange_def normalizePolicy_def DEFAULT_POLICY_def by (simp add: integer_range)

lemma integer_num: "minimum \<le> n \<Longrightarrow> n \<le> maximum \<Longrightarrow> integer (JNum n) fallback minimum maximum = n"
  by (simp add: integer_def)

lemma normalizePolicy_fields: "policyInRange p \<Longrightarrow> normalizePolicy (JObj (policyFields p)) = p"
  by (simp add: normalizePolicy_def policyFields_def policyInRange_def member_def integer_num)

section \<open>Feasibility\<close>

text \<open>Start times \<open>ts\<close> for the breaks in order: none before \<open>earliest\<close>, the gaps kept, and the last over by the end of the shift.\<close>

fun fitsAt :: "instant \<Rightarrow> instant \<Rightarrow> breakSpec list \<Rightarrow> instant list \<Rightarrow> bool" where
  "fitsAt earliest shiftEnd [] [] \<longleftrightarrow> True"
| "fitsAt earliest shiftEnd [s] [t] \<longleftrightarrow> earliest \<le> t \<and> t + durationMs s \<le> shiftEnd"
| "fitsAt earliest shiftEnd (s # r # specs) (t # ts) \<longleftrightarrow>
     earliest \<le> t \<and> fitsAt (t + durationMs s + minimumGap (bs_type s) (bs_type r)) shiftEnd (r # specs) ts"
| "fitsAt earliest shiftEnd _ _ \<longleftrightarrow> False"

definition feasible :: "instant \<Rightarrow> instant \<Rightarrow> breakSpec list \<Rightarrow> bool" where
  "feasible shiftStart shiftEnd specs \<longleftrightarrow> (\<exists>ts. fitsAt (shiftStart + 30 * 60000) shiftEnd specs ts)"

lemma length_latestStarts [simp]: "length (latestStarts e specs) = length specs"
  by (induction e specs rule: latestStarts.induct) (simp_all add: Let_def)

lemma fits_latest: "fitsAt e shiftEnd specs ts \<Longrightarrow> specs \<noteq> [] \<Longrightarrow> e \<le> hd (latestStarts shiftEnd specs)"
proof (induction e shiftEnd specs ts rule: fitsAt.induct)
  case (3 e shiftEnd s r specs t ts)
  then show ?case by (simp add: Let_def)
qed auto

lemma latest_inside:
  "\<forall>s \<in> set specs. 0 < bs_durationMinutes s \<Longrightarrow> list_all (\<lambda>(s, l). l + durationMs s \<le> shiftEnd) (zip specs (latestStarts shiftEnd specs))"
proof (induction shiftEnd specs rule: latestStarts.induct)
  case (3 shiftEnd s r specs)
  obtain l ls where ls: "latestStarts shiftEnd (r # specs) = l # ls"
    by (metis length_0_conv length_latestStarts list.distinct(1) list.exhaust)
  then have "list_all (\<lambda>(s, l). l + durationMs s \<le> shiftEnd) (zip (r # specs) (l # ls))" using 3 by simp
  moreover have "0 < durationMs r" "0 < minimumGap (bs_type s) (bs_type r)" using 3 by (simp_all add: minimumGap_def)
  ultimately show ?case by (simp add: Let_def ls)
qed simp_all

definition placesSpec :: "breakSpec \<Rightarrow> lunchBreak \<Rightarrow> bool" where
  "placesSpec s b \<longleftrightarrow> lb_type b = bs_type s \<and> lb_durationMinutes b = bs_durationMinutes s \<and> lb_paid b = bs_paid s
     \<and> lb_endTime b = lb_startTime b + durationMs s"

lemma placeOne_some:
  assumes "e \<le> l" and "shiftStart \<le> e" and "l + durationMs s \<le> shiftEnd" and "0 < bs_durationMinutes s"
  obtains b where "placeOne shiftStart shiftEnd stepMs e s l = Some b" "e \<le> lb_startTime b" "lb_startTime b \<le> l" "placesSpec s b"
proof -
  define start where "start = min l (max e (roundToStep (min l (max e (bs_preferredStartMs s))) stepMs))"
  have st: "e \<le> start" "start \<le> l" using assms(1) by (auto simp: start_def)
  show thesis
    by (rule that [of "\<lparr> lb_type = bs_type s, lb_startTime = start, lb_endTime = start + durationMs s,
          lb_durationMinutes = bs_durationMinutes s, lb_paid = bs_paid s \<rparr>"])
      (use st assms in \<open>simp_all add: placeOne_def placesSpec_def Let_def flip: start_def\<close>)
qed

lemma placeFrom_some:
  assumes "specs \<noteq> []" and "e \<le> hd (latestStarts shiftEnd specs)" and "shiftStart \<le> e" and "\<forall>s \<in> set specs. 0 < bs_durationMinutes s"
  shows "\<exists>out. placeFrom shiftStart shiftEnd stepMs e (zip specs (latestStarts shiftEnd specs)) = Some out
    \<and> fitsAt e shiftEnd specs (map lb_startTime out) \<and> list_all2 placesSpec specs out"
  using assms
proof (induction shiftEnd specs arbitrary: e rule: latestStarts.induct)
  case (2 shiftEnd s)
  then obtain b where "placeOne shiftStart shiftEnd stepMs e s (shiftEnd - durationMs s) = Some b" "e \<le> lb_startTime b"
      "lb_startTime b \<le> shiftEnd - durationMs s" "placesSpec s b"
    by (auto intro: placeOne_some [of e "shiftEnd - durationMs s" shiftStart s shiftEnd stepMs])
  then show ?case by (intro exI [of _ "[b]"]) auto
next
  case (3 shiftEnd s r specs)
  obtain l ls where ls: "latestStarts shiftEnd (r # specs) = l # ls"
    by (metis length_0_conv length_latestStarts list.distinct(1) list.exhaust)
  let ?l = "l - minimumGap (bs_type s) (bs_type r) - durationMs s"
  have all: "latestStarts shiftEnd (s # r # specs) = ?l # l # ls" by (simp add: ls Let_def)
  have in_shift: "?l + durationMs s \<le> shiftEnd" using latest_inside [OF "3.prems"(4), of shiftEnd] unfolding all by simp
  obtain b where b: "placeOne shiftStart shiftEnd stepMs e s ?l = Some b" "e \<le> lb_startTime b" "lb_startTime b \<le> ?l" "placesSpec s b"
    by (rule placeOne_some [OF _ "3.prems"(3) in_shift]) (use "3.prems"(2,4) all in auto)
  have e': "nextEarliest b (zip (r # specs) (l # ls)) = lb_startTime b + durationMs s + minimumGap (bs_type s) (bs_type r)"
    using b(4) by (simp add: nextEarliest_def placesSpec_def)
  have "0 < durationMs s" "0 < minimumGap (bs_type s) (bs_type r)" using "3.prems"(4) by (simp_all add: minimumGap_def)
  then have S: "shiftStart \<le> lb_startTime b + durationMs s + minimumGap (bs_type s) (bs_type r)" using b(2) "3.prems"(3) by linarith
  obtain out where out: "placeFrom shiftStart shiftEnd stepMs (lb_startTime b + durationMs s + minimumGap (bs_type s) (bs_type r))
        (zip (r # specs) (latestStarts shiftEnd (r # specs))) = Some out"
      "fitsAt (lb_startTime b + durationMs s + minimumGap (bs_type s) (bs_type r)) shiftEnd (r # specs) (map lb_startTime out)"
      "list_all2 placesSpec (r # specs) out"
    using "3.IH" [OF _ _ S] b(3) "3.prems"(4) by (auto simp: ls)
  show ?case
  proof (intro exI [of _ "b # out"] conjI)
    have "zip (s # r # specs) (latestStarts shiftEnd (s # r # specs)) = (s, ?l) # zip (r # specs) (l # ls)" unfolding all by simp
    then show "placeFrom shiftStart shiftEnd stepMs e (zip (s # r # specs) (latestStarts shiftEnd (s # r # specs))) = Some (b # out)"
      using b(1) e' out(1) by (simp add: ls del: zip_Cons_Cons)
  qed (use b out in simp_all)
qed simp

lemma placeFrom_late:
  "specs \<noteq> [] \<Longrightarrow> hd (latestStarts shiftEnd specs) < e \<Longrightarrow> placeFrom shiftStart shiftEnd stepMs e (zip specs (latestStarts shiftEnd specs)) = None"
  by (cases specs; cases "latestStarts shiftEnd specs") (simp_all add: placeOne_def, metis length_latestStarts length_Suc_conv list.distinct(1))

text \<open>A subset is placed exactly when it fits, and then with times that fit.\<close>

lemma placeBreakSubset_iff:
  assumes "\<forall>s \<in> set specs. 0 < bs_durationMinutes s"
  shows "(\<exists>out. placeBreakSubset shiftStart shiftEnd stepMs specs = Some out) \<longleftrightarrow> feasible shiftStart shiftEnd specs"
proof (cases "specs = []")
  case True
  have "fitsAt (shiftStart + 30 * 60000) shiftEnd [] []" by simp
  then have "feasible shiftStart shiftEnd []" unfolding feasible_def by blast
  then show ?thesis using True by (simp add: placeBreakSubset_def)
next
  case False
  show ?thesis
  proof
    assume "\<exists>out. placeBreakSubset shiftStart shiftEnd stepMs specs = Some out"
    then have "shiftStart + 30 * 60000 \<le> hd (latestStarts shiftEnd specs)"
      using placeFrom_late [OF False, of shiftEnd "shiftStart + 30 * 60000" shiftStart stepMs] by (fastforce simp: placeBreakSubset_def)
    from placeFrom_some [OF False this _ assms, of shiftStart stepMs]
    show "feasible shiftStart shiftEnd specs" by (auto simp: feasible_def)
  next
    assume "feasible shiftStart shiftEnd specs"
    then have "shiftStart + 30 * 60000 \<le> hd (latestStarts shiftEnd specs)" using fits_latest [OF _ False] by (auto simp: feasible_def)
    from placeFrom_some [OF False this _ assms, of shiftStart stepMs]
    show "\<exists>out. placeBreakSubset shiftStart shiftEnd stepMs specs = Some out" by (auto simp: placeBreakSubset_def)
  qed
qed

lemma placeBreakSubset_fits:
  assumes "\<forall>s \<in> set specs. 0 < bs_durationMinutes s" and "placeBreakSubset shiftStart shiftEnd stepMs specs = Some out"
  shows "fitsAt (shiftStart + 30 * 60000) shiftEnd specs (map lb_startTime out) \<and> list_all2 placesSpec specs out"
proof (cases "specs = []")
  case True
  then show ?thesis using assms(2) by (simp add: placeBreakSubset_def)
next
  case False
  have "shiftStart + 30 * 60000 \<le> hd (latestStarts shiftEnd specs)"
    using assms(2) placeFrom_late [OF False, of shiftEnd "shiftStart + 30 * 60000" shiftStart stepMs] by (fastforce simp: placeBreakSubset_def)
  from placeFrom_some [OF False this _ assms(1), of shiftStart stepMs]
  show ?thesis using assms(2) by (auto simp: placeBreakSubset_def)
qed

section \<open>The best set that fits\<close>

text \<open>\<open>a\<close> is at least as good as \<open>b\<close>: more breaks, or as many and of the same or a higher priority.\<close>

definition asGoodAs :: "nat \<times> int \<Rightarrow> nat \<times> int \<Rightarrow> bool" where
  "asGoodAs a b \<longleftrightarrow> fst b < fst a \<or> fst b = fst a \<and> snd b \<le> snd a"

lemma asGoodAs_trans: "asGoodAs a b \<Longrightarrow> asGoodAs b c \<Longrightarrow> asGoodAs a c"
  by (auto simp: asGoodAs_def)

definition rankOf :: "breakSpec list \<Rightarrow> nat \<times> int" where
  "rankOf specs = (length specs, scoreOf specs)"

text \<open>What the search has found: the placement of a set that fits, or nothing yet.\<close>

definition foundFor :: "instant \<Rightarrow> instant \<Rightarrow> int \<Rightarrow> breakSpec list list \<Rightarrow> lunchBreak list \<times> int \<Rightarrow> bool" where
  "foundFor shiftStart shiftEnd stepMs tried best \<longleftrightarrow>
     (\<exists>sel. (sel = [] \<or> sel \<in> set tried) \<and> placeBreakSubset shiftStart shiftEnd stepMs sel = Some (fst best) \<and> snd best = scoreOf sel
        \<and> (\<forall>other \<in> set tried. feasible shiftStart shiftEnd other \<longrightarrow> asGoodAs (rankOf sel) (rankOf other)))"

lemma betterOf_found:
  assumes "foundFor S E step tried best" and "\<forall>sel \<in> set (other # tried). \<forall>s \<in> set sel. 0 < bs_durationMinutes s"
  shows "foundFor S E step (other # tried) (betterOf S E step best other)"
proof -
  obtain sel where sel: "sel = [] \<or> sel \<in> set tried" "placeBreakSubset S E step sel = Some (fst best)" "snd best = scoreOf sel"
    and good: "\<forall>x \<in> set tried. feasible S E x \<longrightarrow> asGoodAs (rankOf sel) (rankOf x)"
    using assms(1) by (auto simp: foundFor_def)
  have pos: "\<forall>s \<in> set sel. 0 < bs_durationMinutes s" "\<forall>s \<in> set other. 0 < bs_durationMinutes s" using sel(1) assms(2) by auto
  have len: "length (fst best) = length sel" using placeBreakSubset_fits [OF pos(1) sel(2)] by (auto dest: list_all2_lengthD)
  show ?thesis
  proof (cases "placeBreakSubset S E step other")
    case None
    then have "\<not> feasible S E other" using placeBreakSubset_iff [OF pos(2), of S E step] by simp
    then show ?thesis using sel good None unfolding foundFor_def betterOf_def by (intro exI [of _ sel]) auto
  next
    case (Some c)
    have lc: "length c = length other" using placeBreakSubset_fits [OF pos(2) Some] by (auto dest: list_all2_lengthD)
    show ?thesis
    proof (cases "length sel < length other \<or> length other = length sel \<and> scoreOf sel < scoreOf other")
      case True
      then have o: "asGoodAs (rankOf other) (rankOf sel)" "asGoodAs (rankOf other) (rankOf other)" by (auto simp: asGoodAs_def rankOf_def)
      have "\<forall>x \<in> set tried. feasible S E x \<longrightarrow> asGoodAs (rankOf other) (rankOf x)" using good asGoodAs_trans [OF o(1)] by blast
      then show ?thesis using Some True len lc sel(3) o(2)
        unfolding foundFor_def betterOf_def by (intro exI [of _ other]) simp
    next
      case False
      then have "asGoodAs (rankOf sel) (rankOf other)" by (auto simp: asGoodAs_def rankOf_def)
      then show ?thesis using Some False len lc sel good unfolding foundFor_def betterOf_def by (intro exI [of _ sel]) auto
    qed
  qed
qed

lemma search_found:
  assumes "\<forall>sel \<in> set (sels @ tried). \<forall>s \<in> set sel. 0 < bs_durationMinutes s" and "foundFor S E step tried best"
  shows "foundFor S E step (rev sels @ tried) (foldl (betterOf S E step) best sels)"
  using assms
proof (induction sels arbitrary: best tried)
  case (Cons sel sels)
  have "foundFor S E step (sel # tried) (betterOf S E step best sel)" by (rule betterOf_found) (use Cons.prems in auto)
  from Cons.IH [OF _ this] show ?case using Cons.prems(1) by simp
qed simp

lemma all_selections: "map (\<lambda>bitset. selectedBy bitset [a, b, c]) [1..<8] = [[a], [b], [a, b], [c], [a, c], [b, c], [a, b, c]]"
  by (simp add: selectedBy_def upt_rec)

lemma placeBreaks_found:
  assumes "policyInRange policy" and "0 < lunchDuration"
  obtains sel where "sel \<in> set (subseqs (breakSpecs shiftStart policy lunchDuration))"
    "placeBreakSubset shiftStart shiftEnd (lk_timeStepMinutes policy * 60000) sel = Some (placeBreaks shiftStart shiftEnd policy lunchDuration)"
    "\<forall>other \<in> set (subseqs (breakSpecs shiftStart policy lunchDuration)). feasible shiftStart shiftEnd other \<longrightarrow> asGoodAs (rankOf sel) (rankOf other)"
    "\<forall>s \<in> set sel. 0 < bs_durationMinutes s"
proof -
  let ?step = "lk_timeStepMinutes policy * 60000"
  obtain a b c where abc: "breakSpecs shiftStart policy lunchDuration = [a, b, c]" by (simp add: breakSpecs_def)
  have pos: "0 < bs_durationMinutes a" "0 < bs_durationMinutes b" "0 < bs_durationMinutes c"
    using abc assms by (auto simp: breakSpecs_def policyInRange_def)
  let ?sels = "[[a], [b], [a, b], [c], [a, c], [b, c], [a, b, c]]"
  let ?best = "foldl (betterOf shiftStart shiftEnd ?step) ([], 0) ?sels"
  have p: "placeBreaks shiftStart shiftEnd policy lunchDuration = fst ?best"
    unfolding placeBreaks_def Let_def abc all_selections [symmetric] by (simp add: foldl_map)
  have "foundFor shiftStart shiftEnd ?step (rev ?sels @ []) ?best"
    by (rule search_found) (use pos in \<open>auto simp: foundFor_def placeBreakSubset_def scoreOf_def\<close>)
  then obtain sel where sel: "sel = [] \<or> sel \<in> set (rev ?sels @ [])" "placeBreakSubset shiftStart shiftEnd ?step sel = Some (fst ?best)"
    and good: "\<forall>other \<in> set (rev ?sels @ []). feasible shiftStart shiftEnd other \<longrightarrow> asGoodAs (rankOf sel) (rankOf other)"
    unfolding foundFor_def by blast
  show thesis
  proof (rule that [of sel])
    show "sel \<in> set (subseqs (breakSpecs shiftStart policy lunchDuration))" using sel(1) by (auto simp: abc)
    show "placeBreakSubset shiftStart shiftEnd ?step sel = Some (placeBreaks shiftStart shiftEnd policy lunchDuration)" using sel(2) p by simp
    have "asGoodAs (rankOf sel) (rankOf [])" by (cases sel) (auto simp: asGoodAs_def rankOf_def scoreOf_def)
    then show "\<forall>other \<in> set (subseqs (breakSpecs shiftStart policy lunchDuration)). feasible shiftStart shiftEnd other \<longrightarrow> asGoodAs (rankOf sel) (rankOf other)"
      using good by (simp add: abc)
    show "\<forall>s \<in> set sel. 0 < bs_durationMinutes s" using sel(1) pos by auto
  qed
qed

text \<open>Breaks in order inside a shift: after \<open>earliest\<close>, over by the end, each of positive length, a quarter of an hour apart.\<close>

fun spacedOut :: "instant \<Rightarrow> instant \<Rightarrow> lunchBreak list \<Rightarrow> bool" where
  "spacedOut earliest shiftEnd [] = True"
| "spacedOut earliest shiftEnd (b # bs) \<longleftrightarrow> earliest \<le> lb_startTime b \<and> lb_startTime b < lb_endTime b \<and> lb_endTime b \<le> shiftEnd
     \<and> spacedOut (lb_endTime b + 15 * 60000) shiftEnd bs"

lemma spacedOut_mono: "spacedOut e shiftEnd bs \<Longrightarrow> e' \<le> e \<Longrightarrow> spacedOut e' shiftEnd bs"
  by (cases bs) auto

lemma fits_spacedOut:
  "fitsAt e shiftEnd specs (map lb_startTime bs) \<Longrightarrow> list_all2 placesSpec specs bs \<Longrightarrow> \<forall>s \<in> set specs. 0 < bs_durationMinutes s
     \<Longrightarrow> spacedOut e shiftEnd bs \<and> (specs \<noteq> [] \<longrightarrow> e \<le> shiftEnd)"
proof (induction specs arbitrary: e bs rule: induct_list012)
  case (2 s)
  then show ?case by (auto simp: list_all2_Cons1 placesSpec_def)
next
  case (3 s r specs)
  then obtain b bs' where bs: "bs = b # bs'" "placesSpec s b" "list_all2 placesSpec (r # specs) bs'" by (auto simp: list_all2_Cons1)
  let ?e = "lb_startTime b + durationMs s + minimumGap (bs_type s) (bs_type r)"
  have f: "e \<le> lb_startTime b" "fitsAt ?e shiftEnd (r # specs) (map lb_startTime bs')" using "3.prems"(1) bs(1) by simp_all
  have "spacedOut ?e shiftEnd bs' \<and> ?e \<le> shiftEnd" using "3.IH"(2) [OF f(2) bs(3)] "3.prems"(3) by simp
  moreover have "15 * 60000 \<le> minimumGap (bs_type s) (bs_type r)" "0 < durationMs s" using "3.prems"(3) by (simp_all add: minimumGap_def)
  moreover have "lb_endTime b = lb_startTime b + durationMs s" using bs(2) by (simp add: placesSpec_def)
  ultimately show ?case using f(1) bs(1) spacedOut_mono [of ?e shiftEnd bs' "lb_endTime b + 15 * 60000"] by auto
qed simp

lemma placeBreaks_spacedOut:
  assumes "policyInRange policy" and "0 < lunchDuration"
  shows "spacedOut (shiftStart + 30 * 60000) shiftEnd (placeBreaks shiftStart shiftEnd policy lunchDuration)"
  by (rule placeBreaks_found [OF assms, of shiftStart shiftEnd])
    (use placeBreakSubset_fits fits_spacedOut in blast)

text \<open>
  Property C22.  Break placement is sound and finds the best set: the breaks chosen for a shift start at the earliest half an hour into it, keep the
  minimum gaps and end with the shift, each as long and as paid as specified; and no choice of breaks for which any start
  times keep these rules has more breaks, or as many with a higher priority.
\<close>

theorem placeBreaks_best:
  assumes "policyInRange policy" and "0 < lunchDuration"
  shows "\<exists>sel \<in> set (subseqs (breakSpecs shiftStart policy lunchDuration)).
      fitsAt (shiftStart + 30 * 60000) shiftEnd sel (map lb_startTime (placeBreaks shiftStart shiftEnd policy lunchDuration))
      \<and> list_all2 placesSpec sel (placeBreaks shiftStart shiftEnd policy lunchDuration)
      \<and> (\<forall>other \<in> set (subseqs (breakSpecs shiftStart policy lunchDuration)).
           feasible shiftStart shiftEnd other \<longrightarrow> asGoodAs (rankOf sel) (rankOf other))"
proof (rule placeBreaks_found [OF assms, of shiftStart shiftEnd])
  fix sel
  assume *: "sel \<in> set (subseqs (breakSpecs shiftStart policy lunchDuration))"
    "placeBreakSubset shiftStart shiftEnd (lk_timeStepMinutes policy * 60000) sel = Some (placeBreaks shiftStart shiftEnd policy lunchDuration)"
    "\<forall>other \<in> set (subseqs (breakSpecs shiftStart policy lunchDuration)). feasible shiftStart shiftEnd other \<longrightarrow> asGoodAs (rankOf sel) (rankOf other)"
    "\<forall>s \<in> set sel. 0 < bs_durationMinutes s"
  show ?thesis using *(1,3) placeBreakSubset_fits [OF *(4,2)] by blast
qed

theorem placeBreaks_best_witness:
  "map lb_startTime (placeBreaks 0 21600000 DEFAULT_POLICY 30) = [7200000, 14400000, 21000000]
   \<and> (\<exists>sel \<in> set (subseqs (breakSpecs 0 DEFAULT_POLICY 30)). list_all2 placesSpec sel (placeBreaks 0 21600000 DEFAULT_POLICY 30)
        \<and> rankOf sel = (3, 7))"
proof -
  have r: "map lb_startTime (placeBreaks 0 21600000 DEFAULT_POLICY 30) = [7200000, 14400000, 21000000]"
    by code_simp
  have p: "policyInRange DEFAULT_POLICY" by (simp add: policyInRange_def DEFAULT_POLICY_def)
  obtain sel where sel: "sel \<in> set (subseqs (breakSpecs 0 DEFAULT_POLICY 30))" "list_all2 placesSpec sel (placeBreaks 0 21600000 DEFAULT_POLICY 30)"
    using placeBreaks_best [OF p, of 30 0 21600000] by auto
  have "length sel = 3" using sel(2) r by (metis length_Cons length_map list.size(3) list_all2_lengthD numeral_3_eq_3)
  then have "rankOf sel = (3, 7)" using sel(1) by (auto simp: breakSpecs_def DEFAULT_POLICY_def rankOf_def scoreOf_def)
  then show ?thesis using r sel by blast
qed

end
