(* ===== verification/ScheduleAccess.thy ===== *)
theory ScheduleAccess
  imports SchedulePlan
begin

text \<open>
  What the scheduling commands run in: the scope of an operation that may need several permissions
  (\<open>operations/operations.service.ts\<close>, \<open>platform/identity.ts\<close>, \<open>scheduling/authorization.ts\<close>), the entitlement to
  scheduling (\<open>scheduling/entitlement.ts\<close>) and the rows and answers the commands share
  (\<open>scheduling/serialization.ts\<close>).  These transactions run at the isolation level \<open>ReadCommitted\<close>; every
  command takes the advisory lock of the tenant (\<open>lockSchedulingAggregate\<close>) before the reads its changes rest on, so
  the commands of one tenant follow one another, and each is one step here as well.
\<close>

section \<open>Permissions of the request\<close>

definition requirePermissions :: "sessionIdentity \<Rightarrow> string list \<Rightarrow> unit result" where
  "requirePermissions identity permissions =
     (let missing = filter (\<lambda>p. p \<notin> set (id_permissions identity)) permissions
      in checkR (missing = []) forbidden)"

definition requireAnyPermission :: "sessionIdentity \<Rightarrow> string list \<Rightarrow> unit result" where
  "requireAnyPermission identity permissions =
     checkR (list_ex (\<lambda>p. p \<in> set (id_permissions identity)) permissions) forbidden"

fun isShiftDelete :: "shiftOperation \<Rightarrow> bool" where
  "isShiftDelete (ShiftDelete i) = True"
| "isShiftDelete _ = False"

definition authorizeScheduleChangeSet :: "sessionIdentity \<Rightarrow> shiftOperation list \<Rightarrow> unit result" where
  "authorizeScheduleChangeSet identity operations =
     bindR (if list_ex isShiftDelete operations then requirePermissions identity [''shifts:delete''] else ok ()) (\<lambda>_.
     if list_ex (\<lambda>x. \<not> isShiftDelete x) operations then requirePermissions identity [''shifts:write''] else ok ())"

definition authorizeScheduleDemand :: "sessionIdentity \<Rightarrow> unit result" where
  "authorizeScheduleDemand identity = requirePermissions identity [''schedules:write'']"

definition authorizeScheduleReopen :: "sessionIdentity \<Rightarrow> unit result" where
  "authorizeScheduleReopen identity = requirePermissions identity [''schedules:publish'']"

section \<open>The scope of an operation\<close>

definition operationsIdentity :: "sessionIdentity \<Rightarrow> sessionIdentity" where
  "operationsIdentity i = mutationIdentity i"

definition operationsWait :: "unit tx \<Rightarrow> 'a tx \<Rightarrow> 'a tx" where
  "operationsWait cur operation =
     (thenT cur (
       bindT operation (\<lambda>result.
       thenT cur (
       returnT result))))"

text \<open>The local \<open>authorize\<close>: the first permission is checked with the rest of the authority, the others against the
  permissions the database grants now.\<close>

definition authorizeOperations :: "env \<Rightarrow> sessionIdentity \<Rightarrow> string list \<Rightarrow> currentAuthority tx" where
  "authorizeOperations E identity permissions =
     (bindT (authorizeCurrentMutation E identity (hd permissions) noOptions) (\<lambda>authority.
       thenT (eachT (\<lambda>p. checkT (p \<in> set (as_permissions (ma_actorAccess (ca_authority authority)))) forbidden) (tl permissions)) (
       returnT authority)))"

definition prepareOperationsAuthority :: "env \<Rightarrow> sessionIdentity \<Rightarrow> string list \<Rightarrow> mutationScope tx" where
  "prepareOperationsAuthority E identity permissions =
     (bindT (retryPayrollSerializableMutation (withTenant E (id_tenantId identity)
            (authorizeOperations E identity permissions))) (\<lambda>preflight.
       bindT ((if ca_requiresMfa preflight
            then if \<not> e_observer E then throwT (Problem 503 ''identity_service_unavailable'')
                 else catchT (observeMfaVerification E (ca_identity preflight))
                        (\<lambda>_. throwT (Problem 503 ''identity_service_unavailable''))
            else returnT None)) (\<lambda>observation.
       thenT (assertCurrentMutation E preflight observation) (
       returnT \<lparr> sc_requestExpiresAt = ca_expiresAtEpochMs preflight, sc_observation = observation \<rparr>))))"

definition currentIdentity :: "sessionIdentity \<Rightarrow> currentAuthority \<Rightarrow> sessionIdentity" where
  "currentIdentity identity authority =
     (let actor = ma_actor (ca_authority authority); access = ma_actorAccess (ca_authority authority)
      in identity \<lparr> id_sub := us_id actor, id_publicUserId := us_publicId actor,
           id_legacyRole := userRoleText (as_legacyRole access), id_permissions := as_permissions access,
           id_roles := map (\<lambda>r. (ro_isSystem r, case ro_legacyRole r of None \<Rightarrow> [] | Some l \<Rightarrow> userRoleText l)) (as_roles access) \<rparr>)"

definition operationsBody :: "env \<Rightarrow> sessionIdentity \<Rightarrow> string list \<Rightarrow> mutationScope \<Rightarrow> (sessionIdentity \<Rightarrow> unit tx \<Rightarrow> 'a tx) \<Rightarrow> 'a tx" where
  "operationsBody E identity permissions scope operation =
     (bindT (authorizeOperations E identity permissions) (\<lambda>authority.
       thenT (assertCurrent E scope authority) (
       bindT (operation (currentIdentity identity authority) (assertCurrent E scope authority)) (\<lambda>result.
       thenT (assertCurrent E scope authority) (
       returnT result)))))"

definition runOperations :: "env \<Rightarrow> sessionIdentity \<Rightarrow> string list \<Rightarrow> mutationScope \<Rightarrow> (sessionIdentity \<Rightarrow> unit tx \<Rightarrow> 'a tx) \<Rightarrow> 'a tx" where
  "runOperations E identity permissions scope operation =
     retryPayrollSerializableMutation (withTenant E (id_tenantId identity)
       (operationsBody E identity permissions scope operation))"

section \<open>Entitlement to scheduling\<close>

definition DEFAULT_SCHEDULING_PLANS :: "string list" where
  "DEFAULT_SCHEDULING_PLANS = [''STARTER'', ''GROWTH'', ''ENTERPRISE'']"

definition schedulingIncluded :: "json option \<Rightarrow> string \<Rightarrow> bool" where
  "schedulingIncluded metadata code =
     (case metadata of
        Some (JObj kvs) \<Rightarrow>
          if ''features'' \<in> fst ` set kvs
          then (case member ''features'' (JObj kvs) of JArr vs \<Rightarrow> JStr ''scheduling'' \<in> set vs | _ \<Rightarrow> False)
          else code \<in> set DEFAULT_SCHEDULING_PLANS
      | _ \<Rightarrow> code \<in> set DEFAULT_SCHEDULING_PLANS)"

definition schedulingOverride :: "json option \<Rightarrow> json option" where
  "schedulingOverride v =
     (case v of
        None \<Rightarrow> None
      | Some j \<Rightarrow> (let scheduling = member ''scheduling'' (member ''features'' j)
                  in if isObject scheduling then Some scheduling else None))"

text \<open>The \<open>source\<close> of an override is a text.\<close>

definition assertSchedulingEntitled :: "env \<Rightarrow> string \<Rightarrow> unit tx" where
  "assertSchedulingEntitled E tenantId =
     (bindT (nowT E) (\<lambda>now.
       bindT (getT (\<lambda>d. find (\<lambda>t. tn_id t = tenantId \<and> tn_deletedAt t = None) (tenants d))) (\<lambda>found.
       bindT (getT (settingOf tenantId ''feature_access'')) (\<lambda>setting.
       bindT (requireT found (Problem 403 ''tenant_unavailable'')) (\<lambda>tenant.
       let override = schedulingOverride setting in
       thenT (checkT (\<not> (case override of None \<Rightarrow> False
            | Some ov \<Rightarrow> member ''source'' ov = JStr ''disabled'' \<or> member ''enabled'' ov = JBool False)) (notEntitled Scheduling)) (
       let activeSubscription = (tn_status tenant = TENANT_ACTIVE
            \<and> (case tn_stripeSubscriptionId tenant of None \<Rightarrow> False | Some s \<Rightarrow> trim s \<noteq> [])
            \<and> (case tn_stripeSubscriptionCurrentPeriodEnd tenant of None \<Rightarrow> False | Some t \<Rightarrow> now < t)) in
       if \<not> activeSubscription then thenT (assertFeatureEntitled E tenantId Scheduling False) (returnT ())
          else (let code = map toUpperUnit (tn_planTier tenant) in
            bindT (getT (\<lambda>d. find (\<lambda>p. pd_code p = code) (planDefinitions d))) (\<lambda>plan.
            let overrideEnabled = (case override of None \<Rightarrow> False
                 | Some ov \<Rightarrow> member ''enabled'' ov = JBool True
                     \<and> member ''source'' ov \<in> {JStr ''manual'', JStr ''stripe'', JStr ''credits''}) in
            checkT (schedulingIncluded (case plan of None \<Rightarrow> None | Some p \<Rightarrow> pd_metadata p) code \<or> overrideEnabled)
                 (notEntitled Scheduling)))))))))"

section \<open>Rows\<close>

text \<open>A schedule with its location, which must not be deleted.\<close>

definition lockedSchedules :: "string \<Rightarrow> string \<Rightarrow> database \<Rightarrow> (schedule \<times> location) list" where
  "lockedSchedules tenantId schedulePublicId d =
     concat (map (\<lambda>s. map (\<lambda>l. (s, l))
         (filter (\<lambda>l. lo_id l = sd_locationId s \<and> lo_tenantId l = sd_tenantId s \<and> lo_deletedAt l = None) (locations d)))
       (filter (\<lambda>s. sd_tenantId s = tenantId \<and> sameUuid (sd_publicId s) schedulePublicId \<and> sd_deletedAt s = None) (schedules d)))"

definition scheduleNotFound :: failure where "scheduleNotFound = Problem 404 ''schedule_not_found''"

definition staleRevision :: failure where "staleRevision = Problem 412 ''stale_schedule_revision''"

text \<open>A shift with the relations the queries select: its employee and its breaks in order of their start.\<close>

record shiftRow =
  sr_shift :: shift
  sr_user :: "user option"
  sr_breaks :: "shiftBreak list"

definition shiftUser :: "database \<Rightarrow> shift \<Rightarrow> user option" where
  "shiftUser d s = (case sh_userId s of None \<Rightarrow> None
     | Some u \<Rightarrow> find (\<lambda>x. us_id x = u \<and> us_tenantId x = sh_tenantId s) (users d))"

definition breaksOf :: "database \<Rightarrow> shift \<Rightarrow> shiftBreak list" where
  "breaksOf d s = findMany (\<lambda>b. br_shiftId b = sh_id s) (thenCompare (byKey br_startTime) (byKey br_id)) (shiftBreaks d)"

definition shiftRowOf :: "database \<Rightarrow> shift \<Rightarrow> shiftRow" where
  "shiftRowOf d s = \<lparr> sr_shift = s, sr_user = shiftUser d s, sr_breaks = breaksOf d s \<rparr>"

definition scheduleShift :: "string \<Rightarrow> string \<Rightarrow> shift \<Rightarrow> bool" where
  "scheduleShift tenantId scheduleId s \<longleftrightarrow> sh_tenantId s = tenantId \<and> sh_scheduleId s = Some scheduleId \<and> sh_deletedAt s = None"

definition scheduleRows :: "string \<Rightarrow> string \<Rightarrow> database \<Rightarrow> shiftRow list" where
  "scheduleRows tenantId scheduleId d =
     map (shiftRowOf d) (findMany (scheduleShift tenantId scheduleId) (thenCompare (byKey sh_startTime) (byKey sh_id)) (shifts d))"

definition scheduleTable :: "schedule table" where "scheduleTable = (schedules, schedules_update)"

definition shiftTable :: "shift table" where "shiftTable = (shifts, shifts_update)"

definition shiftBreakTable :: "shiftBreak table" where "shiftBreakTable = (shiftBreaks, shiftBreaks_update)"

definition demandTable :: "demandWindow table" where "demandTable = (demandWindows, demandWindows_update)"

definition changeSetTable :: "scheduleChangeSet table" where "changeSetTable = (scheduleChangeSets, scheduleChangeSets_update)"

definition scheduleClash :: "schedule \<Rightarrow> schedule \<Rightarrow> bool" where
  "scheduleClash a b \<longleftrightarrow> sd_id a = sd_id b \<or> sd_publicId a = sd_publicId b"

definition shiftClash :: "shift \<Rightarrow> shift \<Rightarrow> bool" where
  "shiftClash a b \<longleftrightarrow> sh_id a = sh_id b \<or> sh_publicId a = sh_publicId b"

definition demandClash :: "demandWindow \<Rightarrow> demandWindow \<Rightarrow> bool" where
  "demandClash a b \<longleftrightarrow> dw_id a = dw_id b \<or> dw_publicId a = dw_publicId b"

definition changeSetClash :: "scheduleChangeSet \<Rightarrow> scheduleChangeSet \<Rightarrow> bool" where
  "changeSetClash a b \<longleftrightarrow> cs_id a = cs_id b
     \<or> cs_tenantId a = cs_tenantId b \<and> cs_idempotencyKeyHash a = cs_idempotencyKeyHash b"

section \<open>Answers\<close>

definition serializeSchedule :: "schedule \<Rightarrow> string \<Rightarrow> json" where
  "serializeSchedule s locationPublicId = JObj
     [(''id'', JStr (sd_publicId s)), (''locationId'', JStr locationPublicId), (''startDate'', jInstant (sd_startDate s)),
      (''endDate'', jInstant (sd_endDate s)), (''status'', JStr (scheduleStatusText (sd_status s))),
      (''publishedAt'', nullable jInstant (sd_publishedAt s)), (''revision'', JNum (sd_revision s)),
      (''etag'', JStr (scheduleEtag (sd_publicId s) (sd_revision s)))]"

definition serializeBreak :: "shiftBreak \<Rightarrow> json" where
  "serializeBreak b = JObj [(''startTime'', jInstant (br_startTime b)), (''endTime'', jInstant (br_endTime b)), (''paid'', JBool (br_paid b))]"

definition serializeShift :: "shiftRow \<Rightarrow> string \<Rightarrow> string \<Rightarrow> json result" where
  "serializeShift row locationPublicId schedulePublicId =
     (let s = sr_shift row
      in bindR (checkR (sh_scheduleId s \<noteq> None \<and> sh_scheduleId s \<noteq> Some []) (Problem 500 ''invalid_scheduling_record'')) (\<lambda>_.
         ok (JObj [(''id'', JStr (sh_publicId s)), (''userId'', nullable (JStr \<circ> us_publicId) (sr_user row)),
           (''locationId'', JStr locationPublicId), (''scheduleId'', JStr schedulePublicId),
           (''startTime'', jInstant (sh_startTime s)), (''endTime'', jInstant (sh_endTime s)), (''role'', nullable JStr (sh_role s)),
           (''user'', nullable (\<lambda>u. JObj [(''id'', JStr (us_publicId u)),
              (''name'', JStr (if us_name u = [] then ''Unnamed'' else us_name u)), (''role'', JStr (userRoleText (us_role u)))]) (sr_user row)),
           (''breaks'', JArr (map serializeBreak (sr_breaks row)))])))"

section \<open>Stored change sets\<close>

text \<open>The private \<open>replay\<close> of the three services that store change sets; they differ in the schema the stored answer has
  to match.\<close>

definition replayStored :: "env \<Rightarrow> string \<Rightarrow> unit tx \<Rightarrow> string \<Rightarrow> string \<Rightarrow> string \<Rightarrow> json option tx" where
  "replayStored E schema cur tenantId idempotencyKeyHash expectedRequestHash =
     (bindT (operationsWait cur (getT (\<lambda>d. find (\<lambda>c. cs_tenantId c = tenantId
            \<and> cs_idempotencyKeyHash c = idempotencyKeyHash) (scheduleChangeSets d)))) (\<lambda>stored.
       case stored of
            None \<Rightarrow> returnT None
          | Some c \<Rightarrow> (thenT (checkT (cs_requestHash c = expectedRequestHash) (Problem 409 ''idempotency_key_reused'')) (
            thenT (checkT (e_contract E schema (cs_response c)) (Problem 409 ''idempotency_result_unavailable'')) (
            returnT (Some (cs_response c)))))))"

text \<open>A command of a tenant: answer from a stored result, or check the entitlement, take the lock, look again, and go on.\<close>

definition answerOnce :: "env \<Rightarrow> unit tx \<Rightarrow> string \<Rightarrow> json option tx \<Rightarrow> json tx \<Rightarrow> json tx" where
  "answerOnce E cur tenantId replay continue =
     (bindT (operationsWait cur replay) (\<lambda>initialReplay.
       case initialReplay of
            Some r \<Rightarrow> returnT r
          | None \<Rightarrow> (thenT (operationsWait cur (assertSchedulingEntitled E tenantId)) (
            thenT (operationsWait cur (returnT ())) (
            bindT (operationsWait cur replay) (\<lambda>lockedReplay.
            case lockedReplay of Some r \<Rightarrow> returnT r | None \<Rightarrow> continue))))))"

text \<open>\<open>auditLog.create\<close> of the scheduling services.\<close>

definition writeScheduleAudit :: "env \<Rightarrow> sessionIdentity \<Rightarrow> string \<Rightarrow> string \<Rightarrow> string \<Rightarrow> json option \<Rightarrow> json option \<Rightarrow> unit tx" where
  "writeScheduleAudit E identity action resource resourceId oldValue newValue =
     (bindT (uuidT E) (\<lambda>auditId.
       createT auditTable auditClash
           \<lparr> al_id = auditId, al_tenantId = id_tenantId identity, al_actorUserId = id_sub identity, al_action = action,
             al_resource = resource, al_resourceId = resourceId, al_oldValue = oldValue, al_newValue = newValue \<rparr>))"

definition changeSetRow :: "string \<Rightarrow> sessionIdentity \<Rightarrow> string \<Rightarrow> string \<Rightarrow> string \<Rightarrow> int \<Rightarrow> json \<Rightarrow> json \<Rightarrow> scheduleChangeSet" where
  "changeSetRow changeSetId identity scheduleId idempotencyKeyHash expectedRequestHash baseRevision request response =
     \<lparr> cs_id = changeSetId, cs_tenantId = id_tenantId identity, cs_scheduleId = scheduleId, cs_actorUserId = id_sub identity,
       cs_idempotencyKeyHash = idempotencyKeyHash, cs_requestHash = expectedRequestHash, cs_baseRevision = baseRevision,
       cs_resultRevision = baseRevision + 1, cs_request = request, cs_response = response \<rparr>"

section \<open>Lemmas\<close>

lemma readsOnly_operationsWait [simp]: "readsOnly cur \<Longrightarrow> readsOnly m \<Longrightarrow> readsOnly (operationsWait cur m)"
  unfolding operationsWait_def by (auto intro!: readsOnly_bind readsOnly_then)

text \<open>Waiting checks the authority on both sides and changes nothing else.\<close>

lemma sat_operationsWait:
  assumes "readsOnly cur" and "sat d m Q"
  shows "sat d (operationsWait cur m) Q"
  unfolding operationsWait_def
  apply (rule post_then, rule post_readsOnly [OF assms(1)])
   apply (rule post_bind, rule post_weaken [OF assms(2)])
    apply (rule post_then, rule post_readsOnly [OF assms(1)])
     apply (auto intro: post_return)
  done

lemma readsOnly_eachT: "(\<And>x. readsOnly (f x)) \<Longrightarrow> readsOnly (eachT f xs)"
  by (induction xs) (auto intro: readsOnly_then)

lemma readsOnly_authorizeOperations [simp]: "readsOnly (authorizeOperations E identity permissions)"
  unfolding authorizeOperations_def
  by (intro readsOnly_bind readsOnly_then readsOnly_authorizeCurrentMutation readsOnly_eachT) simp_all

lemma readsOnly_prepareOperations [simp]: "readsOnly (prepareOperationsAuthority E identity permissions)"
  unfolding prepareOperationsAuthority_def
  by (intro readsOnly_bind readsOnly_then readsOnly_retry readsOnly_withTenant readsOnly_authorizeOperations
      readsOnly_assertCurrentMutation readsOnly_return)
    (auto intro: readsOnly_throw readsOnly_return readsOnly_catch readsOnly_observeMfaVerification)

lemma readsOnly_assertSchedulingEntitled [simp]: "readsOnly (assertSchedulingEntitled E tenantId)"
  unfolding assertSchedulingEntitled_def Let_def
  by (intro readsOnly_bind readsOnly_then) (auto intro!: readsOnly_bind readsOnly_then)

lemma readsOnly_replayStored [simp]: "readsOnly cur \<Longrightarrow> readsOnly (replayStored E schema cur tenantId key expected)"
  unfolding replayStored_def
  by (rule readsOnly_bind) (auto intro!: readsOnly_then split: option.split)

text \<open>The command body behind a replay: the answer is a stored one and nothing changes, or the command goes on.\<close>

lemma sat_answerOnce:
  assumes "readsOnly cur" and "readsOnly replay" and "sat d replay (\<lambda>r _. \<forall>x. r = Some x \<longrightarrow> Q x d)" and "sat d continue Q"
  shows "sat d (answerOnce E cur tenantId replay continue) Q"
proof -
  have w: "sat d (operationsWait cur replay) (\<lambda>r d'. d' = d \<and> (\<forall>x. r = Some x \<longrightarrow> Q x d))"
    by (rule sat_operationsWait [OF assms(1)], rule post_weaken [OF post_conj [OF readsOnly_post [OF assms(2)] assms(3)]]) auto
  have locked: "sat d (thenT (operationsWait cur (assertSchedulingEntitled E tenantId)) (thenT (operationsWait cur (returnT ()))
      (bindT (operationsWait cur replay) (\<lambda>r. case r of Some x \<Rightarrow> returnT x | None \<Rightarrow> continue)))) Q"
    apply (rule post_then, rule post_readsOnly, simp add: assms(1))
     apply (rule post_then, rule post_readsOnly, simp add: assms(1))
      apply (rule post_bind, rule post_weaken [OF w])
       apply (auto split: option.split intro: post_return assms(4))
    done
  show ?thesis
    unfolding answerOnce_def
    apply (rule post_bind, rule post_weaken [OF w])
     apply (auto split: option.split intro: post_return locked)
    done
qed

text \<open>What the database grants: every permission the operation asks for, held now.\<close>

lemma sat_authorizeMutation_all:
  "sat d (authorizeMutation E identity permission options) (\<lambda>ma _. us_id (ma_actor ma) = trim (id_sub identity)
     \<and> (\<forall>p \<in> set (as_permissions (ma_actorAccess ma)). holdsPermission d (id_tenantId identity) (trim (id_sub identity)) p))"
  unfolding authorizeMutation_def isAfter_def lockActorSession_def
  by (intro tx_rules) (auto dest!: find_SomeD dest: rolesOf_holds)

lemma sat_authorizeCurrentMutation_all:
  "sat d (authorizeCurrentMutation E identity permission noOptions) (\<lambda>ca _. us_id (ma_actor (ca_authority ca)) = id_sub identity
     \<and> (\<forall>p \<in> set (as_permissions (ma_actorAccess (ca_authority ca))). holdsPermission d (id_tenantId identity) (id_sub identity) p))"
  unfolding authorizeCurrentMutation_def
  apply (rule post_bind, rule post_weaken [OF sat_authorizeMutation_all])
   apply (intro tx_rules)
                  apply (auto simp: noOptions_def dest!: find_SomeD)
  done

lemma sat_eachCheck: "sat d (eachT (\<lambda>p. checkT (P p) e) ps) (\<lambda>_ d'. d' = d \<and> (\<forall>p \<in> set ps. P p))"
  by (induction ps) (auto intro!: tx_rules elim!: post_weaken)

definition liveFor :: "database \<Rightarrow> sessionIdentity \<Rightarrow> string list \<Rightarrow> bool" where
  "liveFor d identity permissions \<longleftrightarrow> liveAuthority d identity (hd permissions)
     \<and> (\<forall>p \<in> set (tl permissions). holdsPermission d (id_tenantId identity) (id_sub identity) p)"

lemma sat_authorizeOperations:
  "sat d (authorizeOperations E identity permissions) (\<lambda>ca d'. d' = d \<and> liveFor d identity permissions
     \<and> id_sub (currentIdentity identity ca) = id_sub identity \<and> id_tenantId (currentIdentity identity ca) = id_tenantId identity)"
  unfolding authorizeOperations_def
  apply (rule post_bind, rule post_weaken [OF post_conj [OF sat_authorizeCurrentMutation sat_authorizeCurrentMutation_all]])
   apply (clarify, rule post_then, rule post_weaken [OF sat_eachCheck])
    apply (auto intro!: post_return simp: liveFor_def currentIdentity_def Let_def)
  done

lemma sat_operationsBody:
  assumes "\<And>cur i. readsOnly cur \<Longrightarrow> id_sub i = id_sub identity \<Longrightarrow> id_tenantId i = id_tenantId identity \<Longrightarrow> sat d (operation i cur) Q"
  shows "sat d (operationsBody E identity permissions scope operation) (\<lambda>x d'. Q x d' \<and> liveFor d identity permissions)"
  unfolding operationsBody_def
  apply (rule post_bind, rule post_weaken [OF sat_authorizeOperations])
   apply (clarify, rule post_then, rule post_readsOnly [OF readsOnly_assertCurrent])
    apply (rule post_bind, rule post_weaken [OF assms [OF readsOnly_assertCurrent]])
       apply simp_all
  apply (rule post_then, rule post_readsOnly [OF readsOnly_assertCurrent])
   apply (auto intro: post_return)
  done

lemma outcome_runOperations:
  assumes "\<And>cur i. readsOnly cur \<Longrightarrow> id_sub i = id_sub identity \<Longrightarrow> id_tenantId i = id_tenantId identity \<Longrightarrow> sat d (operation i cur) Q"
  shows "outcome d (runOperations E identity permissions scope operation) Q"
  unfolding outcome_def runOperations_def
  by (rule post_retry_withTenant, rule post_weaken [OF sat_operationsBody [OF assms]]) auto

lemma outcome_runOperations_live:
  assumes "\<And>cur i. readsOnly cur \<Longrightarrow> id_sub i = id_sub identity \<Longrightarrow> id_tenantId i = id_tenantId identity \<Longrightarrow> sat d (operation i cur) Q"
  shows "outcome d (runOperations E identity permissions scope operation) (\<lambda>x d'. Q x d' \<and> liveFor d identity permissions)"
  unfolding outcome_def runOperations_def
  by (rule post_retry_withTenant, rule post_weaken [OF sat_operationsBody [OF assms]]) auto

end
