(* ===== verification/ScheduleCommands.thy ===== *)
theory ScheduleCommands
  imports ScheduleAccess
begin

text \<open>
  The commands on schedules: applying a change set (\<open>scheduling/change-set.service.ts\<close>), reopening a published schedule
  (\<open>scheduling/lifecycle.service.ts\<close>), creating one (\<open>scheduling/schedule-create.service.ts\<close>) and listing and replacing
  its demand windows (\<open>scheduling/demand-window.service.ts\<close>).  The address and the browser of the request, which the
  audit log keeps, are left out.
\<close>

section \<open>Applying a change set\<close>

definition MAX_SCHEDULE_SHIFTS :: nat where "MAX_SCHEDULE_SHIFTS = 5000"

definition MAX_EXTERNAL_SHIFTS :: nat where "MAX_EXTERNAL_SHIFTS = 10000"

definition plannedBreakOf :: "shiftBreak \<Rightarrow> plannedBreak" where
  "plannedBreakOf b = \<lparr> pk_internalId = br_id b, pk_startTime = br_startTime b, pk_endTime = br_endTime b \<rparr>"

definition plannedShiftOf :: "shiftRow \<Rightarrow> plannedShift" where
  "plannedShiftOf row = (let s = sr_shift row
     in \<lparr> ps_internalId = Some (sh_id s), ps_publicId = sh_publicId s, ps_userInternalId = sh_userId s,
          ps_userPublicId = map_option us_publicId (sr_user row), ps_startTime = sh_startTime s, ps_endTime = sh_endTime s,
          ps_role = sh_role s, ps_breaks = map plannedBreakOf (sr_breaks row) \<rparr>)"

definition optMember :: "string \<Rightarrow> ('a \<Rightarrow> json) \<Rightarrow> 'a option \<Rightarrow> (string \<times> json) list" where
  "optMember k f v = (case v of None \<Rightarrow> [] | Some x \<Rightarrow> [(k, f x)])"

text \<open>The body of the request as JSON.\<close>

fun operationJson :: "shiftOperation \<Rightarrow> json" where
  "operationJson (ShiftCreate x) = JObj ([(''op'', JStr ''shift.create'')] @ optMember ''clientId'' JStr (co_clientId x)
     @ [(''userId'', nullable JStr (co_userId x)), (''startTime'', JStr (co_startTime x)), (''endTime'', JStr (co_endTime x))]
     @ optMember ''role'' (nullable JStr) (co_role x))"
| "operationJson (ShiftUpdate x) = JObj ([(''op'', JStr ''shift.update''), (''shiftId'', JStr (uo_shiftId x))]
     @ optMember ''userId'' (nullable JStr) (uo_userId x) @ optMember ''startTime'' JStr (uo_startTime x)
     @ optMember ''endTime'' JStr (uo_endTime x) @ optMember ''role'' (nullable JStr) (uo_role x))"
| "operationJson (ShiftDelete i) = JObj [(''op'', JStr ''shift.delete''), (''shiftId'', JStr i)]"

definition changeSetBody :: "shiftOperation list \<Rightarrow> json" where
  "changeSetBody operations = JObj [(''operations'', JArr (map operationJson operations))]"

text \<open>\<open>'userId' in operation\<close> with a text behind it.\<close>

fun requestedUser :: "shiftOperation \<Rightarrow> string list" where
  "requestedUser (ShiftCreate x) = (case co_userId x of None \<Rightarrow> [] | Some u \<Rightarrow> [u])"
| "requestedUser (ShiftUpdate x) = (case uo_userId x of Some (Some u) \<Rightarrow> [u] | _ \<Rightarrow> [])"
| "requestedUser (ShiftDelete i) = []"

definition schedulableUsers :: "string \<Rightarrow> string list \<Rightarrow> database \<Rightarrow> user list" where
  "schedulableUsers tenantId publicIds d =
     filter (\<lambda>u. us_tenantId u = tenantId \<and> list_ex (sameUuid (us_publicId u)) publicIds \<and> us_deletedAt u = None
       \<and> us_suspendedAt u = None \<and> us_role u \<in> {MANAGER, STAFF}) (users d)"

definition involvedUsers :: "shiftRow list \<Rightarrow> user list \<Rightarrow> string list" where
  "involvedUsers rows requested =
     jsSet (concat (map (\<lambda>r. case sh_userId (sr_shift r) of None \<Rightarrow> [] | Some u \<Rightarrow> if u = [] then [] else [u]) rows)
            @ map us_id requested)"

definition externalRows :: "string \<Rightarrow> schedule \<Rightarrow> string list \<Rightarrow> database \<Rightarrow> shift list" where
  "externalRows tenantId sched userIds d =
     findMany (\<lambda>s. sh_tenantId s = tenantId \<and> sh_scheduleId s \<noteq> Some (sd_id sched)
         \<and> (case sh_userId s of None \<Rightarrow> False | Some u \<Rightarrow> u \<in> set userIds) \<and> sh_deletedAt s = None
         \<and> sh_startTime s < sd_endDate sched + 86400000 \<and> sd_startDate sched < sh_endTime s)
       (thenCompare (byKey sh_startTime) (byKey sh_id)) (shifts d)"

definition externalShiftsOf :: "shift list \<Rightarrow> externalShift list" where
  "externalShiftsOf rows = concat (map (\<lambda>s. case sh_userId s of None \<Rightarrow> []
     | Some u \<Rightarrow> if u = [] then [] else [\<lparr> xs_internalId = sh_id s, xs_userInternalId = u,
                   xs_startTime = sh_startTime s, xs_endTime = sh_endTime s \<rparr>]) rows)"

text \<open>\<open>planScheduleChangeSet\<close> with \<open>randomUUID\<close> as its \<open>idFactory\<close>.\<close>

definition planT :: "env \<Rightarrow> planInput \<Rightarrow> changeSetPlan tx" where
  "planT E input w =
     (case planScheduleChangeSet (e_collate E) (\<lambda>n. e_uuid E (w_fresh w + n)) input of
        Inl e \<Rightarrow> (err e, w)
      | Inr plan \<Rightarrow> (ok plan, w \<lparr> w_fresh := w_fresh w + length (cp_created plan) \<rparr>))"

definition concurrentShiftChange :: failure where "concurrentShiftChange = Problem 409 ''concurrent_change''"

text \<open>\<open>applyMutation\<close>, a branch each.  Prisma fills \<open>id\<close> and \<open>updatedAt\<close>.\<close>

definition savedShift :: "sessionIdentity \<Rightarrow> schedule \<Rightarrow> plannedShift \<Rightarrow> shift \<Rightarrow> bool" where
  "savedShift identity sched before s \<longleftrightarrow> Some (sh_id s) = ps_internalId before \<and> sh_tenantId s = id_tenantId identity
     \<and> sh_scheduleId s = Some (sd_id sched) \<and> sh_deletedAt s = None"

definition deleteMutation :: "env \<Rightarrow> sessionIdentity \<Rightarrow> schedule \<Rightarrow> instant \<Rightarrow> unit tx \<Rightarrow> plannedShift \<Rightarrow> unit tx" where
  "deleteMutation E identity sched deletedAt cur before =
     (bindT (nowT E) (\<lambda>updatedAt.
       bindT (operationsWait cur (updateManyT shiftTable (savedShift identity sched before)
           (\<lambda>s. s \<lparr> sh_deletedAt := Some deletedAt, sh_updatedAt := updatedAt \<rparr>))) (\<lambda>count.
       checkT (count = 1) concurrentShiftChange)))"

definition createMutation :: "env \<Rightarrow> sessionIdentity \<Rightarrow> schedule \<Rightarrow> unit tx \<Rightarrow> plannedShift \<Rightarrow> unit tx" where
  "createMutation E identity sched cur after =
     (bindT (uuidT E) (\<lambda>shiftId.
       bindT (nowT E) (\<lambda>updatedAt.
       operationsWait cur (createT shiftTable shiftClash
           \<lparr> sh_id = shiftId, sh_publicId = ps_publicId after, sh_tenantId = id_tenantId identity, sh_locationId = sd_locationId sched,
             sh_scheduleId = Some (sd_id sched), sh_userId = ps_userInternalId after, sh_startTime = ps_startTime after,
             sh_endTime = ps_endTime after, sh_role = ps_role after, sh_updatedAt = updatedAt, sh_deletedAt = None \<rparr>))))"

definition translateBreak :: "unit tx \<Rightarrow> plannedShift \<Rightarrow> plannedBreak \<Rightarrow> unit tx" where
  "translateBreak cur before item =
     (bindT (operationsWait cur (updateManyT shiftBreakTable
           (\<lambda>b. br_id b = pk_internalId item \<and> Some (br_shiftId b) = ps_internalId before)
           (\<lambda>b. b \<lparr> br_startTime := pk_startTime item, br_endTime := pk_endTime item \<rparr>))) (\<lambda>count.
       checkT (count = 1) (Problem 409 ''dependent_break_changed'')))"

definition updateMutation :: "env \<Rightarrow> sessionIdentity \<Rightarrow> schedule \<Rightarrow> unit tx \<Rightarrow> plannedShift \<Rightarrow> plannedShift \<Rightarrow> unit tx" where
  "updateMutation E identity sched cur before after =
     (bindT (nowT E) (\<lambda>updatedAt.
       bindT (operationsWait cur (updateManyT shiftTable (savedShift identity sched before)
           (\<lambda>s. s \<lparr> sh_userId := ps_userInternalId after, sh_startTime := ps_startTime after, sh_endTime := ps_endTime after,
                    sh_role := ps_role after, sh_updatedAt := updatedAt \<rparr>))) (\<lambda>count.
       thenT (checkT (count = 1) concurrentShiftChange) (
       eachT (translateBreak cur before) (ps_breaks after)))))"

definition applyMutation :: "env \<Rightarrow> sessionIdentity \<Rightarrow> schedule \<Rightarrow> instant \<Rightarrow> unit tx \<Rightarrow> shiftMutation \<Rightarrow> unit tx" where
  "applyMutation E identity sched deletedAt cur mutation =
     (case mutation of
        DeleteShift before \<Rightarrow> deleteMutation E identity sched deletedAt cur before
      | CreateShift after clientId \<Rightarrow> createMutation E identity sched cur after
      | UpdateShift before after \<Rightarrow> updateMutation E identity sched cur before after)"

fun isDelete :: "shiftMutation \<Rightarrow> bool" where
  "isDelete (DeleteShift b) = True"
| "isDelete _ = False"

fun isUpdate :: "shiftMutation \<Rightarrow> bool" where
  "isUpdate (UpdateShift b a) = True"
| "isUpdate _ = False"

text \<open>The three loops over the mutations: first what is deleted, then what moves, then what is new.\<close>

definition applyMutations :: "env \<Rightarrow> sessionIdentity \<Rightarrow> schedule \<Rightarrow> instant \<Rightarrow> unit tx \<Rightarrow> shiftMutation list \<Rightarrow> unit tx" where
  "applyMutations E identity sched deletedAt cur mutations =
     (thenT (eachT (\<lambda>m. operationsWait cur (applyMutation E identity sched deletedAt cur m)) (filter isDelete mutations)) (
       thenT (eachT (\<lambda>m. operationsWait cur (applyMutation E identity sched deletedAt cur m)) (filter isUpdate mutations)) (
       eachT (\<lambda>m. operationsWait cur (applyMutation E identity sched deletedAt cur m)) (filter isCreate mutations))))"

text \<open>\<open>schedule.updateMany\<close> of a draft at the revision the request is based on.\<close>

definition reviseDraft :: "sessionIdentity \<Rightarrow> schedule \<Rightarrow> int \<Rightarrow> unit tx \<Rightarrow> unit tx" where
  "reviseDraft identity sched baseRevision cur =
     (bindT (operationsWait cur (updateManyT scheduleTable
           (\<lambda>s. sd_id s = sd_id sched \<and> sd_tenantId s = id_tenantId identity \<and> sd_status s = SCHEDULE_DRAFT
              \<and> sd_deletedAt s = None \<and> sd_revision s = baseRevision)
           (\<lambda>s. s \<lparr> sd_revision := sd_revision s + 1 \<rparr>))) (\<lambda>count.
       checkT (count = 1) staleRevision))"

definition changeSetResponse :: "string \<Rightarrow> string \<Rightarrow> int \<Rightarrow> json list \<Rightarrow> (string option \<times> string) list \<Rightarrow> json" where
  "changeSetResponse changeSetId schedulePublicId baseRevision views created = JObj [(''data'', JObj
     [(''changeSetId'', JStr changeSetId), (''scheduleId'', JStr schedulePublicId), (''baseRevision'', JNum baseRevision),
      (''revision'', JNum (baseRevision + 1)), (''etag'', JStr (scheduleEtag schedulePublicId (baseRevision + 1))),
      (''shifts'', JArr views),
      (''created'', JArr (map (\<lambda>(c, i). JObj [(''clientId'', nullable JStr c), (''shiftId'', JStr i)]) created))])]"

definition countOf :: "(shiftMutation \<Rightarrow> bool) \<Rightarrow> changeSetPlan \<Rightarrow> json" where
  "countOf P plan = JNum (int (length (filter P (cp_mutations plan))))"

text \<open>The inputs of the plan, read from the database.\<close>

definition planInputOf :: "sessionIdentity \<Rightarrow> schedule \<Rightarrow> shiftOperation list \<Rightarrow> unit tx \<Rightarrow> planInput tx" where
  "planInputOf identity sched operations cur =
     (bindT (operationsWait cur (getT (\<lambda>d. take (MAX_SCHEDULE_SHIFTS + 1) (scheduleRows (id_tenantId identity) (sd_id sched) d)))) (\<lambda>rows.
       thenT (checkT (length rows \<le> MAX_SCHEDULE_SHIFTS) (Problem 422 ''schedule_too_large'')) (
       let requestedIds = jsSet (concat (map requestedUser operations)) in
       bindT ((if requestedIds = [] then returnT []
           else operationsWait cur (getT (schedulableUsers (id_tenantId identity) requestedIds)))) (\<lambda>requestedUsers.
       let userIds = involvedUsers rows requestedUsers in
       bindT ((if userIds = [] then returnT []
           else operationsWait cur (getT (\<lambda>d. take (MAX_EXTERNAL_SHIFTS + 1) (externalRows (id_tenantId identity) sched userIds d))))) (\<lambda>external.
       thenT (checkT (length external \<le> MAX_EXTERNAL_SHIFTS) (Problem 422 ''schedule_validation_too_large'')) (
       returnT \<lparr> in_scheduleStart = sd_startDate sched, in_scheduleEnd = sd_endDate sched,
           in_currentShifts = map plannedShiftOf rows, in_externalShifts = externalShiftsOf external,
           in_users = jsMap (map (\<lambda>u. (us_publicId u, \<lparr> ru_internalId = us_id u, ru_publicId = us_publicId u \<rparr>)) requestedUsers),
           in_operations = operations \<rparr>))))))"

definition lockedDraft :: "sessionIdentity \<Rightarrow> string \<Rightarrow> int \<Rightarrow> unit tx \<Rightarrow> (schedule \<times> location) tx" where
  "lockedDraft identity schedulePublicId baseRevision cur =
     (bindT (operationsWait cur (getT (lockedSchedules (id_tenantId identity) schedulePublicId))) (\<lambda>found.
       thenT (checkT (found \<noteq> []) scheduleNotFound) (
       let sched = fst (hd found) in
       thenT (checkT (sd_status sched = SCHEDULE_DRAFT) (Problem 409 ''schedule_locked'')) (
       thenT (checkT (sd_revision sched = baseRevision) staleRevision) (
       returnT (hd found))))))"

definition storePlan :: "env \<Rightarrow> sessionIdentity \<Rightarrow> schedule \<Rightarrow> location \<Rightarrow> int \<Rightarrow> string \<Rightarrow> string \<Rightarrow> shiftOperation list \<Rightarrow>
    changeSetPlan \<Rightarrow> unit tx \<Rightarrow> json tx" where
  "storePlan E identity sched loc baseRevision idempotencyKeyHash expectedRequestHash operations plan cur =
     (thenT (operationsWait cur (returnT ())) (
       bindT (nowT E) (\<lambda>deletedAt.
       thenT (applyMutations E identity sched deletedAt cur (cp_mutations plan)) (
       thenT (reviseDraft identity sched baseRevision cur) (
       bindT (operationsWait cur (getT (scheduleRows (id_tenantId identity) (sd_id sched)))) (\<lambda>resultRows.
       bindT (uuidT E) (\<lambda>changeSetId.
       bindT (liftT (mapR (\<lambda>r. serializeShift r (lo_publicId loc) (sd_publicId sched)) resultRows)) (\<lambda>views.
       let response = changeSetResponse changeSetId (sd_publicId sched) baseRevision views (cp_created plan) in
       thenT (operationsWait cur (createT changeSetTable changeSetClash (changeSetRow changeSetId identity (sd_id sched)
           idempotencyKeyHash expectedRequestHash baseRevision (changeSetBody operations) response))) (
       thenT (operationsWait cur (writeScheduleAudit E identity ''SCHEDULE_CHANGE_SET_APPLIED'' ''schedule_change_set'' changeSetId
           (Some (JObj [(''scheduleId'', JStr (sd_publicId sched)), (''revision'', JNum baseRevision)]))
           (Some (JObj [(''scheduleId'', JStr (sd_publicId sched)), (''revision'', JNum (baseRevision + 1)),
              (''operationCount'', JNum (int (length operations))), (''createdShiftCount'', countOf isCreate plan),
              (''updatedShiftCount'', countOf isUpdate plan), (''deletedShiftCount'', countOf isDelete plan)])))) (
       returnT response))))))))))"

definition applyBody :: "env \<Rightarrow> string \<Rightarrow> shiftOperation list \<Rightarrow> int \<Rightarrow> string \<Rightarrow> string \<Rightarrow> sessionIdentity \<Rightarrow> unit tx \<Rightarrow> json tx" where
  "applyBody E schedulePublicId operations baseRevision idempotencyKeyHash expectedRequestHash identity cur =
     answerOnce E cur (id_tenantId identity)
       (replayStored E ''ScheduleChangeSetResponse'' cur (id_tenantId identity) idempotencyKeyHash expectedRequestHash)
       (bindT (lockedDraft identity schedulePublicId baseRevision cur) (\<lambda>(sched, loc).
         bindT (planInputOf identity sched operations cur) (\<lambda>input.
         bindT (planT E input) (\<lambda>plan.
         storePlan E identity sched loc baseRevision idempotencyKeyHash expectedRequestHash operations plan cur))))"

definition changeSetPermissions :: "shiftOperation list \<Rightarrow> string list" where
  "changeSetPermissions operations =
     (if list_ex isShiftDelete operations
      then ''shifts:delete'' # (if list_ex (\<lambda>x. \<not> isShiftDelete x) operations then [''shifts:write''] else [])
      else [''shifts:write''])"

definition applyChangeSet :: "env \<Rightarrow> sessionIdentity \<Rightarrow> string \<Rightarrow> shiftOperation list \<Rightarrow> string option \<Rightarrow> string option \<Rightarrow> json tx" where
  "applyChangeSet E identityArg schedulePublicId operations ifMatch idempotencyKeyArg =
     (let identity = operationsIdentity identityArg in
       thenT (liftT (authorizeScheduleChangeSet identity operations)) (
       let permissions = changeSetPermissions operations in
       bindT (liftT (requireScheduleRevision ifMatch schedulePublicId)) (\<lambda>baseRevision.
       bindT (liftT (requireIdempotencyKey idempotencyKeyArg)) (\<lambda>idempotencyKey.
       let idempotencyKeyHash = e_sha E idempotencyKey in
       let expectedRequestHash = requestHash E (JObj [(''schedulePublicId'', JStr schedulePublicId), (''body'', changeSetBody operations)]) in
       bindT (prepareOperationsAuthority E identity permissions) (\<lambda>scope.
       runOperations E identity permissions scope
           (applyBody E schedulePublicId operations baseRevision idempotencyKeyHash expectedRequestHash))))))"

section \<open>Reopening a published schedule\<close>

definition lockedPublished :: "sessionIdentity \<Rightarrow> string \<Rightarrow> int \<Rightarrow> unit tx \<Rightarrow> (schedule \<times> location) tx" where
  "lockedPublished identity schedulePublicId baseRevision cur =
     (bindT (operationsWait cur (getT (lockedSchedules (id_tenantId identity) schedulePublicId))) (\<lambda>found.
       thenT (checkT (found \<noteq> []) scheduleNotFound) (
       let sched = fst (hd found) in
       thenT (checkT (sd_status sched = SCHEDULE_PUBLISHED) (Problem 409 ''schedule_not_published'')) (
       thenT (checkT (sd_revision sched = baseRevision) staleRevision) (
       returnT (hd found))))))"

definition reopenBody :: "env \<Rightarrow> string \<Rightarrow> int \<Rightarrow> string \<Rightarrow> string \<Rightarrow> sessionIdentity \<Rightarrow> unit tx \<Rightarrow> json tx" where
  "reopenBody E schedulePublicId baseRevision idempotencyKeyHash expectedRequestHash identity cur =
     answerOnce E cur (id_tenantId identity)
       (replayStored E ''ScheduleReopenResponse'' cur (id_tenantId identity) idempotencyKeyHash expectedRequestHash)
       (bindT (lockedPublished identity schedulePublicId baseRevision cur) (\<lambda>(sched, loc).
         bindT (operationsWait cur (updateManyT scheduleTable
             (\<lambda>s. sd_id s = sd_id sched \<and> sd_tenantId s = id_tenantId identity \<and> sd_status s = SCHEDULE_PUBLISHED
                \<and> sd_revision s = baseRevision \<and> sd_deletedAt s = None)
             (\<lambda>s. s \<lparr> sd_status := SCHEDULE_DRAFT, sd_publishedAt := None, sd_revision := sd_revision s + 1 \<rparr>))) (\<lambda>count.
         thenT (checkT (count = 1) staleRevision) (
         bindT (uuidT E) (\<lambda>changeSetId.
         let response = JObj [(''data'', serializeSchedule (sched \<lparr> sd_status := SCHEDULE_DRAFT, sd_publishedAt := None,
             sd_revision := baseRevision + 1 \<rparr>) (lo_publicId loc))] in
         thenT (operationsWait cur (createT changeSetTable changeSetClash (changeSetRow changeSetId identity (sd_id sched)
             idempotencyKeyHash expectedRequestHash baseRevision (JObj [(''operation'', JStr ''schedule.reopen'')]) response))) (
         thenT (operationsWait cur (writeScheduleAudit E identity ''SCHEDULE_REOPENED'' ''schedule'' (sd_publicId sched)
             (Some (JObj [(''status'', JStr ''PUBLISHED''), (''revision'', JNum baseRevision)]))
             (Some (JObj [(''status'', JStr ''DRAFT''), (''revision'', JNum (baseRevision + 1))])))) (
         returnT response)))))))"

definition reopenSchedule :: "env \<Rightarrow> sessionIdentity \<Rightarrow> string \<Rightarrow> string option \<Rightarrow> string option \<Rightarrow> json tx" where
  "reopenSchedule E identityArg schedulePublicId ifMatch idempotencyKeyArg =
     (let identity = operationsIdentity identityArg in
       thenT (liftT (authorizeScheduleReopen identity)) (
       bindT (liftT (requireScheduleRevision ifMatch schedulePublicId)) (\<lambda>baseRevision.
       bindT (liftT (requireIdempotencyKey idempotencyKeyArg)) (\<lambda>idempotencyKey.
       let expectedRequestHash = requestHash E (JObj [(''operation'', JStr ''schedule.reopen''), (''schedulePublicId'', JStr schedulePublicId)]) in
       bindT (prepareOperationsAuthority E identity [''schedules:publish'']) (\<lambda>scope.
       runOperations E identity [''schedules:publish''] scope
           (reopenBody E schedulePublicId baseRevision (e_sha E idempotencyKey) expectedRequestHash))))))"

section \<open>Creating a schedule\<close>

definition CREATE_ACTION :: string where "CREATE_ACTION = ''API_V2_SCHEDULE_CREATE''"

definition CREATE_RESOURCE :: string where "CREATE_RESOURCE = ''api_v2_schedule_create''"

definition MAX_SCHEDULE_WINDOW_MS :: int where "MAX_SCHEDULE_WINDOW_MS = 31 * 24 * 60 * 60 * 1000"

definition replayCreate :: "env \<Rightarrow> unit tx \<Rightarrow> string \<Rightarrow> string \<Rightarrow> string \<Rightarrow> json option tx" where
  "replayCreate E cur tenantId operationId expectedRequestHash =
     (bindT (operationsWait cur (getT (\<lambda>d. find (\<lambda>a. al_tenantId a = tenantId \<and> al_action a = CREATE_ACTION
           \<and> al_resource a = CREATE_RESOURCE \<and> al_resourceId a = operationId) (auditLogs d)))) (\<lambda>audit.
       case audit of
           None \<Rightarrow> returnT None
         | Some a \<Rightarrow> (let stored = (case al_newValue a of None \<Rightarrow> JNull | Some v \<Rightarrow> v) in
           thenT (checkT (isObject stored \<and> member ''requestHash'' stored = JStr expectedRequestHash) (Problem 409 ''idempotency_key_reused'')) (
           thenT (checkT (e_contract E ''ScheduleCreateResponse'' (member ''response'' stored)) (Problem 409 ''idempotency_result_unavailable'')) (
           returnT (Some (member ''response'' stored)))))))"

definition overlappingSchedule :: "string \<Rightarrow> location \<Rightarrow> instant \<Rightarrow> instant \<Rightarrow> schedule \<Rightarrow> bool" where
  "overlappingSchedule tenantId loc startDate endDate s \<longleftrightarrow> sd_tenantId s = tenantId \<and> sd_locationId s = lo_id loc
     \<and> sd_deletedAt s = None \<and> sd_startDate s < endDate \<and> startDate < sd_endDate s"

text \<open>The schedule of the window: a draft with exactly these dates is taken as it is, any other overlap is a conflict.\<close>

definition draftFor :: "env \<Rightarrow> sessionIdentity \<Rightarrow> location \<Rightarrow> instant \<Rightarrow> instant \<Rightarrow> unit tx \<Rightarrow> schedule tx" where
  "draftFor E identity loc startDate endDate cur =
     (bindT (operationsWait cur (getT (\<lambda>d. find (overlappingSchedule (id_tenantId identity) loc startDate endDate) (schedules d)))) (\<lambda>overlap.
       case overlap of
           Some s \<Rightarrow> thenT (checkT (sd_status s = SCHEDULE_DRAFT \<and> sd_startDate s = startDate \<and> sd_endDate s = endDate)
                       (Problem 409 ''schedule_window_conflict'')) (returnT s)
         | None \<Rightarrow> (bindT (uuidT E) (\<lambda>publicId.
           bindT (uuidT E) (\<lambda>scheduleId.
           let row = \<lparr> sd_id = scheduleId, sd_publicId = publicId, sd_tenantId = id_tenantId identity, sd_locationId = lo_id loc,
                sd_startDate = startDate, sd_endDate = endDate, sd_status = SCHEDULE_DRAFT, sd_publishedAt = None, sd_revision = 0,
                sd_deletedAt = None \<rparr> in
           thenT (operationsWait cur (createT scheduleTable scheduleClash row)) (
           returnT row))))))"

definition createBody :: "env \<Rightarrow> string \<Rightarrow> instant \<Rightarrow> instant \<Rightarrow> string \<Rightarrow> string \<Rightarrow> sessionIdentity \<Rightarrow> unit tx \<Rightarrow> json tx" where
  "createBody E locationPublicId startDate endDate operationId expectedRequestHash identity cur =
     answerOnce E cur (id_tenantId identity) (replayCreate E cur (id_tenantId identity) operationId expectedRequestHash)
       (bindT (operationsWait cur (getT (\<lambda>d. filter (\<lambda>l. lo_tenantId l = id_tenantId identity
             \<and> sameUuid (lo_publicId l) locationPublicId \<and> lo_deletedAt l = None) (locations d)))) (\<lambda>found.
         thenT (checkT (found \<noteq> []) (Problem 404 ''location_not_found'')) (
         let loc = hd found in
         bindT (draftFor E identity loc startDate endDate cur) (\<lambda>sched.
         let response = JObj [(''data'', serializeSchedule sched (lo_publicId loc))] in
         thenT (operationsWait cur (writeScheduleAudit E identity CREATE_ACTION CREATE_RESOURCE operationId None
             (Some (JObj [(''requestHash'', JStr expectedRequestHash), (''response'', response)])))) (
         returnT response)))))"

definition createSchedule :: "env \<Rightarrow> sessionIdentity \<Rightarrow> string \<Rightarrow> string \<Rightarrow> string \<Rightarrow> string option \<Rightarrow> json tx" where
  "createSchedule E identityArg locationPublicId startText endText idempotencyKeyArg =
     (let identity = operationsIdentity identityArg in
       thenT (liftT (requireAnyPermission identity [''schedules:write'', ''shifts:write''])) (
       let permission = (if ''schedules:write'' \<in> set (id_permissions identity) then ''schedules:write'' else ''shifts:write'') in
       bindT (liftT (requireIdempotencyKey idempotencyKeyArg)) (\<lambda>idempotencyKey.
       let operationId = e_sha E (id_tenantId identity @ '':'' @ CREATE_RESOURCE @ '':'' @ idempotencyKey) in
       let expectedRequestHash = requestHash E (JObj [(''locationPublicId'', JStr locationPublicId),
           (''body'', JObj [(''startDate'', JStr startText), (''endDate'', JStr endText)])]) in
       bindT (liftT (parseUtcInstant startText)) (\<lambda>startDate.
       bindT (liftT (parseUtcInstant endText)) (\<lambda>endDate.
       thenT (checkT (\<not> (endDate \<le> startDate \<or> MAX_SCHEDULE_WINDOW_MS < endDate - startDate)) (Problem 422 ''invalid_schedule_window'')) (
       bindT (prepareOperationsAuthority E identity [permission]) (\<lambda>scope.
       runOperations E identity [permission] scope
           (createBody E locationPublicId startDate endDate operationId expectedRequestHash))))))))"

section \<open>Demand windows\<close>

record windowRequest =
  wr_startTime :: string
  wr_endTime :: string
  wr_requiredStaff :: int
  wr_skill :: "string option"

definition serializeWindow :: "demandWindow \<Rightarrow> json" where
  "serializeWindow r = JObj [(''id'', JStr (dw_publicId r)), (''startTime'', jInstant (dw_startTime r)), (''endTime'', jInstant (dw_endTime r)),
     (''requiredStaff'', JNum (dw_requiredStaff r)), (''skill'', nullable JStr (dw_skill r))]"

definition scheduleWindow :: "string \<Rightarrow> schedule \<Rightarrow> demandWindow \<Rightarrow> bool" where
  "scheduleWindow tenantId sched r \<longleftrightarrow> dw_tenantId r = tenantId \<and> dw_scheduleId r = sd_id sched \<and> dw_locationId r = sd_locationId sched"

definition windowRows :: "string \<Rightarrow> schedule \<Rightarrow> database \<Rightarrow> demandWindow list" where
  "windowRows tenantId sched d =
     findMany (scheduleWindow tenantId sched) (thenCompare (byKey dw_startTime) (byKey dw_id)) (demandWindows d)"

definition listWindowsBody :: "string \<Rightarrow> sessionIdentity \<Rightarrow> unit tx \<Rightarrow> json tx" where
  "listWindowsBody schedulePublicId identity cur =
     (bindT (operationsWait cur (getT (\<lambda>d. find (\<lambda>s. sd_tenantId s = id_tenantId identity
           \<and> sameUuid (sd_publicId s) schedulePublicId \<and> sd_deletedAt s = None) (schedules d)))) (\<lambda>found.
       bindT (requireT found scheduleNotFound) (\<lambda>sched.
       bindT (operationsWait cur (getT (\<lambda>d. take 501 (windowRows (id_tenantId identity) sched d)))) (\<lambda>rows.
       thenT (checkT (\<not> 500 < length rows) (Problem 422 ''demand_window_limit_exceeded'')) (
       returnT (JObj [(''data'', JArr (map serializeWindow rows))]))))))"

definition listDemandWindows :: "env \<Rightarrow> sessionIdentity \<Rightarrow> string \<Rightarrow> json tx" where
  "listDemandWindows E identityArg schedulePublicId =
     (let identity = operationsIdentity identityArg in
       thenT (liftT (authorizeScheduleDemand identity)) (
       bindT (prepareOperationsAuthority E identity [''schedules:write'']) (\<lambda>scope.
       runOperations E identity [''schedules:write''] scope (listWindowsBody schedulePublicId))))"

definition windowTimes :: "schedule \<Rightarrow> windowRequest \<Rightarrow> (instant \<times> instant) result" where
  "windowTimes sched x =
     bindR (parseUtcInstant (wr_startTime x)) (\<lambda>startTime.
     bindR (parseUtcInstant (wr_endTime x)) (\<lambda>endTime.
     bindR (checkR (\<not> endTime \<le> startTime) (Problem 422 ''invalid_demand_window'')) (\<lambda>_.
     bindR (checkR (\<not> (startTime < sd_startDate sched \<or> sd_endDate sched \<le> startTime \<or> endTime \<le> startTime
         \<or> 86400000 < endTime - startTime)) (Problem 422 ''demand_outside_schedule'')) (\<lambda>_.
     ok (startTime, endTime)))))"

text \<open>\<open>window.skill?.trim().toLowerCase() || null\<close>.\<close>

definition normalizedSkill :: "string option \<Rightarrow> string option" where
  "normalizedSkill v = (case v of None \<Rightarrow> None | Some s \<Rightarrow> if trim s = [] then None else Some (map toLowerUnit (trim s)))"

text \<open>The row of a window; its public identifier is generated when it is stored.\<close>

definition windowRow :: "env \<Rightarrow> sessionIdentity \<Rightarrow> schedule \<Rightarrow> windowRequest \<Rightarrow> demandWindow tx" where
  "windowRow E identity sched x =
     (bindT (liftT (windowTimes sched x)) (\<lambda>(startTime, endTime).
       bindT (uuidT E) (\<lambda>windowId.
       returnT \<lparr> dw_id = windowId, dw_publicId = [], dw_tenantId = id_tenantId identity, dw_scheduleId = sd_id sched,
           dw_locationId = sd_locationId sched, dw_startTime = startTime, dw_endTime = endTime,
           dw_requiredStaff = wr_requiredStaff x, dw_skill = normalizedSkill (wr_skill x) \<rparr>)))"

definition withPublicId :: "env \<Rightarrow> demandWindow \<Rightarrow> demandWindow tx" where
  "withPublicId E r = (bindT (uuidT E) (\<lambda>publicId.
    returnT (r \<lparr> dw_publicId := publicId \<rparr>)))"

definition storeWindows :: "env \<Rightarrow> sessionIdentity \<Rightarrow> schedule \<Rightarrow> demandWindow list \<Rightarrow> unit tx \<Rightarrow> unit tx" where
  "storeWindows E identity sched windows cur =
     (thenT (operationsWait cur (deleteManyT demandTable (scheduleWindow (id_tenantId identity) sched))) (
       if windows \<noteq> []
         then operationsWait cur (bindT (mapT (withPublicId E) windows) (\<lambda>rows.
           createManyT demandTable demandClash rows))
         else returnT ()))"

definition windowJson :: "windowRequest \<Rightarrow> json" where
  "windowJson x = JObj [(''startTime'', JStr (wr_startTime x)), (''endTime'', JStr (wr_endTime x)),
     (''requiredStaff'', JNum (wr_requiredStaff x)), (''skill'', nullable JStr (wr_skill x))]"

definition demandBody :: "windowRequest list \<Rightarrow> json" where
  "demandBody windows = JObj [(''windows'', JArr (map windowJson windows))]"

definition demandResponse :: "string \<Rightarrow> string \<Rightarrow> int \<Rightarrow> demandWindow list \<Rightarrow> json" where
  "demandResponse changeSetId schedulePublicId baseRevision rows = JObj
     [(''data'', JArr (map serializeWindow rows)), (''changeSetId'', JStr changeSetId), (''scheduleId'', JStr schedulePublicId),
      (''baseRevision'', JNum baseRevision), (''revision'', JNum (baseRevision + 1)),
      (''etag'', JStr (scheduleEtag schedulePublicId (baseRevision + 1)))]"

definition replaceBody :: "env \<Rightarrow> string \<Rightarrow> windowRequest list \<Rightarrow> int \<Rightarrow> string \<Rightarrow> string \<Rightarrow> sessionIdentity \<Rightarrow> unit tx \<Rightarrow> json tx" where
  "replaceBody E schedulePublicId requested baseRevision idempotencyKeyHash expectedRequestHash identity cur =
     answerOnce E cur (id_tenantId identity)
       (replayStored E ''DemandWindowReplaceResponse'' cur (id_tenantId identity) idempotencyKeyHash expectedRequestHash)
       (bindT (lockedDraft identity schedulePublicId baseRevision cur) (\<lambda>(sched, loc).
         bindT (mapT (windowRow E identity sched) requested) (\<lambda>windows.
         thenT (storeWindows E identity sched windows cur) (
         thenT (reviseDraft identity sched baseRevision cur) (
         bindT (operationsWait cur (getT (windowRows (id_tenantId identity) sched))) (\<lambda>savedRows.
         bindT (uuidT E) (\<lambda>changeSetId.
         let response = demandResponse changeSetId (sd_publicId sched) baseRevision savedRows in
         thenT (operationsWait cur (createT changeSetTable changeSetClash (changeSetRow changeSetId identity (sd_id sched)
             idempotencyKeyHash expectedRequestHash baseRevision (demandBody requested) response))) (
         thenT (operationsWait cur (writeScheduleAudit E identity ''SCHEDULE_DEMAND_REPLACED'' ''schedule_change_set'' changeSetId
             (Some (JObj [(''scheduleId'', JStr (sd_publicId sched)), (''revision'', JNum baseRevision)]))
             (Some (JObj [(''scheduleId'', JStr (sd_publicId sched)), (''revision'', JNum (baseRevision + 1)),
                (''demandWindowCount'', JNum (int (length savedRows)))])))) (
         returnT response)))))))))"

definition replaceDemandWindows :: "env \<Rightarrow> sessionIdentity \<Rightarrow> string \<Rightarrow> windowRequest list \<Rightarrow> string option \<Rightarrow> string option \<Rightarrow> json tx" where
  "replaceDemandWindows E identityArg schedulePublicId requested ifMatch idempotencyKeyArg =
     (let identity = operationsIdentity identityArg in
       thenT (liftT (authorizeScheduleDemand identity)) (
       bindT (liftT (requireScheduleRevision ifMatch schedulePublicId)) (\<lambda>baseRevision.
       bindT (liftT (requireIdempotencyKey idempotencyKeyArg)) (\<lambda>idempotencyKey.
       let expectedRequestHash = requestHash E (JObj [(''operation'', JStr ''demand-windows.replace''),
           (''schedulePublicId'', JStr schedulePublicId), (''body'', demandBody requested)]) in
       bindT (prepareOperationsAuthority E identity [''schedules:write'']) (\<lambda>scope.
       runOperations E identity [''schedules:write''] scope
           (replaceBody E schedulePublicId requested baseRevision (e_sha E idempotencyKey) expectedRequestHash))))))"

end
