(* ===== verification/ScheduleEffects.thy ===== *)
theory ScheduleEffects
  imports ScheduleCommands
begin

text \<open>
  What applying a plan does to the tables.  The shifts of a schedule are seen through their public identifiers as
  employee, times, role and breaks; every mutation changes what is seen under its target to its result and nothing
  else, so that after the three loops the schedule holds the final shifts of the plan and every other shift is as it was.
\<close>

section \<open>The view of a schedule\<close>

type_synonym shiftFacts = "string option \<times> instant \<times> instant \<times> string option \<times> plannedBreak set"

definition belongs :: "string \<Rightarrow> string \<Rightarrow> shift \<Rightarrow> bool" where
  "belongs tenantId scheduleId s \<longleftrightarrow> sh_tenantId s = tenantId \<and> sh_scheduleId s = Some scheduleId"

definition breakSet :: "database \<Rightarrow> string \<Rightarrow> plannedBreak set" where
  "breakSet d shiftId = plannedBreakOf ` {b \<in> set (shiftBreaks d). br_shiftId b = shiftId}"

definition factsOf :: "database \<Rightarrow> shift \<Rightarrow> shiftFacts" where
  "factsOf d s = (sh_userId s, sh_startTime s, sh_endTime s, sh_role s, breakSet d (sh_id s))"

definition planFacts :: "plannedShift \<Rightarrow> shiftFacts" where
  "planFacts p = (ps_userInternalId p, ps_startTime p, ps_endTime p, ps_role p, set (ps_breaks p))"

definition view :: "string \<Rightarrow> string \<Rightarrow> database \<Rightarrow> string \<rightharpoonup> shiftFacts" where
  "view tenantId scheduleId d k =
     map_option (factsOf d) (find (\<lambda>s. scheduleShift tenantId scheduleId s \<and> sh_publicId s = k) (shifts d))"

text \<open>The keys the database guarantees.\<close>

definition keysOk :: "database \<Rightarrow> bool" where
  "keysOk d \<longleftrightarrow> distinct (map sh_id (shifts d)) \<and> distinct (map sh_publicId (shifts d)) \<and> distinct (map br_id (shiftBreaks d))
     \<and> br_shiftId ` set (shiftBreaks d) \<subseteq> sh_id ` set (shifts d)"

lemma publicId_unique: "keysOk d \<Longrightarrow> s \<in> set (shifts d) \<Longrightarrow> t \<in> set (shifts d) \<Longrightarrow> sh_publicId s = sh_publicId t \<Longrightarrow> s = t"
  unfolding keysOk_def by (metis distinct_map inj_onD)

lemma shiftId_unique: "keysOk d \<Longrightarrow> s \<in> set (shifts d) \<Longrightarrow> t \<in> set (shifts d) \<Longrightarrow> sh_id s = sh_id t \<Longrightarrow> s = t"
  unfolding keysOk_def by (metis distinct_map inj_onD)

lemma view_Some:
  assumes "keysOk d"
  shows "view t i d k = Some f \<longleftrightarrow> (\<exists>s \<in> set (shifts d). scheduleShift t i s \<and> sh_publicId s = k \<and> f = factsOf d s)"
proof
  assume "view t i d k = Some f"
  then show "\<exists>s \<in> set (shifts d). scheduleShift t i s \<and> sh_publicId s = k \<and> f = factsOf d s"
    by (auto simp: view_def dest!: find_SomeD)
next
  assume "\<exists>s \<in> set (shifts d). scheduleShift t i s \<and> sh_publicId s = k \<and> f = factsOf d s"
  then obtain s where s: "s \<in> set (shifts d)" "scheduleShift t i s" "sh_publicId s = k" "f = factsOf d s" by blast
  then obtain u where u: "find (\<lambda>s. scheduleShift t i s \<and> sh_publicId s = k) (shifts d) = Some u"
    by (cases "find (\<lambda>s. scheduleShift t i s \<and> sh_publicId s = k) (shifts d)") (auto simp: find_None_iff)
  then have "u = s" using find_SomeD [OF u] s publicId_unique [OF assms] by blast
  then show "view t i d k = Some f" using u s(4) by (simp add: view_def)
qed

lemma view_None: "view t i d k = None \<longleftrightarrow> (\<forall>s \<in> set (shifts d). scheduleShift t i s \<longrightarrow> sh_publicId s \<noteq> k)"
  unfolding view_def by (auto simp: find_None_iff)

lemma view_eqI:
  assumes "keysOk d" and "keysOk d'"
    and "\<And>f. (\<exists>s \<in> set (shifts d). scheduleShift t i s \<and> sh_publicId s = k \<and> f = factsOf d s)
           \<longleftrightarrow> (\<exists>s \<in> set (shifts d'). scheduleShift t i s \<and> sh_publicId s = k \<and> f = factsOf d' s)"
  shows "view t i d' k = view t i d k"
  using view_Some [OF assms(1), of t i k] view_Some [OF assms(2), of t i k] assms(3) by (metis option.exhaust)

section \<open>What a step leaves alone\<close>

text \<open>Only the shifts of the schedule, and breaks of its shifts, may change; a shift of the schedule keeps its identity.\<close>

definition framed :: "string \<Rightarrow> string \<Rightarrow> database \<Rightarrow> database \<Rightarrow> bool" where
  "framed t i d d' \<longleftrightarrow> d' = d \<lparr> shifts := shifts d', shiftBreaks := shiftBreaks d' \<rparr>
     \<and> filter (\<lambda>s. \<not> belongs t i s) (shifts d') = filter (\<lambda>s. \<not> belongs t i s) (shifts d)
     \<and> (\<forall>x. x \<notin> sh_id ` {s \<in> set (shifts d'). belongs t i s} \<longrightarrow> breakSet d' x = breakSet d x)
     \<and> (\<forall>s \<in> set (shifts d). \<exists>s' \<in> set (shifts d'). sh_id s' = sh_id s \<and> sh_publicId s' = sh_publicId s \<and> belongs t i s' = belongs t i s)"

lemma framedD:
  assumes "framed t i d d'"
  shows "d' = d \<lparr> shifts := shifts d', shiftBreaks := shiftBreaks d' \<rparr>"
    and "filter (\<lambda>s. \<not> belongs t i s) (shifts d') = filter (\<lambda>s. \<not> belongs t i s) (shifts d)"
    and "x \<notin> sh_id ` {s \<in> set (shifts d'). belongs t i s} \<Longrightarrow> breakSet d' x = breakSet d x"
    and "s \<in> set (shifts d) \<Longrightarrow> \<exists>s' \<in> set (shifts d'). sh_id s' = sh_id s \<and> sh_publicId s' = sh_publicId s \<and> belongs t i s' = belongs t i s"
  using assms unfolding framed_def by blast+

lemma framed_refl: "framed t i d d"
  by (auto simp: framed_def)

lemma framed_belongs: "framed t i d d' \<Longrightarrow> s \<in> set (shifts d') \<Longrightarrow> \<not> belongs t i s \<Longrightarrow> s \<in> set (shifts d)"
proof -
  assume "framed t i d d'" and "s \<in> set (shifts d')" and "\<not> belongs t i s"
  then have "s \<in> set (filter (\<lambda>s. \<not> belongs t i s) (shifts d))" unfolding framed_def
    by (metis (mono_tags, lifting) filter_is_subset mem_Collect_eq set_filter)
  then show "s \<in> set (shifts d)" by simp
qed

text \<open>The rows an update touches, where the update keeps the identity of a row.\<close>

definition keepsIdentity :: "(shift \<Rightarrow> shift) \<Rightarrow> bool" where
  "keepsIdentity f \<longleftrightarrow> (\<forall>s. sh_id (f s) = sh_id s \<and> sh_publicId (f s) = sh_publicId s \<and> sh_tenantId (f s) = sh_tenantId s
     \<and> sh_scheduleId (f s) = sh_scheduleId s)"

lemma map_updateWhere: "(\<And>s. g (f s) = g s) \<Longrightarrow> map g (updateWhere P f rows) = map g rows"
  unfolding updateWhere_def by (induction rows) auto

lemma set_updateWhere: "set (updateWhere P f rows) = f ` {s \<in> set rows. P s} \<union> {s \<in> set rows. \<not> P s}"
  unfolding updateWhere_def by auto

lemma filter_updateWhere: "(\<And>s. P s \<Longrightarrow> \<not> Q s) \<Longrightarrow> (\<And>s. P s \<Longrightarrow> \<not> Q (f s)) \<Longrightarrow> filter Q (updateWhere P f rows) = filter Q rows"
  unfolding updateWhere_def by (induction rows) auto

text \<open>One row is updated: the shift \<open>s0\<close> of the schedule.\<close>

definition updatesRow :: "database \<Rightarrow> string \<Rightarrow> string \<Rightarrow> (shift \<Rightarrow> bool) \<Rightarrow> (shift \<Rightarrow> shift) \<Rightarrow> shift \<Rightarrow> bool" where
  "updatesRow d t i P f s0 \<longleftrightarrow> keysOk d \<and> s0 \<in> set (shifts d) \<and> P s0 \<and> scheduleShift t i s0
     \<and> (\<forall>s \<in> set (shifts d). P s \<longrightarrow> sh_id s = sh_id s0) \<and> keepsIdentity f"

lemma updatesRowD:
  assumes "updatesRow d t i P f s0"
  shows "keysOk d" "s0 \<in> set (shifts d)" "P s0" "scheduleShift t i s0" "keepsIdentity f"
    and "s \<in> set (shifts d) \<Longrightarrow> P s \<Longrightarrow> s = s0"
proof -
  show *: "keysOk d" "s0 \<in> set (shifts d)" "P s0" "scheduleShift t i s0" "keepsIdentity f"
    using assms unfolding updatesRow_def by blast+
  assume s: "s \<in> set (shifts d)" "P s"
  then have "sh_id s = sh_id s0" using assms unfolding updatesRow_def by blast
  then show "s = s0" by (rule shiftId_unique [OF *(1) s(1) *(2)])
qed

lemma keepsIdentityD:
  assumes "keepsIdentity f"
  shows "sh_id (f s) = sh_id s" "sh_publicId (f s) = sh_publicId s" "belongs t i (f s) = belongs t i s"
  using assms by (simp_all add: keepsIdentity_def belongs_def)

lemma scheduleShift_belongs: "scheduleShift t i s \<Longrightarrow> belongs t i s"
  by (simp add: scheduleShift_def belongs_def)

lemma updatesRow_rows:
  assumes "updatesRow d t i P f s0"
  shows "set (updateWhere P f (shifts d)) = insert (f s0) (set (shifts d) - {s0})"
proof -
  have "P s \<longleftrightarrow> s = s0" if "s \<in> set (shifts d)" for s using updatesRowD(3,6) [OF assms] that by blast
  then show ?thesis using updatesRowD(2) [OF assms] by (auto simp: set_updateWhere)
qed

lemma breakSet_shifts [simp]: "breakSet (d \<lparr> shifts := xs \<rparr>) y = breakSet d y"
  by (simp add: breakSet_def)

lemma factsOf_shifts [simp]: "factsOf (d \<lparr> shifts := xs \<rparr>) s = factsOf d s"
  by (simp add: factsOf_def)

lemma updatesRow_keys:
  assumes "updatesRow d t i P f s0"
  shows "keysOk (d \<lparr> shifts := updateWhere P f (shifts d) \<rparr>)"
proof -
  have m: "map sh_id (updateWhere P f (shifts d)) = map sh_id (shifts d)" "map sh_publicId (updateWhere P f (shifts d)) = map sh_publicId (shifts d)"
    using keepsIdentityD [OF updatesRowD(5) [OF assms]] by (simp_all add: map_updateWhere)
  then have "sh_id ` set (updateWhere P f (shifts d)) = sh_id ` set (shifts d)" by (metis list.set_map)
  then show ?thesis using updatesRowD(1) [OF assms] m unfolding keysOk_def by simp
qed

lemma updatesRow_framed:
  assumes "updatesRow d t i P f s0"
  shows "framed t i d (d \<lparr> shifts := updateWhere P f (shifts d) \<rparr>)"
proof -
  note k = keepsIdentityD [OF updatesRowD(5) [OF assms]]
  have "filter Q (updateWhere P f xs) = filter Q xs" if "\<forall>s \<in> set xs. P s \<longrightarrow> \<not> Q s \<and> \<not> Q (f s)" for Q xs
    using that unfolding updateWhere_def by (induction xs) auto
  moreover have "\<forall>s \<in> set (shifts d). P s \<longrightarrow> belongs t i s \<and> belongs t i (f s)"
    using updatesRowD(6) [OF assms] scheduleShift_belongs [OF updatesRowD(4) [OF assms]] k(3) by metis
  ultimately have "filter (\<lambda>s. \<not> belongs t i s) (updateWhere P f (shifts d)) = filter (\<lambda>s. \<not> belongs t i s) (shifts d)" by simp
  moreover have "\<exists>s' \<in> set (updateWhere P f (shifts d)). sh_id s' = sh_id s \<and> sh_publicId s' = sh_publicId s \<and> belongs t i s' = belongs t i s" if "s \<in> set (shifts d)" for s
    using that unfolding updatesRow_rows [OF assms] by (cases "s = s0") (use k(1,2) [of s0] k(3) [of t i s0] in \<open>auto intro!: bexI [of _ "f s0"] bexI [of _ s]\<close>)
  ultimately show ?thesis by (simp add: framed_def)
qed

lemma updatesRow_view:
  assumes "updatesRow d t i P f s0"
  shows "view t i (d \<lparr> shifts := updateWhere P f (shifts d) \<rparr>)
    = (view t i d)(sh_publicId s0 := (if scheduleShift t i (f s0) then Some (factsOf d (f s0)) else None))"
proof
  fix k
  let ?d' = "d \<lparr> shifts := updateWhere P f (shifts d) \<rparr>"
  note keys = updatesRowD(1) [OF assms] and keys' = updatesRow_keys [OF assms] and s0 = updatesRowD(2) [OF assms]
    and k = keepsIdentityD [OF updatesRowD(5) [OF assms]]
  have rows: "set (shifts ?d') = insert (f s0) (set (shifts d) - {s0})" using updatesRow_rows [OF assms] by simp
  show "view t i ?d' k = ((view t i d)(sh_publicId s0 := (if scheduleShift t i (f s0) then Some (factsOf d (f s0)) else None))) k"
  proof (cases "k = sh_publicId s0")
    case True
    have u: "s = f s0" if "s \<in> set (shifts ?d')" "sh_publicId s = k" for s
      using that rows publicId_unique [OF keys _ s0] True by auto
    show ?thesis
    proof (cases "scheduleShift t i (f s0)")
      case live: True
      have "view t i ?d' k = Some (factsOf ?d' (f s0))"
        unfolding view_Some [OF keys'] using rows k(2) live True by auto
      then show ?thesis using True live by simp
    next
      case False
      then have "view t i ?d' k = None" unfolding view_None using u by metis
      then show ?thesis using True False by simp
    qed
  next
    case False
    have "view t i ?d' k = view t i d k"
      by (rule view_eqI [OF keys keys']) (use rows False k(2) s0 in auto)
    then show ?thesis using False by simp
  qed
qed

section \<open>One mutation\<close>

text \<open>After a step, the view has changed under one identifier.\<close>

definition stepped :: "string \<Rightarrow> string \<Rightarrow> string \<Rightarrow> shiftFacts option \<Rightarrow> database \<Rightarrow> database \<Rightarrow> bool" where
  "stepped t i k r d d' \<longleftrightarrow> keysOk d' \<and> framed t i d d' \<and> view t i d' = (view t i d)(k := r)"

text \<open>The shift a mutation was planned for is still the one its storage identifier names.\<close>

definition idOk :: "database \<Rightarrow> plannedShift \<Rightarrow> bool" where
  "idOk d b \<longleftrightarrow> (\<exists>s \<in> set (shifts d). Some (sh_id s) = ps_internalId b \<and> sh_publicId s = ps_publicId b)"

lemma savedShift_iff:
  "savedShift identity sched b s \<longleftrightarrow> Some (sh_id s) = ps_internalId b \<and> scheduleShift (id_tenantId identity) (sd_id sched) s"
  by (simp add: savedShift_def scheduleShift_def)

lemma sat_waitUpdate:
  assumes "readsOnly cur"
  shows "sat d (operationsWait cur (updateManyT table P f)) (\<lambda>n d'. n = length (filter P (fst table d)) \<and> d' = snd table (updateWhere P f) d)"
  by (rule sat_operationsWait [OF assms], rule post_updateMany) simp

lemma updated_one:
  assumes "keysOk d" and "idOk d b" and "length (filter (savedShift identity sched b) (shifts d)) = 1" and "keepsIdentity f"
  obtains s0 where "updatesRow d (id_tenantId identity) (sd_id sched) (savedShift identity sched b) f s0"
    "Some (sh_id s0) = ps_internalId b" "sh_publicId s0 = ps_publicId b"
proof -
  have "filter (savedShift identity sched b) (shifts d) \<noteq> []" using assms(3) by auto
  then obtain s0 where s0: "s0 \<in> set (shifts d)" "savedShift identity sched b s0" by (auto simp: filter_empty_conv)
  have i: "Some (sh_id s0) = ps_internalId b" using s0(2) by (simp add: savedShift_iff)
  obtain s where s: "s \<in> set (shifts d)" "Some (sh_id s) = ps_internalId b" "sh_publicId s = ps_publicId b"
    using assms(2) unfolding idOk_def by blast
  have "s = s0" using shiftId_unique [OF assms(1) s(1) s0(1)] s(2) i by (metis option.inject)
  moreover have "sh_id u = sh_id s0" if "savedShift identity sched b u" for u
    using that i unfolding savedShift_iff by (metis option.inject)
  then have "updatesRow d (id_tenantId identity) (sd_id sched) (savedShift identity sched b) f s0"
    using assms(1,4) s0 unfolding updatesRow_def savedShift_iff by blast
  ultimately show thesis using that i s(3) by blast
qed

lemma sat_deleteMutation:
  assumes "readsOnly cur" and "keysOk d" and "idOk d b"
  shows "sat d (deleteMutation E identity sched deletedAt cur b)
    (\<lambda>_ d'. stepped (id_tenantId identity) (sd_id sched) (ps_publicId b) None d d')"
  unfolding deleteMutation_def
proof (rule post_bind, rule post_now, rule post_bind, rule post_weaken [OF sat_waitUpdate [OF assms(1)]])
  fix n d' and u :: instant
  let ?f = "\<lambda>s. s \<lparr> sh_deletedAt := Some deletedAt, sh_updatedAt := u \<rparr>"
  let ?P = "savedShift identity sched b"
  assume n: "n = length (filter ?P (fst shiftTable d)) \<and> d' = snd shiftTable (updateWhere ?P ?f) d"
  show "sat d' (checkT (n = 1) concurrentShiftChange)
      (\<lambda>_ d'. stepped (id_tenantId identity) (sd_id sched) (ps_publicId b) None d d')"
  proof (rule post_check)
    assume "n = 1"
    then have 1: "length (filter ?P (shifts d)) = 1" and d': "d' = d \<lparr> shifts := updateWhere ?P ?f (shifts d) \<rparr>"
      using n by (simp_all add: shiftTable_def)
    have f: "keepsIdentity ?f" by (simp add: keepsIdentity_def)
    obtain s0 where s0: "updatesRow d (id_tenantId identity) (sd_id sched) ?P ?f s0" "sh_publicId s0 = ps_publicId b"
      by (rule updated_one [OF assms(2,3) 1 f])
    have "\<not> scheduleShift (id_tenantId identity) (sd_id sched) (?f s0)" by (simp add: scheduleShift_def)
    then show "stepped (id_tenantId identity) (sd_id sched) (ps_publicId b) None d d'"
      using updatesRow_keys [OF s0(1)] updatesRow_framed [OF s0(1)] updatesRow_view [OF s0(1)] s0(2)
      unfolding stepped_def d' by simp
  qed simp
qed simp

text \<open>The new breaks of a shift that moves.\<close>

definition retime :: "plannedBreak list \<Rightarrow> shiftBreak \<Rightarrow> shiftBreak" where
  "retime items b = (case find (\<lambda>x. pk_internalId x = br_id b) items of None \<Rightarrow> b
     | Some x \<Rightarrow> b \<lparr> br_startTime := pk_startTime x, br_endTime := pk_endTime x \<rparr>)"

lemma retime_id [simp]: "br_id (retime items b) = br_id b" "br_shiftId (retime items b) = br_shiftId b"
  by (simp_all add: retime_def split: option.split)

lemma retime_Cons:
  assumes "\<forall>x \<in> set (item # items). \<forall>y \<in> set (item # items). pk_internalId x = pk_internalId y \<longrightarrow> x = y"
  shows "retime items (if br_id b = pk_internalId item then b \<lparr> br_startTime := pk_startTime item, br_endTime := pk_endTime item \<rparr> else b)
    = retime (item # items) b"
proof (cases "br_id b = pk_internalId item")
  case True
  have "x = item" if "find (\<lambda>x. pk_internalId x = br_id b) items = Some x" for x
  proof -
    have "x \<in> set items" "pk_internalId x = pk_internalId item" using find_SomeD [OF that] True by auto
    then show ?thesis using assms by (meson list.set_intros)
  qed
  then show ?thesis using True by (auto simp: retime_def split: option.split)
qed (auto simp: retime_def)

lemma sat_translateBreaks:
  assumes "readsOnly cur" and "\<forall>x \<in> set items. \<forall>y \<in> set items. pk_internalId x = pk_internalId y \<longrightarrow> x = y"
  shows "sat d (eachT (translateBreak cur b) items) (\<lambda>_ d'. d' = d \<lparr> shiftBreaks :=
    map (\<lambda>r. if Some (br_shiftId r) = ps_internalId b then retime items r else r) (shiftBreaks d) \<rparr>)"
  using assms(2)
proof (induction items arbitrary: d)
  case Nil
  have "map (\<lambda>r. if Some (br_shiftId r) = ps_internalId b then retime [] r else r) (shiftBreaks d) = shiftBreaks d"
    by (rule map_idI) (simp add: retime_def)
  then show ?case by (auto intro!: post_return)
next
  case (Cons item items)
  let ?P = "\<lambda>r. br_id r = pk_internalId item \<and> Some (br_shiftId r) = ps_internalId b"
  let ?f = "\<lambda>r. r \<lparr> br_startTime := pk_startTime item, br_endTime := pk_endTime item \<rparr>"
  have step: "sat d (translateBreak cur b item) (\<lambda>_ d'. d' = d \<lparr> shiftBreaks := updateWhere ?P ?f (shiftBreaks d) \<rparr>)"
    unfolding translateBreak_def
    by (rule post_bind, rule post_weaken [OF sat_waitUpdate [OF assms(1)]]) (auto intro!: post_check simp: shiftBreakTable_def)
  have eq: "map (\<lambda>r. if Some (br_shiftId r) = ps_internalId b then retime items r else r) (updateWhere ?P ?f (shiftBreaks d))
      = map (\<lambda>r. if Some (br_shiftId r) = ps_internalId b then retime (item # items) r else r) (shiftBreaks d)"
    using retime_Cons [OF Cons.prems] by (auto simp: updateWhere_def)
  have prems: "\<forall>x \<in> set items. \<forall>y \<in> set items. pk_internalId x = pk_internalId y \<longrightarrow> x = y" using Cons.prems by simp
  show ?case
    unfolding eachT.simps
    by (rule post_then, rule post_weaken [OF step], clarify, rule post_weaken [OF Cons.IH [OF prems]]) (simp_all add: eq)
qed

lemma itemsUnique:
  assumes "keysOk d" and "breakSet d x = set bs"
  shows "\<forall>p \<in> set (map (moveBreak \<delta>) bs). \<forall>q \<in> set (map (moveBreak \<delta>) bs). pk_internalId p = pk_internalId q \<longrightarrow> p = q"
proof (intro ballI impI)
  fix p q
  assume p: "p \<in> set (map (moveBreak \<delta>) bs)" and q: "q \<in> set (map (moveBreak \<delta>) bs)" and e: "pk_internalId p = pk_internalId q"
  have "\<exists>r \<in> set (shiftBreaks d). p = moveBreak \<delta> (plannedBreakOf r)" if "p \<in> set (map (moveBreak \<delta>) bs)" for p
  proof -
    have "p \<in> moveBreak \<delta> ` breakSet d x" using that assms(2) by simp
    then show ?thesis unfolding breakSet_def by blast
  qed
  then obtain r u where r: "r \<in> set (shiftBreaks d)" "p = moveBreak \<delta> (plannedBreakOf r)"
    and u: "u \<in> set (shiftBreaks d)" "q = moveBreak \<delta> (plannedBreakOf u)" using p q by metis
  have "br_id r = br_id u" using e r(2) u(2) by (simp add: moveBreak_def plannedBreakOf_def)
  then have "r = u" using assms(1) r(1) u(1) unfolding keysOk_def by (metis distinct_map inj_onD)
  then show "p = q" using r(2) u(2) by simp
qed

lemma breakSet_retimed:
  assumes "keysOk d" and "breakSet d x = set bs"
    and d'_def: "d' = d \<lparr> shiftBreaks := map (\<lambda>r. if Some (br_shiftId r) = Some x then retime (map (moveBreak \<delta>) bs) r else r) (shiftBreaks d) \<rparr>"
  shows "breakSet d' x = set (map (moveBreak \<delta>) bs)" and "y \<noteq> x \<Longrightarrow> breakSet d' y = breakSet d y"
proof -
  let ?items = "map (moveBreak \<delta>) bs"
  have one: "plannedBreakOf (retime ?items r) = moveBreak \<delta> (plannedBreakOf r)" if r: "r \<in> set (shiftBreaks d)" "br_shiftId r = x" for r
  proof -
    have "plannedBreakOf r \<in> set bs" using r assms(2) unfolding breakSet_def by auto
    then have m: "moveBreak \<delta> (plannedBreakOf r) \<in> set ?items" by simp
    have "pk_internalId (moveBreak \<delta> (plannedBreakOf r)) = br_id r" by (simp add: moveBreak_def plannedBreakOf_def)
    then obtain p where p: "find (\<lambda>y. pk_internalId y = br_id r) ?items = Some p"
      using m by (metis (mono_tags, lifting) find_None_iff option.exhaust)
    have "p \<in> set ?items" "pk_internalId p = pk_internalId (moveBreak \<delta> (plannedBreakOf r))"
      using find_SomeD [OF p] by (simp_all add: moveBreak_def plannedBreakOf_def)
    then have "p = moveBreak \<delta> (plannedBreakOf r)" using itemsUnique [OF assms(1,2)] m by blast
    then show ?thesis using p by (simp add: retime_def plannedBreakOf_def moveBreak_def)
  qed
  have rows: "{b \<in> set (shiftBreaks d'). br_shiftId b = x} = retime ?items ` {b \<in> set (shiftBreaks d). br_shiftId b = x}"
    unfolding d'_def by (auto simp: image_iff)
  have "breakSet d' x = (\<lambda>r. plannedBreakOf (retime ?items r)) ` {b \<in> set (shiftBreaks d). br_shiftId b = x}"
    unfolding breakSet_def rows image_image ..
  also have "\<dots> = moveBreak \<delta> ` breakSet d x" unfolding breakSet_def image_image using one by (intro image_cong) simp_all
  finally show "breakSet d' x = set ?items" using assms(2) by simp
  assume "y \<noteq> x"
  then have "{b \<in> set (shiftBreaks d'). br_shiftId b = y} = {b \<in> set (shiftBreaks d). br_shiftId b = y}"
    unfolding d'_def by (auto simp: image_iff)
  then show "breakSet d' y = breakSet d y" unfolding breakSet_def by simp
qed

text \<open>When the breaks of one shift of the schedule change, only what is seen of that shift does.\<close>

lemma breaks_step:
  assumes "keysOk d" and s: "s \<in> set (shifts d)" "scheduleShift t i s"
    and d': "d' = d \<lparr> shiftBreaks := map g (shiftBreaks d) \<rparr>" and g: "\<And>r. br_id (g r) = br_id r" "\<And>r. br_shiftId (g r) = br_shiftId r"
    and other: "\<And>y. y \<noteq> sh_id s \<Longrightarrow> breakSet d' y = breakSet d y"
  shows "keysOk d'" "framed t i d d'"
    "view t i d' = (view t i d)(sh_publicId s := Some (sh_userId s, sh_startTime s, sh_endTime s, sh_role s, breakSet d' (sh_id s)))"
proof -
  have "map br_id (map g (shiftBreaks d)) = map br_id (shiftBreaks d)" "br_shiftId ` set (map g (shiftBreaks d)) = br_shiftId ` set (shiftBreaks d)"
    using g by (simp_all add: image_image comp_def)
  then show keys: "keysOk d'" using assms(1) unfolding keysOk_def d' by (simp del: map_map)
  have "sh_id s \<in> sh_id ` {s \<in> set (shifts d). belongs t i s}" using s scheduleShift_belongs by blast
  then have "\<forall>x. x \<notin> sh_id ` {s \<in> set (shifts d). belongs t i s} \<longrightarrow> breakSet d' x = breakSet d x" using other by metis
  moreover have "shifts d' = shifts d" "d' = d \<lparr> shifts := shifts d, shiftBreaks := shiftBreaks d' \<rparr>" by (simp_all add: d')
  ultimately show "framed t i d d'" unfolding framed_def by auto
  show "view t i d' = (view t i d)(sh_publicId s := Some (sh_userId s, sh_startTime s, sh_endTime s, sh_role s, breakSet d' (sh_id s)))"
  proof
    fix k
    show "view t i d' k = ((view t i d)(sh_publicId s := Some (sh_userId s, sh_startTime s, sh_endTime s, sh_role s, breakSet d' (sh_id s)))) k"
    proof (cases "k = sh_publicId s")
      case True
      have "view t i d' k = Some (factsOf d' s)" unfolding view_Some [OF keys] using s True d' by auto
      then show ?thesis using True by (simp add: factsOf_def)
    next
      case False
      have "factsOf d' u = factsOf d u" if "u \<in> set (shifts d)" "sh_publicId u = k" for u
      proof -
        have "sh_id u \<noteq> sh_id s" using shiftId_unique [OF assms(1) that(1) s(1)] that(2) False by blast
        then show ?thesis using other by (simp add: factsOf_def)
      qed
      moreover have "shifts d' = shifts d" by (simp add: d')
      ultimately have "view t i d' k = view t i d k" by (intro view_eqI [OF assms(1) keys]) metis
      then show ?thesis using False by simp
    qed
  qed
qed

lemma framed_trans:
  assumes "framed t i d d1" and "framed t i d1 d2"
  shows "framed t i d d2"
proof -
  let ?put = "\<lambda>x. x \<lparr> shifts := shifts d2, shiftBreaks := shiftBreaks d2 \<rparr> :: database"
  have "d2 = ?put (d \<lparr> shifts := shifts d1, shiftBreaks := shiftBreaks d1 \<rparr>)"
    by (rule trans [OF framedD(1) [OF assms(2)] arg_cong [OF framedD(1) [OF assms(1)], of ?put]])
  then have "d2 = ?put d" by simp
  moreover have "breakSet d2 x = breakSet d x" if x: "x \<notin> sh_id ` {s \<in> set (shifts d2). belongs t i s}" for x
  proof -
    have "x \<notin> sh_id ` {s \<in> set (shifts d1). belongs t i s}"
    proof
      assume "x \<in> sh_id ` {s \<in> set (shifts d1). belongs t i s}"
      then obtain s where s: "s \<in> set (shifts d1)" "belongs t i s" "sh_id s = x" by auto
      obtain u where "u \<in> set (shifts d2)" "belongs t i u" "x = sh_id u" using framedD(4) [OF assms(2) s(1)] s(2,3) by auto
      then show False using x by blast
    qed
    from framedD(3) [OF assms(1) this] framedD(3) [OF assms(2) x] show ?thesis by simp
  qed
  moreover have "\<exists>s' \<in> set (shifts d2). sh_id s' = sh_id s \<and> sh_publicId s' = sh_publicId s \<and> belongs t i s' = belongs t i s"
    if s: "s \<in> set (shifts d)" for s
  proof -
    obtain u where u: "u \<in> set (shifts d1)" "sh_id u = sh_id s" "sh_publicId u = sh_publicId s" "belongs t i u = belongs t i s"
      using framedD(4) [OF assms(1) s] by blast
    show ?thesis using framedD(4) [OF assms(2) u(1)] u(2-4) by simp
  qed
  ultimately show ?thesis using trans [OF framedD(2) [OF assms(2)] framedD(2) [OF assms(1)]] unfolding framed_def by blast
qed

lemma sat_updateMutation:
  assumes "readsOnly cur" and "keysOk d" and "idOk d b" and "view (id_tenantId identity) (sd_id sched) d (ps_publicId b) = Some (planFacts b)"
    and a: "ps_breaks a = map (moveBreak \<delta>) (ps_breaks b)"
  shows "sat d (updateMutation E identity sched cur b a)
    (\<lambda>_ d'. stepped (id_tenantId identity) (sd_id sched) (ps_publicId b) (Some (planFacts a)) d d')"
  unfolding updateMutation_def
proof (rule post_bind, rule post_now, rule post_bind, rule post_weaken [OF sat_waitUpdate [OF assms(1)]])
  fix n d1 and u :: instant
  let ?t = "id_tenantId identity" and ?i = "sd_id sched"
  let ?f = "\<lambda>s. s \<lparr> sh_userId := ps_userInternalId a, sh_startTime := ps_startTime a, sh_endTime := ps_endTime a, sh_role := ps_role a, sh_updatedAt := u \<rparr>"
  let ?P = "savedShift identity sched b"
  assume n: "n = length (filter ?P (fst shiftTable d)) \<and> d1 = snd shiftTable (updateWhere ?P ?f) d"
  show "sat d1 (thenT (checkT (n = 1) concurrentShiftChange) (eachT (translateBreak cur b) (ps_breaks a)))
      (\<lambda>_ d'. stepped ?t ?i (ps_publicId b) (Some (planFacts a)) d d')"
  proof (rule post_then, rule post_check)
    assume "n = 1"
    then have 1: "length (filter ?P (shifts d)) = 1" and d1: "d1 = d \<lparr> shifts := updateWhere ?P ?f (shifts d) \<rparr>"
      using n by (simp_all add: shiftTable_def)
    have f: "keepsIdentity ?f" by (simp add: keepsIdentity_def)
    obtain s0 where s0: "updatesRow d ?t ?i ?P ?f s0" "Some (sh_id s0) = ps_internalId b" "sh_publicId s0 = ps_publicId b"
      by (rule updated_one [OF assms(2,3) 1 f])
    note row = updatesRowD [OF s0(1)]
    have "planFacts b = factsOf d s0"
      using assms(4) row(1,2) s0(3) publicId_unique unfolding view_Some [OF assms(2)] by metis
    then have bs: "breakSet d1 (sh_id s0) = set (ps_breaks b)" by (simp add: d1 planFacts_def factsOf_def)
    have k1: "keysOk d1" and fr1: "framed ?t ?i d d1" and v1: "view ?t ?i d1 = (view ?t ?i d)(ps_publicId b := Some (factsOf d (?f s0)))"
      using updatesRow_keys [OF s0(1)] updatesRow_framed [OF s0(1)] updatesRow_view [OF s0(1)] row(4) s0(3)
      unfolding d1 by (simp_all add: scheduleShift_def)
    have m: "?f s0 \<in> set (shifts d1)" "scheduleShift ?t ?i (?f s0)"
      using updatesRow_rows [OF s0(1)] row(4) by (simp_all add: d1 scheduleShift_def)
    show "sat d1 (eachT (translateBreak cur b) (ps_breaks a)) (\<lambda>_ d'. stepped ?t ?i (ps_publicId b) (Some (planFacts a)) d d')"
      unfolding a
    proof (rule post_weaken [OF sat_translateBreaks [OF assms(1) itemsUnique [OF k1 bs]]])
      fix d'
      assume d': "d' = d1 \<lparr> shiftBreaks := map (\<lambda>r. if Some (br_shiftId r) = ps_internalId b
          then retime (map (moveBreak \<delta>) (ps_breaks b)) r else r) (shiftBreaks d1) \<rparr>"
      note moved = breakSet_retimed [OF k1 bs d' [folded s0(2)]]
      have other: "breakSet d' y = breakSet d1 y" if "y \<noteq> sh_id (?f s0)" for y using moved(2) that by simp
      note after = breaks_step [OF k1 m d' _ _ other]
      have "view ?t ?i d' = (view ?t ?i d1)(ps_publicId b := Some (planFacts a))"
        using after(3) moved(1) s0(3) by (simp add: planFacts_def a)
      then show "stepped ?t ?i (ps_publicId b) (Some (planFacts a)) d d'"
        using after(1,2) fr1 v1 by (simp add: stepped_def framed_trans [OF fr1])
    qed simp
  qed simp
qed simp

lemma sat_createMutation:
  assumes "readsOnly cur" and "keysOk d" and "ps_breaks a = []"
  shows "sat d (createMutation E identity sched cur a)
    (\<lambda>_ d'. stepped (id_tenantId identity) (sd_id sched) (ps_publicId a) (Some (planFacts a)) d d'
       \<and> ps_publicId a \<notin> sh_publicId ` set (shifts d) \<and> map sh_publicId (shifts d') = map sh_publicId (shifts d) @ [ps_publicId a])"
  unfolding createMutation_def
proof (rule post_bind, rule post_uuid, rule post_bind, rule post_now, rule sat_operationsWait [OF assms(1)], rule post_create)
  fix x and u :: instant
  let ?t = "id_tenantId identity" and ?i = "sd_id sched"
  let ?s = "\<lparr> sh_id = x, sh_publicId = ps_publicId a, sh_tenantId = ?t, sh_locationId = sd_locationId sched, sh_scheduleId = Some ?i,
    sh_userId = ps_userInternalId a, sh_startTime = ps_startTime a, sh_endTime = ps_endTime a, sh_role = ps_role a, sh_updatedAt = u, sh_deletedAt = None \<rparr>"
  let ?d' = "snd shiftTable (\<lambda>rs. rs @ [?s]) d"
  assume "\<not> list_ex (shiftClash ?s) (fst shiftTable d)"
  then have new: "x \<notin> sh_id ` set (shifts d)" "ps_publicId a \<notin> sh_publicId ` set (shifts d)"
    by (auto simp: list_ex_iff shiftClash_def shiftTable_def)
  have sh: "shifts ?d' = shifts d @ [?s]" "shiftBreaks ?d' = shiftBreaks d" by (simp_all add: shiftTable_def)
  have keys: "keysOk ?d'" using assms(2) new unfolding keysOk_def sh by auto
  have b: "breakSet ?d' y = breakSet d y" for y by (simp add: breakSet_def sh)
  have "breakSet d x = {}" using assms(2) new(1) by (auto simp: keysOk_def breakSet_def)
  then have facts: "factsOf ?d' ?s = planFacts a" "\<And>s. factsOf ?d' s = factsOf d s" using assms(3) by (simp_all add: factsOf_def planFacts_def b)
  have live: "scheduleShift ?t ?i ?s" "belongs ?t ?i ?s" by (simp_all add: scheduleShift_def belongs_def)
  have fr: "framed ?t ?i d ?d'" unfolding framed_def sh b using live(2) by (simp add: shiftTable_def) blast
  have "view ?t ?i ?d' k = ((view ?t ?i d)(ps_publicId a := Some (planFacts a))) k" for k
  proof (cases "k = ps_publicId a")
    case True
    have "view ?t ?i ?d' k = Some (factsOf ?d' ?s)" unfolding view_Some [OF keys] using live(1) True by (intro bexI [of _ ?s]) (simp_all add: sh)
    then show ?thesis using True facts(1) by simp
  next
    case False
    have "view ?t ?i ?d' k = view ?t ?i d k" by (rule view_eqI [OF assms(2) keys]) (use False facts(2) in \<open>auto simp: sh\<close>)
    then show ?thesis using False by simp
  qed
  then show "stepped ?t ?i (ps_publicId a) (Some (planFacts a)) d ?d' \<and> ps_publicId a \<notin> sh_publicId ` set (shifts d)
      \<and> map sh_publicId (shifts ?d') = map sh_publicId (shifts d) @ [ps_publicId a]"
    using keys fr new(2) by (auto simp: stepped_def sh)
qed simp

section \<open>All mutations\<close>

fun ready :: "string \<Rightarrow> string \<Rightarrow> database \<Rightarrow> shiftMutation \<Rightarrow> bool" where
  "ready t i d (CreateShift a c) \<longleftrightarrow> ps_breaks a = []"
| "ready t i d (UpdateShift b a) \<longleftrightarrow> idOk d b \<and> view t i d (ps_publicId b) = Some (planFacts b)
     \<and> ps_breaks a = map (moveBreak (ps_startTime a - ps_startTime b)) (ps_breaks b)"
| "ready t i d (DeleteShift b) \<longleftrightarrow> idOk d b"

definition mutationFacts :: "shiftMutation \<Rightarrow> shiftFacts option" where
  "mutationFacts m = map_option planFacts (mutationResult m)"

lemma sat_applyMutation:
  assumes "readsOnly cur" and "keysOk d" and "ready (id_tenantId identity) (sd_id sched) d m"
  shows "sat d (operationsWait cur (applyMutation E identity sched deletedAt cur m))
    (\<lambda>_ d'. stepped (id_tenantId identity) (sd_id sched) (mutationTarget m) (mutationFacts m) d d')"
proof (rule sat_operationsWait [OF assms(1)], cases m)
  case (CreateShift a c)
  then show "sat d (applyMutation E identity sched deletedAt cur m)
    (\<lambda>_ d'. stepped (id_tenantId identity) (sd_id sched) (mutationTarget m) (mutationFacts m) d d')"
    using assms(3) by (auto simp: applyMutation_def mutationFacts_def intro: post_weaken [OF sat_createMutation [OF assms(1,2)]])
next
  case (UpdateShift b a)
  then show "sat d (applyMutation E identity sched deletedAt cur m)
    (\<lambda>_ d'. stepped (id_tenantId identity) (sd_id sched) (mutationTarget m) (mutationFacts m) d d')"
    using assms(3) by (auto simp: applyMutation_def mutationFacts_def intro: sat_updateMutation [OF assms(1,2)])
next
  case (DeleteShift b)
  then show "sat d (applyMutation E identity sched deletedAt cur m)
    (\<lambda>_ d'. stepped (id_tenantId identity) (sd_id sched) (mutationTarget m) (mutationFacts m) d d')"
    using assms(3) by (auto simp: applyMutation_def mutationFacts_def intro: sat_deleteMutation [OF assms(1,2)])
qed

lemma idOk_framed: "framed t i d d' \<Longrightarrow> idOk d b \<Longrightarrow> idOk d' b"
  unfolding idOk_def using framedD(4) by metis

lemma ready_stepped:
  assumes "stepped t i k r d d'" and "ready t i d m" and "mutationTarget m \<noteq> k"
  shows "ready t i d' m"
  using assms idOk_framed [of t i d d'] by (cases m) (auto simp: stepped_def)

definition afterMutations :: "shiftMutation list \<Rightarrow> (string \<rightharpoonup> shiftFacts) \<Rightarrow> string \<rightharpoonup> shiftFacts" where
  "afterMutations ms v k = (case map_of (map (\<lambda>m. (mutationTarget m, mutationFacts m)) ms) k of None \<Rightarrow> v k | Some r \<Rightarrow> r)"

lemma afterMutations_Cons:
  "mutationTarget m \<notin> mutationTarget ` set ms \<Longrightarrow> afterMutations ms (v(mutationTarget m := mutationFacts m)) = afterMutations (m # ms) v"
proof
  fix k
  assume new: "mutationTarget m \<notin> mutationTarget ` set ms"
  show "afterMutations ms (v(mutationTarget m := mutationFacts m)) k = afterMutations (m # ms) v k"
  proof (cases "k = mutationTarget m")
    case True
    then have "map_of (map (\<lambda>m. (mutationTarget m, mutationFacts m)) ms) k = None" using new by (auto simp: map_of_eq_None_iff)
    then show ?thesis using True by (simp add: afterMutations_def)
  qed (simp add: afterMutations_def split: option.split)
qed

lemma sat_applyEach:
  assumes "readsOnly cur" and "keysOk d" and "distinct (map mutationTarget ms)" and "\<forall>m \<in> set ms. ready (id_tenantId identity) (sd_id sched) d m"
  shows "sat d (eachT (\<lambda>m. operationsWait cur (applyMutation E identity sched deletedAt cur m)) ms)
    (\<lambda>_ d'. keysOk d' \<and> framed (id_tenantId identity) (sd_id sched) d d'
       \<and> view (id_tenantId identity) (sd_id sched) d' = afterMutations ms (view (id_tenantId identity) (sd_id sched) d))"
  using assms(2-4)
proof (induction ms arbitrary: d)
  case Nil
  then show ?case by (auto intro!: post_return framed_refl simp: afterMutations_def)
next
  case (Cons m ms)
  let ?t = "id_tenantId identity" and ?i = "sd_id sched"
  have r: "ready ?t ?i d m" using Cons.prems(3) by simp
  show ?case
    unfolding eachT.simps
  proof (rule post_then, rule post_weaken [OF sat_applyMutation [OF assms(1) Cons.prems(1) r]])
    fix d1
    assume st: "stepped ?t ?i (mutationTarget m) (mutationFacts m) d d1"
    have k1: "keysOk d1" and f1: "framed ?t ?i d d1" and v1: "view ?t ?i d1 = (view ?t ?i d)(mutationTarget m := mutationFacts m)"
      using st by (auto simp: stepped_def)
    have new: "mutationTarget m \<notin> mutationTarget ` set ms" and dist: "distinct (map mutationTarget ms)" using Cons.prems(2) by auto
    have "\<forall>x \<in> set ms. ready ?t ?i d1 x" using ready_stepped [OF st] Cons.prems(3) new by (metis image_eqI list.set_intros(2))
    from Cons.IH [OF k1 dist this]
    show "sat d1 (eachT (\<lambda>m. operationsWait cur (applyMutation E identity sched deletedAt cur m)) ms)
      (\<lambda>_ d'. keysOk d' \<and> framed ?t ?i d d' \<and> view ?t ?i d' = afterMutations (m # ms) (view ?t ?i d))"
      unfolding v1 afterMutations_Cons [OF new] by (rule post_weaken) (blast intro: framed_trans [OF f1], simp)
  qed simp
qed

text \<open>The public identifiers of the rows: those before and the created ones, all different.\<close>

lemma sat_translate_shifts:
  assumes "readsOnly cur"
  shows "sat d (eachT (translateBreak cur b) items) (\<lambda>_ d'. shifts d' = shifts d)"
proof (induction items arbitrary: d)
  case (Cons x xs)
  have "sat d (translateBreak cur b x) (\<lambda>_ d'. shifts d' = shifts d)"
    unfolding translateBreak_def
    by (rule post_bind, rule post_weaken [OF sat_waitUpdate [OF assms]]) (auto intro!: post_check simp: shiftBreakTable_def)
  then show ?case
    unfolding eachT.simps by (intro post_then) (erule post_weaken, rule post_weaken [OF Cons.IH], auto)
qed (auto intro: post_return)

definition publicIdsAfter :: "shiftMutation list \<Rightarrow> database \<Rightarrow> database \<Rightarrow> bool" where
  "publicIdsAfter ms d d' \<longleftrightarrow> map sh_publicId (shifts d') = map sh_publicId (shifts d) @ map mutationTarget (filter isCreate ms)
     \<and> (distinct (map sh_publicId (shifts d)) \<longrightarrow> distinct (map sh_publicId (shifts d')))"

lemma sat_applyMutation_ids:
  assumes "readsOnly cur"
  shows "sat d (operationsWait cur (applyMutation E identity sched deletedAt cur m)) (\<lambda>_ d'. publicIdsAfter [m] d d')"
proof (rule sat_operationsWait [OF assms], cases m)
  case (CreateShift a c)
  show "sat d (applyMutation E identity sched deletedAt cur m) (\<lambda>_ d'. publicIdsAfter [m] d d')"
    unfolding CreateShift applyMutation_def createMutation_def shiftMutation.case
    by (rule post_bind, rule post_uuid, rule post_bind, rule post_now, rule sat_operationsWait [OF assms], rule post_create)
      (auto simp: publicIdsAfter_def shiftTable_def shiftClash_def list_ex_iff)
next
  case (UpdateShift b a)
  show "sat d (applyMutation E identity sched deletedAt cur m) (\<lambda>_ d'. publicIdsAfter [m] d d')"
    unfolding UpdateShift applyMutation_def updateMutation_def shiftMutation.case
    apply (rule post_bind, rule post_now, rule post_bind, rule post_weaken [OF sat_waitUpdate [OF assms]])
     apply (rule post_then, rule post_check, rule post_weaken [OF sat_translate_shifts [OF assms]])
        apply (auto simp: publicIdsAfter_def shiftTable_def map_updateWhere)
    done
next
  case (DeleteShift b)
  show "sat d (applyMutation E identity sched deletedAt cur m) (\<lambda>_ d'. publicIdsAfter [m] d d')"
    unfolding DeleteShift applyMutation_def deleteMutation_def shiftMutation.case
    apply (rule post_bind, rule post_now, rule post_bind, rule post_weaken [OF sat_waitUpdate [OF assms]])
     apply (auto simp: publicIdsAfter_def shiftTable_def map_updateWhere intro!: post_check)
    done
qed

lemma publicIdsAfter_trans: "publicIdsAfter ms d d1 \<Longrightarrow> publicIdsAfter ns d1 d2 \<Longrightarrow> publicIdsAfter (ms @ ns) d d2"
  unfolding publicIdsAfter_def by (metis append_assoc filter_append map_append)

lemma sat_applyEach_ids:
  assumes "readsOnly cur"
  shows "sat d (eachT (\<lambda>m. operationsWait cur (applyMutation E identity sched deletedAt cur m)) ms) (\<lambda>_ d'. publicIdsAfter ms d d')"
proof (induction ms arbitrary: d)
  case Nil
  show ?case by (auto intro: post_return simp: publicIdsAfter_def)
next
  case (Cons m ms)
  show ?case
    unfolding eachT.simps
    by (rule post_then, rule post_weaken [OF sat_applyMutation_ids [OF assms]], rule post_weaken [OF Cons.IH])
      (auto dest: publicIdsAfter_trans [of "[m]" _ _ ms])
qed

lemma publicIds_fresh:
  assumes "publicIdsAfter ms d d'" and "keysOk d"
  shows "distinct (map mutationTarget (filter isCreate ms))" "mutationTarget ` set (filter isCreate ms) \<inter> sh_publicId ` set (shifts d) = {}"
proof -
  have "distinct (map sh_publicId (shifts d) @ map mutationTarget (filter isCreate ms))"
    using assms unfolding publicIdsAfter_def keysOk_def by metis
  then show "distinct (map mutationTarget (filter isCreate ms))" "mutationTarget ` set (filter isCreate ms) \<inter> sh_publicId ` set (shifts d) = {}"
    by auto
qed

lemma kinds_partition: "m \<in> set ms \<Longrightarrow> isDelete m \<or> isUpdate m \<or> isCreate m"
  by (cases m) auto

lemma kinds_disjoint: "isDelete m \<Longrightarrow> \<not> isUpdate m" "isDelete m \<Longrightarrow> \<not> isCreate m" "isUpdate m \<Longrightarrow> \<not> isCreate m"
  by (cases m; simp)+

lemma afterMutations_set:
  assumes "set ms = set ns" and "distinct (map mutationTarget ms)" and "distinct (map mutationTarget ns)"
  shows "afterMutations ms = afterMutations ns"
proof -
  have "map_of (map (\<lambda>m. (mutationTarget m, mutationFacts m)) ms) = map_of (map (\<lambda>m. (mutationTarget m, mutationFacts m)) ns)"
    using assms by (subst map_of_inject_set) (simp_all add: comp_def)
  then show ?thesis by (simp add: afterMutations_def fun_eq_iff)
qed

definition inOrder :: "shiftMutation list \<Rightarrow> shiftMutation list" where
  "inOrder ms = filter isDelete ms @ filter isUpdate ms @ filter isCreate ms"

lemma inOrder_facts:
  assumes "distinct (map mutationTarget ms)"
  shows "set (inOrder ms) = set ms" "distinct (map mutationTarget (inOrder ms))"
proof -
  show s: "set (inOrder ms) = set ms" unfolding inOrder_def using kinds_partition by fastforce
  have i: "inj_on mutationTarget (set ms)" "distinct ms" using assms by (simp_all add: distinct_map)
  have "distinct (inOrder ms)" using i(2) kinds_disjoint unfolding inOrder_def by (auto simp: distinct_append)
  then show "distinct (map mutationTarget (inOrder ms))" using i(1) s by (simp add: distinct_map)
qed

lemma filter_inOrder: "filter isCreate (inOrder ms) = filter isCreate ms"
proof -
  have "filter isCreate (filter isDelete ms) = []" "filter isCreate (filter isUpdate ms) = []"
    using kinds_disjoint by (auto simp: filter_empty_conv)
  then show ?thesis unfolding inOrder_def by (simp del: filter_filter)
qed

lemma applyMutations_inOrder:
  "eachT f (xs @ ys) = thenT (eachT f xs) (eachT f ys)"
proof (induction xs)
  case Nil
  show ?case by (simp add: thenT_def bindT_def returnT_def fun_eq_iff)
next
  case (Cons x xs)
  then show ?case by (simp add: thenT_def bindT_def fun_eq_iff split: prod.split sum.split)
qed

text \<open>The three loops are one loop over the mutations in order of their kind.\<close>

lemma applyMutations_each:
  "applyMutations E identity sched deletedAt cur ms
     = eachT (\<lambda>m. operationsWait cur (applyMutation E identity sched deletedAt cur m)) (inOrder ms)"
  by (simp add: applyMutations_def inOrder_def applyMutations_inOrder)

lemma sat_applyMutations_ids:
  assumes "readsOnly cur"
  shows "sat d (applyMutations E identity sched deletedAt cur ms) (\<lambda>_ d'. publicIdsAfter ms d d')"
  unfolding applyMutations_each
  by (rule post_weaken [OF sat_applyEach_ids [OF assms]]) (unfold publicIdsAfter_def filter_inOrder, assumption, simp)

lemma sat_applyMutations:
  assumes "readsOnly cur" and "keysOk d" and "distinct (map mutationTarget ms)" and "\<forall>m \<in> set ms. ready (id_tenantId identity) (sd_id sched) d m"
  shows "sat d (applyMutations E identity sched deletedAt cur ms)
    (\<lambda>_ d'. keysOk d' \<and> framed (id_tenantId identity) (sd_id sched) d d'
       \<and> view (id_tenantId identity) (sd_id sched) d' = afterMutations ms (view (id_tenantId identity) (sd_id sched) d))"
  unfolding applyMutations_each
  using sat_applyEach [OF assms(1,2) inOrder_facts(2) [OF assms(3)]] assms(4)
    afterMutations_set [OF inOrder_facts(1,2) [OF assms(3)] assms(3)] inOrder_facts(1) [OF assms(3)]
  by simp

section \<open>Carrying out a plan\<close>

text \<open>What the service hands to the planner.\<close>

definition inputFor :: "string \<Rightarrow> schedule \<Rightarrow> database \<Rightarrow> planInput \<Rightarrow> bool" where
  "inputFor t sched d input \<longleftrightarrow> in_scheduleStart input = sd_startDate sched \<and> in_scheduleEnd input = sd_endDate sched
     \<and> in_currentShifts input = map plannedShiftOf (scheduleRows t (sd_id sched) d)
     \<and> ru_internalId ` ran (in_users input) \<subseteq> us_id ` {u \<in> set (users d). us_tenantId u = t}
     \<and> (\<forall>s \<in> set (shifts d). \<forall>u. sh_tenantId s = t \<and> sh_deletedAt s = None \<and> sh_scheduleId s \<noteq> Some (sd_id sched) \<and> sh_userId s = Some u
          \<and> u \<noteq> [] \<and> u \<in> involvedIds input \<and> sh_startTime s < sd_endDate sched + 86400000 \<and> sd_startDate sched < sh_endTime s
        \<longrightarrow> (\<exists>x \<in> set (in_externalShifts input). xs_userInternalId x = u \<and> xs_startTime x = sh_startTime s \<and> xs_endTime x = sh_endTime s))"

lemma ran_jsMap: "ran (jsMap kvs) \<subseteq> snd ` set kvs"
  by (force simp: ran_def dest!: jsMap_SomeD)

lemma userOf_planned: "userOf (plannedShiftOf r) = (case sh_userId (sr_shift r) of None \<Rightarrow> [] | Some u \<Rightarrow> u)"
  by (simp add: userOf_def plannedShiftOf_def Let_def)

lemma inputFor_intro:
  fixes rows requested
  defines "userIds \<equiv> involvedUsers rows requested"
  assumes rows: "rows = scheduleRows t (sd_id sched) d" and req: "set requested \<subseteq> {u \<in> set (users d). us_tenantId u = t}"
    and ext: "ext = (if userIds = [] then [] else externalRows t sched userIds d)"
  shows "inputFor t sched d \<lparr> in_scheduleStart = sd_startDate sched, in_scheduleEnd = sd_endDate sched,
    in_currentShifts = map plannedShiftOf rows, in_externalShifts = externalShiftsOf ext,
    in_users = jsMap (map (\<lambda>u. (us_publicId u, \<lparr> ru_internalId = us_id u, ru_publicId = us_publicId u \<rparr>)) requested),
    in_operations = operations \<rparr>"
proof -
  let ?us = "jsMap (map (\<lambda>u. (us_publicId u, \<lparr> ru_internalId = us_id u, ru_publicId = us_publicId u \<rparr>)) requested)"
  let ?in = "\<lparr> in_scheduleStart = sd_startDate sched, in_scheduleEnd = sd_endDate sched, in_currentShifts = map plannedShiftOf rows,
    in_externalShifts = externalShiftsOf ext, in_users = ?us, in_operations = operations \<rparr>"
  have us: "ru_internalId ` ran ?us \<subseteq> us_id ` set requested" using ran_jsMap [of "map _ requested"] by fastforce
  have inv: "u \<in> set userIds" if "u \<noteq> []" "u \<in> involvedIds ?in" for u
  proof -
    have "u \<in> userOf ` plannedShiftOf ` set rows \<or> u \<in> us_id ` set requested" using that(2) us by (auto simp: involvedIds_def)
    then show ?thesis
    proof
      assume "u \<in> userOf ` plannedShiftOf ` set rows"
      then obtain r where r: "r \<in> set rows" "u = userOf (plannedShiftOf r)" by blast
      then have "sh_userId (sr_shift r) = Some u" using that(1) by (auto simp: userOf_planned split: option.splits)
      then show ?thesis using r(1) that(1) by (auto simp: userIds_def involvedUsers_def intro!: bexI [of _ r])
    qed (auto simp: userIds_def involvedUsers_def)
  qed
  have "\<exists>x \<in> set (externalShiftsOf ext). xs_userInternalId x = u \<and> xs_startTime x = sh_startTime s \<and> xs_endTime x = sh_endTime s"
    if s: "s \<in> set (shifts d)" "sh_tenantId s = t \<and> sh_deletedAt s = None \<and> sh_scheduleId s \<noteq> Some (sd_id sched) \<and> sh_userId s = Some u
          \<and> u \<noteq> [] \<and> u \<in> involvedIds ?in \<and> sh_startTime s < sd_endDate sched + 86400000 \<and> sd_startDate sched < sh_endTime s" for s u
  proof -
    have u: "u \<in> set userIds" using inv s(2) by blast
    then have "s \<in> set ext" using s by (auto simp: ext externalRows_def findMany_def)
    moreover have "sh_userId s = Some u" "u \<noteq> []" using s(2) by blast+
    ultimately have "\<lparr> xs_internalId = sh_id s, xs_userInternalId = u, xs_startTime = sh_startTime s, xs_endTime = sh_endTime s \<rparr>
        \<in> set (externalShiftsOf ext)"
      by (force simp: externalShiftsOf_def)
    then show ?thesis by (metis externalShift.select_convs(2-4))
  qed
  moreover have "ru_internalId ` ran ?us \<subseteq> us_id ` {u \<in> set (users d). us_tenantId u = t}" using us req by blast
  ultimately show ?thesis unfolding inputFor_def by (simp add: rows)
qed

lemma take_Suc_eq: "length (take (Suc n) xs) \<le> n \<Longrightarrow> take (Suc n) xs = xs"
  by (simp add: min_def split: if_splits)

lemma sat_planInputOf:
  assumes "readsOnly cur"
  shows "sat d (planInputOf identity sched operations cur) (\<lambda>input d'. d' = d \<and> inputFor (id_tenantId identity) sched d input \<and> in_operations input = operations)"
proof -
  let ?t = "id_tenantId identity"
  have get: "sat d (operationsWait cur (getT f)) (\<lambda>x d'. d' = d \<and> x = f d)" for f :: "database \<Rightarrow> 'x"
    by (rule sat_operationsWait [OF assms], rule post_get) simp
  have users: "sat d (if ids = [] then returnT [] else operationsWait cur (getT (schedulableUsers ?t ids)))
      (\<lambda>us d'. d' = d \<and> set us \<subseteq> {u \<in> set (users d). us_tenantId u = ?t})" for ids
    by (rule post_if, rule post_return, simp, rule post_weaken [OF get]) (auto simp: schedulableUsers_def)
  have ext: "sat d (if ids = [] then returnT [] else operationsWait cur (getT (\<lambda>d. take (MAX_EXTERNAL_SHIFTS + 1) (externalRows ?t sched ids d))))
      (\<lambda>xs d'. d' = d \<and> xs = (if ids = [] then [] else take (MAX_EXTERNAL_SHIFTS + 1) (externalRows ?t sched ids d)))" for ids
    by (rule post_if, rule post_return, simp, rule post_weaken [OF get]) auto
  show ?thesis
    unfolding planInputOf_def
    apply (rule post_bind, rule post_weaken [OF get])
     apply (clarify, rule post_then, rule post_check)
      apply (rule post_let, rule post_bind, rule post_weaken [OF users])
       apply (clarify, rule post_let, rule post_bind, rule post_weaken [OF ext])
        apply (clarify, rule post_then, rule post_check, rule post_return)
         apply (rule conjI, rule refl, rule conjI, rule inputFor_intro)
            apply (simp_all add: take_Suc_eq split: if_splits)
    done
qed

lemma planFacts_row: "planFacts (plannedShiftOf (shiftRowOf d s)) = factsOf d s"
proof -
  have "set (map plannedBreakOf (breaksOf d s)) = breakSet d (sh_id s)" by (simp add: breaksOf_def findMany_def breakSet_def)
  then show ?thesis by (simp add: planFacts_def factsOf_def plannedShiftOf_def shiftRowOf_def Let_def)
qed

lemma saved_rows:
  assumes "keysOk d" and "inputFor t sched d input"
  shows "map_of (savedShifts input) k = Some b \<longleftrightarrow> (\<exists>s \<in> set (shifts d). scheduleShift t (sd_id sched) s \<and> sh_publicId s = k \<and> b = plannedShiftOf (shiftRowOf d s))"
proof -
  let ?rows = "map plannedShiftOf (scheduleRows t (sd_id sched) d)"
  have pub: "ps_publicId (plannedShiftOf (shiftRowOf d s)) = sh_publicId s" for s by (simp add: plannedShiftOf_def shiftRowOf_def Let_def)
  have set: "set ?rows = (\<lambda>s. plannedShiftOf (shiftRowOf d s)) ` {s \<in> set (shifts d). scheduleShift t (sd_id sched) s}"
    by (auto simp: scheduleRows_def findMany_def)
  have "distinct (map sh_publicId (filter (scheduleShift t (sd_id sched)) (shifts d)))"
    using assms(1) unfolding keysOk_def by (simp add: distinct_map_filter)
  then have dist: "distinct (map fst (map (\<lambda>s. (ps_publicId s, s)) ?rows))"
    by (simp add: scheduleRows_def findMany_def comp_def pub)
  then have "savedShifts input = map (\<lambda>s. (ps_publicId s, s)) ?rows"
    using assms(2) by (simp add: savedShifts_def inputFor_def newMap_distinct)
  then have "map_of (savedShifts input) k = Some b \<longleftrightarrow> (k, b) \<in> set (map (\<lambda>s. (ps_publicId s, s)) ?rows)"
    using dist by (metis map_of_eq_Some_iff)
  also have "\<dots> \<longleftrightarrow> (\<exists>s \<in> set (shifts d). scheduleShift t (sd_id sched) s \<and> sh_publicId s = k \<and> b = plannedShiftOf (shiftRowOf d s))"
    unfolding set_map [of _ ?rows] set image_image pub by blast
  finally show ?thesis .
qed

lemma saved_view:
  assumes "keysOk d" and "inputFor t sched d input"
  shows "view t (sd_id sched) d k = map_option planFacts (map_of (savedShifts input) k)"
proof (cases "map_of (savedShifts input) k")
  case None
  then have "view t (sd_id sched) d k = None"
    using saved_rows [OF assms, of k] unfolding view_None by (metis option.distinct(1))
  then show ?thesis using None by simp
next
  case (Some b)
  then obtain s where "s \<in> set (shifts d)" "scheduleShift t (sd_id sched) s" "sh_publicId s = k" "b = plannedShiftOf (shiftRowOf d s)"
    using saved_rows [OF assms, of k b] by blast
  then have "view t (sd_id sched) d k = Some (factsOf d s)" unfolding view_Some [OF assms(1)] by blast
  then show ?thesis using Some \<open>b = _\<close> by (simp add: planFacts_row)
qed

lemma plan_ready:
  assumes "keysOk d" and "inputFor t sched d input" and "planScheduleChangeSet collate ids input = ok plan"
  shows "\<forall>m \<in> set (cp_mutations plan). ready t (sd_id sched) d m"
proof
  fix m
  assume m: "m \<in> set (cp_mutations plan)"
  obtain st where st: "plan = \<lparr> cp_finalShifts = map snd (pl_working st), cp_mutations = pl_mutations st, cp_created = pl_created st \<rparr>"
    "workingOk input (map_of (savedShifts input)) st" by (rule plan_facts [OF assms(3)])
  then have mo: "mutationOf (map_of (savedShifts input)) m" using m by (simp add: workingOk_def list_all_iff)
  have known: "idOk d b \<and> view t (sd_id sched) d (ps_publicId b) = Some (planFacts b)" if sv: "map_of (savedShifts input) (ps_publicId b) = Some b" for b
  proof -
    obtain s where "s \<in> set (shifts d)" "sh_publicId s = ps_publicId b" "b = plannedShiftOf (shiftRowOf d s)"
      using sv saved_rows [OF assms(1,2), of "ps_publicId b" b] by blast
    then have "idOk d b" unfolding idOk_def by (intro bexI [of _ s]) (simp_all add: plannedShiftOf_def shiftRowOf_def Let_def)
    then show ?thesis using saved_view [OF assms(1,2), of "ps_publicId b"] sv by simp
  qed
  show "ready t (sd_id sched) d m" using mo known by (cases m) auto
qed

lemma sat_given: "sat d m (\<lambda>_ _. P) \<Longrightarrow> (P \<Longrightarrow> sat d m Q) \<Longrightarrow> sat d m Q"
  by (cases P) (auto simp: post_def split: prod.splits sum.splits)

definition finalView :: "changeSetPlan \<Rightarrow> string \<rightharpoonup> shiftFacts" where
  "finalView plan k = map_option planFacts (map_of (map (\<lambda>s. (ps_publicId s, s)) (cp_finalShifts plan)) k)"

lemma planFacts_stored: "map_option storedFacts x = map_option storedFacts y \<Longrightarrow> map_option planFacts x = map_option planFacts y"
  by (cases x; cases y) (auto simp: storedFacts_def planFacts_def)

lemma afterMutations_mutated:
  "afterMutations ms (\<lambda>k. map_option planFacts (m k)) k = map_option planFacts (mutated ms m k)"
proof -
  have "map_of (map (\<lambda>x. (mutationTarget x, mutationFacts x)) ms) k
      = map_option (map_option planFacts) (map_of (map (\<lambda>x. (mutationTarget x, mutationResult x)) ms) k)"
    by (induction ms) (auto simp: mutationFacts_def)
  then show ?thesis by (auto simp: afterMutations_def mutated_def split: option.split)
qed

lemma sat_carryOut:
  assumes "readsOnly cur" and "keysOk d" and "inputFor (id_tenantId identity) sched d input"
    and "planScheduleChangeSet collate ids input = ok plan"
  shows "sat d (applyMutations E identity sched deletedAt cur (cp_mutations plan)) (\<lambda>_ d'. keysOk d'
    \<and> framed (id_tenantId identity) (sd_id sched) d d' \<and> view (id_tenantId identity) (sd_id sched) d' = finalView plan)"
proof (rule sat_given)
  let ?t = "id_tenantId identity" and ?ms = "cp_mutations plan"
  let ?fresh = "distinct (map snd (cp_created plan)) \<and> snd ` set (cp_created plan) \<inter> ps_publicId ` set (in_currentShifts input) = {}"
  obtain st where st: "plan = \<lparr> cp_finalShifts = map snd (pl_working st), cp_mutations = pl_mutations st, cp_created = pl_created st \<rparr>"
    "workingOk input (map_of (savedShifts input)) st" by (rule plan_facts [OF assms(4)])
  have c: "map mutationTarget (filter isCreate ?ms) = map snd (cp_created plan)" using st by (simp add: workingOk_def)
  have "ps_publicId ` set (in_currentShifts input) \<subseteq> sh_publicId ` set (shifts d)"
    using assms(3) by (auto simp: inputFor_def scheduleRows_def findMany_def plannedShiftOf_def shiftRowOf_def Let_def)
  then have fresh: ?fresh if "publicIdsAfter ?ms d d'" for d'
    using publicIds_fresh [OF that assms(2)] unfolding c by (metis (no_types, lifting) c disjoint_iff list.set_map subsetD)
  show "sat d (applyMutations E identity sched deletedAt cur ?ms) (\<lambda>_ _. ?fresh)"
    by (rule post_weaken [OF sat_applyMutations_ids [OF assms(1)]], rule fresh) simp_all
  assume f: ?fresh
  note effects = plan_effects [OF assms(4) conjunct1 [OF f] conjunct2 [OF f]]
  have v: "view ?t (sd_id sched) d = (\<lambda>k. map_option planFacts (map_of (savedShifts input) k))"
    using saved_view [OF assms(2,3)] by blast
  have "afterMutations ?ms (view ?t (sd_id sched) d) = finalView plan"
    unfolding v finalView_def fun_eq_iff afterMutations_mutated using planFacts_stored [OF effects(2)] by metis
  then show "sat d (applyMutations E identity sched deletedAt cur ?ms) (\<lambda>_ d'. keysOk d' \<and> framed ?t (sd_id sched) d d'
      \<and> view ?t (sd_id sched) d' = finalView plan)"
    using sat_applyMutations [OF assms(1,2) effects(1) plan_ready [OF assms(2-4)]] by simp
qed

end
