(* ===== verification/ScheduleOutcome.thy ===== *)
theory ScheduleOutcome
  imports ScheduleEffects
begin

text \<open>
  What each scheduling command does when it commits: it answers from a stored change set and leaves the database alone,
  or it changes exactly its own rows.
\<close>

section \<open>Shared pieces\<close>

definition draftAt :: "string \<Rightarrow> string \<Rightarrow> int \<Rightarrow> schedule \<Rightarrow> bool" where
  "draftAt t i base s \<longleftrightarrow> sd_id s = i \<and> sd_tenantId s = t \<and> sd_status s = SCHEDULE_DRAFT \<and> sd_deletedAt s = None \<and> sd_revision s = base"

definition bump :: "schedule \<Rightarrow> schedule" where
  "bump s = s \<lparr> sd_revision := sd_revision s + 1 \<rparr>"

text \<open>One draft at the expected revision moves to the next one.\<close>

definition bumped :: "string \<Rightarrow> string \<Rightarrow> int \<Rightarrow> schedule list \<Rightarrow> schedule list \<Rightarrow> bool" where
  "bumped t i base rows rows' \<longleftrightarrow> length (filter (draftAt t i base) rows) = 1 \<and> rows' = updateWhere (draftAt t i base) bump rows"

text \<open>A change set is recorded under a key of its own.\<close>

definition recorded :: "string \<Rightarrow> string \<Rightarrow> string \<Rightarrow> string \<Rightarrow> int \<Rightarrow> json \<Rightarrow> scheduleChangeSet list \<Rightarrow> scheduleChangeSet list \<Rightarrow> bool" where
  "recorded t i key hash base response rows rows' \<longleftrightarrow> (\<exists>row. rows' = rows @ [row] \<and> cs_tenantId row = t \<and> cs_scheduleId row = i
     \<and> cs_idempotencyKeyHash row = key \<and> cs_requestHash row = hash \<and> cs_baseRevision row = base \<and> cs_resultRevision row = base + 1
     \<and> cs_response row = response \<and> (\<forall>c \<in> set rows. \<not> changeSetClash row c))"

definition storedSet :: "string \<Rightarrow> string \<Rightarrow> database \<Rightarrow> scheduleChangeSet option" where
  "storedSet t key d = find (\<lambda>c. cs_tenantId c = t \<and> cs_idempotencyKeyHash c = key) (scheduleChangeSets d)"

definition replayedSet :: "env \<Rightarrow> string \<Rightarrow> string \<Rightarrow> string \<Rightarrow> string \<Rightarrow> json \<Rightarrow> database \<Rightarrow> database \<Rightarrow> bool" where
  "replayedSet E schema t key hash response d d' \<longleftrightarrow> d' = d \<and> (\<exists>c. storedSet t key d = Some c \<and> cs_requestHash c = hash
     \<and> cs_response c = response \<and> e_contract E schema response)"

lemma sat_get: "readsOnly cur \<Longrightarrow> sat d (operationsWait cur (getT f)) (\<lambda>x d'. d' = d \<and> x = f d)"
  by (erule sat_operationsWait, rule post_get) simp

lemma sat_replayStored:
  assumes "readsOnly cur"
  shows "sat d (replayStored E schema cur t key hash) (\<lambda>r d'. \<forall>x. r = Some x \<longrightarrow> replayedSet E schema t key hash x d d)"
  unfolding replayStored_def
  by (rule post_bind, rule post_weaken [OF sat_get [OF assms]])
    (auto split: option.split intro!: post_return post_then post_check simp: replayedSet_def storedSet_def)

text \<open>With a stored change set under the key the answer can only come from it.\<close>

lemma sat_replayed:
  assumes "readsOnly cur" and "storedSet t key d = Some c"
  shows "sat d (answerOnce E cur t (replayStored E schema cur t key hash) continue) (\<lambda>r d'. d' = d \<and> r = cs_response c)"
proof -
  have "sat d (replayStored E schema cur t key hash) (\<lambda>r d'. d' = d \<and> r = Some (cs_response c))"
    unfolding replayStored_def
    by (rule post_bind, rule post_weaken [OF sat_get [OF assms(1)]])
      (use assms(2) in \<open>auto intro!: post_return post_then post_check simp: storedSet_def\<close>)
  from sat_operationsWait [OF assms(1) this] show ?thesis
    unfolding answerOnce_def by (rule post_bind [OF post_weaken]) (auto intro: post_return)
qed

lemma sat_locked:
  assumes "readsOnly cur"
  shows "sat d (lockedDraft identity publicId base cur) (\<lambda>x d'. d' = d \<and> x \<in> set (lockedSchedules (id_tenantId identity) publicId d)
      \<and> sd_status (fst x) = SCHEDULE_DRAFT \<and> sd_revision (fst x) = base)"
    and "sat d (lockedPublished identity publicId base cur) (\<lambda>x d'. d' = d \<and> x \<in> set (lockedSchedules (id_tenantId identity) publicId d)
      \<and> sd_status (fst x) = SCHEDULE_PUBLISHED \<and> sd_revision (fst x) = base)"
  unfolding lockedDraft_def lockedPublished_def Let_def
  by (rule post_bind, rule post_weaken [OF sat_get [OF assms]]; auto intro!: post_then post_check post_return)+

lemma lockedSchedules_facts:
  "(s, l) \<in> set (lockedSchedules t publicId d) \<Longrightarrow> s \<in> set (schedules d) \<and> sd_tenantId s = t \<and> sameUuid (sd_publicId s) publicId
     \<and> sd_deletedAt s = None \<and> l \<in> set (locations d) \<and> lo_id l = sd_locationId s"
  by (auto simp: lockedSchedules_def)

lemma sat_reviseDraft:
  assumes "readsOnly cur"
  shows "sat d (reviseDraft identity sched base cur) (\<lambda>_ d'. \<exists>rows'. bumped (id_tenantId identity) (sd_id sched) base (schedules d) rows'
    \<and> d' = d \<lparr> schedules := rows' \<rparr>)"
proof -
  have e: "(\<lambda>s. sd_id s = sd_id sched \<and> sd_tenantId s = id_tenantId identity \<and> sd_status s = SCHEDULE_DRAFT \<and> sd_deletedAt s = None
      \<and> sd_revision s = base) = draftAt (id_tenantId identity) (sd_id sched) base" "(\<lambda>s. s \<lparr> sd_revision := sd_revision s + 1 \<rparr>) = bump"
    by (simp_all add: draftAt_def bump_def fun_eq_iff)
  show ?thesis
    unfolding reviseDraft_def e
    by (rule post_bind, rule post_weaken [OF sat_waitUpdate [OF assms]]) (auto intro!: post_check simp: bumped_def scheduleTable_def)
qed

lemma sat_recordChangeSet:
  assumes "readsOnly cur"
  shows "sat d (operationsWait cur (createT changeSetTable changeSetClash (changeSetRow csId identity i key hash base request response)))
    (\<lambda>_ d'. \<exists>rows'. recorded (id_tenantId identity) i key hash base response (scheduleChangeSets d) rows'
       \<and> d' = d \<lparr> scheduleChangeSets := rows' \<rparr>)"
proof (rule sat_operationsWait [OF assms], rule post_create)
  let ?row = "changeSetRow csId identity i key hash base request response"
  assume "\<not> list_ex (changeSetClash ?row) (fst changeSetTable d)"
  then have "recorded (id_tenantId identity) i key hash base response (scheduleChangeSets d) (scheduleChangeSets d @ [?row])"
    unfolding recorded_def by (intro exI [of _ ?row]) (simp add: changeSetTable_def changeSetRow_def list_ex_iff)
  then show "\<exists>rows'. recorded (id_tenantId identity) i key hash base response (scheduleChangeSets d) rows'
      \<and> snd changeSetTable (\<lambda>rs. rs @ [?row]) d = d \<lparr> scheduleChangeSets := rows' \<rparr>"
    by (intro exI [of _ "scheduleChangeSets d @ [?row]"] conjI) (simp_all add: changeSetTable_def)
qed simp

lemma sat_scheduleAudit:
  assumes "readsOnly cur"
  shows "sat d (operationsWait cur (writeScheduleAudit E identity action resource resourceId old new))
    (\<lambda>_ d'. \<exists>log. d' = d \<lparr> auditLogs := auditLogs d @ [log] \<rparr> \<and> al_tenantId log = id_tenantId identity \<and> al_action log = action
       \<and> al_resource log = resource \<and> al_resourceId log = resourceId \<and> al_newValue log = new)"
  unfolding writeScheduleAudit_def
proof (rule sat_operationsWait [OF assms], rule post_bind, rule post_uuid, rule post_create)
  fix u
  let ?log = "\<lparr> al_id = u, al_tenantId = id_tenantId identity, al_actorUserId = id_sub identity, al_action = action, al_resource = resource,
    al_resourceId = resourceId, al_oldValue = old, al_newValue = new \<rparr>"
  show "\<exists>log. snd auditTable (\<lambda>rs. rs @ [?log]) d = d \<lparr> auditLogs := auditLogs d @ [log] \<rparr> \<and> al_tenantId log = id_tenantId identity
      \<and> al_action log = action \<and> al_resource log = resource \<and> al_resourceId log = resourceId \<and> al_newValue log = new"
    by (rule exI [of _ ?log]) (simp add: auditTable_def)
qed simp

section \<open>Applying a change set\<close>

definition changeApplied :: "env \<Rightarrow> string \<Rightarrow> string \<Rightarrow> shiftOperation list \<Rightarrow> int \<Rightarrow> string \<Rightarrow> string \<Rightarrow> json \<Rightarrow> database \<Rightarrow> database \<Rightarrow> bool" where
  "changeApplied E t publicId operations base key hash response d d' \<longleftrightarrow> (\<exists>sched loc input ids plan d1 rows' sets' log.
     (sched, loc) \<in> set (lockedSchedules t publicId d) \<and> sd_status sched = SCHEDULE_DRAFT \<and> sd_revision sched = base
     \<and> inputFor t sched d input \<and> in_operations input = operations \<and> planScheduleChangeSet (e_collate E) ids input = ok plan
     \<and> keysOk d1 \<and> framed t (sd_id sched) d d1 \<and> view t (sd_id sched) d1 = finalView plan
     \<and> bumped t (sd_id sched) base (schedules d) rows'
     \<and> recorded t (sd_id sched) key hash base response (scheduleChangeSets d) sets'
     \<and> d' = d1 \<lparr> schedules := rows', scheduleChangeSets := sets', auditLogs := auditLogs d @ [log] \<rparr>)"

lemma sat_planT: "sat d (planT E input) (\<lambda>plan d'. d' = d \<and> (\<exists>ids. planScheduleChangeSet (e_collate E) ids input = ok plan))"
  by (auto simp: post_def planT_def split: sum.splits)

lemma framed_rest:
  assumes "framed t i d d1"
  shows "schedules d1 = schedules d" "scheduleChangeSets d1 = scheduleChangeSets d" "auditLogs d1 = auditLogs d" "users d1 = users d"
    "locations d1 = locations d" "demandWindows d1 = demandWindows d"
  by (subst framedD(1) [OF assms]; simp)+

lemma sat_storePlan:
  assumes "readsOnly cur" and "keysOk d" and "inputFor (id_tenantId identity) sched d input"
    and "planScheduleChangeSet collate ids input = ok plan"
  shows "sat d (storePlan E identity sched loc base key hash operations plan cur) (\<lambda>response d'. \<exists>d1 rows' sets' log. keysOk d1
     \<and> framed (id_tenantId identity) (sd_id sched) d d1 \<and> view (id_tenantId identity) (sd_id sched) d1 = finalView plan
     \<and> bumped (id_tenantId identity) (sd_id sched) base (schedules d) rows'
     \<and> recorded (id_tenantId identity) (sd_id sched) key hash base response (scheduleChangeSets d) sets'
     \<and> d' = d1 \<lparr> schedules := rows', scheduleChangeSets := sets', auditLogs := auditLogs d @ [log] \<rparr>)"
  unfolding storePlan_def
  apply (rule post_then, rule post_readsOnly, simp add: assms(1))
   apply (rule post_bind, rule post_now)
   apply (rule post_then, rule post_weaken [OF sat_carryOut [OF assms]])
    apply (clarify, rule post_then, rule post_weaken [OF sat_reviseDraft [OF assms(1)]])
     apply (clarify, rule post_bind, rule post_weaken [OF sat_get [OF assms(1)]])
      apply (clarify, rule post_bind, rule post_uuid, rule post_bind, rule post_lift, rule post_let)
       apply (rule post_then, rule post_weaken [OF sat_recordChangeSet [OF assms(1)]])
        apply (clarify, rule post_then, rule post_weaken [OF sat_scheduleAudit [OF assms(1)]])
         apply (clarify, rule post_return)
         apply (frule framed_rest(1), frule framed_rest(2), frule framed_rest(3), fastforce)
        apply simp_all
  done

lemma sat_applyBody:
  assumes "readsOnly cur" and "keysOk d"
  shows "sat d (applyBody E publicId operations base key hash identity cur) (\<lambda>response d'.
    replayedSet E ''ScheduleChangeSetResponse'' (id_tenantId identity) key hash response d d'
    \<or> changeApplied E (id_tenantId identity) publicId operations base key hash response d d')"
  unfolding applyBody_def
proof (rule sat_answerOnce [OF assms(1) readsOnly_replayStored [OF assms(1)]])
  let ?Q = "\<lambda>response d'. replayedSet E ''ScheduleChangeSetResponse'' (id_tenantId identity) key hash response d d'
    \<or> changeApplied E (id_tenantId identity) publicId operations base key hash response d d'"
  show "sat d (replayStored E ''ScheduleChangeSetResponse'' cur (id_tenantId identity) key hash) (\<lambda>r _. \<forall>x. r = Some x \<longrightarrow> ?Q x d)"
    by (rule post_weaken [OF sat_replayStored [OF assms(1)]]) auto
  show "sat d (bindT (lockedDraft identity publicId base cur) (\<lambda>(sched, loc). bindT (planInputOf identity sched operations cur) (\<lambda>input.
      bindT (planT E input) (\<lambda>plan. storePlan E identity sched loc base key hash operations plan cur)))) ?Q"
    apply (rule post_bind, rule post_weaken [OF sat_locked(1) [OF assms(1)]])
     apply (clarify, rule post_bind, rule post_weaken [OF sat_planInputOf [OF assms(1)]])
      apply (clarify, rule post_bind, rule post_weaken [OF sat_planT])
       apply (clarify, rule post_weaken [OF sat_storePlan [OF assms]], assumption, assumption)
        apply (rule disjI2, unfold changeApplied_def, simp, blast)
       apply simp_all
    done
qed

section \<open>Reopening\<close>

lemma sat_waitSchedules:
  "readsOnly cur \<Longrightarrow> sat d (operationsWait cur (updateManyT scheduleTable P f))
     (\<lambda>n d'. n = length (filter P (schedules d)) \<and> d' = d \<lparr> schedules := updateWhere P f (schedules d) \<rparr>)"
  by (rule post_weaken [OF sat_waitUpdate]) (simp_all add: scheduleTable_def)

definition publishedAt :: "string \<Rightarrow> string \<Rightarrow> int \<Rightarrow> schedule \<Rightarrow> bool" where
  "publishedAt t i base s \<longleftrightarrow> sd_id s = i \<and> sd_tenantId s = t \<and> sd_status s = SCHEDULE_PUBLISHED \<and> sd_revision s = base \<and> sd_deletedAt s = None"

definition reopenRow :: "schedule \<Rightarrow> schedule" where
  "reopenRow s = s \<lparr> sd_status := SCHEDULE_DRAFT, sd_publishedAt := None, sd_revision := sd_revision s + 1 \<rparr>"

definition reopenedSchedule :: "string \<Rightarrow> string \<Rightarrow> int \<Rightarrow> string \<Rightarrow> string \<Rightarrow> json \<Rightarrow> database \<Rightarrow> database \<Rightarrow> bool" where
  "reopenedSchedule t publicId base key hash response d d' \<longleftrightarrow> (\<exists>sched loc sets' log.
     (sched, loc) \<in> set (lockedSchedules t publicId d) \<and> sd_status sched = SCHEDULE_PUBLISHED \<and> sd_revision sched = base
     \<and> length (filter (publishedAt t (sd_id sched) base) (schedules d)) = 1
     \<and> recorded t (sd_id sched) key hash base response (scheduleChangeSets d) sets'
     \<and> response = JObj [(''data'', serializeSchedule (reopenRow sched) (lo_publicId loc))]
     \<and> d' = d \<lparr> schedules := updateWhere (publishedAt t (sd_id sched) base) reopenRow (schedules d), scheduleChangeSets := sets',
                auditLogs := auditLogs d @ [log] \<rparr>)"

lemma reopenedScheduleI:
  assumes "(sched, loc) \<in> set (lockedSchedules t publicId d)" and "sd_status (fst (sched, loc)) = SCHEDULE_PUBLISHED"
    and "base = sd_revision (fst (sched, loc))" and "length (filter (publishedAt t (sd_id sched) base) (schedules d)) = 1"
    and "recorded t (sd_id sched) key hash base response (scheduleChangeSets d) sets'"
    and "response = JObj [(''data'', serializeSchedule (sched \<lparr> sd_status := SCHEDULE_DRAFT, sd_publishedAt := None, sd_revision := base + 1 \<rparr>) (lo_publicId loc))]"
    and "d' = d \<lparr> schedules := updateWhere (publishedAt t (sd_id sched) base) reopenRow (schedules d),
      scheduleChangeSets := sets', auditLogs := auditLogs d @ [log] \<rparr>"
  shows "reopenedSchedule t publicId base key hash response d d'"
proof -
  have "sched \<lparr> sd_status := SCHEDULE_DRAFT, sd_publishedAt := None, sd_revision := base + 1 \<rparr> = reopenRow sched"
    using assms(3) by (simp add: reopenRow_def)
  then show ?thesis unfolding reopenedSchedule_def using assms by (intro exI [of _ sched] exI [of _ loc] exI [of _ sets'] exI [of _ log]) simp
qed

lemma sat_reopenBody:
  assumes "readsOnly cur"
  shows "sat d (reopenBody E publicId base key hash identity cur) (\<lambda>response d'.
    replayedSet E ''ScheduleReopenResponse'' (id_tenantId identity) key hash response d d'
    \<or> reopenedSchedule (id_tenantId identity) publicId base key hash response d d')"
  unfolding reopenBody_def
proof (rule sat_answerOnce [OF assms readsOnly_replayStored [OF assms]])
  let ?t = "id_tenantId identity"
  let ?Q = "\<lambda>response d'. replayedSet E ''ScheduleReopenResponse'' ?t key hash response d d' \<or> reopenedSchedule ?t publicId base key hash response d d'"
  show "sat d (replayStored E ''ScheduleReopenResponse'' cur ?t key hash) (\<lambda>r _. \<forall>x. r = Some x \<longrightarrow> ?Q x d)"
    by (rule post_weaken [OF sat_replayStored [OF assms]]) auto
  have e: "(\<lambda>s. sd_id s = i \<and> sd_tenantId s = ?t \<and> sd_status s = SCHEDULE_PUBLISHED \<and> sd_revision s = base \<and> sd_deletedAt s = None) = publishedAt ?t i base" for i
    by (simp add: publishedAt_def fun_eq_iff)
  have f: "(\<lambda>s. s \<lparr> sd_status := SCHEDULE_DRAFT, sd_publishedAt := None, sd_revision := sd_revision s + 1 \<rparr>) = reopenRow"
    by (simp add: reopenRow_def fun_eq_iff)
  show "sat d (bindT (lockedPublished identity publicId base cur) (\<lambda>(sched, loc).
      bindT (operationsWait cur (updateManyT scheduleTable
          (\<lambda>s. sd_id s = sd_id sched \<and> sd_tenantId s = ?t \<and> sd_status s = SCHEDULE_PUBLISHED \<and> sd_revision s = base \<and> sd_deletedAt s = None)
          (\<lambda>s. s \<lparr> sd_status := SCHEDULE_DRAFT, sd_publishedAt := None, sd_revision := sd_revision s + 1 \<rparr>))) (\<lambda>count.
      thenT (checkT (count = 1) staleRevision) (bindT (uuidT E) (\<lambda>changeSetId.
      let response = JObj [(''data'', serializeSchedule (sched \<lparr> sd_status := SCHEDULE_DRAFT, sd_publishedAt := None, sd_revision := base + 1 \<rparr>) (lo_publicId loc))] in
      thenT (operationsWait cur (createT changeSetTable changeSetClash (changeSetRow changeSetId identity (sd_id sched) key hash base
          (JObj [(''operation'', JStr ''schedule.reopen'')]) response))) (
      thenT (operationsWait cur (writeScheduleAudit E identity ''SCHEDULE_REOPENED'' ''schedule'' (sd_publicId sched)
          (Some (JObj [(''status'', JStr ''PUBLISHED''), (''revision'', JNum base)]))
          (Some (JObj [(''status'', JStr ''DRAFT''), (''revision'', JNum (base + 1))])))) (returnT response))))))) ?Q"
    unfolding e f Let_def
    apply (rule post_bind, rule post_weaken [OF sat_locked(2) [OF assms]])
     apply (clarify, rule post_bind, rule post_weaken [OF sat_waitSchedules [OF assms]])
      apply (clarify, rule post_then, rule post_check, rule post_bind, rule post_uuid)
       apply (rule post_then, rule post_weaken [OF sat_recordChangeSet [OF assms]])
        apply (clarify, rule post_then, rule post_weaken [OF sat_scheduleAudit [OF assms]])
         apply (clarify, rule post_return, rule disjI2, rule reopenedScheduleI)
                apply simp_all
    done
qed

section \<open>Creating\<close>

definition newSchedule :: "string \<Rightarrow> location \<Rightarrow> instant \<Rightarrow> instant \<Rightarrow> schedule \<Rightarrow> bool" where
  "newSchedule t loc startDate endDate s \<longleftrightarrow> sd_tenantId s = t \<and> sd_locationId s = lo_id loc \<and> sd_startDate s = startDate \<and> sd_endDate s = endDate
     \<and> sd_status s = SCHEDULE_DRAFT \<and> sd_publishedAt s = None \<and> sd_revision s = 0 \<and> sd_deletedAt s = None"

text \<open>The draft of exactly this window, found or new.\<close>

definition draftFound :: "string \<Rightarrow> location \<Rightarrow> instant \<Rightarrow> instant \<Rightarrow> schedule \<Rightarrow> schedule list \<Rightarrow> schedule list \<Rightarrow> bool" where
  "draftFound t loc startDate endDate s rows rows' \<longleftrightarrow>
     rows' = rows \<and> s \<in> set rows \<and> overlappingSchedule t loc startDate endDate s \<and> sd_status s = SCHEDULE_DRAFT
       \<and> sd_startDate s = startDate \<and> sd_endDate s = endDate
     \<or> rows' = rows @ [s] \<and> newSchedule t loc startDate endDate s \<and> (\<forall>x \<in> set rows. \<not> overlappingSchedule t loc startDate endDate x)
       \<and> (\<forall>x \<in> set rows. \<not> scheduleClash s x)"

definition createdSchedule :: "string \<Rightarrow> string \<Rightarrow> instant \<Rightarrow> instant \<Rightarrow> string \<Rightarrow> string \<Rightarrow> json \<Rightarrow> database \<Rightarrow> database \<Rightarrow> bool" where
  "createdSchedule t locationPublicId startDate endDate operationId hash response d d' \<longleftrightarrow> (\<exists>loc s rows' log. loc \<in> set (locations d)
     \<and> lo_tenantId loc = t \<and> sameUuid (lo_publicId loc) locationPublicId \<and> lo_deletedAt loc = None
     \<and> draftFound t loc startDate endDate s (schedules d) rows' \<and> response = JObj [(''data'', serializeSchedule s (lo_publicId loc))]
     \<and> al_tenantId log = t \<and> al_action log = CREATE_ACTION \<and> al_resource log = CREATE_RESOURCE \<and> al_resourceId log = operationId
     \<and> al_newValue log = Some (JObj [(''requestHash'', JStr hash), (''response'', response)])
     \<and> d' = d \<lparr> schedules := rows', auditLogs := auditLogs d @ [log] \<rparr>)"

lemma readsOnly_replayCreate [simp]: "readsOnly cur \<Longrightarrow> readsOnly (replayCreate E cur t operationId hash)"
  unfolding replayCreate_def Let_def
  by (rule readsOnly_bind) (auto intro!: readsOnly_then split: option.split)

definition replayedCreate :: "env \<Rightarrow> string \<Rightarrow> string \<Rightarrow> string \<Rightarrow> json \<Rightarrow> database \<Rightarrow> database \<Rightarrow> bool" where
  "replayedCreate E t operationId hash response d d' \<longleftrightarrow> d' = d \<and> (\<exists>a \<in> set (auditLogs d). al_tenantId a = t \<and> al_action a = CREATE_ACTION
     \<and> al_resource a = CREATE_RESOURCE \<and> al_resourceId a = operationId \<and> (\<exists>v. al_newValue a = Some v \<and> member ''requestHash'' v = JStr hash
     \<and> member ''response'' v = response \<and> e_contract E ''ScheduleCreateResponse'' response))"

lemma sat_replayCreate:
  assumes "readsOnly cur"
  shows "sat d (replayCreate E cur t operationId hash) (\<lambda>r d'. \<forall>x. r = Some x \<longrightarrow> replayedCreate E t operationId hash x d d)"
  unfolding replayCreate_def Let_def
  by (rule post_bind, rule post_weaken [OF sat_get [OF assms]])
    (auto split: option.split intro!: post_return post_then post_check dest!: find_SomeD simp: replayedCreate_def isObject_def split: option.splits)

lemma sat_draftFor:
  assumes "readsOnly cur"
  shows "sat d (draftFor E identity loc startDate endDate cur) (\<lambda>s d'. \<exists>rows'. draftFound (id_tenantId identity) loc startDate endDate s (schedules d) rows'
    \<and> d' = d \<lparr> schedules := rows' \<rparr>)"
  unfolding draftFor_def
proof (rule post_bind, rule post_weaken [OF sat_get [OF assms]])
  fix x d'
  let ?t = "id_tenantId identity"
  assume x: "d' = d \<and> x = find (overlappingSchedule ?t loc startDate endDate) (schedules d)"
  show "sat d' (case x of None \<Rightarrow> bindT (uuidT E) (\<lambda>publicId. bindT (uuidT E) (\<lambda>scheduleId.
        let row = \<lparr> sd_id = scheduleId, sd_publicId = publicId, sd_tenantId = ?t, sd_locationId = lo_id loc, sd_startDate = startDate,
          sd_endDate = endDate, sd_status = SCHEDULE_DRAFT, sd_publishedAt = None, sd_revision = 0, sd_deletedAt = None \<rparr>
        in thenT (operationsWait cur (createT scheduleTable scheduleClash row)) (returnT row)))
      | Some s \<Rightarrow> thenT (checkT (sd_status s = SCHEDULE_DRAFT \<and> sd_startDate s = startDate \<and> sd_endDate s = endDate) (Problem 409 ''schedule_window_conflict''))
          (returnT s)) (\<lambda>s d'. \<exists>rows'. draftFound ?t loc startDate endDate s (schedules d) rows' \<and> d' = d \<lparr> schedules := rows' \<rparr>)"
  proof (cases x)
    case None
    have new: "draftFound ?t loc startDate endDate row (schedules d) (schedules d @ [row])"
      if "newSchedule ?t loc startDate endDate row" "\<not> list_ex (scheduleClash row) (schedules d)" for row
      using None x that by (auto simp: draftFound_def find_None_iff list_ex_iff)
    show ?thesis
      unfolding None option.case Let_def
      apply (rule post_bind, rule post_uuid, rule post_bind, rule post_uuid, rule post_then)
      apply (rule sat_operationsWait [OF assms], rule post_create)
       apply (rule post_return, rule exI, rule conjI, rule new)
         apply (use x in \<open>simp_all add: newSchedule_def scheduleTable_def\<close>)
      done
  next
    case (Some s)
    then have "find (overlappingSchedule ?t loc startDate endDate) (schedules d) = Some s" using x by simp
    from find_SomeD [OF this] show ?thesis
      unfolding Some option.case
      by (intro post_then post_check post_return exI [of _ "schedules d"]) (use x in \<open>auto simp: draftFound_def\<close>)
  qed
qed simp

lemma sat_createBody:
  assumes "readsOnly cur"
  shows "sat d (createBody E locationPublicId startDate endDate operationId hash identity cur) (\<lambda>response d'.
    replayedCreate E (id_tenantId identity) operationId hash response d d'
    \<or> createdSchedule (id_tenantId identity) locationPublicId startDate endDate operationId hash response d d')"
  unfolding createBody_def
proof (rule sat_answerOnce [OF assms readsOnly_replayCreate [OF assms]])
  let ?t = "id_tenantId identity"
  let ?Q = "\<lambda>response d'. replayedCreate E ?t operationId hash response d d' \<or> createdSchedule ?t locationPublicId startDate endDate operationId hash response d d'"
  show "sat d (replayCreate E cur ?t operationId hash) (\<lambda>r _. \<forall>x. r = Some x \<longrightarrow> ?Q x d)"
    by (rule post_weaken [OF sat_replayCreate [OF assms]]) auto
  show "sat d (bindT (operationsWait cur (getT (\<lambda>d. filter (\<lambda>l. lo_tenantId l = ?t \<and> sameUuid (lo_publicId l) locationPublicId \<and> lo_deletedAt l = None) (locations d)))) (\<lambda>found.
      thenT (checkT (found \<noteq> []) (Problem 404 ''location_not_found'')) (
      let loc = hd found in bindT (draftFor E identity loc startDate endDate cur) (\<lambda>sched.
      let response = JObj [(''data'', serializeSchedule sched (lo_publicId loc))] in
      thenT (operationsWait cur (writeScheduleAudit E identity CREATE_ACTION CREATE_RESOURCE operationId None
          (Some (JObj [(''requestHash'', JStr hash), (''response'', response)])))) (returnT response))))) ?Q"
    unfolding Let_def
    apply (rule post_bind, rule post_weaken [OF sat_get [OF assms]])
     apply (clarify, rule post_then, rule post_check)
      apply (rule post_bind, rule post_weaken [OF sat_draftFor [OF assms]])
       apply (clarify, rule post_then, rule post_weaken [OF sat_scheduleAudit [OF assms]])
        apply (clarify, rule post_return, rule disjI2, unfold createdSchedule_def)
        apply (drule hd_in_set, simp, blast)
       apply simp_all
    done
qed

section \<open>Replacing demand windows\<close>

definition windowFits :: "string \<Rightarrow> schedule \<Rightarrow> windowRequest \<Rightarrow> demandWindow \<Rightarrow> bool" where
  "windowFits t sched x r \<longleftrightarrow> windowTimes sched x = ok (dw_startTime r, dw_endTime r) \<and> scheduleWindow t sched r
     \<and> dw_requiredStaff r = wr_requiredStaff x \<and> dw_skill r = normalizedSkill (wr_skill x)"

definition replacedWindows :: "string \<Rightarrow> string \<Rightarrow> windowRequest list \<Rightarrow> int \<Rightarrow> string \<Rightarrow> string \<Rightarrow> json \<Rightarrow> database \<Rightarrow> database \<Rightarrow> bool" where
  "replacedWindows t publicId requested base key hash response d d' \<longleftrightarrow> (\<exists>sched loc windows rows' sets' log.
     (sched, loc) \<in> set (lockedSchedules t publicId d) \<and> sd_status sched = SCHEDULE_DRAFT \<and> sd_revision sched = base
     \<and> list_all2 (windowFits t sched) requested windows
     \<and> bumped t (sd_id sched) base (schedules d) rows'
     \<and> recorded t (sd_id sched) key hash base response (scheduleChangeSets d) sets'
     \<and> d' = d \<lparr> demandWindows := filter (\<lambda>r. \<not> scheduleWindow t sched r) (demandWindows d) @ windows, schedules := rows',
                scheduleChangeSets := sets', auditLogs := auditLogs d @ [log] \<rparr>)"

lemma sat_windowRow: "sat d (windowRow E identity sched x) (\<lambda>r d'. d' = d \<and> windowFits (id_tenantId identity) sched x r)"
  unfolding windowRow_def
  by (rule post_bind, rule post_lift, clarify, rule post_bind, rule post_uuid, rule post_return)
    (simp_all add: windowFits_def scheduleWindow_def)

lemma sat_withPublicId: "sat d (withPublicId E r) (\<lambda>r' d'. d' = d \<and> (\<exists>p. r' = r \<lparr> dw_publicId := p \<rparr>))"
  unfolding withPublicId_def by (rule post_bind, rule post_uuid, rule post_return) blast

lemma sat_createWindows: "sat d (createManyT demandTable demandClash rows) (\<lambda>_ d'. d' = d \<lparr> demandWindows := demandWindows d @ rows \<rparr>)"
  by (rule post_weaken [OF sat_createMany]) (simp_all add: demandTable_def comp_def)

lemma windowFits_publicId [simp]: "windowFits t sched x (r \<lparr> dw_publicId := p \<rparr>) = windowFits t sched x r"
  by (simp add: windowFits_def scheduleWindow_def)

lemma sat_storeWindows:
  assumes "readsOnly cur" and "list_all2 (windowFits (id_tenantId identity) sched) requested windows"
  shows "sat d (storeWindows E identity sched windows cur) (\<lambda>_ d'. \<exists>rows. list_all2 (windowFits (id_tenantId identity) sched) requested rows
    \<and> d' = d \<lparr> demandWindows := filter (\<lambda>r. \<not> scheduleWindow (id_tenantId identity) sched r) (demandWindows d) @ rows \<rparr>)"
proof -
  let ?t = "id_tenantId identity"
  let ?d1 = "d \<lparr> demandWindows := filter (\<lambda>r. \<not> scheduleWindow ?t sched r) (demandWindows d) \<rparr>"
  have fits: "list_all2 (windowFits ?t sched) requested rows" if "list_all2 (\<lambda>r r'. \<exists>p. r' = r \<lparr> dw_publicId := p \<rparr>) windows rows" for rows
    using list_all2_trans [OF _ assms(2) that, of "windowFits ?t sched"] by fastforce
  have del: "sat d (operationsWait cur (deleteManyT demandTable (scheduleWindow ?t sched))) (\<lambda>_ d'. d' = ?d1)"
    by (rule sat_operationsWait [OF assms(1)], rule post_deleteMany) (simp add: demandTable_def)
  have ins: "sat ?d1 (operationsWait cur (bindT (mapT (withPublicId E) windows) (createManyT demandTable demandClash)))
      (\<lambda>_ d'. \<exists>rows. list_all2 (windowFits ?t sched) requested rows \<and> d' = ?d1 \<lparr> demandWindows := demandWindows ?d1 @ rows \<rparr>)"
    apply (rule sat_operationsWait [OF assms(1)], rule post_bind, rule post_weaken [OF sat_mapT [OF sat_withPublicId]])
     apply (clarify, rule post_weaken [OF sat_createWindows])
      apply (blast intro: fits)
     apply simp_all
    done
  show ?thesis
    unfolding storeWindows_def
  proof (rule post_then, rule post_weaken [OF del], clarify, rule post_if)
    show "sat ?d1 (operationsWait cur (bindT (mapT (withPublicId E) windows) (\<lambda>rows. createManyT demandTable demandClash rows)))
      (\<lambda>_ d'. \<exists>rows. list_all2 (windowFits ?t sched) requested rows
        \<and> d' = d \<lparr> demandWindows := filter (\<lambda>r. \<not> scheduleWindow ?t sched r) (demandWindows d) @ rows \<rparr>)"
      by (rule post_weaken [OF ins]) simp_all
  qed (use assms(2) in \<open>auto intro!: post_return\<close>)
qed

lemma sat_replaceBody:
  assumes "readsOnly cur"
  shows "sat d (replaceBody E publicId requested base key hash identity cur) (\<lambda>response d'.
    replayedSet E ''DemandWindowReplaceResponse'' (id_tenantId identity) key hash response d d'
    \<or> replacedWindows (id_tenantId identity) publicId requested base key hash response d d')"
  unfolding replaceBody_def
proof (rule sat_answerOnce [OF assms readsOnly_replayStored [OF assms]])
  let ?t = "id_tenantId identity"
  let ?Q = "\<lambda>response d'. replayedSet E ''DemandWindowReplaceResponse'' ?t key hash response d d'
    \<or> replacedWindows ?t publicId requested base key hash response d d'"
  show "sat d (replayStored E ''DemandWindowReplaceResponse'' cur ?t key hash) (\<lambda>r _. \<forall>x. r = Some x \<longrightarrow> ?Q x d)"
    by (rule post_weaken [OF sat_replayStored [OF assms]]) auto
  show "sat d (bindT (lockedDraft identity publicId base cur) (\<lambda>(sched, loc).
      bindT (mapT (windowRow E identity sched) requested) (\<lambda>windows.
      thenT (storeWindows E identity sched windows cur) (thenT (reviseDraft identity sched base cur) (
      bindT (operationsWait cur (getT (windowRows ?t sched))) (\<lambda>savedRows. bindT (uuidT E) (\<lambda>changeSetId.
      let response = demandResponse changeSetId (sd_publicId sched) base savedRows in
      thenT (operationsWait cur (createT changeSetTable changeSetClash (changeSetRow changeSetId identity (sd_id sched) key hash base
          (demandBody requested) response))) (
      thenT (operationsWait cur (writeScheduleAudit E identity ''SCHEDULE_DEMAND_REPLACED'' ''schedule_change_set'' changeSetId
          (Some (JObj [(''scheduleId'', JStr (sd_publicId sched)), (''revision'', JNum base)]))
          (Some (JObj [(''scheduleId'', JStr (sd_publicId sched)), (''revision'', JNum (base + 1)),
             (''demandWindowCount'', JNum (int (length savedRows)))])))) (returnT response))))))))) ?Q"
    unfolding Let_def
    apply (rule post_bind, rule post_weaken [OF sat_locked(1) [OF assms]])
     apply (clarify, rule post_bind, rule post_weaken [OF sat_mapT [OF sat_windowRow]])
      apply (clarify, rule post_then, rule post_weaken [OF sat_storeWindows [OF assms]], assumption)
       apply (clarify, rule post_then, rule post_weaken [OF sat_reviseDraft [OF assms]])
        apply (clarify, rule post_bind, rule post_weaken [OF sat_get [OF assms]])
         apply (clarify, rule post_bind, rule post_uuid)
         apply (rule post_then, rule post_weaken [OF sat_recordChangeSet [OF assms]])
          apply (clarify, rule post_then, rule post_weaken [OF sat_scheduleAudit [OF assms]])
           apply (clarify, rule post_return, rule disjI2, unfold replacedWindows_def, simp, blast)
          apply simp_all
    done
qed

end
