(* ===== verification/ScheduleInvariants.thy ===== *)
theory ScheduleInvariants
  imports ScheduleOutcome
begin

text \<open>
  What the scheduling commands keep true of the tables, which is what the constraints and triggers of the database ask
  for (\<open>packages/db/prisma/migrations\<close>): no employee is booked twice, a shift starts inside its schedule and lasts a
  day at most, breaks lie inside their shift, schedules of a location do not overlap, demand windows start inside their
  schedule, and every change set moved its schedule from one revision to the next, no two from the same one.
\<close>

section \<open>The invariant\<close>

definition live :: "shift \<Rightarrow> bool" where "live s \<longleftrightarrow> sh_deletedAt s = None"

definition bookingsOk :: "database \<Rightarrow> bool" where
  "bookingsOk d \<longleftrightarrow> (\<forall>a \<in> set (shifts d). \<forall>b \<in> set (shifts d). a \<noteq> b \<and> live a \<and> live b \<and> sh_tenantId a = sh_tenantId b
     \<and> sh_userId a = sh_userId b \<and> sh_userId a \<noteq> None \<longrightarrow> \<not> windowsOverlap (sh_startTime a) (sh_endTime a) (sh_startTime b) (sh_endTime b))"

definition shiftFits :: "shift \<Rightarrow> schedule \<Rightarrow> bool" where
  "shiftFits s c \<longleftrightarrow> sh_startTime s < sh_endTime s \<and> sd_startDate c \<le> sh_startTime s \<and> sh_startTime s < sd_endDate c
     \<and> sh_endTime s \<le> sh_startTime s + 86400000"

definition windowsOk :: "database \<Rightarrow> bool" where
  "windowsOk d \<longleftrightarrow> (\<forall>s \<in> set (shifts d). \<forall>i. live s \<and> sh_scheduleId s = Some i
     \<longrightarrow> (\<exists>c \<in> set (schedules d). sd_id c = i \<and> sd_tenantId c = sh_tenantId s \<and> shiftFits s c))"

definition breaksOk :: "database \<Rightarrow> bool" where
  "breaksOk d \<longleftrightarrow> (\<forall>s \<in> set (shifts d). \<forall>b \<in> set (shiftBreaks d). live s \<and> br_shiftId b = sh_id s
     \<longrightarrow> sh_startTime s \<le> br_startTime b \<and> br_endTime b \<le> sh_endTime s)"

definition employeesOk :: "database \<Rightarrow> bool" where
  "employeesOk d \<longleftrightarrow> [] \<notin> us_id ` set (users d) \<and> (\<forall>s \<in> set (shifts d). \<forall>u. live s \<and> sh_userId s = Some u \<longrightarrow> u \<in> us_id ` set (users d))"

definition schedulesOk :: "database \<Rightarrow> bool" where
  "schedulesOk d \<longleftrightarrow> distinct (map sd_id (schedules d)) \<and> distinct (map sd_publicId (schedules d))
     \<and> (\<forall>c \<in> set (schedules d). sd_startDate c < sd_endDate c)
     \<and> (\<forall>a \<in> set (schedules d). \<forall>b \<in> set (schedules d). sd_id a \<noteq> sd_id b \<and> sd_deletedAt a = None \<and> sd_deletedAt b = None \<and> sd_tenantId a = sd_tenantId b
          \<and> sd_locationId a = sd_locationId b \<longrightarrow> \<not> windowsOverlap (sd_startDate a) (sd_endDate a) (sd_startDate b) (sd_endDate b))"

definition demandOk :: "database \<Rightarrow> bool" where
  "demandOk d \<longleftrightarrow> (\<forall>r \<in> set (demandWindows d). \<exists>c \<in> set (schedules d). sd_id c = dw_scheduleId r \<and> sd_tenantId c = dw_tenantId r
     \<and> sd_locationId c = dw_locationId r \<and> sd_startDate c \<le> dw_startTime r \<and> dw_startTime r < sd_endDate c
     \<and> dw_startTime r < dw_endTime r \<and> dw_endTime r \<le> dw_startTime r + 86400000)"

definition revisionsOk :: "database \<Rightarrow> bool" where
  "revisionsOk d \<longleftrightarrow> (\<forall>c \<in> set (scheduleChangeSets d). cs_resultRevision c = cs_baseRevision c + 1
       \<and> (\<exists>s \<in> set (schedules d). sd_id s = cs_scheduleId c \<and> sd_tenantId s = cs_tenantId c \<and> cs_resultRevision c \<le> sd_revision s))
     \<and> distinct (map (\<lambda>c. (cs_tenantId c, cs_idempotencyKeyHash c)) (scheduleChangeSets d))
     \<and> distinct (map (\<lambda>c. (cs_scheduleId c, cs_baseRevision c)) (scheduleChangeSets d))"

definition schedulingOk :: "database \<Rightarrow> bool" where
  "schedulingOk d \<longleftrightarrow> keysOk d \<and> bookingsOk d \<and> windowsOk d \<and> breaksOk d \<and> employeesOk d \<and> schedulesOk d \<and> demandOk d \<and> revisionsOk d"

section \<open>Schedules that change\<close>

definition sameSchedule :: "schedule \<Rightarrow> schedule \<Rightarrow> bool" where
  "sameSchedule c c' \<longleftrightarrow> sd_id c' = sd_id c \<and> sd_publicId c' = sd_publicId c \<and> sd_tenantId c' = sd_tenantId c \<and> sd_locationId c' = sd_locationId c
     \<and> sd_startDate c' = sd_startDate c \<and> sd_endDate c' = sd_endDate c \<and> sd_deletedAt c' = sd_deletedAt c"

text \<open>Rows that change one by one, keeping what they are, with revisions that do not fall.\<close>

definition revised :: "schedule list \<Rightarrow> schedule list \<Rightarrow> bool" where
  "revised rows rows' \<longleftrightarrow> list_all2 (\<lambda>c c'. sameSchedule c c' \<and> sd_revision c \<le> sd_revision c') rows rows'"

lemma revised_updateWhere:
  "(\<And>c. sameSchedule c (f c) \<and> sd_revision c \<le> sd_revision (f c)) \<Longrightarrow> revised rows (updateWhere P f rows)"
  unfolding revised_def updateWhere_def list_all2_conv_all_nth by (auto simp: sameSchedule_def)

lemma revised_bumped: "bumped t i base rows rows' \<Longrightarrow> revised rows rows'"
  unfolding bumped_def by (auto intro!: revised_updateWhere simp: sameSchedule_def bump_def)

lemma revised_reopen: "revised rows (updateWhere P reopenRow rows)"
  by (rule revised_updateWhere) (simp add: sameSchedule_def reopenRow_def)

lemma revised_forward: "revised rows rows' \<Longrightarrow> c \<in> set rows \<Longrightarrow> \<exists>c' \<in> set rows'. sameSchedule c c' \<and> sd_revision c \<le> sd_revision c'"
  unfolding revised_def by (metis (mono_tags, lifting) in_set_conv_nth list_all2_conv_all_nth)

lemma revised_backward: "revised rows rows' \<Longrightarrow> c' \<in> set rows' \<Longrightarrow> \<exists>c \<in> set rows. sameSchedule c c' \<and> sd_revision c \<le> sd_revision c'"
  unfolding revised_def by (metis (mono_tags, lifting) in_set_conv_nth list_all2_conv_all_nth)

lemma revised_map: "revised rows rows' \<Longrightarrow> (\<And>c c'. sameSchedule c c' \<Longrightarrow> g c' = g c) \<Longrightarrow> map g rows' = map g rows"
  unfolding revised_def by (induction rows rows' rule: list_all2_induct) auto

lemma revised_schedulesOk:
  assumes "schedulesOk d" and "revised (schedules d) (schedules d')"
  shows "schedulesOk d'"
proof -
  have "map sd_id (schedules d') = map sd_id (schedules d)" "map sd_publicId (schedules d') = map sd_publicId (schedules d)"
    by (rule revised_map [OF assms(2)], simp add: sameSchedule_def)+
  moreover have "sd_startDate c < sd_endDate c" if "c \<in> set (schedules d')" for c
    using revised_backward [OF assms(2) that] assms(1) by (auto simp: schedulesOk_def sameSchedule_def)
  moreover have "\<not> windowsOverlap (sd_startDate a) (sd_endDate a) (sd_startDate b) (sd_endDate b)"
    if ab: "a \<in> set (schedules d')" "b \<in> set (schedules d')" "sd_id a \<noteq> sd_id b \<and> sd_deletedAt a = None \<and> sd_deletedAt b = None
      \<and> sd_tenantId a = sd_tenantId b \<and> sd_locationId a = sd_locationId b" for a b
  proof -
    obtain x y where "x \<in> set (schedules d)" "sameSchedule x a" "y \<in> set (schedules d)" "sameSchedule y b"
      using revised_backward [OF assms(2)] ab(1,2) by meson
    then show ?thesis using assms(1) ab(3) unfolding schedulesOk_def sameSchedule_def by metis
  qed
  ultimately show ?thesis using assms(1) unfolding schedulesOk_def by simp
qed

lemma revised_windowsOk:
  assumes "windowsOk d" and "revised (schedules d) (schedules d')" and "shifts d' = shifts d"
  shows "windowsOk d'"
  unfolding windowsOk_def
proof (intro ballI allI impI)
  fix s i
  assume "s \<in> set (shifts d')" and "live s \<and> sh_scheduleId s = Some i"
  then obtain c where c: "c \<in> set (schedules d)" "sd_id c = i" "sd_tenantId c = sh_tenantId s" "shiftFits s c"
    using assms(1,3) unfolding windowsOk_def by metis
  then show "\<exists>c \<in> set (schedules d'). sd_id c = i \<and> sd_tenantId c = sh_tenantId s \<and> shiftFits s c"
    using revised_forward [OF assms(2) c(1)] by (auto simp: sameSchedule_def shiftFits_def)
qed

lemma revised_demandOk:
  assumes "demandOk d" and "revised (schedules d) (schedules d')" and "set (demandWindows d') \<subseteq> set (demandWindows d)"
  shows "demandOk d'"
  unfolding demandOk_def
proof
  fix r
  assume "r \<in> set (demandWindows d')"
  then have "r \<in> set (demandWindows d)" using assms(3) by blast
  then obtain c where "c \<in> set (schedules d)" "sd_id c = dw_scheduleId r \<and> sd_tenantId c = dw_tenantId r
     \<and> sd_locationId c = dw_locationId r \<and> sd_startDate c \<le> dw_startTime r \<and> dw_startTime r < sd_endDate c
     \<and> dw_startTime r < dw_endTime r \<and> dw_endTime r \<le> dw_startTime r + 86400000"
    using assms(1) unfolding demandOk_def by blast
  then show "\<exists>c \<in> set (schedules d'). sd_id c = dw_scheduleId r \<and> sd_tenantId c = dw_tenantId r
     \<and> sd_locationId c = dw_locationId r \<and> sd_startDate c \<le> dw_startTime r \<and> dw_startTime r < sd_endDate c
     \<and> dw_startTime r < dw_endTime r \<and> dw_endTime r \<le> dw_startTime r + 86400000"
    using revised_forward [OF assms(2)] by (fastforce simp: sameSchedule_def)
qed

text \<open>The first revision a new change set starts from is past every one before.\<close>

lemma revisionsOk_record:
  assumes "revisionsOk d" and "schedulesOk d" and "revised (schedules d) (schedules d')"
    and "recorded t i key hash base response (scheduleChangeSets d) (scheduleChangeSets d')"
    and s: "s \<in> set (schedules d)" "sd_id s = i" "sd_revision s = base"
    and s': "s' \<in> set (schedules d')" "sd_id s' = i" "sd_tenantId s' = t" "sd_revision s' = base + 1"
  shows "revisionsOk d'"
proof -
  obtain row where row: "scheduleChangeSets d' = scheduleChangeSets d @ [row]" "cs_tenantId row = t" "cs_scheduleId row = i"
    "cs_idempotencyKeyHash row = key" "cs_baseRevision row = base" "cs_resultRevision row = base + 1"
    "\<forall>c \<in> set (scheduleChangeSets d). \<not> changeSetClash row c"
    using assms(4) unfolding recorded_def by blast
  have old: "cs_resultRevision c = cs_baseRevision c + 1
      \<and> (\<exists>s \<in> set (schedules d'). sd_id s = cs_scheduleId c \<and> sd_tenantId s = cs_tenantId c \<and> cs_resultRevision c \<le> sd_revision s)"
    if c: "c \<in> set (scheduleChangeSets d)" for c
  proof -
    obtain u where u: "u \<in> set (schedules d)" "sd_id u = cs_scheduleId c" "sd_tenantId u = cs_tenantId c" "cs_resultRevision c \<le> sd_revision u"
      and e: "cs_resultRevision c = cs_baseRevision c + 1" using assms(1) c unfolding revisionsOk_def by blast
    obtain u' where "u' \<in> set (schedules d')" "sameSchedule u u'" "sd_revision u \<le> sd_revision u'" using revised_forward [OF assms(3) u(1)] by blast
    then show ?thesis using u(2-4) e by (auto simp: sameSchedule_def intro!: bexI [of _ u'])
  qed
  have below: "cs_baseRevision c < base" if c: "c \<in> set (scheduleChangeSets d)" "cs_scheduleId c = i" for c
  proof -
    obtain u where u: "u \<in> set (schedules d)" "sd_id u = cs_scheduleId c" "cs_resultRevision c \<le> sd_revision u"
      and e: "cs_resultRevision c = cs_baseRevision c + 1" using assms(1) c(1) unfolding revisionsOk_def by blast
    have "u = s" using assms(2) u(1,2) s(1,2) c(2) unfolding schedulesOk_def by (metis distinct_map inj_onD)
    then show ?thesis using u(3) e s(3) by simp
  qed
  have "(t, key) \<notin> (\<lambda>c. (cs_tenantId c, cs_idempotencyKeyHash c)) ` set (scheduleChangeSets d)"
    using row(2,4,7) by (auto simp: changeSetClash_def)
  moreover have "(i, base) \<notin> (\<lambda>c. (cs_scheduleId c, cs_baseRevision c)) ` set (scheduleChangeSets d)" using below by force
  ultimately have "distinct (map (\<lambda>c. (cs_tenantId c, cs_idempotencyKeyHash c)) (scheduleChangeSets d'))"
    "distinct (map (\<lambda>c. (cs_scheduleId c, cs_baseRevision c)) (scheduleChangeSets d'))"
    using assms(1) row(2-5) by (simp_all add: revisionsOk_def row(1))
  moreover have "cs_resultRevision row = cs_baseRevision row + 1
      \<and> (\<exists>s \<in> set (schedules d'). sd_id s = cs_scheduleId row \<and> sd_tenantId s = cs_tenantId row \<and> cs_resultRevision row \<le> sd_revision s)"
    using row(2-6) s' by (auto intro!: bexI [of _ s'])
  ultimately show ?thesis using old unfolding revisionsOk_def row(1) set_append list.set by blast
qed

section \<open>A change set keeps the invariant\<close>

text \<open>The identifiers \<open>localeCompare\<close> has to tell apart: those of the employees, and the empty text of an unassigned shift.\<close>

definition sortable :: "env \<Rightarrow> database \<Rightarrow> bool" where
  "sortable E d \<longleftrightarrow> tellsApart (e_collate E) (insert [] (us_id ` set (users d)))"

lemma current_users:
  assumes "employeesOk d" and "inputFor t sched d input" and "c \<in> set (in_currentShifts input)" and "ps_userInternalId c = Some u"
  shows "u \<in> us_id ` set (users d)"
proof -
  obtain s where "s \<in> set (shifts d)" "scheduleShift t (sd_id sched) s" "c = plannedShiftOf (shiftRowOf d s)"
    using assms(2,3) by (auto simp: inputFor_def scheduleRows_def findMany_def)
  then show ?thesis using assms(1,4) by (auto simp: employeesOk_def live_def scheduleShift_def plannedShiftOf_def shiftRowOf_def Let_def)
qed

lemma tellsApart_mono: "tellsApart collate A \<Longrightarrow> B \<subseteq> A \<Longrightarrow> tellsApart collate B"
  unfolding tellsApart_def by blast

lemma involved_known:
  assumes "employeesOk d" and "inputFor t sched d input"
  shows "involvedIds input \<subseteq> insert [] (us_id ` set (users d))"
proof -
  have "userOf c \<in> insert [] (us_id ` set (users d))" if "c \<in> set (in_currentShifts input)" for c
    using current_users [OF assms that] by (auto simp: userOf_def split: option.split)
  then show ?thesis using assms(2) unfolding involvedIds_def inputFor_def by blast
qed

text \<open>A plan the service carries out, seen from the database it was made for.\<close>

lemma plan_sound:
  assumes ok: "schedulingOk d" and inp: "inputFor t sched d input" and apart: "sortable E d"
    and plan: "planScheduleChangeSet (e_collate E) ids input = ok plan"
  shows "acceptable input (cp_finalShifts plan)"
    and "p \<in> set (cp_finalShifts plan) \<Longrightarrow> ps_userInternalId p = Some u \<Longrightarrow> u \<in> us_id ` set (users d) \<and> u \<in> involvedIds input \<and> hasUser p"
    and "p \<in> set (cp_finalShifts plan) \<Longrightarrow> breaksInside p"
proof -
  have e: "employeesOk d" and k: "keysOk d" and b: "breaksOk d" using ok by (simp_all add: schedulingOk_def)
  have tells: "tellsApart (e_collate E) (involvedIds input)"
    using apart involved_known [OF e inp] unfolding sortable_def by (rule tellsApart_mono)
  obtain st where acc: "acceptable input (map snd (pl_working st))"
    and st: "plan = \<lparr> cp_finalShifts = map snd (pl_working st), cp_mutations = pl_mutations st, cp_created = pl_created st \<rparr>"
      "planOperations ids input = ok st" using plan unfolding plan_iff [OF tells] by blast
  note w = planOperations_ok(1) [OF st(2)]
  show "acceptable input (cp_finalShifts plan)" using acc st(1) by simp
  {
    assume p: "p \<in> set (cp_finalShifts plan)"
    then obtain key where m: "(key, p) \<in> set (pl_working st)" using st(1) by auto
    have inside: "breaksInside c" if c: "c \<in> ran (map_of (savedShifts input))" for c
    proof -
      obtain key where "map_of (savedShifts input) key = Some c" using c by (auto simp: ran_def)
      then obtain s where s: "s \<in> set (shifts d)" "scheduleShift t (sd_id sched) s" "c = plannedShiftOf (shiftRowOf d s)"
        using saved_rows [OF k inp] by blast
      then show ?thesis
        using b by (auto simp: breaksInside_def list_all_iff plannedShiftOf_def shiftRowOf_def Let_def breaksOf_def findMany_def
            plannedBreakOf_def breaksOk_def live_def scheduleShift_def)
    qed
    then show "breaksInside p" using w m unfolding workingOk_def by blast
    assume u: "ps_userInternalId p = Some u"
    have "Some u \<in> ps_userInternalId ` ran (map_of (savedShifts input)) \<union> (Some \<circ> ru_internalId) ` ran (in_users input)"
      using w m u unfolding workingOk_def by force
    then have known: "u \<in> us_id ` set (users d)"
    proof
      assume "Some u \<in> ps_userInternalId ` ran (map_of (savedShifts input))"
      then obtain c where "c \<in> set (in_currentShifts input)" "ps_userInternalId c = Some u" using ran_saved by force
      then show ?thesis by (rule current_users [OF e inp])
    next
      assume "Some u \<in> (Some \<circ> ru_internalId) ` ran (in_users input)"
      then show ?thesis using inp unfolding inputFor_def by auto
    qed
    then have "u \<noteq> []" using e unfolding employeesOk_def by metis
    then have h: "hasUser p" using u by (simp add: hasUser_def)
    have "userOf p \<in> userOf ` set (filter hasUser (map snd (pl_working st)))" using m h by force
    then have "u \<in> involvedIds input" using working_users [OF w] u by (auto simp: userOf_def)
    then show "u \<in> us_id ` set (users d) \<and> u \<in> involvedIds input \<and> hasUser p" using known h by blast
  }
qed

text \<open>The live shifts after the change: outside the schedule those of before, inside it the final ones of the plan.\<close>

lemma shift_outside:
  assumes "framed t i d d1" and "keysOk d1" and "s \<in> set (shifts d1)" and "\<not> belongs t i s"
  shows "s \<in> set (shifts d)" "breakSet d1 (sh_id s) = breakSet d (sh_id s)"
proof -
  show "s \<in> set (shifts d)" by (rule framed_belongs [OF assms(1,3,4)])
  have "sh_id s \<notin> sh_id ` {s \<in> set (shifts d1). belongs t i s}"
    using shiftId_unique [OF assms(2) assms(3)] assms(4) by blast
  then show "breakSet d1 (sh_id s) = breakSet d (sh_id s)" by (rule framedD(3) [OF assms(1)])
qed

lemma shift_inside:
  assumes "keysOk d1" and "view t i d1 = finalView plan" and "s \<in> set (shifts d1)" and "scheduleShift t i s"
  obtains p where "p \<in> set (cp_finalShifts plan)" "ps_publicId p = sh_publicId s" "planFacts p = factsOf d1 s"
proof -
  have "view t i d1 (sh_publicId s) = Some (factsOf d1 s)" unfolding view_Some [OF assms(1)] using assms(3,4) by blast
  then have "finalView plan (sh_publicId s) = Some (factsOf d1 s)" by (simp add: assms(2))
  then obtain p where "map_of (map (\<lambda>s. (ps_publicId s, s)) (cp_finalShifts plan)) (sh_publicId s) = Some p" "planFacts p = factsOf d1 s"
    unfolding finalView_def by blast
  then show thesis using that by (auto dest!: map_of_SomeD)
qed

lemma windowsOverlap_sym: "windowsOverlap a b x y = windowsOverlap x y a b"
  by (auto simp: windowsOverlap_def)

lemma live_scheduleShift: "live s \<Longrightarrow> belongs t i s \<Longrightarrow> scheduleShift t i s"
  by (simp add: live_def belongs_def scheduleShift_def)

text \<open>An employee's shift elsewhere that overlapped a final one would be among the rows the planner compares with.\<close>

lemma no_external_overlap:
  assumes "inputFor t sched d input" and "acceptable input (cp_finalShifts plan)"
    and p: "p \<in> set (cp_finalShifts plan)" "hasUser p" "ps_userInternalId p = Some u" "u \<in> involvedIds input" "u \<noteq> []"
    and b: "b \<in> set (shifts d)" "live b" "sh_tenantId b = t" "sh_scheduleId b \<noteq> Some (sd_id sched)" "sh_userId b = Some u"
  shows "\<not> windowsOverlap (ps_startTime p) (ps_endTime p) (sh_startTime b) (sh_endTime b)"
proof
  assume o: "windowsOverlap (ps_startTime p) (ps_endTime p) (sh_startTime b) (sh_endTime b)"
  have w: "inWindow (sd_startDate sched) (sd_endDate sched) p" using assms(1,2) p(1) by (simp add: acceptable_def inputFor_def)
  then have "sh_startTime b < sd_endDate sched + 86400000" "sd_startDate sched < sh_endTime b"
    using o by (auto simp: inWindow_def windowsOverlap_def)
  then obtain x where x: "x \<in> set (in_externalShifts input)" "xs_userInternalId x = u" "xs_startTime x = sh_startTime b" "xs_endTime x = sh_endTime b"
    using assms(1) b p(4,5) unfolding inputFor_def live_def by blast
  have "\<not> conflictsWith p x" using assms(2) p(1,2) x(1) unfolding acceptable_def by blast
  then show False using o p(3) x(2-4) by (simp add: conflictsWith_def)
qed

lemma applied_bookings:
  assumes ok: "schedulingOk d" and inp: "inputFor t sched d input" and apart: "sortable E d"
    and plan: "planScheduleChangeSet (e_collate E) ids input = ok plan"
    and d1: "keysOk d1" "framed t (sd_id sched) d d1" "view t (sd_id sched) d1 = finalView plan"
  shows "bookingsOk d1"
proof -
  let ?in = "belongs t (sd_id sched)"
  let ?ov = "\<lambda>a b. windowsOverlap (sh_startTime a) (sh_endTime a) (sh_startTime b) (sh_endTime b)"
  note sound = plan_sound [OF ok inp apart plan]
  have users: "[] \<notin> us_id ` set (users d)" using ok by (simp add: schedulingOk_def employeesOk_def)
  have mixed: "\<not> ?ov a b" if a: "a \<in> set (shifts d1)" "live a" "?in a" and b: "b \<in> set (shifts d1)" "live b" "\<not> ?in b"
    and e: "sh_tenantId a = sh_tenantId b" "sh_userId a = Some u" "sh_userId b = Some u" for a b u
  proof -
    obtain p where p: "p \<in> set (cp_finalShifts plan)" "planFacts p = factsOf d1 a"
      by (rule shift_inside [OF d1(1,3) a(1) live_scheduleShift [OF a(2,3)]])
    have f: "ps_userInternalId p = Some u" "ps_startTime p = sh_startTime a" "ps_endTime p = sh_endTime a"
      using p(2) e(2) by (simp_all add: planFacts_def factsOf_def)
    have u: "hasUser p" "u \<in> involvedIds input" "u \<noteq> []" using sound(2) [OF p(1) f(1)] users by (metis, metis, metis)
    have "sh_tenantId b = t" "sh_scheduleId b \<noteq> Some (sd_id sched)" using a(3) b(3) e(1) by (auto simp: belongs_def)
    from no_external_overlap [OF inp sound(1) p(1) u(1) f(1) u(2,3) shift_outside(1) [OF d1(2,1) b(1,3)] b(2) this e(3)]
    show ?thesis using f(2,3) by simp
  qed
  show ?thesis
    unfolding bookingsOk_def
  proof (intro ballI impI)
    fix a b
    assume a: "a \<in> set (shifts d1)" and b: "b \<in> set (shifts d1)"
      and ab: "a \<noteq> b \<and> live a \<and> live b \<and> sh_tenantId a = sh_tenantId b \<and> sh_userId a = sh_userId b \<and> sh_userId a \<noteq> None"
    then obtain u where u: "sh_userId a = Some u" "sh_userId b = Some u" by (metis option.exhaust)
    consider "?in a" "?in b" | "?in a" "\<not> ?in b" | "\<not> ?in a" "?in b" | "\<not> ?in a" "\<not> ?in b" by blast
    then show "\<not> ?ov a b"
    proof cases
      case 1
      obtain p where p: "p \<in> set (cp_finalShifts plan)" "ps_publicId p = sh_publicId a" "planFacts p = factsOf d1 a"
        by (rule shift_inside [OF d1(1,3) a live_scheduleShift]) (use ab 1 in auto)
      obtain q where q: "q \<in> set (cp_finalShifts plan)" "ps_publicId q = sh_publicId b" "planFacts q = factsOf d1 b"
        by (rule shift_inside [OF d1(1,3) b live_scheduleShift]) (use ab 1 in auto)
      have f: "ps_userInternalId p = Some u" "ps_userInternalId q = Some u" "ps_startTime p = sh_startTime a" "ps_endTime p = sh_endTime a"
        "ps_startTime q = sh_startTime b" "ps_endTime q = sh_endTime b" using p(3) q(3) u by (simp_all add: planFacts_def factsOf_def)
      have "p \<noteq> q" using publicId_unique [OF d1(1) a b] p(2) q(2) ab by metis
      moreover have "hasUser p" using sound(2) [OF p(1) f(1)] by blast
      ultimately have "\<not> shiftsOverlap p q" using sound(1) p(1) q(1) f(1,2) unfolding acceptable_def noDoubleBooking_def by metis
      then show ?thesis using f(3-6) by (simp add: shiftsOverlap_def)
    next
      case 2
      then show ?thesis using mixed [OF a _ _ b] ab u by blast
    next
      case 3
      then show ?thesis using mixed [OF b _ _ a] ab u windowsOverlap_sym by metis
    next
      case 4
      then show ?thesis using shift_outside(1) [OF d1(2,1)] a b ab ok unfolding schedulingOk_def bookingsOk_def by blast
    qed
  qed
qed

lemma applied_shifts:
  assumes ok: "schedulingOk d" and inp: "inputFor t sched d input" and apart: "sortable E d"
    and plan: "planScheduleChangeSet (e_collate E) ids input = ok plan" and sched: "sched \<in> set (schedules d)" "sd_tenantId sched = t"
    and d1: "keysOk d1" "framed t (sd_id sched) d d1" "view t (sd_id sched) d1 = finalView plan"
  shows "windowsOk d1" "breaksOk d1" "employeesOk d1"
proof -
  let ?in = "belongs t (sd_id sched)"
  note sound = plan_sound [OF ok inp apart plan]
  note rest = framed_rest [OF d1(2)]
  have inside: "\<exists>p \<in> set (cp_finalShifts plan). planFacts p = factsOf d1 s" if s: "s \<in> set (shifts d1)" "live s" "?in s" for s
    using shift_inside [OF d1(1,3) s(1) live_scheduleShift [OF s(2,3)]] by metis
  show "windowsOk d1"
    unfolding windowsOk_def
  proof (intro ballI allI impI)
    fix s j
    assume s: "s \<in> set (shifts d1)" and l: "live s \<and> sh_scheduleId s = Some j"
    show "\<exists>c \<in> set (schedules d1). sd_id c = j \<and> sd_tenantId c = sh_tenantId s \<and> shiftFits s c"
    proof (cases "?in s")
      case True
      obtain p where p: "p \<in> set (cp_finalShifts plan)" "planFacts p = factsOf d1 s" using inside s l True by blast
      have "inWindow (sd_startDate sched) (sd_endDate sched) p" using sound(1) p(1) inp by (simp add: acceptable_def inputFor_def)
      then have "shiftFits s sched" using p(2) by (simp add: inWindow_def shiftFits_def planFacts_def factsOf_def)
      then show ?thesis using True l sched rest(1) by (auto simp: belongs_def)
    next
      case False
      have "s \<in> set (shifts d)" by (rule shift_outside(1) [OF d1(2,1) s False])
      then show ?thesis using l ok rest(1) unfolding schedulingOk_def windowsOk_def by simp
    qed
  qed
  show "breaksOk d1"
    unfolding breaksOk_def
  proof (intro ballI impI)
    fix s b
    assume s: "s \<in> set (shifts d1)" and b: "b \<in> set (shiftBreaks d1)" and l: "live s \<and> br_shiftId b = sh_id s"
    then have m: "plannedBreakOf b \<in> breakSet d1 (sh_id s)" by (auto simp: breakSet_def)
    show "sh_startTime s \<le> br_startTime b \<and> br_endTime b \<le> sh_endTime s"
    proof (cases "?in s")
      case True
      obtain p where p: "p \<in> set (cp_finalShifts plan)" "planFacts p = factsOf d1 s" using inside s l True by blast
      have "plannedBreakOf b \<in> set (ps_breaks p)" using m p(2) by (simp add: planFacts_def factsOf_def)
      then have "ps_startTime p \<le> br_startTime b \<and> br_endTime b \<le> ps_endTime p"
        using sound(3) [OF p(1)] by (auto simp: breaksInside_def list_all_iff plannedBreakOf_def)
      then show ?thesis using p(2) by (simp add: planFacts_def factsOf_def)
    next
      case False
      note o = shift_outside [OF d1(2,1) s False]
      have "plannedBreakOf b \<in> breakSet d (sh_id s)" using m o(2) by simp
      then obtain c where "c \<in> set (shiftBreaks d)" "br_shiftId c = sh_id s" "plannedBreakOf b = plannedBreakOf c"
        unfolding breakSet_def by blast
      then show ?thesis using o(1) l ok by (auto simp: schedulingOk_def breaksOk_def plannedBreakOf_def)
    qed
  qed
  have "u \<in> us_id ` set (users d)" if s: "s \<in> set (shifts d1)" "live s \<and> sh_userId s = Some u" for s u
  proof (cases "?in s")
    case True
    obtain p where p: "p \<in> set (cp_finalShifts plan)" "planFacts p = factsOf d1 s" using inside s True by blast
    then have "ps_userInternalId p = Some u" using s(2) by (simp add: planFacts_def factsOf_def)
    then show ?thesis using sound(2) [OF p(1)] by blast
  next
    case False
    have "s \<in> set (shifts d)" by (rule shift_outside(1) [OF d1(2,1) s(1) False])
    then show ?thesis using s(2) ok unfolding schedulingOk_def employeesOk_def by blast
  qed
  then show "employeesOk d1" using ok rest(4) unfolding schedulingOk_def employeesOk_def by auto
qed

text \<open>The row of the schedule after it moved to the next revision.\<close>

lemma bumped_row:
  assumes "bumped t i base rows rows'" and "s \<in> set rows" and "draftAt t i base s"
  shows "bump s \<in> set rows'"
  using assms by (auto simp: bumped_def set_updateWhere)

lemma changeApplied_keeps:
  assumes ok: "schedulingOk d" and apart: "sortable E d" and "changeApplied E t publicId ops base key hash response d d'"
  shows "schedulingOk d'"
proof -
  obtain sched loc input ids plan d1 rows' sets' log where l: "(sched, loc) \<in> set (lockedSchedules t publicId d)" "sd_status sched = SCHEDULE_DRAFT" "sd_revision sched = base"
    and inp: "inputFor t sched d input" and plan: "planScheduleChangeSet (e_collate E) ids input = ok plan"
    and d1: "keysOk d1" "framed t (sd_id sched) d d1" "view t (sd_id sched) d1 = finalView plan"
    and b: "bumped t (sd_id sched) base (schedules d) rows'" and r: "recorded t (sd_id sched) key hash base response (scheduleChangeSets d) sets'"
    and d': "d' = d1 \<lparr> schedules := rows', scheduleChangeSets := sets', auditLogs := auditLogs d @ [log] \<rparr>"
    using assms(3) unfolding changeApplied_def by blast
  note rest = framed_rest [OF d1(2)] and f = lockedSchedules_facts [OF l(1)]
  have rev: "revised (schedules d) (schedules d')" using revised_bumped [OF b] by (simp add: d')
  have rev1: "revised (schedules d1) (schedules d')" using rev rest(1) by simp
  have w: "windowsOk d1" "breaksOk d1" "employeesOk d1" by (rule applied_shifts [OF ok inp apart plan _ _ d1]; use f in blast)+
  have "windowsOk d'" by (rule revised_windowsOk [OF w(1) rev1]) (simp add: d')
  moreover have "schedulesOk d'" by (rule revised_schedulesOk [OF _ rev]) (use ok in \<open>simp add: schedulingOk_def\<close>)
  moreover have "demandOk d'" by (rule revised_demandOk [OF _ rev]) (use ok rest(6) in \<open>simp_all add: schedulingOk_def d'\<close>)
  moreover have "revisionsOk d'"
  proof (rule revisionsOk_record [OF _ _ rev])
    show "recorded t (sd_id sched) key hash base response (scheduleChangeSets d) (scheduleChangeSets d')" using r by (simp add: d')
    show "bump sched \<in> set (schedules d')" using bumped_row [OF b] f l by (simp add: d' draftAt_def)
  qed (use ok f l in \<open>simp_all add: schedulingOk_def bump_def\<close>)
  moreover have "keysOk d'" "bookingsOk d'" "breaksOk d'" "employeesOk d'"
    using d1(1) applied_bookings [OF ok inp apart plan d1] w by (simp_all add: d' keysOk_def bookingsOk_def breaksOk_def employeesOk_def)
  ultimately show ?thesis by (simp add: schedulingOk_def)
qed

section \<open>The other commands keep it too\<close>

lemma sameShifts:
  assumes "shifts d' = shifts d" and "shiftBreaks d' = shiftBreaks d" and "users d' = users d"
  shows "keysOk d' = keysOk d" "bookingsOk d' = bookingsOk d" "breaksOk d' = breaksOk d" "employeesOk d' = employeesOk d"
  by (simp_all only: keysOk_def bookingsOk_def breaksOk_def employeesOk_def assms)

lemma rest_keeps:
  assumes "schedulingOk d" and "shifts d' = shifts d" and "shiftBreaks d' = shiftBreaks d" and "users d' = users d"
    and "revised (schedules d) (schedules d')"
  shows "keysOk d'" "bookingsOk d'" "windowsOk d'" "breaksOk d'" "employeesOk d'" "schedulesOk d'"
  using assms(1) revised_windowsOk [OF _ assms(5,2)] revised_schedulesOk [OF _ assms(5)]
  by (simp_all add: schedulingOk_def sameShifts [OF assms(2-4)])

lemma reopened_keeps:
  assumes ok: "schedulingOk d" and "reopenedSchedule t publicId base key hash response d d'"
  shows "schedulingOk d'"
proof -
  obtain sched loc sets' log where l: "(sched, loc) \<in> set (lockedSchedules t publicId d)" "sd_status sched = SCHEDULE_PUBLISHED" "sd_revision sched = base"
    and r: "recorded t (sd_id sched) key hash base response (scheduleChangeSets d) sets'"
    and d': "d' = d \<lparr> schedules := updateWhere (publishedAt t (sd_id sched) base) reopenRow (schedules d), scheduleChangeSets := sets',
                auditLogs := auditLogs d @ [log] \<rparr>"
    using assms(2) unfolding reopenedSchedule_def by blast
  note f = lockedSchedules_facts [OF l(1)]
  have rev: "revised (schedules d) (schedules d')" by (simp add: d' revised_reopen)
  have "revisionsOk d'"
  proof (rule revisionsOk_record [OF _ _ rev])
    show "recorded t (sd_id sched) key hash base response (scheduleChangeSets d) (scheduleChangeSets d')" using r by (simp add: d')
    have "publishedAt t (sd_id sched) base sched" using f l by (simp add: publishedAt_def)
    then show "reopenRow sched \<in> set (schedules d')" using f by (auto simp: d' set_updateWhere)
  qed (use ok f l in \<open>simp_all add: schedulingOk_def reopenRow_def\<close>)
  moreover have "demandOk d'" by (rule revised_demandOk [OF _ rev]) (use ok in \<open>simp_all add: schedulingOk_def d'\<close>)
  ultimately show ?thesis using rest_keeps [OF ok _ _ _ rev] by (simp add: schedulingOk_def d')
qed

lemma replaced_keeps:
  assumes ok: "schedulingOk d" and "replacedWindows t publicId requested base key hash response d d'"
  shows "schedulingOk d'"
proof -
  obtain sched loc windows rows' sets' log where l: "(sched, loc) \<in> set (lockedSchedules t publicId d)" "sd_status sched = SCHEDULE_DRAFT" "sd_revision sched = base"
    and w: "list_all2 (windowFits t sched) requested windows" and b: "bumped t (sd_id sched) base (schedules d) rows'"
    and r: "recorded t (sd_id sched) key hash base response (scheduleChangeSets d) sets'"
    and d': "d' = d \<lparr> demandWindows := filter (\<lambda>r. \<not> scheduleWindow t sched r) (demandWindows d) @ windows, schedules := rows',
                scheduleChangeSets := sets', auditLogs := auditLogs d @ [log] \<rparr>"
    using assms(2) unfolding replacedWindows_def by blast
  note f = lockedSchedules_facts [OF l(1)]
  have rev: "revised (schedules d) (schedules d')" using revised_bumped [OF b] by (simp add: d')
  have m: "bump sched \<in> set (schedules d')" using bumped_row [OF b] f l by (simp add: d' draftAt_def)
  have "revisionsOk d'"
  proof (rule revisionsOk_record [OF _ _ rev, where s = sched and s' = "bump sched"])
    show "recorded t (sd_id sched) key hash base response (scheduleChangeSets d) (scheduleChangeSets d')" using r by (simp add: d')
  qed (use ok f l m in \<open>simp_all add: schedulingOk_def bump_def\<close>)
  moreover have "demandOk d'"
  proof -
    have fits: "windowTimes sched x = ok (a, b) \<Longrightarrow> sd_startDate sched \<le> a \<and> a < sd_endDate sched \<and> a < b \<and> b \<le> a + 86400000" for x a b
      by (auto simp: windowTimes_def bindR_ok checkR_ok)
    have new: "\<exists>c \<in> set (schedules d'). sd_id c = dw_scheduleId r \<and> sd_tenantId c = dw_tenantId r \<and> sd_locationId c = dw_locationId r
        \<and> sd_startDate c \<le> dw_startTime r \<and> dw_startTime r < sd_endDate c \<and> dw_startTime r < dw_endTime r \<and> dw_endTime r \<le> dw_startTime r + 86400000"
      if rw: "r \<in> set windows" for r
    proof -
      obtain x where "windowFits t sched x r" using w rw by (metis in_set_conv_nth list_all2_conv_all_nth)
      then show ?thesis using m f fits by (intro bexI [of _ "bump sched"]) (auto simp: windowFits_def scheduleWindow_def bump_def)
    qed
    have "demandOk (d' \<lparr> demandWindows := filter (\<lambda>r. \<not> scheduleWindow t sched r) (demandWindows d) \<rparr>)"
      by (rule revised_demandOk [of d]) (use ok rev in \<open>auto simp: schedulingOk_def d'\<close>)
    then show ?thesis using new unfolding demandOk_def by (auto simp: d')
  qed
  ultimately show ?thesis using rest_keeps [OF ok _ _ _ rev] by (simp add: schedulingOk_def d')
qed

lemma moreSchedules:
  assumes "shifts d' = shifts d" and "demandWindows d' = demandWindows d" and "scheduleChangeSets d' = scheduleChangeSets d"
    and "set (schedules d) \<subseteq> set (schedules d')"
  shows "windowsOk d \<Longrightarrow> windowsOk d'" "demandOk d \<Longrightarrow> demandOk d'" "revisionsOk d \<Longrightarrow> revisionsOk d'"
proof -
  have ex: "\<exists>c \<in> set (schedules d'). P c" if "\<exists>c \<in> set (schedules d). P c" for P using that assms(4) by blast
  show "windowsOk d'" if "windowsOk d" using that ex unfolding windowsOk_def assms(1) by simp
  show "demandOk d'" if "demandOk d" using that ex unfolding demandOk_def assms(2) by simp
  show "revisionsOk d'" if r: "revisionsOk d"
    unfolding revisionsOk_def assms(3)
  proof (intro conjI ballI)
    fix c
    assume c: "c \<in> set (scheduleChangeSets d)"
    show "cs_resultRevision c = cs_baseRevision c + 1" using r c unfolding revisionsOk_def by blast
    show "\<exists>s \<in> set (schedules d'). sd_id s = cs_scheduleId c \<and> sd_tenantId s = cs_tenantId c \<and> cs_resultRevision c \<le> sd_revision s"
      by (rule ex) (use r c in \<open>unfold revisionsOk_def, blast\<close>)
  qed (use r in \<open>simp_all add: revisionsOk_def\<close>)
qed

lemma created_keeps:
  assumes ok: "schedulingOk d" and "createdSchedule t locationPublicId startDate endDate operationId hash response d d'" and window: "startDate < endDate"
  shows "schedulingOk d'"
proof -
  obtain loc s rows' log where fnd: "draftFound t loc startDate endDate s (schedules d) rows'"
    and d': "d' = d \<lparr> schedules := rows', auditLogs := auditLogs d @ [log] \<rparr>"
    using assms(2) unfolding createdSchedule_def by blast
  have sub: "set (schedules d) \<subseteq> set rows'" using fnd by (auto simp: draftFound_def)
  have "schedulesOk d'"
  proof (cases "rows' = schedules d")
    case True
    then show ?thesis using ok by (simp add: schedulingOk_def schedulesOk_def d')
  next
    case False
    then have n: "rows' = schedules d @ [s]" "newSchedule t loc startDate endDate s" "\<forall>x \<in> set (schedules d). \<not> overlappingSchedule t loc startDate endDate x"
      "\<forall>x \<in> set (schedules d). \<not> scheduleClash s x" using fnd by (auto simp: draftFound_def)
    have "\<not> windowsOverlap (sd_startDate s) (sd_endDate s) (sd_startDate b) (sd_endDate b)"
      if "b \<in> set (schedules d)" "sd_deletedAt b = None" "sd_tenantId b = sd_tenantId s" "sd_locationId b = sd_locationId s" for b
      using that n(2,3) by (auto simp: overlappingSchedule_def newSchedule_def windowsOverlap_def)
    then show ?thesis
      using ok n window windowsOverlap_sym unfolding schedulingOk_def schedulesOk_def d'
      by (auto simp: scheduleClash_def newSchedule_def)
  qed
  moreover have "windowsOk d'" "demandOk d'" "revisionsOk d'"
    using ok sub moreSchedules [of d' d] by (simp_all add: schedulingOk_def d')
  moreover have "keysOk d'" "bookingsOk d'" "breaksOk d'" "employeesOk d'"
    using ok sameShifts [of d' d] by (simp_all add: schedulingOk_def d')
  ultimately show ?thesis by (simp add: schedulingOk_def)
qed

section \<open>The commands\<close>

datatype scheduleCommand =
    ApplyChangeSet sessionIdentity string "shiftOperation list" "string option" "string option"
  | ReopenSchedule sessionIdentity string "string option" "string option"
  | CreateSchedule sessionIdentity string string string "string option"
  | ReplaceDemandWindows sessionIdentity string "windowRequest list" "string option" "string option"
  | ListDemandWindows sessionIdentity string

fun runSchedule :: "env \<Rightarrow> scheduleCommand \<Rightarrow> json tx" where
  "runSchedule E (ApplyChangeSet i p ops m k) = applyChangeSet E i p ops m k"
| "runSchedule E (ReopenSchedule i p m k) = reopenSchedule E i p m k"
| "runSchedule E (CreateSchedule i l s e k) = createSchedule E i l s e k"
| "runSchedule E (ReplaceDemandWindows i p ws m k) = replaceDemandWindows E i p ws m k"
| "runSchedule E (ListDemandWindows i p) = listDemandWindows E i p"

text \<open>What a run of a command may have done: nothing, or one of the changes.\<close>

definition scheduleStep :: "env \<Rightarrow> database \<Rightarrow> database \<Rightarrow> bool" where
  "scheduleStep E d d' \<longleftrightarrow> d' = d
     \<or> (\<exists>t p ops base key hash response. changeApplied E t p ops base key hash response d d')
     \<or> (\<exists>t p base key hash response. reopenedSchedule t p base key hash response d d')
     \<or> (\<exists>t l s e oid hash response. s < e \<and> createdSchedule t l s e oid hash response d d')
     \<or> (\<exists>t p ws base key hash response. replacedWindows t p ws base key hash response d d')"

lemma outcome_liftT: "(\<And>x. r = ok x \<Longrightarrow> outcome d (f x) Q) \<Longrightarrow> outcome d (bindT (liftT r) f) Q"
  unfolding outcome_def by (rule post_bind, rule post_lift) auto

lemma outcome_checkT: "(b \<Longrightarrow> outcome d k Q) \<Longrightarrow> outcome d (thenT (checkT b e) k) Q"
  unfolding outcome_def by (rule post_then, rule post_check) auto

lemma outcome_applyChangeSet:
  "keysOk d \<Longrightarrow> outcome d (applyChangeSet E identity p ops m k) (\<lambda>_ d'. scheduleStep E d d')"
  unfolding applyChangeSet_def
  apply (intro outcome_rules outcome_runOperations readsOnly_basic readsOnly_prepareOperations)
  apply (rule post_weaken [OF sat_applyBody])
     apply (auto simp: scheduleStep_def replayedSet_def)
  done

lemma outcome_reopenSchedule: "outcome d (reopenSchedule E identity p m k) (\<lambda>_ d'. scheduleStep E d d')"
  unfolding reopenSchedule_def
  apply (intro outcome_rules outcome_runOperations readsOnly_basic readsOnly_prepareOperations)
  apply (rule post_weaken [OF sat_reopenBody])
    apply (auto simp: scheduleStep_def replayedSet_def)
  done

lemma outcome_replaceDemandWindows: "outcome d (replaceDemandWindows E identity p ws m k) (\<lambda>_ d'. scheduleStep E d d')"
  unfolding replaceDemandWindows_def
  apply (intro outcome_rules outcome_runOperations readsOnly_basic readsOnly_prepareOperations)
  apply (rule post_weaken [OF sat_replaceBody])
    apply (auto simp: scheduleStep_def replayedSet_def)
  done

lemma outcome_createSchedule: "outcome d (createSchedule E identity l s e k) (\<lambda>_ d'. scheduleStep E d d')"
proof -
  have step: "outcome d (bindT (prepareOperationsAuthority E i ps) (\<lambda>scope. runOperations E i ps scope (createBody E l s e oid hash)))
      (\<lambda>_ d'. scheduleStep E d d')" if "s < e" for i ps s e oid hash
    apply (intro outcome_rules outcome_runOperations readsOnly_prepareOperations)
    apply (rule post_weaken [OF sat_createBody])
      apply (use that in \<open>auto simp: scheduleStep_def replayedCreate_def\<close>)
    done
  show ?thesis
    unfolding createSchedule_def
    apply (rule outcome_let, rule outcome_then, simp, rule outcome_let, rule outcome_bind, simp, rule outcome_let, rule outcome_let)
    apply (rule outcome_bind, simp, rule outcome_bind, simp, rule outcome_checkT, rule step, simp)
    done
qed

lemma readsOnly_listWindows: "readsOnly cur \<Longrightarrow> readsOnly (listWindowsBody p identity cur)"
  unfolding listWindowsBody_def by (intro readsOnly_bind readsOnly_then) auto

lemma outcome_listDemandWindows: "outcome d (listDemandWindows E identity p) (\<lambda>_ d'. scheduleStep E d d')"
  unfolding listDemandWindows_def
  apply (intro outcome_rules outcome_runOperations readsOnly_basic readsOnly_prepareOperations)
  apply (rule post_readsOnly [OF readsOnly_listWindows])
    apply (auto simp: scheduleStep_def)
  done

lemma runSchedule_step:
  assumes "keysOk (w_db w)"
  shows "scheduleStep E (w_db w) (w_db (snd (runSchedule E c w)))"
proof -
  have "outcome (w_db w) (runSchedule E c) (\<lambda>_ d'. scheduleStep E (w_db w) d')"
    using assms by (cases c) (simp_all add: outcome_applyChangeSet outcome_reopenSchedule outcome_createSchedule
        outcome_replaceDemandWindows outcome_listDemandWindows)
  then show ?thesis by (rule outcome_always) (simp_all add: scheduleStep_def)
qed

lemma scheduleStep_keeps: "schedulingOk d \<Longrightarrow> sortable E d \<Longrightarrow> scheduleStep E d d' \<Longrightarrow> schedulingOk d'"
  unfolding scheduleStep_def
  by (elim disjE exE conjE) (simp, rule changeApplied_keeps, assumption+, rule reopened_keeps, assumption+, rule created_keeps, assumption+,
      rule replaced_keeps, assumption+)

lemma scheduleStep_users:
  assumes "scheduleStep E d d'"
  shows "users d' = users d"
  using assms unfolding scheduleStep_def changeApplied_def reopenedSchedule_def createdSchedule_def replacedWindows_def
  by (auto dest!: framed_rest(4))

end
