(* ===== verification/WorkspaceHistory.thy ===== *)
theory WorkspaceHistory
  imports ScheduleInvariants PayrollHistory
begin

text \<open>
  Payroll, time cards and schedules of one workspace together: any sequence of their commands by any callers, interleaved
  with changes that other services make to the tables these commands only read.  The two groups of commands write disjoint
  tables, the audit log and the credit ledger apart, so each keeps the invariant of the other.
\<close>

section \<open>Disjoint tables\<close>

definition schedulingPart :: "database \<Rightarrow> user list \<times> schedule list \<times> shift list \<times> shiftBreak list \<times> demandWindow list \<times> scheduleChangeSet list" where
  "schedulingPart d = (users d, schedules d, shifts d, shiftBreaks d, demandWindows d, scheduleChangeSets d)"

lemma schedulingPartD:
  assumes "schedulingPart d' = schedulingPart d"
  shows "users d' = users d" "schedules d' = schedules d" "shifts d' = shifts d" "shiftBreaks d' = shiftBreaks d"
    "demandWindows d' = demandWindows d" "scheduleChangeSets d' = scheduleChangeSets d"
  using assms by (simp_all add: schedulingPart_def)

lemma schedulingPart_ok:
  assumes "schedulingPart d' = schedulingPart d"
  shows "schedulingOk d' = schedulingOk d" "sortable E d' = sortable E d" "storedSet t key d' = storedSet t key d"
  by (simp_all only: schedulingOk_def keysOk_def bookingsOk_def windowsOk_def breaksOk_def employeesOk_def schedulesOk_def demandOk_def
      revisionsOk_def sortable_def storedSet_def schedulingPartD [OF assms])

named_theorems part_simps \<open>updates of the payroll tables leave the scheduling part alone\<close>

lemma part_updates [part_simps]:
  "schedulingPart (auditLogs_update f d) = schedulingPart d" "schedulingPart (payrollOperations_update f2 d) = schedulingPart d"
  "schedulingPart (policyVersions_update f3 d) = schedulingPart d" "schedulingPart (payrollPeriods_update f4 d) = schedulingPart d"
  "schedulingPart (timeCards_update f5 d) = schedulingPart d" "schedulingPart (timeCardBreaks_update f6 d) = schedulingPart d"
  "schedulingPart (cardApprovals_update f7 d) = schedulingPart d" "schedulingPart (lockedEntries_update f8 d) = schedulingPart d"
  "schedulingPart (amendments_update f9 d) = schedulingPart d" "schedulingPart (amendmentDecisions_update f10 d) = schedulingPart d"
  "schedulingPart (exportBatches_update f11 d) = schedulingPart d" "schedulingPart (exportLines_update f12 d) = schedulingPart d"
  "schedulingPart (tenants_update f13 d) = schedulingPart d" "schedulingPart (creditTransactions_update f14 d) = schedulingPart d"
  "schedulingPart (receipts_update f15 d) = schedulingPart d" "schedulingPart (lineEvents_update f16 d) = schedulingPart d"
  "schedulingPart (lineStates_update f17 d) = schedulingPart d"
  by (simp_all add: schedulingPart_def)

lemma part_charged: "charged d tenantId cost transactionId reason balance d' \<Longrightarrow> schedulingPart d' = schedulingPart d"
  by (auto simp: charged_def debited_def part_simps)

lemma part_recorded:
  assumes "recordedOutcome identity request kind change d r d'" and "\<And>p mid. change d p mid \<Longrightarrow> schedulingPart mid = schedulingPart d"
  shows "schedulingPart d' = schedulingPart d"
  using assms(1) unfolding recordedOutcome_def by (elim disjE exE conjE) (simp_all add: part_simps assms(2))

lemma part_changes:
  "periodAdded t d p mid \<Longrightarrow> schedulingPart mid = schedulingPart d" "reviewStarted t n d p mid \<Longrightarrow> schedulingPart mid = schedulingPart d"
  "cardsAdopted t d p mid \<Longrightarrow> schedulingPart mid = schedulingPart d" "cardsDecided i d p mid \<Longrightarrow> schedulingPart mid = schedulingPart d"
  by (auto simp: periodAdded_def reviewStarted_def cardsAdopted_def cardsDecided_def part_simps)

lemma part_outcomes:
  "policyOutcome t request d d' \<Longrightarrow> schedulingPart d' = schedulingPart d"
  "lockOutcome E i request n p d d' \<Longrightarrow> schedulingPart d' = schedulingPart d"
  "amendmentOutcome i d d' \<Longrightarrow> schedulingPart d' = schedulingPart d"
  "decisionOutcome i d d' \<Longrightarrow> schedulingPart d' = schedulingPart d"
  "downloadOutcome t d d' \<Longrightarrow> schedulingPart d' = schedulingPart d"
  "clockOutOutcome i d d' \<Longrightarrow> schedulingPart d' = schedulingPart d"
  "correctOutcome i d d' \<Longrightarrow> schedulingPart d' = schedulingPart d"
  by (auto simp: policyOutcome_def lockOutcome_def periodLocked_def amendmentOutcome_def decisionOutcome_def downloadOutcome_def
      clockOutOutcome_def correctOutcome_def part_simps)

lemma part_clockIn: "clockInOutcome i operation d d' \<Longrightarrow> schedulingPart d' = schedulingPart d"
  by (auto simp: clockInOutcome_def part_simps dest!: part_charged)

lemma part_export: "exportOutcome E t request cost p d d' \<Longrightarrow> schedulingPart d' = schedulingPart d"
  by (auto simp: exportOutcome_def exportCreated_def part_simps dest!: part_charged)

lemma part_receipt: "receiptOutcome t d d' \<Longrightarrow> schedulingPart d' = schedulingPart d"
  unfolding receiptOutcome_def receiptStored_def statesKept_def batchesMoved_def by (elim disjE exE conjE) (simp_all add: part_simps)

text \<open>What a payroll or time-card command does to the schedules: nothing.\<close>

lemma outcome_same:
  assumes "outcome (w_db w) m (\<lambda>r d'. P r d')" and "\<And>r d'. P r d' \<Longrightarrow> schedulingPart d' = schedulingPart (w_db w)"
  shows "schedulingPart (w_db (snd (m w))) = schedulingPart (w_db w)"
  by (rule outcome_always [OF assms(1), where R = "\<lambda>d d'. schedulingPart d' = schedulingPart d"]) (simp_all add: assms(2))

lemmas part_all = part_changes part_outcomes part_clockIn part_export part_receipt

lemma payroll_part:
  "schedulingPart (w_db (snd (createPolicy E who body key w))) = schedulingPart (w_db w)"
  "schedulingPart (w_db (snd (createPeriod E who start key w))) = schedulingPart (w_db w)"
  "schedulingPart (w_db (snd (startReview E who p n key w))) = schedulingPart (w_db w)"
  "schedulingPart (w_db (snd (lockPeriod E who p n key w))) = schedulingPart (w_db w)"
  "schedulingPart (w_db (snd (createAmendment E who p am key w))) = schedulingPart (w_db w)"
  "schedulingPart (w_db (snd (decideAmendment E who p verdict reason key w))) = schedulingPart (w_db w)"
  "schedulingPart (w_db (snd (createExport E who p cost key w))) = schedulingPart (w_db w)"
  "schedulingPart (w_db (snd (downloadExport E who p w))) = schedulingPart (w_db w)"
  "schedulingPart (w_db (snd (reconcileExport E who p rr w))) = schedulingPart (w_db w)"
  "schedulingPart (w_db (snd (clockIn E who ci key w))) = schedulingPart (w_db w)"
  "schedulingPart (w_db (snd (clockOut E who p co w))) = schedulingPart (w_db w)"
  subgoal by (rule outcome_same [OF outcome_createPolicy]) (auto dest: part_all)
  subgoal by (rule outcome_same [OF outcome_createPeriod]) (auto elim!: part_recorded part_changes)
  subgoal by (rule outcome_same [OF outcome_startReview]) (auto elim!: part_recorded part_changes)
  subgoal by (rule outcome_same [OF outcome_lockPeriod]) (auto dest: part_all)
  subgoal by (rule outcome_same [OF outcome_createAmendment]) (rule part_all)
  subgoal by (rule outcome_same [OF outcome_decideAmendment]) (rule part_all)
  subgoal by (rule outcome_same [OF outcome_createExport]) (auto dest: part_all)
  subgoal by (rule outcome_same [OF outcome_downloadExport]) (rule part_all)
  subgoal by (rule outcome_same [OF outcome_reconcileExport]) (rule part_all)
  subgoal by (rule outcome_same [OF outcome_clockIn]) (rule part_all)
  subgoal by (rule outcome_same [OF outcome_clockOut]) (rule part_all)
  done

lemma card_part:
  assumes "distinct (map tc_id (timeCards (w_db w)))"
  shows "schedulingPart (w_db (snd (adoptCards E who p cards key w))) = schedulingPart (w_db w)"
    "schedulingPart (w_db (snd (decideCards E who p ds key w))) = schedulingPart (w_db w)"
    "schedulingPart (w_db (snd (correct E who p cr w))) = schedulingPart (w_db w)"
  subgoal by (rule outcome_same [OF outcome_adoptCards [OF assms]]) (auto elim!: part_recorded part_changes)
  subgoal by (rule outcome_same [OF outcome_decideCards [OF assms]]) (auto elim!: part_recorded part_changes)
  subgoal by (rule outcome_same [OF outcome_correct [OF assms]]) (rule part_all)
  done

lemma perform_part:
  assumes "wellFormed E (w_db w)"
  shows "schedulingPart (w_db (perform E who c w)) = schedulingPart (w_db w)"
  using wellFormed_cards [OF assms] by (cases c) (simp_all add: perform_def snd_attempt payroll_part card_part)

text \<open>A scheduling command writes its own tables and appends to the audit log.\<close>

lemma changeApplied_outside:
  assumes "changeApplied E t p ops base key hash response d d'"
  shows "outside d d'"
proof -
  obtain sched :: schedule and d1 rows' sets' log where f: "framed t (sd_id sched) d d1"
    and d': "d' = d1 \<lparr> schedules := rows', scheduleChangeSets := sets', auditLogs := auditLogs d @ [log] \<rparr>"
    using assms unfolding changeApplied_def by blast
  obtain s b where "d1 = d \<lparr> shifts := s, shiftBreaks := b \<rparr>" using framedD(1) [OF f] by blast
  then show ?thesis by (simp add: d' outside_def)
qed

lemma scheduleStep_outside:
  assumes "scheduleStep E d d'"
  shows "outside d d'"
  using assms unfolding scheduleStep_def reopenedSchedule_def createdSchedule_def replacedWindows_def
  by (elim disjE exE conjE) (simp add: outside_def, erule changeApplied_outside, simp_all add: outside_def)

text \<open>Change sets are only added, so what is stored under a key stays.\<close>

lemma scheduleStep_sets:
  assumes "scheduleStep E d d'"
  shows "prefix (scheduleChangeSets d) (scheduleChangeSets d')"
  using assms unfolding scheduleStep_def changeApplied_def reopenedSchedule_def createdSchedule_def replacedWindows_def recorded_def
  by (elim disjE exE conjE) simp_all

section \<open>Histories of a workspace\<close>

inductive workspaceHistory :: "env \<Rightarrow> world \<Rightarrow> world \<Rightarrow> bool" for E w where
  start: "workspaceHistory E w w"
| payroll: "workspaceHistory E w v \<Longrightarrow> workspaceHistory E w (perform E who c v)"
| scheduling: "workspaceHistory E w v \<Longrightarrow> workspaceHistory E w (snd (runSchedule E c v))"
| elsewhere: "workspaceHistory E w v \<Longrightarrow> outside (w_db v) (w_db u) \<Longrightarrow> schedulingPart (w_db u) = schedulingPart (w_db v) \<Longrightarrow> workspaceHistory E w u"

definition soundFrom :: "env \<Rightarrow> world \<Rightarrow> world \<Rightarrow> bool" where
  "soundFrom E w v \<longleftrightarrow> history E w v \<and> wellFormed E (w_db v) \<and> schedulingOk (w_db v) \<and> users (w_db v) = users (w_db w)
     \<and> prefix (scheduleChangeSets (w_db w)) (scheduleChangeSets (w_db v))"

lemma workspace_sound:
  assumes "workspaceHistory E w v" and "wellFormed E (w_db w)" and "schedulingOk (w_db w)" and "sortable E (w_db w)"
  shows "soundFrom E w v"
  using assms(1)
proof induction
  case start
  show ?case using assms by (simp add: soundFrom_def history.start)
next
  case (payroll v who c)
  then have p: "schedulingPart (w_db (perform E who c v)) = schedulingPart (w_db v)" by (intro perform_part) (simp add: soundFrom_def)
  have "wellFormed E (w_db (perform E who c v))"
    using perform_lawful [of E v who c] payroll.IH by (simp add: soundFrom_def lawfulStep_def)
  then show ?case using payroll.IH schedulingPart_ok(1) [OF p] schedulingPartD(1,6) [OF p]
    by (simp add: soundFrom_def history.command)
next
  case (scheduling v c)
  have st: "scheduleStep E (w_db v) (w_db (snd (runSchedule E c v)))"
    by (rule runSchedule_step) (use scheduling.IH in \<open>simp add: soundFrom_def schedulingOk_def\<close>)
  have "sortable E (w_db v)" using assms(4) scheduling.IH by (simp add: sortable_def soundFrom_def)
  then have k: "schedulingOk (w_db (snd (runSchedule E c v)))" by (intro scheduleStep_keeps [OF _ _ st]) (use scheduling.IH in \<open>simp_all add: soundFrom_def\<close>)
  have o: "outside (w_db v) (w_db (snd (runSchedule E c v)))" by (rule scheduleStep_outside [OF st])
  then have "wellFormed E (w_db (snd (runSchedule E c v)))"
    using outside_lawful [OF o, of E] scheduling.IH by (simp add: soundFrom_def lawfulStep_def)
  then show ?case
    using scheduling.IH k o scheduleStep_users [OF st] scheduleStep_sets [OF st] unfolding soundFrom_def
    by (auto intro: history.elsewhere prefix_order.trans)
next
  case (elsewhere v u)
  then have "wellFormed E (w_db u)" using outside_lawful [of "w_db v" "w_db u" E] by (simp add: soundFrom_def lawfulStep_def)
  then show ?case
    using elsewhere schedulingPart_ok(1) [OF elsewhere.hyps(3)] schedulingPartD(1,6) [OF elsewhere.hyps(3)]
    unfolding soundFrom_def by (auto intro: history.elsewhere)
qed

end
