(* ===== verification/ScheduleScenario.thy ===== *)
theory ScheduleScenario
  imports ScheduleInvariants Scenario
begin

text \<open>
  A small workspace with a draft schedule: one location, a planner who may write shifts, an employee with one shift and its
  break.  A change set that moves the shift by an hour runs to its end.
\<close>

definition sampleLocation :: location where
  "sampleLocation = \<lparr> lo_id = ''l1'', lo_publicId = storedUuid 21, lo_tenantId = ''t1'', lo_name = ''Main'', lo_timezone = ''UTC'', lo_deletedAt = None \<rparr>"

definition sampleSchedule :: schedule where
  "sampleSchedule = \<lparr> sd_id = ''sd1'', sd_publicId = storedUuid 22, sd_tenantId = ''t1'', sd_locationId = ''l1'', sd_startDate = 1767571200000,
     sd_endDate = 1768176000000, sd_status = SCHEDULE_DRAFT, sd_publishedAt = None, sd_revision = 3, sd_deletedAt = None \<rparr>"

definition draftShift :: shift where
  "draftShift = \<lparr> sh_id = ''sh1'', sh_publicId = storedUuid 23, sh_tenantId = ''t1'', sh_locationId = ''l1'', sh_scheduleId = Some ''sd1'',
     sh_userId = Some ''u2'', sh_startTime = 1767600000000, sh_endTime = 1767628800000, sh_role = None, sh_updatedAt = 0, sh_deletedAt = None \<rparr>"

definition draftShiftBreak :: shiftBreak where
  "draftShiftBreak = \<lparr> br_id = ''b1'', br_shiftId = ''sh1'', br_type = None, br_startTime = 1767614400000, br_endTime = 1767616200000, br_paid = False \<rparr>"

definition scheduleDb :: database where
  "scheduleDb = sampleDb \<lparr> locations := [sampleLocation], schedules := [sampleSchedule], shifts := [draftShift], shiftBreaks := [draftShiftBreak] \<rparr>"

definition scheduleWorld :: world where
  "scheduleWorld = sampleWorld \<lparr> w_db := scheduleDb \<rparr>"

definition moveShift :: "shiftOperation list" where
  "moveShift = [ShiftUpdate \<lparr> uo_shiftId = storedUuid 23, uo_userId = None, uo_startTime = Some ''2026-01-05T09:00:00.000Z'',
     uo_endTime = Some ''2026-01-05T17:00:00.000Z'', uo_role = None \<rparr>]"

definition draftTag :: string where "draftTag = scheduleEtag (storedUuid 22) 3"

definition moveCommand :: scheduleCommand where
  "moveCommand = ApplyChangeSet sampleWho (storedUuid 22) moveShift (Some draftTag) (Some ''key-0001'')"

definition samplePlanner :: sessionIdentity where
  "samplePlanner = currentIdentity sampleWho sampleAuthority"

section \<open>The scope\<close>

lemma returns_wait: "returns d m Q \<Longrightarrow> returns d (operationsWait sampleCur m) Q"
  unfolding operationsWait_def
  by (rule returns_then, rule returns_passes [OF passes_current], rule returns_bind, erule returns_mono, rule returns_then,
      rule returns_passes [OF passes_current], erule returns_return)

lemma returns_authorizeOperations:
  assumes "sampleAccess d" and "permission \<in> set adminPermissions"
  shows "returns d (authorizeOperations scenarioEnv sampleWho [permission]) (\<lambda>ca d'. d' = d \<and> ca = sampleAuthority)"
  unfolding authorizeOperations_def list.sel eachT.simps
  by (rule returns_bind, rule returns_mono [OF returns_authority [OF assms]], rule returns_then, rule returns_return, erule returns_return)

lemma returns_prepareOperations:
  assumes "sampleAccess d" and "permission \<in> set adminPermissions"
  shows "returns d (prepareOperationsAuthority scenarioEnv sampleWho [permission]) (\<lambda>scope d'. d' = d \<and> scope = sampleScope)"
  unfolding prepareOperationsAuthority_def
  apply (rule returns_bind, rule returns_retry, rule returns_withTenant)
    apply (simp add: who_facts)
   apply (simp add: env_facts)
  apply (rule returns_mono [OF returns_authorizeOperations [OF assms]], elim conjE)
  apply (rule returnsI)
  apply (simp add: Let_def runs_simps sampleAuthority_def env_facts)
  apply (rule runs_catch)
  apply (simp add: Let_def runs_simps observeMfaVerification_def isCurrentMfaObservation_def assertCurrentMutation_def env_facts scenarioNow_def
      isSafeInteger_def MAX_SAFE_INTEGER_def sampleScope_def sampleObservation_def MAX_MFA_MARKER_TTL_MS_def Let_def)
  done

lemma returns_runOperations:
  assumes "sampleAccess d" and "permission \<in> set adminPermissions" and "returns d (operation samplePlanner sampleCur) Q"
  shows "returns d (runOperations scenarioEnv sampleWho [permission] sampleScope operation) Q"
  unfolding runOperations_def
  apply (intro returns_retry returns_withTenant)
    apply (simp_all add: who_facts env_facts)
  unfolding operationsBody_def sampleCur_def [symmetric]
  apply (rule returns_bind, rule returns_mono [OF returns_authorizeOperations [OF assms(1,2)]], elim conjE, hypsubst)
  apply (fold sampleCur_def samplePlanner_def)
  apply (rule returns_then, rule returns_passes [OF passes_current])
  apply (rule returns_bind, rule returns_mono [OF assms(3)])
  apply (rule returns_then, rule returns_passes [OF passes_current], erule returns_return)
  done

section \<open>The run\<close>

lemma schedule_access: "sampleAccess scheduleDb"
  using access_sampleDb by (simp add: sampleAccess_def scheduleDb_def)

lemma schedule_facts: "scheduleChangeSets scheduleDb = []" "schedules scheduleDb = [sampleSchedule]" "shifts scheduleDb = [draftShift]"
  "shiftBreaks scheduleDb = [draftShiftBreak]" "locations scheduleDb = [sampleLocation]" "auditLogs scheduleDb = []"
  "tenants scheduleDb = [sampleTenant]" "tenantSettings scheduleDb = []" "planDefinitions scheduleDb = []"
  "users scheduleDb = [sampleUser ''u1'' 11, sampleUser ''u2'' 12]"
  by (simp_all add: scheduleDb_def sampleDb_def emptyDatabase_def)

lemma planner_facts: "id_tenantId samplePlanner = ''t1''" "id_sub samplePlanner = ''u1''"
  by code_simp+

lemma returns_entitled: "returns scheduleDb (assertSchedulingEntitled scenarioEnv ''t1'') (\<lambda>_ d'. d' = scheduleDb)"
  unfolding assertSchedulingEntitled_def
  by (rule returnsI) (simp add: runs_simps Let_def schedule_facts sampleTenant_def settingOf_def schedulingOverride_def
      schedulingIncluded_def DEFAULT_SCHEDULING_PLANS_def toUpperUnit_def env_facts scenarioNow_def trim_def isJsSpace_def codeUnit_def)

definition movedInput :: planInput where
  "movedInput = \<lparr> in_scheduleStart = 1767571200000, in_scheduleEnd = 1768176000000,
     in_currentShifts = [\<lparr> ps_internalId = Some ''sh1'', ps_publicId = storedUuid 23, ps_userInternalId = Some ''u2'',
        ps_userPublicId = Some (storedUuid 12), ps_startTime = 1767600000000, ps_endTime = 1767628800000, ps_role = None,
        ps_breaks = [\<lparr> pk_internalId = ''b1'', pk_startTime = 1767614400000, pk_endTime = 1767616200000 \<rparr>] \<rparr>],
     in_externalShifts = [], in_users = Map.empty, in_operations = moveShift \<rparr>"

lemma returns_lockedDraft:
  "returns scheduleDb (lockedDraft samplePlanner (storedUuid 22) 3 sampleCur) (\<lambda>x d'. d' = scheduleDb \<and> x = (sampleSchedule, sampleLocation))"
  unfolding lockedDraft_def
  apply (rule returns_bind, rule returns_wait, rule returns_get)
  apply (rule returnsI)
  apply (simp add: runs_simps Let_def lockedSchedules_def planner_facts schedule_facts sampleSchedule_def sampleLocation_def)
  done

lemma moved_rows: "scheduleRows ''t1'' ''sd1'' scheduleDb = [shiftRowOf scheduleDb draftShift]"
  by (simp add: scheduleRows_def findMany_def schedule_facts scheduleShift_def draftShift_def)

lemma moved_row: "plannedShiftOf (shiftRowOf scheduleDb draftShift) = hd (in_currentShifts movedInput)"
  unfolding shiftRowOf_def Let_def plannedShiftOf_def
  by (simp add: schedule_facts movedInput_def breaksOf_def findMany_def plannedBreakOf_def shiftUser_def draftShift_def draftShiftBreak_def user_facts)

lemma sched_facts: "sd_id sampleSchedule = ''sd1''" "sd_startDate sampleSchedule = 1767571200000" "sd_endDate sampleSchedule = 1768176000000"
  by code_simp+

lemma moved_users: "jsSet (concat (map requestedUser moveShift)) = []"
  "involvedUsers [shiftRowOf scheduleDb draftShift] [] = [''u2'']"
proof -
  show "jsSet (concat (map requestedUser moveShift)) = []" by code_simp
  have "sh_userId (sr_shift (shiftRowOf scheduleDb draftShift)) = Some ''u2''" by (simp add: shiftRowOf_def Let_def draftShift_def)
  then show "involvedUsers [shiftRowOf scheduleDb draftShift] [] = [''u2'']" by (simp add: involvedUsers_def jsSet_def)
qed

lemma no_external: "externalRows ''t1'' sampleSchedule ids scheduleDb = []"
  by (simp add: externalRows_def findMany_def schedule_facts draftShift_def sched_facts)

lemma returns_planInput:
  "returns scheduleDb (planInputOf samplePlanner sampleSchedule moveShift sampleCur) (\<lambda>x d'. d' = scheduleDb \<and> x = movedInput)"
  unfolding planInputOf_def planner_facts sched_facts
  apply (rule returns_bind, rule returns_wait, rule returns_get)
  apply (rule returns_then, rule returns_check, simp add: moved_rows MAX_SCHEDULE_SHIFTS_def)
  apply (simp add: moved_rows moved_users MAX_SCHEDULE_SHIFTS_def)
  apply (rule returns_bind, rule returns_return)
  apply (simp add: moved_users)
  apply (rule returns_bind, rule returns_wait, rule returns_get)
  apply (rule returns_then, rule returns_check, simp add: no_external)
  apply (rule returns_return)
  apply (simp add: no_external externalShiftsOf_def moved_row)
  apply (simp add: movedInput_def jsMap_def)
  done

section \<open>The plan and its rows\<close>

definition movedBreak :: plannedBreak where
  "movedBreak = \<lparr> pk_internalId = ''b1'', pk_startTime = 1767618000000, pk_endTime = 1767619800000 \<rparr>"

definition movedPlanShift :: plannedShift where
  "movedPlanShift = (hd (in_currentShifts movedInput)) \<lparr> ps_startTime := 1767603600000, ps_endTime := 1767632400000, ps_breaks := [movedBreak] \<rparr>"

definition movedPlan :: changeSetPlan where
  "movedPlan = \<lparr> cp_finalShifts = [movedPlanShift], cp_mutations = [UpdateShift (hd (in_currentShifts movedInput)) movedPlanShift], cp_created = [] \<rparr>"

lemma moved_plan: "planScheduleChangeSet (e_collate scenarioEnv) ids movedInput = ok movedPlan"
  unfolding scenarioEnv_def sampleEnv_def by code_simp

definition savedRow :: plannedShift where "savedRow = hd (in_currentShifts movedInput)"

lemma moved_mutations:
  "filter isDelete (cp_mutations movedPlan) = []" "filter isUpdate (cp_mutations movedPlan) = [UpdateShift savedRow movedPlanShift]"
  "filter isCreate (cp_mutations movedPlan) = []"
  by (simp_all add: movedPlan_def savedRow_def)

lemma saved_facts: "ps_internalId savedRow = Some ''sh1''" "ps_userInternalId movedPlanShift = Some ''u2''" "ps_startTime movedPlanShift = 1767603600000"
  "ps_endTime movedPlanShift = 1767632400000" "ps_role movedPlanShift = None" "ps_breaks movedPlanShift = [movedBreak]"
  by (simp_all add: savedRow_def movedPlanShift_def movedInput_def)

definition movedShift :: shift where
  "movedShift = draftShift \<lparr> sh_startTime := 1767603600000, sh_endTime := 1767632400000, sh_updatedAt := scenarioNow \<rparr>"

definition movedShiftBreak :: shiftBreak where
  "movedShiftBreak = draftShiftBreak \<lparr> br_startTime := 1767618000000, br_endTime := 1767619800000 \<rparr>"

definition movedDb :: database where
  "movedDb = scheduleDb \<lparr> shifts := [movedShift], shiftBreaks := [movedShiftBreak] \<rparr>"

lemma saved_match: "savedShift samplePlanner sampleSchedule savedRow draftShift"
  by (simp add: savedShift_def saved_facts planner_facts sched_facts) (simp add: draftShift_def)

lemma one_update: "schedules_update h d = d \<lparr> schedules := h (schedules d) \<rparr>"
  by (cases d) simp

lemma both_updates: "shiftBreaks_update f (shifts_update g d) = d \<lparr> shifts := g (shifts d), shiftBreaks := f (shiftBreaks d) \<rparr>"
  by (cases d) simp

lemma returns_mutation:
  "returns scheduleDb (applyMutations scenarioEnv samplePlanner sampleSchedule deletedAt sampleCur (cp_mutations movedPlan)) (\<lambda>_ d'. d' = movedDb)"
  unfolding applyMutations_def moved_mutations eachT.simps
  apply (rule returns_then, rule returns_return, rule returns_then, rule returns_then, rule returns_wait)
  unfolding applyMutation_def shiftMutation.case updateMutation_def
  apply (rule returns_bind, rule returns_now, rule returns_bind, rule returns_wait, rule returns_updateMany)
  apply (rule returns_then, rule returns_check, simp add: shiftTable_def schedule_facts saved_match)
  unfolding saved_facts eachT.simps translateBreak_def
  apply (rule returns_then, rule returns_bind, rule returns_wait, rule returns_updateMany)
  apply (rule returns_check, simp add: shiftTable_def shiftBreakTable_def schedule_facts saved_facts movedBreak_def draftShiftBreak_def)
  apply (rule returns_return)
  apply (rule returns_return)
  apply (rule returns_return)
  apply (simp only: shiftTable_def shiftBreakTable_def fst_conv snd_conv)
  apply (subst both_updates)
  apply (simp add: movedDb_def schedule_facts updateWhere_def saved_match saved_facts)
  apply (simp add: movedShift_def movedShiftBreak_def movedBreak_def draftShiftBreak_def draftShift_def env_facts)
  done

section \<open>The whole command\<close>

lemma returns_revised:
  "returns movedDb (reviseDraft samplePlanner sampleSchedule 3 sampleCur) (\<lambda>_ d'. d' = movedDb \<lparr> schedules := [bump sampleSchedule] \<rparr>)"
  unfolding reviseDraft_def
  apply (rule returns_bind, rule returns_wait, rule returns_updateMany)
  apply (rule returns_check)
   apply (simp add: scheduleTable_def movedDb_def schedule_facts planner_facts, simp add: sampleSchedule_def)
  apply (simp only: scheduleTable_def snd_conv planner_facts sched_facts)
  apply (subst one_update)
  apply (simp add: movedDb_def schedule_facts updateWhere_def bump_def)
  apply (simp add: sampleSchedule_def)
  done

lemma moved_view: "\<exists>v. mapR (\<lambda>r. serializeShift r (lo_publicId loc) (sd_publicId sched)) (scheduleRows ''t1'' ''sd1'' (movedDb \<lparr> schedules := ss \<rparr>)) = ok v"
  by (simp add: scheduleRows_def findMany_def movedDb_def scheduleShift_def movedShift_def draftShift_def shiftRowOf_def Let_def serializeShift_def)

lemma returns_storePlan:
  "returns scheduleDb (storePlan scenarioEnv samplePlanner sampleSchedule sampleLocation 3 key hash moveShift movedPlan sampleCur)
     (\<lambda>_ d'. shifts d' = [movedShift] \<and> shiftBreaks d' = [movedShiftBreak] \<and> schedules d' = [bump sampleSchedule])"
proof -
  obtain v where v: "mapR (\<lambda>r. serializeShift r (lo_publicId sampleLocation) (sd_publicId sampleSchedule))
      (scheduleRows ''t1'' ''sd1'' (movedDb \<lparr> schedules := [bump sampleSchedule] \<rparr>)) = ok v" using moved_view by blast
  show ?thesis
    unfolding storePlan_def
    apply (rule returns_then, rule returns_wait, rule returns_return, rule returns_bind, rule returns_now)
    apply (rule returns_then, rule returns_mono [OF returns_mutation], hypsubst)
    apply (rule returns_then, rule returns_mono [OF returns_revised], hypsubst)
    apply (rule returns_bind, rule returns_wait, rule returns_get, rule returns_bind, rule returns_uuid)
    apply (rule returns_bind, rule returns_lift)
     apply (unfold planner_facts sched_facts, rule v)
    apply (rule returns_let, rule returns_then, rule returns_wait, rule returns_create)
     apply (simp add: changeSetTable_def movedDb_def schedule_facts)
    apply (rule returns_then, rule returns_wait)
     apply (unfold writeScheduleAudit_def)
     apply (rule returns_bind, rule returns_uuid, rule returns_create)
      apply (simp add: auditTable_def changeSetTable_def movedDb_def schedule_facts)
     apply (rule returns_return)
     apply (simp add: auditTable_def changeSetTable_def movedDb_def)
    done
qed

lemma returns_applyBody:
  "returns scheduleDb (applyBody scenarioEnv (storedUuid 22) moveShift 3 key hash samplePlanner sampleCur)
     (\<lambda>_ d'. shifts d' = [movedShift] \<and> shiftBreaks d' = [movedShiftBreak] \<and> schedules d' = [bump sampleSchedule])"
proof -
  have replay: "returns scheduleDb (replayStored scenarioEnv schema sampleCur ''t1'' key hash) (\<lambda>r d'. r = None \<and> d' = scheduleDb)" for schema
    unfolding replayStored_def
    by (rule returns_bind, rule returns_wait, rule returns_get) (simp add: schedule_facts returns_return)
  have plan: "returns scheduleDb (planT scenarioEnv movedInput) (\<lambda>x d'. x = movedPlan \<and> d' = scheduleDb)"
    by (simp add: returns_def planT_def moved_plan)
  show ?thesis
    unfolding applyBody_def answerOnce_def planner_facts
    apply (rule returns_bind, rule returns_wait, rule returns_mono [OF replay], elim conjE, hypsubst, simp only: option.case)
    apply (rule returns_then, rule returns_wait, rule returns_mono [OF returns_entitled], hypsubst)
    apply (rule returns_then, rule returns_wait, rule returns_return)
    apply (rule returns_bind, rule returns_wait, rule returns_mono [OF replay], elim conjE, hypsubst, simp only: option.case)
    apply (rule returns_bind, rule returns_mono [OF returns_lockedDraft], elim conjE, hypsubst, simp only: prod.case)
    apply (rule returns_bind, rule returns_mono [OF returns_planInput], elim conjE, hypsubst)
    apply (rule returns_bind, rule returns_mono [OF plan], elim conjE, hypsubst)
    apply (rule returns_storePlan)
    done
qed

lemma move_header: "authorizeScheduleChangeSet sampleWho moveShift = ok ()" "changeSetPermissions moveShift = [''shifts:write'']"
  "requireIdempotencyKey (Some ''key-0001'') = ok ''key-0001''" "operationsIdentity sampleWho = sampleWho"
  by code_simp+

lemma move_revision: "requireScheduleRevision (Some draftTag) (storedUuid 22) = ok 3"
  by code_simp

lemma run_move:
  "returns scheduleDb (applyChangeSet scenarioEnv sampleWho (storedUuid 22) moveShift (Some draftTag) (Some ''key-0001''))
     (\<lambda>_ d'. shifts d' = [movedShift] \<and> shiftBreaks d' = [movedShiftBreak] \<and> schedules d' = [bump sampleSchedule])"
  unfolding applyChangeSet_def move_header Let_def
  apply (rule returns_then, rule returns_lift, rule refl, rule returns_bind, rule returns_lift, rule move_revision)
  apply (rule returns_bind, rule returns_lift, rule refl)
  apply (rule returns_bind, rule returns_mono [OF returns_prepareOperations [OF schedule_access permitted(7)]], elim conjE, hypsubst)
  apply (rule returns_runOperations [OF schedule_access permitted(7)], rule returns_applyBody)
  done

text \<open>The workspace is in order, and \<open>localeCompare\<close> tells its employees apart.\<close>

lemma schedule_ok: "schedulingOk scheduleDb"
proof -
  have "demandWindows scheduleDb = []" "sh_id draftShift = ''sh1''" "br_shiftId draftShiftBreak = ''sh1''"
    by (simp_all add: scheduleDb_def sampleDb_def emptyDatabase_def draftShift_def draftShiftBreak_def)
  then show ?thesis
    unfolding schedulingOk_def keysOk_def bookingsOk_def windowsOk_def breaksOk_def employeesOk_def schedulesOk_def demandOk_def revisionsOk_def
      schedule_facts
    by (simp add: user_facts shiftFits_def) (simp add: draftShift_def draftShiftBreak_def sampleSchedule_def)
qed

lemma schedule_sortable: "sortable scenarioEnv scheduleDb"
  using tellsApart_sample by (simp add: sortable_def scenarioEnv_def sampleEnv_def)

end
