(* ===== verification/WorkspaceProperties.thy ===== *)
theory WorkspaceProperties
  imports WorkspaceHistory ScheduleScenario SampleStates
begin

text \<open>What the change sets of a schedule do, once and on a retry, and what every history of a workspace keeps.\<close>

section \<open>The outcome of a change set\<close>

definition changeSetHash :: "env \<Rightarrow> string \<Rightarrow> shiftOperation list \<Rightarrow> string" where
  "changeSetHash E publicId operations = requestHash E (JObj [(''schedulePublicId'', JStr publicId), (''body'', changeSetBody operations)])"

definition appliedOnce :: "env \<Rightarrow> sessionIdentity \<Rightarrow> string \<Rightarrow> shiftOperation list \<Rightarrow> string option \<Rightarrow> string option \<Rightarrow> database \<Rightarrow> json \<Rightarrow> database \<Rightarrow> bool" where
  "appliedOnce E who publicId operations ifMatch key d response d' \<longleftrightarrow>
     (\<exists>base k. requireScheduleRevision ifMatch publicId = ok base \<and> requireIdempotencyKey key = ok k
        \<and> liveFor d (operationsIdentity who) (changeSetPermissions operations)
        \<and> (replayedSet E ''ScheduleChangeSetResponse'' (id_tenantId (operationsIdentity who)) (e_sha E k) (changeSetHash E publicId operations) response d d'
           \<or> changeApplied E (id_tenantId (operationsIdentity who)) publicId operations base (e_sha E k) (changeSetHash E publicId operations) response d d'))"

lemma outcome_appliedOnce:
  assumes "keysOk d"
  shows "outcome d (applyChangeSet E who publicId operations ifMatch key) (\<lambda>response d'. appliedOnce E who publicId operations ifMatch key d response d')"
proof -
  have run: "outcome d (runOperations E i ps scope (applyBody E publicId operations base k hash)) (\<lambda>response d'.
      (replayedSet E ''ScheduleChangeSetResponse'' (id_tenantId i) k hash response d d'
        \<or> changeApplied E (id_tenantId i) publicId operations base k hash response d d') \<and> liveFor d i ps)" for i ps scope base k hash
    by (rule outcome_runOperations_live, rule post_weaken [OF sat_applyBody]) (use assms in auto)
  show ?thesis
    unfolding applyChangeSet_def Let_def
    apply (rule outcome_then, simp)
    apply (rule outcome_liftT, rule outcome_liftT, rule outcome_bind, simp)
    apply (rule outcome_mono [OF run])
    apply (auto simp: appliedOnce_def changeSetHash_def)
    done
qed

lemma storedSet_recorded:
  assumes "recorded t i key hash base response (scheduleChangeSets d) (scheduleChangeSets d')"
  shows "\<exists>c. storedSet t key d' = Some c \<and> cs_response c = response \<and> cs_requestHash c = hash"
proof -
  obtain row where r: "scheduleChangeSets d' = scheduleChangeSets d @ [row]" "cs_tenantId row = t" "cs_idempotencyKeyHash row = key"
    "cs_response row = response" "cs_requestHash row = hash" "\<forall>c \<in> set (scheduleChangeSets d). \<not> changeSetClash row c" using assms unfolding recorded_def by blast
  then have "find (\<lambda>c. cs_tenantId c = t \<and> cs_idempotencyKeyHash c = key) (scheduleChangeSets d @ [row]) = Some row"
    by (subst find_append_unique) (auto simp: changeSetClash_def)
  then show ?thesis using r by (simp add: storedSet_def)
qed

lemma appliedOnce_stored:
  assumes "appliedOnce E who publicId operations ifMatch key d response d'"
  shows "\<exists>k c. requireIdempotencyKey key = ok k \<and> storedSet (id_tenantId (operationsIdentity who)) (e_sha E k) d' = Some c \<and> cs_response c = response"
proof -
  obtain base k where k: "requireIdempotencyKey key = ok k"
    and o: "replayedSet E ''ScheduleChangeSetResponse'' (id_tenantId (operationsIdentity who)) (e_sha E k) (changeSetHash E publicId operations) response d d'
        \<or> changeApplied E (id_tenantId (operationsIdentity who)) publicId operations base (e_sha E k) (changeSetHash E publicId operations) response d d'"
    using assms unfolding appliedOnce_def by blast
  from o have "\<exists>c. storedSet (id_tenantId (operationsIdentity who)) (e_sha E k) d' = Some c \<and> cs_response c = response"
  proof
    assume "changeApplied E (id_tenantId (operationsIdentity who)) publicId operations base (e_sha E k) (changeSetHash E publicId operations) response d d'"
    then obtain i d1 rows' sets' log where r: "recorded (id_tenantId (operationsIdentity who)) i (e_sha E k) (changeSetHash E publicId operations) base response (scheduleChangeSets d) sets'"
      and d': "d' = d1 \<lparr> schedules := rows', scheduleChangeSets := sets', auditLogs := auditLogs d @ [log] \<rparr>"
      unfolding changeApplied_def by blast
    have "recorded (id_tenantId (operationsIdentity who)) i (e_sha E k) (changeSetHash E publicId operations) base response (scheduleChangeSets d) (scheduleChangeSets d')"
      using r d' by simp
    from storedSet_recorded [OF this] show ?thesis by blast
  qed (auto simp: replayedSet_def)
  then show ?thesis using k by blast
qed

text \<open>With the key stored, the command can only answer what is stored.\<close>

lemma outcome_retry:
  assumes "requireIdempotencyKey key = ok k" and "storedSet (id_tenantId (operationsIdentity who)) (e_sha E k) d = Some c"
  shows "outcome d (applyChangeSet E who publicId operations ifMatch key) (\<lambda>r d'. d' = d \<and> r = cs_response c)"
  unfolding applyChangeSet_def Let_def
  apply (rule outcome_then, simp)
  apply (rule outcome_liftT, rule outcome_liftT, rule outcome_bind, simp)
  apply (rule outcome_runOperations)
  apply (unfold applyBody_def, rule sat_replayed, assumption)
  using assms by auto

section \<open>Properties\<close>

text \<open>
  Property C2.  Payroll, time cards and schedules keep each other's invariants: from a workspace in order, every sequence of
  payroll, time-card and scheduling commands, whatever other services do in between, ends in one where nobody is booked twice,
  every shift lies in its schedule and every break in its shift, schedules of a location do not overlap, change sets number
  the revisions of their schedule, and the periods, cards, locked evidence and exports are sound; to payroll the
  scheduling commands are changes from outside.
\<close>

theorem workspace_histories_sound:
  assumes "workspaceHistory E w v" and "wellFormed E (w_db w)" and "schedulingOk (w_db w)" and "sortable E (w_db w)"
  shows "wellFormed E (w_db v) \<and> schedulingOk (w_db v) \<and> history E w v"
  using workspace_sound [OF assms] by (simp add: soundFrom_def)

lemma schedule_wellFormed: "wellFormed scenarioEnv scheduleDb"
proof -
  have "outside sampleDb scheduleDb" by (simp add: outside_def scheduleDb_def)
  from outside_lawful [OF this wellFormed_sampleDb] show ?thesis by (simp add: lawfulStep_def)
qed

lemma move_runs:
  obtains response w' where "applyChangeSet scenarioEnv sampleWho (storedUuid 22) moveShift (Some draftTag) (Some ''key-0001'') scheduleWorld = (ok response, w')"
    "shifts (w_db w') = [movedShift]" "shiftBreaks (w_db w') = [movedShiftBreak]" "schedules (w_db w') = [bump sampleSchedule]"
proof -
  have "w_db scheduleWorld = scheduleDb" by (simp add: scheduleWorld_def)
  from run_move [unfolded this [symmetric]] show thesis using that returnsD by blast
qed

theorem workspace_histories_sound_witness:
  "\<exists>v :: world. shifts (w_db v) = [movedShift] \<and> schedules (w_db v) = [bump sampleSchedule] \<and> wellFormed scenarioEnv (w_db v) \<and> schedulingOk (w_db v)"
proof -
  obtain response w' where run: "applyChangeSet scenarioEnv sampleWho (storedUuid 22) moveShift (Some draftTag) (Some ''key-0001'') scheduleWorld = (ok response, w')"
    and rows: "shifts (w_db w') = [movedShift]" "schedules (w_db w') = [bump sampleSchedule]" by (rule move_runs)
  have "workspaceHistory scenarioEnv scheduleWorld w'"
    using workspaceHistory.scheduling [OF workspaceHistory.start, of scenarioEnv scheduleWorld moveCommand] run by (simp add: moveCommand_def)
  from workspace_histories_sound [OF this] show ?thesis
    using schedule_wellFormed schedule_ok schedule_sortable rows by (intro exI [of _ w']) (simp add: scheduleWorld_def)
qed

text \<open>The shifts of a workspace outside one schedule, with their breaks.\<close>

definition otherShifts :: "string \<Rightarrow> string \<Rightarrow> database \<Rightarrow> (shift \<times> plannedBreak set) list" where
  "otherShifts t i d = map (\<lambda>s. (s, breakSet d (sh_id s))) (filter (\<lambda>s. \<not> belongs t i s) (shifts d))"

lemma framed_others:
  assumes "keysOk d1" and "framed t i d d1"
  shows "otherShifts t i d1 = otherShifts t i d"
proof -
  have "breakSet d1 (sh_id s) = breakSet d (sh_id s)" if s: "s \<in> set (filter (\<lambda>s. \<not> belongs t i s) (shifts d))" for s
  proof -
    have "s \<in> set (filter (\<lambda>s. \<not> belongs t i s) (shifts d1))" using s by (simp only: framedD(2) [OF assms(2)])
    then show ?thesis by (intro shift_outside(2) [OF assms(2,1)]) simp_all
  qed
  then show ?thesis unfolding otherShifts_def framedD(2) [OF assms(2)] by simp
qed

lemma same_shifts:
  assumes "shifts d' = shifts d" and "shiftBreaks d' = shiftBreaks d"
  shows "view t i d' = view t i d" "otherShifts t i d' = otherShifts t i d"
proof -
  have "breakSet d' = breakSet d" using assms by (simp add: breakSet_def fun_eq_iff)
  moreover from this have "factsOf d' = factsOf d" by (simp add: factsOf_def fun_eq_iff)
  ultimately show "view t i d' = view t i d" "otherShifts t i d' = otherShifts t i d"
    using assms(1) unfolding otherShifts_def view_def [abs_def] by simp_all
qed

text \<open>A change set that was carried out, in one line per table.\<close>

definition carriedOut :: "env \<Rightarrow> string \<Rightarrow> string \<Rightarrow> shiftOperation list \<Rightarrow> int \<Rightarrow> database \<Rightarrow> database \<Rightarrow> bool" where
  "carriedOut E t publicId operations base d d' \<longleftrightarrow> (\<exists>sched input ids plan row. sched \<in> set (schedules d) \<and> sd_tenantId sched = t
     \<and> sameUuid (sd_publicId sched) publicId \<and> sd_status sched = SCHEDULE_DRAFT \<and> sd_revision sched = base \<and> bump sched \<in> set (schedules d')
     \<and> inputFor t sched d input \<and> in_operations input = operations \<and> planScheduleChangeSet (e_collate E) ids input = ok plan
     \<and> view t (sd_id sched) d' = finalView plan \<and> otherShifts t (sd_id sched) d' = otherShifts t (sd_id sched) d
     \<and> scheduleChangeSets d' = scheduleChangeSets d @ [row] \<and> cs_scheduleId row = sd_id sched \<and> cs_baseRevision row = base
     \<and> cs_resultRevision row = base + 1)"

lemma changeApplied_carriedOut:
  assumes "changeApplied E t publicId operations base key hash response d d'"
  shows "carriedOut E t publicId operations base d d'"
    and "\<exists>c. storedSet t key d' = Some c \<and> cs_response c = response \<and> cs_requestHash c = hash"
proof -
  obtain sched loc input ids plan d1 rows' sets' log where l: "(sched, loc) \<in> set (lockedSchedules t publicId d)" "sd_status sched = SCHEDULE_DRAFT" "sd_revision sched = base"
    and inp: "inputFor t sched d input" "in_operations input = operations" and plan: "planScheduleChangeSet (e_collate E) ids input = ok plan"
    and d1: "keysOk d1" "framed t (sd_id sched) d d1" "view t (sd_id sched) d1 = finalView plan"
    and b: "bumped t (sd_id sched) base (schedules d) rows'" and r: "recorded t (sd_id sched) key hash base response (scheduleChangeSets d) sets'"
    and d': "d' = d1 \<lparr> schedules := rows', scheduleChangeSets := sets', auditLogs := auditLogs d @ [log] \<rparr>"
    using assms unfolding changeApplied_def by blast
  note f = lockedSchedules_facts [OF l(1)]
  have same: "view t (sd_id sched) d' = view t (sd_id sched) d1" "otherShifts t (sd_id sched) d' = otherShifts t (sd_id sched) d1"
    by (rule same_shifts; simp add: d')+
  obtain row where row: "sets' = scheduleChangeSets d @ [row]" "cs_scheduleId row = sd_id sched" "cs_baseRevision row = base" "cs_resultRevision row = base + 1"
    using r unfolding recorded_def by blast
  show "carriedOut E t publicId operations base d d'"
    unfolding carriedOut_def
    by (intro exI [of _ sched] exI [of _ input] exI [of _ ids] exI [of _ plan] exI [of _ row])
      (use l inp plan d1 f same row framed_others [OF d1(1,2)] bumped_row [OF b, of sched] in \<open>simp add: d' draftAt_def\<close>)
  show "\<exists>c. storedSet t key d' = Some c \<and> cs_response c = response \<and> cs_requestHash c = hash"
    by (rule storedSet_recorded) (use r in \<open>simp add: d'\<close>)
qed

text \<open>
  Property C5.  A change set that succeeds either answers what was stored under its key and changes nothing, or has found the schedule a draft at
  the revision of its \<open>If-Match\<close> header and carried out an accepted plan of the requested operations: the live shifts of the schedule
  are exactly the final shifts of the plan, with employee, times, role and breaks, every other shift and its
  breaks are as before, the schedule is at the next revision, and the answer is stored under the key.  The caller
  holds the permissions for what the operations do, in the database, at that time.
\<close>

theorem applyChangeSet_effect:
  assumes "keysOk (w_db w)" and "applyChangeSet E who publicId operations ifMatch key w = (ok response, w')"
  shows "\<exists>base k t c. requireScheduleRevision ifMatch publicId = ok base \<and> requireIdempotencyKey key = ok k \<and> t = id_tenantId (operationsIdentity who)
    \<and> liveFor (w_db w) (operationsIdentity who) (changeSetPermissions operations)
    \<and> storedSet t (e_sha E k) (w_db w') = Some c \<and> cs_response c = response \<and> cs_requestHash c = changeSetHash E publicId operations
    \<and> (w_db w' = w_db w \<or> carriedOut E t publicId operations base (w_db w) (w_db w'))"
proof -
  let ?t = "id_tenantId (operationsIdentity who)" and ?h = "changeSetHash E publicId operations"
  obtain base k where k: "requireScheduleRevision ifMatch publicId = ok base" "requireIdempotencyKey key = ok k"
      "liveFor (w_db w) (operationsIdentity who) (changeSetPermissions operations)"
    and o: "replayedSet E ''ScheduleChangeSetResponse'' ?t (e_sha E k) ?h response (w_db w) (w_db w')
        \<or> changeApplied E ?t publicId operations base (e_sha E k) ?h response (w_db w) (w_db w')"
    using outcome_ok [OF outcome_appliedOnce [OF assms(1)] assms(2)] unfolding appliedOnce_def by blast
  have "\<exists>c. storedSet ?t (e_sha E k) (w_db w') = Some c \<and> cs_response c = response \<and> cs_requestHash c = ?h
      \<and> (w_db w' = w_db w \<or> carriedOut E ?t publicId operations base (w_db w) (w_db w'))"
    using o
  proof
    assume "replayedSet E ''ScheduleChangeSetResponse'' ?t (e_sha E k) ?h response (w_db w) (w_db w')"
    then show ?thesis unfolding replayedSet_def by auto
  next
    assume "changeApplied E ?t publicId operations base (e_sha E k) ?h response (w_db w) (w_db w')"
    from changeApplied_carriedOut [OF this] show ?thesis by blast
  qed
  then show ?thesis using k by blast
qed

theorem applyChangeSet_effect_witness:
  "\<exists>w' :: world. shifts (w_db w') = [movedShift] \<and> liveFor scheduleDb sampleWho [''shifts:write''] \<and> carriedOut scenarioEnv ''t1'' (storedUuid 22) moveShift 3 scheduleDb (w_db w')"
proof -
  obtain response w' where run: "applyChangeSet scenarioEnv sampleWho (storedUuid 22) moveShift (Some draftTag) (Some ''key-0001'') scheduleWorld = (ok response, w')"
    and rows: "shifts (w_db w') = [movedShift]" "schedules (w_db w') = [bump sampleSchedule]" by (rule move_runs)
  have k: "keysOk scheduleDb" using schedule_ok by (simp add: schedulingOk_def)
  have "bump sampleSchedule \<noteq> sampleSchedule" by (simp add: bump_def sampleSchedule_def)
  then have "w_db w' \<noteq> scheduleDb" using rows(2) schedule_facts(2) by auto
  then show ?thesis
    using applyChangeSet_effect [OF _ run] k rows by (auto simp: scheduleWorld_def move_header move_revision who_facts)
qed



end
