(* ===== verification/Spec2Isabelle.thy ===== *)
theory Spec2Isabelle
  imports CommandEffects PeriodMachine Atomicity Idempotence PolicySearch Pagination AccessScenario SchedulePlan BreakPlacement WorkspaceProperties
begin

text \<open>
  Verification of payroll, time cards and scheduling in LunchLineup's second API (\<open>src/apps/api-v2\<close>), with the parts of the repository it
  rests on: \<open>src/packages/rbac\<close> (permissions and MFA sessions) and the tables of \<open>src/packages/db/prisma/schema.prisma\<close>.

  \<^bold>\<open>The program.\<close>  Employees clock in and out; each clock-in costs the workspace a credit and assigns the card to the open payroll
  period that contains it.  When a period has ended it is put into review, its cards are approved by somebody else, and it is
  locked: the approved cards and amendments are frozen as entries, bound by digests.  A locked period is exported
  once, as CSV, for credits; the payroll provider's receipts reconcile the export line by line.  Later corrections of a locked
  period are amendments, decided by a third person and paid in a later period.

  The shifts of a location are planned in schedules.  A draft is edited by change sets: operations on its shifts, planned as a whole against
  the revision the editor saw, refused if they would book anybody twice, and stored under the idempotency key of the request.
  A published schedule is locked until it is reopened.  Breaks are placed in a shift by a search over the subsets of the
  lunch and the breaks.

  \<^bold>\<open>How it is modelled.\<close>  A handler is a function of type \<open>'a tx\<close>: from a world (the database, positions in the streams of clock readings,
  identifiers and transactions) to a result or a thrown failure, and a world.  The database is a record of the tables as lists of
  rows in insertion order; a row is a record with the columns of the schema the code uses.  What is not code of the repository is a
  parameter, collected in the record \<open>env\<close>: SHA-256, the locale comparison, the time-zone database, the clocks, \<open>randomUUID\<close>,
  Redis, and the faults of transactions (rolled back, or committed without acknowledgement).  Nothing is assumed
  of them except where a theorem says so.  Handlers are written in the order of the source, every check, early return
  and \<open>assertCurrent\<close> call included.

  \<^bold>\<open>Theories.\<close>
  \<^item> \<open>Prelude\<close>: results, sorting with comparators (locale \<open>comparator\<close>), JavaScript's \<open>Set\<close> and \<open>Map\<close>.
  \<^item> \<open>JsText\<close>, \<open>JsDate\<close>, \<open>Json\<close>: trimming, digits, the proleptic Gregorian calendar of \<open>Date\<close>, ISO texts, canonical JSON.
  \<^item> \<open>Problem\<close>, \<open>Schema\<close>, \<open>Transaction\<close>: problems (\<open>platform/problem.ts\<close>), the tables, transactions and \<open>withTenant\<close>
    (\<open>platform/database.ts\<close>) with rollback and lost acknowledgements, the retry of serialization conflicts, and the calculus of
    \<open>post\<close>/\<open>sat\<close> (what holds if a handler returns) and \<open>readsOnly\<close>.
  \<^item> \<open>Authority\<close>: \<open>people/access.ts\<close>, \<open>people/mutation-authority.ts\<close>, \<open>packages/rbac\<close>; nothing commits without live authority.
  \<^item> \<open>Entitlement\<close>: \<open>platform/feature-entitlement.ts\<close>; credits are charged exactly and once (locale \<open>credit_wallet\<close>).
  \<^item> \<open>PayrollDomain\<close>, \<open>PayrollEvidence\<close>: \<open>payroll/domain.ts\<close>; dates, zones, period boundaries, worked minutes, request identities; locked
    snapshots, CSV and reconciliation payloads.
  \<^item> \<open>PayrollQueries\<close>, \<open>PayrollPeriods\<close>, \<open>PayrollAmendments\<close>, \<open>PayrollExports\<close>: \<open>payroll/payroll.service.ts\<close>, handler by handler.
  \<^item> \<open>TimeCardRules\<close>, \<open>TimeCards\<close>: \<open>time/validation.ts\<close>, \<open>time/pagination.ts\<close>, \<open>time/serialization.ts\<close>, \<open>time/payroll.ts\<close>,
    \<open>time/time-cards.service.ts\<close>.
  \<^item> \<open>PayrollLifecycle\<close>, \<open>AmendmentLifecycle\<close>, \<open>ExportLifecycle\<close>, \<open>TimeCardLifecycle\<close>: what each handler can have done to the database, as a relation
    between the states before and after (\<open>outcome\<close>): on success that relation; after a failure the old state, or the relation if a
    commit was not acknowledged.
  \<^item> \<open>PayrollInvariants\<close>, \<open>ExportInvariants\<close>, \<open>TimeCardInvariants\<close>: the invariants and the relation \<open>advance\<close> (rows only move forward, evidence is
    only added), kept by every handler.
  \<^item> \<open>PayrollSystem\<close>: the contract of a command (locale \<open>lawful\<close>), discharged for all fourteen commands.
  \<^item> \<open>PayrollHistory\<close>: histories of commands and outside changes, by rule induction; \<open>PeriodMachine\<close>: the abstract machine of a period
    and the simulation (locale \<open>simulates\<close>, discharged for every command); \<open>Atomicity\<close>: a command that throws changed nothing;
    \<open>Idempotence\<close>: retries (locale \<open>recorded\<close>, which extends \<open>lawful\<close>).
  \<^item> \<open>CommandEffects\<close>: what single commands do.  \<open>PolicySearch\<close>, \<open>Pagination\<close>: the paged search ends and equals a single pass; the cursors cover the list.
  \<^item> \<open>ScheduleContract\<close>, \<open>SchedulePlan\<close>: \<open>scheduling/contract-helpers.ts\<close> and \<open>scheduling/change-set-plan.ts\<close>; the planner accepts exactly the sound
    results, and its mutations give them.  \<open>BreakPlacement\<close>: the placement of breaks in \<open>operations/lunch-breaks.service.ts\<close>, which is optimal.
  \<^item> \<open>ScheduleAccess\<close>, \<open>ScheduleCommands\<close>: the scope of an operation (\<open>operations/operations.service.ts\<close>), entitlement, rows, answers and the commands
    of \<open>scheduling/change-set.service.ts\<close>, \<open>lifecycle.service.ts\<close>, \<open>schedule-create.service.ts\<close> and \<open>demand-window.service.ts\<close>.
  \<^item> \<open>ScheduleEffects\<close>: a plan that is carried out turns the saved shifts into its final ones (\<open>view\<close>, an abstraction of the tables);
    \<open>ScheduleOutcome\<close>: what each scheduling command can have done; \<open>ScheduleInvariants\<close>: nobody is booked twice, shifts lie in their schedule, breaks in
    their shift, schedules of a location are disjoint, change sets number the revisions, and every command keeps this.
  \<^item> \<open>WorkspaceHistory\<close>, \<open>WorkspaceProperties\<close>: payroll, time-card and scheduling commands mixed; each group keeps the invariant of the other.
    \<open>ScheduleScenario\<close>: a change set that runs to its end.
  \<^item> \<open>Progress\<close>, \<open>Scenario\<close>, \<open>ScenarioRuns\<close>, \<open>SampleStates\<close>, \<open>AccessScenario\<close>: total correctness (\<open>returns\<close>), and a sample workspace in which commands run to
    their end; the hypotheses of the theorems hold there.

  \<^bold>\<open>Fuel.\<close>  The only loops that are not structural are \<open>boundaryGuess\<close>, bounded to four rounds in the source, and \<open>policySearch\<close>, which
  gets one round more than there are policy versions; \<open>policySearch_finds\<close> shows that this is enough.

  \<^bold>\<open>Isolation.\<close>  A transaction is one step of the world: the source runs its mutations serializably or under row locks, and a conflict is a
  fault of the environment.  A command of several transactions (resolving identifiers first) runs without other commands in between; what it
  read before is checked again inside the last transaction, as in the source.  The scheduling commands run at \<open>ReadCommitted\<close>; they take the
  advisory lock of the tenant before the reads their changes rest on, so the commands of a tenant follow one another.
  The stored answer of a change set is checked against a schema by the parameter \<open>e_contract\<close>.  That \<open>localeCompare\<close> tells the
  identifiers of two employees apart (\<open>sortable\<close>) is a hypothesis of the theorems on schedules.

  \<^bold>\<open>Not modelled.\<close>  Triggers, check and exclusion constraints of the SQL migrations (a refusal by one of them is a fault of the environment; for
  the tables of scheduling the invariant shows that they are not needed); row locks and time-outs; the list and read endpoints of payroll
  (\<open>listPolicies\<close>, \<open>listPeriods\<close>, \<open>getPeriod\<close>, \<open>getExport\<close>) and the base64 texts of cursors; the board of a schedule, publishing (which goes
  through the first API), the storing of generated breaks and the set-up of a day, which also write shifts; routes, HTTP and OpenAPI
  contracts; people directory, locations, notifications and settings; the first API, the web application,
  the engine, the worker and the control plane.
\<close>

section \<open>What holds in every history\<close>

text \<open>
  Property C1.  From a workspace that has not used payroll, every history of commands and outside changes leaves a well-formed
  database: keys are keys, the periods of a tenant are disjoint, a period has evidence exactly when it is locked and
  then its count, total and digest are those of the evidence; an employee has at most one open card.
\<close>

theorem histories_well_formed:
  assumes "history E w v" and "unused (w_db w)"
  shows "distinct (map pp_id (payrollPeriods (w_db v))) \<and> periodsDisjoint (payrollPeriods (w_db v))
    \<and> (\<forall>p \<in> set (payrollPeriods (w_db v)). if pp_status p = PERIOD_LOCKED then totalsMatch E p (entriesOf (w_db v) (pp_id p))
         else entriesOf (w_db v) (pp_id p) = [])
    \<and> (\<forall>a \<in> set (timeCards (w_db v)). \<forall>b \<in> set (timeCards (w_db v)).
         \<forall>tenantId userId. openFor tenantId userId a \<and> openFor tenantId userId b \<longrightarrow> a = b)"
  using history_lawful [OF assms(1) unused_wellFormed [OF assms(2)]] one_open_card
  by (auto simp: lawfulStep_def wellFormed_def payrollInv_def list_all_iff sealed_def)

lemma unused_empty: "unused emptyDatabase"
  by (simp add: unused_def emptyDatabase_def)

theorem histories_well_formed_witness:
  "let v = perform scenarioEnv sampleWho (CreatePeriod ''2024-06-03'' (Some ''k1'')) (worldOf emptyDatabase) in
     history scenarioEnv (worldOf emptyDatabase) v \<and> unused emptyDatabase \<and> distinct (map pp_id (payrollPeriods (w_db v)))"
  using histories_well_formed [OF history.command [OF history.start], of "worldOf emptyDatabase" scenarioEnv sampleWho
      "CreatePeriod ''2024-06-03'' (Some ''k1'')"] unused_empty history.command [OF history.start]
  by (simp add: Let_def)

text \<open>
  Property C6.  A locked period never changes again, and neither does its evidence, in any history.
\<close>

theorem locked_periods_stay:
  assumes "wellFormed E (w_db w)" and "history E w v" and "p \<in> set (payrollPeriods (w_db w))" and "pp_status p = PERIOD_LOCKED"
  shows "p \<in> set (payrollPeriods (w_db v)) \<and> entriesOf (w_db v) (pp_id p) = entriesOf (w_db w) (pp_id p)"
  using locked_entries_same [OF assms(1) _ _ assms(3,4)] history_lawful [OF assms(2,1)] by (simp add: lawfulStep_def records_def)

theorem locked_periods_stay_witness:
  "let v = perform scenarioEnv sampleWho (StartReview (storedUuid 902) 2 (Some ''k1'')) (worldOf lockedDb) in
     lockedPeriod \<in> set (payrollPeriods (w_db v)) \<and> entriesOf (w_db v) ''p1'' = entriesOf lockedDb ''p1''"
  using locked_periods_stay [of scenarioEnv "worldOf lockedDb", OF _ history.command [OF history.start], of lockedPeriod sampleWho
      "StartReview (storedUuid 902) 2 (Some ''k1'')"] wellFormed_lockedDb
  by (simp add: Let_def locked_tables locked_facts)





text \<open>
  Property C8.  In every history an export belongs to a locked period, one export to a period; its lines are as many as the locked
  entries of the period and add up to the same minutes, and the ledger has the row that paid for it.
\<close>

theorem exports_agree:
  assumes "wellFormed E (w_db w)" and "history E w v" and "b \<in> set (exportBatches (w_db v))"
  shows "exportedFrom E (w_db v) b \<and> (\<forall>b' \<in> set (exportBatches (w_db v)). eb_periodId b' = eb_periodId b \<longrightarrow> b' = b)
    \<and> creditProven b (find (\<lambda>c. ct_id c = eb_creditTransactionId b) (creditTransactions (w_db v)))"
proof -
  have v: "wellFormed E (w_db v)" using history_lawful [OF assms(2,1)] by (simp add: lawfulStep_def)
  then have "b' = b" if "b' \<in> set (exportBatches (w_db v))" "eb_periodId b' = eb_periodId b" for b'
    using that assms(3) by (auto simp: wellFormed_def exportInv_def distinct_map dest: inj_onD)
  then show ?thesis using wellFormed_exported [OF v assms(3)] v assms(3) by (auto simp: wellFormed_def exportInv_def exportSound_def list_all_iff)
qed

theorem exports_agree_witness: "sampleBatch \<in> set (exportBatches exportedDb) \<and> exportedFrom scenarioEnv exportedDb sampleBatch"
  using exports_agree [of scenarioEnv "worldOf exportedDb", OF _ history.start, of sampleBatch] wellFormed_exportedDb by (simp add: exported_tables)





section \<open>The life of a period\<close>

text \<open>
  Property C3.  Refinement: what the tables say about a period is a stage of the period machine, and every command, by whomever and
  whether it succeeds or not, moves every period by a step of the machine labelled with that command: only opening, review, lock,
  export, download and reconciliation move a period, each from the stage before, and the evidence sealed by the lock is carried along.
\<close>

theorem commands_follow_machine:
  assumes "wellFormed E (w_db w)"
  shows "stageStep c (stageOf (w_db w) i) (stageOf (w_db (perform E who c w)) i)"
  using assms by (rule perform_stage)

theorem commands_follow_machine_witness:
  "stageOf sampleDb ''p1'' = Collecting \<and> stageStep (StartReview (storedUuid 902) 0 (Some ''k1'')) Collecting
     (stageOf (w_db (perform scenarioEnv sampleWho (StartReview (storedUuid 902) 0 (Some ''k1'')) (worldOf sampleDb))) ''p1'')"
proof -
  have s: "stageOf sampleDb ''p1'' = Collecting" by (simp add: stageOf_def db_facts period_facts)
  show ?thesis
    using commands_follow_machine [of scenarioEnv "worldOf sampleDb" "StartReview (storedUuid 902) 0 (Some ''k1'')" "''p1''" sampleWho] wellFormed_sampleDb
    by (simp add: s)
qed

text \<open>
  Along every history a period runs through the machine, starting where it does not exist.
\<close>

lemma histories_follow_machine:
  assumes "history E w v" and "unused (w_db w)"
  shows "stageSteps Absent (stageOf (w_db v) i)"
  using history_stages [OF assms(1) unused_wellFormed [OF assms(2)], of i] assms(2) by (simp add: stageOf_def unused_def)

section \<open>Failures and retries\<close>

text \<open>
  Property C10.  A command that throws has changed nothing in the database, as long as no acknowledgement of a commit is lost; in
  particular not when the database rolls a transaction back or a serialization conflict is retried.
\<close>

theorem failed_commands_change_nothing:
  assumes "acknowledged E" and "dispatch E who c w = (Some e, w')"
  shows "w_db w' = w_db w"
  using assms by (rule dispatch_atomic)

theorem failed_commands_change_nothing_witness:
  "\<exists>e w'. dispatch scenarioEnv sampleWho (ClockIn \<lparr> ci_userId = None, ci_locationId = None, ci_shiftId = None, ci_clockInAt = None, ci_notes = None \<rparr>
       None) (worldOf sampleDb) = (Some e, w') \<and> w_db w' = sampleDb"
proof -
  let ?c = "ClockIn \<lparr> ci_userId = None, ci_locationId = None, ci_shiftId = None, ci_clockInAt = None, ci_notes = None \<rparr> None"
  obtain e w' where d: "dispatch scenarioEnv sampleWho ?c (worldOf sampleDb) = (Some e, w')"
    by (simp add: attempt_def clockIn_def Let_def bindT_def liftT_def normalizeClockInIdempotencyKey_def)
  have "acknowledged scenarioEnv" by (simp add: acknowledged_def env_facts)
  then show ?thesis using failed_commands_change_nothing [OF _ d] d by auto
qed



end
